(* ===== verification/Go_Prelude.thy ===== *)
theory Go_Prelude
  imports Main "HOL-Library.AList" "HOL-Library.Multiset"
begin

text \<open>
  The prelude of the development: the collections of simplification rules its theories
  share, the model of Go maps as association lists, the sum type used for Go's
  \<open>(value, error)\<close> results, and generic lemmas on lists, relations and finite sums.

  A Go map \<open>map[string]T\<close> that the code ranges over is an association list with distinct
  keys. The order of the list is the order in which one \<open>range\<close> loop visits the entries:
  Go leaves that order unspecified, and every theorem of the development quantifies over all
  association lists, so it covers every order.
\<close>

named_theorems gomap_simps \<open>equations of the Go map operations\<close>
named_theorems inv_intros \<open>preservation lemmas of the invariants of the components\<close>

section \<open>Go maps\<close>

type_synonym ('k, 'v) gomap = "('k \<times> 'v) list"

definition gomap_ok :: "('k, 'v) gomap \<Rightarrow> bool" where
  "gomap_ok m \<longleftrightarrow> distinct (map fst m)"

abbreviation gomap_keys :: "('k, 'v) gomap \<Rightarrow> 'k set" where
  "gomap_keys m \<equiv> fst ` set m"

text \<open>\<open>v, ok := m[k]\<close> is \<open>map_of m k\<close>; \<open>m[k]\<close> for a slice-valued map reads the nil slice
  where the key is absent.\<close>

definition gomap_slice :: "('k, 'v list) gomap \<Rightarrow> 'k \<Rightarrow> 'v list" where
  "gomap_slice m k = (case map_of m k of None \<Rightarrow> [] | Some v \<Rightarrow> v)"

lemma gomap_ok_Nil [simp]: "gomap_ok []"
  by (simp add: gomap_ok_def)

lemma gomap_ok_update [simp]: "gomap_ok m \<Longrightarrow> gomap_ok (AList.update k v m)"
  by (simp add: gomap_ok_def distinct_update)

lemma gomap_ok_delete [simp]: "gomap_ok m \<Longrightarrow> gomap_ok (AList.delete k m)"
  by (simp add: gomap_ok_def distinct_delete)

lemma gomap_keys_update [gomap_simps]:
  "gomap_keys (AList.update k v m) = insert k (gomap_keys m)"
  by (simp add: AList.dom_update)

lemma gomap_lookup_update [gomap_simps]:
  "map_of (AList.update k v m) x = (if x = k then Some v else map_of m x)"
  by (simp add: update_conv)

lemma gomap_keys_lookup: "k \<in> gomap_keys m \<longleftrightarrow> map_of m k \<noteq> None"
  by (metis map_of_eq_None_iff set_map)

lemma gomap_slice_mem:
  "gomap_ok m \<Longrightarrow> (k, vs) \<in> set m \<Longrightarrow> gomap_slice m k = vs"
  by (simp add: gomap_slice_def gomap_ok_def)

lemma gomap_slice_nonempty_key: "v \<in> set (gomap_slice m k) \<Longrightarrow> k \<in> gomap_keys m"
  by (cases "map_of m k") (simp_all add: gomap_slice_def gomap_keys_lookup)

lemma gomap_slice_update [gomap_simps]:
  "gomap_slice (AList.update k v m) x = (if x = k then v else gomap_slice m x)"
  by (simp add: gomap_slice_def gomap_lookup_update)

section \<open>Fallible results\<close>

text \<open>
  A Go function returning \<open>(T, error)\<close> is modelled by \<open>'e + 't\<close>: \<open>Inl\<close> carries the error of
  the first failing check, \<open>Inr\<close> the value. A function returning only an \<open>error\<close> returns
  \<open>'e option\<close>, with \<open>None\<close> for \<open>nil\<close>. \<open>first_err\<close> runs a list of such checks in order.
\<close>

fun first_err :: "'e option list \<Rightarrow> 'e option" where
  "first_err [] = None"
| "first_err (None # cs) = first_err cs"
| "first_err (Some e # cs) = Some e"

lemma first_err_None: "first_err cs = None \<longleftrightarrow> (\<forall>c \<in> set cs. c = None)"
  by (induction cs rule: first_err.induct) auto

lemma first_err_map_None [simp]:
  "first_err (map f xs) = None \<longleftrightarrow> (\<forall>x \<in> set xs. f x = None)"
  by (simp add: first_err_None)

lemma first_err_Some_mem: "first_err cs = Some e \<Longrightarrow> Some e \<in> set cs"
  by (induction cs rule: first_err.induct) auto

lemma first_err_map_Some: "first_err (map f xs) = Some e \<Longrightarrow> \<exists>x \<in> set xs. f x = Some e"
  by (auto dest!: first_err_Some_mem) (metis)

lemma first_err_append [simp]:
  "first_err (xs @ ys) = (case first_err xs of None \<Rightarrow> first_err ys | Some e \<Rightarrow> Some e)"
  by (induction xs rule: first_err.induct) auto

text \<open>\<open>if err := f(); err != nil { return err }\<close> followed by the rest of the function.\<close>

lemma err_seq_None [simp]:
  "(case a of None \<Rightarrow> b | Some e \<Rightarrow> Some e) = None \<longleftrightarrow> a = None \<and> b = None"
  "(if c then Some e else b) = None \<longleftrightarrow> \<not> c \<and> b = None"
  by (simp_all split: option.split)

text \<open>One check of a validation: \<open>if c { return e }\<close>.\<close>

definition fail_if :: "bool \<Rightarrow> 'e \<Rightarrow> 'e option" where
  "fail_if c e = (if c then Some e else None)"

lemma fail_if_None [simp]: "fail_if c e = None \<longleftrightarrow> \<not> c"
  by (simp add: fail_if_def)

lemma fail_if_True [simp]: "fail_if True e = Some e" and fail_if_False [simp]: "fail_if False e = None"
  by (simp_all add: fail_if_def)

text \<open>\<open>x, err := f(); if err != nil { return err }\<close> followed by the rest, and the same around a
  function that only returns an error.\<close>

fun ebind :: "'e + 'a \<Rightarrow> ('a \<Rightarrow> 'e + 'b) \<Rightarrow> 'e + 'b" where
  "ebind (Inl e) f = Inl e"
| "ebind (Inr x) f = f x"

fun echeck :: "'e option \<Rightarrow> 'e + 'a \<Rightarrow> 'e + 'a" where
  "echeck (Some e) r = Inl e"
| "echeck None r = r"

lemma ebind_Inr [simp]: "ebind r f = Inr y \<longleftrightarrow> (\<exists>x. r = Inr x \<and> f x = Inr y)"
  by (cases r) auto

lemma echeck_Inr [simp]: "echeck c r = Inr y \<longleftrightarrow> c = None \<and> r = Inr y"
  by (cases c) auto

lemma ebind_cong [fundef_cong]: "r = r' \<Longrightarrow> (\<And>x. r' = Inr x \<Longrightarrow> f x = g x) \<Longrightarrow> ebind r f = ebind r' g"
  by (cases r') auto

text \<open>A loop that appends the converted elements and stops at the first error.\<close>

fun map_err :: "('a \<Rightarrow> 'e + 'b) \<Rightarrow> 'a list \<Rightarrow> 'e + 'b list" where
  "map_err f [] = Inr []"
| "map_err f (x # xs) =
     (case f x of Inl e \<Rightarrow> Inl e
      | Inr y \<Rightarrow> (case map_err f xs of Inl e \<Rightarrow> Inl e | Inr ys \<Rightarrow> Inr (y # ys)))"

lemma map_err_Inr_iff:
  "map_err f xs = Inr ys \<longleftrightarrow> list_all2 (\<lambda>x y. f x = Inr y) xs ys"
proof (induction xs arbitrary: ys)
  case Nil
  then show ?case by (cases ys) auto
next
  case (Cons x xs)
  show ?case
  proof (cases "map_err f xs")
    case (Inl e)
    with Cons.IH show ?thesis by (cases ys) (auto split: sum.splits)
  next
    case (Inr zs)
    with Cons.IH have "list_all2 (\<lambda>x y. f x = Inr y) xs ws \<longleftrightarrow> ws = zs" for ws
      by (metis sum.inject(2))
    with Inr show ?thesis by (cases ys) (auto split: sum.splits)
  qed
qed

lemma map_err_Inr_length: "map_err f xs = Inr ys \<Longrightarrow> length ys = length xs"
  by (simp add: map_err_Inr_iff list_all2_lengthD)

lemma map_err_total: "(\<And>x. x \<in> set xs \<Longrightarrow> f x = Inr (g x)) \<Longrightarrow> map_err f xs = Inr (map g xs)"
  by (induction xs) auto

lemma map_err_Inl: "map_err f xs = Inl e \<Longrightarrow> \<exists>x \<in> set xs. f x = Inl e"
  by (induction xs) (auto split: sum.splits)

section \<open>Relations and finite sums\<close>

lemma closed_rtrancl:
  assumes "\<And>x y. x \<in> A \<Longrightarrow> (x, y) \<in> r \<Longrightarrow> y \<in> A"
    and "(a, b) \<in> r\<^sup>*" and "a \<in> A"
  shows "b \<in> A"
  using assms(2,3) by (induction rule: rtrancl_induct) (auto intro: assms(1))

lemma acyclic_no_pred_closed:
  assumes "acyclic r" and "finite r" and "U \<noteq> {}"
  shows "\<exists>n \<in> U. \<forall>m \<in> U. (m, n) \<notin> r"
proof -
  have "wf r" using assms(1,2) by (simp add: finite_acyclic_wf)
  then show ?thesis using assms(3) by (meson ex_in_conv wfE_min)
qed

lemma sum_list_filter_le: "sum_list (map f (filter P xs)) \<le> (sum_list (map f xs) :: nat)"
  by (induction xs) auto

section \<open>Transition systems\<close>

text \<open>The interface of a step relation and its reachable states. A component provides the rule
  induction of its own reachability predicate; invariants, invariants relative to others and
  the absence of infinite runs are proved once here.\<close>

locale transition_system =
  fixes reach :: "'s \<Rightarrow> bool" and init :: "'s \<Rightarrow> bool" and step :: "'s \<Rightarrow> 's \<Rightarrow> bool"
  assumes reach_induct:
      "\<And>P s. reach s \<Longrightarrow> (\<And>s. init s \<Longrightarrow> P s) \<Longrightarrow>
        (\<And>s s'. reach s \<Longrightarrow> P s \<Longrightarrow> step s s' \<Longrightarrow> P s') \<Longrightarrow> P s"
    and reach_closed: "\<And>s s'. reach s \<Longrightarrow> step s s' \<Longrightarrow> reach s'"
begin

lemma invariant_rule:
  assumes "\<And>s. init s \<Longrightarrow> I s" and "\<And>s s'. I s \<Longrightarrow> step s s' \<Longrightarrow> I s'" and "reach s"
  shows "I s"
  using assms(3) by (rule reach_induct) (auto intro: assms(1,2))

lemma relative_invariant_rule:
  assumes "\<And>s. reach s \<Longrightarrow> J s" and "\<And>s. init s \<Longrightarrow> I s"
    and "\<And>s s'. J s \<Longrightarrow> J s' \<Longrightarrow> I s \<Longrightarrow> step s s' \<Longrightarrow> I s'" and "reach s"
  shows "I s"
  using assms(4)
  by (rule reach_induct) (auto intro: assms(1,2,3) reach_closed)

lemma reach_along: "reach (f 0) \<Longrightarrow> (\<And>i. step (f i) (f (Suc i))) \<Longrightarrow> reach (f i)"
  by (induction i) (auto intro: reach_closed)

lemma no_infinite_run:
  assumes "wf r" and "\<And>s s'. reach s \<Longrightarrow> step s s' \<Longrightarrow> (m s', m s) \<in> r"
  shows "\<not> (\<exists>f :: nat \<Rightarrow> 's. reach (f 0) \<and> (\<forall>i. step (f i) (f (Suc i))))"
proof
  assume "\<exists>f :: nat \<Rightarrow> 's. reach (f 0) \<and> (\<forall>i. step (f i) (f (Suc i)))"
  then obtain f where f: "reach (f 0)" "\<And>i. step (f i) (f (Suc i))" by blast
  then have "(m (f (Suc i)), m (f i)) \<in> r" for i
    using reach_along [of f] assms(2) by blast
  then have "\<exists>h. \<forall>i. (h (Suc i), h i) \<in> r" by (intro exI [of _ "\<lambda>i. m (f i)"]) simp
  with assms(1) show False by (simp add: wf_iff_no_infinite_down_chain)
qed

end

end
