(* ===== verification/Messages.thy ===== *)
theory Messages
  imports Go_Strings
begin

text \<open>
  The message type of the root package (\<open>src/message.go\<close>, \<open>src/mime.go\<close>): parts, constructors,
  text extraction, merging and replacement by id. A \<open>*Message\<close> that may be nil is a
  \<open>message option\<close>; the random identifier of a constructor is an argument.
\<close>

section \<open>Data\<close>

datatype role = RoleUser | RoleSystem | RoleAssistant | RoleTool | RoleOther string

datatype status = StatusInProgress | StatusIncomplete | StatusCompleted | StatusOther string

text \<open>Values of type \<open>any\<close> in action, metadata and state maps. A float is the decimal text of its
  value; a value the code never looks into is a number standing for it.\<close>

datatype anyval = AnyString string | AnyBool bool | AnyInt int | AnyFloat string | AnyOther nat

record filePart =
  file_name :: string
  file_uri :: string
  file_mime :: string

record dataPart =
  data_name :: string
  data_bytes :: string
  data_mime :: string

record toolPart =
  tool_id :: string
  tool_name :: string
  tool_request :: string
  tool_response :: string
  tool_completed :: bool

datatype part = TextPart string | FilePart filePart | DataPart dataPart | ToolPart toolPart

definition NewToolPart :: "string \<Rightarrow> string \<Rightarrow> string \<Rightarrow> toolPart" where
  "NewToolPart i name request = \<lparr>tool_id = i, tool_name = name, tool_request = request,
     tool_response = [], tool_completed = False\<rparr>"

record tokenUsage =
  inputTokens :: int
  outputTokens :: int
  totalTokens :: int

text \<open>\<open>Message\<close>. A nil action or metadata map reads as an empty one.\<close>

record message =
  msg_id :: string
  role :: role
  parts :: "part list"
  author :: string
  invocationID :: string
  status :: status
  finishReason :: string
  usage :: tokenUsage
  actions :: "string \<rightharpoonup> anyval"
  metadata :: "string \<rightharpoonup> anyval"

section \<open>Reading a message\<close>

definition Text :: "message \<Rightarrow> string" where
  "Text m = TrimSuffix (concat (map (\<lambda>p. case p of TextPart t \<Rightarrow> t @ [newline] | _ \<Rightarrow> []) (parts m)))
     [newline]"

fun first_file :: "part list \<Rightarrow> filePart option" where
  "first_file [] = None"
| "first_file (FilePart f # ps) = Some f"
| "first_file (_ # ps) = first_file ps"

definition File :: "message \<Rightarrow> filePart option" where
  "File m = first_file (parts m)"

fun first_data :: "part list \<Rightarrow> dataPart option" where
  "first_data [] = None"
| "first_data (DataPart d # ps) = Some d"
| "first_data (_ # ps) = first_data ps"

definition Data :: "message \<Rightarrow> dataPart option" where
  "Data m = first_data (parts m)"

definition part_string :: "part \<Rightarrow> string" where
  "part_string p = (case p of
       TextPart t \<Rightarrow> ''[Text: '' @ t @ '']''
     | FilePart f \<Rightarrow> ''[File: '' @ file_name f @ '' ('' @ file_mime f @ '')]''
     | DataPart d \<Rightarrow> ''[Data: '' @ data_name d @ '' ('' @ data_mime d @ ''), '' @
         show_nat (length (data_bytes d)) @ '' bytes]''
     | ToolPart t \<Rightarrow> ''[Tool: '' @ tool_name t @ '' (Request: '' @ tool_request t @ '', Response: '' @
         tool_response t @ '')]'')"

definition String :: "message \<Rightarrow> string" where
  "String m = concat (map part_string (parts m))"

text \<open>\<open>Clone\<close> copies the part slice and the two maps; as values they are equal.\<close>

definition Clone :: "message option \<Rightarrow> message option" where
  "Clone m = (case m of None \<Rightarrow> None | Some c \<Rightarrow> Some (c\<lparr>parts := parts c, actions := actions c, metadata := metadata c\<rparr>))"

section \<open>Constructors\<close>

text \<open>The inputs \<open>NewMessageParts\<close> accepts; other dynamic types are dropped.\<close>

datatype part_input = InString string | InPart part | InOther

definition NewMessageParts :: "part_input list \<Rightarrow> part list" where
  "NewMessageParts inputs = concat (map (\<lambda>i. case i of
     InString s \<Rightarrow> [TextPart s] | InPart p \<Rightarrow> [p] | InOther \<Rightarrow> []) inputs)"

definition zero_message :: message where
  "zero_message = \<lparr>msg_id = [], role = RoleOther [], parts = [], author = [], invocationID = [],
     status = StatusOther [], finishReason = [],
     usage = \<lparr>inputTokens = 0, outputTokens = 0, totalTokens = 0\<rparr>,
     actions = Map.empty, metadata = Map.empty\<rparr>"

definition UserMessage :: "string \<Rightarrow> part_input list \<Rightarrow> message" where
  "UserMessage new_id ps = zero_message\<lparr>msg_id := new_id, role := RoleUser, author := ''user'',
     parts := NewMessageParts ps\<rparr>"

definition SystemMessage :: "string \<Rightarrow> part_input list \<Rightarrow> message" where
  "SystemMessage new_id ps = zero_message\<lparr>msg_id := new_id, role := RoleSystem, parts := NewMessageParts ps\<rparr>"

definition AssistantMessage :: "string \<Rightarrow> part_input list \<Rightarrow> message" where
  "AssistantMessage new_id ps =
     zero_message\<lparr>msg_id := new_id, role := RoleAssistant, parts := NewMessageParts ps\<rparr>"

definition NewAssistantMessage :: "string \<Rightarrow> status \<Rightarrow> message" where
  "NewAssistantMessage new_id st =
     zero_message\<lparr>msg_id := new_id, role := RoleAssistant, status := st\<rparr>"

section \<open>Combining messages\<close>

definition MergeParts :: "message option \<Rightarrow> message option \<Rightarrow> message option" where
  "MergeParts base extra = (case base of None \<Rightarrow> extra
     | Some b \<Rightarrow> (case extra of None \<Rightarrow> base | Some e \<Rightarrow> Some (b\<lparr>parts := parts b @ parts e\<rparr>)))"

definition MergeActions :: "(string \<rightharpoonup> anyval) \<Rightarrow> (string \<rightharpoonup> anyval) \<Rightarrow> string \<rightharpoonup> anyval" where
  "MergeActions base extra = base ++ extra"

definition AppendMessages :: "message list \<Rightarrow> message list \<Rightarrow> message list" where
  "AppendMessages base extra =
     (let sets = set (filter (\<lambda>i. i \<noteq> []) (map msg_id extra))
      in filter (\<lambda>m. msg_id m \<notin> sets) base @ extra)"

section \<open>Media types\<close>

definition mime_type :: "string \<Rightarrow> string" where
  "mime_type v = (if HasPrefix v ''image/'' then ''image''
     else if HasPrefix v ''audio/'' then ''audio''
     else if HasPrefix v ''video/'' then ''video'' else ''file'')"

text \<open>\<open>strings.SplitN(s, "/", 2)\<close> gives two parts exactly when there is a slash.\<close>

definition mime_format :: "string \<Rightarrow> string" where
  "mime_format v = (if CHR ''/'' \<in> set v then tl (dropWhile (\<lambda>c. c \<noteq> CHR ''/'') v) else ''octet-stream'')"

section \<open>Lemmas\<close>

fun text_parts :: "part list \<Rightarrow> string list" where
  "text_parts [] = []"
| "text_parts (TextPart t # ps) = t # text_parts ps"
| "text_parts (_ # ps) = text_parts ps"

lemma text_parts_concat:
  "concat (map (\<lambda>p. case p of TextPart t \<Rightarrow> t @ [newline] | _ \<Rightarrow> []) ps) =
   concat (map (\<lambda>t. t @ [newline]) (text_parts ps))"
  by (induction ps rule: text_parts.induct) auto

lemma Text_join: "Text m = Join (text_parts (parts m)) [newline]"
proof (cases "text_parts (parts m) = []")
  case True
  then show ?thesis by (simp add: Text_def text_parts_concat)
next
  case False
  then show ?thesis by (simp add: Text_def text_parts_concat Join_newline_concat)
qed

lemma MergeParts_assoc: "MergeParts (MergeParts a b) c = MergeParts a (MergeParts b c)"
  by (auto simp: MergeParts_def split: option.splits)

lemma MergeActions_lookup:
  "MergeActions base extra k = (case extra k of Some v \<Rightarrow> Some v | None \<Rightarrow> base k)"
  by (simp add: MergeActions_def map_add_def)

lemma AppendMessages_extra: "set extra \<subseteq> set (AppendMessages base extra)"
  by (auto simp: AppendMessages_def Let_def)

lemma AppendMessages_distinct_ids:
  assumes "distinct (map msg_id base)" and "distinct (map msg_id extra)" and "[] \<notin> msg_id ` set extra"
  shows "distinct (map msg_id (AppendMessages base extra))"
  using assms by (auto simp: AppendMessages_def Let_def distinct_map_filter image_iff)

end
