(* ===== verification/Generators.thy ===== *)
theory Generators
  imports Go_Prelude
begin

text \<open>
  Go iterators (\<open>iter.Seq2\<close>, \<open>blades.Generator\<close>). A generator acts on a shared world \<open>'w\<close>
  (sessions, flags, the outside): it either returns, or calls \<open>yield\<close> with an event and the
  world at that moment, and goes on from the world the consumer leaves. A consumer that stops
  makes \<open>yield\<close> return false; every generator of the sources then returns without touching the
  world again, so stopping is not resuming. Code with yields is written with the sequencing
  operators below: \<open>gthen\<close> for one statement after another and \<open>grange\<close> for a loop over another
  generator (\<open>for v, err := range g\<close>).
\<close>

section \<open>Generators and their sequencing\<close>

datatype ('x, 'w, 'r) gen = Ret 'r 'w | Yld 'x 'w "'w \<Rightarrow> ('x, 'w, 'r) gen"

type_synonym ('x, 'w, 'r) proc = "'w \<Rightarrow> ('x, 'w, 'r) gen"

definition greturn :: "'r \<Rightarrow> ('x, 'w, 'r) proc" where
  "greturn r w = Ret r w"

definition gyield :: "'x \<Rightarrow> ('x, 'w, unit) proc" where
  "gyield x w = Yld x w (Ret ())"

text \<open>An atomic action on the world.\<close>

definition gact :: "('w \<Rightarrow> 'r \<times> 'w) \<Rightarrow> ('x, 'w, 'r) proc" where
  "gact f w = (case f w of (r, w') \<Rightarrow> Ret r w')"

primrec gbind :: "('x, 'w, 'r) gen \<Rightarrow> ('r \<Rightarrow> ('x, 'w, 's) proc) \<Rightarrow> ('x, 'w, 's) gen" where
  "gbind (Ret r w) f = f r w"
| "gbind (Yld x w k) f = Yld x w (\<lambda>w'. gbind (k w') f)"

definition gthen :: "('x, 'w, 'r) proc \<Rightarrow> ('r \<Rightarrow> ('x, 'w, 's) proc) \<Rightarrow> ('x, 'w, 's) proc" where
  "gthen p f w = gbind (p w) f"

text \<open>The body of a range loop ends with \<open>Next\<close> (the local variables for the next round) or
  \<open>Leave\<close> (a \<open>break\<close> or a \<open>return\<close> of the enclosing function).\<close>

datatype ('l, 'r) ctl = Next 'l | Leave 'r

primrec grange :: "('x, 'w, 'i) gen \<Rightarrow> ('l \<Rightarrow> 'x \<Rightarrow> ('y, 'w, ('l, 'r) ctl) proc) \<Rightarrow> 'l \<Rightarrow>
    ('y, 'w, ('l, 'r) ctl) gen" where
  "grange (Ret i w) body l = Ret (Next l) w"
| "grange (Yld x w k) body l =
     gbind (body l x w) (\<lambda>c w'. case c of Next l' \<Rightarrow> grange (k w') body l' | Leave r \<Rightarrow> Ret (Leave r) w')"

text \<open>A loop over a slice whose body yields.\<close>

fun gforeach :: "'a list \<Rightarrow> ('l \<Rightarrow> 'a \<Rightarrow> ('y, 'w, ('l, 'r) ctl) proc) \<Rightarrow> 'l \<Rightarrow> ('y, 'w, ('l, 'r) ctl) proc" where
  "gforeach [] body l w = Ret (Next l) w"
| "gforeach (a # as) body l w =
     gbind (body l a w) (\<lambda>c w'. case c of Next l' \<Rightarrow> gforeach as body l' w' | Leave r \<Rightarrow> Ret (Leave r) w')"

section \<open>Consuming a generator\<close>

text \<open>A consumer that leaves the world alone sees the events, the world at each of them (which is
  the one it is left with if it stops there), and the final result and world.\<close>

primrec gtrace :: "('x, 'w, 'r) gen \<Rightarrow> ('x \<times> 'w) list" where
  "gtrace (Ret r w) = []"
| "gtrace (Yld x w k) = (x, w) # gtrace (k w)"

primrec gfinal :: "('x, 'w, 'r) gen \<Rightarrow> 'r \<times> 'w" where
  "gfinal (Ret r w) = (r, w)"
| "gfinal (Yld x w k) = gfinal (k w)"

abbreviation gevents :: "('x, 'w, 'r) gen \<Rightarrow> 'x list" where
  "gevents g \<equiv> map fst (gtrace g)"

lemma gbind_Ret [simp]: "gbind g Ret = g"
  by (induction g) auto

lemma gbind_assoc: "gbind (gbind g f) h = gbind g (\<lambda>r w. gbind (f r w) h)"
  by (induction g) auto

lemma gtrace_gbind [simp]:
  "gtrace (gbind g f) = gtrace g @ gtrace (f (fst (gfinal g)) (snd (gfinal g)))"
  by (induction g) auto

lemma gfinal_gbind [simp]: "gfinal (gbind g f) = gfinal (f (fst (gfinal g)) (snd (gfinal g)))"
  by (induction g) auto

lemma gtrace_basic [simp]:
  "gtrace (greturn r w) = []" "gfinal (greturn r w) = (r, w)"
  "gtrace (gyield x w) = [(x, w)]" "gfinal (gyield x w) = ((), w)"
  "gtrace (gact f w) = []" "gfinal (gact f w) = f w"
  by (simp_all add: greturn_def gyield_def gact_def split: prod.split)

lemma gtrace_gthen [simp]:
  "gtrace (gthen p f w) = gtrace (p w) @ gtrace (f (fst (gfinal (p w))) (snd (gfinal (p w))))"
  "gfinal (gthen p f w) = gfinal (f (fst (gfinal (p w))) (snd (gfinal (p w))))"
  by (simp_all add: gthen_def)

section \<open>Where a generator ends\<close>

text \<open>\<open>ends_at Q P g\<close>: whatever the consumer does to the world, after an event that satisfies \<open>Q\<close> the
  generator returns at once, with a result that satisfies \<open>P\<close>. \<open>gsteps R g w\<close>: started in world
  \<open>w\<close>, the generator changes the world only along \<open>R\<close> between two yields.\<close>

primrec ends_at :: "('x \<Rightarrow> bool) \<Rightarrow> ('r \<Rightarrow> bool) \<Rightarrow> ('x, 'w, 'r) gen \<Rightarrow> bool" where
  "ends_at Q P (Ret r w) = True"
| "ends_at Q P (Yld x w k) =
     (\<forall>w'. (Q x \<longrightarrow> (\<exists>r v. k w' = Ret r v \<and> P r)) \<and> ends_at Q P (k w'))"

abbreviation stops_at :: "('x \<Rightarrow> bool) \<Rightarrow> ('x, 'w, 'r) gen \<Rightarrow> bool" where
  "stops_at Q g \<equiv> ends_at Q (\<lambda>_. True) g"

primrec gsteps :: "('w \<Rightarrow> 'w \<Rightarrow> bool) \<Rightarrow> ('x, 'w, 'r) gen \<Rightarrow> 'w \<Rightarrow> bool" where
  "gsteps R (Ret r v) w = R w v"
| "gsteps R (Yld x v k) w = (R w v \<and> (\<forall>w'. gsteps R (k w') w'))"

definition leaves :: "('l, 'r) ctl \<Rightarrow> bool" where
  "leaves c \<longleftrightarrow> (\<exists>r. c = Leave r)"

lemma leaves_simps [simp]: "leaves (Leave r)" "\<not> leaves (Next l)"
  by (auto simp: leaves_def)

lemma ends_at_weaken: "ends_at Q P g \<Longrightarrow> (\<And>r. P r \<Longrightarrow> P' r) \<Longrightarrow> ends_at Q P' g"
  by (induction g) (auto, blast+)

lemma ends_at_gbind:
  assumes "ends_at Q P g" and "\<And>r w. P r \<Longrightarrow> \<exists>s v. f r w = Ret s v \<and> P' s"
    and "\<And>r w. ends_at Q P' (f r w)"
  shows "ends_at Q P' (gbind g f)"
  using assms(1)
proof (induction g)
  case (Yld x w k)
  have "\<exists>s v. gbind (k w') f = Ret s v \<and> P' s" if "Q x" for w'
  proof -
    from that Yld.prems have "\<exists>r v. k w' = Ret r v \<and> P r" by simp
    with assms(2) show ?thesis by auto
  qed
  with Yld show ?case by simp
qed (simp add: assms(3))

lemma ends_at_simple [simp]: "ends_at Q P (greturn r w)" "ends_at Q P (gact f w)"
  by (auto simp: greturn_def gact_def split: prod.split)

lemma ends_at_yield [simp]: "ends_at Q P (gyield x w) \<longleftrightarrow> (Q x \<longrightarrow> P ())"
  by (auto simp: gyield_def)

lemma ends_at_ctl:
  assumes "ends_at Q leaves g" and "\<And>l w. ends_at Q leaves (F l w)"
  shows "ends_at Q leaves (gbind g (\<lambda>c w'. case c of Next l' \<Rightarrow> F l' w' | Leave r \<Rightarrow> Ret (Leave r) w'))"
  by (rule ends_at_gbind [OF assms(1)]) (auto simp: assms(2) leaves_def split: ctl.split)

lemma ends_at_grange:
  assumes "\<And>l x w. ends_at Q leaves (body l x w)"
  shows "ends_at Q leaves (grange g body l)"
  by (induction g arbitrary: l) (auto intro!: ends_at_ctl assms)

lemma ends_at_gforeach:
  assumes "\<And>l a w. a \<in> set as \<Longrightarrow> ends_at Q leaves (body l a w)"
  shows "ends_at Q leaves (gforeach as body l w)"
  using assms by (induction as arbitrary: l w) (auto intro!: ends_at_ctl)

lemma ends_at_gthen:
  assumes "ends_at Q P (p w)" and "\<And>r v. P r \<Longrightarrow> \<exists>s u. f r v = Ret s u \<and> P' s"
    and "\<And>r v. ends_at Q P' (f r v)"
  shows "ends_at Q P' (gthen p f w)"
  unfolding gthen_def by (rule ends_at_gbind [OF assms])

text \<open>After an action, or a yield of an event that is not \<open>Q\<close>, anything may follow.\<close>

lemma ends_at_gact: "(\<And>r v. ends_at Q P (f r v)) \<Longrightarrow> ends_at Q P (gthen (gact h) f w)"
  by (rule ends_at_gthen [where P = "\<lambda>_. False"]) simp_all

lemma ends_at_gyield: "\<not> Q x \<Longrightarrow> (\<And>v. ends_at Q P (f () v)) \<Longrightarrow> ends_at Q P (gthen (gyield x) f w)"
  by (rule ends_at_gthen [where P = "\<lambda>_. False"]) auto

lemma stops_at_events:
  assumes "stops_at Q g" and "gevents g = xs @ x # ys" and "Q x"
  shows "ys = []"
  using assms
proof (induction g arbitrary: xs)
  case (Yld y w k)
  show ?case
  proof (cases xs)
    case Nil
    with Yld.prems have "\<exists>r v. k w = Ret r v" "gevents (k w) = ys" by simp_all
    then show ?thesis by auto
  next
    case (Cons z zs)
    with Yld.prems have "stops_at Q (k w)" "gevents (k w) = zs @ x # ys" by auto
    with Yld.IH Yld.prems(3) show ?thesis by blast
  qed
qed simp

section \<open>How a generator changes the world\<close>

lemma gsteps_gbind:
  assumes "reflp R" and "transp R" and "gsteps R g w" and "\<And>r v. gsteps R (f r v) v"
  shows "gsteps R (gbind g f) w"
  using assms(3)
proof (induction g arbitrary: w)
  case (Ret r v)
  then have "R w v" by simp
  moreover have "gsteps R (f r v) v" by (rule assms(4))
  ultimately show ?case using assms(2) by (cases "f r v") (auto dest: transpD)
qed auto

lemma gsteps_trans: "transp R \<Longrightarrow> R u w \<Longrightarrow> gsteps R g w \<Longrightarrow> gsteps R g u"
  by (cases g) (auto dest: transpD)

lemma gsteps_simple [simp]:
  "reflp R \<Longrightarrow> gsteps R (greturn r w) w" "reflp R \<Longrightarrow> gsteps R (gyield x w) w"
  "gsteps R (gact f w) w \<longleftrightarrow> R w (snd (f w))"
  by (auto simp: greturn_def gyield_def gact_def reflp_def split: prod.split)

lemma gsteps_gthen:
  assumes "reflp R" and "transp R" and "gsteps R (p w) w" and "\<And>r v. gsteps R (f r v) v"
  shows "gsteps R (gthen p f w) w"
  unfolding gthen_def by (rule gsteps_gbind [OF assms])

lemma gsteps_grange:
  assumes "reflp R" and "transp R" and "gsteps R g w" and "\<And>l x v. gsteps R (body l x v) v"
  shows "gsteps R (grange g body l) w"
  using assms(3)
proof (induction g arbitrary: w l)
  case (Yld x v k)
  have "gsteps R (gbind (body l x v)
      (\<lambda>c w'. case c of Next l' \<Rightarrow> grange (k w') body l' | Leave r \<Rightarrow> Ret (Leave r) w')) v"
    using Yld assms(1) by (intro gsteps_gbind assms) (auto split: ctl.split dest: reflpD)
  with Yld.prems show ?case by (auto intro: gsteps_trans [OF assms(2)])
qed simp

lemma gsteps_gforeach:
  assumes "reflp R" and "transp R" and "\<And>l a v. a \<in> set as \<Longrightarrow> gsteps R (body l a v) v"
  shows "gsteps R (gforeach as body l w) w"
  using assms(3)
proof (induction as arbitrary: l w)
  case (Cons a as)
  show ?case using Cons assms(1)
    by (auto intro!: gsteps_gbind [OF assms(1,2)] split: ctl.split dest: reflpD)
qed (use assms(1) in \<open>auto dest: reflpD\<close>)

text \<open>\<open>gres P g\<close>: every result of the generator satisfies \<open>P\<close>; what follows it may rely on that.\<close>

primrec gres :: "('r \<Rightarrow> bool) \<Rightarrow> ('x, 'w, 'r) gen \<Rightarrow> bool" where
  "gres P (Ret r w) = P r"
| "gres P (Yld x w k) = (\<forall>w'. gres P (k w'))"

lemma gsteps_gbind_res:
  assumes "transp R" and "gsteps R g w" and "gres P g" and "\<And>r v. P r \<Longrightarrow> gsteps R (f r v) v"
  shows "gsteps R (gbind g f) w"
  using assms(2,3)
proof (induction g arbitrary: w)
  case (Ret r v)
  then have "R w v" "gsteps R (f r v) v" using assms(4) by auto
  then show ?case by (simp add: gsteps_trans [OF assms(1)])
qed auto

lemma gsteps_gthen_res:
  assumes "transp R" and "gsteps R (p w) w" and "gres P (p w)" and "\<And>r v. P r \<Longrightarrow> gsteps R (f r v) v"
  shows "gsteps R (gthen p f w) w"
  unfolding gthen_def by (rule gsteps_gbind_res [OF assms])

lemma gres_gbind:
  assumes "gres P g" and "\<And>r v. P r \<Longrightarrow> gres Q (f r v)" shows "gres Q (gbind g f)"
  using assms(1) by (induction g) (auto intro: assms(2))

lemma gres_gthen:
  assumes "gres P (p w)" and "\<And>r v. P r \<Longrightarrow> gres Q (f r v)" shows "gres Q (gthen p f w)"
  unfolding gthen_def by (rule gres_gbind [OF assms])

lemma gres_simple [simp]:
  "gres P (greturn r w) \<longleftrightarrow> P r" "gres P (gact f w) \<longleftrightarrow> P (fst (f w))"
  by (simp_all add: greturn_def gact_def split: prod.split)

lemma gres_yield [simp]: "gres P (gyield x w) \<longleftrightarrow> P ()"
  by (simp add: gyield_def)

lemma gres_gforeach:
  assumes "P (Next l)" and "\<And>l a v. a \<in> set as \<Longrightarrow> P (Next l) \<Longrightarrow> gres P (body l a v)"
  shows "gres P (gforeach as body l w)"
  using assms
proof (induction as arbitrary: l w)
  case (Cons a as)
  show ?case
    unfolding gforeach.simps
    by (rule gres_gbind [where P = P]) (use Cons in \<open>auto split: ctl.split\<close>)
qed simp

text \<open>What a consumer sees of the world if it leaves it alone.\<close>

lemma gsteps_final:
  assumes "reflp R" and "transp R" and "gsteps R g w"
  shows "R w (snd (gfinal g))"
  using assms(3)
proof (induction g arbitrary: w)
  case (Yld x v k)
  have "R v (snd (gfinal (k v)))" by (rule Yld.IH) (use Yld.prems in auto)
  with Yld.prems transpD [OF assms(2)] show ?case by auto
qed simp

lemma gsteps_trace:
  assumes "transp R" and "gsteps R g w" and "(x, v) \<in> set (gtrace g)"
  shows "R w v"
  using assms(2,3)
proof (induction g arbitrary: w)
  case (Yld y u k)
  show ?case
  proof (cases "(x, v) \<in> set (gtrace (k u))")
    case True
    then have "R u v" by (intro Yld.IH [of "k u"]) (use Yld.prems in auto)
    with Yld.prems(1) transpD [OF assms(1)] show ?thesis by auto
  qed (use Yld.prems in auto)
qed simp

end
