(* ===== verification/Agents.thy ===== *)
theory Agents
  imports Messages Generators
begin

text \<open>
  The agent of the root package (\<open>src/agent.go\<close>, \<open>session.go\<close>, \<open>core.go\<close>, \<open>context.go\<close>,
  \<open>middleware.go\<close>, \<open>runner.go\<close>, \<open>tool.go\<close>). The world holds the sessions (referred to by
  number, as the code refers to them by pointer), the shared \<open>committed\<close> flags of the
  invocations, and the outside \<open>'p\<close> that model providers and tools read and change. Model
  providers, tools, instruction providers, tool resolvers and the template engine are code
  outside the repository and stand as functions in the records below.
\<close>

section \<open>Sessions\<close>

text \<open>\<open>sessionInMemory\<close>. A compressor gets the session state, which it may update, and the
  messages.\<close>

type_synonym state = "string \<rightharpoonup> anyval"
type_synonym compressor = "state \<Rightarrow> message list \<Rightarrow> (string + message list) \<times> state"

record session =
  sess_state :: state
  sess_history :: "message list"
  sess_compressor :: "compressor option"

definition NewSession :: "(session \<Rightarrow> session) list \<Rightarrow> session" where
  "NewSession opts = fold (\<lambda>opt s. opt s) opts
     \<lparr>sess_state = Map.empty, sess_history = [], sess_compressor = None\<rparr>"

definition WithContextCompressor :: "compressor \<Rightarrow> session \<Rightarrow> session" where
  "WithContextCompressor c s = s\<lparr>sess_compressor := Some c\<rparr>"

definition SetState :: "string \<Rightarrow> anyval \<Rightarrow> session \<Rightarrow> session" where
  "SetState key value s = s\<lparr>sess_state := (sess_state s)(key \<mapsto> value)\<rparr>"

definition Append :: "message \<Rightarrow> session \<Rightarrow> session" where
  "Append m s = s\<lparr>sess_history := sess_history s @ [m]\<rparr>"

definition History :: "session \<Rightarrow> (string + message list) \<times> session" where
  "History s = (case sess_compressor s of None \<Rightarrow> (Inr (sess_history s), s)
     | Some c \<Rightarrow> (case c (sess_state s) (sess_history s) of (r, st) \<Rightarrow> (r, s\<lparr>sess_state := st\<rparr>)))"

section \<open>Errors, tools and model providers\<close>

datatype aerror =
    ErrModelProviderRequired
  | ErrMaxIterationsExceeded
  | ErrNoFinalResponse
  | ErrInterrupted
  | ErrLoopEscalated
  | TargetNotFound string
  | OtherErr string

text \<open>\<open>errors.Is(err, context.Canceled) || errors.Is(err, context.DeadlineExceeded)\<close> is \<open>Canceled\<close>.\<close>

datatype terror = Canceled string | Failed string

text \<open>A tool call: the outcome, the actions set on its tool context in order, and the outside
  afterwards.\<close>

record 'p tool =
  t_name :: string
  t_handle :: "string \<Rightarrow> string \<Rightarrow> 'p \<Rightarrow> (terror + string) \<times> (string \<times> anyval) list \<times> 'p"

record 'p request =
  req_tools :: "'p tool list"
  req_messages :: "message option list"
  req_instruction :: "message option"

text \<open>\<open>ModelProvider\<close>: \<open>None\<close> is a nil response, or one with a nil message.\<close>

record 'p provider =
  p_name :: string
  p_generate :: "'p request \<Rightarrow> 'p \<Rightarrow> (aerror + message option) \<times> 'p"
  p_streaming :: "'p request \<Rightarrow> 'p \<Rightarrow> (aerror + message option) list \<times> 'p"

section \<open>Invocations and the world\<close>

record 'p invocation =
  inv_id :: string
  inv_model :: string
  inv_resume :: bool
  inv_stream :: bool
  inv_session :: "nat option"
  inv_instruction :: "message option"
  inv_message :: "message option"
  inv_ephemeral :: "message list"
  inv_tools :: "'p tool list"
  inv_committed :: "nat option"

record 'p world =
  sessions :: "nat \<Rightarrow> session"
  next_session :: nat
  flags :: "nat \<Rightarrow> bool"
  next_flag :: nat
  outside :: 'p

definition clone_invocation :: "'p invocation \<Rightarrow> 'p invocation" where
  "clone_invocation ivn = ivn\<lparr>inv_message := Clone (inv_message ivn),
     inv_instruction := Clone (inv_instruction ivn),
     inv_ephemeral := map (\<lambda>m. the (Clone (Some m))) (inv_ephemeral ivn)\<rparr>"

text \<open>The values a context carries: the session and the calling agent.\<close>

record ctx =
  ctx_session :: "nat option"
  ctx_agent :: "string option"

type_synonym event = "aerror + message"
type_synonym 'p run = "(event, 'p world, unit) proc"
type_synonym 'p handler = "ctx \<Rightarrow> 'p invocation \<Rightarrow> 'p run"

definition on_session :: "nat \<Rightarrow> (session \<Rightarrow> 'a \<times> session) \<Rightarrow> 'p world \<Rightarrow> 'a \<times> 'p world" where
  "on_session r f w = (case f (sessions w r) of (a, s) \<Rightarrow> (a, w\<lparr>sessions := (sessions w)(r := s)\<rparr>))"

definition append_to :: "nat \<Rightarrow> message \<Rightarrow> 'p world \<Rightarrow> 'p world" where
  "append_to r m w = w\<lparr>sessions := (sessions w)(r := Append m (sessions w r))\<rparr>"

definition set_state_of :: "nat \<Rightarrow> string \<Rightarrow> anyval \<Rightarrow> 'p world \<Rightarrow> 'p world" where
  "set_state_of r k v w = w\<lparr>sessions := (sessions w)(r := SetState k v (sessions w r))\<rparr>"

definition alloc_session :: "'p world \<Rightarrow> nat \<times> 'p world" where
  "alloc_session w = (next_session w,
     w\<lparr>sessions := (sessions w)(next_session w := NewSession []), next_session := Suc (next_session w)\<rparr>)"

definition alloc_flag :: "'p world \<Rightarrow> nat \<times> 'p world" where
  "alloc_flag w = (next_flag w, w\<lparr>flags := (flags w)(next_flag w := False), next_flag := Suc (next_flag w)\<rparr>)"

text \<open>\<open>CompareAndSwap(false, true)\<close>.\<close>

definition cas_flag :: "nat \<Rightarrow> 'p world \<Rightarrow> bool \<times> 'p world" where
  "cas_flag f w = (if flags w f then (False, w) else (True, w\<lparr>flags := (flags w)(f := True)\<rparr>))"

definition EnsureSession :: "ctx \<Rightarrow> 'p world \<Rightarrow> nat \<times> 'p world" where
  "EnsureSession c w = (case ctx_session c of Some r \<Rightarrow> (r, w) | None \<Rightarrow> alloc_session w)"

section \<open>The agent\<close>

record 'p agent =
  a_name :: string
  a_description :: string
  a_instruction :: string
  a_instructionProvider :: "('p \<Rightarrow> aerror + string) option"
  a_outputKey :: string
  a_maxIterations :: int
  a_model :: "'p provider option"
  a_middlewares :: "('p handler \<Rightarrow> 'p handler) list"
  a_tools :: "'p tool list"
  a_skills :: "(string \<times> ('p tool list \<Rightarrow> 'p tool list)) option"
  a_resolver :: "('p \<Rightarrow> aerror + 'p tool list) option"
  a_useContext :: bool

text \<open>The options of \<open>NewAgent\<close>.\<close>

definition WithModel :: "'p provider option \<Rightarrow> 'p agent \<Rightarrow> 'p agent" where
  "WithModel model a = a\<lparr>a_model := model\<rparr>"

definition WithDescription :: "string \<Rightarrow> 'p agent \<Rightarrow> 'p agent" where
  "WithDescription description a = a\<lparr>a_description := description\<rparr>"

definition WithInstruction :: "string \<Rightarrow> 'p agent \<Rightarrow> 'p agent" where
  "WithInstruction instruction a = a\<lparr>a_instruction := instruction\<rparr>"

definition WithInstructionProvider :: "('p \<Rightarrow> aerror + string) option \<Rightarrow> 'p agent \<Rightarrow> 'p agent" where
  "WithInstructionProvider p a = a\<lparr>a_instructionProvider := p\<rparr>"

definition WithOutputKey :: "string \<Rightarrow> 'p agent \<Rightarrow> 'p agent" where
  "WithOutputKey key a = a\<lparr>a_outputKey := key\<rparr>"

definition WithTools :: "'p tool list \<Rightarrow> 'p agent \<Rightarrow> 'p agent" where
  "WithTools tools a = a\<lparr>a_tools := tools\<rparr>"

definition WithToolsResolver :: "('p \<Rightarrow> aerror + 'p tool list) option \<Rightarrow> 'p agent \<Rightarrow> 'p agent" where
  "WithToolsResolver r a = a\<lparr>a_resolver := r\<rparr>"

definition WithAgentMiddleware :: "('p handler \<Rightarrow> 'p handler) list \<Rightarrow> 'p agent \<Rightarrow> 'p agent" where
  "WithAgentMiddleware ms a = a\<lparr>a_middlewares := ms\<rparr>"

definition WithMaxIterations :: "int \<Rightarrow> 'p agent \<Rightarrow> 'p agent" where
  "WithMaxIterations n a = a\<lparr>a_maxIterations := n\<rparr>"

definition WithContext :: "bool \<Rightarrow> 'p agent \<Rightarrow> 'p agent" where
  "WithContext enabled a = a\<lparr>a_useContext := enabled\<rparr>"

text \<open>\<open>NewAgent\<close>; the toolset of \<open>WithSkills\<close> (instruction text and \<open>ComposeTools\<close>) is in theory
  \<open>Skill_Tools\<close> and is already built here.\<close>

definition NewAgent :: "string \<Rightarrow> ('p agent \<Rightarrow> 'p agent) list \<Rightarrow> aerror + 'p agent" where
  "NewAgent name opts =
     (let a = fold (\<lambda>opt a. opt a) opts
        \<lparr>a_name = name, a_description = [], a_instruction = [], a_instructionProvider = None,
         a_outputKey = [], a_maxIterations = 10, a_model = None, a_middlewares = [], a_tools = [],
         a_skills = None, a_resolver = None, a_useContext = False\<rparr>
      in if a_model a = None then Inl ErrModelProviderRequired else Inr a)"

definition the_model :: "'p agent \<Rightarrow> 'p provider" where
  "the_model a = the (a_model a)"

definition resolveTools :: "'p agent \<Rightarrow> 'p \<Rightarrow> aerror + 'p tool list" where
  "resolveTools a p = (case a_resolver a of None \<Rightarrow> Inr (a_tools a)
     | Some r \<Rightarrow> (case r p of Inl e \<Rightarrow> Inl e | Inr ts \<Rightarrow> Inr (a_tools a @ ts)))"

text \<open>What the run of an agent takes from outside: the template engine, the identifiers of the
  system messages, and the order in which the goroutines of \<open>executeTools\<close> take effect.\<close>

record ext =
  render :: "string \<Rightarrow> state \<Rightarrow> aerror + string"
  fresh_id :: string
  tool_order :: "part list \<Rightarrow> nat list"

definition prepend_instruction :: "ext \<Rightarrow> string \<Rightarrow> 'p invocation \<Rightarrow> 'p invocation" where
  "prepend_instruction x text ivn = ivn\<lparr>inv_instruction :=
     MergeParts (Some (SystemMessage (fresh_id x) [InString text])) (inv_instruction ivn)\<rparr>"

definition with_flag :: "'p invocation \<Rightarrow> 'p world \<Rightarrow> 'p invocation \<times> 'p world" where
  "with_flag ivn w = (case inv_committed ivn of Some _ \<Rightarrow> (ivn, w)
     | None \<Rightarrow> (case alloc_flag w of (f, w') \<Rightarrow> (ivn\<lparr>inv_committed := Some f\<rparr>, w')))"

definition static_instruction :: "ext \<Rightarrow> 'p agent \<Rightarrow> 'p invocation \<Rightarrow> 'p world \<Rightarrow> aerror + 'p invocation" where
  "static_instruction x a ivn w =
     (if a_instruction a = [] then Inr ivn
      else case inv_session ivn of
        None \<Rightarrow> Inr (prepend_instruction x (a_instruction a) ivn)
      | Some r \<Rightarrow> (case render x (a_instruction a) (sess_state (sessions w r)) of
            Inl e \<Rightarrow> Inl e | Inr text \<Rightarrow> Inr (prepend_instruction x text ivn)))"

definition provided_instruction :: "ext \<Rightarrow> 'p agent \<Rightarrow> 'p invocation \<Rightarrow> 'p \<Rightarrow> aerror + 'p invocation" where
  "provided_instruction x a ivn p = (case a_instructionProvider a of None \<Rightarrow> Inr ivn
     | Some f \<Rightarrow> (case f p of Inl e \<Rightarrow> Inl e | Inr text \<Rightarrow> Inr (prepend_instruction x text ivn)))"

definition prepareInvocation ::
  "ext \<Rightarrow> 'p agent \<Rightarrow> 'p invocation \<Rightarrow> 'p world \<Rightarrow> (aerror + 'p invocation) \<times> 'p world" where
  "prepareInvocation x a inv0 w0 =
     (case with_flag inv0 w0 of (inv1, w) \<Rightarrow>
      ((case resolveTools a (outside w) of Inl e \<Rightarrow> Inl e
        | Inr resolved \<Rightarrow>
            (let inv2 = inv1\<lparr>inv_model := p_name (the_model a)\<rparr>;
                 inv3 = (case a_skills a of None \<Rightarrow> inv2\<lparr>inv_tools := inv_tools inv2 @ resolved\<rparr>
                         | Some (text, compose) \<Rightarrow>
                             (prepend_instruction x text inv2)\<lparr>inv_tools := inv_tools inv2 @ compose resolved\<rparr>)
             in case provided_instruction x a inv3 (outside w) of Inl e \<Rightarrow> Inl e
                | Inr inv4 \<Rightarrow> static_instruction x a inv4 w)), w))"

definition saveOutputState :: "'p agent \<Rightarrow> 'p invocation \<Rightarrow> message \<Rightarrow> 'p world \<Rightarrow> 'p world" where
  "saveOutputState a ivn m w =
     (case inv_session ivn of None \<Rightarrow> w
      | Some r \<Rightarrow> if a_outputKey a \<noteq> [] \<and> role m = RoleAssistant \<and> status m = StatusCompleted
                  then set_state_of r (a_outputKey a) (AnyString (Text m)) w else w)"

section \<open>Tools\<close>

definition handleTools :: "'p invocation \<Rightarrow> toolPart \<Rightarrow> 'p \<Rightarrow>
    (terror + toolPart) \<times> (string \<times> anyval) list \<times> 'p" where
  "handleTools ivn part p = (case find (\<lambda>t. t_name t = tool_name part) (inv_tools ivn) of
       None \<Rightarrow> (Inr (part\<lparr>tool_response :=
          ''Tool error: agent: tool '' @ tool_name part @ '' not found''\<rparr>), [], p)
     | Some t \<Rightarrow> (case t_handle t (tool_id part) (tool_request part) p of
          (Inr response, acts, p') \<Rightarrow> (Inr (part\<lparr>tool_response := response\<rparr>), acts, p')
        | (Inl (Canceled e), acts, p') \<Rightarrow> (Inl (Canceled e), acts, p')
        | (Inl (Failed e), acts, p') \<Rightarrow> (Inr (part\<lparr>tool_response := ''Tool error: '' @ e\<rparr>), acts, p')))"

text \<open>The state the goroutines of \<open>executeTools\<close> share: the message, the action map of the tool
  contexts, the error group's first error, and the outside.\<close>

record 'p exec =
  ex_message :: message
  ex_actions :: "string \<rightharpoonup> anyval"
  ex_err :: "terror option"
  ex_outside :: 'p

definition exec_part :: "'p invocation \<Rightarrow> nat \<Rightarrow> 'p exec \<Rightarrow> 'p exec" where
  "exec_part ivn i s = (if i < length (parts (ex_message s)) then
     (case parts (ex_message s) ! i of
       ToolPart v \<Rightarrow>
         (if tool_completed v then s
          else case handleTools ivn v (ex_outside s) of (r, acts, p') \<Rightarrow>
            (let shared = ex_actions s ++ map_of (rev acts);
                 s1 = s\<lparr>ex_actions := shared, ex_outside := p'\<rparr>
             in case r of
                  Inl e \<Rightarrow> s1\<lparr>ex_err := (if ex_err s = None then Some e else ex_err s)\<rparr>
                | Inr part \<Rightarrow> s1\<lparr>ex_message := (ex_message s)
                    \<lparr>parts := (parts (ex_message s))[i := ToolPart (part\<lparr>tool_completed := True\<rparr>)],
                     actions := MergeActions (actions (ex_message s)) shared\<rparr>\<rparr>))
     | _ \<Rightarrow> s) else s)"

definition terror_err :: "terror \<Rightarrow> aerror" where
  "terror_err e = (case e of Canceled s \<Rightarrow> OtherErr s | Failed s \<Rightarrow> OtherErr s)"

definition executeTools :: "ext \<Rightarrow> 'p invocation \<Rightarrow> message \<Rightarrow> 'p \<Rightarrow> (aerror + message) \<times> 'p" where
  "executeTools x ivn m p =
     (let s = fold (exec_part ivn) (tool_order x (parts m))
                \<lparr>ex_message = m, ex_actions = actions m, ex_err = None, ex_outside = p\<rparr>
      in (case ex_err s of Some e \<Rightarrow> Inl (terror_err e) | None \<Rightarrow> Inr (ex_message s), ex_outside s))"

section \<open>The iteration loop\<close>

abbreviation ActionLoopExit :: string where "ActionLoopExit \<equiv> ''loop_exit''"

definition fail_with :: "aerror \<Rightarrow> (event, 'p world, ('l, unit) ctl) proc" where
  "fail_with e = gthen (gyield (Inl e)) (\<lambda>_. greturn (Leave ()))"

definition stamp :: "'p agent \<Rightarrow> 'p invocation \<Rightarrow> message \<Rightarrow> message" where
  "stamp a ivn m = m\<lparr>author := (if author m = [] then a_name a else author m), invocationID := inv_id ivn\<rparr>"

definition loadHistory :: "'p agent \<Rightarrow> 'p invocation \<Rightarrow> bool" where
  "loadHistory a ivn \<longleftrightarrow> a_useContext a \<or> inv_resume ivn"

text \<open>\<open>req.Messages\<close> of an iteration.\<close>

definition request_messages :: "'p agent \<Rightarrow> nat \<Rightarrow> 'p invocation \<Rightarrow> bool \<Rightarrow> message option list \<Rightarrow>
    'p world \<Rightarrow> (aerror + message option list) \<times> 'p world" where
  "request_messages a sref ivn first local w =
     (let eph = (if first then map Some (inv_ephemeral ivn) else []) in
      if loadHistory a ivn then
        (case on_session sref History w of
           (Inl e, w') \<Rightarrow> (Inl (OtherErr e), w')
         | (Inr ms, w') \<Rightarrow> (Inr (map Some ms @ eph), w'))
      else (Inr (local @ eph), w))"

definition model_request :: "'p invocation \<Rightarrow> message option list \<Rightarrow> 'p request" where
  "model_request ivn ms = \<lparr>req_tools = inv_tools ivn, req_messages = ms, req_instruction = inv_instruction ivn\<rparr>"

definition generate_once :: "'p agent \<Rightarrow> 'p invocation \<Rightarrow> 'p request \<Rightarrow>
    (event, 'p world, (message option, unit) ctl) proc" where
  "generate_once a ivn req =
     gthen (gact (\<lambda>w. case p_generate (the_model a) req (outside w) of (r, p) \<Rightarrow> (r, w\<lparr>outside := p\<rparr>)))
       (\<lambda>r. case r of
          Inl e \<Rightarrow> fail_with e
        | Inr None \<Rightarrow> fail_with ErrNoFinalResponse
        | Inr (Some m) \<Rightarrow>
            (let final = stamp a ivn m in
             if role final = RoleAssistant
             then gthen (gact (\<lambda>w. ((), saveOutputState a ivn final w)))
                    (\<lambda>_. gthen (gyield (Inr final)) (\<lambda>_. greturn (Next (Some final))))
             else greturn (Next (Some final))))"

definition stream_event :: "'p agent \<Rightarrow> 'p invocation \<Rightarrow> message option \<Rightarrow> aerror + message option \<Rightarrow>
    (event, 'p world, (message option, unit) ctl) proc" where
  "stream_event a ivn prev r = (case r of
       Inl e \<Rightarrow> fail_with e
     | Inr None \<Rightarrow> fail_with ErrNoFinalResponse
     | Inr (Some m) \<Rightarrow>
         (let final = stamp a ivn m in
          if role final = RoleTool \<and> status final = StatusCompleted then greturn (Next (Some final))
          else gthen (gact (\<lambda>w. ((), saveOutputState a ivn final w)))
                 (\<lambda>_. gthen (gyield (Inr final)) (\<lambda>_. greturn (Next (Some final))))))"

definition generate_stream :: "'p agent \<Rightarrow> 'p invocation \<Rightarrow> 'p request \<Rightarrow>
    (event, 'p world, (message option, unit) ctl) proc" where
  "generate_stream a ivn req =
     gthen (gact (\<lambda>w. case p_streaming (the_model a) req (outside w) of (rs, p) \<Rightarrow> (rs, w\<lparr>outside := p\<rparr>)))
       (\<lambda>rs. gforeach rs (stream_event a ivn) None)"

text \<open>After the model answered: run its tools, persist the result and go on unless a tool asked to
  leave the loop; or persist its answer and stop.\<close>

definition persist_tools :: "'p agent \<Rightarrow> nat \<Rightarrow> 'p invocation \<Rightarrow> message option list \<Rightarrow> aerror + message \<Rightarrow>
    (event, 'p world, (message option list, unit) ctl) proc" where
  "persist_tools a sref ivn local r = (case r of
       Inl e \<Rightarrow> fail_with e
     | Inr tm \<Rightarrow> gthen (gyield (Inr tm))
         (\<lambda>_. gthen (gact (\<lambda>w. ((), append_to sref tm w)))
           (\<lambda>_. if actions tm ActionLoopExit \<noteq> None then greturn (Leave ())
                else greturn (Next (if loadHistory a ivn then local else local @ [Some tm])))))"

definition run_tools :: "ext \<Rightarrow> 'p invocation \<Rightarrow> message \<Rightarrow> 'p world \<Rightarrow> (aerror + message) \<times> 'p world" where
  "run_tools x ivn m w = (case executeTools x ivn m (outside w) of (r, p) \<Rightarrow> (r, w\<lparr>outside := p\<rparr>))"

definition after_model :: "ext \<Rightarrow> 'p agent \<Rightarrow> nat \<Rightarrow> 'p invocation \<Rightarrow> message option list \<Rightarrow> message option \<Rightarrow>
    (event, 'p world, (message option list, unit) ctl) proc" where
  "after_model x a sref ivn local final = (case final of
       None \<Rightarrow> fail_with ErrNoFinalResponse
     | Some m \<Rightarrow>
         (if inv_stream ivn \<and> status m \<noteq> StatusCompleted then fail_with ErrNoFinalResponse
          else if role m = RoleTool
          then gthen (gact (run_tools x ivn m)) (persist_tools a sref ivn local)
          else gthen (gact (\<lambda>w. ((), append_to sref m w))) (\<lambda>_. greturn (Leave ()))))"

definition iteration :: "ext \<Rightarrow> 'p agent \<Rightarrow> nat \<Rightarrow> 'p invocation \<Rightarrow> bool \<Rightarrow> message option list \<Rightarrow>
    (event, 'p world, (message option list, unit) ctl) proc" where
  "iteration x a sref ivn first local =
     gthen (gact (request_messages a sref ivn first local))
       (\<lambda>r. case r of
          Inl e \<Rightarrow> fail_with e
        | Inr ms \<Rightarrow>
            gthen (if inv_stream ivn then generate_stream a ivn (model_request ivn ms)
                   else generate_once a ivn (model_request ivn ms))
              (\<lambda>c. case c of Leave _ \<Rightarrow> greturn (Leave ())
                 | Next final \<Rightarrow> after_model x a sref ivn local final))"

text \<open>The \<open>for\<close> loop: \<open>n\<close> iterations are left.\<close>

fun iterations :: "ext \<Rightarrow> 'p agent \<Rightarrow> nat \<Rightarrow> 'p invocation \<Rightarrow> nat \<Rightarrow> bool \<Rightarrow> message option list \<Rightarrow> 'p run" where
  "iterations x a sref ivn 0 first local w = gyield (Inl ErrMaxIterationsExceeded) w"
| "iterations x a sref ivn (Suc n) first local w =
     gthen (iteration x a sref ivn first local)
       (\<lambda>c. case c of Leave _ \<Rightarrow> greturn () | Next local' \<Rightarrow> iterations x a sref ivn n False local') w"

definition handle :: "ext \<Rightarrow> 'p agent \<Rightarrow> nat \<Rightarrow> 'p invocation \<Rightarrow> 'p run" where
  "handle x a sref ivn = iterations x a sref ivn (nat (a_maxIterations a)) True [inv_message ivn]"

section \<open>Run\<close>

definition chain :: "('h \<Rightarrow> 'h) list \<Rightarrow> 'h \<Rightarrow> 'h" where
  "chain mws next = fold (\<lambda>mw h. mw h) (rev mws) next"

text \<open>The initial user message, appended by the first of the clones that share the flag.\<close>

definition commit_message :: "nat \<Rightarrow> 'p invocation \<Rightarrow> 'p world \<Rightarrow> 'p invocation \<times> 'p world" where
  "commit_message sref ivn w = (case (inv_resume ivn, inv_message ivn, inv_committed ivn) of
       (False, Some m, Some f) \<Rightarrow>
         (case cas_flag f w of
            (False, w') \<Rightarrow> (ivn, w')
          | (True, w') \<Rightarrow>
              (let m' = m\<lparr>author := (if author m = [] then ''user'' else author m),
                          invocationID := (if invocationID m = [] then inv_id ivn else invocationID m)\<rparr>
               in (ivn\<lparr>inv_message := Some m'\<rparr>, append_to sref m' w')))
     | _ \<Rightarrow> (ivn, w))"

definition Run :: "ext \<Rightarrow> 'p agent \<Rightarrow> 'p handler" where
  "Run x a c inv0 w0 =
     (case EnsureSession c w0 of (sref, w1) \<Rightarrow>
      case prepareInvocation x a inv0 w1 of
        (Inl e, w2) \<Rightarrow> gyield (Inl e) w2
      | (Inr inv1, w2) \<Rightarrow>
          (case commit_message sref inv1 w2 of (inv2, w3) \<Rightarrow>
             chain (a_middlewares a) (\<lambda>c' ivn. handle x a sref ivn)
               \<lparr>ctx_session = Some sref, ctx_agent = Some (a_name a)\<rparr> inv2 w3))"

section \<open>Runner\<close>

record run_options =
  opt_session :: "nat option"
  opt_resume :: bool
  opt_invocation :: string

definition WithSession :: "nat option \<Rightarrow> run_options \<Rightarrow> run_options" where
  "WithSession s r = r\<lparr>opt_session := s\<rparr>"

definition WithResume :: "bool \<Rightarrow> run_options \<Rightarrow> run_options" where
  "WithResume resume r = r\<lparr>opt_resume := resume\<rparr>"

definition WithInvocationID :: "string \<Rightarrow> run_options \<Rightarrow> run_options" where
  "WithInvocationID i r = r\<lparr>opt_invocation := i\<rparr>"

definition buildInvocation :: "message option \<Rightarrow> bool \<Rightarrow> run_options \<Rightarrow> nat \<Rightarrow> 'p invocation" where
  "buildInvocation m stream opts flag = \<lparr>inv_id = opt_invocation opts, inv_model = [], inv_resume = opt_resume opts,
     inv_stream = stream, inv_session = opt_session opts, inv_instruction = None, inv_message = m,
     inv_ephemeral = [], inv_tools = [], inv_committed = Some flag\<rparr>"

text \<open>\<open>for output, err = range iter { if err != nil { return nil, err } }\<close>.\<close>

primrec last_message :: "(event, 'w, 'r) gen \<Rightarrow> message option \<Rightarrow> (aerror + message option) \<times> 'w" where
  "last_message (Ret r w) acc = (Inr acc, w)"
| "last_message (Yld x w k) acc = (case x of Inl e \<Rightarrow> (Inl e, w) | Inr m \<Rightarrow> last_message (k w) (Some m))"

definition Runner_Run :: "'p handler \<Rightarrow> message option \<Rightarrow> run_options \<Rightarrow> 'p world \<Rightarrow> (aerror + message) \<times> 'p world" where
  "Runner_Run agent m opts w0 =
     (case alloc_flag w0 of (flag, w1) \<Rightarrow>
      case last_message (agent \<lparr>ctx_session = opt_session opts, ctx_agent = None\<rparr>
             (buildInvocation m False opts flag) w1) None of
        (Inl e, w2) \<Rightarrow> (Inl e, w2)
      | (Inr None, w2) \<Rightarrow> (Inl ErrNoFinalResponse, w2)
      | (Inr (Some out), w2) \<Rightarrow> (Inr out, w2))"

definition RunStream :: "'p handler \<Rightarrow> message option \<Rightarrow> run_options \<Rightarrow> 'p run" where
  "RunStream agent m opts w0 =
     (case alloc_flag w0 of (flag, w1) \<Rightarrow>
      gbind (grange (agent \<lparr>ctx_session = opt_session opts, ctx_agent = None\<rparr>
               (buildInvocation m True opts flag) w1)
             (\<lambda>_ x. case x of
                Inl e \<Rightarrow> gthen (gyield (Inl e)) (\<lambda>_. greturn (Leave ()))
              | Inr out \<Rightarrow> gthen (gyield (Inr out)) (\<lambda>_. greturn (Next ()))) ())
        (\<lambda>_. Ret ()))"

text \<open>\<open>agentTool.Handle\<close>: the sub-agent runs in a fresh session with an invocation of its own.\<close>

definition agentTool_Handle :: "string \<Rightarrow> 'p handler \<Rightarrow> ctx \<Rightarrow> string \<Rightarrow> 'p world \<Rightarrow> (aerror + string) \<times> 'p world" where
  "agentTool_Handle new_id agent c input w0 =
     (let msg0 = UserMessage new_id [InString input];
          msg = (case ctx_agent c of Some n \<Rightarrow> msg0\<lparr>author := n\<rparr> | None \<Rightarrow> msg0)
      in case alloc_session w0 of (r, w1) \<Rightarrow>
         case last_message (agent (c\<lparr>ctx_session := Some r\<rparr>)
            \<lparr>inv_id = [], inv_model = [], inv_resume = False, inv_stream = False, inv_session = None,
             inv_instruction = None, inv_message = Some msg, inv_ephemeral = [], inv_tools = [],
             inv_committed = None\<rparr> w1) None of
           (Inl e, w2) \<Rightarrow> (Inl e, w2)
         | (Inr None, w2) \<Rightarrow> (Inl ErrNoFinalResponse, w2)
         | (Inr (Some out), w2) \<Rightarrow> (Inr (Text out), w2))"

end
