(* ===== verification/Tool_Base.thy ===== *)
theory Tool_Base
  imports Agents
begin

text \<open>
  Making tools: \<open>tools/base.go\<close>, \<open>handler.go\<close>, \<open>middleware.go\<close>, \<open>tool.go\<close>, \<open>exit.go\<close>, and the search
  over messages kept in memory with its tool (\<open>memory/in_memory_store.go\<close>, \<open>memory/tool.go\<close>). A handler
  gets the identifier of the call and the input, and returns its result, the actions it set on the
  tool context and the outside it left. JSON schemas are left out but for the error they may give.
\<close>

section \<open>Handlers and middlewares\<close>

type_synonym 'p tool_handler = "string \<Rightarrow> string \<Rightarrow> 'p \<Rightarrow> (terror + string) \<times> (string \<times> anyval) list \<times> 'p"

type_synonym 'p tool_middleware = "'p tool_handler \<Rightarrow> 'p tool_handler"

definition Tool_ChainMiddlewares :: "'p tool_middleware list \<Rightarrow> 'p tool_middleware" where
  "Tool_ChainMiddlewares mws next = foldr (\<lambda>mw h. mw h) mws next"

record 'p baseTool =
  tb_name :: string
  tb_handler :: "'p tool_handler"
  tb_middlewares :: "'p tool_middleware list"

definition Tool_WithMiddleware :: "'p tool_middleware list \<Rightarrow> 'p baseTool \<Rightarrow> 'p baseTool" where
  "Tool_WithMiddleware mw t = t\<lparr>tb_middlewares := mw\<rparr>"

definition baseTool_Handle :: "'p baseTool \<Rightarrow> 'p tool_handler" where
  "baseTool_Handle t = (if 0 < length (tb_middlewares t)
     then Tool_ChainMiddlewares (tb_middlewares t) (tb_handler t) else tb_handler t)"

definition as_tool :: "'p baseTool \<Rightarrow> 'p tool" where
  "as_tool t = \<lparr>t_name = tb_name t, t_handle = baseTool_Handle t\<rparr>"

definition NewTool :: "string \<Rightarrow> 'p tool_handler \<Rightarrow> ('p baseTool \<Rightarrow> 'p baseTool) list \<Rightarrow> 'p tool" where
  "NewTool name handler opts =
     as_tool (fold (\<lambda>opt t. opt t) opts \<lparr>tb_name = name, tb_handler = handler, tb_middlewares = []\<rparr>)"

text \<open>\<open>decode\<close> and \<open>encode\<close> are \<open>json.Unmarshal\<close> and \<open>json.Marshal\<close> at the types of the function.\<close>

definition JSONAdapter :: "(string \<Rightarrow> string + 'i) \<Rightarrow> ('o \<Rightarrow> string + string) \<Rightarrow>
    (string \<Rightarrow> 'i \<Rightarrow> 'p \<Rightarrow> (terror + 'o) \<times> (string \<times> anyval) list \<times> 'p) \<Rightarrow> 'p tool_handler" where
  "JSONAdapter decode encode run i input p = (case decode input of
       Inl e \<Rightarrow> (Inl (Failed e), [], p)
     | Inr req \<Rightarrow> (case run i req p of
           (Inl e, acts, p1) \<Rightarrow> (Inl e, acts, p1)
         | (Inr res, acts, p1) \<Rightarrow> (case encode res of
               Inl e \<Rightarrow> (Inl (Failed e), acts, p1) | Inr b \<Rightarrow> (Inr b, acts, p1))))"

definition NewFunc :: "string option \<Rightarrow> string option \<Rightarrow> (string \<Rightarrow> string + 'i) \<Rightarrow> ('o \<Rightarrow> string + string) \<Rightarrow> string \<Rightarrow>
    (string \<Rightarrow> 'i \<Rightarrow> 'p \<Rightarrow> (terror + 'o) \<times> (string \<times> anyval) list \<times> 'p) \<Rightarrow> ('p baseTool \<Rightarrow> 'p baseTool) list \<Rightarrow> string + 'p tool" where
  "NewFunc input_schema_error output_schema_error decode encode name handler opts =
     echeck input_schema_error (echeck output_schema_error
       (Inr (NewTool name (JSONAdapter decode encode handler) opts)))"

text \<open>The first middleware is the outermost.\<close>

lemma tool_chain_order: "Tool_ChainMiddlewares (mw # mws) h = mw (Tool_ChainMiddlewares mws h)"
  by (simp add: Tool_ChainMiddlewares_def)

lemma NewTool_Handle:
  "t_handle (NewTool name h [Tool_WithMiddleware mws]) = Tool_ChainMiddlewares mws h"
  by (cases mws) (simp_all add: NewTool_def as_tool_def Tool_WithMiddleware_def baseTool_Handle_def Tool_ChainMiddlewares_def)

section \<open>The exit tool\<close>

text \<open>\<open>decode\<close> gives the flag \<open>escalate\<close>. The agent always passes a tool context.\<close>

definition ExitTool_Handle :: "(string \<Rightarrow> string + bool) \<Rightarrow> 'p tool_handler" where
  "ExitTool_Handle decode i input p = (case decode input of
       Inl e \<Rightarrow> (Inl (Failed e), [], p)
     | Inr escalate \<Rightarrow> (Inr ([CHR ''{'', CHR 0x22] @ ''ok'' @ [CHR 0x22] @ '':true}''), [(''loop_exit'', AnyBool escalate)], p))"

definition NewExitTool :: "(string \<Rightarrow> string + bool) \<Rightarrow> 'p tool" where
  "NewExitTool decode = \<lparr>t_name = ''exit'', t_handle = ExitTool_Handle decode\<rparr>"

section \<open>Memories\<close>

record memory =
  mem_content :: message
  mem_metadata :: "string \<rightharpoonup> anyval"

definition AddMemory :: "memory \<Rightarrow> memory list \<Rightarrow> memory list" where
  "AddMemory m memories = memories @ [m]"

text \<open>A memory is found by any word of the query.\<close>

definition SearchMemory :: "string \<Rightarrow> memory list \<Rightarrow> memory list" where
  "SearchMemory query memories =
     (let words = Fields (ToLower query) in
      filter (\<lambda>m. list_ex (\<lambda>word. Contains (ToLower (Text (mem_content m))) word) words) memories)"

definition NewMemoryTool :: "string option \<Rightarrow> string option \<Rightarrow> (string \<Rightarrow> string + string) \<Rightarrow> (memory list \<Rightarrow> string + string) \<Rightarrow>
    (string \<Rightarrow> 'p \<Rightarrow> (string + memory list) \<times> 'p) \<Rightarrow> string + 'p tool" where
  "NewMemoryTool input_schema_error output_schema_error decode encode search =
     NewFunc input_schema_error output_schema_error decode encode ''Memory''
       (\<lambda>i query p. case search query p of
          (Inl e, p1) \<Rightarrow> (Inl (Failed e), [], p1) | (Inr ms, p1) \<Rightarrow> (Inr ms, [], p1)) []"

end
