(* ===== verification/Mcp_Client.thy ===== *)
theory Mcp_Client
  imports Tool_Base
begin

text \<open>
  The client of MCP servers (\<open>contrib/mcp\<close>): configuration, connecting, tools, calls and the resolver that
  gathers the tools of several servers. The SDK is the record \<open>sdk\<close>: a session is the number it gives a
  connection, \<open>'j\<close> is a JSON value, \<open>'a\<close> the arguments of a call. Clients are shared by number, as the code
  shares them by pointer. The goroutine that connects again runs beside all this in \<open>Mcp_Run\<close>.
\<close>

section \<open>Configuration\<close>

record client_config =
  cc_Name :: string
  cc_Transport :: string
  cc_Command :: string
  cc_Args :: "string list"
  cc_Env :: "(string, string) gomap"
  cc_WorkDir :: string
  cc_Endpoint :: string
  cc_Headers :: "(string, string) gomap"
  cc_Timeout :: int

abbreviation TransportStdio :: string where "TransportStdio \<equiv> ''stdio''"
abbreviation TransportHTTP :: string where "TransportHTTP \<equiv> ''http''"
abbreviation TransportWebSocket :: string where "TransportWebSocket \<equiv> ''websocket''"

definition validate_client :: "client_config \<Rightarrow> string option" where
  "validate_client c =
     (if cc_Transport c = TransportStdio
      then (if cc_Command c = [] then Some ''mcp: invalid config: command is required for stdio transport'' else None)
      else if cc_Transport c \<in> {TransportHTTP, TransportWebSocket}
      then (if cc_Endpoint c = [] then Some ''mcp: invalid config: URL is required for HTTP/WebSocket transport'' else None)
      else Some (''mcp: invalid config: unsupported transport type: '' @ cc_Transport c))"

text \<open>A command with its arguments, environment and directory, or an endpoint with the headers of its requests.\<close>

datatype transport = CommandTransport string "string list" "string list" string | StreamableTransport string "(string \<times> string) list"

datatype 'j mcp_content = TextContent string | OtherContent 'j

record 'j call_result =
  mr_IsError :: bool
  mr_Content :: "'j mcp_content list"
  mr_Structured :: "'j option"

record 'j remote_tool =
  rt_Name :: string
  rt_Input :: "'j option"
  rt_Output :: "'j option"

record ('w, 'a, 'j) sdk =
  sk_environ :: "string list"
  sk_connect :: "string \<Rightarrow> transport \<Rightarrow> 'w \<Rightarrow> (string + nat) \<times> 'w"
  sk_listTools :: "nat \<Rightarrow> 'w \<Rightarrow> (string + 'j remote_tool list) \<times> 'w"
  sk_callTool :: "nat \<Rightarrow> string \<Rightarrow> 'a \<Rightarrow> 'w \<Rightarrow> (string + 'j call_result) \<times> 'w"
  sk_close :: "nat \<Rightarrow> 'w \<Rightarrow> string option \<times> 'w"
  sk_decode :: "string \<Rightarrow> string + 'a"
  sk_schemaError :: "'j \<Rightarrow> string option"
  sk_marshal :: "'j \<Rightarrow> string + string"
  sk_marshalContent :: "'j mcp_content list \<Rightarrow> string + string"

section \<open>The client\<close>

text \<open>The context of the connection is a number; a cancelled one is replaced by the next.\<close>

record mcp_client =
  mc_config :: client_config
  mc_session :: "nat option"
  mc_connected :: bool
  mc_ctx :: nat
  mc_cancelled :: bool
  mc_reconnecting :: bool

definition NewClient :: "client_config \<Rightarrow> string + mcp_client" where
  "NewClient given = (let c = (if cc_Timeout given \<le> 0 then given\<lparr>cc_Timeout := 30000000000\<rparr> else given) in
     case validate_client c of
       Some e \<Rightarrow> Inl e
     | None \<Rightarrow> Inr \<lparr>mc_config = c, mc_session = None, mc_connected = False, mc_ctx = 0, mc_cancelled = False,
         mc_reconnecting = False\<rparr>)"

definition createStdioTransport :: "string list \<Rightarrow> client_config \<Rightarrow> transport" where
  "createStdioTransport environ c =
     CommandTransport (cc_Command c) (cc_Args c) (environ @ map (\<lambda>(k, v). k @ ''='' @ v) (cc_Env c)) (cc_WorkDir c)"

text \<open>Headers without a name are dropped.\<close>

definition newHeaderRoundTripper :: "(string, string) gomap \<Rightarrow> (string \<times> string) list" where
  "newHeaderRoundTripper headers = filter (\<lambda>(k, v). k \<noteq> []) headers"

definition createStreamableTransport :: "client_config \<Rightarrow> transport" where
  "createStreamableTransport c = StreamableTransport (cc_Endpoint c) (newHeaderRoundTripper (cc_Headers c))"

definition create_transport :: "string list \<Rightarrow> client_config \<Rightarrow> string + transport" where
  "create_transport environ c =
     (if cc_Transport c = TransportStdio then Inr (createStdioTransport environ c)
      else if cc_Transport c \<in> {TransportHTTP, TransportWebSocket} then Inr (createStreamableTransport c)
      else Inl (''mcp: invalid config: unsupported transport: '' @ cc_Transport c))"

definition mcp_error :: "mcp_client \<Rightarrow> string \<Rightarrow> string \<Rightarrow> string" where
  "mcp_error c what e = ''mcp ['' @ cc_Name (mc_config c) @ ''] '' @ what @ '': '' @ e"

definition renew_context :: "mcp_client \<Rightarrow> mcp_client" where
  "renew_context c = (if mc_cancelled c then c\<lparr>mc_ctx := Suc (mc_ctx c), mc_cancelled := False\<rparr> else c)"

definition opened :: "bool \<Rightarrow> nat \<Rightarrow> mcp_client \<Rightarrow> mcp_client" where
  "opened start s c = c\<lparr>mc_session := Some s, mc_connected := True, mc_reconnecting := mc_reconnecting c \<or> start\<rparr>"

text \<open>\<open>connect\<close>, under the lock; the goroutine starts where the flag becomes true.\<close>

definition client_connect :: "('w, 'a, 'j) sdk \<Rightarrow> bool \<Rightarrow> mcp_client \<Rightarrow> 'w \<Rightarrow> string option \<times> mcp_client \<times> 'w" where
  "client_connect sdk start c0 w = (let c = renew_context c0 in
     if mc_connected c then (None, c, w)
     else case create_transport (sk_environ sdk) (mc_config c) of
       Inl e \<Rightarrow> (Some e, c, w)
     | Inr t \<Rightarrow> (case sk_connect sdk (cc_Name (mc_config c)) t w of
           (Inl e, v) \<Rightarrow> (Some (mcp_error c ''connect'' e), c, v)
         | (Inr s, v) \<Rightarrow> (None, opened start s c, v)))"

definition ensure_connected :: "('w, 'a, 'j) sdk \<Rightarrow> mcp_client \<Rightarrow> 'w \<Rightarrow> string option \<times> mcp_client \<times> 'w" where
  "ensure_connected sdk c w = (if mc_connected c then (None, c, w) else client_connect sdk True c w)"

text \<open>What a call with the session gives; a session that is gone is a nil pointer.\<close>

definition on_session :: "mcp_client \<Rightarrow> string \<Rightarrow> (nat \<Rightarrow> 'w \<Rightarrow> (string + 'r) \<times> 'w) \<Rightarrow> 'w \<Rightarrow> (string + 'r) \<times> mcp_client \<times> 'w" where
  "on_session c what f w = (case mc_session c of
       None \<Rightarrow> (Inl ''nil pointer dereference'', c, w)
     | Some s \<Rightarrow> (case f s w of (Inl e, v) \<Rightarrow> (Inl (mcp_error c what e), c, v) | (Inr r, v) \<Rightarrow> (Inr r, c, v)))"

definition Client_ListTools :: "('w, 'a, 'j) sdk \<Rightarrow> mcp_client \<Rightarrow> 'w \<Rightarrow> (string + 'j remote_tool list) \<times> mcp_client \<times> 'w" where
  "Client_ListTools sdk c w = (case ensure_connected sdk c w of
       (Some e, d, v) \<Rightarrow> (Inl e, d, v) | (None, d, v) \<Rightarrow> on_session d ''list_tools'' (sk_listTools sdk) v)"

definition CallTool :: "('w, 'a, 'j) sdk \<Rightarrow> string \<Rightarrow> 'a \<Rightarrow> mcp_client \<Rightarrow> 'w \<Rightarrow> (string + 'j call_result) \<times> mcp_client \<times> 'w" where
  "CallTool sdk name args c w = (case ensure_connected sdk c w of
       (Some e, d, v) \<Rightarrow> (Inl e, d, v) | (None, d, v) \<Rightarrow> on_session d ''call_tool'' (\<lambda>s. sk_callTool sdk s name args) v)"

definition cancel_context :: "mcp_client \<Rightarrow> mcp_client" where
  "cancel_context c = c\<lparr>mc_cancelled := True\<rparr>"

definition drop_session :: "mcp_client \<Rightarrow> mcp_client" where
  "drop_session c = c\<lparr>mc_session := None, mc_connected := False\<rparr>"

definition Client_Close :: "('w, 'a, 'j) sdk \<Rightarrow> mcp_client \<Rightarrow> 'w \<Rightarrow> string option \<times> mcp_client \<times> 'w" where
  "Client_Close sdk c w = (let d = drop_session (cancel_context c) in case mc_session c of
       None \<Rightarrow> (None, d, w)
     | Some s \<Rightarrow> (case sk_close sdk s w of (r, v) \<Rightarrow> (map_option (mcp_error c ''close'') r, d, v)))"

section \<open>Tools\<close>

definition texts_of :: "'j mcp_content list \<Rightarrow> string" where
  "texts_of cs = concat (map (\<lambda>x. case x of TextContent t \<Rightarrow> t | OtherContent _ \<Rightarrow> []) cs)"

definition formatToolResult :: "('w, 'a, 'j) sdk \<Rightarrow> 'j call_result \<Rightarrow> string + string" where
  "formatToolResult sdk r =
     (if mr_IsError r
      then Inl (if texts_of (mr_Content r) \<noteq> [] then ''tool execution failed: '' @ texts_of (mr_Content r) else ''tool execution failed'')
      else case mr_Structured r of
        Some j \<Rightarrow> (case sk_marshal sdk j of Inl e \<Rightarrow> Inl (''failed to marshal structured content: '' @ e) | Inr s \<Rightarrow> Inr s)
      | None \<Rightarrow> (case sk_marshalContent sdk (mr_Content r) of Inl e \<Rightarrow> Inl (''failed to marshal content: '' @ e) | Inr s \<Rightarrow> Inr s))"

type_synonym 'w mcp_world = "mcp_client list \<times> 'w"

definition on_client :: "nat \<Rightarrow> (mcp_client \<Rightarrow> 'w \<Rightarrow> 'r \<times> mcp_client \<times> 'w) \<Rightarrow> 'w mcp_world \<Rightarrow> 'r \<times> 'w mcp_world" where
  "on_client i f p = (case f (fst p ! i) (snd p) of (r, c, w) \<Rightarrow> (r, (fst p)[i := c], w))"

definition client_handler :: "('w, 'a, 'j) sdk \<Rightarrow> nat \<Rightarrow> string \<Rightarrow> 'w mcp_world tool_handler" where
  "client_handler sdk i name = (\<lambda>_ input p. case sk_decode sdk input of
       Inl e \<Rightarrow> (Inl (Failed (''invalid input JSON: '' @ e)), [], p)
     | Inr args \<Rightarrow> (case on_client i (CallTool sdk name args) p of
           (Inl e, q) \<Rightarrow> (Inl (Failed e), [], q)
         | (Inr r, q) \<Rightarrow> (case formatToolResult sdk r of
               Inl e \<Rightarrow> (Inl (Failed (''failed to format tool result: '' @ e)), [], q)
             | Inr out \<Rightarrow> (Inr out, [], q))))"

definition convertSchema :: "('w, 'a, 'j) sdk \<Rightarrow> 'j option \<Rightarrow> string option" where
  "convertSchema sdk s = (case s of None \<Rightarrow> None | Some j \<Rightarrow> sk_schemaError sdk j)"

definition toBladesTool :: "('w, 'a, 'j) sdk \<Rightarrow> 'j remote_tool \<Rightarrow> 'w mcp_world tool_handler \<Rightarrow> string + 'w mcp_world tool" where
  "toBladesTool sdk t h =
     (case convertSchema sdk (rt_Input t) of
        Some e \<Rightarrow> Inl (''failed to convert input schema: '' @ e)
      | None \<Rightarrow> (case (if rt_Output t = None then None else convertSchema sdk (rt_Output t)) of
            Some e \<Rightarrow> Inl (''failed to convert output schema: '' @ e)
          | None \<Rightarrow> Inr (NewTool (rt_Name t) h [])))"

definition conversion_error :: "string \<Rightarrow> string \<Rightarrow> string" where
  "conversion_error name e = ''failed to convert MCP tool ['' @ name @ '']: '' @ e"

definition Client_Resolve :: "('w, 'a, 'j) sdk \<Rightarrow> nat \<Rightarrow> 'w mcp_world \<Rightarrow> (string + 'w mcp_world tool list) \<times> 'w mcp_world" where
  "Client_Resolve sdk i p = (case on_client i (Client_ListTools sdk) p of
       (Inl e, q) \<Rightarrow> (Inl e, q)
     | (Inr ts, q) \<Rightarrow> (map_err (\<lambda>t. case toBladesTool sdk t (client_handler sdk i (rt_Name t)) of
           Inl e \<Rightarrow> Inl (conversion_error (rt_Name t) e) | Inr tool \<Rightarrow> Inr tool) ts, q))"

section \<open>The tools of several servers\<close>

text \<open>The clients are those of the world, in its order.\<close>

record 'w tools_resolver =
  tr_tools :: "'w mcp_world tool list"
  tr_loaded :: bool

definition NewToolsResolver :: "client_config list \<Rightarrow> string + mcp_client list \<times> 'w tools_resolver" where
  "NewToolsResolver configs = (if configs = [] then Inl ''at least one server config is required''
     else ebind (map_err NewClient configs) (\<lambda>cs. Inr (cs, \<lparr>tr_tools = [], tr_loaded = False\<rparr>)))"

fun converted :: "('w, 'a, 'j) sdk \<Rightarrow> nat \<Rightarrow> 'j remote_tool list \<Rightarrow> string list \<times> 'w mcp_world tool list" where
  "converted sdk i [] = ([], [])"
| "converted sdk i (t # ts) = (case converted sdk i ts of (es, tools) \<Rightarrow>
     (case toBladesTool sdk t (client_handler sdk i (rt_Name t)) of
        Inl e \<Rightarrow> (conversion_error (rt_Name t) e # es, tools)
      | Inr tool \<Rightarrow> (es, tool # tools)))"

text \<open>What one server contributes: errors and tools.\<close>

definition load_server :: "('w, 'a, 'j) sdk \<Rightarrow> nat \<Rightarrow> 'w mcp_world \<Rightarrow> (string list \<times> 'w mcp_world tool list) \<times> 'w mcp_world" where
  "load_server sdk i p = (case on_client i (client_connect sdk True) p of
       (Some e, q) \<Rightarrow> (([e], []), q)
     | (None, q) \<Rightarrow> (case on_client i (Client_ListTools sdk) q of
           (Inl e, q2) \<Rightarrow> (([e], []), snd (on_client i (Client_Close sdk) q2))
         | (Inr ts, q2) \<Rightarrow> (converted sdk i ts, q2)))"

fun load_servers :: "('w, 'a, 'j) sdk \<Rightarrow> nat list \<Rightarrow> 'w mcp_world \<Rightarrow> (string list \<times> 'w mcp_world tool list) \<times> 'w mcp_world" where
  "load_servers sdk [] p = (([], []), p)"
| "load_servers sdk (i # is) p = (case load_server sdk i p of ((es, ts), q) \<Rightarrow>
     (case load_servers sdk is q of ((es', ts'), q2) \<Rightarrow> ((es @ es', ts @ ts'), q2)))"

definition show_errors :: "string list \<Rightarrow> string" where
  "show_errors es = ''['' @ Join es '' '' @ '']''"

definition Resolver_Resolve :: "('w, 'a, 'j) sdk \<Rightarrow> 'w tools_resolver \<Rightarrow> 'w mcp_world \<Rightarrow>
    (string + 'w mcp_world tool list) \<times> 'w tools_resolver \<times> 'w mcp_world" where
  "Resolver_Resolve sdk r p = (if tr_loaded r then (Inr (tr_tools r), r, p)
     else case load_servers sdk [0 ..< length (fst p)] p of ((es, ts), q) \<Rightarrow>
       (if es \<noteq> [] \<and> ts = [] then (Inl (''failed to load any tools: '' @ show_errors es), r, q)
        else (Inr ts, \<lparr>tr_tools = ts, tr_loaded = True\<rparr>, q)))"

fun close_all :: "('w, 'a, 'j) sdk \<Rightarrow> nat list \<Rightarrow> 'w mcp_world \<Rightarrow> string list \<times> 'w mcp_world" where
  "close_all sdk [] p = ([], p)"
| "close_all sdk (i # is) p = (case on_client i (Client_Close sdk) p of (r, q) \<Rightarrow>
     (case close_all sdk is q of (es, q2) \<Rightarrow> ((case r of None \<Rightarrow> es | Some e \<Rightarrow> (''server '' @ e) # es), q2)))"

definition Resolver_Close :: "('w, 'a, 'j) sdk \<Rightarrow> 'w mcp_world \<Rightarrow> string option \<times> 'w mcp_world" where
  "Resolver_Close sdk p = (case close_all sdk [0 ..< length (fst p)] p of (es, q) \<Rightarrow>
     (if es \<noteq> [] then Some (''errors closing clients: '' @ show_errors es) else None, q))"

end
