(* ===== verification/Mcp_Run.thy ===== *)
theory Mcp_Run
  imports Mcp_Client
begin

text \<open>
  One MCP client with everything that runs beside it: callers that connect, call and close, the goroutine that
  connects again (\<open>reconnect\<close> in \<open>contrib/mcp/client.go\<close>), and the server, which may lose a session at any
  time. A step is a section under the lock, a call of the SDK or an access outside the lock, so every
  interleaving is a run.
\<close>

section \<open>States\<close>

datatype loop_phase = Top | Waiting nat | Marking | Checking | Connecting | Backing_Off

record reconnect_loop =
  rl_ctx :: nat
  rl_phase :: loop_phase
  rl_backoff :: nat

text \<open>The sessions that are open, those a caller is about to close, the callers between the two parts of \<open>Close\<close>,
  the calls that found the client connected and have not yet used its session, and how many of them found
  no session.\<close>

record mcp_state =
  ms_client :: mcp_client
  ms_loops :: "reconnect_loop list"
  ms_next :: nat
  ms_alive :: "nat list"
  ms_closing :: "nat list"
  ms_closers :: nat
  ms_calls :: nat
  ms_panics :: nat

definition mcp_start :: "mcp_client \<Rightarrow> mcp_state" where
  "mcp_start c = \<lparr>ms_client = c, ms_loops = [], ms_next = 0, ms_alive = [], ms_closing = [], ms_closers = 0, ms_calls = 0, ms_panics = 0\<rparr>"

text \<open>The SDK of a step: a connection fails, or opens a new session.\<close>

definition dial :: "string + unit \<Rightarrow> (nat \<times> nat list, unit, unit) sdk" where
  "dial r = \<lparr>sk_environ = [], sk_connect = (\<lambda>name t (n, alive). case r of Inl e \<Rightarrow> (Inl e, (n, alive)) | Inr _ \<Rightarrow> (Inr n, (Suc n, n # alive))),
     sk_listTools = (\<lambda>s w. (Inr [], w)), sk_callTool = (\<lambda>s name a w. (Inl [], w)), sk_close = (\<lambda>s w. (None, w)),
     sk_decode = (\<lambda>_. Inr ()), sk_schemaError = (\<lambda>_. None), sk_marshal = (\<lambda>_. Inr []), sk_marshalContent = (\<lambda>_. Inr [])\<rparr>"

definition cancelled :: "mcp_client \<Rightarrow> nat \<Rightarrow> bool" where
  "cancelled c k \<longleftrightarrow> k < mc_ctx c \<or> mc_cancelled c"

text \<open>A connection attempt of a caller, or of the goroutine; the former may start the goroutine.\<close>

definition do_connect :: "bool \<Rightarrow> string + unit \<Rightarrow> mcp_state \<Rightarrow> string option \<times> mcp_state" where
  "do_connect start r s = (case client_connect (dial r) start (ms_client s) (ms_next s, ms_alive s) of
     (e, c, (n, alive)) \<Rightarrow> (e, s\<lparr>ms_client := c, ms_next := n, ms_alive := alive,
       ms_loops := ms_loops s @ (if mc_reconnecting c \<and> \<not> mc_reconnecting (ms_client s)
         then [\<lparr>rl_ctx = mc_ctx c, rl_phase = Top, rl_backoff = 1\<rparr>] else [])\<rparr>))"

section \<open>Steps\<close>

datatype mcp_label =
    User_Connect "string + unit"
  | Call_Started "string + unit"
  | Call_Used
  | Close_Cancel
  | Close_Drop
  | Session_Closed
  | Server_Lost nat
  | Loop_Step nat "string + unit"
  | Loop_Cancelled nat

definition set_loop :: "nat \<Rightarrow> reconnect_loop \<Rightarrow> mcp_state \<Rightarrow> mcp_state" where
  "set_loop i l s = s\<lparr>ms_loops := (ms_loops s)[i := l]\<rparr>"

definition loop_exit :: "nat \<Rightarrow> mcp_state \<Rightarrow> mcp_state" where
  "loop_exit i s = s\<lparr>ms_loops := take i (ms_loops s) @ drop (Suc i) (ms_loops s),
     ms_client := (ms_client s)\<lparr>mc_reconnecting := False\<rparr>\<rparr>"

definition next_backoff :: "nat \<Rightarrow> nat" where
  "next_backoff b = (if b < 30 then min 30 (2 * b) else b)"

definition loop_step :: "nat \<Rightarrow> reconnect_loop \<Rightarrow> string + unit \<Rightarrow> mcp_state \<Rightarrow> mcp_state option" where
  "loop_step i l r s = (let c = ms_client s; stop = cancelled c (rl_ctx l) in case rl_phase l of
       Top \<Rightarrow> Some (if stop then loop_exit i s else set_loop i (l\<lparr>rl_phase := (case mc_session c of
           Some k \<Rightarrow> if mc_connected c then Waiting k else Checking | None \<Rightarrow> Checking)\<rparr>) s)
     | Waiting k \<Rightarrow> (if k \<in> set (ms_alive s) then None else Some (set_loop i (l\<lparr>rl_phase := Marking\<rparr>) s))
     | Marking \<Rightarrow> Some (set_loop i (l\<lparr>rl_phase := Checking\<rparr>) (s\<lparr>ms_client := c\<lparr>mc_connected := False\<rparr>\<rparr>))
     | Checking \<Rightarrow> Some (if stop then loop_exit i s else set_loop i (l\<lparr>rl_phase := Connecting\<rparr>) s)
     | Connecting \<Rightarrow> (if stop \<and> \<not> isl r then None
         else case do_connect False r s of
           (None, t) \<Rightarrow> Some (set_loop i (l\<lparr>rl_phase := Top, rl_backoff := 1\<rparr>) t)
         | (Some _, t) \<Rightarrow> Some (set_loop i (l\<lparr>rl_phase := Backing_Off\<rparr>) t))
     | Backing_Off \<Rightarrow> Some (set_loop i (l\<lparr>rl_phase := Checking, rl_backoff := next_backoff (rl_backoff l)\<rparr>) s))"

definition mcp_step :: "mcp_label \<Rightarrow> mcp_state \<Rightarrow> mcp_state option" where
  "mcp_step lab s = (case lab of
       User_Connect r \<Rightarrow> Some (snd (do_connect True r s))
     | Call_Started r \<Rightarrow> (case (if mc_connected (ms_client s) then (None, s) else do_connect True r s) of
           (None, t) \<Rightarrow> Some (t\<lparr>ms_calls := Suc (ms_calls t)\<rparr>) | (Some _, t) \<Rightarrow> Some t)
     | Call_Used \<Rightarrow> (if ms_calls s = 0 then None else Some (s\<lparr>ms_calls := ms_calls s - 1,
           ms_panics := ms_panics s + (if mc_session (ms_client s) = None then 1 else 0)\<rparr>))
     | Close_Cancel \<Rightarrow> Some (s\<lparr>ms_client := cancel_context (ms_client s), ms_closers := Suc (ms_closers s)\<rparr>)
     | Close_Drop \<Rightarrow> (if ms_closers s = 0 then None else Some (s\<lparr>ms_client := drop_session (ms_client s),
           ms_closers := ms_closers s - 1,
           ms_closing := (case mc_session (ms_client s) of None \<Rightarrow> [] | Some k \<Rightarrow> [k]) @ ms_closing s\<rparr>))
     | Session_Closed \<Rightarrow> (case ms_closing s of [] \<Rightarrow> None
         | k # ks \<Rightarrow> Some (s\<lparr>ms_closing := ks, ms_alive := removeAll k (ms_alive s)\<rparr>))
     | Server_Lost k \<Rightarrow> (if k \<in> set (ms_alive s) then Some (s\<lparr>ms_alive := removeAll k (ms_alive s)\<rparr>) else None)
     | Loop_Step i r \<Rightarrow> (if i < length (ms_loops s) then loop_step i (ms_loops s ! i) r s else None)
     | Loop_Cancelled i \<Rightarrow> (if i < length (ms_loops s) \<and> rl_phase (ms_loops s ! i) = Backing_Off \<and>
           cancelled (ms_client s) (rl_ctx (ms_loops s ! i)) then Some (loop_exit i s) else None))"

inductive mcp_reach :: "(mcp_label \<Rightarrow> bool) \<Rightarrow> mcp_client \<Rightarrow> mcp_state \<Rightarrow> bool" for ok c where
  mcp_new: "mcp_reach ok c (mcp_start c)"
| mcp_next: "mcp_reach ok c s \<Longrightarrow> ok l \<Longrightarrow> mcp_step l s = Some t \<Longrightarrow> mcp_reach ok c t"

interpretation mcp: transition_system "mcp_reach ok c" "\<lambda>s. s = mcp_start c" "\<lambda>s t. \<exists>l. ok l \<and> mcp_step l s = Some t" for ok c
proof (unfold_locales, goal_cases)
  case (1 P s)
  from 1(1) show ?case by (induction rule: mcp_reach.induct) (auto intro: 1(2,3))
next
  case (2 s s')
  then show ?case by (blast intro: mcp_next)
qed

fun mcp_run :: "mcp_label list \<Rightarrow> mcp_state \<Rightarrow> mcp_state option" where
  "mcp_run [] s = Some s"
| "mcp_run (l # ls) s = (case mcp_step l s of None \<Rightarrow> None | Some t \<Rightarrow> mcp_run ls t)"

section \<open>What a connection attempt does\<close>

lemma valid_transport:
  "NewClient cfg = Inr c \<Longrightarrow> \<exists>t. create_transport env (mc_config c) = Inr t"
  by (auto simp: NewClient_def validate_client_def create_transport_def Let_def split: if_splits option.splits)

text \<open>It changes nothing but a cancelled context, or it opens a session.\<close>

lemma do_connect_cases:
  assumes "do_connect start r s = (e, t)" and "\<exists>tr. create_transport [] (mc_config (ms_client s)) = Inr tr"
  obtains (kept) "t = s\<lparr>ms_client := renew_context (ms_client s)\<rparr>" "e = None \<longleftrightarrow> mc_connected (ms_client s)"
  | (fresh) "\<not> mc_connected (ms_client s)" "e = None" "r = Inr ()"
      "t = s\<lparr>ms_client := opened start (ms_next s) (renew_context (ms_client s)), ms_next := Suc (ms_next s),
        ms_alive := ms_next s # ms_alive s, ms_loops := ms_loops s @ (if start \<and> \<not> mc_reconnecting (ms_client s)
          then [\<lparr>rl_ctx = mc_ctx (renew_context (ms_client s)), rl_phase = Top, rl_backoff = 1\<rparr>] else [])\<rparr>"
proof -
  let ?c = "renew_context (ms_client s)"
  have same: "mc_connected ?c = mc_connected (ms_client s)" "mc_config ?c = mc_config (ms_client s)"
    "mc_reconnecting ?c = mc_reconnecting (ms_client s)" by (simp_all add: renew_context_def)
  show thesis
  proof (cases "mc_connected (ms_client s) \<or> isl r")
    case True
    then have "t = s\<lparr>ms_client := ?c\<rparr> \<and> (e = None \<longleftrightarrow> mc_connected (ms_client s))"
      using assms same by (cases r) (auto simp: do_connect_def client_connect_def dial_def Let_def)
    then show thesis by (intro kept) auto
  next
    case False
    then obtain u where "r = Inr u" by (cases r) auto
    with False assms same show thesis
      by (intro fresh) (auto simp: do_connect_def client_connect_def dial_def Let_def opened_def)
  qed
qed

end
