(* ===== verification/Mcp_Props.thy ===== *)
theory Mcp_Props
  imports Mcp_Run
begin

text \<open>
  Properties of the MCP client: what holds in every interleaving while nobody closes it, that it connects again,
  what closing can do to callers, and what the resolver of several servers answers.
\<close>

section \<open>One goroutine\<close>

definition watched :: "mcp_state \<Rightarrow> bool" where
  "watched s \<longleftrightarrow> (\<exists>t. create_transport [] (mc_config (ms_client s)) = Inr t) \<and>
     (ms_loops s = [] \<and> \<not> mc_reconnecting (ms_client s) \<or>
      (\<exists>l. ms_loops s = [l] \<and> mc_reconnecting (ms_client s) \<and> 1 \<le> rl_backoff l \<and> rl_backoff l \<le> 30)) \<and>
     (mc_connected (ms_client s) \<longrightarrow> mc_session (ms_client s) \<noteq> None)"

lemma watched_connect:
  assumes "watched s" and "do_connect start r s = (e, t)" and "start \<or> ms_loops s \<noteq> []"
  shows "watched t" and "e = None \<Longrightarrow> mc_connected (ms_client t)"
proof -
  have "\<exists>tr. create_transport [] (mc_config (ms_client s)) = Inr tr" using assms(1) by (simp add: watched_def)
  from assms(2) this have "watched t \<and> (e = None \<longrightarrow> mc_connected (ms_client t))"
  proof (cases rule: do_connect_cases)
    case kept
    with assms(1) show ?thesis by (auto simp: watched_def renew_context_def)
  next
    case fresh
    with assms(1,3) show ?thesis by (auto simp: watched_def renew_context_def opened_def)
  qed
  then show "watched t" "e = None \<Longrightarrow> mc_connected (ms_client t)" by blast+
qed

lemma connect_loops:
  assumes "do_connect False r s = (e, t)"
  shows "ms_loops t = ms_loops s"
  using assms by (auto simp: do_connect_def client_connect_def Let_def renew_context_def opened_def split: sum.splits prod.splits if_splits)

lemma next_backoff_bounds: "1 \<le> b \<Longrightarrow> b \<le> 30 \<Longrightarrow> 1 \<le> next_backoff b \<and> next_backoff b \<le> 30"
  by (simp add: next_backoff_def)

lemma watched_loop:
  assumes w: "watched s" and "i < length (ms_loops s)" and st: "loop_step i (ms_loops s ! i) r s = Some t"
  shows "watched t"
proof -
  obtain l where l: "ms_loops s = [l]" "i = 0" using assms(1,2) by (auto simp: watched_def)
  have st': "loop_step 0 l r s = Some t" using st l by simp
  show ?thesis
  proof (cases "rl_phase l = Connecting")
    case True
    obtain e u where c: "do_connect False r s = (e, u)" by fastforce
    have u: "watched u" "ms_loops u = [l]" using watched_connect(1) [OF w c] connect_loops [OF c] l by auto
    show ?thesis using st' u
      by (auto simp: loop_step_def Let_def True c set_loop_def watched_def split: if_splits option.splits)
  next
    case False
    then show ?thesis using st' w l next_backoff_bounds [of "rl_backoff l"]
      by (auto simp: loop_step_def Let_def set_loop_def loop_exit_def watched_def split: loop_phase.splits if_splits option.splits)
  qed
qed

lemma watched_step:
  assumes w: "watched s" and st: "mcp_step lab s = Some t"
  shows "watched t"
proof (cases lab)
  case (User_Connect r)
  obtain e u where c: "do_connect True r s = (e, u)" by fastforce
  with st User_Connect have "t = u" by (simp add: mcp_step_def)
  with watched_connect(1) [OF w c] show ?thesis by simp
next
  case (Call_Started r)
  obtain e u where c: "do_connect True r s = (e, u)" by fastforce
  with st Call_Started w watched_connect(1) [OF w c] show ?thesis
    by (auto simp: mcp_step_def watched_def split: if_splits option.splits)
next
  case (Loop_Step i r)
  with st watched_loop [OF w] show ?thesis by (auto simp: mcp_step_def split: if_splits)
next
  case (Loop_Cancelled i)
  with st w show ?thesis by (auto simp: mcp_step_def watched_def loop_exit_def split: if_splits)
qed (use st w in \<open>auto simp: mcp_step_def watched_def cancel_context_def drop_session_def split: if_splits list.splits\<close>)

section \<open>While nobody closes the client\<close>

definition no_close :: "mcp_label \<Rightarrow> bool" where
  "no_close l \<longleftrightarrow> l \<noteq> Close_Cancel"

definition phase_ok :: "mcp_state \<Rightarrow> reconnect_loop \<Rightarrow> bool" where
  "phase_ok s l \<longleftrightarrow> rl_ctx l = 0 \<and> (case rl_phase l of
       Waiting k \<Rightarrow> mc_session (ms_client s) = Some k \<and> mc_connected (ms_client s)
     | Marking \<Rightarrow> ms_alive s = [] \<and> mc_connected (ms_client s) | _ \<Rightarrow> True)"

definition steady :: "mcp_state \<Rightarrow> bool" where
  "steady s \<longleftrightarrow> watched s \<and> \<not> mc_cancelled (ms_client s) \<and> mc_ctx (ms_client s) = 0 \<and> ms_closers s = 0 \<and> ms_closing s = [] \<and>
     ms_panics s = 0 \<and> (ms_alive s = [] \<or> mc_connected (ms_client s) \<and> (\<exists>k. ms_alive s = [k] \<and> mc_session (ms_client s) = Some k)) \<and>
     (mc_session (ms_client s) \<noteq> None \<longrightarrow> ms_loops s \<noteq> []) \<and> (0 < ms_calls s \<longrightarrow> mc_session (ms_client s) \<noteq> None) \<and>
     (\<forall>l \<in> set (ms_loops s). phase_ok s l)"

lemma steady_connect:
  assumes s: "steady s" and c: "do_connect start r s = (e, t)" and "start \<or> ms_loops s \<noteq> []"
  shows "steady t" and "e = None \<Longrightarrow> mc_connected (ms_client t)"
proof -
  have w: "watched s" and tr: "\<exists>tr. create_transport [] (mc_config (ms_client s)) = Inr tr" using s by (simp_all add: steady_def watched_def)
  note wt = watched_connect [OF w c assms(3)]
  show "e = None \<Longrightarrow> mc_connected (ms_client t)" by (rule wt(2))
  have renew: "renew_context (ms_client s) = ms_client s" using s by (simp add: steady_def renew_context_def)
  from c tr show "steady t"
  proof (cases rule: do_connect_cases)
    case kept
    with s renew show ?thesis by simp
  next
    case fresh
    have a: "ms_alive s = []" using s fresh(1) by (auto simp: steady_def)
    have "phase_ok t l" if "l \<in> set (ms_loops s)" for l
      using that s fresh(1) by (auto simp: steady_def phase_ok_def fresh(4) renew opened_def a split: loop_phase.splits)
    moreover have "phase_ok t l" if "l \<in> set (ms_loops t)" "l \<notin> set (ms_loops s)" for l
      using that s by (auto simp: fresh(4) renew phase_ok_def steady_def split: if_splits)
    moreover have "ms_loops t \<noteq> []" using w assms(3) by (auto simp: fresh(4) watched_def)
    moreover have "ms_alive t = [ms_next s]" "mc_session (ms_client t) = Some (ms_next s)" "mc_connected (ms_client t)"
      "mc_cancelled (ms_client t) = mc_cancelled (ms_client s)" "mc_ctx (ms_client t) = mc_ctx (ms_client s)"
      "ms_closers t = ms_closers s" "ms_closing t = ms_closing s" "ms_panics t = ms_panics s"
      by (simp_all add: fresh(4) renew opened_def a)
    ultimately show ?thesis using wt(1) s unfolding steady_def by auto
  qed
qed
lemma steady_move:
  assumes "steady s" and "ms_loops s = [l]" and "t = set_loop 0 m s" and "watched t" and "phase_ok s m"
  shows "steady t"
proof -
  have "phase_ok t m = phase_ok s m" by (simp add: assms(3) set_loop_def phase_ok_def split: loop_phase.split)
  with assms show ?thesis unfolding steady_def by (auto simp: set_loop_def)
qed

lemma not_cancelled: "steady s \<Longrightarrow> l \<in> set (ms_loops s) \<Longrightarrow> \<not> cancelled (ms_client s) (rl_ctx l)"
  by (auto simp: steady_def cancelled_def)

lemma steady_loop:
  assumes s: "steady s" and i: "i < length (ms_loops s)" and st: "loop_step i (ms_loops s ! i) r s = Some t"
  shows "steady t"
proof -
  have w: "watched s" using s by (simp add: steady_def)
  note wt = watched_loop [OF w i st]
  obtain l where l: "ms_loops s = [l]" "i = 0" using w i by (auto simp: watched_def)
  have st': "loop_step 0 l r s = Some t" using st l by simp
  have p: "phase_ok s l" and nc: "\<not> cancelled (ms_client s) (rl_ctx l)" using s l not_cancelled [OF s] by (simp_all add: steady_def)
  show ?thesis
  proof (cases "rl_phase l")
    case Connecting
    obtain e u where c: "do_connect False r s = (e, u)" by fastforce
    have u: "steady u" "ms_loops u = [l]" using steady_connect(1) [OF s c] connect_loops [OF c] l by auto
    have ctx: "rl_ctx l = 0" using p by (simp add: phase_ok_def)
    obtain m where m: "t = set_loop 0 m u" "rl_ctx m = 0" "rl_phase m = Top \<or> rl_phase m = Backing_Off"
      using st' ctx by (auto simp: loop_step_def Let_def Connecting c split: if_splits option.splits)
    show ?thesis by (rule steady_move [OF u m(1) wt]) (use m in \<open>auto simp: phase_ok_def\<close>)
  next
    case Marking
    have t: "t = set_loop 0 (l\<lparr>rl_phase := Checking\<rparr>) (s\<lparr>ms_client := (ms_client s)\<lparr>mc_connected := False\<rparr>\<rparr>)"
      using st' by (simp add: loop_step_def Let_def Marking)
    have "ms_alive s = []" using p by (simp add: phase_ok_def Marking)
    with s p wt show ?thesis by (simp add: steady_def t set_loop_def l phase_ok_def)
  next
    case Top
    have "\<exists>q. t = set_loop 0 (l\<lparr>rl_phase := q\<rparr>) s \<and> (\<forall>k. q = Waiting k \<longrightarrow> mc_session (ms_client s) = Some k \<and> mc_connected (ms_client s)) \<and> q \<noteq> Marking"
      using st' nc by (auto simp: loop_step_def Let_def Top split: option.splits if_splits intro!: exI)
    then obtain q where q: "t = set_loop 0 (l\<lparr>rl_phase := q\<rparr>) s"
      "\<forall>k. q = Waiting k \<longrightarrow> mc_session (ms_client s) = Some k \<and> mc_connected (ms_client s)" "q \<noteq> Marking" by blast
    show ?thesis by (rule steady_move [OF s l(1) q(1) wt]) (use q p in \<open>cases q; auto simp: phase_ok_def\<close>)
  next
    case (Waiting k)
    then have k: "k \<notin> set (ms_alive s)" "t = set_loop 0 (l\<lparr>rl_phase := Marking\<rparr>) s"
      using st' by (auto simp: loop_step_def Let_def split: if_splits)
    have "mc_session (ms_client s) = Some k" "mc_connected (ms_client s)" using p by (simp_all add: phase_ok_def Waiting)
    with s k(1) have "ms_alive s = []" by (auto simp: steady_def)
    show ?thesis by (rule steady_move [OF s l(1) k(2) wt]) (use p Waiting \<open>ms_alive s = []\<close> in \<open>simp add: phase_ok_def\<close>)
  next
    case Checking
    then have t: "t = set_loop 0 (l\<lparr>rl_phase := Connecting\<rparr>) s" using st' nc by (simp add: loop_step_def Let_def)
    show ?thesis by (rule steady_move [OF s l(1) t wt]) (use p in \<open>simp add: phase_ok_def\<close>)
  next
    case Backing_Off
    then have t: "t = set_loop 0 (l\<lparr>rl_phase := Checking, rl_backoff := next_backoff (rl_backoff l)\<rparr>) s"
      using st' by (simp add: loop_step_def Let_def)
    show ?thesis by (rule steady_move [OF s l(1) t wt]) (use p in \<open>simp add: phase_ok_def\<close>)
  qed
qed

lemma steady_step:
  assumes s: "steady s" and "no_close lab" and st: "mcp_step lab s = Some t"
  shows "steady t"
proof -
  have w: "watched t" using watched_step [OF _ st] s by (simp add: steady_def)
  show ?thesis
  proof (cases lab)
    case (User_Connect r)
    with st obtain e where "do_connect True r s = (e, t)" by (cases "do_connect True r s") (auto simp: mcp_step_def)
    with steady_connect(1) [OF s this] show ?thesis by simp
  next
    case (Call_Started r)
    obtain e u where c: "do_connect True r s = (e, u)" by fastforce
    have u: "steady u" "e = None \<Longrightarrow> mc_session (ms_client u) \<noteq> None"
      using steady_connect [OF s c] by (auto simp: steady_def watched_def)
    have "\<exists>v. steady v \<and> (t = v \<or> t = v\<lparr>ms_calls := Suc (ms_calls v)\<rparr> \<and> mc_session (ms_client v) \<noteq> None)"
    proof (cases "mc_connected (ms_client s)")
      case True
      then have "t = s\<lparr>ms_calls := Suc (ms_calls s)\<rparr>" "mc_session (ms_client s) \<noteq> None"
        using st s Call_Started by (auto simp: mcp_step_def steady_def watched_def)
      with s show ?thesis by blast
    next
      case False
      then have "t = u \<or> t = u\<lparr>ms_calls := Suc (ms_calls u)\<rparr> \<and> e = None"
        using st Call_Started c by (auto simp: mcp_step_def split: option.splits)
      with u show ?thesis by blast
    qed
    then obtain v where v: "steady v" "t = v \<or> t = v\<lparr>ms_calls := Suc (ms_calls v)\<rparr> \<and> mc_session (ms_client v) \<noteq> None" by blast
    have "phase_ok (v\<lparr>ms_calls := n\<rparr>) l = phase_ok v l" for n l by (simp add: phase_ok_def split: loop_phase.split)
    with v w show ?thesis by (auto simp: steady_def)
  next
    case Call_Used
    have "phase_ok (s\<lparr>ms_calls := n, ms_panics := m\<rparr>) l = phase_ok s l" for n m l by (simp add: phase_ok_def split: loop_phase.split)
    with st s w Call_Used show ?thesis by (auto simp: mcp_step_def steady_def split: if_splits)
  next
    case (Server_Lost k)
    have "phase_ok (s\<lparr>ms_alive := []\<rparr>) l" if "phase_ok s l" for l using that by (simp add: phase_ok_def split: loop_phase.splits)
    with st s w Server_Lost show ?thesis by (auto simp: mcp_step_def steady_def split: if_splits)
  next
    case (Loop_Step i r)
    with st steady_loop [OF s] show ?thesis by (auto simp: mcp_step_def split: if_splits)
  next
    case (Loop_Cancelled i)
    with st not_cancelled [OF s, of "ms_loops s ! i"] show ?thesis by (auto simp: mcp_step_def split: if_splits)
  qed (use st s assms(2) in \<open>auto simp: mcp_step_def steady_def no_close_def\<close>)
qed

lemma steady_reach:
  assumes "NewClient cfg = Inr c" and "mcp_reach no_close c s"
  shows "steady s"
proof (rule mcp.invariant_rule [OF _ _ assms(2)])
  show "steady s" if "s = mcp_start c" for s
    using that assms(1) valid_transport [OF assms(1), of "[]"]
    by (auto simp: steady_def watched_def mcp_start_def NewClient_def Let_def split: if_splits option.splits)
qed (blast intro: steady_step)

text \<open>C35: The connection of an MCP client. While nobody closes it, in every interleaving of callers, the goroutine
  that connects again and the server: at most one session is open, and it is the one the client uses; no
  call finds the client without a session; once there is a session exactly one goroutine watches it, and
  it waits between 1 and 30 seconds between attempts.\<close>

theorem mcp_connection:
  assumes "NewClient cfg = Inr c" and "mcp_reach no_close c s"
  shows "(ms_alive s = [] \<or> mc_connected (ms_client s) \<and> (\<exists>k. ms_alive s = [k] \<and> mc_session (ms_client s) = Some k)) \<and>
    ms_panics s = 0 \<and> length (ms_loops s) \<le> 1 \<and> (mc_session (ms_client s) \<noteq> None \<longrightarrow> length (ms_loops s) = 1) \<and>
    (\<forall>l \<in> set (ms_loops s). 1 \<le> rl_backoff l \<and> rl_backoff l \<le> 30)"
  using steady_reach [OF assms] by (auto simp: steady_def watched_def)

definition demo_server :: client_config where
  "demo_server = \<lparr>cc_Name = ''files'', cc_Transport = ''stdio'', cc_Command = ''server'', cc_Args = [], cc_Env = [], cc_WorkDir = [],
     cc_Endpoint = [], cc_Headers = [], cc_Timeout = 0\<rparr>"

definition demo_client :: mcp_client where
  "demo_client = projr (NewClient demo_server)"

lemma demo_client: "NewClient demo_server = Inr demo_client"
  by code_simp

lemma mcp_run_reach: "mcp_reach ok c s \<Longrightarrow> \<forall>l \<in> set ls. ok l \<Longrightarrow> mcp_run ls s = Some t \<Longrightarrow> mcp_reach ok c t"
  by (induction ls arbitrary: s) (auto split: option.splits intro: mcp_next)

definition lost_and_found :: "mcp_label list" where
  "lost_and_found = [User_Connect (Inr ()), Loop_Step 0 (Inr ()), Call_Started (Inr ()), Server_Lost 0, Call_Used, Loop_Step 0 (Inr ()),
     Loop_Step 0 (Inr ()), Loop_Step 0 (Inr ()), Loop_Step 0 (Inl ''refused''), Loop_Step 0 (Inr ()), Loop_Step 0 (Inr ()), Loop_Step 0 (Inr ())]"

lemma lost_and_found_run:
  "map_option (\<lambda>s. (ms_alive s, mc_session (ms_client s))) (mcp_run lost_and_found (mcp_start demo_client)) = Some ([1], Some 1)"
  "list_all no_close lost_and_found"
  by code_simp+

theorem mcp_connection_witness:
  "\<exists>s. mcp_run lost_and_found (mcp_start demo_client) = Some s \<and> ms_alive s = [1] \<and> mc_connected (ms_client s) \<and>
     ms_panics s = 0 \<and> length (ms_loops s) = 1"
proof -
  obtain s where s: "mcp_run lost_and_found (mcp_start demo_client) = Some s" "ms_alive s = [1]" "mc_session (ms_client s) = Some 1"
    using lost_and_found_run(1) by auto
  have "mcp_reach no_close demo_client s"
    using mcp_run_reach [OF mcp_new _ s(1)] lost_and_found_run(2) by (simp add: list_all_iff)
  from mcp_connection [OF demo_client this] s show ?thesis by auto
qed

section \<open>Connecting again\<close>

text \<open>How far the goroutine is from a new session.\<close>

definition rank :: "mcp_state \<Rightarrow> nat" where
  "rank s = (let c = mc_connected (ms_client s) in case rl_phase (hd (ms_loops s)) of
       Connecting \<Rightarrow> if c then 6 else 1 | Checking \<Rightarrow> if c then 7 else 2 | Backing_Off \<Rightarrow> if c then 8 else 3
     | Top \<Rightarrow> if c then 5 else 3 | Waiting _ \<Rightarrow> 4 | Marking \<Rightarrow> 3)"

lemma rank_le: "rank s \<le> 8"
  by (simp add: rank_def Let_def split: loop_phase.split)

abbreviation go_on :: mcp_label where "go_on \<equiv> Loop_Step 0 (Inr ())"

lemma rank_step:
  assumes s: "steady s" and "mc_session (ms_client s) \<noteq> None" and a: "ms_alive s = []"
  shows "\<exists>t. mcp_step go_on s = Some t \<and> mc_session (ms_client t) \<noteq> None \<and> (ms_alive t = [] \<longrightarrow> rank t < rank s)"
proof -
  obtain l where l: "ms_loops s = [l]" using s assms(2) by (auto simp: steady_def watched_def)
  have p: "phase_ok s l" and nc: "\<not> cancelled (ms_client s) (rl_ctx l)" using s l not_cancelled [OF s] by (simp_all add: steady_def)
  have tr: "\<exists>tr. create_transport [] (mc_config (ms_client s)) = Inr tr" using s by (simp add: steady_def watched_def)
  show ?thesis
  proof (cases "rl_phase l = Connecting")
    case True
    obtain e u where c: "do_connect False (Inr ()) s = (e, u)" by fastforce
    have renew: "renew_context (ms_client s) = ms_client s" using s by (simp add: steady_def renew_context_def)
    have e: "e = None" "mc_session (ms_client u) \<noteq> None" "ms_loops u = [l]"
      "mc_connected (ms_client s) \<Longrightarrow> u = s" "\<not> mc_connected (ms_client s) \<Longrightarrow> ms_alive u \<noteq> []"
      using c tr assms(2) l by (auto simp: do_connect_def client_connect_def dial_def Let_def renew opened_def split: if_splits)
    with l nc True c show ?thesis by (cases "mc_connected (ms_client s)") (auto simp: mcp_step_def loop_step_def Let_def set_loop_def rank_def)
  next
    case False
    with l p nc a assms(2) show ?thesis
      by (cases "rl_phase l") (auto simp: mcp_step_def loop_step_def Let_def set_loop_def rank_def phase_ok_def)
  qed
qed

lemma reconnects_in:
  assumes "steady s" and "mc_session (ms_client s) \<noteq> None"
  shows "\<exists>n t. n \<le> rank s \<and> mcp_run (replicate n go_on) s = Some t \<and> mc_connected (ms_client t) \<and>
    (\<exists>k. mc_session (ms_client t) = Some k \<and> k \<in> set (ms_alive t))"
  using assms
proof (induction "rank s" arbitrary: s rule: less_induct)
  case less
  show ?case
  proof (cases "ms_alive s = []")
    case False
    with less.prems show ?thesis by (intro exI [of _ 0] exI [of _ s]) (auto simp: steady_def)
  next
    case True
    obtain t where t: "mcp_step go_on s = Some t" "mc_session (ms_client t) \<noteq> None" "ms_alive t = [] \<longrightarrow> rank t < rank s"
      using rank_step [OF less.prems True] by blast
    have st: "steady t" using steady_step [OF less.prems(1) _ t(1)] by (simp add: no_close_def)
    have pos: "0 < rank s" by (simp add: rank_def Let_def split: loop_phase.split)
    obtain n u where u: "n < rank s" "mcp_run (replicate n go_on) t = Some u" "mc_connected (ms_client u)"
      "\<exists>k. mc_session (ms_client u) = Some k \<and> k \<in> set (ms_alive u)"
    proof (cases "ms_alive t = []")
      case True
      with t(3) have r: "rank t < rank s" by simp
      obtain n u where "n \<le> rank t" "mcp_run (replicate n go_on) t = Some u" "mc_connected (ms_client u)"
        "\<exists>k. mc_session (ms_client u) = Some k \<and> k \<in> set (ms_alive u)" using less.hyps [OF r st t(2)] by blast
      with r that [of n u] show thesis by simp
    next
      case False
      with st pos that [of 0 t] show thesis by (auto simp: steady_def)
    qed
    from u t(1) show ?thesis by (intro exI [of _ "Suc n"] exI [of _ u]) simp
  qed
qed

text \<open>C36: A client whose session is lost connects again by itself. From every state it can reach while nobody
  closes it, once it has had a session, at most eight steps of its goroutine, its attempts being answered,
  lead to a state in which it is connected to an open session.\<close>

theorem mcp_reconnects:
  assumes "NewClient cfg = Inr c" and "mcp_reach no_close c s" and "mc_session (ms_client s) \<noteq> None"
  shows "\<exists>n t. n \<le> 8 \<and> mcp_run (replicate n (Loop_Step 0 (Inr ()))) s = Some t \<and> mc_connected (ms_client t) \<and>
    (\<exists>k. mc_session (ms_client t) = Some k \<and> k \<in> set (ms_alive t))"
  using reconnects_in [OF steady_reach [OF assms(1,2)] assms(3)] rank_le [of s] order.trans by blast

definition just_lost :: "mcp_label list" where
  "just_lost = [User_Connect (Inr ()), Server_Lost 0]"

theorem mcp_reconnects_witness:
  "\<exists>s n t. mcp_run just_lost (mcp_start demo_client) = Some s \<and> ms_alive s = [] \<and> n \<le> 8 \<and>
     mcp_run (replicate n (Loop_Step 0 (Inr ()))) s = Some t \<and> mc_connected (ms_client t) \<and> ms_alive t \<noteq> []"
proof -
  have "map_option (\<lambda>s. (ms_alive s, mc_session (ms_client s))) (mcp_run just_lost (mcp_start demo_client)) = Some ([], Some 0)"
    by code_simp
  then obtain s where s: "mcp_run just_lost (mcp_start demo_client) = Some s" "ms_alive s = []" "mc_session (ms_client s) = Some 0"
    by auto
  have "mcp_reach no_close demo_client s" using mcp_run_reach [OF mcp_new _ s(1), of no_close] by (simp add: just_lost_def no_close_def)
  from mcp_reconnects [OF demo_client this] s show ?thesis by fastforce
qed

section \<open>Closing\<close>

definition closed_under_call :: "mcp_label list" where
  "closed_under_call = [User_Connect (Inr ()), Call_Started (Inr ()), Close_Cancel, Close_Drop, Call_Used]"

definition late_goroutine :: "mcp_label list" where
  "late_goroutine = [User_Connect (Inr ()), Loop_Step 0 (Inr ()), Close_Cancel, Close_Drop, Session_Closed, User_Connect (Inr ()),
     Loop_Step 0 (Inr ()), Loop_Step 0 (Inr ()), Loop_Step 0 (Inr ())]"

lemma closing_runs:
  "map_option ms_panics (mcp_run closed_under_call (mcp_start demo_client)) = Some 1"
  "map_option (\<lambda>s. (ms_alive s, mc_connected (ms_client s), length (ms_loops s))) (mcp_run late_goroutine (mcp_start demo_client)) = Some ([1], False, 0)"
  "map_option (\<lambda>s. (ms_alive s, mc_session (ms_client s)))
     (mcp_run (late_goroutine @ [Call_Started (Inr ())]) (mcp_start demo_client)) = Some ([2, 1], Some 2)"
  by code_simp+

text \<open>C37: Closing is not safe for those who still use the client. A run exists in which a call finds the client
  connected and then no session, a nil pointer; and one in which a client that is closed and connected
  again is marked as disconnected by the goroutine of the old connection, which then ends: the open
  session is not watched, and the next call opens another one beside it.\<close>

theorem closing_races:
  "(\<exists>ls s. mcp_run ls (mcp_start demo_client) = Some s \<and> 0 < ms_panics s) \<and>
   (\<exists>ls s t. mcp_run ls (mcp_start demo_client) = Some s \<and> ms_alive s = [1] \<and> \<not> mc_connected (ms_client s) \<and> ms_loops s = [] \<and>
      mcp_run (ls @ [Call_Started (Inr ())]) (mcp_start demo_client) = Some t \<and> ms_alive t = [2, 1] \<and> mc_session (ms_client t) = Some 2)"
proof
  show "\<exists>ls s. mcp_run ls (mcp_start demo_client) = Some s \<and> 0 < ms_panics s"
    using closing_runs(1) by (intro exI [of _ closed_under_call]) auto
  obtain s t where "mcp_run late_goroutine (mcp_start demo_client) = Some s" "ms_alive s = [1]" "\<not> mc_connected (ms_client s)" "ms_loops s = []"
    "mcp_run (late_goroutine @ [Call_Started (Inr ())]) (mcp_start demo_client) = Some t" "ms_alive t = [2, 1]" "mc_session (ms_client t) = Some 2"
    using closing_runs(2,3) by auto
  then show "\<exists>ls s t. mcp_run ls (mcp_start demo_client) = Some s \<and> ms_alive s = [1] \<and> \<not> mc_connected (ms_client s) \<and> ms_loops s = [] \<and>
      mcp_run (ls @ [Call_Started (Inr ())]) (mcp_start demo_client) = Some t \<and> ms_alive t = [2, 1] \<and> mc_session (ms_client t) = Some 2"
    by (intro exI [of _ late_goroutine] exI [of _ s] exI [of _ t] conjI)
qed

section \<open>The resolver\<close>

text \<open>The resolver asks its servers once. When it has answered, every later answer is the same, whatever the
  servers do; while none of them gave a tool and one failed it asks again.\<close>

theorem resolved_once:
  assumes "Resolver_Resolve sdk r p = (Inr ts, r', q)"
  shows "tr_loaded r' \<and> Resolver_Resolve sdk r' q' = (Inr ts, r', q')"
  using assms by (auto simp: Resolver_Resolve_def split: if_splits prod.splits)

end
