(* ===== verification/Go_Path.thy ===== *)
theory Go_Path
  imports Go_Strings
begin

text \<open>
  The functions of Go's package \<open>path\<close> (and, for slash-separated systems, \<open>path/filepath\<close>) that
  the sources use: \<open>Clean\<close>, \<open>Join\<close>, \<open>Dir\<close>, \<open>Base\<close>, \<open>Ext\<close>, \<open>IsAbs\<close>, \<open>Rel\<close> and the patterns of
  \<open>Match\<close>.
\<close>

section \<open>Lexical paths\<close>

abbreviation slash :: char where "slash \<equiv> CHR ''/''"

definition IsAbs :: "string \<Rightarrow> bool" where
  "IsAbs p = HasPrefix p [slash]"

text \<open>The elements of a path without the empty and the dot elements, and the elimination of
  \<open>..\<close>; the stack holds the elements kept so far, the last one first.\<close>

definition elements :: "string \<Rightarrow> string list" where
  "elements p = filter (\<lambda>e. e \<noteq> [] \<and> e \<noteq> ''.'') (split_on slash p)"

fun clean_step :: "bool \<Rightarrow> string \<Rightarrow> string list \<Rightarrow> string list" where
  "clean_step rooted e stack =
     (if e \<noteq> ''..'' then e # stack
      else case stack of
        [] \<Rightarrow> (if rooted then [] else [e])
      | last_kept # rest \<Rightarrow> (if last_kept = ''..'' then e # stack else rest))"

definition clean_elements :: "bool \<Rightarrow> string list \<Rightarrow> string list" where
  "clean_elements rooted es = rev (fold (clean_step rooted) es [])"

definition assemble :: "bool \<Rightarrow> string list \<Rightarrow> string" where
  "assemble rooted es = (if rooted then slash # Join es [slash] else if es = [] then ''.'' else Join es [slash])"

definition Clean :: "string \<Rightarrow> string" where
  "Clean p = assemble (IsAbs p) (clean_elements (IsAbs p) (elements p))"

definition Path_Join :: "string list \<Rightarrow> string" where
  "Path_Join ps = (let qs = filter (\<lambda>p. p \<noteq> []) ps in if qs = [] then [] else Clean (Join qs [slash]))"

text \<open>The part up to and including the last slash, and what follows it.\<close>

definition path_file :: "string \<Rightarrow> string" where
  "path_file p = rev (takeWhile (\<lambda>c. c \<noteq> slash) (rev p))"

definition Dir :: "string \<Rightarrow> string" where
  "Dir p = Clean (take (length p - length (path_file p)) p)"

definition Base :: "string \<Rightarrow> string" where
  "Base p = (if p = [] then ''.'' else
     let q = rev (dropWhile (\<lambda>c. c = slash) (rev p)) in if q = [] then [slash] else path_file q)"

definition Ext :: "string \<Rightarrow> string" where
  "Ext p = (let f = path_file p; e = takeWhile (\<lambda>c. c \<noteq> CHR ''.'') (rev f)
     in if length e < length f then CHR ''.'' # rev e else [])"

text \<open>\<open>filepath.Rel\<close> of two paths that are both rooted or both not: \<open>..\<close> out of what is left of the
  base after the common elements, then what is left of the target.\<close>

fun strip_common :: "string list \<Rightarrow> string list \<Rightarrow> string list \<times> string list" where
  "strip_common (b # bs) (t # ts) = (if b = t then strip_common bs ts else (b # bs, t # ts))"
| "strip_common bs ts = (bs, ts)"

definition Rel :: "string \<Rightarrow> string \<Rightarrow> string option" where
  "Rel base target =
     (if IsAbs base \<noteq> IsAbs target then None
      else case strip_common (elements (Clean base)) (elements (Clean target)) of (bs, ts) \<Rightarrow>
        if ''..'' \<in> set bs then None
        else Some (let es = replicate (length bs) ''..'' @ ts in if es = [] then ''.'' else Join es [slash]))"

section \<open>Cleaned paths\<close>

text \<open>A path element that names an entry of a directory.\<close>

definition proper :: "string \<Rightarrow> bool" where
  "proper e \<longleftrightarrow> e \<noteq> [] \<and> e \<noteq> ''.'' \<and> e \<noteq> ''..'' \<and> slash \<notin> set e"

lemma elements_no_slash: "e \<in> set (elements p) \<Longrightarrow> slash \<notin> set e \<and> e \<noteq> [] \<and> e \<noteq> ''.''"
  by (auto simp: elements_def dest: split_on_no_sep)

lemma elements_Join:
  assumes "\<forall>e \<in> set es. proper e"
  shows "elements (Join es [slash]) = es"
proof (cases "es = []")
  case False
  then have "split_on slash (Join es [slash]) = es" using assms by (intro split_Join) (auto simp: proper_def)
  moreover have "filter (\<lambda>e. e \<noteq> [] \<and> e \<noteq> ''.'') es = es" using assms by (auto simp: proper_def filter_id_conv)
  ultimately show ?thesis by (simp add: elements_def)
qed (simp add: elements_def)

lemma elements_slash [simp]: "elements (slash # p) = elements p"
  by (simp add: elements_def)

lemma elements_append [simp]: "elements (p @ slash # q) = elements p @ elements q"
proof -
  have "split_on slash (p @ slash # q) = split_on slash p @ split_on slash q"
  proof (induction p)
    case (Cons c p)
    obtain w ws where "split_on slash p = w # ws" using split_on_nonempty list.exhaust by metis
    with Cons show ?case by simp
  qed simp
  then show ?thesis by (simp add: elements_def)
qed

lemma fold_clean_proper: "\<forall>e \<in> set es. proper e \<Longrightarrow> fold (clean_step rooted) es stack = rev es @ stack"
  by (induction es arbitrary: stack) (auto simp: proper_def)

lemma clean_elements_proper: "\<forall>e \<in> set es. proper e \<Longrightarrow> clean_elements rooted es = es"
  by (simp add: clean_elements_def fold_clean_proper)

text \<open>What \<open>Clean\<close> leaves: leading \<open>..\<close> elements of a path that is not rooted, then proper ones.\<close>

lemma clean_shape:
  assumes "\<forall>e \<in> set es. slash \<notin> set e \<and> e \<noteq> [] \<and> e \<noteq> ''.''"
  shows "\<exists>k qs. clean_elements rooted es = replicate k ''..'' @ qs \<and> (\<forall>q \<in> set qs. proper q) \<and> (rooted \<longrightarrow> k = 0)"
proof -
  have "\<exists>k' qs'. fold (clean_step rooted) es (rev (replicate k ''..'' @ qs)) = rev (replicate k' ''..'' @ qs') \<and>
      (\<forall>q \<in> set qs'. proper q) \<and> (rooted \<longrightarrow> k' = 0)"
    if "\<forall>q \<in> set qs. proper q" "rooted \<longrightarrow> k = 0" for k qs
    using assms that
  proof (induction es arbitrary: k qs)
    case (Cons e es)
    show ?case
    proof (cases "e = ''..''")
      case False
      then have "clean_step rooted e (rev (replicate k ''..'' @ qs)) = rev (replicate k ''..'' @ (qs @ [e]))" by simp
      then show ?thesis using Cons.IH [of "qs @ [e]" k] Cons.prems False by (auto simp: proper_def)
    next
      case up: True
      show ?thesis
      proof (cases qs rule: rev_cases)
        case Nil
        have "clean_step rooted e (rev (replicate k ''..'' @ qs)) =
            rev (replicate (if rooted then 0 else Suc k) ''..'' @ [])"
          using Nil up Cons.prems(3) by (cases k) (simp_all only: rev_append rev_replicate rev.simps append_Nil append_Nil2, auto)
        then show ?thesis using Cons.IH [of "[]" "if rooted then 0 else Suc k"] Cons.prems by auto
      next
        case (snoc qs0 q)
        then have "clean_step rooted e (rev (replicate k ''..'' @ qs)) = rev (replicate k ''..'' @ qs0)"
          using up Cons.prems(2) by (auto simp: proper_def)
        then show ?thesis using Cons.IH [of qs0 k] Cons.prems snoc by auto
      qed
    qed
  qed auto
  from this [of "[]" 0] obtain k qs where "fold (clean_step rooted) es [] = rev (replicate k ''..'' @ qs)"
      "\<forall>q \<in> set qs. proper q" "rooted \<longrightarrow> k = 0" by auto
  then show ?thesis unfolding clean_elements_def by (metis rev_rev_ident)
qed

lemma Clean_rooted:
  "\<forall>e \<in> set es. proper e \<Longrightarrow> Clean (slash # Join es [slash]) = slash # Join es [slash]"
  by (simp add: Clean_def IsAbs_def elements_Join clean_elements_proper assemble_def)

text \<open>A path below a rooted directory.\<close>

lemma Join_below:
  assumes "\<forall>e \<in> set (rs @ es). proper e" and "es \<noteq> []"
  shows "Path_Join [slash # Join rs [slash], Join es [slash]] = slash # Join (rs @ es) [slash]"
proof -
  obtain e es' where es: "es = e # es'" using assms(2) by (cases es) auto
  then have "Join es [slash] \<noteq> []" using assms(1) by (cases es') (auto simp: proper_def)
  then have "Path_Join [slash # Join rs [slash], Join es [slash]] = Clean (slash # Join rs [slash] @ slash # Join es [slash])"
    by (simp add: Path_Join_def)
  also have "\<dots> = slash # Join (rs @ es) [slash]"
    using assms by (simp add: Clean_def IsAbs_def elements_Join clean_elements_proper assemble_def)
  finally show ?thesis .
qed

lemma strip_common_prefix: "strip_common bs (bs @ ts) = ([], ts)"
  by (induction bs) (cases ts; simp)+

lemma Rel_below:
  assumes "\<forall>e \<in> set (rs @ es). proper e" and "es \<noteq> []"
  shows "Rel (slash # Join rs [slash]) (slash # Join (rs @ es) [slash]) = Some (Join es [slash])"
proof -
  have "elements (Clean (slash # Join (rs @ es) [slash])) = rs @ es" "elements (Clean (slash # Join rs [slash])) = rs"
    using assms by (simp_all add: Clean_rooted elements_Join)
  then show ?thesis using assms(2) by (simp add: Rel_def IsAbs_def strip_common_prefix)
qed

section \<open>Rooted paths\<close>

text \<open>A cleaned absolute path, and a path at or below another.\<close>

definition rooted_path :: "string \<Rightarrow> bool" where
  "rooted_path p \<longleftrightarrow> (\<exists>es. p = slash # Join es [slash] \<and> (\<forall>e \<in> set es. proper e))"

definition within :: "string \<Rightarrow> string \<Rightarrow> bool" where
  "within root p \<longleftrightarrow> (\<exists>rs es. root = slash # Join rs [slash] \<and> p = slash # Join (rs @ es) [slash] \<and> (\<forall>e \<in> set (rs @ es). proper e))"

lemma within_rooted: "within root p \<Longrightarrow> rooted_path root \<and> rooted_path p"
  by (auto simp: within_def rooted_path_def)

lemma IsAbs_append: "q \<noteq> [] \<Longrightarrow> IsAbs (q @ f) = IsAbs q"
  by (cases q) (auto simp: IsAbs_def)

lemma clean_elements_shape:
  "\<exists>k qs. clean_elements r (elements p) = replicate k ''..'' @ qs \<and> (\<forall>q \<in> set qs. proper q) \<and> (r \<longrightarrow> k = 0)"
  by (rule clean_shape) (use elements_no_slash in blast)

lemma Clean_absolute: "IsAbs p \<Longrightarrow> rooted_path (Clean p)"
  using clean_elements_shape [of True p] by (auto simp: rooted_path_def Clean_def assemble_def)

lemma rooted_path_Clean [simp]: "rooted_path p \<Longrightarrow> Clean p = p"
  using Clean_rooted by (auto simp: rooted_path_def)

lemma rooted_path_abs: "rooted_path p \<Longrightarrow> IsAbs p"
  by (auto simp: rooted_path_def IsAbs_def)

lemma rooted_path_elements: "rooted_path p \<Longrightarrow> p = slash # Join (elements p) [slash] \<and> (\<forall>e \<in> set (elements p). proper e)"
  by (auto simp: rooted_path_def elements_Join)

lemma within_elements:
  assumes "rooted_path root" and "rooted_path p"
  shows "within root p \<longleftrightarrow> prefix (elements root) (elements p)"
proof
  assume "within root p"
  then show "prefix (elements root) (elements p)" by (auto simp: within_def elements_Join)
next
  assume "prefix (elements root) (elements p)"
  then obtain es where "elements p = elements root @ es" by (auto simp: prefix_def)
  then show "within root p"
    using rooted_path_elements [OF assms(1)] rooted_path_elements [OF assms(2)]
    unfolding within_def by (intro exI [of _ "elements root"] exI [of _ es]) simp
qed

lemma within_refl [simp]: "rooted_path p \<Longrightarrow> within p p"
  by (simp add: within_elements)

lemma strip_common_left: "strip_common bs ts = ([], us) \<Longrightarrow> prefix bs ts"
  by (induction bs ts rule: strip_common.induct) (auto split: if_splits)

lemma strip_common_elements: "strip_common bs ts = (xs, ys) \<Longrightarrow> set xs \<subseteq> set bs \<and> set ys \<subseteq> set ts"
  by (induction bs ts rule: strip_common.induct) (auto split: if_splits)

text \<open>A relative path that does not start with \<open>..\<close> leads below its base.\<close>

lemma Rel_within:
  assumes root: "rooted_path root" and p: "rooted_path p"
    and rel: "Rel root p = Some r" "r \<noteq> ''..''" "\<not> HasPrefix r ''../''"
  shows "within root p"
proof -
  obtain bs ts where st: "strip_common (elements root) (elements p) = (bs, ts)" by fastforce
  have r: "(let es = replicate (length bs) ''..'' @ ts in if es = [] then ''.'' else Join es [slash]) = r"
    using rel(1) root p st by (auto simp: Rel_def rooted_path_abs split: if_splits)
  have "bs = []"
  proof (rule ccontr)
    assume "bs \<noteq> []"
    then obtain es where es: "replicate (length bs) ''..'' @ ts = ''..'' # es" by (cases bs) auto
    have "r = Join (''..'' # es) [slash]" using r unfolding es Let_def by simp
    with rel(2,3) show False by (cases es) auto
  qed
  then have "prefix (elements root) (elements p)" using st strip_common_left by metis
  with root p show ?thesis by (simp add: within_elements)
qed

lemma within_Rel:
  assumes "within root p"
  shows "\<exists>r. Rel root p = Some r \<and> r \<noteq> ''..'' \<and> \<not> HasPrefix r ''../''"
proof -
  obtain rs es where w: "root = slash # Join rs [slash]" "p = slash # Join (rs @ es) [slash]" "\<forall>e \<in> set (rs @ es). proper e"
    using assms by (auto simp: within_def)
  show ?thesis
  proof (cases "es = []")
    case True
    have "elements (Clean root) = rs" "elements (Clean p) = rs" using w True by (simp_all add: Clean_rooted elements_Join)
    then show ?thesis using w(1,2) True strip_common_prefix [of rs "[]"] by (simp add: Rel_def IsAbs_def)
  next
    case False
    have pr: "\<forall>e \<in> set es. proper e" using w(3) by simp
    have e: "elements (Join es [slash]) = es" using pr by (rule elements_Join)
    moreover have "elements ''..'' = [''..'']" by (simp add: elements_def)
    moreover have "elements (''../'' @ s) = ''..'' # elements s" for s
      using elements_append [of "''..''" s] by (simp add: elements_def)
    ultimately have "Join es [slash] \<noteq> ''..'' \<and> \<not> HasPrefix (Join es [slash]) ''../''"
      using pr False by (auto simp: HasPrefix_iff prefix_def proper_def)
    then show ?thesis using Rel_below [OF w(3) False] w(1,2) by simp
  qed
qed

text \<open>Going up to the parent directory ends: a path that is not clean becomes clean, and of a clean
  path the last element goes.\<close>

lemma clean_elements_length: "length (clean_elements r es) \<le> length es"
proof -
  have "length (fold (clean_step r) es stack) \<le> length stack + length es" for stack
  proof (induction es arbitrary: stack)
    case (Cons e es)
    have "length (clean_step r e stack) \<le> Suc (length stack)" by (auto split: list.split)
    with Cons [of "clean_step r e stack"] show ?case by simp
  qed simp
  from this [of "[]"] show ?thesis by (simp add: clean_elements_def)
qed

lemma elements_assemble:
  assumes "\<forall>e \<in> set es. slash \<notin> set e \<and> e \<noteq> [] \<and> e \<noteq> ''.''"
  shows "elements (assemble r es) = es"
proof (cases "es = []")
  case False
  then have "split_on slash (Join es [slash]) = es" using assms by (intro split_Join) auto
  moreover have "filter (\<lambda>e. e \<noteq> [] \<and> e \<noteq> ''.'') es = es" using assms by (auto simp: filter_id_conv)
  ultimately have "elements (Join es [slash]) = es" by (simp add: elements_def)
  then show ?thesis using False by (simp add: assemble_def)
qed (simp add: assemble_def elements_def)

lemma clean_elements_ok: "e \<in> set (clean_elements r (elements p)) \<Longrightarrow> slash \<notin> set e \<and> e \<noteq> [] \<and> e \<noteq> ''.''"
proof -
  assume e: "e \<in> set (clean_elements r (elements p))"
  obtain k qs where s: "clean_elements r (elements p) = replicate k ''..'' @ qs" "\<forall>q \<in> set qs. proper q"
    using clean_elements_shape [of r p] by blast
  have "e = ''..'' \<or> proper e" using e s(2) unfolding s(1) by auto
  then show ?thesis by (auto simp: proper_def)
qed

lemma elements_Clean: "elements (Clean p) = clean_elements (IsAbs p) (elements p)"
  unfolding Clean_def by (rule elements_assemble) (use clean_elements_ok in blast)

lemma fold_clean_up: "fold (clean_step False) (replicate k ''..'') (replicate n ''..'') = replicate (n + k) ''..''"
proof (induction k arbitrary: n)
  case (Suc k)
  have "clean_step False ''..'' (replicate n ''..'') = replicate (Suc n) ''..''" by (cases n) simp_all
  then show ?case using Suc.IH [of "Suc n"] by simp
qed simp

lemma clean_elements_idem: "clean_elements r (clean_elements r (elements p)) = clean_elements r (elements p)"
proof -
  obtain k qs where s: "clean_elements r (elements p) = replicate k ''..'' @ qs" "\<forall>q \<in> set qs. proper q" "r \<longrightarrow> k = 0"
    using clean_elements_shape [of r p] by blast
  have "clean_elements r (replicate k ''..'' @ qs) = replicate k ''..'' @ qs"
  proof (cases r)
    case True
    then show ?thesis using s(2,3) by (simp add: clean_elements_proper)
  next
    case False
    then have "fold (clean_step r) (replicate k ''..'' @ qs) [] = rev qs @ replicate k ''..''"
      using fold_clean_up [of k 0] fold_clean_proper [OF s(2)] by simp
    then show ?thesis by (simp add: clean_elements_def)
  qed
  with s(1) show ?thesis by simp
qed

lemma Clean_abs: "IsAbs (Clean p) = IsAbs p"
proof (cases "IsAbs p")
  case False
  have "\<not> HasPrefix (Join es [slash]) [slash]" if es: "\<forall>e \<in> set es. slash \<notin> set e \<and> e \<noteq> []" "es \<noteq> []" for es
  proof -
    obtain e es' where e: "es = e # es'" using es(2) by (cases es) auto
    then obtain c w where "e = c # w" using es(1) by (cases e) auto
    then show ?thesis using es e by (cases es') auto
  qed
  from this [of "clean_elements False (elements p)"] show ?thesis
    using False clean_elements_ok by (auto simp: IsAbs_def Clean_def assemble_def)
qed (auto simp: IsAbs_def Clean_def assemble_def)

lemma Clean_idem [simp]: "Clean (Clean p) = Clean p"
  using clean_elements_idem [of "IsAbs p" p] by (simp add: Clean_def [of "Clean p"] Clean_abs elements_Clean) (simp add: Clean_def)

lemma path_file_split: "\<exists>q. p = q @ path_file p \<and> (q = [] \<or> last q = slash) \<and> slash \<notin> set (path_file p) \<and> take (length p - length (path_file p)) p = q"
proof -
  let ?f = "path_file p"
  let ?q = "rev (dropWhile (\<lambda>c. c \<noteq> slash) (rev p))"
  have p: "p = ?q @ ?f" by (simp add: path_file_def flip: rev_append)
  moreover have "?q = [] \<or> last ?q = slash"
    using hd_dropWhile [of "\<lambda>c. c \<noteq> slash" "rev p"] by (auto simp: last_rev)
  moreover have "slash \<notin> set ?f" by (auto simp: path_file_def dest: set_takeWhileD)
  moreover have "take (length p - length ?f) p = ?q" using p by (metis append_eq_conv_conj length_append add_diff_cancel_right')
  ultimately show ?thesis by blast
qed

lemma elements_file:
  assumes "q = [] \<or> last q = slash" and "slash \<notin> set f"
  shows "elements (q @ f) = elements q @ (if f = [] \<or> f = ''.'' then [] else [f])"
proof (cases q rule: rev_cases)
  case Nil
  then show ?thesis using assms(2) by (simp add: elements_def split_on_none)
next
  case (snoc q0 c)
  then have "elements (q @ f) = elements q0 @ elements f" "elements q = elements q0"
    using assms(1) elements_append [of q0 f] elements_append [of q0 "[]"] by (simp_all add: elements_def [of "[]"])
  moreover have "elements f = (if f = [] \<or> f = ''.'' then [] else [f])"
    using assms(2) by (simp add: elements_def split_on_none)
  ultimately show ?thesis by simp
qed

lemma Dir_decreases:
  assumes "Clean p = p" and "Dir p \<noteq> p"
  shows "length (elements (Dir p)) < length (elements p)"
proof -
  obtain q where q: "p = q @ path_file p" "q = [] \<or> last q = slash" "slash \<notin> set (path_file p)" "Dir p = Clean q"
    using path_file_split [of p] by (auto simp: Dir_def)
  have "path_file p \<noteq> [] \<and> path_file p \<noteq> ''.''"
  proof (rule ccontr)
    assume f: "\<not> (path_file p \<noteq> [] \<and> path_file p \<noteq> ''.'')"
    then have "elements p = elements q" using elements_file [OF q(2,3)] q(1) by simp
    moreover have "IsAbs p = IsAbs q" using q(1) f assms(1)
    proof (cases "q = []")
      case True
      then have "p = [] \<or> p = ''.''" using q(1) f by auto
      then show ?thesis using True by (auto simp: IsAbs_def)
    next
      case False
      then show ?thesis using IsAbs_append q(1) by metis
    qed
    ultimately have "Clean p = Clean q" by (simp add: Clean_def)
    with assms q(4) show False by simp
  qed
  then have "elements p = elements q @ [path_file p]" using elements_file [OF q(2,3)] q(1) by simp
  moreover have "length (elements (Clean q)) \<le> length (elements q)"
    by (simp add: elements_Clean clean_elements_length)
  ultimately show ?thesis using q(4) by simp
qed

lemma Dir_clean [simp]: "Clean (Dir p) = Dir p"
  by (simp add: Dir_def)

lemma Dir_rooted:
  assumes "rooted_path p"
  shows "rooted_path (Dir p)" and "prefix (elements (Dir p)) (elements p)"
proof -
  obtain q where q: "p = q @ path_file p" "q = [] \<or> last q = slash" "slash \<notin> set (path_file p)" "Dir p = Clean q"
    using path_file_split [of p] by (auto simp: Dir_def)
  have q0: "q \<noteq> []" using q(1,3) assms by (auto simp: rooted_path_def)
  then have abs: "IsAbs q" using q(1) rooted_path_abs [OF assms] IsAbs_append by metis
  show "rooted_path (Dir p)" using Clean_absolute [OF abs] q(4) by simp
  have e: "prefix (elements q) (elements p)" using elements_file [OF q(2,3)] q(1) by auto
  then have "\<forall>e \<in> set (elements q). proper e" using rooted_path_elements [OF assms] by (auto dest: set_mono_prefix)
  then show "prefix (elements (Dir p)) (elements p)" using e q(4) by (simp add: elements_Clean clean_elements_proper)
qed

section \<open>Patterns\<close>

text \<open>\<open>path.Match\<close> on bytes: \<open>*\<close> and \<open>?\<close> do not cross a slash, a class may be negated, a backslash
  quotes. \<open>None\<close> is \<open>ErrBadPattern\<close>, which \<open>Match\<close> reports for every malformed pattern, whatever the
  name. \<open>get_esc\<close> reads one possibly quoted character of a class.\<close>

fun get_esc :: "string \<Rightarrow> (char \<times> string) option" where
  "get_esc [] = None"
| "get_esc (c # p) =
     (if c = CHR ''-'' \<or> c = CHR '']'' then None
      else if c = CHR 0x5C then (case p of [] \<Rightarrow> None | d # q \<Rightarrow> if q = [] then None else Some (d, q))
      else if p = [] then None else Some (c, p))"

lemma get_esc_shorter: "get_esc p = Some (c, q) \<Longrightarrow> length q < length p"
  by (cases p) (auto split: if_splits list.splits)

text \<open>One range of a class, \<open>lo\<close> or \<open>lo-hi\<close>.\<close>

definition get_range :: "string \<Rightarrow> (char \<times> char \<times> string) option" where
  "get_range p = (case get_esc p of None \<Rightarrow> None
     | Some (lo, q) \<Rightarrow> (if hd q = CHR ''-'' then
         (case get_esc (tl q) of None \<Rightarrow> None | Some (hi, q') \<Rightarrow> Some (lo, hi, q')) else Some (lo, lo, q)))"

lemma get_range_shorter: "get_range p = Some (lo, hi, q) \<Longrightarrow> length q < length p"
  by (force simp: get_range_def dest: get_esc_shorter split: option.splits if_splits)

text \<open>The ranges of a class after \<open>[\<close> or \<open>[^\<close>: whether one contains the character, and the rest of
  the pattern; \<open>some\<close> tells that a range has been read.\<close>

function scan_class :: "char \<Rightarrow> bool \<Rightarrow> bool \<Rightarrow> string \<Rightarrow> (bool \<times> string) option" where
  "scan_class c some matched p =
     (if some \<and> p \<noteq> [] \<and> hd p = CHR '']'' then Some (matched, tl p)
      else case get_range p of None \<Rightarrow> None
      | Some (lo, hi, q) \<Rightarrow>
          scan_class c True (matched \<or> (of_char lo \<le> (of_char c :: nat) \<and> of_char c \<le> (of_char hi :: nat))) q)"
  by pat_completeness auto
termination by (relation "measure (\<lambda>(c, s, m, p). length p)") (auto dest: get_range_shorter)

declare scan_class.simps [simp del]

lemma scan_class_shorter: "scan_class c s m p = Some (r, q) \<Longrightarrow> length q < length p"
proof (induction c s m p rule: scan_class.induct)
  case (1 c s m p)
  note eq = 1(2) [unfolded scan_class.simps [of c s m p]]
  show ?case
  proof (cases "s \<and> p \<noteq> [] \<and> hd p = CHR '']''")
    case True
    then show ?thesis using eq by auto
  next
    case False
    then obtain lo hi q0 where g: "get_range p = Some (lo, hi, q0)"
      and "scan_class c True (m \<or> of_char lo \<le> (of_char c :: nat) \<and> of_char c \<le> (of_char hi :: nat)) q0 = Some (r, q)"
      using eq by (auto split: option.splits)
    with 1(1) [OF False g refl refl] have "length q < length q0" by simp
    with get_range_shorter [OF g] show ?thesis by simp
  qed
qed

text \<open>The class that starts after a bracket: whether it accepts the character, and what follows it.\<close>

definition read_class :: "char \<Rightarrow> string \<Rightarrow> (bool \<times> string) option" where
  "read_class c p =
     (let negated = (p \<noteq> [] \<and> hd p = CHR ''^'') in
      map_option (\<lambda>(m, q). (m \<noteq> negated, q)) (scan_class c False False (if negated then tl p else p)))"

lemma read_class_shorter: "read_class c p = Some (r, q) \<Longrightarrow> length q < length p"
  by (auto simp: read_class_def Let_def split: if_splits dest!: scan_class_shorter)

function well_formed_pattern :: "string \<Rightarrow> bool" where
  "well_formed_pattern [] = True"
| "well_formed_pattern (x # p) =
     (if x = CHR ''['' then (case read_class x p of None \<Rightarrow> False | Some (_, q) \<Rightarrow> well_formed_pattern q)
      else if x = CHR 0x5C then p \<noteq> [] \<and> well_formed_pattern (tl p)
      else well_formed_pattern p)"
  by pat_completeness auto
termination by (relation "measure length") (auto dest: read_class_shorter)

function glob :: "string \<Rightarrow> string \<Rightarrow> bool" where
  "glob [] s = (s = [])"
| "glob (x # p) s =
     (if x = CHR ''*'' then glob p s \<or> (case s of [] \<Rightarrow> False | c # s' \<Rightarrow> c \<noteq> slash \<and> glob (x # p) s')
      else case s of
        [] \<Rightarrow> False
      | c # s' \<Rightarrow>
          (if x = CHR ''?'' then c \<noteq> slash \<and> glob p s'
           else if x = CHR ''['' then
             (case read_class c p of None \<Rightarrow> False | Some (ok, q) \<Rightarrow> ok \<and> glob q s')
           else if x = CHR 0x5C then (case p of [] \<Rightarrow> False | y # q \<Rightarrow> y = c \<and> glob q s')
           else x = c \<and> glob p s'))"
  by pat_completeness auto
termination by (relation "measure (\<lambda>(p, s). length s + length p)") (auto dest: read_class_shorter)

declare well_formed_pattern.simps [simp del] glob.simps [simp del]

definition Match :: "string \<Rightarrow> string \<Rightarrow> bool option" where
  "Match pattern name = (if well_formed_pattern pattern then Some (glob pattern name) else None)"

end
