(* ===== verification/Go_Text.thy ===== *)
theory Go_Text
  imports Go_Strings
begin

text \<open>
  More of Go's text functions: numerals of integers, \<open>strings.Count\<close>, \<open>strings.Replace\<close>
  and \<open>strings.ReplaceAll\<close> for a search text that is not empty, \<open>strings.SplitAfter\<close> at one byte and
  \<open>utf8.Valid\<close>.
\<close>

section \<open>Numerals\<close>

definition Itoa :: "int \<Rightarrow> string" where
  "Itoa i = (if i < 0 then CHR ''-'' # show_nat (nat (- i)) else show_nat (nat i))"

text \<open>\<open>strconv.Atoi\<close>; \<open>None\<close> is the error.\<close>

definition is_digit :: "char \<Rightarrow> bool" where
  "is_digit c \<longleftrightarrow> 48 \<le> (of_char c :: nat) \<and> (of_char c :: nat) \<le> 57"

definition digits_value :: "string \<Rightarrow> int" where
  "digits_value ds = foldl (\<lambda>a c. a * 10 + (of_char c - 48)) 0 ds"

definition Atoi :: "string \<Rightarrow> int option" where
  "Atoi s =
     (let signed = s \<noteq> [] \<and> (hd s = CHR ''-'' \<or> hd s = CHR ''+'');
          ds = (if signed then tl s else s);
          v = (if s \<noteq> [] \<and> hd s = CHR ''-'' then - digits_value ds else digits_value ds)
      in if ds \<noteq> [] \<and> list_all is_digit ds \<and> - (2 ^ 63) \<le> v \<and> v < 2 ^ 63 then Some v else None)"

section \<open>Occurrences and replacement\<close>

lemma Index_length: "Index s sub = Some i \<Longrightarrow> i + length sub \<le> length s"
  by (induction s sub arbitrary: i rule: Index.induct)
    (auto simp: HasPrefix_iff split: if_splits dest: prefix_length_le)

text \<open>Matches do not overlap and are found from the left.\<close>

function Count_Text :: "string \<Rightarrow> string \<Rightarrow> nat" where
  "Count_Text s sub = (if sub = [] then 0
     else case Index s sub of None \<Rightarrow> 0 | Some i \<Rightarrow> Suc (Count_Text (drop (i + length sub) s) sub))"
  by pat_completeness auto
termination
  by (relation "measure (\<lambda>(s, sub). length s)") (auto dest!: Index_length simp: diff_less_mono2 neq_Nil_conv)

declare Count_Text.simps [simp del]

fun replace_n :: "nat \<Rightarrow> string \<Rightarrow> string \<Rightarrow> string \<Rightarrow> string" where
  "replace_n 0 s old new = s"
| "replace_n (Suc n) s old new = (case Index s old of
       None \<Rightarrow> s
     | Some i \<Rightarrow> take i s @ new @ replace_n n (drop (i + length old) s) old new)"

definition Replace :: "string \<Rightarrow> string \<Rightarrow> string \<Rightarrow> int \<Rightarrow> string" where
  "Replace s old new n = (if old = new \<or> n = 0 then s
     else let m = Count_Text s old in replace_n (if n < 0 \<or> int m < n then m else nat n) s old new)"

definition ReplaceAll :: "string \<Rightarrow> string \<Rightarrow> string \<Rightarrow> string" where
  "ReplaceAll s old new = Replace s old new (- 1)"

lemma Index_None: "Index s sub = None \<longleftrightarrow> \<not> Contains s sub"
  by (induction s) auto

lemma Index_split: "Index s sub = Some i \<Longrightarrow> s = take i s @ sub @ drop (i + length sub) s"
proof (induction s sub arbitrary: i rule: Index.induct)
  case (2 c s sub)
  show ?case
  proof (cases "HasPrefix (c # s) sub")
    case True
    then have "i = 0" using 2(2) by simp
    then show ?thesis using True by (auto simp: HasPrefix_iff prefix_def)
  next
    case False
    then obtain j where j: "Index s sub = Some j" "i = Suc j" using 2(2) by auto
    then show ?thesis using 2(1) [OF False j(1)] by simp
  qed
qed (auto split: if_splits)

lemma Index_first: "Index s sub = Some i \<Longrightarrow> sub \<noteq> [] \<Longrightarrow> \<not> Contains (butlast (take (i + length sub) s)) sub"
proof (induction s sub arbitrary: i rule: Index.induct)
  case (2 c s sub)
  show ?case
  proof (cases "HasPrefix (c # s) sub")
    case True
    then have "i = 0" using 2(2) by simp
    show ?thesis
    proof
      assume "Contains (butlast (take (i + length sub) (c # s))) sub"
      then obtain a b where ab: "butlast (take (i + length sub) (c # s)) = a @ sub @ b" by (auto simp: Contains_iff)
      have "length (butlast (take (i + length sub) (c # s))) < length sub"
        using \<open>i = 0\<close> 2(3) by (cases sub) auto
      with ab show False by simp
    qed
  next
    case False
    then obtain j where j: "Index s sub = Some j" "i = Suc j" using 2(2) by auto
    have IH: "\<not> Contains (butlast (take (j + length sub) s)) sub" using 2(1) [OF False j(1) 2(3)] .
    have ne: "take (j + length sub) s \<noteq> []" using Index_length [OF j(1)] 2(3) by auto
    have "butlast (take (i + length sub) (c # s)) = c # butlast (take (j + length sub) s)" using ne j(2) by simp
    moreover have "\<not> HasPrefix (c # butlast (take (j + length sub) s)) sub"
    proof
      assume "HasPrefix (c # butlast (take (j + length sub) s)) sub"
      then have "prefix sub (c # butlast (take (j + length sub) s))" by (simp add: HasPrefix_iff)
      moreover have "prefix (c # butlast (take (j + length sub) s)) (c # s)"
        by (simp add: butlast_conv_take take_is_prefix)
      ultimately have "prefix sub (c # s)" by (rule prefix_order.trans)
      then show False using False by (simp add: HasPrefix_iff)
    qed
    ultimately show ?thesis using IH by simp
  qed
qed (auto split: if_splits)

text \<open>The text before a match has no occurrence.\<close>

lemma Contains_mono: "Contains a sub \<Longrightarrow> Contains (a @ b) sub"
  by (auto simp: Contains_iff) (metis append.assoc)

lemma Index_before: "Index s sub = Some i \<Longrightarrow> sub \<noteq> [] \<Longrightarrow> \<not> Contains (take i s) sub"
proof
  assume *: "Index s sub = Some i" "sub \<noteq> []" "Contains (take i s) sub"
  have "butlast (take (i + length sub) s) = take i s @ take (length sub - 1) (drop i s)"
  proof -
    have "length (take (i + length sub) s) = i + length sub" using Index_length [OF *(1)] by simp
    then have "butlast (take (i + length sub) s) = take (i + (length sub - 1)) s"
      using *(2) by (cases sub) (simp_all add: butlast_conv_take min_def)
    then show ?thesis by (simp add: take_add)
  qed
  with Index_first [OF *(1,2)] *(3) Contains_mono show False by metis
qed

text \<open>Replacing every match cuts the text at the matches and joins the pieces with the new text; no
  piece has a further match.\<close>

lemma replace_pieces:
  assumes "old \<noteq> []"
  shows "\<exists>ps. length ps = Suc (Count_Text s old) \<and> s = Join ps old \<and> (\<forall>new. replace_n (Count_Text s old) s old new = Join ps new) \<and>
    (\<forall>p \<in> set ps. \<not> Contains p old)"
  using assms
proof (induction s old rule: Count_Text.induct)
  case (1 s sub)
  show ?case
  proof (cases "Index s sub")
    case None
    then have "Count_Text s sub = 0" by (simp add: Count_Text.simps [of s sub])
    then show ?thesis using None by (intro exI [of _ "[s]"]) (simp add: Index_None)
  next
    case (Some i)
    let ?t = "drop (i + length sub) s"
    obtain ps where ps: "length ps = Suc (Count_Text ?t sub)" "?t = Join ps sub"
        "\<forall>new. replace_n (Count_Text ?t sub) ?t sub new = Join ps new" "\<forall>p \<in> set ps. \<not> Contains p sub"
      using 1(1) [OF 1(2) Some 1(2)] by blast
    have c: "Count_Text s sub = Suc (Count_Text ?t sub)" using Some 1(2) by (simp add: Count_Text.simps [of s sub])
    obtain q qs where q: "ps = q # qs" using ps(1) by (cases ps) auto
    have "s = take i s @ sub @ Join ps sub" using Index_split [OF Some] ps(2) by simp
    then show ?thesis
      using c ps q Some Index_before [OF Some 1(2)] by (intro exI [of _ "take i s # ps"]) simp
  qed
qed

lemma Replace_count: "Replace s old new (int (Count_Text s old)) = ReplaceAll s old new"
  by (auto simp: ReplaceAll_def Replace_def Let_def)

lemma ReplaceAll_pieces:
  assumes "old \<noteq> []"
  shows "\<exists>ps. length ps = Suc (Count_Text s old) \<and> s = Join ps old \<and> ReplaceAll s old new = Join ps new \<and>
    (\<forall>p \<in> set ps. \<not> Contains p old)"
proof -
  obtain ps where ps: "length ps = Suc (Count_Text s old)" "s = Join ps old"
      "\<forall>new. replace_n (Count_Text s old) s old new = Join ps new" "\<forall>p \<in> set ps. \<not> Contains p old"
    using replace_pieces [OF assms] by blast
  then have "ReplaceAll s old new = Join ps new" by (auto simp: ReplaceAll_def Replace_def Let_def)
  with ps show ?thesis by blast
qed

section \<open>Lines\<close>

text \<open>\<open>strings.SplitAfter\<close> at one byte: every piece but the last ends with it.\<close>

fun split_after :: "char \<Rightarrow> string \<Rightarrow> string list" where
  "split_after sep [] = [[]]"
| "split_after sep (c # s) =
     (if c = sep then [c] # split_after sep s
      else case split_after sep s of [] \<Rightarrow> [[c]] | w # ws \<Rightarrow> (c # w) # ws)"

lemma split_after_nonempty [simp]: "split_after sep s \<noteq> []"
  by (induction s) (auto split: list.split)

lemma concat_split_after [simp]: "concat (split_after sep s) = s"
proof (induction s)
  case (Cons c s)
  obtain w ws where "split_after sep s = w # ws" using split_after_nonempty list.exhaust by metis
  with Cons show ?case by simp
qed simp

lemma Join_concat: "Join xs [] = concat xs"
  by (induction xs "[] :: string" rule: Join.induct) auto

section \<open>UTF-8\<close>

abbreviation in_range :: "nat \<Rightarrow> nat \<Rightarrow> char \<Rightarrow> bool" where
  "in_range lo hi c \<equiv> lo \<le> (of_char c :: nat) \<and> (of_char c :: nat) \<le> hi"

definition seq2 :: "char \<Rightarrow> char \<Rightarrow> bool" where
  "seq2 a b \<longleftrightarrow> in_range 0xC2 0xDF a \<and> in_range 0x80 0xBF b"

definition seq3 :: "char \<Rightarrow> char \<Rightarrow> char \<Rightarrow> bool" where
  "seq3 a b c \<longleftrightarrow> in_range 0x80 0xBF c \<and>
     (in_range 0xE0 0xE0 a \<and> in_range 0xA0 0xBF b \<or> in_range 0xED 0xED a \<and> in_range 0x80 0x9F b \<or>
      (in_range 0xE1 0xEC a \<or> in_range 0xEE 0xEF a) \<and> in_range 0x80 0xBF b)"

definition seq4 :: "char \<Rightarrow> char \<Rightarrow> char \<Rightarrow> char \<Rightarrow> bool" where
  "seq4 a b c d \<longleftrightarrow> in_range 0x80 0xBF c \<and> in_range 0x80 0xBF d \<and>
     (in_range 0xF0 0xF0 a \<and> in_range 0x90 0xBF b \<or> in_range 0xF4 0xF4 a \<and> in_range 0x80 0x8F b \<or>
      in_range 0xF1 0xF3 a \<and> in_range 0x80 0xBF b)"

fun utf8_valid :: "string \<Rightarrow> bool" where
  "utf8_valid [] = True"
| "utf8_valid (a # s) =
     (if in_range 0 0x7F a then utf8_valid s
      else case s of
        [] \<Rightarrow> False
      | b # s2 \<Rightarrow> (if seq2 a b then utf8_valid s2
          else case s2 of
            [] \<Rightarrow> False
          | c # s3 \<Rightarrow> (if seq3 a b c then utf8_valid s3
              else case s3 of [] \<Rightarrow> False | d # s4 \<Rightarrow> seq4 a b c d \<and> utf8_valid s4)))"

lemma utf8_valid_ascii: "\<forall>c \<in> set s. in_range 0 0x7F c \<Longrightarrow> utf8_valid s"
  by (induction s) auto

text \<open>The conversion to runes, each given by its bytes; an invalid byte becomes the replacement rune.\<close>

abbreviation replacement :: string where "replacement \<equiv> [CHR 0xEF, CHR 0xBF, CHR 0xBD]"

fun runes :: "string \<Rightarrow> string list" where
  "runes (a # b # c # d # s) =
     (if in_range 0 0x7F a then [a] # runes (b # c # d # s)
      else if seq2 a b then [a, b] # runes (c # d # s)
      else if seq3 a b c then [a, b, c] # runes (d # s)
      else if seq4 a b c d then [a, b, c, d] # runes s
      else replacement # runes (b # c # d # s))"
| "runes [a, b, c] =
     (if in_range 0 0x7F a then [a] # runes [b, c]
      else if seq2 a b then [a, b] # runes [c]
      else if seq3 a b c then [[a, b, c]]
      else replacement # runes [b, c])"
| "runes [a, b] =
     (if in_range 0 0x7F a then [a] # runes [b]
      else if seq2 a b then [[a, b]]
      else replacement # runes [b])"
| "runes [a] = [if in_range 0 0x7F a then [a] else replacement]"
| "runes [] = []"

end
