(* ===== verification/File_Tools.thy ===== *)
theory File_Tools
  imports Go_Path Go_Text Agents "HOL-Library.Word"
begin

text \<open>
  The file and shell tools of the command line program: \<open>cmd/blades/internal/tools/fileutil.go\<close>,
  \<open>read.go\<close>, \<open>edit.go\<close>, \<open>write.go\<close>, \<open>bash.go\<close> and \<open>registry.go\<close>. The file system, the shell, the
  regular expressions and the JSON decoder are the fields of \<open>file_env\<close>; \<open>'p\<close> is the state of the
  outside.
\<close>

section \<open>The outside\<close>

text \<open>An error of the file system, and whether it is \<open>fs.ErrNotExist\<close>.\<close>

datatype fs_error = NotExist string | OtherError string

fun fs_text :: "fs_error \<Rightarrow> string" where
  "fs_text (NotExist e) = e"
| "fs_text (OtherError e) = e"

record readInput =
  ri_path :: string
  ri_start :: int
  ri_end :: int

record stringEdit =
  ed_old :: string
  ed_new :: string
  ed_all :: bool
  ed_expected :: int

record editInput =
  ei_path :: string
  ei_edits :: "stringEdit list"

record writeInput =
  wi_path :: string
  wi_content :: string
  wi_ifExists :: string
  wi_createDirs :: bool

record bashInput =
  bi_command :: string
  bi_dir :: string
  bi_timeout :: "64 word"

text \<open>How the shell ended, with what it printed.\<close>

datatype shell_end = ShellOk | ShellTimeout | ShellError string

record 'p file_env =
  x_getwd :: "fs_error + string"
  x_evalSymlinks :: "'p \<Rightarrow> string \<Rightarrow> fs_error + string"
  x_lstat :: "'p \<Rightarrow> string \<Rightarrow> fs_error option"
  x_stat :: "'p \<Rightarrow> string \<Rightarrow> fs_error + bool"
  x_readFile :: "'p \<Rightarrow> string \<Rightarrow> fs_error + string"
  x_mkdirAll :: "string \<Rightarrow> 'p \<Rightarrow> fs_error option \<times> 'p"
  x_createTemp :: "string \<Rightarrow> 'p \<Rightarrow> (fs_error + string) \<times> 'p"
  x_writeString :: "string \<Rightarrow> string \<Rightarrow> 'p \<Rightarrow> fs_error option \<times> 'p"
  x_close :: "string \<Rightarrow> 'p \<Rightarrow> fs_error option \<times> 'p"
  x_rename :: "string \<Rightarrow> string \<Rightarrow> 'p \<Rightarrow> fs_error option \<times> 'p"
  x_remove :: "string \<Rightarrow> 'p \<Rightarrow> 'p"
  x_compile :: "string \<Rightarrow> string + (string \<Rightarrow> bool)"
  x_shell :: "string \<Rightarrow> string \<Rightarrow> int \<Rightarrow> 'p \<Rightarrow> (shell_end \<times> string) \<times> 'p"
  x_duration :: "int \<Rightarrow> string"
  x_decodeRead :: "string \<Rightarrow> string + readInput"
  x_decodeEdit :: "string \<Rightarrow> string + editInput"
  x_decodeWrite :: "string \<Rightarrow> string + writeInput"
  x_decodeBash :: "string \<Rightarrow> string + bashInput"

record ExecConfig =
  ec_timeout :: int
  ec_workingDir :: string
  ec_deny :: "string list"
  ec_allow :: "string list"
  ec_restrict :: bool

section \<open>Resolving paths\<close>

definition Abs_path :: "'p file_env \<Rightarrow> string \<Rightarrow> fs_error + string" where
  "Abs_path env path = (if IsAbs path then Inr (Clean path)
     else ebind (x_getwd env) (\<lambda>wd. Inr (Path_Join [wd, path])))"

definition workspaceRoot :: "'p file_env \<Rightarrow> ExecConfig \<Rightarrow> 'p \<Rightarrow> fs_error + string" where
  "workspaceRoot env cfg p =
     (let dir = TrimSpace (ec_workingDir cfg); root = (if dir = [] then ''.'' else dir) in
      ebind (Abs_path env root) (\<lambda>abs.
        case x_evalSymlinks env p abs of
          Inr real \<Rightarrow> Inr (Clean real)
        | Inl (NotExist e) \<Rightarrow> Inr (Clean abs)
        | Inl (OtherError e) \<Rightarrow> Inl (OtherError e)))"

definition isWithinRoot :: "string \<Rightarrow> string \<Rightarrow> bool" where
  "isWithinRoot root target = (case Rel root target of
       None \<Rightarrow> False
     | Some rel \<Rightarrow> rel = ''.'' \<or> (rel \<noteq> ''..'' \<and> \<not> HasPrefix rel ''../''))"

text \<open>The loop goes up from a cleaned path.\<close>

function ancestor_loop :: "'p file_env \<Rightarrow> 'p \<Rightarrow> string \<Rightarrow> string \<Rightarrow> string + string" where
  "ancestor_loop env p path current = (case x_stat env p current of
       Inr _ \<Rightarrow> Inr current
     | Inl (OtherError e) \<Rightarrow> Inl e
     | Inl (NotExist _) \<Rightarrow>
         (if Dir current = current then Inl (''no existing ancestor for path: '' @ path)
          else ancestor_loop env p path (Dir current)))"
  by pat_completeness auto
termination
  by (relation "measures [\<lambda>(env, p, path, current). if Clean current = current then 0 else 1,
      \<lambda>(env, p, path, current). length (elements current)]") (auto dest: Dir_decreases)

declare ancestor_loop.simps [simp del]

definition deepestExistingAncestor :: "'p file_env \<Rightarrow> 'p \<Rightarrow> string \<Rightarrow> string + string" where
  "deepestExistingAncestor env p path = ancestor_loop env p path (Clean path)"

text \<open>Errors are texts from here on.\<close>

fun fs_result :: "fs_error + 'a \<Rightarrow> string + 'a" where
  "fs_result (Inl e) = Inl (fs_text e)"
| "fs_result (Inr x) = Inr x"

definition resolve_existing :: "'p file_env \<Rightarrow> ExecConfig \<Rightarrow> 'p \<Rightarrow> string \<Rightarrow> string \<Rightarrow> string \<Rightarrow> string + string" where
  "resolve_existing env cfg p root path candidate =
     ebind (fs_result (x_evalSymlinks env p candidate)) (\<lambda>real.
     ebind (fs_result (Abs_path env real)) (\<lambda>real.
     echeck (fail_if (ec_restrict cfg \<and> \<not> isWithinRoot root real) (''path escapes workspace via symlink: '' @ path))
       (Inr (Clean real))))"

definition resolve_missing :: "'p file_env \<Rightarrow> ExecConfig \<Rightarrow> 'p \<Rightarrow> string \<Rightarrow> string \<Rightarrow> string \<Rightarrow> string + string" where
  "resolve_missing env cfg p root path candidate =
     ebind (deepestExistingAncestor env p candidate) (\<lambda>ancestor.
     ebind (case Rel ancestor candidate of None \<Rightarrow> Inl (''Rel: can't make '' @ candidate @ '' relative to '' @ ancestor)
            | Some rel \<Rightarrow> Inr rel) (\<lambda>rel.
     ebind (fs_result (x_evalSymlinks env p ancestor)) (\<lambda>realAncestor.
     ebind (fs_result (Abs_path env realAncestor)) (\<lambda>realAncestor.
     ebind (fs_result (Abs_path env (Path_Join [realAncestor, rel]))) (\<lambda>resolved.
     echeck (fail_if (ec_restrict cfg \<and> \<not> isWithinRoot root resolved) (''path escapes workspace via symlink: '' @ path))
       (Inr (Clean resolved)))))))"

definition resolvePath :: "'p file_env \<Rightarrow> ExecConfig \<Rightarrow> 'p \<Rightarrow> string \<Rightarrow> bool \<Rightarrow> string + string" where
  "resolvePath env cfg p path mustExist =
     echeck (fail_if (TrimSpace path = []) ''path is required'')
     (ebind (fs_result (workspaceRoot env cfg p)) (\<lambda>root.
      ebind (fs_result (Abs_path env (if IsAbs path then path else Path_Join [root, path]))) (\<lambda>candidate.
      echeck (fail_if (ec_restrict cfg \<and> \<not> isWithinRoot root candidate) (''path escapes workspace: '' @ path))
        (case x_lstat env p candidate of
           None \<Rightarrow> resolve_existing env cfg p root path candidate
         | Some (OtherError e) \<Rightarrow> Inl e
         | Some (NotExist _) \<Rightarrow>
             echeck (fail_if mustExist (''path does not exist: '' @ path))
               (resolve_missing env cfg p root path candidate)))))"

definition resolveWorkingDir :: "'p file_env \<Rightarrow> ExecConfig \<Rightarrow> 'p \<Rightarrow> string \<Rightarrow> string + string" where
  "resolveWorkingDir env cfg p input =
     (if TrimSpace input = [] then fs_result (workspaceRoot env cfg p) else resolvePath env cfg p input True)"

section \<open>Reading and writing\<close>

abbreviation maxReadBytes :: nat where "maxReadBytes \<equiv> 262144"

definition readTextFile :: "'p file_env \<Rightarrow> 'p \<Rightarrow> string \<Rightarrow> string + string" where
  "readTextFile env p path =
     ebind (fs_result (x_readFile env p path)) (\<lambda>raw.
       let content = (if maxReadBytes < length raw then take maxReadBytes raw else raw) in
       echeck (fail_if (\<not> utf8_valid content \<or> CHR 0x00 \<in> set content) ''binary or non-UTF-8 file is not supported'')
         (Inr content))"

definition splitLines :: "string \<Rightarrow> string list" where
  "splitLines content = (if content = [] then []
     else let lines = split_after newline content in
       if lines \<noteq> [] \<and> last lines = [] then butlast lines else lines)"

text \<open>The text of the lines asked for, the first and the last of them, and the number of lines.\<close>

definition sliceLines :: "string \<Rightarrow> int \<Rightarrow> int \<Rightarrow> string + string \<times> int \<times> int \<times> int" where
  "sliceLines content startLine endLine =
     (let lines = splitLines content; total = int (length lines) in
      if total = 0 then
        (if startLine > 1 \<or> endLine > 0 then Inl ''line range out of bounds'' else Inr ([], 0, 0, 0))
      else
        let first = (if startLine \<le> 0 then 1 else startLine);
            lst = (if endLine \<le> 0 then total else endLine) in
        if first > lst then Inl ''start_line must be <= end_line''
        else if first > total \<or> lst > total then Inl ''line range out of bounds''
        else Inr (Join (drop (nat (first - 1)) (take (nat lst) lines)) [], first, lst, total))"

text \<open>The temporary file is removed however the function returns.\<close>

definition atomicWriteFile :: "'p file_env \<Rightarrow> string \<Rightarrow> string \<Rightarrow> 'p \<Rightarrow> string option \<times> 'p" where
  "atomicWriteFile env path content p = (case x_createTemp env (Dir path) p of
       (Inl e, p1) \<Rightarrow> (Some (fs_text e), p1)
     | (Inr tmp, p1) \<Rightarrow> (case x_writeString env tmp content p1 of
           (Some e, p2) \<Rightarrow> (Some (fs_text e), x_remove env tmp (snd (x_close env tmp p2)))
         | (None, p2) \<Rightarrow> (case x_close env tmp p2 of
               (Some e, p3) \<Rightarrow> (Some (fs_text e), x_remove env tmp p3)
             | (None, p3) \<Rightarrow> (case x_rename env tmp path p3 of
                   (r, p4) \<Rightarrow> (map_option fs_text r, x_remove env tmp p4)))))"

section \<open>The read tool\<close>

definition prefixed :: "string \<Rightarrow> string + 'a \<Rightarrow> string + 'a" where
  "prefixed tool r = (case r of Inl e \<Rightarrow> Inl (tool @ '': '' @ e) | Inr x \<Rightarrow> Inr x)"

text \<open>The path of an existing file, which is not a directory.\<close>

definition existing_file :: "'p file_env \<Rightarrow> ExecConfig \<Rightarrow> 'p \<Rightarrow> string \<Rightarrow> string + string" where
  "existing_file env cfg p input =
     ebind (resolvePath env cfg p input True) (\<lambda>path.
     ebind (fs_result (x_stat env p path)) (\<lambda>isDir.
     echeck (fail_if isDir (''path is a directory: '' @ input)) (Inr path)))"

definition read_handle :: "'p file_env \<Rightarrow> ExecConfig \<Rightarrow> 'p \<Rightarrow> string \<Rightarrow> string + string" where
  "read_handle env cfg p raw = prefixed ''read''
     (ebind (case x_decodeRead env raw of Inl e \<Rightarrow> Inl (''parse input: '' @ e) | Inr i \<Rightarrow> Inr i) (\<lambda>i.
      ebind (existing_file env cfg p (ri_path i)) (\<lambda>path.
      ebind (readTextFile env p path) (\<lambda>content.
      ebind (sliceLines content (ri_start i) (ri_end i)) (\<lambda>(sliced, first, lst, total).
      Inr (''Path: '' @ path @ [newline] @
        (if total = 0 then ''Lines: 0'' @ [newline, newline]
         else ''Lines: '' @ Itoa first @ ''-'' @ Itoa lst @ '' of '' @ Itoa total @ [newline, newline] @ sliced)))))))"

section \<open>The edit tool\<close>

text \<open>One edit of the loop, the \<open>i\<close>-th.\<close>

definition apply_edit :: "nat \<Rightarrow> string \<Rightarrow> stringEdit \<Rightarrow> string + string" where
  "apply_edit i content change =
     (let tag = ''edits['' @ Itoa (int i) @ '']'' in
      if ed_old change = [] then Inl (tag @ ''.old_string is required'')
      else let count = int (Count_Text content (ed_old change)) in
      if count = 0 then Inl (tag @ '' target not found; old_string must match existing text exactly. Read the file '' @
        ''for the exact text, or use write to replace the whole file'')
      else if ed_all change then
        (if ed_expected change > 0 \<and> ed_expected change \<noteq> count
         then Inl (tag @ '' expected '' @ Itoa (ed_expected change) @ '' matches, found '' @ Itoa count)
         else Inr (ReplaceAll content (ed_old change) (ed_new change)))
      else let expected = (if ed_expected change \<le> 0 then 1 else ed_expected change) in
        if count \<noteq> expected then Inl (tag @ '' expected '' @ Itoa expected @ '' matches, found '' @ Itoa count)
        else Inr (Replace content (ed_old change) (ed_new change) expected))"

fun apply_edits :: "nat \<Rightarrow> string \<Rightarrow> stringEdit list \<Rightarrow> string + string" where
  "apply_edits i content [] = Inr content"
| "apply_edits i content (change # changes) =
     ebind (apply_edit i content change) (\<lambda>content'. apply_edits (Suc i) content' changes)"

text \<open>What \<open>edit\<close> writes, and where.\<close>

definition plan_edit :: "'p file_env \<Rightarrow> ExecConfig \<Rightarrow> 'p \<Rightarrow> editInput \<Rightarrow> string + string \<times> string" where
  "plan_edit env cfg p i =
     echeck (fail_if (ei_edits i = []) ''edits is required'')
     (ebind (existing_file env cfg p (ei_path i)) (\<lambda>path.
      ebind (readTextFile env p path) (\<lambda>content.
      ebind (apply_edits 0 content (ei_edits i)) (\<lambda>content'. Inr (path, content')))))"

definition edit_handle :: "'p file_env \<Rightarrow> ExecConfig \<Rightarrow> string \<Rightarrow> 'p \<Rightarrow> (string + string) \<times> 'p" where
  "edit_handle env cfg raw p = (case x_decodeEdit env raw of
       Inl e \<Rightarrow> (Inl (''edit: parse input: '' @ e), p)
     | Inr i \<Rightarrow> (case plan_edit env cfg p i of
           Inl e \<Rightarrow> (Inl (''edit: '' @ e), p)
         | Inr (path, content) \<Rightarrow> (case atomicWriteFile env path content p of
               (Some e, p1) \<Rightarrow> (Inl (''edit: '' @ e), p1)
             | (None, p1) \<Rightarrow> (Inr (''Updated file: '' @ path @ '' ('' @ Itoa (int (length (ei_edits i))) @ '' edits)''), p1))))"

section \<open>The write tool\<close>

definition ifExists_mode :: "string \<Rightarrow> string" where
  "ifExists_mode s = (let m = ToLower (TrimSpace s) in if m = [] then ''overwrite'' else m)"

text \<open>What is checked once the parent directory is there.\<close>

definition write_check :: "'p file_env \<Rightarrow> string \<Rightarrow> string \<Rightarrow> string \<Rightarrow> 'p \<Rightarrow> string option" where
  "write_check env mode input path p = (case x_stat env p path of
       Inr isDir \<Rightarrow> (if isDir then Some (''path is a directory: '' @ input)
         else fail_if (mode = ''error'') (''file already exists: '' @ input))
     | Inl (NotExist e) \<Rightarrow> None
     | Inl (OtherError e) \<Rightarrow> Some e)"

definition prepare_parent :: "'p file_env \<Rightarrow> bool \<Rightarrow> string \<Rightarrow> 'p \<Rightarrow> string option \<times> 'p" where
  "prepare_parent env createDirs parent p =
     (if createDirs then (case x_mkdirAll env parent p of
          (Some e, p1) \<Rightarrow> (Some (''create parent dirs: '' @ fs_text e), p1) | (None, p1) \<Rightarrow> (None, p1))
      else case x_stat env p parent of
        Inl e \<Rightarrow> (Some (''parent directory does not exist: '' @ parent), p) | Inr _ \<Rightarrow> (None, p))"

definition write_handle :: "'p file_env \<Rightarrow> ExecConfig \<Rightarrow> string \<Rightarrow> 'p \<Rightarrow> (string + string) \<times> 'p" where
  "write_handle env cfg raw p = (case x_decodeWrite env raw of
       Inl e \<Rightarrow> (Inl (''write: parse input: '' @ e), p)
     | Inr i \<Rightarrow>
         (let mode = ifExists_mode (wi_ifExists i) in
          if mode \<noteq> ''overwrite'' \<and> mode \<noteq> ''error'' then (Inl ''write: if_exists must be overwrite or error'', p)
          else case resolvePath env cfg p (wi_path i) False of
            Inl e \<Rightarrow> (Inl (''write: '' @ e), p)
          | Inr path \<Rightarrow> (case prepare_parent env (wi_createDirs i) (Dir path) p of
                (Some e, p1) \<Rightarrow> (Inl (''write: '' @ e), p1)
              | (None, p1) \<Rightarrow> (case write_check env mode (wi_path i) path p1 of
                    Some e \<Rightarrow> (Inl (''write: '' @ e), p1)
                  | None \<Rightarrow> (case atomicWriteFile env path (wi_content i) p1 of
                        (Some e, p2) \<Rightarrow> (Inl (''write: '' @ e), p2)
                      | (None, p2) \<Rightarrow> (Inr (''Wrote file: '' @ path), p2))))))"

section \<open>The bash tool\<close>

text \<open>A per cent sign stands for the backslash of a pattern.\<close>

definition DefaultExecConfig :: "string \<Rightarrow> ExecConfig" where
  "DefaultExecConfig workingDir = \<lparr>ec_timeout = 60000000000, ec_workingDir = workingDir,
     ec_deny = map (replace_char (CHR ''%'') (CHR 0x5C)) [''%brm%s+-[rf]{1,2}%b'', ''%brmdir%s+/s%b'', ''(?:^|[;&|]%s*)format%b'', ''%b(mkfs|diskpart)%b'',
       ''%bdd%s+if='', ''>%s*/dev/sd'', ''%b(shutdown|reboot|poweroff)%b'', '':%(%)%s*%{.*%};%s*:'',
       ''%b(export|set)%s+%w+='', ''(?:^|[;&|]%s*)%benv%b'', ''%b(printenv)%b'',
       ''%becho%s+['' @ [CHR 0x22, CHR 0x27] @ '']?%$%{?%w'', ''/etc/(passwd|shadow|sudoers)'',
       ''%~/?%.(ssh|aws|kube|gnupg)%b'', ''%b(id_rsa|id_ecdsa|id_ed25519|authorized_keys)%b''],
     ec_allow = [], ec_restrict = False\<rparr>"

record bashTool =
  bt_cfg :: ExecConfig
  bt_deny :: "(string \<times> (string \<Rightarrow> bool)) list"
  bt_allow :: "(string \<times> (string \<Rightarrow> bool)) list"
  bt_regexErr :: "string option"

definition compileRegexList :: "'p file_env \<Rightarrow> string list \<Rightarrow> string + (string \<times> (string \<Rightarrow> bool)) list" where
  "compileRegexList env patterns = map_err (\<lambda>pattern. case x_compile env pattern of
       Inl e \<Rightarrow> Inl (''invalid regex '' @ Quote pattern @ '': '' @ e)
     | Inr re \<Rightarrow> Inr (pattern, re)) patterns"

definition NewBashTool :: "'p file_env \<Rightarrow> ExecConfig \<Rightarrow> bashTool" where
  "NewBashTool env cfg0 =
     (let cfg = (if ec_timeout cfg0 \<le> 0 then cfg0\<lparr>ec_timeout := 60000000000\<rparr> else cfg0);
          t = \<lparr>bt_cfg = cfg, bt_deny = [], bt_allow = [], bt_regexErr = None\<rparr>;
          t = (case compileRegexList env (ec_deny cfg) of Inl e \<Rightarrow> t\<lparr>bt_regexErr := Some e\<rparr> | Inr rs \<Rightarrow> t\<lparr>bt_deny := rs\<rparr>)
      in (case compileRegexList env (ec_allow cfg) of Inl e \<Rightarrow> t\<lparr>bt_regexErr := Some e\<rparr> | Inr rs \<Rightarrow> t\<lparr>bt_allow := rs\<rparr>))"

text \<open>The empty text lets the command through.\<close>

definition guard :: "bashTool \<Rightarrow> string \<Rightarrow> string" where
  "guard t command = (case bt_regexErr t of
       Some e \<Rightarrow> ''Error: bash tool misconfigured: '' @ e
     | None \<Rightarrow>
         (let lower = ToLower (TrimSpace command) in
          case find (\<lambda>(pattern, re). re lower) (bt_deny t) of
            Some (pattern, re) \<Rightarrow> ''Error: command blocked by safety guard (matched deny pattern: '' @ pattern @ '')''
          | None \<Rightarrow> (if bt_allow t \<noteq> [] \<and> \<not> list_ex (\<lambda>(pattern, re). re lower) (bt_allow t)
                     then ''Error: command blocked by safety guard (not in allow list)'' else [])))"

text \<open>The timeout of a call, in nanoseconds; the product wraps at 64 bits.\<close>

definition call_timeout :: "int \<Rightarrow> 64 word \<Rightarrow> int" where
  "call_timeout timeout ms =
     (let t = (if 0 <s ms then let override = sint (ms * 1000000) in
                 if timeout \<le> 0 \<or> override < timeout then override else timeout
               else timeout)
      in if t \<le> 0 then 60000000000 else t)"

definition shell_reply :: "'p file_env \<Rightarrow> int \<Rightarrow> shell_end \<Rightarrow> string \<Rightarrow> string" where
  "shell_reply env timeout how out =
     (if how = ShellTimeout then ''Error: command timed out after '' @ x_duration env timeout
      else let result = (case how of ShellError e \<Rightarrow> out @ [newline] @ ''Exit: '' @ e | _ \<Rightarrow> out) in
        if 10000 < length result
        then take 10000 result @ [newline] @ ''... (truncated, '' @ Itoa (int (length result) - 10000) @ '' more bytes)''
        else result)"

definition bash_handle :: "'p file_env \<Rightarrow> bashTool \<Rightarrow> string \<Rightarrow> 'p \<Rightarrow> (string + string) \<times> 'p" where
  "bash_handle env t raw p = (case x_decodeBash env raw of
       Inl e \<Rightarrow> (Inl (''bash: parse input: '' @ e), p)
     | Inr i \<Rightarrow>
         (if TrimSpace (bi_command i) = [] then (Inl ''bash: command is required'', p)
          else if guard t (bi_command i) \<noteq> [] then (Inr (guard t (bi_command i)), p)
          else if ec_restrict (bt_cfg t) \<and> (Contains (bi_command i) ''../'' \<or> Contains (bi_command i) (''..'' @ [CHR 0x5C]))
          then (Inr ''Error: path traversal blocked by safety guard'', p)
          else case resolveWorkingDir env (bt_cfg t) p (bi_dir i) of
            Inl e \<Rightarrow> (Inl (''bash: '' @ e), p)
          | Inr cwd \<Rightarrow>
              (let timeout = call_timeout (ec_timeout (bt_cfg t)) (bi_timeout i) in
               case x_shell env cwd (bi_command i) timeout p of ((how, out), p1) \<Rightarrow> (Inr (shell_reply env timeout how out), p1))))"

section \<open>The tools\<close>

text \<open>The tools as the agent calls them; an error of a tool is not a cancellation.\<close>

fun tool_result :: "string + string \<Rightarrow> terror + string" where
  "tool_result (Inl e) = Inl (Failed e)"
| "tool_result (Inr x) = Inr x"

definition NewReadTool :: "'p file_env \<Rightarrow> ExecConfig \<Rightarrow> 'p tool" where
  "NewReadTool env cfg = \<lparr>t_name = ''read'', t_handle = (\<lambda>_ raw p. (tool_result (read_handle env cfg p raw), [], p))\<rparr>"

definition NewEditTool :: "'p file_env \<Rightarrow> ExecConfig \<Rightarrow> 'p tool" where
  "NewEditTool env cfg = \<lparr>t_name = ''edit'', t_handle = (\<lambda>_ raw p.
     case edit_handle env cfg raw p of (r, p1) \<Rightarrow> (tool_result r, [], p1))\<rparr>"

definition NewWriteTool :: "'p file_env \<Rightarrow> ExecConfig \<Rightarrow> 'p tool" where
  "NewWriteTool env cfg = \<lparr>t_name = ''write'', t_handle = (\<lambda>_ raw p.
     case write_handle env cfg raw p of (r, p1) \<Rightarrow> (tool_result r, [], p1))\<rparr>"

definition bash_tool :: "'p file_env \<Rightarrow> ExecConfig \<Rightarrow> 'p tool" where
  "bash_tool env cfg = \<lparr>t_name = ''bash'', t_handle = (\<lambda>_ raw p.
     case bash_handle env (NewBashTool env cfg) raw p of (r, p1) \<Rightarrow> (tool_result r, [], p1))\<rparr>"

text \<open>\<open>Registry.Resolve\<close>.\<close>

definition Registry_Resolve :: "(string, 'p tool) gomap \<Rightarrow> string \<Rightarrow> string + 'p tool" where
  "Registry_Resolve tools name = (case map_of tools name of
       Some t \<Rightarrow> Inr t | None \<Rightarrow> Inl (''tool '' @ Quote name @ '' not registered''))"

end
