(* ===== verification/Memory_Store.thy ===== *)
theory Memory_Store
  imports File_Tools "HOL-Library.List_Lexorder" "HOL-Library.Char_ord"
begin

text \<open>
  The memory of the command line program (\<open>cmd/blades/internal/memory/store.go\<close>): the file of long-term
  facts, which is replaced as a whole, the daily logs, which grow, and the knowledge files, which are
  only read. The lock of the store makes its methods take effect one after the other. The environment
  extends that of the file tools by the calls only the store makes.
\<close>

record dirent =
  dt_name :: string
  dt_isDir :: bool
  dt_size :: "nat option"

text \<open>\<open>os.ReadDir\<close> gives the entries in the order of their names; the size is nothing where \<open>Info\<close> fails.\<close>

record 'p store_env = "'p file_env" +
  s_writeFile :: "string \<Rightarrow> string \<Rightarrow> 'p \<Rightarrow> fs_error option \<times> 'p"
  s_openAppend :: "'p \<Rightarrow> string \<Rightarrow> fs_error option"
  s_append :: "string \<Rightarrow> string \<Rightarrow> 'p \<Rightarrow> fs_error option \<times> 'p"
  s_readDir :: "'p \<Rightarrow> string \<Rightarrow> fs_error + dirent list"

record memoryStore =
  ms_memoryFile :: string
  ms_memoriesDir :: string
  ms_knowledgesDir :: string

definition defaultMemoryContent :: string where
  "defaultMemoryContent = Join [''# MEMORY.md '' @ [CHR 0xE2, CHR 0x80, CHR 0x94] @ '' Long-Term Memory'', [],
     ''## Hard Lessons'', [], ''(none yet)'', [], ''## User Preferences'', [], ''(none yet)'', [],
     ''## Recurring Patterns'', [], ''(none yet)'', [], ''## Key Decisions'', [], ''(none yet)'', []] [newline]"

fun mkdirs :: "('p, 'z) file_env_scheme \<Rightarrow> string \<Rightarrow> string list \<Rightarrow> 'p \<Rightarrow> string option \<times> 'p" where
  "mkdirs env pre [] p = (None, p)"
| "mkdirs env pre (d # ds) p = (case x_mkdirAll env d p of
       (Some e, p1) \<Rightarrow> (Some (pre @ d @ '': '' @ fs_text e), p1)
     | (None, p1) \<Rightarrow> mkdirs env pre ds p1)"

definition missing :: "('p, 'z) file_env_scheme \<Rightarrow> 'p \<Rightarrow> string \<Rightarrow> bool" where
  "missing env p path \<longleftrightarrow> (case x_stat env p path of Inl (NotExist _) \<Rightarrow> True | _ \<Rightarrow> False)"

definition Store_New :: "'p store_env \<Rightarrow> string \<Rightarrow> string \<Rightarrow> string \<Rightarrow> 'p \<Rightarrow> (string + memoryStore) \<times> 'p" where
  "Store_New env memoryFile memoriesDir knowledgesDir p =
     (let s = \<lparr>ms_memoryFile = memoryFile, ms_memoriesDir = memoriesDir, ms_knowledgesDir = knowledgesDir\<rparr> in
      case mkdirs env ''memory: mkdir '' [memoriesDir, knowledgesDir] p of
        (Some e, p1) \<Rightarrow> (Inl e, p1)
      | (None, p1) \<Rightarrow>
          (if missing env p1 memoryFile
           then (case s_writeFile env memoryFile defaultMemoryContent p1 of
               (Some e, p2) \<Rightarrow> (Inl (''memory: init MEMORY.md: '' @ fs_text e), p2) | (None, p2) \<Rightarrow> (Inr s, p2))
           else (Inr s, p1)))"

section \<open>Long-term memory\<close>

definition ReadMemory :: "'p store_env \<Rightarrow> memoryStore \<Rightarrow> 'p \<Rightarrow> string + string" where
  "ReadMemory env s p = (case x_readFile env p (ms_memoryFile s) of
       Inl e \<Rightarrow> Inl (''memory: read MEMORY.md: '' @ fs_text e) | Inr b \<Rightarrow> Inr (TrimSpace b))"

definition WriteMemory :: "'p store_env \<Rightarrow> memoryStore \<Rightarrow> string \<Rightarrow> 'p \<Rightarrow> string option \<times> 'p" where
  "WriteMemory env s content p = (case x_createTemp env (Dir (ms_memoryFile s)) p of
       (Inl e, p1) \<Rightarrow> (Some (''memory: create temp: '' @ fs_text e), p1)
     | (Inr name, p1) \<Rightarrow> (case x_writeString env name content p1 of
           (Some e, p2) \<Rightarrow> (Some (''memory: write temp: '' @ fs_text e), x_remove env name (snd (x_close env name p2)))
         | (None, p2) \<Rightarrow> (case x_close env name p2 of
               (Some e, p3) \<Rightarrow> (Some (''memory: close temp: '' @ fs_text e), x_remove env name p3)
             | (None, p3) \<Rightarrow> (case x_rename env name (ms_memoryFile s) p3 of
                   (Some e, p4) \<Rightarrow> (Some (''memory: rename MEMORY.md: '' @ fs_text e), x_remove env name p4)
                 | (None, p4) \<Rightarrow> (None, p4)))))"

text \<open>\<open>writeMemoryLocked\<close> is \<open>WriteMemory\<close> under the lock already held.\<close>

definition AppendMemory :: "'p store_env \<Rightarrow> memoryStore \<Rightarrow> string \<Rightarrow> 'p \<Rightarrow> string option \<times> 'p" where
  "AppendMemory env s text p = (case ReadMemory env s p of
       Inl e \<Rightarrow> (Some e, p)
     | Inr cur \<Rightarrow> WriteMemory env s ((if HasSuffix cur [newline] then cur else cur @ [newline]) @ text @ [newline]) p)"

section \<open>Daily logs\<close>

text \<open>The clock is read three times: for the name of the log, for its header and for the entry.\<close>

definition AppendDailyLog :: "'p store_env \<Rightarrow> memoryStore \<Rightarrow> string \<Rightarrow> string \<Rightarrow> string \<Rightarrow> string \<Rightarrow> string \<Rightarrow> 'p \<Rightarrow> string option \<times> 'p" where
  "AppendDailyLog env s day header_day time speaker text p =
     (let path = Path_Join [ms_memoriesDir s, day @ ''.md''];
          header = ''# Session Log '' @ header_day @ [newline, newline] in
      case (if missing env p path then s_writeFile env path header p else (None, p)) of
        (Some e, p1) \<Rightarrow> (Some (''memory: init daily log: '' @ fs_text e), p1)
      | (None, p1) \<Rightarrow> (case s_openAppend env p1 path of
            Some e \<Rightarrow> (Some (''memory: open daily log: '' @ fs_text e), p1)
          | None \<Rightarrow> (case s_append env path ([newline] @ ''## '' @ time @ '' | '' @ speaker @ [newline] @ text @ [newline]) p1 of
              (e, p2) \<Rightarrow> (map_option fs_text e, p2))))"

definition log_names :: "dirent list \<Rightarrow> string list" where
  "log_names entries = map dt_name (filter (\<lambda>e. \<not> dt_isDir e \<and> HasSuffix (dt_name e) ''.md'') entries)"

definition read_log :: "'p store_env \<Rightarrow> memoryStore \<Rightarrow> 'p \<Rightarrow> string \<Rightarrow> string list" where
  "read_log env s p name = (case x_readFile env p (Path_Join [ms_memoriesDir s, name]) of Inl _ \<Rightarrow> [] | Inr b \<Rightarrow> [b])"

text \<open>A missing directory has no logs. A log that cannot be read counts among the most recent all the same.\<close>

definition recentLogs :: "'p store_env \<Rightarrow> memoryStore \<Rightarrow> int \<Rightarrow> 'p \<Rightarrow> string + string list" where
  "recentLogs env s n p = (case s_readDir env p (ms_memoriesDir s) of
       Inl (NotExist _) \<Rightarrow> Inr []
     | Inl (OtherError e) \<Rightarrow> Inl e
     | Inr entries \<Rightarrow> Inr (rev (concat (map (read_log env s p) (take (nat n) (rev (sort (log_names entries))))))))"

definition search_log :: "'p store_env \<Rightarrow> memoryStore \<Rightarrow> 'p \<Rightarrow> string \<Rightarrow> string \<Rightarrow> string list" where
  "search_log env s p query name = concat (map (\<lambda>b.
     map (\<lambda>line. ''['' @ name @ ''] '' @ line) (filter (\<lambda>line. Contains (ToLower line) (ToLower query)) (split_on newline b)))
     (read_log env s p name))"

definition SearchLogs :: "'p store_env \<Rightarrow> memoryStore \<Rightarrow> string \<Rightarrow> 'p \<Rightarrow> string + string list" where
  "SearchLogs env s query p = (case s_readDir env p (ms_memoriesDir s) of
       Inl (NotExist _) \<Rightarrow> Inr []
     | Inl (OtherError e) \<Rightarrow> Inl e
     | Inr entries \<Rightarrow> Inr (concat (map (search_log env s p query) (log_names entries))))"

section \<open>Knowledge files\<close>

abbreviation knowledgeSizeLimit :: nat where "knowledgeSizeLimit \<equiv> 4 * 1024"

definition small_knowledge :: "'p store_env \<Rightarrow> memoryStore \<Rightarrow> 'p \<Rightarrow> dirent \<Rightarrow> string list" where
  "small_knowledge env s p e = (case dt_size e of
       Some n \<Rightarrow> (if \<not> dt_isDir e \<and> n \<le> knowledgeSizeLimit
         then (case x_readFile env p (Path_Join [ms_knowledgesDir s, dt_name e]) of
             Inl _ \<Rightarrow> [] | Inr b \<Rightarrow> [''### '' @ dt_name e @ [newline] @ b]) else [])
     | None \<Rightarrow> [])"

definition large_knowledge :: "memoryStore \<Rightarrow> dirent \<Rightarrow> string list" where
  "large_knowledge s e = (case dt_size e of
       Some n \<Rightarrow> (if \<not> dt_isDir e \<and> \<not> n \<le> knowledgeSizeLimit then [Path_Join [ms_knowledgesDir s, dt_name e]] else [])
     | None \<Rightarrow> [])"

definition injectKnowledges :: "'p store_env \<Rightarrow> memoryStore \<Rightarrow> 'p \<Rightarrow> string + string" where
  "injectKnowledges env s p = (case s_readDir env p (ms_knowledgesDir s) of
       Inl (NotExist _) \<Rightarrow> Inr []
     | Inl (OtherError e) \<Rightarrow> Inl e
     | Inr entries \<Rightarrow>
         (let small = concat (map (small_knowledge env s p) entries);
              large = concat (map (large_knowledge s) entries) in
          Inr (TrimSpace (concat (map (\<lambda>b. b @ [newline, newline]) small) @
            (if 0 < length large
             then ''#### Large knowledge files (use read_file tool to access):'' @ [newline] @
               concat (map (\<lambda>f. ''- '' @ f @ [newline]) large) else [])))))"

section \<open>The instruction\<close>

text \<open>A source that cannot be read, or is empty, is left out.\<close>

definition memory_section :: "string \<Rightarrow> string \<Rightarrow> string \<Rightarrow> string" where
  "memory_section title content end_text = (if content = [] then [] else
     ''---'' @ [newline] @ ''## '' @ title @ [newline] @ content @ end_text)"

definition ok_or_empty :: "string + 'a list \<Rightarrow> 'a list" where
  "ok_or_empty r = (case r of Inl _ \<Rightarrow> [] | Inr x \<Rightarrow> x)"

definition Memory_BuildInstruction :: "'p store_env \<Rightarrow> memoryStore \<Rightarrow> string \<Rightarrow> int \<Rightarrow> 'p \<Rightarrow> string" where
  "Memory_BuildInstruction env s base window p =
     (let logs = (if 0 < window then ok_or_empty (recentLogs env s window p) else []) in
      TrimSpace ((if base \<noteq> [] then base @ [newline, newline] else []) @
        memory_section ''Long-term Memory'' (ok_or_empty (ReadMemory env s p)) [newline, newline] @
        memory_section ''Recent Session Logs'' (concat (map (\<lambda>log. log @ [newline]) logs)) [newline] @
        memory_section ''Domain Knowledge'' (ok_or_empty (injectKnowledges env s p)) [newline]))"

end
