(* ===== verification/App_Config.thy ===== *)
theory App_Config
  imports File_Tools
begin

text \<open>
  The configuration of the command line program (\<open>cmd/blades/internal/config\<close>) and the resolution of
  model names against it (\<open>cmd/blades/internal/model\<close>). The home directory, the environment, the YAML
  decoder and the constructors of the three providers are arguments.
\<close>

section \<open>Configuration\<close>

record Provider =
  pv_name :: string
  pv_provider :: string
  pv_models :: "string list"
  pv_apiKey :: string
  pv_baseURL :: string

record config_exec =
  ce_timeoutSeconds :: "64 word"
  ce_deny :: "string list"
  ce_allow :: "string list"
  ce_restrict :: bool

record lark_config =
  lk_appID :: string
  lk_appSecret :: string
  lk_encryptKey :: string
  lk_verificationToken :: string
  lk_enabled :: bool
  lk_debug :: bool

record weixin_config =
  wc_accountID :: string
  wc_botToken :: string
  wc_baseURL :: string
  wc_routeTag :: string
  wc_channelVersion :: string
  wc_accountDir :: string
  wc_cdnBaseURL :: string
  wc_stateDir :: string
  wc_mediaDir :: string
  wc_allowFrom :: "string list"
  wc_enabled :: bool
  wc_debug :: bool

record Config =
  cf_providers :: "Provider list"
  cf_exec :: config_exec
  cf_lark :: lark_config
  cf_weixin :: weixin_config

definition isSupportedProvider :: "string \<Rightarrow> bool" where
  "isSupportedProvider name \<longleftrightarrow> name = ''anthropic'' \<or> name = ''openai'' \<or> name = ''gemini''"

text \<open>\<open>home\<close> is \<open>os.UserHomeDir\<close>.\<close>

definition ExpandTilde :: "string option \<Rightarrow> string \<Rightarrow> string" where
  "ExpandTilde home path =
     (if HasPrefix path ''~/'' \<or> path = ''~'' then
        (case home of None \<Rightarrow> path | Some h \<Rightarrow> if path = ''~'' then h else Path_Join [h, drop 2 path])
      else path)"

definition trim_provider :: "Provider \<Rightarrow> Provider" where
  "trim_provider p = \<lparr>pv_name = TrimSpace (pv_name p), pv_provider = TrimSpace (pv_provider p),
     pv_models = map TrimSpace (pv_models p), pv_apiKey = TrimSpace (pv_apiKey p), pv_baseURL = TrimSpace (pv_baseURL p)\<rparr>"

text \<open>The loop over the providers; \<open>seen\<close> are the names before the \<open>i\<close>-th.\<close>

fun normalize_providers :: "nat \<Rightarrow> string list \<Rightarrow> Provider list \<Rightarrow> string + Provider list" where
  "normalize_providers i seen [] = Inr []"
| "normalize_providers i seen (q # qs) =
     (let p = trim_provider q;
          tag = ''config: providers['' @ show_nat i @ ''].provider '';
          p' = (if pv_name p = [] then p\<lparr>pv_name := pv_provider p\<rparr> else p)
      in echeck (first_err
          [fail_if (pv_provider p = []) (tag @ ''is required''),
           fail_if (\<not> isSupportedProvider (pv_provider p)) (tag @ Quote (pv_provider p) @ '' is unsupported (want anthropic|openai|gemini)''),
           fail_if (pv_name p' \<in> set seen) (''config: duplicate provider name '' @ Quote (pv_name p'))])
        (ebind (normalize_providers (Suc i) (pv_name p' # seen) qs) (\<lambda>ps. Inr (p' # ps))))"

definition Normalize :: "string option \<Rightarrow> Config \<Rightarrow> string + Config" where
  "Normalize home c = ebind (normalize_providers 0 [] (cf_providers c)) (\<lambda>ps. Inr (c\<lparr>cf_providers := ps,
     cf_weixin := (cf_weixin c)\<lparr>wc_accountDir := ExpandTilde home (TrimSpace (wc_accountDir (cf_weixin c))),
       wc_stateDir := ExpandTilde home (TrimSpace (wc_stateDir (cf_weixin c))),
       wc_mediaDir := ExpandTilde home (TrimSpace (wc_mediaDir (cf_weixin c)))\<rparr>\<rparr>))"

text \<open>In nanoseconds; the product wraps at 64 bits.\<close>

definition ExecTimeout :: "config_exec \<Rightarrow> int" where
  "ExecTimeout e = (if 0 <s ce_timeoutSeconds e then sint (ce_timeoutSeconds e * 1000000000) else 60000000000)"

text \<open>What \<open>Load\<close> asks of the outside: the home directory, whether a file exists, its contents,
  \<open>os.ExpandEnv\<close> and the decoder, which fills in the fields of a document.\<close>

record config_env =
  cv_home :: "string option"
  cv_exists :: "string \<Rightarrow> bool"
  cv_read :: "string \<Rightarrow> string + string"
  cv_expand :: "string \<Rightarrow> string"
  cv_unmarshal :: "string \<Rightarrow> string + Config"

definition empty_config :: Config where
  "empty_config = \<lparr>cf_providers = [],
     cf_exec = \<lparr>ce_timeoutSeconds = 0, ce_deny = [], ce_allow = [], ce_restrict = False\<rparr>,
     cf_lark = \<lparr>lk_appID = [], lk_appSecret = [], lk_encryptKey = [], lk_verificationToken = [], lk_enabled = False, lk_debug = False\<rparr>,
     cf_weixin = \<lparr>wc_accountID = [], wc_botToken = [], wc_baseURL = [], wc_routeTag = [], wc_channelVersion = [],
       wc_accountDir = [], wc_cdnBaseURL = [], wc_stateDir = [], wc_mediaDir = [], wc_allowFrom = [], wc_enabled = False,
       wc_debug = False\<rparr>\<rparr>"

definition config_path :: "config_env \<Rightarrow> string \<Rightarrow> string" where
  "config_path env path = (if path \<noteq> [] then path else case cv_home env of
       None \<Rightarrow> []
     | Some home \<Rightarrow> (let candidate = Path_Join [home, ''.blades'', ''config.yaml''] in
         if cv_exists env candidate then candidate else []))"

definition Load :: "config_env \<Rightarrow> string \<Rightarrow> string + Config" where
  "Load env given =
     (let path = config_path env given in
      if path = [] then Inr empty_config
      else ebind (case cv_read env path of Inl e \<Rightarrow> Inl (''read config '' @ Quote path @ '': '' @ e) | Inr d \<Rightarrow> Inr d) (\<lambda>d.
           ebind (case cv_unmarshal env (cv_expand env d) of
               Inl e \<Rightarrow> Inl (''parse config '' @ Quote path @ '': '' @ e) | Inr c \<Rightarrow> Inr c) (\<lambda>c.
           Normalize (cv_home env) c)))"

section \<open>Model names\<close>

text \<open>\<open>strings.Cut\<close> at a slash.\<close>

definition cut_slash :: "string \<Rightarrow> string \<times> string" where
  "cut_slash s = (takeWhile (\<lambda>c. c \<noteq> slash) s, drop 1 (dropWhile (\<lambda>c. c \<noteq> slash) s))"

text \<open>The constructors of the contrib packages: from the configuration and the model's name.\<close>

record 'm makers =
  mk_anthropic :: "Provider \<Rightarrow> string \<Rightarrow> string + 'm"
  mk_openai :: "Provider \<Rightarrow> string \<Rightarrow> string + 'm"
  mk_gemini :: "Provider \<Rightarrow> string \<Rightarrow> string + 'm"

definition NewProvider :: "'m makers \<Rightarrow> Provider \<Rightarrow> string \<Rightarrow> string + 'm" where
  "NewProvider mk p model =
     (if pv_provider p = ''anthropic'' then mk_anthropic mk p model
      else if pv_provider p = ''openai'' then mk_openai mk p model
      else if pv_provider p = ''gemini'' then mk_gemini mk p model
      else Inl (''unsupported provider: '' @ Quote (pv_provider p) @ '' (want anthropic|openai|gemini)''))"

definition matchesProviderName :: "Provider \<Rightarrow> string \<Rightarrow> bool" where
  "matchesProviderName p ref = (pv_name p = ref)"

definition Model_Resolve :: "'m makers \<Rightarrow> Provider list \<Rightarrow> string \<Rightarrow> string + 'm" where
  "Model_Resolve mk providers name =
     (let (before, after) = cut_slash name;
          (providerRef, modelName) = (if after = [] then ([], before) else (before, after))
      in case find (\<lambda>p. (providerRef = [] \<or> matchesProviderName p providerRef) \<and> modelName \<in> set (pv_models p)) providers of
           Some p \<Rightarrow> NewProvider mk p modelName
         | None \<Rightarrow>
             (case (if providerRef = [] then None else find (\<lambda>p. matchesProviderName p providerRef) providers) of
                Some p \<Rightarrow> NewProvider mk p modelName
              | None \<Rightarrow> Inl (''model '' @ Quote name @ '' not found in any configured provider'')))"

end
