(* ===== verification/Cron.thy ===== *)
theory Cron
  imports Go_Strings "HOL-Library.Word"
begin

text \<open>
  The job scheduler of the command line tool (\<open>src/cmd/blades/internal/cron\<close>: \<open>types.go\<close>,
  \<open>service.go\<close>). A time is its distance in nanoseconds from Go's zero time, so \<open>IsZero\<close> is
  \<open>t = 0\<close>; a duration is a 64-bit word, read with \<open>sint\<close>. The store file is a part of the
  service's state, with flags for the operations of the file system that fail; whoever else
  edits the file is a step of its own. Each reading of the clock is an argument of the operation.
  The cron expression parser, the time zone database, the YAML and JSON codecs, the formatting of
  times, the processes a job starts and the channel it notifies are parameters (\<open>cron_env\<close>). A store
  is taken to have no null job entries. Log output is left out.
\<close>

section \<open>Jobs\<close>

type_synonym time = int

abbreviation IsZero :: "time \<Rightarrow> bool" where "IsZero t \<equiv> t = 0"

text \<open>\<open>ScheduleKind\<close> and \<open>PayloadKind\<close> are strings: a store may hold any.\<close>

abbreviation ScheduleAt :: string where "ScheduleAt \<equiv> ''at''"
abbreviation ScheduleEvery :: string where "ScheduleEvery \<equiv> ''every''"
abbreviation ScheduleCron :: string where "ScheduleCron \<equiv> ''cron''"

abbreviation PayloadExec :: string where "PayloadExec \<equiv> ''exec''"
abbreviation PayloadAgentTurn :: string where "PayloadAgentTurn \<equiv> ''agent_turn''"
abbreviation PayloadNotify :: string where "PayloadNotify \<equiv> ''notify''"

record schedule =
  sch_kind :: string
  sch_at :: time
  sch_everyMs :: "64 word"
  sch_expr :: string
  sch_tz :: string

record payload =
  pl_kind :: string
  pl_command :: string
  pl_message :: string
  pl_sessionID :: string
  pl_replySessionID :: string

record jobState =
  nextRunAt :: time
  lastRunAt :: time
  lastStatus :: string
  lastError :: string
  lastOutput :: string

record job =
  job_id :: string
  job_name :: string
  job_enabled :: bool
  job_schedule :: schedule
  job_payload :: payload
  job_state :: jobState
  createdAt :: time
  updatedAt :: time
  deleteAfterRun :: bool

record store =
  version :: int
  jobs :: "job list"

abbreviation empty_store :: store where "empty_store \<equiv> \<lparr>version = 0, jobs = []\<rparr>"
abbreviation fresh_store :: store where "fresh_store \<equiv> \<lparr>version = 1, jobs = []\<rparr>"

abbreviation next_run :: "job \<Rightarrow> time" where "next_run j \<equiv> nextRunAt (job_state j)"

definition set_next :: "time \<Rightarrow> job \<Rightarrow> job" where
  "set_next t j = j\<lparr>job_state := (job_state j)\<lparr>nextRunAt := t\<rparr>\<rparr>"

text \<open>An unmarshaller reports success and what it made of the value it was given.\<close>

record cron_env =
  ce_local :: string
  ce_loadLocation :: "string \<Rightarrow> string option"
  ce_parse :: "string \<Rightarrow> (string \<Rightarrow> time \<Rightarrow> time) option"
  ce_yaml_marshal :: "store \<Rightarrow> string option"
  ce_yaml_unmarshal :: "string \<Rightarrow> store \<Rightarrow> bool \<times> store"
  ce_json_encode :: "store \<Rightarrow> string option"
  ce_json_unmarshal :: "string \<Rightarrow> store \<Rightarrow> bool \<times> store"
  ce_rfc3339 :: "time \<Rightarrow> string"
  ce_duration :: "64 word \<Rightarrow> string"

section \<open>Schedules\<close>

definition millis :: "64 word \<Rightarrow> 64 word" where
  "millis ms = ms * 1000000"

definition computeNextRun :: "cron_env \<Rightarrow> schedule \<Rightarrow> time \<Rightarrow> time" where
  "computeNextRun env s base =
     (let kind = (if sch_kind s = ''once'' then ScheduleAt else sch_kind s) in
      if kind = ScheduleAt then (if \<not> IsZero (sch_at s) \<and> sch_at s > base then sch_at s else 0)
      else if kind = ScheduleEvery then (if sint (sch_everyMs s) > 0 then base + sint (millis (sch_everyMs s)) else 0)
      else if kind = ScheduleCron then
        (if sch_expr s = [] then 0
         else let loc = (if sch_tz s \<noteq> [] then (case ce_loadLocation env (sch_tz s) of Some l \<Rightarrow> l | None \<Rightarrow> ce_local env)
                         else ce_local env)
              in case ce_parse env (sch_expr s) of None \<Rightarrow> 0 | Some sched \<Rightarrow> sched loc base)
      else 0)"

section \<open>Job handlers\<close>

definition normalizePayloadKind :: "string \<Rightarrow> string" where
  "normalizePayloadKind kind =
     (let k = ToLower (TrimSpace kind) in
      if k \<in> {''shell'', ''command''} then PayloadExec
      else if k \<in> {''message'', ''agent_message''} then PayloadAgentTurn
      else if k \<in> {''chat'', ''social'', ''channel_message''} then PayloadNotify
      else kind)"

text \<open>A handler returns its output and error. The outside \<open>'p\<close> is what commands, the agent and the
  channels read and change; a deadline that passes is one of the errors they return.\<close>

type_synonym 'p job_handler = "job \<Rightarrow> 'p \<Rightarrow> (string \<times> string option) \<times> 'p"
type_synonym 'p trigger_fn = "string \<Rightarrow> string \<Rightarrow> 'p \<Rightarrow> (string \<times> string option) \<times> 'p"
type_synonym 'p notify_fn = "string \<Rightarrow> string \<Rightarrow> 'p \<Rightarrow> string option \<times> 'p"
type_synonym 'p shell = "string \<Rightarrow> string \<Rightarrow> 'p \<Rightarrow> (string \<times> string option) \<times> 'p"

definition send_reply :: "'p notify_fn option \<Rightarrow> string \<Rightarrow> string \<Rightarrow> 'p \<Rightarrow> 'p" where
  "send_reply notify target text p = (case notify of None \<Rightarrow> p
     | Some f \<Rightarrow> if target = [] then p else snd (f target text p))"

definition newBotHandlerWithExecWorkDir ::
  "'p shell \<Rightarrow> 'p trigger_fn \<Rightarrow> 'p notify_fn option \<Rightarrow> string \<Rightarrow> 'p job_handler" where
  "newBotHandlerWithExecWorkDir sh trigger notify execWorkDir j p =
     (let kind = normalizePayloadKind (pl_kind (job_payload j)); reply_to = pl_replySessionID (job_payload j) in
      if kind = PayloadExec then
        (case sh (TrimSpace execWorkDir) (pl_command (job_payload j)) p of
           ((out, Some e), p') \<Rightarrow> ((out, Some (''command execution failed: '' @ e)), p')
         | ((out, None), p') \<Rightarrow> ((out, None), send_reply notify reply_to out p'))
      else if kind = PayloadAgentTurn then
        (let sess = (if pl_sessionID (job_payload j) = [] then ''cron'' else pl_sessionID (job_payload j)) in
         case trigger sess (pl_message (job_payload j)) p of
           ((reply, Some e), p') \<Rightarrow> (([], Some e), p')
         | ((reply, None), p') \<Rightarrow> ((reply, None), send_reply notify reply_to reply p'))
      else if kind = PayloadNotify then
        (let text = TrimSpace (pl_message (job_payload j)); target = TrimSpace reply_to in
         if text = [] then (([], Some ''notify message is empty''), p)
         else if target = [] then (([], Some ''notify target session is empty''), p)
         else case notify of None \<Rightarrow> (([], Some ''notify handler is nil''), p)
           | Some f \<Rightarrow> (case f target text p of
                (Some e, p') \<Rightarrow> (([], Some e), p') | (None, p') \<Rightarrow> ((text, None), p')))
      else (([], Some (''unknown payload kind '' @ Quote (pl_kind (job_payload j)))), p))"

definition NewBotHandlerWithExecWorkDir ::
  "'p shell \<Rightarrow> 'p trigger_fn \<Rightarrow> 'p notify_fn option \<Rightarrow> string \<Rightarrow> 'p job_handler" where
  "NewBotHandlerWithExecWorkDir sh trigger notify dir = newBotHandlerWithExecWorkDir sh trigger notify dir"

definition NewBotHandler :: "'p shell \<Rightarrow> 'p trigger_fn \<Rightarrow> 'p notify_fn option \<Rightarrow> 'p job_handler" where
  "NewBotHandler sh trigger notify = NewBotHandlerWithExecWorkDir sh trigger notify []"

definition NewAgentHandler :: "'p shell \<Rightarrow> 'p trigger_fn \<Rightarrow> 'p job_handler" where
  "NewAgentHandler sh trigger = NewBotHandler sh trigger None"

definition NewAgentHandlerWithExecWorkDir :: "'p shell \<Rightarrow> 'p trigger_fn \<Rightarrow> string \<Rightarrow> 'p job_handler" where
  "NewAgentHandlerWithExecWorkDir sh trigger dir = NewBotHandlerWithExecWorkDir sh trigger None dir"

definition DefaultExecHandler :: "'p shell \<Rightarrow> string list \<Rightarrow> 'p job_handler" where
  "DefaultExecHandler sh workDir j p =
     (if pl_kind (job_payload j) \<noteq> PayloadExec then (([], None), p)
      else sh (case workDir of [] \<Rightarrow> [] | d # _ \<Rightarrow> TrimSpace d) (pl_command (job_payload j)) p)"

section \<open>The store file\<close>

text \<open>\<open>filepath.Ext\<close>: from the last dot of the last path element.\<close>

definition path_ext :: "string \<Rightarrow> string" where
  "path_ext path = (let base = rev (takeWhile (\<lambda>c. c \<noteq> CHR ''/'') (rev path)) in
     if CHR ''.'' \<in> set base then CHR ''.'' # rev (takeWhile (\<lambda>c. c \<noteq> CHR ''.'') (rev base)) else [])"

definition isYAMLStorePath :: "string \<Rightarrow> bool" where
  "isYAMLStorePath path = (ToLower (path_ext path) \<in> {''.yaml'', ''.yml''})"

definition cronTempPattern :: "string \<Rightarrow> string" where
  "cronTempPattern path = (if isYAMLStorePath path then ''.cron-*.yaml.tmp'' else ''.cron-*.json.tmp'')"

definition unmarshalStore :: "cron_env \<Rightarrow> string \<Rightarrow> string \<Rightarrow> store \<Rightarrow> bool \<times> store" where
  "unmarshalStore env data path out =
     (if isYAMLStorePath path then ce_yaml_unmarshal env data out else ce_json_unmarshal env data out)"

definition decodeStore :: "cron_env \<Rightarrow> string \<Rightarrow> string \<Rightarrow> store option" where
  "decodeStore env data path =
     (case unmarshalStore env data path empty_store of
        (True, st) \<Rightarrow> Some st
      | (False, st) \<Rightarrow>
          (case (if isYAMLStorePath path then ce_json_unmarshal env data st else ce_yaml_unmarshal env data st) of
             (True, st') \<Rightarrow> Some st' | (False, _) \<Rightarrow> None))"

definition trim_newlines :: "string \<Rightarrow> string" where
  "trim_newlines data = rev (dropWhile (\<lambda>c. c = newline) (rev data))"

definition encodeStore :: "cron_env \<Rightarrow> store \<Rightarrow> string \<Rightarrow> string option" where
  "encodeStore env st path =
     (if isYAMLStorePath path
      then (case ce_yaml_marshal env st of None \<Rightarrow> None | Some data \<Rightarrow> Some (trim_newlines data @ [newline]))
      else ce_json_encode env st)"

text \<open>The file with its modification time, the time a write now gets, and which operations of the
  file system fail.\<close>

record disk =
  d_file :: "(string \<times> time) option"
  d_clock :: time
  d_stat_fails :: bool
  d_read_fails :: bool
  d_write_fails :: bool

definition stat_mtime :: "disk \<Rightarrow> time option" where
  "stat_mtime d = (if d_stat_fails d then None else map_option snd (d_file d))"

datatype read_result = ReadData string | NotExist | ReadErr

definition read_file :: "disk \<Rightarrow> read_result" where
  "read_file d = (if d_read_fails d then ReadErr else case d_file d of None \<Rightarrow> NotExist | Some (data, _) \<Rightarrow> ReadData data)"

section \<open>The service\<close>

record 'p service =
  sv_path :: string
  sv_handler :: "'p job_handler option"
  sv_st :: store
  sv_lastMtime :: time
  sv_knownIDs :: "string set option"
  sv_timer :: "int option"
  sv_watching :: bool
  sv_running :: bool
  sv_disk :: disk
  sv_outside :: 'p

datatype cron_error = LoadErr | SaveErr | NoFutureRun string | JobNotFound string

definition NewService :: "string \<Rightarrow> 'p job_handler option \<Rightarrow> disk \<Rightarrow> 'p \<Rightarrow> 'p service" where
  "NewService path h d p = \<lparr>sv_path = path, sv_handler = h, sv_st = empty_store, sv_lastMtime = 0,
     sv_knownIDs = None, sv_timer = None, sv_watching = False, sv_running = False, sv_disk = d, sv_outside = p\<rparr>"

definition SetHandler :: "'p job_handler option \<Rightarrow> 'p service \<Rightarrow> 'p service" where
  "SetHandler h s = s\<lparr>sv_handler := h\<rparr>"

definition update_store :: "(job list \<Rightarrow> job list) \<Rightarrow> 'p service \<Rightarrow> 'p service" where
  "update_store f s = s\<lparr>sv_st := (sv_st s)\<lparr>jobs := f (jobs (sv_st s))\<rparr>\<rparr>"

definition check_mtime :: "'p service \<Rightarrow> 'p service" where
  "check_mtime s = (case stat_mtime (sv_disk s) of None \<Rightarrow> s
     | Some mt \<Rightarrow> if mt \<noteq> sv_lastMtime s then s\<lparr>sv_st := empty_store, sv_lastMtime := mt\<rparr> else s)"

definition loadLocked :: "cron_env \<Rightarrow> 'p service \<Rightarrow> cron_error option \<times> 'p service" where
  "loadLocked env s0 =
     (let s = check_mtime s0 in
      if version (sv_st s) \<noteq> 0 then (None, s)
      else case read_file (sv_disk s) of
          NotExist \<Rightarrow> (None, s\<lparr>sv_st := fresh_store\<rparr>)
        | ReadErr \<Rightarrow> (Some LoadErr, s)
        | ReadData raw \<Rightarrow>
            (let data = TrimSpace raw in
             if data = [] then (None, s\<lparr>sv_st := fresh_store\<rparr>)
             else case decodeStore env data (sv_path s) of
                 None \<Rightarrow> (None, s\<lparr>sv_st := fresh_store\<rparr>)
               | Some st \<Rightarrow> (None, s\<lparr>sv_st := (if version st = 0 then st\<lparr>version := 1\<rparr> else st)\<rparr>)))"

definition saveLocked :: "cron_env \<Rightarrow> 'p service \<Rightarrow> cron_error option \<times> 'p service" where
  "saveLocked env s =
     (case encodeStore env (sv_st s) (sv_path s) of
        None \<Rightarrow> (Some SaveErr, s)
      | Some data \<Rightarrow>
          (if d_write_fails (sv_disk s) then (Some SaveErr, s)
           else let d = (sv_disk s)\<lparr>d_file := Some (data, d_clock (sv_disk s))\<rparr>
                in (None, s\<lparr>sv_disk := d,
                      sv_lastMtime := (case stat_mtime d of None \<Rightarrow> sv_lastMtime s | Some mt \<Rightarrow> mt)\<rparr>)))"

definition nextWakeLocked :: "'p service \<Rightarrow> time" where
  "nextWakeLocked s = fold (\<lambda>j mn. if \<not> job_enabled j \<or> IsZero (next_run j) then mn
     else if IsZero mn \<or> next_run j < mn then next_run j else mn) (jobs (sv_st s)) 0"

text \<open>\<open>Time.Sub\<close> saturates.\<close>

definition time_sub :: "time \<Rightarrow> time \<Rightarrow> int" where
  "time_sub t u = max (- (2 ^ 63)) (min (2 ^ 63 - 1) (t - u))"

definition armTimerLocked :: "time \<Rightarrow> 'p service \<Rightarrow> 'p service" where
  "armTimerLocked now s =
     (let s' = s\<lparr>sv_timer := None\<rparr> in
      if \<not> sv_running s then s'
      else let next = nextWakeLocked s in
           if IsZero next then s' else s'\<lparr>sv_timer := Some (max 0 (time_sub next now))\<rparr>)"

definition jobIDSet :: "job list \<Rightarrow> string set" where
  "jobIDSet js = set (map job_id js)"

definition removeJobSlice :: "job list \<Rightarrow> string \<Rightarrow> job list" where
  "removeJobSlice js i = filter (\<lambda>j. job_id j \<noteq> i) js"

definition Start :: "cron_env \<Rightarrow> time \<Rightarrow> 'p service \<Rightarrow> cron_error option \<times> 'p service" where
  "Start env now s0 = (case loadLocked env s0 of
       (Some e, s) \<Rightarrow> (Some e, s)
     | (None, s) \<Rightarrow> (None, (armTimerLocked now (s\<lparr>sv_running := True, sv_knownIDs := Some (jobIDSet (jobs (sv_st s)))\<rparr>))
          \<lparr>sv_watching := True\<rparr>))"

definition Stop :: "'p service \<Rightarrow> 'p service" where
  "Stop s = s\<lparr>sv_running := False, sv_timer := None, sv_watching := False\<rparr>"

definition new_job :: "cron_env \<Rightarrow> time \<Rightarrow> string \<Rightarrow> string \<Rightarrow> schedule \<Rightarrow> payload \<Rightarrow> bool \<Rightarrow> job" where
  "new_job env now new_id name sch pl del =
     \<lparr>job_id = new_id, job_name = name, job_enabled = True, job_schedule = sch,
      job_payload = (if normalizePayloadKind (pl_kind pl) = PayloadAgentTurn \<and> TrimSpace (pl_sessionID pl) = []
                     then pl\<lparr>pl_sessionID := ''cron:'' @ new_id\<rparr> else pl),
      job_state = \<lparr>nextRunAt = computeNextRun env sch now, lastRunAt = 0, lastStatus = [], lastError = [], lastOutput = []\<rparr>,
      createdAt = now, updatedAt = now, deleteAfterRun = del\<rparr>"

definition AddJob :: "cron_env \<Rightarrow> time \<Rightarrow> time \<Rightarrow> string \<Rightarrow> string \<Rightarrow> schedule \<Rightarrow> payload \<Rightarrow> bool \<Rightarrow> 'p service \<Rightarrow>
    (cron_error + job) \<times> 'p service" where
  "AddJob env now now_arm new_id name sch pl del s0 = (case loadLocked env s0 of
       (Some e, s) \<Rightarrow> (Inl e, s)
     | (None, s) \<Rightarrow>
         (if IsZero (computeNextRun env sch now) then (Inl (NoFutureRun (sch_kind sch)), s)
          else let j = new_job env now new_id name sch pl del in
            case saveLocked env (update_store (\<lambda>js. js @ [j]) s) of
              (Some e, s2) \<Rightarrow> (Inl e, s2)
            | (None, s2) \<Rightarrow> (Inr j, armTimerLocked now_arm
                  (s2\<lparr>sv_knownIDs := map_option (insert new_id) (sv_knownIDs s2)\<rparr>))))"

definition RemoveJob :: "cron_env \<Rightarrow> time \<Rightarrow> string \<Rightarrow> 'p service \<Rightarrow> (cron_error + bool) \<times> 'p service" where
  "RemoveJob env now i s0 = (case loadLocked env s0 of
       (Some e, s) \<Rightarrow> (Inl e, s)
     | (None, s) \<Rightarrow>
         (let s1 = update_store (\<lambda>js. removeJobSlice js i) s in
          if length (jobs (sv_st s1)) = length (jobs (sv_st s)) then (Inr False, s1)
          else case saveLocked env (s1\<lparr>sv_knownIDs := map_option (\<lambda>ks. ks - {i}) (sv_knownIDs s1)\<rparr>) of
              (Some e, s2) \<Rightarrow> (Inl e, s2)
            | (None, s2) \<Rightarrow> (Inr True, armTimerLocked now s2)))"

text \<open>Update the first job with the given id.\<close>

fun update_first :: "string \<Rightarrow> (job \<Rightarrow> job) \<Rightarrow> job list \<Rightarrow> job list" where
  "update_first i f [] = []"
| "update_first i f (j # js) = (if job_id j = i then f j # js else j # update_first i f js)"

definition enable_job :: "cron_env \<Rightarrow> time \<Rightarrow> time \<Rightarrow> bool \<Rightarrow> job \<Rightarrow> job" where
  "enable_job env now now2 enable j =
     set_next (if enable then computeNextRun env (job_schedule j) now2 else 0)
       (j\<lparr>job_enabled := enable, updatedAt := now\<rparr>)"

definition EnableJob :: "cron_env \<Rightarrow> time \<Rightarrow> time \<Rightarrow> time \<Rightarrow> string \<Rightarrow> bool \<Rightarrow> 'p service \<Rightarrow>
    (cron_error + bool) \<times> 'p service" where
  "EnableJob env now now2 now_arm i enable s0 = (case loadLocked env s0 of
       (Some e, s) \<Rightarrow> (Inl e, s)
     | (None, s) \<Rightarrow>
         (if i \<notin> jobIDSet (jobs (sv_st s)) then (Inr False, s)
          else case saveLocked env (update_store (update_first i (enable_job env now now2 enable)) s) of
              (Some e, s2) \<Rightarrow> (Inl e, s2)
            | (None, s2) \<Rightarrow> (Inr True, armTimerLocked now_arm s2)))"

text \<open>The comparison function of \<open>ListJobs\<close> orders by this key. Go leaves the order of jobs with
  equal keys open; this sort keeps it.\<close>

definition run_key :: "job \<Rightarrow> bool \<times> time" where
  "run_key j = (IsZero (next_run j), if IsZero (next_run j) then 0 else next_run j)"

definition runs_before :: "job \<Rightarrow> job \<Rightarrow> bool" where
  "runs_before a b = (if IsZero (next_run a) then False else if IsZero (next_run b) then True else next_run a < next_run b)"

fun insert_job :: "job \<Rightarrow> job list \<Rightarrow> job list" where
  "insert_job j [] = [j]"
| "insert_job j (k # ks) = (if runs_before k j then k # insert_job j ks else j # k # ks)"

definition sort_jobs :: "job list \<Rightarrow> job list" where
  "sort_jobs js = foldr insert_job js []"

definition ListJobs :: "cron_env \<Rightarrow> bool \<Rightarrow> 'p service \<Rightarrow> (cron_error + job list) \<times> 'p service" where
  "ListJobs env includeDisabled s0 = (case loadLocked env s0 of
       (Some e, s) \<Rightarrow> (Inl e, s)
     | (None, s) \<Rightarrow> (Inr (sort_jobs (filter (\<lambda>j. includeDisabled \<or> job_enabled j) (jobs (sv_st s)))), s))"

section \<open>Execution\<close>

text \<open>The state a finished run leaves in its job: \<open>execute\<close> from the lock on.\<close>

definition record_run :: "time \<Rightarrow> time \<Rightarrow> string \<times> string option \<Rightarrow> job \<Rightarrow> job" where
  "record_run startAt now res j =
     j\<lparr>job_state := (job_state j)\<lparr>lastRunAt := startAt, lastOutput := fst res,
         lastStatus := (case snd res of Some _ \<Rightarrow> ''error'' | None \<Rightarrow> ''ok''),
         lastError := (case snd res of Some e \<Rightarrow> e | None \<Rightarrow> [])\<rparr>,
       updatedAt := now\<rparr>"

definition after_run :: "cron_env \<Rightarrow> time \<Rightarrow> job \<Rightarrow> job" where
  "after_run env now j = (if sch_kind (job_schedule j) = ScheduleAt then (set_next 0 j)\<lparr>job_enabled := False\<rparr>
     else set_next (computeNextRun env (job_schedule j) now) j)"

definition finish_run :: "cron_env \<Rightarrow> time \<Rightarrow> time \<Rightarrow> time \<Rightarrow> string \<Rightarrow> string \<times> string option \<Rightarrow> job list \<Rightarrow> job list" where
  "finish_run env startAt now now2 i res js =
     (case find (\<lambda>j. job_id j = i) js of
        None \<Rightarrow> js
      | Some j \<Rightarrow> if deleteAfterRun j then removeJobSlice js i
                  else update_first i (\<lambda>j. after_run env now2 (record_run startAt now res j)) js)"

definition call_handler :: "job \<Rightarrow> 'p service \<Rightarrow> (string \<times> string option) \<times> 'p service" where
  "call_handler j s = (case sv_handler s of None \<Rightarrow> (([], None), s)
     | Some h \<Rightarrow> (case h j (sv_outside s) of (r, p) \<Rightarrow> (r, s\<lparr>sv_outside := p\<rparr>)))"

definition execute :: "cron_env \<Rightarrow> time \<times> time \<times> time \<Rightarrow> job \<Rightarrow> 'p service \<Rightarrow> (string \<times> string option) \<times> 'p service" where
  "execute env ts j s0 = (case ts of (startAt, now, now2) \<Rightarrow>
     case call_handler j s0 of (res, s) \<Rightarrow>
       (res, snd (saveLocked env (update_store (finish_run env startAt now now2 (job_id j) res) s))))"

definition RunNow :: "cron_env \<Rightarrow> time \<times> time \<times> time \<Rightarrow> string \<Rightarrow> 'p service \<Rightarrow>
    (cron_error + string \<times> string option) \<times> 'p service" where
  "RunNow env ts i s0 = (case loadLocked env s0 of
       (Some e, s) \<Rightarrow> (Inl e, s)
     | (None, s) \<Rightarrow> (case find (\<lambda>j. job_id j = i) (jobs (sv_st s)) of
          None \<Rightarrow> (Inl (JobNotFound i), s)
        | Some j \<Rightarrow> (case execute env ts j s of (r, s') \<Rightarrow> (Inr r, s'))))"

definition is_due :: "time \<Rightarrow> job \<Rightarrow> bool" where
  "is_due now j \<longleftrightarrow> job_enabled j \<and> \<not> IsZero (next_run j) \<and> \<not> now < next_run j"

text \<open>The first locked section of \<open>tick\<close>: the due jobs, and the schedules advanced.\<close>

definition tick_collect :: "cron_env \<Rightarrow> time \<Rightarrow> 'p service \<Rightarrow> job list \<times> 'p service" where
  "tick_collect env now s =
     (let due = filter (is_due now) (jobs (sv_st s)) in
      if due = [] then (due, s)
      else (due, snd (saveLocked env (update_store
         (map (\<lambda>j. if job_id j \<in> jobIDSet due then after_run env now j else j)) s))))"

text \<open>\<open>tick\<close>. The runs of the due jobs take effect in the order \<open>order\<close> lists them, with the clock
  readings of each.\<close>

definition tick :: "cron_env \<Rightarrow> time \<Rightarrow> (job list \<Rightarrow> (nat \<times> time \<times> time \<times> time) list) \<Rightarrow> time \<Rightarrow> 'p service \<Rightarrow> 'p service" where
  "tick env now order now_arm s0 = (case loadLocked env s0 of
       (Some e, s) \<Rightarrow> s
     | (None, s) \<Rightarrow> (case tick_collect env now s of (due, s1) \<Rightarrow>
          armTimerLocked now_arm (fold (\<lambda>(n, ts) s. snd (execute env ts (due ! n) s)) (order due) s1)))"

text \<open>One round of \<open>watchFile\<close>: reload from disk whatever the modification time.\<close>

definition watch_round :: "cron_env \<Rightarrow> time \<Rightarrow> 'p service \<Rightarrow> 'p service" where
  "watch_round env now s0 = (case loadLocked env (s0\<lparr>sv_st := empty_store\<rparr>) of
       (Some e, s) \<Rightarrow> s
     | (None, s) \<Rightarrow> armTimerLocked now
          (s\<lparr>sv_knownIDs := map_option (\<lambda>ks. ks \<union> jobIDSet (jobs (sv_st s))) (sv_knownIDs s)\<rparr>))"

text \<open>The jobs \<open>watchFile\<close> reports as new.\<close>

definition detected_jobs :: "string set \<Rightarrow> job list \<Rightarrow> job list" where
  "detected_jobs prev js = filter (\<lambda>j. job_id j \<notin> prev) js"

definition StaleJobs :: "cron_env \<Rightarrow> time \<Rightarrow> int \<Rightarrow> 'p service \<Rightarrow> job list \<times> 'p service" where
  "StaleJobs env now threshold s0 = (case ListJobs env False s0 of
       (Inl e, s) \<Rightarrow> ([], s)
     | (Inr js, s) \<Rightarrow> (filter (\<lambda>j. \<not> IsZero (lastRunAt (job_state j)) \<and> lastRunAt (job_state j) < now - threshold) js, s))"

section \<open>Descriptions\<close>

definition truncPayloadLabel :: "string \<Rightarrow> nat \<Rightarrow> string" where
  "truncPayloadLabel s n = (if length s \<le> n then s else if n \<le> 1 then take n s
     else take (n - 1) s @ [CHR 0xE2, CHR 0x80, CHR 0xA6])"

definition describePayload :: "payload \<Rightarrow> string" where
  "describePayload p =
     (let kind = normalizePayloadKind (pl_kind p); chat = truncPayloadLabel (pl_replySessionID p) 12 in
      if kind = PayloadExec then
        (let t = TrimSpace (pl_command p); text = (if t = [] then ''(empty command)'' else t) in
         if pl_replySessionID p \<noteq> [] then ''exec -> chat:'' @ chat
         else ''exec:'' @ truncPayloadLabel text 18)
      else if kind = PayloadAgentTurn then
        (let t = TrimSpace (pl_message p); text = (if t = [] then ''(empty prompt)'' else t) in
         ''agent:'' @ truncPayloadLabel text 16 @
           (if pl_replySessionID p \<noteq> [] then '' -> chat:'' @ chat else []))
      else if kind = PayloadNotify then
        (let t = TrimSpace (pl_replySessionID p); target = (if t = [] then ''missing'' else t) in
         ''notify -> chat:'' @ truncPayloadLabel target 12)
      else pl_kind p)"

definition formatTime :: "cron_env \<Rightarrow> time \<Rightarrow> string" where
  "formatTime env t = (if IsZero t then ''never'' else ce_rfc3339 env t)"

text \<open>\<open>%-20s\<close> pads to a number of runes; the bytes that continue a rune are not counted.\<close>

definition rune_count :: "string \<Rightarrow> nat" where
  "rune_count s = length (filter (\<lambda>c. \<not> (128 \<le> (of_char c :: nat) \<and> (of_char c :: nat) < 192)) s)"

definition pad_right :: "nat \<Rightarrow> string \<Rightarrow> string" where
  "pad_right n s = s @ replicate (n - rune_count s) (CHR '' '')"

definition describeSchedule :: "cron_env \<Rightarrow> time \<Rightarrow> schedule \<Rightarrow> string" where
  "describeSchedule env now s =
     (if sch_kind s = ScheduleAt then
        (if IsZero (sch_at s) then ''at (never)'' else if sch_at s < now then ''at (past)''
         else ''at '' @ formatTime env (sch_at s))
      else if sch_kind s = ScheduleEvery then ''every '' @ ce_duration env (millis (sch_everyMs s))
      else if sch_kind s = ScheduleCron then ''cron('' @ sch_expr s @ '')'' else [])"

definition FormatJob :: "cron_env \<Rightarrow> time \<Rightarrow> job \<Rightarrow> string" where
  "FormatJob env now j =
     ''['' @ job_id j @ ''] '' @ pad_right 20 (job_name j) @ '' '' @
     pad_right 25 (describeSchedule env now (job_schedule j)) @ '' '' @
     pad_right 30 (describePayload (job_payload j)) @ '' next='' @ pad_right 20 (formatTime env (next_run j)) @
     '' last='' @ (if lastStatus (job_state j) = [] then ''pending'' else lastStatus (job_state j))"

end
