(* ===== verification/Workspace.thy ===== *)
theory Workspace
  imports Memory_Store App_Config Cron
begin

text \<open>
  The directories of the command line program (\<open>workspace/workspace.go\<close>), the assembly of its parts
  (\<open>app/bootstrap.go\<close>) and \<open>blades init\<close> (\<open>cmd/init.go\<close>). The embedded templates are an argument: the
  entries below the root in the order \<open>fs.WalkDir\<close> visits them, each a path with its contents, nothing
  for a directory.
\<close>

section \<open>Paths\<close>

record workspace =
  ws_home :: string
  ws_workspace :: string

definition Workspace_New :: "string \<Rightarrow> workspace" where
  "Workspace_New homeDir = \<lparr>ws_home = homeDir, ws_workspace = Path_Join [homeDir, ''workspace'']\<rparr>"

definition NewWithWorkspace :: "string \<Rightarrow> string \<Rightarrow> workspace" where
  "NewWithWorkspace homeDir workspaceDir = \<lparr>ws_home = homeDir,
     ws_workspace = (if workspaceDir = [] then Path_Join [homeDir, ''workspace''] else workspaceDir)\<rparr>"

definition IsCustomWorkspace :: "workspace \<Rightarrow> bool" where
  "IsCustomWorkspace w \<longleftrightarrow> ws_workspace w \<noteq> Path_Join [ws_home w, ''workspace'']"

definition ConfigPath :: "workspace \<Rightarrow> string" where "ConfigPath w = Path_Join [ws_home w, ''config.yaml'']"
definition AgentPath :: "workspace \<Rightarrow> string" where "AgentPath w = Path_Join [ws_home w, ''agent.yaml'']"
definition CronStorePath :: "workspace \<Rightarrow> string" where "CronStorePath w = Path_Join [ws_home w, ''cron.yaml'']"
definition SkillsDir :: "workspace \<Rightarrow> string" where "SkillsDir w = Path_Join [ws_home w, ''skills'']"
definition SessionsDir :: "workspace \<Rightarrow> string" where "SessionsDir w = Path_Join [ws_home w, ''sessions'']"
definition LogDir :: "workspace \<Rightarrow> string" where "LogDir w = Path_Join [ws_home w, ''logs'']"
definition AgentsPath :: "workspace \<Rightarrow> string" where "AgentsPath w = Path_Join [ws_workspace w, ''AGENTS.md'']"
definition SoulPath :: "workspace \<Rightarrow> string" where "SoulPath w = Path_Join [ws_workspace w, ''SOUL.md'']"
definition IdentityPath :: "workspace \<Rightarrow> string" where "IdentityPath w = Path_Join [ws_workspace w, ''IDENTITY.md'']"
definition UserPath :: "workspace \<Rightarrow> string" where "UserPath w = Path_Join [ws_workspace w, ''USER.md'']"
definition MemoryPath :: "workspace \<Rightarrow> string" where "MemoryPath w = Path_Join [ws_workspace w, ''MEMORY.md'']"
definition HeartbeatPath :: "workspace \<Rightarrow> string" where "HeartbeatPath w = Path_Join [ws_workspace w, ''HEARTBEAT.md'']"
definition ToolsPath :: "workspace \<Rightarrow> string" where "ToolsPath w = Path_Join [ws_workspace w, ''TOOLS.md'']"
definition MemoriesDir :: "workspace \<Rightarrow> string" where "MemoriesDir w = Path_Join [ws_workspace w, ''memory'']"
definition KnowledgesDir :: "workspace \<Rightarrow> string" where "KnowledgesDir w = Path_Join [ws_workspace w, ''knowledges'']"
definition OutputsDir :: "workspace \<Rightarrow> string" where "OutputsDir w = Path_Join [ws_workspace w, ''outputs'']"

definition DailyLogPath :: "workspace \<Rightarrow> string \<Rightarrow> string" where
  "DailyLogPath w today = Path_Join [MemoriesDir w, today @ ''.md'']"

definition home_dirs :: "workspace \<Rightarrow> string list" where
  "home_dirs w = [ws_home w, SkillsDir w, SessionsDir w, LogDir w]"

definition workspace_dirs :: "workspace \<Rightarrow> string list" where
  "workspace_dirs w = [ws_workspace w, MemoriesDir w, KnowledgesDir w, OutputsDir w]"

section \<open>Templates\<close>

type_synonym templates = "(string \<times> string option) list"

text \<open>The walk below \<open>templates\<close> skips \<open>workspace\<close> and what is in it; the walk below \<open>templates/workspace\<close> fails
  where there is no such directory.\<close>

definition home_templates :: "templates \<Rightarrow> templates" where
  "home_templates T = filter (\<lambda>(rel, _). \<not> (rel = ''workspace'' \<or> HasPrefix rel ''workspace/'' \<or>
     HasPrefix rel (''workspace'' @ [CHR 0x5C]))) T"

definition workspace_templates :: "templates \<Rightarrow> string + templates" where
  "workspace_templates T = (if (''workspace'', None) \<notin> set T then Inl ''open templates/workspace: file does not exist''
     else Inr (map (\<lambda>(rel, d). (drop 10 rel, d)) (filter (\<lambda>(rel, _). HasPrefix rel ''workspace/'') T)))"

text \<open>A file that exists is left untouched, whatever it holds.\<close>

definition copy_entry :: "('p, 'z) store_env_scheme \<Rightarrow> string \<Rightarrow> string \<times> string option \<Rightarrow> 'p \<Rightarrow> string option \<times> 'p" where
  "copy_entry env dstRoot e p = (let dst = Path_Join [dstRoot, fst e] in
     case snd e of
       None \<Rightarrow> (case x_mkdirAll env dst p of (r, q) \<Rightarrow> (map_option fs_text r, q))
     | Some data \<Rightarrow> (if \<not> isl (x_stat env p dst) then (None, p)
         else case s_writeFile env dst data p of
           (r, q) \<Rightarrow> (map_option (\<lambda>x. ''workspace: write '' @ dst @ '': '' @ fs_text x) r, q)))"

fun copyTemplates :: "('p, 'z) store_env_scheme \<Rightarrow> string \<Rightarrow> templates \<Rightarrow> 'p \<Rightarrow> string option \<times> 'p" where
  "copyTemplates env dstRoot [] p = (None, p)"
| "copyTemplates env dstRoot (e # es) p = (case copy_entry env dstRoot e p of
       (Some x, q) \<Rightarrow> (Some x, q)
     | (None, q) \<Rightarrow> copyTemplates env dstRoot es q)"

definition and_then :: "('p \<Rightarrow> string option \<times> 'p) \<Rightarrow> ('p \<Rightarrow> string option \<times> 'p) \<Rightarrow> 'p \<Rightarrow> string option \<times> 'p" where
  "and_then f g p = (case f p of (Some e, q) \<Rightarrow> (Some e, q) | (None, q) \<Rightarrow> g q)"

definition copy_workspace :: "('p, 'z) store_env_scheme \<Rightarrow> templates \<Rightarrow> workspace \<Rightarrow> 'p \<Rightarrow> string option \<times> 'p" where
  "copy_workspace env T w p = (case workspace_templates T of Inl e \<Rightarrow> (Some e, p)
     | Inr es \<Rightarrow> copyTemplates env (ws_workspace w) es p)"

definition Init :: "('p, 'z) store_env_scheme \<Rightarrow> templates \<Rightarrow> workspace \<Rightarrow> 'p \<Rightarrow> string option \<times> 'p" where
  "Init env T w = and_then (mkdirs env ''workspace: mkdir '' (home_dirs w))
     (and_then (mkdirs env ''workspace: mkdir '' (workspace_dirs w))
       (and_then (copyTemplates env (ws_home w) (home_templates T)) (copy_workspace env T w)))"

definition InitHome :: "('p, 'z) store_env_scheme \<Rightarrow> templates \<Rightarrow> workspace \<Rightarrow> 'p \<Rightarrow> string option \<times> 'p" where
  "InitHome env T w = and_then (mkdirs env ''workspace: mkdir '' (home_dirs w))
     (copyTemplates env (ws_home w) (home_templates T))"

definition InitWorkspace :: "('p, 'z) store_env_scheme \<Rightarrow> templates \<Rightarrow> workspace \<Rightarrow> 'p \<Rightarrow> string option \<times> 'p" where
  "InitWorkspace env T w = and_then (mkdirs env ''workspace: mkdir '' (workspace_dirs w)) (copy_workspace env T w)"

section \<open>Loading\<close>

definition Workspace_Load :: "('p, 'z) store_env_scheme \<Rightarrow> workspace \<Rightarrow> 'p \<Rightarrow> string option" where
  "Workspace_Load env w p = (if isl (x_stat env p (ws_workspace w))
     then Some (''workspace '' @ Quote (ws_workspace w) @ '' does not exist; run 'blades init' first'') else None)"

definition LoadHome :: "('p, 'z) store_env_scheme \<Rightarrow> workspace \<Rightarrow> 'p \<Rightarrow> string option" where
  "LoadHome env w p = (if isl (x_stat env p (ws_home w))
     then Some (''home '' @ Quote (ws_home w) @ '' does not exist; run 'blades init' first'') else None)"

definition Workspace_ReadFile :: "('p, 'z) store_env_scheme \<Rightarrow> workspace \<Rightarrow> string \<Rightarrow> 'p \<Rightarrow> string + string" where
  "Workspace_ReadFile env w name p = (case x_readFile env p (Path_Join [ws_workspace w, name]) of
       Inr b \<Rightarrow> Inr b
     | Inl (fs_error.NotExist _) \<Rightarrow> Inr []
     | Inl e \<Rightarrow> Inl (''workspace: read '' @ name @ '': '' @ fs_text e))"

section \<open>Bootstrap\<close>

record app_options =
  op_ConfigPath :: string
  op_WorkspaceDir :: string
  op_Debug :: bool

text \<open>What the assembly asks of the outside besides the files: the home directory, \<open>os.ExpandEnv\<close> and the YAML
  decoder of the configuration.\<close>

record 'p boot_env = "'p store_env" +
  bt_home :: "string option"
  bt_expand :: "string \<Rightarrow> string"
  bt_unmarshal :: "string \<Rightarrow> string + Config"

definition HomeDir :: "string option \<Rightarrow> string" where
  "HomeDir home = (case home of
       Some h \<Rightarrow> (if TrimSpace h = [] then Path_Join [''.'', ''.blades''] else Path_Join [h, ''.blades''])
     | None \<Rightarrow> Path_Join [''.'', ''.blades''])"

definition boot_workspace :: "string option \<Rightarrow> app_options \<Rightarrow> workspace" where
  "boot_workspace home opts = NewWithWorkspace (HomeDir home)
     (if op_WorkspaceDir opts \<noteq> [] then ExpandTilde home (op_WorkspaceDir opts) else [])"

text \<open>The configuration is loaded from the files of the moment.\<close>

definition config_outside :: "('p, 'z) boot_env_scheme \<Rightarrow> 'p \<Rightarrow> config_env" where
  "config_outside env p = \<lparr>cv_home = bt_home env, cv_exists = (\<lambda>path. \<not> isl (x_stat env p path)),
     cv_read = (\<lambda>path. case x_readFile env p path of Inl e \<Rightarrow> Inl (fs_text e) | Inr d \<Rightarrow> Inr d),
     cv_expand = bt_expand env, cv_unmarshal = bt_unmarshal env\<rparr>"

definition LoadConfig :: "('p, 'z) boot_env_scheme \<Rightarrow> app_options \<Rightarrow> 'p \<Rightarrow> string + Config" where
  "LoadConfig env opts p = Load (config_outside env p) (op_ConfigPath opts)"

definition LoadMemory :: "('p, 'z) boot_env_scheme \<Rightarrow> workspace \<Rightarrow> 'p \<Rightarrow> (string + memoryStore) \<times> 'p" where
  "LoadMemory env w p = (case Store_New (store_env.truncate env) (MemoryPath w) (MemoriesDir w) (KnowledgesDir w) p of
       (Inl e, q) \<Rightarrow> (Inl (''memory: '' @ e), q) | (Inr m, q) \<Rightarrow> (Inr m, q))"

definition LoadAll :: "('p, 'z) boot_env_scheme \<Rightarrow> app_options \<Rightarrow> 'p \<Rightarrow> (string + Config \<times> workspace \<times> memoryStore) \<times> 'p" where
  "LoadAll env opts p = (case LoadConfig env opts p of
       Inl e \<Rightarrow> (Inl (''config: '' @ e), p)
     | Inr cfg \<Rightarrow> (let w = boot_workspace (bt_home env) opts in
         case Workspace_Load env w p of
           Some e \<Rightarrow> (Inl e, p)
         | None \<Rightarrow> (case LoadMemory env w p of
               (Inl e, q) \<Rightarrow> (Inl e, q) | (Inr m, q) \<Rightarrow> (Inr (cfg, w, m), q))))"

definition CronService :: "('p, 'z) boot_env_scheme \<Rightarrow> app_options \<Rightarrow> disk \<Rightarrow> 'p \<Rightarrow> string + 'p service" where
  "CronService env opts d p = ebind (LoadConfig env opts p)
     (\<lambda>_. Inr (NewService (CronStorePath (boot_workspace (bt_home env) opts)) None d p))"

definition InitPaths :: "string option \<Rightarrow> app_options \<Rightarrow> string \<times> string \<times> bool" where
  "InitPaths home opts = (HomeDir home,
     if op_WorkspaceDir opts \<noteq> [] then (ExpandTilde home (op_WorkspaceDir opts), True)
     else (Path_Join [HomeDir home, ''workspace''], False))"

section \<open>Initialisation\<close>

abbreviation em_dash :: string where "em_dash \<equiv> [CHR 0xE2, CHR 0x80, CHR 0x94]"

definition renderInitSummary :: "workspace \<Rightarrow> string \<Rightarrow> bool \<Rightarrow> string" where
  "renderInitSummary w workspaceDir custom = Join [[], ''Next steps:'',
     ''  1. Edit '' @ ConfigPath w @ '' '' @ em_dash @ '' set providers, API keys, and defaults'',
     ''  2. Edit '' @ AgentPath w @ '' '' @ em_dash @ '' define model/workflow/tools for this workspace'',
     ''  3. Edit '' @ AgentsPath w @ '' '' @ em_dash @ '' define startup rules and file-loading behaviour'',
     ''  4. Edit '' @ SoulPath w @ '' and '' @ UserPath w @ '' '' @ em_dash @ '' define the assistant and the user'',
     ''  5. Run 'blades chat' to start a conversation''] [newline] @
     (if custom then [newline, newline] @ ''Note: Using custom workspace at '' @ workspaceDir else [])"

definition ensureGitignore :: "('p, 'z) store_env_scheme \<Rightarrow> string \<Rightarrow> 'p \<Rightarrow> fs_error option \<times> 'p" where
  "ensureGitignore env dir p = (let path = Path_Join [dir, ''.gitignore''] in
     if missing env p path then s_writeFile env path (''*.tmp'' @ [newline]) p else (None, p))"

text \<open>\<open>git init\<close> is a command of the outside with its output.\<close>

definition initGitWithIO :: "('p, 'z) store_env_scheme \<Rightarrow> (string \<Rightarrow> 'p \<Rightarrow> (string \<times> string option) \<times> 'p) \<Rightarrow> string \<Rightarrow> 'p \<Rightarrow>
    string option \<times> 'p" where
  "initGitWithIO env git dir p = (case git dir p of
       ((out, Some e), q) \<Rightarrow> (Some (''git init: '' @ e @ [newline] @ out), q)
     | ((_, None), q) \<Rightarrow> (None, snd (ensureGitignore env dir q)))"

text \<open>\<open>blades init\<close>: the home, then the workspace, then the repository, whose failure is a warning.\<close>

definition run_init :: "('p, 'z) boot_env_scheme \<Rightarrow> templates \<Rightarrow> (string \<Rightarrow> 'p \<Rightarrow> (string \<times> string option) \<times> 'p) \<Rightarrow> app_options \<Rightarrow> bool \<Rightarrow>
    'p \<Rightarrow> (string + string) \<times> 'p" where
  "run_init env T git opts gitInit p =
     (case InitPaths (bt_home env) opts of (homeDir, workspaceDir, custom) \<Rightarrow>
       (let w = NewWithWorkspace homeDir workspaceDir in
        case and_then (InitHome env T w) (InitWorkspace env T w) p of
          (Some e, q) \<Rightarrow> (Inl e, q)
        | (None, q) \<Rightarrow> (Inr (renderInitSummary w workspaceDir custom),
            if gitInit then snd (initGitWithIO env git workspaceDir q) else q)))"

end
