(* ===== verification/Flows.thy ===== *)
theory Flows
  imports Agents
begin

text \<open>
  Package \<open>flow\<close> (\<open>src/flow\<close>) and the middlewares of \<open>src/middleware\<close>: agents composed of
  agents. A sub-agent is its \<open>Run\<close> function. The goroutines of \<open>ParallelAgent\<close> are the relation
  \<open>parallel_run\<close>, in which any goroutine may go on to its next message at any time; the channel
  is first-in first-out, so the consumer sees the messages in the order they were sent.
\<close>

section \<open>Sequential agent\<close>

text \<open>\<open>for message, err = range agent.Run(ctx, invocation)\<close> with the error check and the forwarding
  \<open>yield\<close> that the flow agents share; \<open>note\<close> is what the body does with a forwarded message.\<close>

definition forward :: "('l \<Rightarrow> message \<Rightarrow> 'l) \<Rightarrow> 'l \<Rightarrow> event \<Rightarrow> (event, 'p world, ('l, unit) ctl) proc" where
  "forward note l x = (case x of
       Inl e \<Rightarrow> gthen (gyield (Inl e)) (\<lambda>_. greturn (Leave ()))
     | Inr m \<Rightarrow> gthen (gyield (Inr m)) (\<lambda>_. greturn (Next (note l m))))"

definition SequentialAgent_Run :: "'p handler list \<Rightarrow> 'p handler" where
  "SequentialAgent_Run agents c input w =
     gbind (gforeach agents (\<lambda>_ agent. \<lambda>w. grange (agent c (clone_invocation input) w) (forward (\<lambda>_ _. ())) ()) () w)
       (\<lambda>_. Ret ())"

section \<open>Loop agent\<close>

record loop_state =
  ls_iteration :: nat
  ls_input :: "message option"
  ls_output :: "message option"

record 'p loop_config =
  lc_maxIterations :: int
  lc_condition :: "(loop_state \<Rightarrow> 'p \<Rightarrow> (aerror + bool) \<times> 'p) option"
  lc_agents :: "'p handler list"

definition NewLoopAgent :: "'p loop_config \<Rightarrow> 'p loop_config" where
  "NewLoopAgent cfg = (if lc_maxIterations cfg \<le> 0 then cfg\<lparr>lc_maxIterations := 10\<rparr> else cfg)"

text \<open>The variables of one iteration: the last message of the current sub-agent, and the exit
  signal seen on a message.\<close>

record loop_locals =
  ll_message :: "message option"
  ll_exit :: bool
  ll_escalated :: bool
  ll_state :: loop_state

definition note_exit :: "loop_locals \<Rightarrow> message \<Rightarrow> loop_locals" where
  "note_exit l m = (let l' = l\<lparr>ll_message := Some m\<rparr> in
     case actions m ActionLoopExit of
       Some (AnyBool esc) \<Rightarrow> l'\<lparr>ll_exit := True, ll_escalated := esc\<rparr>
     | _ \<Rightarrow> l')"

definition loop_agent :: "ctx \<Rightarrow> 'p invocation \<Rightarrow> loop_locals \<Rightarrow> 'p handler \<Rightarrow>
    (event, 'p world, (loop_locals, unit) ctl) proc" where
  "loop_agent c input l agent w =
     gbind (grange (agent c (clone_invocation input) w) (forward note_exit) (l\<lparr>ll_message := None\<rparr>))
       (\<lambda>r w'. case r of
          Leave u \<Rightarrow> Ret (Leave u) w'
        | Next l' \<Rightarrow> Ret (Next (l'\<lparr>ll_state := (ll_state l')\<lparr>ls_input := inv_message input,
                                      ls_output := ll_message l'\<rparr>\<rparr>)) w')"

text \<open>What follows the sub-agents of an iteration: \<open>None\<close> runs another one.\<close>

definition loop_decide :: "'p loop_config \<Rightarrow> loop_locals \<Rightarrow> 'p world \<Rightarrow> aerror option option \<times> 'p world" where
  "loop_decide cfg l w = (case lc_condition cfg of
       Some cond \<Rightarrow> (case cond (ll_state l) (outside w) of
           (Inl e, p) \<Rightarrow> (Some (Some e), w\<lparr>outside := p\<rparr>)
         | (Inr True, p) \<Rightarrow> (None, w\<lparr>outside := p\<rparr>)
         | (Inr False, p) \<Rightarrow> (Some None, w\<lparr>outside := p\<rparr>))
     | None \<Rightarrow> (if ll_exit l then (Some (if ll_escalated l then Some ErrLoopEscalated else None), w)
               else (None, w)))"

fun loop_iterations :: "'p loop_config \<Rightarrow> ctx \<Rightarrow> 'p invocation \<Rightarrow> nat \<Rightarrow> loop_state \<Rightarrow> 'p run" where
  "loop_iterations cfg c input 0 st w = Ret () w"
| "loop_iterations cfg c input (Suc n) st w =
     gbind (gforeach (lc_agents cfg) (loop_agent c input)
              \<lparr>ll_message = None, ll_exit = False, ll_escalated = False, ll_state = st\<rparr> w)
       (\<lambda>r w1. case r of
          Leave _ \<Rightarrow> Ret () w1
        | Next l \<Rightarrow> (case loop_decide cfg l w1 of
             (Some (Some e), w2) \<Rightarrow> gyield (Inl e) w2
           | (Some None, w2) \<Rightarrow> Ret () w2
           | (None, w2) \<Rightarrow> loop_iterations cfg c input n
                ((ll_state l)\<lparr>ls_iteration := Suc (ls_iteration (ll_state l))\<rparr>) w2))"

definition LoopAgent_Run :: "'p loop_config \<Rightarrow> 'p handler" where
  "LoopAgent_Run cfg c input = loop_iterations cfg c input (nat (lc_maxIterations cfg))
     \<lparr>ls_iteration = 0, ls_input = None, ls_output = None\<rparr>"

section \<open>Routing agent\<close>

abbreviation ActionHandoffToAgent :: string where "ActionHandoffToAgent \<equiv> ''handoff_to_agent''"

text \<open>\<open>targets[strings.TrimSpace(agent.Name())] = agent\<close>: a later agent replaces an earlier one.\<close>

definition routing_targets :: "(string \<times> 'p handler) list \<Rightarrow> (string, 'p handler) gomap" where
  "routing_targets agents = fold (\<lambda>(name, agent) m. AList.update (TrimSpace name) agent m) agents []"

text \<open>The router's messages are not forwarded; the first one with a handoff action ends the loop.\<close>

definition route_step :: "message option \<Rightarrow> event \<Rightarrow>
    (event, 'p world, (message option, (string \<times> message option) option) ctl) proc" where
  "route_step prev x = (case x of
       Inl e \<Rightarrow> gthen (gyield (Inl e)) (\<lambda>_. greturn (Leave None))
     | Inr m \<Rightarrow> (case actions m ActionHandoffToAgent of
          Some (AnyString target) \<Rightarrow> greturn (Leave (Some (target, Some m)))
        | Some _ \<Rightarrow> greturn (Leave (Some ([], Some m)))
        | None \<Rightarrow> greturn (Next (Some m))))"

definition route_to :: "(string, 'p handler) gomap \<Rightarrow> ctx \<Rightarrow> 'p invocation \<Rightarrow> string \<Rightarrow> message option \<Rightarrow> 'p run" where
  "route_to targets c ivn target prev w = (case map_of targets target of
       Some agent \<Rightarrow> agent c (clone_invocation ivn) w
     | None \<Rightarrow> (case prev of
          Some m \<Rightarrow> if Text m \<noteq> [] then gyield (Inr m) w else gyield (Inl (TargetNotFound target)) w
        | None \<Rightarrow> gyield (Inl (TargetNotFound target)) w))"

definition RoutingAgent_Run :: "'p handler \<Rightarrow> (string, 'p handler) gomap \<Rightarrow> 'p handler" where
  "RoutingAgent_Run router targets c ivn w =
     gbind (grange (router c (clone_invocation ivn) w) route_step None)
       (\<lambda>r w'. case r of
          Leave None \<Rightarrow> Ret () w'
        | Leave (Some (target, m)) \<Rightarrow> route_to targets c ivn target m w'
        | Next m \<Rightarrow> route_to targets c ivn [] m w')"

section \<open>Parallel agent\<close>

inductive parallel_run :: "'p run list \<Rightarrow> 'p world \<Rightarrow> event list \<Rightarrow> 'p world \<Rightarrow> bool" where
  par_closed: "parallel_run [] w [] w"
| par_returns: "p w = Ret () w' \<Longrightarrow> parallel_run (xs @ ys) w' es v \<Longrightarrow> parallel_run (xs @ p # ys) w es v"
| par_sends: "p w = Yld (Inr m) w' k \<Longrightarrow> parallel_run (xs @ k # ys) w' es v \<Longrightarrow>
    parallel_run (xs @ p # ys) w (Inr m # es) v"
| par_fails: "p w = Yld (Inl e) w' k \<Longrightarrow> parallel_run (xs @ ys) w' es v \<Longrightarrow>
    parallel_run (xs @ p # ys) w (Inl e # es) v"

definition ParallelAgent_Run :: "'p handler list \<Rightarrow> ctx \<Rightarrow> 'p invocation \<Rightarrow> 'p world \<Rightarrow> event list \<Rightarrow> 'p world \<Rightarrow> bool" where
  "ParallelAgent_Run agents c ivn w es v =
     parallel_run (map (\<lambda>agent. agent c (clone_invocation ivn)) agents) w es v"

section \<open>Middlewares\<close>

definition Confirm :: "(message option \<Rightarrow> 'p \<Rightarrow> (aerror + bool) \<times> 'p) \<Rightarrow> 'p handler \<Rightarrow> 'p handler" where
  "Confirm confirm next c ivn w = (case confirm (inv_message ivn) (outside w) of
       (Inl e, p) \<Rightarrow> gyield (Inl e) (w\<lparr>outside := p\<rparr>)
     | (Inr False, p) \<Rightarrow> gyield (Inl ErrInterrupted) (w\<lparr>outside := p\<rparr>)
     | (Inr True, p) \<Rightarrow> next c ivn (w\<lparr>outside := p\<rparr>))"

text \<open>One attempt of \<open>Retry\<close>: messages are forwarded, the first error ends the attempt.\<close>

definition retry_attempt :: "'p handler \<Rightarrow> ctx \<Rightarrow> 'p invocation \<Rightarrow>
    (event, 'p world, aerror option) proc" where
  "retry_attempt next c ivn w =
     gbind (grange (next c ivn w)
        (\<lambda>_ x. case x of Inl e \<Rightarrow> greturn (Leave e)
           | Inr m \<Rightarrow> gthen (gyield (Inr m)) (\<lambda>_. greturn (Next ()))) ())
       (\<lambda>r w'. case r of Leave e \<Rightarrow> Ret (Some e) w' | Next _ \<Rightarrow> Ret None w')"

text \<open>\<open>Retry\<close>. The kit library's \<open>retry.Do\<close>, which decides how often an attempt runs, is the
  argument \<open>do_retry\<close>.\<close>

type_synonym 'p attempt = "(event, 'p world, aerror option) proc"

definition Retry :: "('p attempt \<Rightarrow> 'p attempt) \<Rightarrow> 'p handler \<Rightarrow> 'p handler" where
  "Retry do_retry next c ivn w =
     gbind (do_retry (retry_attempt next c ivn) w)
       (\<lambda>r w'. case r of None \<Rightarrow> Ret () w' | Some e \<Rightarrow> gyield (Inl e) w')"

end
