(* ===== verification/Compressors.thy ===== *)
theory Compressors
  imports Agents "HOL-Library.Sublist"
begin

text \<open>
  The context compressors: the sliding window (\<open>src/context/window/window.go\<close>), the rolling summary
  (\<open>src/context/summary/summary.go\<close>) and the character-based token counter
  (\<open>src/internal/counter/counter.go\<close>). The window subtracts the count of each message it drops
  from a running total, which is right for a counter that adds up over messages: that is the
  interface \<open>token_counter\<close>. Counts are mathematical integers: a count is at most a quarter of the
  bytes held in memory plus four per message.
\<close>

section \<open>Token counter\<close>

definition part_tokens :: "part \<Rightarrow> int" where
  "part_tokens p = (case p of
       TextPart t \<Rightarrow> (int (length t) + 3) div 4
     | ToolPart v \<Rightarrow> (int (length (tool_name v) + length (tool_request v) + length (tool_response v)) + 3) div 4
     | _ \<Rightarrow> 0)"

definition Count :: "message list \<Rightarrow> int" where
  "Count ms = fold (\<lambda>m total. fold (\<lambda>p t. t + part_tokens p) (parts m) total + 4) ms 0"

locale token_counter =
  fixes cnt :: "message list \<Rightarrow> int"
  assumes cnt_append: "cnt (xs @ ys) = cnt xs + cnt ys"
    and cnt_nonneg: "0 \<le> cnt xs"
begin

lemma cnt_Nil [simp]: "cnt [] = 0"
  using cnt_append [of "[]" "[]"] by simp

lemma cnt_Cons: "cnt (x # xs) = cnt [x] + cnt xs"
  using cnt_append [of "[x]" xs] by simp

lemma cnt_drop_mono: "i \<le> j \<Longrightarrow> cnt (drop j xs) \<le> cnt (drop i xs)"
proof -
  assume "i \<le> j"
  then have "drop i xs = take (j - i) (drop i xs) @ drop j xs"
    by (metis append_take_drop_id drop_drop le_add_diff_inverse2)
  then have "cnt (drop i xs) = cnt (take (j - i) (drop i xs)) + cnt (drop j xs)" by (metis cnt_append)
  with cnt_nonneg [of "take (j - i) (drop i xs)"] show ?thesis by simp
qed

end

lemma part_fold: "fold (\<lambda>p t. t + part_tokens p) ps a = a + sum_list (map part_tokens ps)"
  by (induction ps arbitrary: a) simp_all

lemma Count_sum: "Count ms = sum_list (map (\<lambda>m. sum_list (map part_tokens (parts m)) + 4) ms)"
proof -
  have "fold (\<lambda>m total. fold (\<lambda>p t. t + part_tokens p) (parts m) total + 4) ms a =
      a + sum_list (map (\<lambda>m. sum_list (map part_tokens (parts m)) + 4) ms)" for a
    by (induction ms arbitrary: a) (simp_all add: part_fold)
  then show ?thesis by (simp add: Count_def)
qed

interpretation char_counter: token_counter Count
proof
  show "Count (xs @ ys) = Count xs + Count ys" for xs ys by (simp add: Count_sum)
  have "0 \<le> part_tokens p" for p by (auto simp: part_tokens_def pos_imp_zdiv_nonneg_iff split: part.split)
  then show "0 \<le> Count xs" for xs by (auto simp: Count_sum intro!: sum_list_nonneg add_nonneg_nonneg)
qed

section \<open>Window\<close>

record window_compressor =
  w_maxMessages :: int
  w_maxTokens :: int
  w_counter :: "message list \<Rightarrow> int"

definition w_WithMaxMessages :: "int \<Rightarrow> window_compressor \<Rightarrow> window_compressor" where
  "w_WithMaxMessages n c = c\<lparr>w_maxMessages := n\<rparr>"

definition w_WithMaxTokens :: "int \<Rightarrow> window_compressor \<Rightarrow> window_compressor" where
  "w_WithMaxTokens n c = c\<lparr>w_maxTokens := n\<rparr>"

definition w_WithTokenCounter :: "(message list \<Rightarrow> int) \<Rightarrow> window_compressor \<Rightarrow> window_compressor" where
  "w_WithTokenCounter f c = c\<lparr>w_counter := f\<rparr>"

definition window_NewContextCompressor :: "(window_compressor \<Rightarrow> window_compressor) list \<Rightarrow> window_compressor" where
  "window_NewContextCompressor opts = fold (\<lambda>opt c. opt c) opts
     \<lparr>w_maxMessages = 100, w_maxTokens = 0, w_counter = Count\<rparr>"

text \<open>\<open>for len(result) > 1 && total > w.maxTokens\<close>.\<close>

fun drop_over :: "(message list \<Rightarrow> int) \<Rightarrow> int \<Rightarrow> int \<Rightarrow> message list \<Rightarrow> message list" where
  "drop_over cnt limit tot (m # m' # ms) =
     (if tot > limit then drop_over cnt limit (tot - cnt [m]) (m' # ms) else m # m' # ms)"
| "drop_over cnt limit tot ms = ms"

definition window_Compress :: "window_compressor \<Rightarrow> message list \<Rightarrow> message list" where
  "window_Compress w ms =
     (if ms = [] then ms
      else let r = (if w_maxMessages w > 0 \<and> int (length ms) > w_maxMessages w
                    then drop (length ms - nat (w_maxMessages w)) ms else ms)
           in if w_maxTokens w > 0 then drop_over (w_counter w) (w_maxTokens w) (w_counter w r) r else r)"

text \<open>The limits a suffix has to keep; a limit that is not positive is off.\<close>

definition within_limits :: "window_compressor \<Rightarrow> message list \<Rightarrow> bool" where
  "within_limits w ms \<longleftrightarrow> (w_maxMessages w > 0 \<longrightarrow> int (length ms) \<le> w_maxMessages w) \<and>
     (w_maxTokens w > 0 \<longrightarrow> w_counter w ms \<le> w_maxTokens w)"

context token_counter
begin

lemma drop_over_suffix:
  assumes "ms \<noteq> []"
  shows "\<exists>k. drop_over cnt limit (cnt ms) ms = drop k ms \<and> k < length ms \<and>
    (length ms - k = 1 \<or> cnt (drop k ms) \<le> limit) \<and> (\<forall>j < k. cnt (drop j ms) > limit)"
  using assms
proof (induction ms rule: induct_list012)
  case (3 m m' ms)
  show ?case
  proof (cases "cnt (m # m' # ms) > limit")
    case True
    have tail: "cnt (m # m' # ms) - cnt [m] = cnt (m' # ms)" using cnt_Cons [of m "m' # ms"] by simp
    from 3(2) obtain k where k: "drop_over cnt limit (cnt (m' # ms)) (m' # ms) = drop k (m' # ms)"
      "k < length (m' # ms)" "length (m' # ms) - k = 1 \<or> cnt (drop k (m' # ms)) \<le> limit"
      "\<forall>j < k. cnt (drop j (m' # ms)) > limit" by auto
    have "\<forall>j < Suc k. cnt (drop j (m # m' # ms)) > limit"
      using k(4) True by (auto simp: less_Suc_eq_0_disj)
    with k True tail show ?thesis by (intro exI [of _ "Suc k"]) auto
  qed (auto intro!: exI [of _ 0])
qed auto

lemma window_keeps:
  assumes "w_counter w = cnt" and "ms \<noteq> []"
  shows "\<exists>k < length ms. window_Compress w ms = drop k ms \<and>
    (within_limits w (drop k ms) \<or> length ms - k = 1) \<and> (\<forall>j < k. \<not> within_limits w (drop j ms))"
proof -
  define d where "d = (if w_maxMessages w > 0 \<and> int (length ms) > w_maxMessages w then length ms - nat (w_maxMessages w) else 0)"
  have d: "d < length ms" using assms(2) by (cases ms) (auto simp: d_def)
  have over: "\<forall>j < d. w_maxMessages w > 0 \<and> int (length (drop j ms)) > w_maxMessages w" by (auto simp: d_def)
  have len: "w_maxMessages w > 0 \<longrightarrow> int (length (drop k ms)) \<le> w_maxMessages w" if "k \<ge> d" for k
    using that by (auto simp: d_def split: if_splits)
  have c: "window_Compress w ms = (if w_maxTokens w > 0
      then drop_over cnt (w_maxTokens w) (cnt (drop d ms)) (drop d ms) else drop d ms)"
    using assms by (simp add: window_Compress_def Let_def d_def)
  show ?thesis
  proof (cases "w_maxTokens w > 0")
    case False
    then show ?thesis using c d over len [of d] by (intro exI [of _ d]) (auto simp: within_limits_def)
  next
    case True
    have "drop d ms \<noteq> []" using d by simp
    then obtain k where k: "drop_over cnt (w_maxTokens w) (cnt (drop d ms)) (drop d ms) = drop k (drop d ms)"
      "k < length (drop d ms)" "length (drop d ms) - k = 1 \<or> cnt (drop k (drop d ms)) \<le> w_maxTokens w"
      "\<forall>j < k. cnt (drop j (drop d ms)) > w_maxTokens w" using drop_over_suffix by blast
    have "\<not> within_limits w (drop j ms)" if "j < k + d" for j
    proof (cases "j < d")
      case False
      then have "cnt (drop (j - d) (drop d ms)) > w_maxTokens w" using spec [OF k(4), of "j - d"] that by linarith
      with False True assms(1) show ?thesis by (auto simp: within_limits_def)
    qed (use over in \<open>auto simp: within_limits_def\<close>)
    moreover have "within_limits w (drop (k + d) ms) \<or> length ms - (k + d) = 1"
      using k(2,3) len [of "k + d"] True assms(1) by (auto simp: within_limits_def)
    ultimately show ?thesis using c k(1,2) True by (intro exI [of _ "k + d"]) (auto simp: add.commute)
  qed
qed

end

section \<open>Rolling summary\<close>

text \<open>Errors of the summary: the summarizer's error, and the run-time panics of the code, a slice
  expression out of range and a response without a message.\<close>

datatype cerror = SummarizeErr aerror | SliceBounds | NilMessage

record summary_compressor =
  s_maxTokens :: int
  s_counter :: "message list \<Rightarrow> int"
  s_keepRecent :: int
  s_batchSize :: int
  s_instruction :: string

definition s_WithMaxTokens :: "int \<Rightarrow> summary_compressor \<Rightarrow> summary_compressor" where
  "s_WithMaxTokens n c = c\<lparr>s_maxTokens := n\<rparr>"

definition s_WithTokenCounter :: "(message list \<Rightarrow> int) \<Rightarrow> summary_compressor \<Rightarrow> summary_compressor" where
  "s_WithTokenCounter f c = c\<lparr>s_counter := f\<rparr>"

definition s_WithKeepRecent :: "int \<Rightarrow> summary_compressor \<Rightarrow> summary_compressor" where
  "s_WithKeepRecent n c = c\<lparr>s_keepRecent := n\<rparr>"

definition s_WithBatchSize :: "int \<Rightarrow> summary_compressor \<Rightarrow> summary_compressor" where
  "s_WithBatchSize n c = c\<lparr>s_batchSize := n\<rparr>"

definition summary_NewContextCompressor :: "(summary_compressor \<Rightarrow> summary_compressor) list \<Rightarrow> summary_compressor" where
  "summary_NewContextCompressor opts = fold (\<lambda>opt c. opt c) opts
     \<lparr>s_maxTokens = 0, s_counter = Count, s_keepRecent = 10, s_batchSize = 20,
      s_instruction = ''Please provide a concise summary of the following conversation transcript. '' @
        ''Preserve key facts, decisions, and outcomes. Output only the summary.''\<rparr>"

abbreviation offset_key :: string where "offset_key \<equiv> ''__summary_offset__''"
abbreviation content_key :: string where "content_key \<equiv> ''__summary_content__''"

definition buildWorkingView :: "string \<Rightarrow> string \<Rightarrow> int \<Rightarrow> message list \<Rightarrow> message list" where
  "buildWorkingView new_id content offset ms =
     (if offset \<le> 0 \<or> content = [] then ms
      else AssistantMessage new_id [InString content] # drop (nat offset) ms)"

definition extendSummary :: "summary_compressor \<Rightarrow> 'p provider \<Rightarrow> string \<Rightarrow> string \<Rightarrow> message list \<Rightarrow> 'p \<Rightarrow>
    (cerror + string) \<times> 'p" where
  "extendSummary s summarizer new_id existing batch p =
     (let instruction = s_instruction s @
            (if existing \<noteq> [] then newline # newline # ''Existing summary:'' @ newline # existing else []);
          req = \<lparr>req_tools = [], req_messages = map Some batch,
                 req_instruction = Some (SystemMessage new_id [InString instruction])\<rparr>
      in case p_generate summarizer req p of
           (Inl e, p') \<Rightarrow> (Inl (SummarizeErr e), p')
         | (Inr None, p') \<Rightarrow> (Inl NilMessage, p')
         | (Inr (Some m), p') \<Rightarrow> (Inr (Text m), p'))"

text \<open>The loop of \<open>Compress\<close>. With a batch size of zero it calls the summarizer for ever, so not
  returning is \<open>None\<close>.\<close>

partial_function (option) compress_loop :: "summary_compressor \<Rightarrow> 'p provider \<Rightarrow> string \<Rightarrow> message list \<Rightarrow>
    int \<Rightarrow> string \<Rightarrow> 'p \<Rightarrow> ((cerror + int \<times> string) \<times> 'p) option" where
  "compress_loop s summarizer new_id ms offset content p =
     (if s_counter s (buildWorkingView new_id content offset ms) \<le> s_maxTokens s
        \<or> offset \<ge> int (length ms) - s_keepRecent s then Some (Inr (offset, content), p)
      else let fin = min (offset + s_batchSize s) (int (length ms) - s_keepRecent s) in
        if \<not> (0 \<le> offset \<and> offset \<le> fin \<and> fin \<le> int (length ms)) then Some (Inl SliceBounds, p)
        else case extendSummary s summarizer new_id content (take (nat fin - nat offset) (drop (nat offset) ms)) p of
             (Inl e, p') \<Rightarrow> Some (Inl e, p')
           | (Inr content', p') \<Rightarrow> compress_loop s summarizer new_id ms fin content' p')"

definition saved_offset :: "state \<Rightarrow> int" where
  "saved_offset st = (case st offset_key of Some (AnyInt n) \<Rightarrow> n | _ \<Rightarrow> 0)"

definition saved_content :: "state \<Rightarrow> string" where
  "saved_content st = (case st content_key of Some (AnyString c) \<Rightarrow> c | _ \<Rightarrow> [])"

text \<open>The state is that of the session in the context, or of a temporary one.\<close>

definition summary_Compress :: "summary_compressor \<Rightarrow> 'p provider \<Rightarrow> string \<Rightarrow> state \<Rightarrow> message list \<Rightarrow> 'p \<Rightarrow>
    ((cerror + message list) \<times> state \<times> 'p) option" where
  "summary_Compress s summarizer new_id st ms p =
     (if ms = [] \<or> s_maxTokens s = 0 then Some (Inr ms, st, p)
      else let stale = saved_offset st > int (length ms);
               offset = (if stale then 0 else saved_offset st);
               content = (if stale then [] else saved_content st)
           in case compress_loop s summarizer new_id ms offset content p of
                None \<Rightarrow> None
              | Some (Inl e, p') \<Rightarrow> Some (Inl e, st, p')
              | Some (Inr (offset', content'), p') \<Rightarrow>
                  Some (Inr (buildWorkingView new_id content' offset' ms),
                    st(offset_key \<mapsto> AnyInt offset', content_key \<mapsto> AnyString content'), p'))"

text \<open>The loop returns when batches are not empty, and what it returns.\<close>

lemma compress_loop_result:
  assumes "s_batchSize s > 0" and "0 \<le> s_keepRecent s" and "0 \<le> offset" and "offset \<le> int (length ms)"
  shows "\<exists>r p'. compress_loop s summarizer new_id ms offset content p = Some (r, p') \<and>
    (case r of Inl e \<Rightarrow> e \<noteq> SliceBounds
     | Inr (offset', content') \<Rightarrow> offset \<le> offset' \<and>
        (offset' = offset \<and> content' = content \<or> offset' \<le> int (length ms) - s_keepRecent s) \<and>
        (s_counter s (buildWorkingView new_id content' offset' ms) \<le> s_maxTokens s \<or>
         offset' \<ge> int (length ms) - s_keepRecent s))"
  using assms(3,4)
proof (induction "nat (int (length ms) - offset)" arbitrary: offset content p rule: less_induct)
  case less
  let ?b = "int (length ms) - s_keepRecent s"
  let ?fin = "min (offset + s_batchSize s) ?b"
  show ?case
  proof (cases "s_counter s (buildWorkingView new_id content offset ms) \<le> s_maxTokens s \<or> offset \<ge> ?b")
    case True
    then show ?thesis by (subst compress_loop.simps) auto
  next
    case False
    have fin: "offset < ?fin" "?fin \<le> int (length ms)" "?fin \<le> ?b" using False assms(1,2) by auto
    obtain r p' where x: "extendSummary s summarizer new_id content
        (take (nat ?fin - nat offset) (drop (nat offset) ms)) p = (r, p')" by fastforce
    note unf = compress_loop.simps [of s summarizer new_id ms offset content p]
    show ?thesis
    proof (cases r)
      case (Inl e)
      then have "e \<noteq> SliceBounds" using x by (auto simp: extendSummary_def Let_def split: prod.splits sum.splits option.splits)
      with Inl x False fin less.prems unf show ?thesis by (auto simp: Let_def)
    next
      case (Inr content')
      have "nat (int (length ms) - ?fin) < nat (int (length ms) - offset)" using fin by auto
      from less.hyps [OF this, of content' p'] less.prems(1) fin obtain q pq where
        q: "compress_loop s summarizer new_id ms ?fin content' p' = Some (q, pq)"
        and c: "case q of Inl e \<Rightarrow> e \<noteq> SliceBounds
         | Inr (offset', content'') \<Rightarrow> ?fin \<le> offset' \<and>
            (offset' = ?fin \<and> content'' = content' \<or> offset' \<le> ?b) \<and>
            (s_counter s (buildWorkingView new_id content'' offset' ms) \<le> s_maxTokens s \<or> offset' \<ge> ?b)"
        by auto
      have "compress_loop s summarizer new_id ms offset content p = Some (q, pq)"
        using unf False fin less.prems x Inr q by (auto simp: Let_def)
      moreover have "case q of Inl e \<Rightarrow> e \<noteq> SliceBounds
         | Inr (offset', content'') \<Rightarrow> offset \<le> offset' \<and>
            (offset' = offset \<and> content'' = content \<or> offset' \<le> ?b) \<and>
            (s_counter s (buildWorkingView new_id content'' offset' ms) \<le> s_maxTokens s \<or> offset' \<ge> ?b)"
        using c fin by (auto split: sum.splits)
      ultimately show ?thesis by blast
    qed
  qed
qed

section \<open>Properties\<close>

text \<open>C16: The window compressor with the default counter keeps the longest suffix of the messages
  within its limits on messages and tokens, or the last message alone when even that is over the
  token limit.\<close>

theorem window_longest_suffix:
  assumes "w_counter w = Count" and "ms \<noteq> []"
  shows "\<exists>k < length ms. window_Compress w ms = drop k ms \<and>
    (within_limits w (drop k ms) \<or> length ms - k = 1) \<and> (\<forall>j < k. \<not> within_limits w (drop j ms))"
  by (rule char_counter.window_keeps [OF assms])

abbreviation said :: "string \<Rightarrow> message" where
  "said t \<equiv> UserMessage t [InString t]"

theorem window_longest_suffix_witness:
  "window_Compress (window_NewContextCompressor [w_WithMaxTokens 11]) [said ''one'', said ''two'', said ''three''] =
     [said ''two'', said ''three''] \<and>
   (\<exists>k < length [said ''one'', said ''two'', said ''three'']. [said ''two'', said ''three''] = drop k [said ''one'', said ''two'', said ''three''])"
proof -
  let ?w = "window_NewContextCompressor [w_WithMaxTokens 11]"
  let ?ms = "[said ''one'', said ''two'', said ''three'']"
  have w: "w_counter ?w = Count" "?ms \<noteq> []" by (simp_all add: window_NewContextCompressor_def w_WithMaxTokens_def)
  have e: "window_Compress ?w ?ms = [said ''two'', said ''three'']"
    by (simp add: window_NewContextCompressor_def w_WithMaxTokens_def window_Compress_def Count_def
        UserMessage_def NewMessageParts_def zero_message_def part_tokens_def)
  have "\<exists>k < length ?ms. window_Compress ?w ?ms = drop k ?ms" using window_longest_suffix [OF w] by blast
  with e show ?thesis by metis
qed


definition note_taker :: "unit provider" where
  "note_taker = \<lparr>p_name = ''notes'', p_generate = (\<lambda>req u. (Inr (Some (said ''brief'')), u)),
     p_streaming = (\<lambda>req u. ([], u))\<rparr>"


end
