(* ===== verification/Recipe.thy ===== *)
theory Recipe
  imports Flows Compressors
begin

text \<open>
  Recipes (\<open>src/recipe\<close>), first half: the specification of an agent as it is read from YAML
  (\<open>spec.go\<close>), its validation (\<open>validate.go\<close>) and the rendering of its templates
  (\<open>template.go\<close>). The modes, types, requirements and strategies are Go strings, so any string can
  stand there. The engine \<open>text/template\<close> is the argument \<open>engine\<close>, the YAML decoder the argument
  of \<open>Parse\<close>.
\<close>

section \<open>Specifications\<close>

type_synonym params = "string \<rightharpoonup> anyval"

abbreviation ExecutionSequential :: string where "ExecutionSequential \<equiv> ''sequential''"
abbreviation ExecutionParallel :: string where "ExecutionParallel \<equiv> ''parallel''"
abbreviation ExecutionLoop :: string where "ExecutionLoop \<equiv> ''loop''"
abbreviation ExecutionTool :: string where "ExecutionTool \<equiv> ''tool''"

abbreviation ParameterString :: string where "ParameterString \<equiv> ''string''"
abbreviation ParameterNumber :: string where "ParameterNumber \<equiv> ''number''"
abbreviation ParameterBoolean :: string where "ParameterBoolean \<equiv> ''boolean''"
abbreviation ParameterSelect :: string where "ParameterSelect \<equiv> ''select''"

abbreviation ParameterRequired :: string where "ParameterRequired \<equiv> ''required''"
abbreviation ParameterOptional :: string where "ParameterOptional \<equiv> ''optional''"

abbreviation ContextStrategySummarize :: string where "ContextStrategySummarize \<equiv> ''summarize''"
abbreviation ContextStrategyWindow :: string where "ContextStrategyWindow \<equiv> ''window''"

record contextSpec =
  cs_strategy :: string
  cs_maxTokens :: int
  cs_maxMessages :: int
  cs_keepRecent :: int
  cs_batchSize :: int
  cs_model :: string

record middlewareSpec =
  mw_name :: string
  mw_options :: params

text \<open>A nil \<open>Default\<close> is \<open>None\<close>.\<close>

record parameterSpec =
  ps_name :: string
  ps_type :: string
  ps_description :: string
  ps_default :: "anyval option"
  ps_required :: string
  ps_options :: "string list"

record subAgentSpec =
  sub_name :: string
  sub_description :: string
  sub_model :: string
  sub_instruction :: string
  sub_prompt :: string
  sub_parameters :: "parameterSpec list"
  sub_tools :: "string list"
  sub_outputKey :: string
  sub_maxIterations :: int
  sub_context :: "contextSpec option"
  sub_middlewares :: "middlewareSpec list"

record agentSpec =
  sp_version :: string
  sp_name :: string
  sp_description :: string
  sp_model :: string
  sp_instruction :: string
  sp_prompt :: string
  sp_parameters :: "parameterSpec list"
  sp_subAgents :: "subAgentSpec list"
  sp_execution :: string
  sp_tools :: "string list"
  sp_outputKey :: string
  sp_maxIterations :: int
  sp_context :: "contextSpec option"
  sp_middlewares :: "middlewareSpec list"

section \<open>Validation\<close>

text \<open>\<open>fmt.Errorf("%s: %w", scope, err)\<close> around a check.\<close>

definition scoped :: "string \<Rightarrow> string option \<Rightarrow> string option" where
  "scoped scope r = map_option (\<lambda>e. scope @ '': '' @ e) r"

lemma scoped_None [simp]: "scoped scope r = None \<longleftrightarrow> r = None"
  by (simp add: scoped_def)

definition recipe_scope :: "agentSpec \<Rightarrow> string" where
  "recipe_scope spec = ''recipe '' @ Quote (sp_name spec)"

definition sub_scope :: "subAgentSpec \<Rightarrow> string" where
  "sub_scope sub = ''sub_agent '' @ Quote (sub_name sub)"

text \<open>\<open>%v\<close> of a slice of strings.\<close>

definition show_strings :: "string list \<Rightarrow> string" where
  "show_strings xs = ''['' @ Join xs '' '' @ '']''"

definition validateParamType :: "string \<Rightarrow> parameterSpec \<Rightarrow> anyval \<Rightarrow> string option" where
  "validateParamType scope p val =
     (let err = (\<lambda>what. Some (scope @ '': parameter '' @ Quote (ps_name p) @ what)) in
      if ps_type p = ParameterString then
        (case val of AnyString _ \<Rightarrow> None | _ \<Rightarrow> err '' must be a string'')
      else if ps_type p = ParameterNumber then
        (case val of AnyInt _ \<Rightarrow> None | AnyFloat _ \<Rightarrow> None | _ \<Rightarrow> err '' must be a number'')
      else if ps_type p = ParameterBoolean then
        (case val of AnyBool _ \<Rightarrow> None | _ \<Rightarrow> err '' must be a boolean'')
      else if ps_type p = ParameterSelect then
        (case val of
           AnyString s \<Rightarrow> if s \<in> set (ps_options p) then None
             else err ('' value '' @ Quote s @ '' is not in options '' @ show_strings (ps_options p))
         | _ \<Rightarrow> err '' must be a string for select type'')
      else None)"

fun validateParameters_from :: "string set \<Rightarrow> parameterSpec list \<Rightarrow> string option" where
  "validateParameters_from seen [] = None"
| "validateParameters_from seen (p # ps) = first_err
     [fail_if (ps_name p = []) ''parameter name is required'',
      fail_if (ps_name p \<in> seen) (''duplicate parameter '' @ Quote (ps_name p)),
      fail_if (ps_type p = []) (''parameter '' @ Quote (ps_name p) @ '': type is required''),
      fail_if (ps_type p \<noteq> ParameterString \<and> ps_type p \<noteq> ParameterNumber \<and>
          ps_type p \<noteq> ParameterBoolean \<and> ps_type p \<noteq> ParameterSelect)
        (''parameter '' @ Quote (ps_name p) @ '': invalid type '' @ Quote (ps_type p)),
      fail_if (ps_required p \<noteq> [] \<and> ps_required p \<noteq> ParameterRequired \<and> ps_required p \<noteq> ParameterOptional)
        (''parameter '' @ Quote (ps_name p) @ '': invalid required value '' @ Quote (ps_required p)),
      fail_if (ps_type p = ParameterSelect \<and> ps_options p = [])
        (''parameter '' @ Quote (ps_name p) @ '': select type requires options''),
      (case ps_default p of None \<Rightarrow> None | Some d \<Rightarrow> validateParamType ''default value'' p d),
      validateParameters_from (insert (ps_name p) seen) ps]"

definition validateParameters :: "parameterSpec list \<Rightarrow> string option" where
  "validateParameters ps = validateParameters_from {} ps"

definition validateContextSpec :: "contextSpec option \<Rightarrow> string option" where
  "validateContextSpec spec = (case spec of None \<Rightarrow> None | Some c \<Rightarrow>
     if cs_strategy c \<noteq> ContextStrategySummarize \<and> cs_strategy c \<noteq> ContextStrategyWindow then
       (if cs_strategy c = [] then Some ''strategy is required''
        else Some (''unknown strategy '' @ Quote (cs_strategy c) @ '' (must be '' @
          Quote ContextStrategySummarize @ '' or '' @ Quote ContextStrategyWindow @ '')''))
     else fail_if (cs_maxTokens c < 0) ''max_tokens must be >= 0'')"

fun validateMiddlewares_from :: "string \<Rightarrow> nat \<Rightarrow> string set \<Rightarrow> middlewareSpec list \<Rightarrow> string option" where
  "validateMiddlewares_from scope i seen [] = None"
| "validateMiddlewares_from scope i seen (mw # mws) = first_err
     [fail_if (mw_name mw = []) (scope @ '': middleware['' @ show_nat i @ '']: name is required''),
      fail_if (mw_name mw \<in> seen) (scope @ '': duplicate middleware name '' @ Quote (mw_name mw)),
      validateMiddlewares_from scope (Suc i) (insert (mw_name mw) seen) mws]"

definition validateMiddlewares :: "string \<Rightarrow> middlewareSpec list \<Rightarrow> string option" where
  "validateMiddlewares scope mws = validateMiddlewares_from scope 0 {} mws"

fun validateToolNames_from :: "string \<Rightarrow> string set \<Rightarrow> string list \<Rightarrow> string + string set" where
  "validateToolNames_from scope seen [] = Inr seen"
| "validateToolNames_from scope seen (t # ts) = echeck (first_err
     [fail_if (t = []) (scope @ '': tool name must be non-empty''),
      fail_if (t \<in> seen) (scope @ '': duplicate tool name '' @ Quote t)])
     (validateToolNames_from scope (insert t seen) ts)"

text \<open>The map of the names seen, or the error.\<close>

definition validateToolNames :: "string \<Rightarrow> string list \<Rightarrow> string + string set" where
  "validateToolNames scope ts = validateToolNames_from scope {} ts"

definition validateSubAgent :: "subAgentSpec \<Rightarrow> nat \<Rightarrow> string option" where
  "validateSubAgent sub index = first_err
     [fail_if (sub_name sub = []) (''sub_agent['' @ show_nat index @ '']: name is required''),
      fail_if (sub_instruction sub = []) (sub_scope sub @ '': instruction is required''),
      scoped (sub_scope sub) (validateParameters (sub_parameters sub)),
      (case validateToolNames (sub_scope sub) (sub_tools sub) of Inl e \<Rightarrow> Some e | Inr _ \<Rightarrow> None),
      scoped (sub_scope sub @ '': context'') (validateContextSpec (sub_context sub)),
      validateMiddlewares (sub_scope sub) (sub_middlewares sub)]"

text \<open>A flow of sub-agents makes no model call of its own.\<close>

definition is_flow :: "agentSpec \<Rightarrow> bool" where
  "is_flow spec \<longleftrightarrow> sp_execution spec = ExecutionSequential \<or> sp_execution spec = ExecutionParallel \<or>
     sp_execution spec = ExecutionLoop"

fun validateSubAgents :: "agentSpec \<Rightarrow> string set \<Rightarrow> nat \<Rightarrow> string set \<Rightarrow> subAgentSpec list \<Rightarrow> string option" where
  "validateSubAgents spec toolNames i seen [] = None"
| "validateSubAgents spec toolNames i seen (sub # subs) = first_err
     [scoped (recipe_scope spec) (validateSubAgent sub i),
      fail_if (sub_name sub \<in> seen) (recipe_scope spec @ '': duplicate sub_agent name '' @ Quote (sub_name sub)),
      fail_if (sp_execution spec = ExecutionTool \<and> sub_name sub \<in> toolNames)
        (recipe_scope spec @ '': '' @ sub_scope sub @ '' conflicts with an external tool of the same name''),
      fail_if (sp_execution spec = ExecutionTool \<and> sub_outputKey sub \<noteq> [])
        (recipe_scope spec @ '': '' @ sub_scope sub @ '': output_key is not supported in tool mode''),
      fail_if (is_flow spec \<and> sp_model spec = [] \<and> sub_model sub = [])
        (recipe_scope spec @ '': '' @ sub_scope sub @ '': model is required when parent has no model''),
      validateSubAgents spec toolNames (Suc i) (insert (sub_name sub) seen) subs]"

definition validate_mode :: "agentSpec \<Rightarrow> string option" where
  "validate_mode spec = first_err
     [fail_if (sp_version spec = []) ''recipe: version is required'',
      fail_if (sp_name spec = []) ''recipe: name is required'',
      fail_if (sp_instruction spec = [] \<and> \<not> is_flow spec) ''recipe: instruction is required'',
      fail_if (sp_subAgents spec = [] \<and> sp_model spec = []) ''recipe: model is required when there are no sub_agents'',
      fail_if (sp_subAgents spec \<noteq> [] \<and> sp_execution spec = [])
        ''recipe: execution mode is required when sub_agents are defined'',
      fail_if (sp_execution spec \<noteq> [] \<and> \<not> is_flow spec \<and> sp_execution spec \<noteq> ExecutionTool)
        (''recipe: invalid execution mode '' @ Quote (sp_execution spec) @
           '' (must be sequential, parallel, tool, or loop)''),
      fail_if (sp_execution spec = ExecutionTool \<and> sp_model spec = [])
        ''recipe: model is required for tool execution mode'',
      fail_if ((sp_execution spec = ExecutionSequential \<or> sp_execution spec = ExecutionParallel) \<and>
          sp_outputKey spec \<noteq> [])
        (recipe_scope spec @ '': output_key is not supported in '' @ sp_execution spec @ '' mode''),
      fail_if ((sp_execution spec = ExecutionSequential \<or> sp_execution spec = ExecutionParallel) \<and>
          0 < sp_maxIterations spec)
        (recipe_scope spec @ '': max_iterations is not supported in '' @ sp_execution spec @ '' mode''),
      fail_if (sp_execution spec = ExecutionLoop \<and> sp_outputKey spec \<noteq> [])
        (recipe_scope spec @ '': output_key is not supported in loop mode'')]"

definition Validate :: "agentSpec option \<Rightarrow> string option" where
  "Validate s = (case s of None \<Rightarrow> Some ''recipe: spec is required'' | Some spec \<Rightarrow> first_err
     [validate_mode spec,
      scoped (recipe_scope spec) (validateParameters (sp_parameters spec)),
      scoped (recipe_scope spec @ '': context'') (validateContextSpec (sp_context spec)),
      validateMiddlewares (recipe_scope spec) (sp_middlewares spec),
      (case validateToolNames (recipe_scope spec) (sp_tools spec) of
         Inl e \<Rightarrow> Some e
       | Inr toolNames \<Rightarrow> validateSubAgents spec toolNames 0 {} (sp_subAgents spec))])"

definition validateParamValue :: "string \<Rightarrow> params \<Rightarrow> parameterSpec \<Rightarrow> string option" where
  "validateParamValue scope params p = (case params (ps_name p) of
       None \<Rightarrow> fail_if (ps_default p = None \<and> ps_required p = ParameterRequired)
         (scope @ '': required parameter '' @ Quote (ps_name p) @ '' is missing'')
     | Some val \<Rightarrow> validateParamType scope p val)"

definition validateParamValues :: "string \<Rightarrow> parameterSpec list \<Rightarrow> params \<Rightarrow> string option" where
  "validateParamValues scope ps params = first_err (map (validateParamValue scope params) ps)"

definition ValidateParams :: "agentSpec option \<Rightarrow> params \<Rightarrow> string option" where
  "ValidateParams s params = (case s of None \<Rightarrow> Some ''recipe: spec is required''
     | Some spec \<Rightarrow> validateParamValues (recipe_scope spec) (sp_parameters spec) params)"

definition Parse :: "(string \<Rightarrow> string + agentSpec) \<Rightarrow> string \<Rightarrow> string + agentSpec" where
  "Parse unmarshal data = (case unmarshal data of
       Inl e \<Rightarrow> Inl (''recipe: failed to parse YAML: '' @ e)
     | Inr spec \<Rightarrow> (case Validate (Some spec) of Some e \<Rightarrow> Inl e | None \<Rightarrow> Inr spec))"

definition LoadFromFile :: "(string \<Rightarrow> string + string) \<Rightarrow> (string \<Rightarrow> string + agentSpec) \<Rightarrow> string \<Rightarrow> string + agentSpec" where
  "LoadFromFile read_file unmarshal path = (case read_file path of
       Inl e \<Rightarrow> Inl (''recipe: failed to read file '' @ Quote path @ '': '' @ e)
     | Inr data \<Rightarrow> Parse unmarshal data)"

definition LoadFromFS :: "(string \<Rightarrow> string + string) \<Rightarrow> (string \<Rightarrow> string + agentSpec) \<Rightarrow> string \<Rightarrow> string + agentSpec" where
  "LoadFromFS fs_read unmarshal path = (case fs_read path of
       Inl e \<Rightarrow> Inl (''recipe: failed to read '' @ Quote path @ '' from fs: '' @ e)
     | Inr data \<Rightarrow> Parse unmarshal data)"

section \<open>Templates\<close>

text \<open>\<open>template.New("recipe").Parse\<close> and \<open>Execute\<close>; the flag is the option \<open>missingkey=error\<close>.\<close>

type_synonym engine = "bool \<Rightarrow> string \<Rightarrow> params \<Rightarrow> string + string"

definition executeTemplate :: "engine \<Rightarrow> string \<Rightarrow> params \<Rightarrow> bool \<Rightarrow> string + string" where
  "executeTemplate engine tmplStr data strictMissingKey =
     (if tmplStr = [] then Inr [] else engine strictMissingKey tmplStr data)"

definition renderTemplate :: "engine \<Rightarrow> string \<Rightarrow> params \<Rightarrow> string + string" where
  "renderTemplate engine tmplStr data = executeTemplate engine tmplStr data True"

text \<open>The leftmost match of \<open>map has no entry for key "([^"]+)"\<close>.\<close>

definition missing_prefix :: string where
  "missing_prefix = ''map has no entry for key '' @ [CHR 0x22]"

fun extractMissingKey :: "string \<Rightarrow> string option" where
  "extractMissingKey [] = None"
| "extractMissingKey (c # s) =
     (let rest = drop (length missing_prefix) (c # s);
          key = takeWhile (\<lambda>d. d \<noteq> CHR 0x22) rest
      in if HasPrefix (c # s) missing_prefix \<and> key \<noteq> [] \<and> length key < length rest then Some key
         else extractMissingKey s)"

definition placeholder :: "string \<Rightarrow> anyval" where
  "placeholder key = AnyString (''{{.'' @ key @ ''}}'')"

text \<open>The loop of \<open>renderTemplatePreservingUnknown\<close> with the rounds it has left.\<close>

fun preserve_rounds :: "engine \<Rightarrow> string \<Rightarrow> nat \<Rightarrow> params \<Rightarrow> string + string" where
  "preserve_rounds engine tmplStr 0 working = Inl ''recipe: too many unresolved template keys''"
| "preserve_rounds engine tmplStr (Suc n) working =
     (case executeTemplate engine tmplStr working True of
        Inr out \<Rightarrow> Inr out
      | Inl e \<Rightarrow> (case extractMissingKey e of
           None \<Rightarrow> Inl e
         | Some key \<Rightarrow> (if working key \<noteq> None then Inl e
             else preserve_rounds engine tmplStr n (working(key \<mapsto> placeholder key)))))"

definition renderTemplatePreservingUnknown :: "engine \<Rightarrow> string \<Rightarrow> params \<Rightarrow> string + string" where
  "renderTemplatePreservingUnknown engine tmplStr data =
     (if tmplStr = [] then Inr [] else preserve_rounds engine tmplStr 64 data)"

definition default_params :: "parameterSpec list \<Rightarrow> params" where
  "default_params ps = fold (\<lambda>p m. case ps_default p of None \<Rightarrow> m | Some d \<Rightarrow> m(ps_name p \<mapsto> d)) ps Map.empty"

definition resolveParams :: "parameterSpec list \<Rightarrow> params \<Rightarrow> params" where
  "resolveParams ps userParams = default_params ps ++ userParams"

definition hasTemplateActions :: "string \<Rightarrow> bool" where
  "hasTemplateActions s = Contains s ''{{''"

end
