(* ===== verification/Recipe_Build.thy ===== *)
theory Recipe_Build
  imports Recipe
begin

text \<open>
  Recipes, second half: the registries that resolve names (\<open>src/recipe/registry.go\<close>), the agents
  that inject a prompt (\<open>prompt.go\<close>), the compressor of a session (\<open>context.go\<close>) and the builder
  (\<open>builder.go\<close>). A built agent is a value that names its agents and sub-agents; \<open>built_runs\<close> runs
  it with the definitions of \<open>Agents\<close> and \<open>Flows\<close>. The three registries share the interface
  \<open>registry\<close>.
\<close>

section \<open>Registries\<close>

type_synonym 'v registry_map = "string \<rightharpoonup> 'v"

definition ModelRegistry_Register :: "'p provider option registry_map \<Rightarrow> string \<Rightarrow> 'p provider option \<Rightarrow>
    'p provider option registry_map" where
  "ModelRegistry_Register r name provider = r(name \<mapsto> provider)"

definition ModelRegistry_Resolve :: "'p provider option registry_map \<Rightarrow> string \<Rightarrow> string + 'p provider option" where
  "ModelRegistry_Resolve r name = (case r name of
       None \<Rightarrow> Inl (''recipe: model '' @ Quote name @ '' not found in registry'') | Some p \<Rightarrow> Inr p)"

definition ToolRegistry_Register :: "'p tool registry_map \<Rightarrow> string \<Rightarrow> 'p tool \<Rightarrow> 'p tool registry_map" where
  "ToolRegistry_Register r name t = r(name \<mapsto> t)"

definition ToolRegistry_Resolve :: "'p tool registry_map \<Rightarrow> string \<Rightarrow> string + 'p tool" where
  "ToolRegistry_Resolve r name = (case r name of
       None \<Rightarrow> Inl (''recipe: tool '' @ Quote name @ '' not found in registry'') | Some t \<Rightarrow> Inr t)"

type_synonym 'p middlewareFactory = "params \<Rightarrow> string + ('p handler \<Rightarrow> 'p handler)"

definition MiddlewareRegistry_Register :: "'p middlewareFactory registry_map \<Rightarrow> string \<Rightarrow> 'p middlewareFactory \<Rightarrow>
    'p middlewareFactory registry_map" where
  "MiddlewareRegistry_Register r name factory = r(name \<mapsto> factory)"

definition MiddlewareRegistry_Resolve :: "'p middlewareFactory registry_map \<Rightarrow> string \<Rightarrow> params \<Rightarrow>
    string + ('p handler \<Rightarrow> 'p handler)" where
  "MiddlewareRegistry_Resolve r name options = (case r name of
       None \<Rightarrow> Inl (''recipe: middleware '' @ Quote name @ '' not found in registry'') | Some f \<Rightarrow> f options)"

text \<open>What a registry promises: a name resolves to what was registered under it last, and to an
  error before.\<close>

locale registry =
  fixes register :: "'r \<Rightarrow> string \<Rightarrow> 'v \<Rightarrow> 'r" and resolve :: "'r \<Rightarrow> string \<Rightarrow> string + 'o"
    and new :: 'r and outcome :: "'v \<Rightarrow> string + 'o"
  assumes resolve_register: "resolve (register r n v) n' = (if n' = n then outcome v else resolve r n')"
    and resolve_new: "\<exists>e. resolve new n = Inl e"
begin

definition filled :: "(string \<times> 'v) list \<Rightarrow> 'r" where
  "filled kvs = fold (\<lambda>(n, v) r. register r n v) kvs new"

lemma resolve_filled:
  "map_of (rev kvs) n = Some v \<Longrightarrow> resolve (filled kvs) n = outcome v"
  "map_of (rev kvs) n = None \<Longrightarrow> \<exists>e. resolve (filled kvs) n = Inl e"
  unfolding filled_def
  by (induction kvs rule: rev_induct) (auto simp: resolve_register resolve_new split: if_splits)

lemma resolve_registered:
  assumes "distinct (map fst kvs)" and "(n, v) \<in> set kvs"
  shows "resolve (filled kvs) n = outcome v"
  using assms by (intro resolve_filled(1)) (simp add: map_of_eq_Some_iff rev_map [symmetric])

lemma resolve_ok_registered: "resolve (filled kvs) n = Inr y \<Longrightarrow> \<exists>v. (n, v) \<in> set kvs \<and> outcome v = Inr y"
  using resolve_filled [of kvs n] by (cases "map_of (rev kvs) n") (auto dest!: map_of_SomeD)

end

interpretation model_registry: registry ModelRegistry_Register ModelRegistry_Resolve Map.empty Inr
  by unfold_locales (simp_all add: ModelRegistry_Register_def ModelRegistry_Resolve_def)

interpretation tool_registry: registry ToolRegistry_Register ToolRegistry_Resolve Map.empty Inr
  by unfold_locales (simp_all add: ToolRegistry_Register_def ToolRegistry_Resolve_def)

interpretation middleware_registry: registry MiddlewareRegistry_Register
    "\<lambda>r n. MiddlewareRegistry_Resolve r n options" Map.empty "\<lambda>f. f options"
  by unfold_locales (simp_all add: MiddlewareRegistry_Register_def MiddlewareRegistry_Resolve_def)

section \<open>Build options\<close>

record 'p buildOptions =
  bo_models :: "(string \<Rightarrow> string + 'p provider option) option"
  bo_tools :: "(string \<Rightarrow> string + 'p tool) option"
  bo_middlewares :: "(string \<Rightarrow> params \<Rightarrow> string + ('p handler \<Rightarrow> 'p handler)) option"
  bo_params :: params
  bo_context :: "bool option"

definition WithModelRegistry :: "(string \<Rightarrow> string + 'p provider option) option \<Rightarrow> 'p buildOptions \<Rightarrow> 'p buildOptions" where
  "WithModelRegistry r o' = o'\<lparr>bo_models := r\<rparr>"

definition WithToolRegistry :: "(string \<Rightarrow> string + 'p tool) option \<Rightarrow> 'p buildOptions \<Rightarrow> 'p buildOptions" where
  "WithToolRegistry r o' = o'\<lparr>bo_tools := r\<rparr>"

definition WithMiddlewareRegistry :: "(string \<Rightarrow> params \<Rightarrow> string + ('p handler \<Rightarrow> 'p handler)) option \<Rightarrow>
    'p buildOptions \<Rightarrow> 'p buildOptions" where
  "WithMiddlewareRegistry r o' = o'\<lparr>bo_middlewares := r\<rparr>"

definition WithParams :: "params \<Rightarrow> 'p buildOptions \<Rightarrow> 'p buildOptions" where
  "WithParams ps o' = o'\<lparr>bo_params := ps\<rparr>"

definition Build_WithContext :: "bool \<Rightarrow> 'p buildOptions \<Rightarrow> 'p buildOptions" where
  "Build_WithContext enabled o' = o'\<lparr>bo_context := Some enabled\<rparr>"

definition build_options :: "('p buildOptions \<Rightarrow> 'p buildOptions) list \<Rightarrow> 'p buildOptions" where
  "build_options opts = fold (\<lambda>opt o'. opt o') opts
     \<lparr>bo_models = None, bo_tools = None, bo_middlewares = None, bo_params = Map.empty, bo_context = None\<rparr>"

definition recipe_resolveTools :: "string list \<Rightarrow> 'p buildOptions \<Rightarrow> string + 'p tool list" where
  "recipe_resolveTools names o' = (if names = [] then Inr [] else case bo_tools o' of
       None \<Rightarrow> Inl ''tool registry is required when tools are referenced''
     | Some resolve \<Rightarrow> map_err resolve names)"

definition resolveMiddlewares :: "middlewareSpec list \<Rightarrow> 'p buildOptions \<Rightarrow> string + ('p handler \<Rightarrow> 'p handler) list" where
  "resolveMiddlewares specs o' = (if specs = [] then Inr [] else case bo_middlewares o' of
       None \<Rightarrow> Inl ''middleware registry is required when middlewares are referenced''
     | Some resolve \<Rightarrow> map_err (\<lambda>mw. resolve (mw_name mw) (mw_options mw)) specs)"

section \<open>Prompt injection\<close>

text \<open>What the agents take from outside: identifiers and the agents' renderer, the template engine,
  and what \<open>errors.Is\<close> and \<open>Error\<close> say of the error of a sub-agent run as a tool.\<close>

record recipe_env =
  env_ext :: ext
  env_engine :: engine
  env_tool_error :: "aerror \<Rightarrow> terror"

text \<open>\<open>promptInjectedAgent.Run\<close> runs its base with the invocation below. A nil invocation, which no
  caller passes, is left out.\<close>

definition promptInjected :: "ext \<Rightarrow> string \<Rightarrow> 'p invocation \<Rightarrow> 'p invocation" where
  "promptInjected x prompt ivn =
     (if prompt = [] then ivn
      else let next = clone_invocation ivn in
        case inv_message next of
          None \<Rightarrow> next\<lparr>inv_message := Some (UserMessage (fresh_id x) [InString prompt])\<rparr>
        | Some _ \<Rightarrow> next\<lparr>inv_instruction :=
            MergeParts (Some (SystemMessage (fresh_id x) [InString prompt])) (inv_instruction next)\<rparr>)"

definition renderPrompt :: "engine \<Rightarrow> string \<Rightarrow> 'p invocation \<Rightarrow> 'p world \<Rightarrow> string + string" where
  "renderPrompt engine prompt ivn w = (case inv_session ivn of
       None \<Rightarrow> Inr prompt
     | Some r \<Rightarrow> if \<not> hasTemplateActions prompt then Inr prompt
         else renderTemplate engine prompt (sess_state (sessions w r)))"

definition userPromptInjected_Run :: "recipe_env \<Rightarrow> string \<Rightarrow> 'p handler \<Rightarrow> 'p handler" where
  "userPromptInjected_Run env prompt base c ivn w =
     (if prompt = [] then base c ivn w
      else let next = clone_invocation ivn in
        case renderPrompt (env_engine env) prompt next w of
          Inl e \<Rightarrow> gyield (Inl (OtherErr e)) w
        | Inr text \<Rightarrow> (let m = UserMessage (fresh_id (env_ext env)) [InString text] in
            base c (case inv_message next of
                None \<Rightarrow> next\<lparr>inv_message := Some m\<rparr>
              | Some _ \<Rightarrow> next\<lparr>inv_ephemeral := inv_ephemeral next @ [m]\<rparr>) w))"

section \<open>Built agents\<close>

text \<open>A sub-agent with the prompt of a \<open>userPromptInjectedAgent\<close> around it, if any.\<close>

record 'p sub_agent =
  sa_agent :: "'p agent"
  sa_prompt :: "string option"

definition sub_Run :: "recipe_env \<Rightarrow> 'p sub_agent \<Rightarrow> 'p handler" where
  "sub_Run env s = (case sa_prompt s of None \<Rightarrow> Run (env_ext env) (sa_agent s)
     | Some prompt \<Rightarrow> userPromptInjected_Run env prompt (Run (env_ext env) (sa_agent s)))"

datatype 'p base_agent =
    SingleAgent "'p agent"
  | SequentialFlow string string "'p sub_agent list"
  | ParallelFlow string string "'p sub_agent list"
  | LoopFlow string string int "'p sub_agent list"

record 'p built =
  b_base :: "'p base_agent"
  b_prompt :: "string option"

text \<open>The events and the final world of a run that is one generator.\<close>

definition plays :: "'p handler \<Rightarrow> ctx \<Rightarrow> 'p invocation \<Rightarrow> 'p world \<Rightarrow> event list \<Rightarrow> 'p world \<Rightarrow> bool" where
  "plays h c ivn w es v \<longleftrightarrow> es = gevents (h c ivn w) \<and> v = snd (gfinal (h c ivn w))"

fun base_runs :: "recipe_env \<Rightarrow> 'p base_agent \<Rightarrow> ctx \<Rightarrow> 'p invocation \<Rightarrow> 'p world \<Rightarrow> event list \<Rightarrow>
    'p world \<Rightarrow> bool" where
  "base_runs env (SingleAgent a) = plays (Run (env_ext env) a)"
| "base_runs env (SequentialFlow _ _ subs) = plays (SequentialAgent_Run (map (sub_Run env) subs))"
| "base_runs env (ParallelFlow _ _ subs) = ParallelAgent_Run (map (sub_Run env) subs)"
| "base_runs env (LoopFlow _ _ n subs) = plays (LoopAgent_Run (NewLoopAgent
     \<lparr>lc_maxIterations = n, lc_condition = None, lc_agents = map (sub_Run env) subs\<rparr>))"

definition built_runs :: "recipe_env \<Rightarrow> 'p built \<Rightarrow> ctx \<Rightarrow> 'p invocation \<Rightarrow> 'p world \<Rightarrow> event list \<Rightarrow>
    'p world \<Rightarrow> bool" where
  "built_runs env b c ivn = base_runs env (b_base b) c (case b_prompt b of None \<Rightarrow> ivn
     | Some prompt \<Rightarrow> promptInjected (env_ext env) prompt ivn)"

text \<open>\<open>NewAgentTool\<close> around a sub-agent, called by the agent \<open>caller\<close>. The sub-agent runs in a session
  made for it, which nothing else reaches, so the tool has a world of its own around the outside.\<close>

definition private_world :: "'p \<Rightarrow> 'p world" where
  "private_world p = \<lparr>sessions = \<lambda>_. NewSession [], next_session = 0, flags = \<lambda>_. False, next_flag = 0,
     outside = p\<rparr>"

definition agent_tool :: "recipe_env \<Rightarrow> string \<Rightarrow> string \<Rightarrow> 'p handler \<Rightarrow> 'p tool" where
  "agent_tool env caller name agent = \<lparr>t_name = name,
     t_handle = (\<lambda>_ input p. case agentTool_Handle (fresh_id (env_ext env)) agent
         \<lparr>ctx_session = None, ctx_agent = Some caller\<rparr> input (private_world p) of
         (Inl e, w) \<Rightarrow> (Inl (env_tool_error env e), [], outside w)
       | (Inr out, w) \<Rightarrow> (Inr out, [], outside w))\<rparr>"

section \<open>The builder\<close>

definition in_scope :: "string \<Rightarrow> string + 'a \<Rightarrow> string + 'a" where
  "in_scope scope r = (case r of Inl e \<Rightarrow> Inl (scope @ '': '' @ e) | Inr a \<Rightarrow> Inr a)"

lemma in_scope_Inr [simp]: "in_scope scope r = Inr a \<longleftrightarrow> r = Inr a"
  by (cases r) (simp_all add: in_scope_def)

definition option_if :: "bool \<Rightarrow> 'a \<Rightarrow> 'a list" where
  "option_if c x = (if c then [x] else [])"

text \<open>\<open>blades.NewAgent\<close>, whose only error is a missing model.\<close>

definition new_agent :: "string \<Rightarrow> ('p agent \<Rightarrow> 'p agent) list \<Rightarrow> string + 'p agent" where
  "new_agent name opts = (case NewAgent name opts of Inl _ \<Rightarrow> Inl ''model provider is required'' | Inr a \<Rightarrow> Inr a)"

definition the_models :: "'p buildOptions \<Rightarrow> string \<Rightarrow> string + 'p provider option" where
  "the_models o' = the (bo_models o')"

definition buildSingleAgent :: "recipe_env \<Rightarrow> agentSpec \<Rightarrow> params \<Rightarrow> 'p buildOptions \<Rightarrow> string + 'p agent" where
  "buildSingleAgent env spec params o' =
     ebind (the_models o' (sp_model spec)) (\<lambda>model.
     ebind (in_scope (recipe_scope spec @ '': failed to render instruction'')
              (renderTemplate (env_engine env) (sp_instruction spec) params)) (\<lambda>instruction.
     ebind (in_scope (recipe_scope spec) (recipe_resolveTools (sp_tools spec) o')) (\<lambda>resolvedTools.
     ebind (in_scope (recipe_scope spec) (resolveMiddlewares (sp_middlewares spec) o')) (\<lambda>middlewares.
     new_agent (sp_name spec)
       ([WithModel model] @ option_if (sp_description spec \<noteq> []) (WithDescription (sp_description spec)) @
        [WithInstruction instruction] @
        option_if (sp_outputKey spec \<noteq> []) (WithOutputKey (sp_outputKey spec)) @
        option_if (0 < sp_maxIterations spec) (WithMaxIterations (sp_maxIterations spec)) @
        (case bo_context o' of None \<Rightarrow> [] | Some b \<Rightarrow> [WithContext b]) @
        option_if (resolvedTools \<noteq> []) (WithTools resolvedTools) @
        option_if (middlewares \<noteq> []) (WithAgentMiddleware middlewares))))))"

definition withUserPromptTemplate :: "recipe_env \<Rightarrow> string \<Rightarrow> string \<Rightarrow> params \<Rightarrow> 'p agent \<Rightarrow> string + 'p sub_agent" where
  "withUserPromptTemplate env scope promptTemplate params base =
     (if promptTemplate = [] then Inr \<lparr>sa_agent = base, sa_prompt = None\<rparr>
      else ebind (in_scope (scope @ '': failed to render prompt'')
             (if hasTemplateActions promptTemplate
              then renderTemplatePreservingUnknown (env_engine env) promptTemplate params
              else renderTemplate (env_engine env) promptTemplate params))
        (\<lambda>prompt. Inr \<lparr>sa_agent = base, sa_prompt = Some prompt\<rparr>))"

definition sub_instruction_text :: "recipe_env \<Rightarrow> subAgentSpec \<Rightarrow> params \<Rightarrow> string + string" where
  "sub_instruction_text env sub subParams =
     (if hasTemplateActions (sub_instruction sub)
      then in_scope (sub_scope sub @ '': failed to render instruction'')
        (renderTemplatePreservingUnknown (env_engine env) (sub_instruction sub) subParams)
      else Inr (sub_instruction sub))"

definition sub_model_name :: "subAgentSpec \<Rightarrow> string \<Rightarrow> string" where
  "sub_model_name sub parentModel = (if sub_model sub = [] then parentModel else sub_model sub)"

definition buildSubAgent :: "recipe_env \<Rightarrow> string \<Rightarrow> params \<Rightarrow> 'p buildOptions \<Rightarrow> subAgentSpec \<Rightarrow>
    string + 'p sub_agent" where
  "buildSubAgent env parentModel params o' sub =
     (let subParams = resolveParams (sub_parameters sub) params in
     echeck (fail_if (sub_model_name sub parentModel = [])
       (''recipe: '' @ sub_scope sub @ '' has no model and parent has no model'')) (
     ebind (the_models o' (sub_model_name sub parentModel)) (\<lambda>model.
     echeck (validateParamValues (sub_scope sub) (sub_parameters sub) subParams) (
     ebind (sub_instruction_text env sub subParams) (\<lambda>instruction.
     ebind (in_scope (sub_scope sub) (recipe_resolveTools (sub_tools sub) o')) (\<lambda>resolvedTools.
     ebind (in_scope (sub_scope sub) (resolveMiddlewares (sub_middlewares sub) o')) (\<lambda>middlewares.
     ebind (new_agent (sub_name sub)
       ([WithModel model] @ option_if (sub_description sub \<noteq> []) (WithDescription (sub_description sub)) @
        [WithInstruction instruction] @
        option_if (sub_outputKey sub \<noteq> []) (WithOutputKey (sub_outputKey sub)) @
        option_if (0 < sub_maxIterations sub) (WithMaxIterations (sub_maxIterations sub)) @
        (case bo_context o' of None \<Rightarrow> [] | Some b \<Rightarrow> [WithContext b]) @
        option_if (resolvedTools \<noteq> []) (WithTools resolvedTools) @
        option_if (middlewares \<noteq> []) (WithAgentMiddleware middlewares))) (\<lambda>agent.
     withUserPromptTemplate env (sub_scope sub) (sub_prompt sub) subParams agent))))))))"

text \<open>The loop over the sub-agents that the four builders share.\<close>

definition buildSubAgents :: "recipe_env \<Rightarrow> agentSpec \<Rightarrow> params \<Rightarrow> 'p buildOptions \<Rightarrow> string + 'p sub_agent list" where
  "buildSubAgents env spec params o' =
     map_err (\<lambda>sub. in_scope (recipe_scope spec) (buildSubAgent env (sp_model spec) params o' sub)) (sp_subAgents spec)"

definition buildSequentialAgent :: "recipe_env \<Rightarrow> agentSpec \<Rightarrow> params \<Rightarrow> 'p buildOptions \<Rightarrow> string + 'p base_agent" where
  "buildSequentialAgent env spec params o' =
     ebind (buildSubAgents env spec params o') (\<lambda>subs. Inr (SequentialFlow (sp_name spec) (sp_description spec) subs))"

definition buildParallelAgent :: "recipe_env \<Rightarrow> agentSpec \<Rightarrow> params \<Rightarrow> 'p buildOptions \<Rightarrow> string + 'p base_agent" where
  "buildParallelAgent env spec params o' =
     ebind (buildSubAgents env spec params o') (\<lambda>subs. Inr (ParallelFlow (sp_name spec) (sp_description spec) subs))"

definition buildLoopAgent :: "recipe_env \<Rightarrow> agentSpec \<Rightarrow> params \<Rightarrow> 'p buildOptions \<Rightarrow> string + 'p base_agent" where
  "buildLoopAgent env spec params o' =
     ebind (buildSubAgents env spec params o')
       (\<lambda>subs. Inr (LoopFlow (sp_name spec) (sp_description spec) (sp_maxIterations spec) subs))"

definition buildToolAgent :: "recipe_env \<Rightarrow> agentSpec \<Rightarrow> params \<Rightarrow> 'p buildOptions \<Rightarrow> string + 'p agent" where
  "buildToolAgent env spec params o' =
     ebind (the_models o' (sp_model spec)) (\<lambda>model.
     ebind (buildSubAgents env spec params o') (\<lambda>subs.
     ebind (in_scope (recipe_scope spec) (recipe_resolveTools (sp_tools spec) o')) (\<lambda>externalTools.
     ebind (in_scope (recipe_scope spec @ '': failed to render instruction'')
              (renderTemplate (env_engine env) (sp_instruction spec) params)) (\<lambda>instruction.
     ebind (in_scope (recipe_scope spec) (resolveMiddlewares (sp_middlewares spec) o')) (\<lambda>middlewares.
     new_agent (sp_name spec)
       ([WithModel model, WithInstruction instruction,
         WithTools (map (\<lambda>s. agent_tool env (sp_name spec) (a_name (sa_agent s)) (sub_Run env s)) subs @ externalTools)] @
        option_if (sp_description spec \<noteq> []) (WithDescription (sp_description spec)) @
        option_if (sp_outputKey spec \<noteq> []) (WithOutputKey (sp_outputKey spec)) @
        option_if (0 < sp_maxIterations spec) (WithMaxIterations (sp_maxIterations spec)) @
        (case bo_context o' of None \<Rightarrow> [] | Some b \<Rightarrow> [WithContext b]) @
        option_if (middlewares \<noteq> []) (WithAgentMiddleware middlewares)))))))"

definition withPromptTemplate :: "recipe_env \<Rightarrow> string \<Rightarrow> string \<Rightarrow> params \<Rightarrow> 'p base_agent \<Rightarrow> string + 'p built" where
  "withPromptTemplate env scope promptTemplate params base =
     (if promptTemplate = [] then Inr \<lparr>b_base = base, b_prompt = None\<rparr>
      else ebind (in_scope (scope @ '': failed to render prompt'')
             (renderTemplate (env_engine env) promptTemplate params))
        (\<lambda>prompt. Inr \<lparr>b_base = base, b_prompt = Some prompt\<rparr>))"

definition withPromptInjection :: "recipe_env \<Rightarrow> agentSpec \<Rightarrow> params \<Rightarrow> 'p base_agent \<Rightarrow> string + 'p built" where
  "withPromptInjection env spec params base = withPromptTemplate env (recipe_scope spec) (sp_prompt spec) params base"

definition build_base :: "recipe_env \<Rightarrow> agentSpec \<Rightarrow> params \<Rightarrow> 'p buildOptions \<Rightarrow> string + 'p base_agent" where
  "build_base env spec params o' =
     (if sp_subAgents spec = [] then ebind (buildSingleAgent env spec params o') (\<lambda>a. Inr (SingleAgent a))
      else if sp_execution spec = ExecutionSequential then buildSequentialAgent env spec params o'
      else if sp_execution spec = ExecutionParallel then buildParallelAgent env spec params o'
      else if sp_execution spec = ExecutionLoop then buildLoopAgent env spec params o'
      else if sp_execution spec = ExecutionTool then ebind (buildToolAgent env spec params o') (\<lambda>a. Inr (SingleAgent a))
      else Inl (''recipe: unsupported execution mode '' @ Quote (sp_execution spec)))"

definition Build :: "recipe_env \<Rightarrow> agentSpec option \<Rightarrow> ('p buildOptions \<Rightarrow> 'p buildOptions) list \<Rightarrow> string + 'p built" where
  "Build env s opts = echeck (Validate s) (
     let spec = the s; o' = build_options opts; params = resolveParams (sp_parameters spec) (bo_params o') in
     echeck (fail_if (bo_models o' = None) ''recipe: model registry is required'') (
     echeck (ValidateParams s params) (
     ebind (build_base env spec params o') (withPromptInjection env spec params))))"

section \<open>Context compression\<close>

datatype 'p built_compressor = Summarizing summary_compressor "'p provider option" | Windowed window_compressor

definition buildContextCompressor :: "contextSpec option \<Rightarrow> (string \<Rightarrow> string + 'p provider option) \<Rightarrow> string \<Rightarrow>
    string + 'p built_compressor option" where
  "buildContextCompressor spec reg fallbackModelName = (case spec of None \<Rightarrow> Inr None | Some c \<Rightarrow>
     if cs_strategy c = ContextStrategySummarize then
       ebind (in_scope ''recipe: context model'' (reg (if cs_model c = [] then fallbackModelName else cs_model c)))
         (\<lambda>model. Inr (Some (Summarizing (summary_NewContextCompressor
            (option_if (0 < cs_maxTokens c) (s_WithMaxTokens (cs_maxTokens c)) @
             option_if (0 < cs_keepRecent c) (s_WithKeepRecent (cs_keepRecent c)) @
             option_if (0 < cs_batchSize c) (s_WithBatchSize (cs_batchSize c)))) model)))
     else if cs_strategy c = ContextStrategyWindow then
       Inr (Some (Windowed (window_NewContextCompressor
         (option_if (0 < cs_maxTokens c) (w_WithMaxTokens (cs_maxTokens c)) @
          option_if (0 < cs_maxMessages c) (w_WithMaxMessages (cs_maxMessages c))))))
     else Inl (''recipe: unknown context strategy '' @ Quote (cs_strategy c)))"

text \<open>The option is the compressor it installs; \<open>None\<close> is the nil option. A missing registry is only
  reached for the window strategy, which does not ask it.\<close>

definition BuildSessionOption :: "agentSpec option \<Rightarrow> ('p buildOptions \<Rightarrow> 'p buildOptions) list \<Rightarrow>
    string + 'p built_compressor option" where
  "BuildSessionOption s opts = (case s of None \<Rightarrow> Inr None | Some spec \<Rightarrow> (case sp_context spec of None \<Rightarrow> Inr None
     | Some c \<Rightarrow> (let o' = build_options opts in
         echeck (fail_if (bo_models o' = None \<and> cs_strategy c = ContextStrategySummarize)
           ''recipe: model registry is required for summarize context strategy'')
         (buildContextCompressor (Some c) (the_models o') (sp_model spec)))))"

end
