(* ===== verification/Skills.thy ===== *)
theory Skills
  imports Agents Go_Path "HOL-Library.List_Lexorder" "HOL-Library.Char_ord"
begin

text \<open>
  Package \<open>skills\<close>: skills and their metadata (\<open>src/skills/models.go\<close>), the loader
  (\<open>loader.go\<close>) and the prompt (\<open>prompt.go\<close>). A file system is the list of its files, with their
  slash-separated paths, in the order \<open>fs.WalkDir\<close> visits them; the YAML decoder is an argument.
\<close>

section \<open>Metadata\<close>

text \<open>A decoded metadata value: \<open>MRef\<close> is a pointer or interface, \<open>MBadKeys\<close> a map whose keys are
  not strings, \<open>MForeign\<close> a value of any other type, with the name of the type.\<close>

datatype meta =
    MNil
  | MScalar anyval
  | MMap "(string \<times> meta) list"
  | MSeq "meta list"
  | MRef "meta option"
  | MBadKeys
  | MForeign string

fun normalizeMetadataValue :: "meta \<Rightarrow> string + meta"
  and normalize_entries :: "(string \<times> meta) list \<Rightarrow> string + (string \<times> meta) list"
  and normalize_items :: "meta list \<Rightarrow> string + meta list" where
  "normalizeMetadataValue MNil = Inr MNil"
| "normalizeMetadataValue (MScalar v) = Inr (MScalar v)"
| "normalizeMetadataValue (MMap m) = ebind (normalize_entries m) (\<lambda>out. Inr (MMap out))"
| "normalizeMetadataValue (MSeq xs) = ebind (normalize_items xs) (\<lambda>out. Inr (MSeq out))"
| "normalizeMetadataValue (MRef None) = Inr MNil"
| "normalizeMetadataValue (MRef (Some v)) = normalizeMetadataValue v"
| "normalizeMetadataValue MBadKeys = Inl ''skills: metadata map keys must be strings''"
| "normalizeMetadataValue (MForeign t) = Inl (''skills: metadata value of type '' @ t @ '' is not JSON-compatible'')"
| "normalize_entries [] = Inr []"
| "normalize_entries ((k, v) # es) = ebind (normalizeMetadataValue v) (\<lambda>v'.
     ebind (normalize_entries es) (\<lambda>es'. Inr ((k, v') # es')))"
| "normalize_items [] = Inr []"
| "normalize_items (v # vs) = ebind (normalizeMetadataValue v) (\<lambda>v'.
     ebind (normalize_items vs) (\<lambda>vs'. Inr (v' # vs')))"

text \<open>\<open>None\<close> is the nil map.\<close>

definition normalizeMetadataMap :: "meta \<Rightarrow> string + (string \<times> meta) list option" where
  "normalizeMetadataMap value = (if value = MNil then Inr None
     else ebind (normalizeMetadataValue value) (\<lambda>v. case v of
        MMap items \<Rightarrow> Inr (Some items) | _ \<Rightarrow> Inl ''skills: metadata must be a map''))"

section \<open>Skills\<close>

record frontmatter =
  fm_name :: string
  fm_description :: string
  fm_license :: string
  fm_compatibility :: string
  fm_allowedTools :: string
  fm_metadata :: "(string \<times> meta) list option"

definition lower_alnum :: "char \<Rightarrow> bool" where
  "lower_alnum c = (let n = of_char c :: nat in 97 \<le> n \<and> n \<le> 122 \<or> 48 \<le> n \<and> n \<le> 57)"

text \<open>\<open>^[a-z0-9]+(-[a-z0-9]+)*$\<close>.\<close>

definition skillNamePattern :: "string \<Rightarrow> bool" where
  "skillNamePattern name = list_all (\<lambda>w. w \<noteq> [] \<and> list_all lower_alnum w) (split_on (CHR ''-'') name)"

definition fm_Validate :: "frontmatter \<Rightarrow> string option" where
  "fm_Validate f = first_err
     [fail_if (64 < length (fm_name f)) ''skills: name must be at most 64 characters'',
      fail_if (\<not> skillNamePattern (fm_name f)) ''skills: name must be lowercase kebab-case'',
      fail_if (fm_description f = []) ''skills: description must not be empty'',
      fail_if (1024 < length (fm_description f)) ''skills: description must be at most 1024 characters'',
      fail_if (500 < length (fm_compatibility f)) ''skills: compatibility must be at most 500 characters'']"

record resources =
  res_references :: "(string, string) gomap"
  res_assets :: "(string, string) gomap"
  res_scripts :: "(string, string) gomap"

definition no_resources :: resources where
  "no_resources = \<lparr>res_references = [], res_assets = [], res_scripts = []\<rparr>"

definition GetReference :: "resources \<Rightarrow> string \<Rightarrow> string option" where
  "GetReference r path = map_of (res_references r) path"

definition GetAsset :: "resources \<Rightarrow> string \<Rightarrow> string option" where
  "GetAsset r path = map_of (res_assets r) path"

definition GetScript :: "resources \<Rightarrow> string \<Rightarrow> string option" where
  "GetScript r path = map_of (res_scripts r) path"

definition listKeys :: "(string, 'v) gomap \<Rightarrow> string list" where
  "listKeys m = sort (map fst m)"

definition ListReferences :: "resources \<Rightarrow> string list" where
  "ListReferences r = listKeys (res_references r)"

definition ListAssets :: "resources \<Rightarrow> string list" where
  "ListAssets r = listKeys (res_assets r)"

definition ListScripts :: "resources \<Rightarrow> string list" where
  "ListScripts r = listKeys (res_scripts r)"

text \<open>A skill; the last two fields are \<open>None\<close> when it does not implement the provider interface.\<close>

record skill =
  sk_name :: string
  sk_description :: string
  sk_instruction :: string
  sk_frontmatter :: "frontmatter option"
  sk_resources :: "resources option"

definition staticSkill :: "frontmatter \<Rightarrow> string \<Rightarrow> resources \<Rightarrow> skill" where
  "staticSkill f instruction r = \<lparr>sk_name = fm_name f, sk_description = fm_description f,
     sk_instruction = instruction, sk_frontmatter = Some f, sk_resources = Some r\<rparr>"

section \<open>The prompt\<close>

definition skill_lines :: "skill option \<Rightarrow> string list" where
  "skill_lines s = (case s of None \<Rightarrow> [] | Some sk \<Rightarrow>
     [''<skill>'', ''<name>'', EscapeString (sk_name sk), ''</name>'', ''<description>'',
      EscapeString (sk_description sk), ''</description>'', ''</skill>''])"

definition FormatSkillsAsXML :: "skill option list \<Rightarrow> string" where
  "FormatSkillsAsXML skills = (if skills = [] then ''<available_skills>'' @ [newline] @ ''</available_skills>''
     else Join (''<available_skills>'' # concat (map skill_lines skills) @ [''</available_skills>'']) [newline])"

section \<open>The loader\<close>

text \<open>A file system: its files, the paths whose contents cannot be read, and the error of walking it.\<close>

record filesystem =
  fs_files :: "(string, string) gomap"
  fs_unreadable :: "string \<Rightarrow> string option"
  fs_walk_error :: "string option"

definition cutLine :: "string \<Rightarrow> string \<times> string \<times> bool" where
  "cutLine content = (case Index content [newline] of None \<Rightarrow> (content, [], False)
     | Some i \<Rightarrow> (take i content, drop (i + 1) content, True))"

definition trimTrailingCarriageReturn :: "string \<Rightarrow> string" where
  "trimTrailingCarriageReturn line = TrimSuffix line [CHR 0x0D]"

definition isFrontmatterDelimiterLine :: "string \<Rightarrow> bool" where
  "isFrontmatterDelimiterLine line \<longleftrightarrow> trimTrailingCarriageReturn line = ''---''"

lemma Index_bound: "Index s sub = Some i \<Longrightarrow> sub \<noteq> [] \<Longrightarrow> i < length s"
  by (induction s arbitrary: i) (auto split: if_splits)

lemma cutLine_shorter: "cutLine s = (line, rest, True) \<Longrightarrow> length rest < length s"
  by (auto simp: cutLine_def dest: Index_bound split: option.splits)

text \<open>The loop of \<open>splitFrontmatterBlock\<close>: the length of the front matter and what follows its closing
  line.\<close>

function find_closing :: "nat \<Rightarrow> string \<Rightarrow> (nat \<times> string) option" where
  "find_closing n search = (case cutLine search of (line, remaining, hasNext) \<Rightarrow>
     if isFrontmatterDelimiterLine line then Some (n, remaining)
     else if hasNext then find_closing (n + length line + 1) remaining else None)"
  by pat_completeness auto
termination by (relation "measure (\<lambda>(n, s). length s)") (auto dest: cutLine_shorter [OF sym])

declare find_closing.simps [simp del]

definition splitFrontmatterBlock :: "string \<Rightarrow> string + string \<times> string" where
  "splitFrontmatterBlock skillMD = (case cutLine skillMD of (firstLine, rest, hasMore) \<Rightarrow>
     if \<not> isFrontmatterDelimiterLine firstLine then Inl ''skills: SKILL.md must start with YAML frontmatter''
     else if \<not> hasMore then Inl ''skills: SKILL.md frontmatter not properly closed with ---''
     else case find_closing 0 rest of
         None \<Rightarrow> Inl ''skills: SKILL.md frontmatter not properly closed with ---''
       | Some (n, remaining) \<Rightarrow> Inr (take n rest, remaining))"

definition string_field :: "(string, meta) gomap \<Rightarrow> string \<Rightarrow> string + string option" where
  "string_field raw key = (case map_of raw key of None \<Rightarrow> Inr None
     | Some (MScalar (AnyString s)) \<Rightarrow> Inr (Some s)
     | Some _ \<Rightarrow> Inl (''skills: '' @ key @ '' must be a string''))"

definition required_field :: "(string, meta) gomap \<Rightarrow> string \<Rightarrow> string + string" where
  "required_field raw key = (case map_of raw key of
       Some (MScalar (AnyString s)) \<Rightarrow> Inr s | _ \<Rightarrow> Inl (''skills: '' @ key @ '' must be a string''))"

definition non_nil :: "(string, meta) gomap \<Rightarrow> string \<Rightarrow> bool" where
  "non_nil raw key \<longleftrightarrow> map_of raw key \<noteq> None \<and> map_of raw key \<noteq> Some MNil"

definition allowed_tools_field :: "(string, meta) gomap \<Rightarrow> string + string option" where
  "allowed_tools_field raw = (if non_nil raw ''allowed-tools'' then string_field raw ''allowed-tools''
     else if non_nil raw ''allowed_tools'' then string_field raw ''allowed_tools'' else Inr None)"

definition or_empty :: "string option \<Rightarrow> string" where
  "or_empty s = (case s of None \<Rightarrow> [] | Some t \<Rightarrow> t)"

text \<open>\<open>yaml\<close> decodes into a map, \<open>None\<close> for a document without one.\<close>

definition parseFrontmatter :: "(string \<Rightarrow> string + (string, meta) gomap option) \<Rightarrow> string \<Rightarrow> string + frontmatter" where
  "parseFrontmatter yaml content = (case yaml content of
       Inl e \<Rightarrow> Inl (''skills: invalid YAML in frontmatter: '' @ e)
     | Inr None \<Rightarrow> Inl ''skills: frontmatter must be a mapping''
     | Inr (Some raw) \<Rightarrow>
         ebind (required_field raw ''name'') (\<lambda>name.
         ebind (required_field raw ''description'') (\<lambda>description.
         ebind (string_field raw ''license'') (\<lambda>license.
         ebind (string_field raw ''compatibility'') (\<lambda>compatibility.
         ebind (allowed_tools_field raw) (\<lambda>allowed.
         ebind (case map_of raw ''metadata'' of None \<Rightarrow> Inr None | Some v \<Rightarrow> normalizeMetadataMap v) (\<lambda>metadata.
         Inr \<lparr>fm_name = name, fm_description = description, fm_license = or_empty license,
              fm_compatibility = or_empty compatibility, fm_allowedTools = or_empty allowed,
              fm_metadata = metadata\<rparr>)))))))"

definition fs_ReadFile :: "filesystem \<Rightarrow> string \<Rightarrow> (string option) + string" where
  "fs_ReadFile fsys path = (case map_of (fs_files fsys) path of None \<Rightarrow> Inl None
     | Some data \<Rightarrow> (case fs_unreadable fsys path of Some e \<Rightarrow> Inl (Some e) | None \<Rightarrow> Inr data))"

definition readSkillMarkdown :: "filesystem \<Rightarrow> string \<Rightarrow> string + string" where
  "readSkillMarkdown fsys root = (case fs_ReadFile fsys (Path_Join [root, ''SKILL.md'']) of
       Inr data \<Rightarrow> Inr data
     | Inl (Some e) \<Rightarrow> Inl e
     | Inl None \<Rightarrow> (case fs_ReadFile fsys (Path_Join [root, ''skill.md'']) of
           Inr data \<Rightarrow> Inr data
         | Inl (Some e) \<Rightarrow> Inl e
         | Inl None \<Rightarrow> Inl ''skills: SKILL.md not found''))"

definition parseSkillMarkdown :: "(string \<Rightarrow> string + (string, meta) gomap option) \<Rightarrow> filesystem \<Rightarrow> string \<Rightarrow>
    string + frontmatter \<times> string" where
  "parseSkillMarkdown yaml fsys root =
     ebind (readSkillMarkdown fsys root) (\<lambda>skillMD.
     ebind (splitFrontmatterBlock skillMD) (\<lambda>(content, body).
     ebind (parseFrontmatter yaml content) (\<lambda>f.
     echeck (fm_Validate f) (Inr (f, TrimSpace body)))))"

text \<open>\<open>loadDirFiles\<close> and \<open>loadDirBinaryFiles\<close>: the files below a directory by their path in it; a
  directory that does not exist has none.\<close>

definition loadDirFiles :: "filesystem \<Rightarrow> string \<Rightarrow> string + (string, string) gomap" where
  "loadDirFiles fsys dir =
     map_err (\<lambda>(path, data). case fs_unreadable fsys path of
         Some e \<Rightarrow> Inl e | None \<Rightarrow> Inr (TrimPrefix path (dir @ [slash]), data))
       (filter (\<lambda>(path, _). path = dir \<or> HasPrefix path (dir @ [slash])) (fs_files fsys))"

definition loadFS :: "(string \<Rightarrow> string + (string, meta) gomap option) \<Rightarrow> filesystem \<Rightarrow> string \<Rightarrow> string + skill" where
  "loadFS yaml fsys root =
     ebind (parseSkillMarkdown yaml fsys root) (\<lambda>(f, body).
     ebind (loadDirFiles fsys (Path_Join [root, ''references''])) (\<lambda>references.
     ebind (loadDirFiles fsys (Path_Join [root, ''assets''])) (\<lambda>assets.
     ebind (loadDirFiles fsys (Path_Join [root, ''scripts''])) (\<lambda>scripts.
     Inr (staticSkill f body \<lparr>res_references = references, res_assets = assets, res_scripts = scripts\<rparr>)))))"

definition isNestedInSkillResourceDir :: "string \<Rightarrow> string list \<Rightarrow> bool" where
  "isNestedInSkillResourceDir candidate skillRoots =
     list_ex (\<lambda>root. list_ex (\<lambda>subdir. let resourceRoot = Clean (Path_Join [root, subdir]) in
        candidate = resourceRoot \<or> HasPrefix candidate (resourceRoot @ [slash]))
        [''references'', ''assets'', ''scripts'']) skillRoots"

fun outer_roots :: "string list \<Rightarrow> string list \<Rightarrow> string list" where
  "outer_roots out [] = out"
| "outer_roots out (root # roots) =
     (if isNestedInSkillResourceDir root out then outer_roots out roots else outer_roots (out @ [root]) roots)"

definition detectSkillRoots :: "filesystem \<Rightarrow> string + string list" where
  "detectSkillRoots fsys = (case fs_walk_error fsys of Some e \<Rightarrow> Inl e
     | None \<Rightarrow> Inr (outer_roots [] (sort (remdups
         (map (\<lambda>(path, _). Dir path) (filter (\<lambda>(path, _). path_file path \<in> {''SKILL.md'', ''skill.md''}) (fs_files fsys)))))))"

definition expectedSkillDirName :: "string \<Rightarrow> string \<Rightarrow> string option" where
  "expectedSkillDirName root dotRootName = (if root = ''.'' then
     (if dotRootName = [] \<or> dotRootName = ''.'' then None else Some dotRootName) else Some (Base root))"

definition validateSkillRootName :: "string \<Rightarrow> string \<Rightarrow> string \<Rightarrow> string option" where
  "validateSkillRootName root dotRootName skillName = (case expectedSkillDirName root dotRootName of None \<Rightarrow> None
     | Some expected \<Rightarrow> fail_if (expected \<noteq> skillName)
         (''skills: skill name '' @ Quote skillName @ '' does not match directory name '' @ Quote expected))"

definition load_root :: "(string \<Rightarrow> string + (string, meta) gomap option) \<Rightarrow> filesystem \<Rightarrow> string \<Rightarrow> string + skill" where
  "load_root yaml fsys root = (case ebind (loadFS yaml fsys root) (\<lambda>s.
        echeck (validateSkillRootName root [] (sk_name s)) (Inr s)) of
       Inl e \<Rightarrow> Inl (''skills: load '' @ Quote root @ '': '' @ e) | Inr s \<Rightarrow> Inr s)"

fun load_roots :: "(string \<Rightarrow> string + (string, meta) gomap option) \<Rightarrow> filesystem \<Rightarrow> (string \<rightharpoonup> string) \<Rightarrow>
    string list \<Rightarrow> string + skill list" where
  "load_roots yaml fsys nameToRoot [] = Inr []"
| "load_roots yaml fsys nameToRoot (root # roots) =
     ebind (load_root yaml fsys root) (\<lambda>s.
     echeck (case nameToRoot (sk_name s) of None \<Rightarrow> None
       | Some prev \<Rightarrow> Some (''skills: duplicate skill name '' @ Quote (sk_name s) @ '' in '' @ Quote prev @ '' and '' @ Quote root))
     (ebind (load_roots yaml fsys (nameToRoot(sk_name s \<mapsto> root)) roots) (\<lambda>out. Inr (s # out))))"

definition loadAllFS :: "(string \<Rightarrow> string + (string, meta) gomap option) \<Rightarrow> filesystem \<Rightarrow> string + skill list" where
  "loadAllFS yaml fsys = ebind (detectSkillRoots fsys) (\<lambda>roots.
     echeck (fail_if (roots = []) ''skills: SKILL.md not found'') (load_roots yaml fsys Map.empty (sort roots)))"

text \<open>\<open>base_name\<close> is the last element of the absolute path of the directory.\<close>

definition ReadSkillFrontmatter :: "(string \<Rightarrow> string + (string, meta) gomap option) \<Rightarrow> filesystem \<Rightarrow> string \<Rightarrow>
    string + frontmatter" where
  "ReadSkillFrontmatter yaml fsys base_name = ebind (parseSkillMarkdown yaml fsys ''.'') (\<lambda>(f, _).
     echeck (validateSkillRootName ''.'' base_name (fm_name f)) (Inr f))"

end
