(* ===== verification/Skill_Tools.thy ===== *)
theory Skill_Tools
  imports Skills
begin

text \<open>
  The tool set of package \<open>skills\<close> (\<open>src/skills/toolset.go\<close>): allowed-tools patterns, the four tools,
  the normalisation of resource paths, the temporary workspace of a script and its execution. The
  JSON codec, the file system and the processes are arguments; the outside \<open>'p\<close> is what the file
  system and the processes change.
\<close>

section \<open>Paths\<close>

definition hasWindowsVolumePrefix :: "string \<Rightarrow> bool" where
  "hasWindowsVolumePrefix p = (case p of
       a # b # _ \<Rightarrow> (let n = of_char a :: nat in (97 \<le> n \<and> n \<le> 122 \<or> 65 \<le> n \<and> n \<le> 90) \<and> b = CHR '':'')
     | _ \<Rightarrow> False)"

definition isInvalidSkillRelativePath :: "string \<Rightarrow> bool" where
  "isInvalidSkillRelativePath clean \<longleftrightarrow> clean = [] \<or> clean = ''.'' \<or> clean = ''..'' \<or> HasPrefix clean ''../'' \<or>
     IsAbs clean \<or> hasWindowsVolumePrefix clean"

text \<open>\<open>None\<close> is the error.\<close>

definition normalizeSkillRelativePath :: "string \<Rightarrow> string option" where
  "normalizeSkillRelativePath rel =
     (let clean = Clean (replace_char (CHR 0x5C) slash (TrimSpace rel)) in
      if isInvalidSkillRelativePath clean then None else Some clean)"

definition resource_prefixes :: "string list" where
  "resource_prefixes = [''references'', ''assets'', ''scripts'']"

definition normalizeResourcePath :: "string \<Rightarrow> (string \<times> string) option" where
  "normalizeResourcePath resourcePath =
     (let p = replace_char (CHR 0x5C) slash (TrimSpace resourcePath) in
      case find (\<lambda>d. HasPrefix p (d @ [slash])) resource_prefixes of
        None \<Rightarrow> None
      | Some d \<Rightarrow> (case normalizeSkillRelativePath (TrimPrefix p (d @ [slash])) of
            None \<Rightarrow> None | Some name \<Rightarrow> Some (d, name)))"

definition normalizeScriptPath :: "string \<Rightarrow> (string \<times> string) option" where
  "normalizeScriptPath scriptPath =
     (let p = TrimPrefix (replace_char (CHR 0x5C) slash (TrimSpace scriptPath)) ''scripts/'' in
      case normalizeSkillRelativePath p of None \<Rightarrow> None
      | Some clean \<Rightarrow> Some (clean, Path_Join [''scripts'', clean]))"

section \<open>The outside\<close>

datatype json = JString string | JInt int | JStrings "string list" | JMeta "(string \<times> meta) list" | JObject "(string \<times> json) list"

text \<open>A command to run, and how a run ends: the exit code of a process that ran, or the error that
  kept it from running.\<close>

record command =
  cmd_name :: string
  cmd_args :: "string list"
  cmd_dir :: string
  cmd_env :: "string list"
  cmd_timeout :: int

datatype run_end = Succeeded | TimedOut | Exited int | NotStarted string

record run_request =
  rq_skill :: string
  rq_script :: string
  rq_args :: "string list"
  rq_env :: "(string, string) gomap"
  rq_timeout :: int

record 'p skill_env =
  k_marshal :: "json \<Rightarrow> string option"
  k_decode_name :: "string \<Rightarrow> string + string"
  k_decode_resource :: "string \<Rightarrow> string + string \<times> string"
  k_decode_run :: "string \<Rightarrow> string + run_request"
  k_mktemp :: "'p \<Rightarrow> (string + string) \<times> 'p"
  k_mkdir :: "string \<Rightarrow> 'p \<Rightarrow> string option \<times> 'p"
  k_write :: "string \<Rightarrow> string \<Rightarrow> nat \<Rightarrow> 'p \<Rightarrow> string option \<times> 'p"
  k_remove :: "string \<Rightarrow> 'p \<Rightarrow> 'p"
  k_environ :: "string list"
  k_exec :: "command \<Rightarrow> 'p \<Rightarrow> (run_end \<times> string \<times> string) \<times> 'p"

section \<open>The tool set\<close>

abbreviation ToolListSkillsName :: string where "ToolListSkillsName \<equiv> ''list_skills''"
abbreviation ToolLoadSkillName :: string where "ToolLoadSkillName \<equiv> ''load_skill''"
abbreviation ToolLoadSkillResourceName :: string where "ToolLoadSkillResourceName \<equiv> ''load_skill_resource''"
abbreviation ToolRunSkillScriptName :: string where "ToolRunSkillScriptName \<equiv> ''run_skill_script''"

definition isCoreToolName :: "string \<Rightarrow> bool" where
  "isCoreToolName name \<longleftrightarrow>
     name \<in> {ToolListSkillsName, ToolLoadSkillName, ToolLoadSkillResourceName, ToolRunSkillScriptName}"

record skillEntry =
  en_skill :: skill
  en_frontmatter :: frontmatter
  en_resources :: resources

record toolset =
  ts_skills :: "skill list"
  ts_byName :: "(string, skillEntry) gomap"
  ts_patterns :: "string list"
  ts_instruction :: string

definition splitAllowedToolPatterns :: "string \<Rightarrow> string list" where
  "splitAllowedToolPatterns raw =
     filter (\<lambda>item. item \<noteq> []) (map TrimSpace (FieldsFunc (\<lambda>c. c = CHR '','' \<or> is_space c) raw))"

definition resolveFrontmatter :: "skill \<Rightarrow> string + frontmatter" where
  "resolveFrontmatter s =
     (let f = \<lparr>fm_name = sk_name s, fm_description = sk_description s, fm_license = [], fm_compatibility = [],
               fm_allowedTools = [], fm_metadata = None\<rparr>
      in case sk_frontmatter s of None \<Rightarrow> Inr f
         | Some p \<Rightarrow> (let f' = f\<lparr>fm_license := fm_license p, fm_compatibility := fm_compatibility p,
                                 fm_allowedTools := fm_allowedTools p\<rparr>
             in case fm_metadata p of
                  None \<Rightarrow> Inr f'
                | Some [] \<Rightarrow> Inr f'
                | Some m \<Rightarrow> ebind (normalizeMetadataMap (MMap m)) (\<lambda>md. Inr (f'\<lparr>fm_metadata := md\<rparr>))))"

definition resolveResources :: "skill \<Rightarrow> resources" where
  "resolveResources s = (case sk_resources s of None \<Rightarrow> no_resources | Some r \<Rightarrow> r)"

text \<open>The loop of \<open>NewToolset\<close> over the skills, nil ones skipped.\<close>

fun add_skills :: "skill list \<Rightarrow> (string, skillEntry) gomap \<Rightarrow> skill option list \<Rightarrow>
    string + skill list \<times> (string, skillEntry) gomap" where
  "add_skills sks m [] = Inr (sks, m)"
| "add_skills sks m (None # rest) = add_skills sks m rest"
| "add_skills sks m (Some s # rest) =
     ebind (resolveFrontmatter s) (\<lambda>f.
     echeck (fm_Validate f) (
     echeck (fail_if (map_of m (sk_name s) \<noteq> None) (''skills: duplicate skill name '' @ Quote (sk_name s)))
     (add_skills (sks @ [s])
        (m @ [(sk_name s, \<lparr>en_skill = s, en_frontmatter = f, en_resources = resolveResources s\<rparr>)]) rest)))"

text \<open>The loop over the patterns of all skills, each kept once.\<close>

fun add_patterns :: "string list \<Rightarrow> (string \<times> string) list \<Rightarrow> string + string list" where
  "add_patterns seen [] = Inr seen"
| "add_patterns seen ((pattern, owner) # rest) =
     (if Match pattern ''tool-name'' = None
      then Inl (''skills: invalid allowed-tools pattern '' @ Quote pattern @ '' in skill '' @ Quote owner @
        '': syntax error in pattern'')
      else if pattern \<in> set seen then add_patterns seen rest
      else add_patterns (seen @ [pattern]) rest)"

definition entry_patterns :: "string \<times> skillEntry \<Rightarrow> (string \<times> string) list" where
  "entry_patterns e = map (\<lambda>p. (p, sk_name (en_skill (snd e)))) (splitAllowedToolPatterns (fm_allowedTools (en_frontmatter (snd e))))"

text \<open>\<open>header\<close> is \<open>DefaultSystemInstruction\<close>.\<close>

definition NewToolset :: "string \<Rightarrow> skill option list \<Rightarrow> string + toolset" where
  "NewToolset header skills =
     ebind (add_skills [] [] skills) (\<lambda>(sks, byName).
     ebind (add_patterns [] (concat (map entry_patterns byName))) (\<lambda>patterns.
     Inr \<lparr>ts_skills = sks, ts_byName = byName, ts_patterns = sort patterns,
          ts_instruction = Join [header, FormatSkillsAsXML (map Some sks)] [newline, newline]\<rparr>))"

definition matchesAllowedPattern :: "string \<Rightarrow> string list \<Rightarrow> bool" where
  "matchesAllowedPattern toolName patterns = list_ex (\<lambda>p. Match p toolName = Some True) patterns"

definition ComposeTools :: "toolset \<Rightarrow> 'p tool list \<Rightarrow> 'p tool list \<Rightarrow> 'p tool list" where
  "ComposeTools ts skill_tools base =
     (let out = base @ skill_tools in
      if ts_patterns ts = [] then out
      else filter (\<lambda>t. isCoreToolName (t_name t) \<or> matchesAllowedPattern (t_name t) (ts_patterns ts)) out)"

section \<open>Answers\<close>

definition mustJSON :: "'p skill_env \<Rightarrow> (string \<times> json) list \<Rightarrow> string" where
  "mustJSON env v = (case k_marshal env (JObject v) of Some b \<Rightarrow> b
     | None \<Rightarrow> ''{'' @ Join [Quote ''error'' @ '':'' @ Quote ''failed to marshal response'',
                             Quote ''error_code'' @ '':'' @ Quote ''INTERNAL_ERROR''] '','' @ ''}'')"

definition error_reply :: "'p skill_env \<Rightarrow> string \<Rightarrow> string \<Rightarrow> string" where
  "error_reply env err code = mustJSON env [(''error'', JString err), (''error_code'', JString code)]"

definition skillNotFound :: "'p skill_env \<Rightarrow> string \<Rightarrow> string" where
  "skillNotFound env name = error_reply env (''Skill '' @ Quote name @ '' not found.'') ''SKILL_NOT_FOUND''"

definition invalidArgs :: "'p skill_env \<Rightarrow> string \<Rightarrow> string" where
  "invalidArgs env msg = error_reply env msg ''INVALID_ARGUMENTS''"

definition field_if :: "string \<Rightarrow> string \<Rightarrow> (string \<times> json) list" where
  "field_if key v = (if v = [] then [] else [(key, JString v)])"

definition toFrontmatterMap :: "frontmatter \<Rightarrow> (string \<times> json) list" where
  "toFrontmatterMap f = [(''name'', JString (fm_name f)), (''description'', JString (fm_description f))] @
     field_if ''license'' (fm_license f) @ field_if ''compatibility'' (fm_compatibility f) @
     field_if ''allowed-tools'' (fm_allowedTools f) @
     (case fm_metadata f of None \<Rightarrow> [] | Some [] \<Rightarrow> [] | Some m \<Rightarrow> [(''metadata'', JMeta m)])"

section \<open>Reading skills\<close>

definition list_skills_Handle :: "toolset \<Rightarrow> string" where
  "list_skills_Handle ts = FormatSkillsAsXML (map Some (ts_skills ts))"

definition load_skill_Handle :: "'p skill_env \<Rightarrow> toolset \<Rightarrow> string \<Rightarrow> string" where
  "load_skill_Handle env ts input = (case k_decode_name env input of
       Inl e \<Rightarrow> invalidArgs env (''Invalid tool arguments: '' @ e)
     | Inr name \<Rightarrow>
         (if name = [] then error_reply env ''Skill name is required.'' ''MISSING_SKILL_NAME''
          else case map_of (ts_byName ts) name of None \<Rightarrow> skillNotFound env name
          | Some e \<Rightarrow> mustJSON env [(''skill_name'', JString (sk_name (en_skill e))),
              (''instructions'', JString (sk_instruction (en_skill e))),
              (''frontmatter'', JObject (toFrontmatterMap (en_frontmatter e)))]))"

definition resource_of :: "resources \<Rightarrow> string \<Rightarrow> string \<Rightarrow> string option" where
  "resource_of r type name = (if type = ''references'' then GetReference r name
     else if type = ''assets'' then GetAsset r name else GetScript r name)"

definition load_resource_Handle :: "'p skill_env \<Rightarrow> toolset \<Rightarrow> string \<Rightarrow> string" where
  "load_resource_Handle env ts input = (case k_decode_resource env input of
       Inl e \<Rightarrow> invalidArgs env (''Invalid tool arguments: '' @ e)
     | Inr (skillName, path) \<Rightarrow>
         (if skillName = [] then error_reply env ''Skill name is required.'' ''MISSING_SKILL_NAME''
          else if path = [] then error_reply env ''Resource path is required.'' ''MISSING_RESOURCE_PATH''
          else case map_of (ts_byName ts) skillName of None \<Rightarrow> skillNotFound env skillName
          | Some e \<Rightarrow> (case normalizeResourcePath path of
                None \<Rightarrow> error_reply env
                  (''Path must start with 'references/', 'assets/', or 'scripts/' and remain within that directory.'')
                  ''INVALID_RESOURCE_PATH''
              | Some (type, name) \<Rightarrow> (case resource_of (en_resources e) type name of
                    None \<Rightarrow> error_reply env (''Resource '' @ Quote path @ '' not found in skill '' @ Quote skillName @ ''.'')
                      ''RESOURCE_NOT_FOUND''
                  | Some raw \<Rightarrow> mustJSON env [(''skill_name'', JString skillName), (''path'', JString path),
                      (''encoding'', JString ''base64''), (''content_base64'', JString (base64 raw))]))))"

section \<open>Running scripts\<close>

definition writeWorkspaceFile :: "'p skill_env \<Rightarrow> string \<Rightarrow> string \<Rightarrow> string \<Rightarrow> string \<Rightarrow> nat \<Rightarrow> 'p \<Rightarrow>
    string option \<times> 'p" where
  "writeWorkspaceFile env root dir rel content mode p = (case normalizeSkillRelativePath rel of
       None \<Rightarrow> (Some (''invalid file path '' @ Quote rel), p)
     | Some clean \<Rightarrow>
         (let baseDir = Path_Join [root, dir]; targetPath = Path_Join [baseDir, clean] in
          case Rel baseDir targetPath of
            None \<Rightarrow> (Some (''Rel: can't make '' @ targetPath @ '' relative to '' @ baseDir), p)
          | Some relToBase \<Rightarrow>
              (if relToBase = ''..'' \<or> HasPrefix relToBase ''../'' then (Some (''invalid file path '' @ Quote rel), p)
               else case k_mkdir env (Dir targetPath) p of
                   (Some e, p1) \<Rightarrow> (Some e, p1)
                 | (None, p1) \<Rightarrow> k_write env targetPath content mode p1)))"

fun write_files :: "'p skill_env \<Rightarrow> string \<Rightarrow> string \<Rightarrow> nat \<Rightarrow> (string, string) gomap \<Rightarrow> 'p \<Rightarrow> string option \<times> 'p" where
  "write_files env root dir mode [] p = (None, p)"
| "write_files env root dir mode ((rel, content) # files) p =
     (case writeWorkspaceFile env root dir rel content mode p of
        (Some e, p1) \<Rightarrow> (Some e, p1) | (None, p1) \<Rightarrow> write_files env root dir mode files p1)"

text \<open>Mode \<open>0o644\<close> is 420, mode \<open>0o755\<close> is 493.\<close>

definition materializeSkillWorkspace :: "'p skill_env \<Rightarrow> string \<Rightarrow> resources \<Rightarrow> 'p \<Rightarrow> string option \<times> 'p" where
  "materializeSkillWorkspace env root r p =
     (case write_files env root ''references'' 420 (res_references r) p of
        (Some e, p1) \<Rightarrow> (Some e, p1)
      | (None, p1) \<Rightarrow> (case write_files env root ''assets'' 420 (res_assets r) p1 of
            (Some e, p2) \<Rightarrow> (Some e, p2)
          | (None, p2) \<Rightarrow> write_files env root ''scripts'' 493 (res_scripts r) p2))"

definition env_key :: "string \<Rightarrow> string" where
  "env_key item = takeWhile (\<lambda>c. c \<noteq> CHR ''='') item"

definition mergeCommandEnv :: "string list \<Rightarrow> (string, string) gomap \<Rightarrow> string list" where
  "mergeCommandEnv base overrides =
     (if overrides = [] then base
      else filter (\<lambda>item. map_of overrides (env_key item) = None) base @
        map (\<lambda>key. key @ ''='' @ the (map_of overrides key)) (sort (map fst overrides)))"

definition script_command :: "'p skill_env \<Rightarrow> string \<Rightarrow> string \<Rightarrow> string list \<Rightarrow> (string, string) gomap \<Rightarrow> int \<Rightarrow> command" where
  "script_command env tmpRoot scriptPath args overrides timeoutSeconds =
     (let ext = ToLower (Ext scriptPath);
          base = \<lparr>cmd_name = scriptPath, cmd_args = args, cmd_dir = tmpRoot,
                  cmd_env = mergeCommandEnv (k_environ env) overrides, cmd_timeout = timeoutSeconds\<rparr>
      in if ext = ''.py'' then base\<lparr>cmd_name := ''python3'', cmd_args := scriptPath # args\<rparr>
         else if ext = ''.sh'' \<or> ext = ''.bash'' then base\<lparr>cmd_name := ''bash'', cmd_args := scriptPath # args\<rparr>
         else base)"

definition executeSkillScript :: "'p skill_env \<Rightarrow> string \<Rightarrow> string \<Rightarrow> string \<Rightarrow> string list \<Rightarrow> (string, string) gomap \<Rightarrow>
    int \<Rightarrow> 'p \<Rightarrow> string \<times> 'p" where
  "executeSkillScript env tmpRoot skillName scriptPath args overrides timeoutSeconds p =
     (case k_exec env (script_command env tmpRoot scriptPath args overrides timeoutSeconds) p of
        ((how, stdout, stderr), p') \<Rightarrow>
          (let report = (\<lambda>exitCode status. mustJSON env
                 [(''skill_name'', JString skillName), (''script_path'', JString scriptPath), (''args'', JStrings args),
                  (''stdout'', JString stdout), (''stderr'', JString stderr), (''exit_code'', JInt exitCode),
                  (''status'', JString status)])
           in (case how of
                 Succeeded \<Rightarrow> report 0 ''success''
               | TimedOut \<Rightarrow> report (-1) ''timeout''
               | Exited n \<Rightarrow> report n ''error''
               | NotStarted e \<Rightarrow> error_reply env (''Failed to execute script '' @ Quote scriptPath @ '': '' @ e) ''EXECUTION_ERROR'',
               p')))"

definition bad_env :: "(string, string) gomap \<Rightarrow> bool" where
  "bad_env overrides = list_ex (\<lambda>(key, v). key = [] \<or> CHR ''='' \<in> set key \<or> CHR 0x00 \<in> set key \<or> CHR 0x00 \<in> set v) overrides"

text \<open>What precedes the workspace: the error answer, or the script, its path and the timeout.\<close>

definition check_run :: "'p skill_env \<Rightarrow> toolset \<Rightarrow> run_request \<Rightarrow> string + resources \<times> string \<times> int" where
  "check_run env ts rq =
     (if rq_skill rq = [] then Inl (error_reply env ''Skill name is required.'' ''MISSING_SKILL_NAME'')
      else if rq_script rq = [] then Inl (error_reply env ''Script path is required.'' ''MISSING_SCRIPT_PATH'')
      else case map_of (ts_byName ts) (rq_skill rq) of None \<Rightarrow> Inl (skillNotFound env (rq_skill rq))
      | Some e \<Rightarrow> (case normalizeScriptPath (rq_script rq) of
            None \<Rightarrow> Inl (error_reply env ''script path must be a relative path under scripts/'' ''INVALID_SCRIPT_PATH'')
          | Some (scriptName, fullScriptPath) \<Rightarrow>
              (if GetScript (en_resources e) scriptName = None
               then Inl (error_reply env (''Script '' @ Quote fullScriptPath @ '' not found in skill '' @ Quote (rq_skill rq) @ ''.'')
                 ''SCRIPT_NOT_FOUND'')
               else let timeoutSeconds = (if rq_timeout rq = 0 then 300 else rq_timeout rq) in
                 if timeoutSeconds < 0 \<or> 1800 < timeoutSeconds
                 then Inl (error_reply env ''timeout_seconds must be between 1 and 1800.'' ''INVALID_TIMEOUT'')
                 else if bad_env (rq_env rq)
                 then Inl (error_reply env (''Environment variable names must be non-empty, must not contain '=', and '' @
                   ''keys/values must not contain NUL.'') ''INVALID_ENV'')
                 else Inr (en_resources e, fullScriptPath, timeoutSeconds))))"

text \<open>The workspace is removed however the run ends.\<close>

definition run_script_Handle :: "'p skill_env \<Rightarrow> toolset \<Rightarrow> string \<Rightarrow> 'p \<Rightarrow> string \<times> 'p" where
  "run_script_Handle env ts input p = (case k_decode_run env input of
       Inl e \<Rightarrow> (invalidArgs env (''Invalid tool arguments: '' @ e), p)
     | Inr rq \<Rightarrow> (case check_run env ts rq of
           Inl reply \<Rightarrow> (reply, p)
         | Inr (res, fullScriptPath, timeoutSeconds) \<Rightarrow> (case k_mktemp env p of
               (Inl e, p1) \<Rightarrow> (error_reply env (''Failed to prepare skill workspace: '' @ e) ''WORKSPACE_ERROR'', p1)
             | (Inr tmpRoot, p1) \<Rightarrow> (case materializeSkillWorkspace env tmpRoot res p1 of
                   (Some e, p2) \<Rightarrow> (error_reply env (''Failed to materialize skill workspace: '' @ e) ''WORKSPACE_ERROR'',
                     k_remove env tmpRoot p2)
                 | (None, p2) \<Rightarrow> (case executeSkillScript env tmpRoot (rq_skill rq) fullScriptPath (rq_args rq) (rq_env rq)
                       timeoutSeconds p2 of (reply, p3) \<Rightarrow> (reply, k_remove env tmpRoot p3))))))"

definition toolset_tools :: "'p skill_env \<Rightarrow> toolset \<Rightarrow> 'p tool list" where
  "toolset_tools env ts =
     [\<lparr>t_name = ToolListSkillsName, t_handle = (\<lambda>_ input p. (Inr (list_skills_Handle ts), [], p))\<rparr>,
      \<lparr>t_name = ToolLoadSkillName, t_handle = (\<lambda>_ input p. (Inr (load_skill_Handle env ts input), [], p))\<rparr>,
      \<lparr>t_name = ToolLoadSkillResourceName, t_handle = (\<lambda>_ input p. (Inr (load_resource_Handle env ts input), [], p))\<rparr>,
      \<lparr>t_name = ToolRunSkillScriptName, t_handle = (\<lambda>_ input p.
         case run_script_Handle env ts input p of (reply, p') \<Rightarrow> (Inr reply, [], p'))\<rparr>]"

text \<open>What \<open>NewAgent\<close> makes of the skills of \<open>WithSkills\<close>: the instruction it prepends and the tools it
  composes.\<close>

definition WithSkills :: "'p skill_env \<Rightarrow> toolset \<Rightarrow> 'p agent \<Rightarrow> 'p agent" where
  "WithSkills env ts a = a\<lparr>a_skills := Some (ts_instruction ts, ComposeTools ts (toolset_tools env ts))\<rparr>"

end
