(* ===== verification/Session_Store.thy ===== *)
theory Session_Store
  imports Compressors
begin

text \<open>
  The session manager of the command line tool (\<open>src/cmd/blades/internal/session/session.go\<close>):
  sessions in memory, shared by pointer, and their JSON files. The directory is the map from the
  names of its entries to their contents; the identifiers of sessions are taken to be plain file
  names. \<open>encoding/json\<close> on the envelope, the clock and the failures of the file system are
  arguments; times are nanoseconds with 0 for Go's zero time.
\<close>

section \<open>The persisted envelope\<close>

record persistedPart =
  pp_type :: string
  pp_text :: string
  pp_name :: string
  pp_uri :: string
  pp_mime :: string
  pp_bytes :: string
  pp_id :: string
  pp_request :: string
  pp_response :: string
  pp_completed :: bool

record persistedMessage =
  pm_id :: string
  pm_role :: role
  pm_author :: string
  pm_invocationID :: string
  pm_status :: status
  pm_finishReason :: string
  pm_usage :: tokenUsage
  pm_actions :: "string \<rightharpoonup> anyval"
  pm_metadata :: "string \<rightharpoonup> anyval"
  pm_parts :: "persistedPart list"

record persistedSession =
  p_id :: string
  p_createdAt :: int
  p_lastAccessAt :: int
  p_state :: state
  p_history :: "persistedMessage list"

definition empty_part :: persistedPart where
  "empty_part = \<lparr>pp_type = [], pp_text = [], pp_name = [], pp_uri = [], pp_mime = [], pp_bytes = [],
     pp_id = [], pp_request = [], pp_response = [], pp_completed = False\<rparr>"

definition makePersistedPart :: "part \<Rightarrow> persistedPart" where
  "makePersistedPart p = (case p of
       TextPart t \<Rightarrow> empty_part\<lparr>pp_type := ''text'', pp_text := t\<rparr>
     | FilePart f \<Rightarrow> empty_part\<lparr>pp_type := ''file'', pp_name := file_name f, pp_uri := file_uri f, pp_mime := file_mime f\<rparr>
     | DataPart d \<Rightarrow> empty_part\<lparr>pp_type := ''data'', pp_name := data_name d, pp_bytes := data_bytes d, pp_mime := data_mime d\<rparr>
     | ToolPart t \<Rightarrow> empty_part\<lparr>pp_type := ''tool'', pp_id := tool_id t, pp_name := tool_name t,
         pp_request := tool_request t, pp_response := tool_response t, pp_completed := tool_completed t\<rparr>)"

definition makePersistedParts :: "part list \<Rightarrow> persistedPart list" where
  "makePersistedParts ps = map makePersistedPart ps"

definition makePersistedHistory :: "message list \<Rightarrow> persistedMessage list" where
  "makePersistedHistory history = map (\<lambda>m. \<lparr>pm_id = msg_id m, pm_role = role m, pm_author = author m,
     pm_invocationID = invocationID m, pm_status = status m, pm_finishReason = finishReason m,
     pm_usage = usage m, pm_actions = actions m, pm_metadata = metadata m,
     pm_parts = makePersistedParts (parts m)\<rparr>) history"

definition restorePart :: "persistedPart \<Rightarrow> string + part" where
  "restorePart p =
     (if pp_type p = ''text'' then Inr (TextPart (pp_text p))
      else if pp_type p = ''file'' then
        Inr (FilePart \<lparr>file_name = pp_name p, file_uri = pp_uri p, file_mime = pp_mime p\<rparr>)
      else if pp_type p = ''data'' then
        Inr (DataPart \<lparr>data_name = pp_name p, data_bytes = pp_bytes p, data_mime = pp_mime p\<rparr>)
      else if pp_type p = ''tool'' then
        Inr (ToolPart \<lparr>tool_id = pp_id p, tool_name = pp_name p, tool_request = pp_request p,
          tool_response = pp_response p, tool_completed = pp_completed p\<rparr>)
      else Inl (''unknown message part type '' @ Quote (pp_type p)))"

definition restoreParts :: "persistedPart list \<Rightarrow> string + part list" where
  "restoreParts ps = map_err restorePart ps"

definition restoreHistory :: "persistedMessage list \<Rightarrow> string + message list" where
  "restoreHistory history = map_err (\<lambda>m. ebind (restoreParts (pm_parts m)) (\<lambda>ps. Inr
     \<lparr>msg_id = pm_id m, role = pm_role m, parts = ps, author = pm_author m, invocationID = pm_invocationID m,
      status = pm_status m, finishReason = pm_finishReason m, usage = pm_usage m, actions = pm_actions m,
      metadata = pm_metadata m\<rparr>)) history"

section \<open>Managed sessions\<close>

record managedSession =
  ms_id :: string
  ms_base :: session
  ms_rawHistory :: "message list"

text \<open>\<open>Append\<close> of the base session does not fail.\<close>

definition managed_Append :: "message \<Rightarrow> managedSession \<Rightarrow> managedSession" where
  "managed_Append m s = s\<lparr>ms_base := Append m (ms_base s), ms_rawHistory := ms_rawHistory s @ [m]\<rparr>"

definition managed_SetState :: "string \<Rightarrow> anyval \<Rightarrow> managedSession \<Rightarrow> managedSession" where
  "managed_SetState key value s = s\<lparr>ms_base := SetState key value (ms_base s)\<rparr>"

definition managed_State :: "managedSession \<Rightarrow> state" where
  "managed_State s = sess_state (ms_base s)"

definition managed_History :: "managedSession \<Rightarrow> (string + message list) \<times> managedSession" where
  "managed_History s = (case History (ms_base s) of (r, b) \<Rightarrow> (r, s\<lparr>ms_base := b\<rparr>))"

text \<open>The order in which the loop visits the state does not matter: it sets distinct keys.\<close>

definition newManagedSession :: "string \<Rightarrow> state \<Rightarrow> message list \<Rightarrow> (session \<Rightarrow> session) list \<Rightarrow> managedSession" where
  "newManagedSession i st history opts =
     (let base = NewSession opts;
          base1 = base\<lparr>sess_state := sess_state base ++ st\<rparr>
      in \<lparr>ms_id = i, ms_base = fold Append history base1, ms_rawHistory = history\<rparr>)"

section \<open>The manager\<close>

text \<open>The outside: \<open>Marshal\<close> and \<open>Unmarshal\<close> of the envelope, and the errors of the file system;
  a failed write leaves the contents it gives, or none.\<close>

record session_env =
  se_marshal :: "persistedSession \<Rightarrow> string option"
  se_unmarshal :: "string \<Rightarrow> persistedSession option"
  se_mkdir_error :: "string option"
  se_read_error :: "string \<Rightarrow> string option"
  se_write_error :: "string \<Rightarrow> (string \<times> string option) option"
  se_remove_error :: "string \<Rightarrow> string option"
  se_readdir_error :: "string option"

text \<open>\<open>mg_files\<close> is \<open>None\<close> while the directory does not exist, else its files by name; the loops skip
  subdirectories, which are left out.\<close>

record manager =
  mg_dir :: string
  mg_sessions :: "string \<rightharpoonup> nat"
  mg_opts :: "(session \<Rightarrow> session) list"
  mg_heap :: "nat \<Rightarrow> managedSession"
  mg_next :: nat
  mg_files :: "(string, string) gomap option"

definition NewManager :: "string \<Rightarrow> (session \<Rightarrow> session) option list \<Rightarrow> (nat \<Rightarrow> managedSession) \<Rightarrow> nat \<Rightarrow>
    (string, string) gomap option \<Rightarrow> manager" where
  "NewManager dir opts heap next files = \<lparr>mg_dir = dir, mg_sessions = Map.empty,
     mg_opts = map the (filter (\<lambda>opt. opt \<noteq> None) opts), mg_heap = heap, mg_next = next, mg_files = files\<rparr>"

definition file_name_of :: "string \<Rightarrow> string" where
  "file_name_of i = i @ ''.json''"

datatype read_error = NotExist | ReadFailed string

definition read_file :: "session_env \<Rightarrow> manager \<Rightarrow> string \<Rightarrow> read_error + string" where
  "read_file env m name = (case (case mg_files m of None \<Rightarrow> None | Some fs \<Rightarrow> map_of fs name) of
       None \<Rightarrow> Inl NotExist
     | Some data \<Rightarrow> (case se_read_error env name of Some e \<Rightarrow> Inl (ReadFailed e) | None \<Rightarrow> Inr data))"

definition loadFromDisk :: "session_env \<Rightarrow> manager \<Rightarrow> string \<Rightarrow> read_error + managedSession" where
  "loadFromDisk env m i = ebind (read_file env m (file_name_of i)) (\<lambda>data.
     case se_unmarshal env data of
       None \<Rightarrow> Inl (ReadFailed (''session: unmarshal '' @ i))
     | Some ps \<Rightarrow> (case restoreHistory (p_history ps) of
           Inl e \<Rightarrow> Inl (ReadFailed (''session: decode history '' @ i @ '': '' @ e))
         | Inr history \<Rightarrow> Inr (newManagedSession i (p_state ps) history (mg_opts m))))"

definition remember :: "string \<Rightarrow> managedSession \<Rightarrow> manager \<Rightarrow> nat \<times> manager" where
  "remember i s m = (mg_next m, m\<lparr>mg_sessions := (mg_sessions m)(i \<mapsto> mg_next m),
     mg_heap := (mg_heap m)(mg_next m := s), mg_next := Suc (mg_next m)\<rparr>)"

definition Get :: "session_env \<Rightarrow> string \<Rightarrow> manager \<Rightarrow> (string + nat) \<times> manager" where
  "Get env i m = (case mg_sessions m i of
       Some r \<Rightarrow> (Inr r, m)
     | None \<Rightarrow> (case loadFromDisk env m i of
           Inl (ReadFailed e) \<Rightarrow> (Inl e, m)
         | Inl NotExist \<Rightarrow> (case remember i (newManagedSession i Map.empty [] (mg_opts m)) m of (r, m') \<Rightarrow> (Inr r, m'))
         | Inr s \<Rightarrow> (case remember i s m of (r, m') \<Rightarrow> (Inr r, m'))))"

text \<open>\<open>GetOrNew\<close> drops the error, and then returns a nil session.\<close>

definition GetOrNew :: "session_env \<Rightarrow> string \<Rightarrow> manager \<Rightarrow> nat option \<times> manager" where
  "GetOrNew env i m = (case Get env i m of (Inl _, m') \<Rightarrow> (None, m') | (Inr r, m') \<Rightarrow> (Some r, m'))"

definition existing_createdAt :: "session_env \<Rightarrow> manager \<Rightarrow> string \<Rightarrow> int" where
  "existing_createdAt env m name = (case read_file env m name of
       Inl _ \<Rightarrow> 0
     | Inr data \<Rightarrow> (case se_unmarshal env data of None \<Rightarrow> 0 | Some ps \<Rightarrow> p_createdAt ps))"

definition historyForPersistence :: "managedSession \<Rightarrow> message list" where
  "historyForPersistence s = ms_rawHistory s"

text \<open>The envelope \<open>Save\<close> writes; \<open>created\<close> is that of the file, or zero.\<close>

definition envelope :: "int \<Rightarrow> int \<Rightarrow> managedSession \<Rightarrow> persistedSession" where
  "envelope now created sess = \<lparr>p_id = ms_id sess, p_createdAt = (if created = 0 then now else created),
     p_lastAccessAt = now, p_state = managed_State sess,
     p_history = makePersistedHistory (historyForPersistence sess)\<rparr>"

definition Save :: "session_env \<Rightarrow> int \<Rightarrow> nat \<Rightarrow> manager \<Rightarrow> string option \<times> manager" where
  "Save env now r m =
     (if mg_dir m = [] then (None, m)
      else case se_mkdir_error env of Some e \<Rightarrow> (Some (''session: mkdir: '' @ e), m)
      | None \<Rightarrow>
          (let m1 = m\<lparr>mg_files := Some (case mg_files m of None \<Rightarrow> [] | Some fs \<Rightarrow> fs)\<rparr>;
               sess = mg_heap m r;
               name = file_name_of (ms_id sess);
               ps = envelope now (existing_createdAt env m1 name) sess;
               write = (\<lambda>data. m1\<lparr>mg_files := Some (AList.update name data (the (mg_files m1)))\<rparr>)
           in case se_marshal env ps of
                None \<Rightarrow> (Some ''session: marshal'', m1)
              | Some data \<Rightarrow> (case se_write_error env name of
                    None \<Rightarrow> (None, write data)
                  | Some (e, left) \<Rightarrow> (Some e, case left of None \<Rightarrow> m1 | Some d \<Rightarrow> write d))))"

record sessionInfo =
  si_id :: string
  si_createdAt :: int
  si_lastAccessAt :: int

text \<open>\<open>sort.Slice\<close> leaves the order of sessions accessed at the same instant open; here they stay in
  the order of their names.\<close>

definition sortSessionInfosByLastAccess :: "sessionInfo list \<Rightarrow> sessionInfo list" where
  "sortSessionInfosByLastAccess infos = sort_key (\<lambda>i. - si_lastAccessAt i) infos"

definition info_of :: "session_env \<Rightarrow> manager \<Rightarrow> string \<Rightarrow> sessionInfo list" where
  "info_of env m name =
     (if \<not> HasSuffix name ''.json'' then []
      else case read_file env m name of
        Inl _ \<Rightarrow> []
      | Inr data \<Rightarrow> (case se_unmarshal env data of None \<Rightarrow> []
          | Some ps \<Rightarrow> [\<lparr>si_id = TrimSuffix name ''.json'', si_createdAt = p_createdAt ps,
                         si_lastAccessAt = p_lastAccessAt ps\<rparr>]))"

definition Manager_List :: "session_env \<Rightarrow> manager \<Rightarrow> string + sessionInfo list" where
  "Manager_List env m =
     (if mg_dir m = [] then Inr []
      else case mg_files m of None \<Rightarrow> Inr []
      | Some fs \<Rightarrow> (case se_readdir_error env of Some e \<Rightarrow> Inl e
          | None \<Rightarrow> Inr (sortSessionInfosByLastAccess (concat (map (\<lambda>(name, _). info_of env m name) fs)))))"

definition Delete :: "session_env \<Rightarrow> string \<Rightarrow> manager \<Rightarrow> string option \<times> manager" where
  "Delete env i m =
     (if mg_dir m = [] then (None, m)
      else let m1 = m\<lparr>mg_sessions := (mg_sessions m)(i := None)\<rparr> in
        case mg_files m1 of None \<Rightarrow> (None, m1)
        | Some fs \<Rightarrow> (if map_of fs (file_name_of i) = None then (None, m1)
            else case se_remove_error env (file_name_of i) of Some e \<Rightarrow> (Some e, m1)
              | None \<Rightarrow> (None, m1\<lparr>mg_files := Some (AList.delete (file_name_of i) fs)\<rparr>)))"

text \<open>A caller's \<open>Append\<close> and \<open>SetState\<close> through the pointer it got.\<close>

definition append_through :: "nat \<Rightarrow> message \<Rightarrow> manager \<Rightarrow> manager" where
  "append_through r msg m = m\<lparr>mg_heap := (mg_heap m)(r := managed_Append msg (mg_heap m r))\<rparr>"

definition set_state_through :: "nat \<Rightarrow> string \<Rightarrow> anyval \<Rightarrow> manager \<Rightarrow> manager" where
  "set_state_through r key value m = m\<lparr>mg_heap := (mg_heap m)(r := managed_SetState key value (mg_heap m r))\<rparr>"

end
