(* ===== verification/App_Runner.thy ===== *)
theory App_Runner
  imports Recipe_Build Skill_Tools App_Config Tool_Base Session_Store
begin

text \<open>
  Building the agent of the command line program (\<open>cmd/blades/internal/app/runner.go\<close>): the default
  specification, the workspace's instruction, the registries of tools and middlewares, and the session
  manager. What lies outside is in \<open>app_env\<close>: the workspace's files, the loaders' decoders, the
  constructors of the providers, \<open>retry.Do\<close> and the cron tool.
\<close>

section \<open>The outside\<close>

record 'p app_env =
  ap_recipe :: recipe_env
  ap_files :: "'p file_env"
  ap_skillEnv :: "'p skill_env"
  ap_makers :: "'p provider option makers"
  ap_retry :: "int \<Rightarrow> 'p attempt \<Rightarrow> 'p attempt"
  ap_floatInt :: "string \<Rightarrow> int option"
  ap_cronTool :: "'p tool"
  ap_decodeExit :: "string \<Rightarrow> string + bool"
  ap_skillHeader :: string

text \<open>The workspace: its directory, \<open>AGENTS.md\<close> and \<open>agent.yaml\<close>, whether its skills directory exists, the
  number of entries read from it, and what loading the skills gives.\<close>

record app_workspace =
  wk_dir :: string
  wk_sessionsDir :: string
  wk_agentsMd :: "string + string"
  wk_agentExists :: bool
  wk_agentPath :: string
  wk_readRecipe :: "string \<Rightarrow> string + string"
  wk_unmarshalRecipe :: "string \<Rightarrow> string + agentSpec"
  wk_skillsExist :: bool
  wk_skillEntries :: "string + nat"
  wk_loadSkills :: "string + skill list"

section \<open>The specification\<close>

definition retry_three :: middlewareSpec where
  "retry_three = \<lparr>mw_name = ''retry'', mw_options = [''attempts'' \<mapsto> AnyInt 3]\<rparr>"

definition action_instruction :: string where
  "action_instruction =
     Join [''You are the action agent.'',
       ''Produce the best next response or action for the user's request.'',
       ''Use the available tools only when they are actually needed.'',
       ''If prior review feedback exists, address it carefully.'',
       ''Do not rewrite a good answer just to phrase it differently.'',
       ''For simple greetings, acknowledgements, or casual chat, answer naturally and briefly.'',
       [],
       ''Previous review feedback:'',
       ''{{.review_feedback}}''] [newline]"

definition review_instruction :: string where
  "review_instruction =
     Join [''You are the review agent.'',
       ''Bias strongly toward stopping.'',
       ''If the latest action result already answers the user well enough, call the exit tool immediately with a brief reason.'',
       ''This includes greetings, casual chat, short factual answers, and responses that are already good enough.'',
       ''Do not request another iteration just for stylistic rewrites or alternate phrasing.'',
       ''Only continue when the latest action result is clearly incomplete, incorrect, unsafe, or missed an obvious required tool/action.'',
       ''If another iteration is needed, explain exactly what the next action iteration must improve.''] [newline]"

definition review_prompt :: string where
  "review_prompt =
     Join [''Review the latest action result below.'',
       [],
       ''ACTION_RESULT_BEGIN'',
       ''{{.action_result}}'',
       ''ACTION_RESULT_END'',
       [],
       ''Please review the action output above. Decide whether to stop or continue.''] [newline]"

definition action_spec :: subAgentSpec where
  "action_spec = \<lparr>sub_name = ''action'', sub_description = ''Execute the next concrete step toward the user's goal.'',
     sub_model = [], sub_instruction = action_instruction, sub_prompt = [], sub_parameters = [],
     sub_tools = [''read'', ''write'', ''edit'', ''bash'', ''cron''], sub_outputKey = ''action_result'', sub_maxIterations = 0,
     sub_context = None, sub_middlewares = [retry_three]\<rparr>"

definition review_spec :: subAgentSpec where
  "review_spec = \<lparr>sub_name = ''review'', sub_description = ''Review the latest action result and decide whether to stop.'',
     sub_model = [], sub_instruction = review_instruction, sub_prompt = review_prompt, sub_parameters = [],
     sub_tools = [''exit''], sub_outputKey = ''review_feedback'', sub_maxIterations = 0,
     sub_context = None, sub_middlewares = [retry_three]\<rparr>"

definition default_spec :: agentSpec where
  "default_spec = \<lparr>sp_version = ''1.0'', sp_name = ''blades'',
     sp_description = ''Personal AI assistant running in your local workspace.'', sp_model = ''anthropic/claude-sonnet-4-6'',
     sp_instruction = [], sp_prompt = [], sp_parameters = [], sp_subAgents = [action_spec, review_spec],
     sp_execution = ExecutionLoop, sp_tools = [], sp_outputKey = [], sp_maxIterations = 3,
     sp_context = Some \<lparr>cs_strategy = ContextStrategyWindow, cs_maxTokens = 80000, cs_maxMessages = 50,
       cs_keepRecent = 0, cs_batchSize = 0, cs_model = []\<rparr>,
     sp_middlewares = []\<rparr>"

definition LoadAgentSpec :: "app_workspace \<Rightarrow> string + agentSpec" where
  "LoadAgentSpec ws =
     (if \<not> wk_agentExists ws then Inr default_spec
      else case LoadFromFile (wk_readRecipe ws) (wk_unmarshalRecipe ws) (wk_agentPath ws) of
        Inl e \<Rightarrow> Inl (''agent.yaml: '' @ e) | Inr spec \<Rightarrow> Inr spec)"

definition sub_with_instruction :: "string \<Rightarrow> subAgentSpec \<Rightarrow> subAgentSpec" where
  "sub_with_instruction instruction sub =
     (let subInstruction = TrimSpace (sub_instruction sub) in
      sub\<lparr>sub_instruction := (if subInstruction = [] then instruction
        else instruction @ [newline, newline] @ subInstruction)\<rparr>)"

definition applyWorkspaceInstruction :: "string \<Rightarrow> agentSpec \<Rightarrow> agentSpec" where
  "applyWorkspaceInstruction text spec =
     (let instruction = TrimSpace text in
      if instruction = [] then spec
      else if sp_subAgents spec = [] then spec\<lparr>sp_instruction := instruction\<rparr>
      else spec\<lparr>sp_subAgents := map (sub_with_instruction instruction) (sp_subAgents spec)\<rparr>)"

section \<open>Registries\<close>

text \<open>The program's own registry of tools satisfies the contract of the recipe package's registries.\<close>

interpretation program_tools: registry "\<lambda>m n t. AList.update n t m" Registry_Resolve "[]" Inr
  by unfold_locales (simp_all add: Registry_Resolve_def update_conv)

text \<open>The tools by name; a later tool replaces an earlier one of its name.\<close>

definition BuildToolRegistry :: "'p app_env \<Rightarrow> ExecConfig \<Rightarrow> 'p tool option list \<Rightarrow> (string, 'p tool) gomap" where
  "BuildToolRegistry env execCfg extraTools =
     fold (\<lambda>t m. case t of None \<Rightarrow> m | Some t \<Rightarrow> AList.update (t_name t) t m) extraTools
       [(''read'', NewReadTool (ap_files env) execCfg), (''write'', NewWriteTool (ap_files env) execCfg),
        (''edit'', NewEditTool (ap_files env) execCfg), (''bash'', bash_tool (ap_files env) execCfg),
        (''cron'', ap_cronTool env), (''exit'', NewExitTool (ap_decodeExit env))]"

text \<open>An empty map has no entry \<open>attempts\<close> either. \<open>float_int\<close> gives the integer a float is equal to.\<close>

definition MiddlewareAttempts :: "(string \<Rightarrow> int option) \<Rightarrow> params \<Rightarrow> string + int" where
  "MiddlewareAttempts float_int options =
     (let positive = (\<lambda>v. case v of Some n \<Rightarrow> if 0 < n then Inr n else Inl ''middleware retry: attempts must be a positive integer''
                        | None \<Rightarrow> Inl ''middleware retry: attempts must be a positive integer'')
      in case options ''attempts'' of
           None \<Rightarrow> Inr 3
         | Some (AnyInt v) \<Rightarrow> positive (Some v)
         | Some (AnyFloat v) \<Rightarrow> positive (float_int v)
         | Some (AnyString v) \<Rightarrow> positive (Atoi (TrimSpace v))
         | Some _ \<Rightarrow> positive None)"

definition BuildMiddlewareRegistry :: "'p app_env \<Rightarrow> 'p middlewareFactory registry_map" where
  "BuildMiddlewareRegistry env = MiddlewareRegistry_Register Map.empty ''retry''
     (\<lambda>options. ebind (MiddlewareAttempts (ap_floatInt env) options) (\<lambda>attempts. Inr (Retry (ap_retry env attempts))))"

definition ExecConfigFromDefaults :: "string \<Rightarrow> config_exec \<Rightarrow> ExecConfig" where
  "ExecConfigFromDefaults workingDir e =
     (let base = DefaultExecConfig workingDir in
      base\<lparr>ec_timeout := ExecTimeout e,
           ec_restrict := (if ce_restrict e then True else ec_restrict base),
           ec_deny := (if ce_deny e \<noteq> [] then ec_deny base @ ce_deny e else ec_deny base),
           ec_allow := (if ce_allow e \<noteq> [] then ce_allow e else ec_allow base)\<rparr>)"

text \<open>Skills that cannot be loaded are skipped with a log line.\<close>

definition LoadSkills :: "app_workspace \<Rightarrow> skill list" where
  "LoadSkills ws =
     (if \<not> wk_skillsExist ws then []
      else case wk_skillEntries ws of
        Inl _ \<Rightarrow> []
      | Inr n \<Rightarrow> (if n = 0 then [] else case wk_loadSkills ws of Inl _ \<Rightarrow> [] | Inr list \<Rightarrow> list))"

definition DefaultExecWorkingDir :: "app_workspace option \<Rightarrow> string" where
  "DefaultExecWorkingDir ws = (case ws of None \<Rightarrow> ''.''
     | Some ws \<Rightarrow> (let root = TrimSpace (wk_dir ws) in if root = [] then ''.'' else root))"

section \<open>The runner\<close>

text \<open>The skills of the workspace: the instruction of their tool set, if any, and its tools.\<close>

definition workspace_skills :: "'p app_env \<Rightarrow> app_workspace \<Rightarrow> string + (string \<times> 'p tool list) option" where
  "workspace_skills env ws =
     (if LoadSkills ws = [] then Inr None
      else ebind (NewToolset (ap_skillHeader env) (map Some (LoadSkills ws)))
        (\<lambda>ts. Inr (Some (ts_instruction ts, toolset_tools (ap_skillEnv env) ts))))"

definition workspace_spec :: "app_workspace \<Rightarrow> (string \<times> 'p tool list) option \<Rightarrow> agentSpec \<Rightarrow> agentSpec" where
  "workspace_spec ws skills spec =
     (let spec1 = (case wk_agentsMd ws of
            Inr text \<Rightarrow> if text \<noteq> [] then applyWorkspaceInstruction text spec else spec | Inl _ \<Rightarrow> spec)
      in case skills of None \<Rightarrow> spec1 | Some (text, _) \<Rightarrow> applyWorkspaceInstruction text spec1)"

definition runner_options :: "'p app_env \<Rightarrow> Config \<Rightarrow> app_workspace \<Rightarrow> 'p tool option list \<Rightarrow> agentSpec \<Rightarrow>
    ('p buildOptions \<Rightarrow> 'p buildOptions) list" where
  "runner_options env cfg ws extraTools spec =
     [WithModelRegistry (Some (Model_Resolve (ap_makers env) (cf_providers cfg))),
      WithToolRegistry (Some (Registry_Resolve (BuildToolRegistry env
        (ExecConfigFromDefaults (DefaultExecWorkingDir (Some ws)) (cf_exec cfg)) extraTools))),
      WithMiddlewareRegistry (Some (MiddlewareRegistry_Resolve (BuildMiddlewareRegistry env))),
      Build_WithContext (sp_context spec \<noteq> None)]"

definition BuildRunner :: "'p app_env \<Rightarrow> Config \<Rightarrow> app_workspace \<Rightarrow> 'p tool option list \<Rightarrow> string + 'p built" where
  "BuildRunner env cfg ws extraTools =
     ebind (LoadAgentSpec ws) (\<lambda>spec0.
     ebind (workspace_skills env ws) (\<lambda>skills.
     (let spec = workspace_spec ws skills spec0;
          extra = (case skills of None \<Rightarrow> [] | Some (_, ts) \<Rightarrow> map Some ts) @ extraTools
      in case Build (ap_recipe env) (Some spec) (runner_options env cfg ws extra spec) of
           Inl e \<Rightarrow> Inl (''recipe: '' @ e) | Inr b \<Rightarrow> Inr b)))"

text \<open>\<open>install\<close> makes the session option of a compressor.\<close>

definition BuildSessionManager :: "'p app_env \<Rightarrow> ('p built_compressor \<Rightarrow> session \<Rightarrow> session) \<Rightarrow> Config option \<Rightarrow> app_workspace \<Rightarrow>
    (nat \<Rightarrow> managedSession) \<Rightarrow> nat \<Rightarrow> (string, string) gomap option \<Rightarrow> string + manager" where
  "BuildSessionManager env install cfg ws heap next files =
     ebind (LoadAgentSpec ws) (\<lambda>spec.
       let providers = (case cfg of None \<Rightarrow> [] | Some c \<Rightarrow> cf_providers c) in
       case BuildSessionOption (Some spec) [WithModelRegistry (Some (Model_Resolve (ap_makers env) providers))] of
         Inl e \<Rightarrow> Inl (''recipe context: '' @ e)
       | Inr None \<Rightarrow> Inr (NewManager (wk_sessionsDir ws) [] heap next files)
       | Inr (Some c) \<Rightarrow> Inr (NewManager (wk_sessionsDir ws) [Some (install c)] heap next files))"

end
