(* ===== verification/Commands.thy ===== *)
theory Commands
  imports Go_Text
begin

text \<open>
  Slash commands (\<open>cmd/blades/internal/command/command.go\<close>), shared by the channels of the command line
  program. The callbacks a channel provides act on the outside \<open>'p\<close> and may fail. The processor an
  environment carries is only asked for its list of commands, so the environment holds that list.
\<close>

section \<open>Commands and their environment\<close>

record command_info =
  cm_name :: string
  cm_aliases :: "string list"
  cm_description :: string
  cm_usage :: string

type_synonym 'p callback = "'p \<Rightarrow> string option \<times> 'p"

text \<open>\<open>en_helpSuffix\<close> is \<open>Custom["helpSuffix"]\<close> where it is a string.\<close>

record 'p environment =
  en_sessionID :: string
  en_stop :: "'p callback option"
  en_switch :: "(string \<Rightarrow> 'p callback) option"
  en_clear :: "'p callback option"
  en_commands :: "command_info list option"
  en_helpSuffix :: "string option"

record cmd_result =
  cr_message :: string
  cr_isError :: bool
  cr_quit :: bool

definition reply :: "string \<Rightarrow> cmd_result" where
  "reply m = \<lparr>cr_message = m, cr_isError = False, cr_quit = False\<rparr>"

definition error_reply :: "string \<Rightarrow> cmd_result" where
  "error_reply m = \<lparr>cr_message = m, cr_isError = True, cr_quit = False\<rparr>"

type_synonym 'p command_handler = "string list \<Rightarrow> 'p environment option \<Rightarrow> 'p \<Rightarrow> (string + cmd_result) \<times> 'p"

record 'p command = command_info +
  cm_handler :: "'p command_handler"

section \<open>The built-in commands\<close>

definition help_row :: "string \<Rightarrow> string \<Rightarrow> string" where
  "help_row usage description = ''| `'' @ usage @ ''` | '' @ description @ '' |'' @ [newline]"

definition command_row :: "command_info \<Rightarrow> string" where
  "command_row c = help_row (if cm_usage c = [] then ''/'' @ cm_name c else cm_usage c) (cm_description c)"

definition static_rows :: string where
  "static_rows = concat (map (\<lambda>(name, desc). help_row name desc)
     [(''/help'', ''Show this help''), (''/stop'', ''Stop current response (keep chatting)''),
      (''/session [id]'', ''Show or switch session''), (''/clear'', ''Clear conversation''), (''/exit'', ''Quit'')])"

definition helpHandler :: "'p command_handler" where
  "helpHandler args env p =
     (let head = ''## Available Commands'' @ [newline, newline] @ ''| Command | Description |'' @ [newline] @
            ''|---------|-------------|'' @ [newline];
          rows = (case env of Some e \<Rightarrow> (case en_commands e of Some cs \<Rightarrow> concat (map command_row cs) | None \<Rightarrow> static_rows)
                  | None \<Rightarrow> static_rows);
          suffix = (case env of Some e \<Rightarrow> (case en_helpSuffix e of Some s \<Rightarrow> (if s \<noteq> [] then [newline] @ s else []) | None \<Rightarrow> [])
                    | None \<Rightarrow> [])
      in (Inr (reply (head @ rows @ suffix)), p))"

text \<open>\<open>/stop\<close> and \<open>/clear\<close>: call what the channel provides, if it does.\<close>

definition call_back :: "'p callback \<Rightarrow> string \<Rightarrow> string \<Rightarrow> 'p \<Rightarrow> (string + cmd_result) \<times> 'p" where
  "call_back f failed succeeded p = (case f p of
       (Some e, q) \<Rightarrow> (Inr (error_reply (failed @ '': '' @ e)), q)
     | (None, q) \<Rightarrow> (Inr (reply succeeded), q))"

definition stopHandler :: "'p command_handler" where
  "stopHandler args env p = (case env of
       None \<Rightarrow> (Inr (error_reply ''(stop not available - no environment)''), p)
     | Some e \<Rightarrow> (case en_stop e of
           None \<Rightarrow> (Inr (reply ''(stop not available - no active response)''), p)
         | Some f \<Rightarrow> call_back f ''Stop failed''
             ([CHR 0xE2, CHR 0x8F, CHR 0xB9] @ '' Response stopped. You can continue the conversation.'') p))"

definition sessionHandler :: "'p command_handler" where
  "sessionHandler args env p = (case env of
       None \<Rightarrow> (Inr (error_reply ''(session not available - no environment)''), p)
     | Some e \<Rightarrow> (case args of
           [] \<Rightarrow> (Inr (reply (''Current session: '' @ en_sessionID e)), p)
         | new # _ \<Rightarrow> (case en_switch e of
               None \<Rightarrow> (Inr (error_reply ''(session switching not available)''), p)
             | Some f \<Rightarrow> call_back (f new) ''Failed to switch session'' (''Switched to session: '' @ new) p)))"

definition clearHandler :: "'p command_handler" where
  "clearHandler args env p = (case env of
       None \<Rightarrow> (Inr (error_reply ''(clear not available - no environment)''), p)
     | Some e \<Rightarrow> (case en_clear e of
           None \<Rightarrow> (Inr (reply ''(clear not available)''), p)
         | Some f \<Rightarrow> call_back f ''Clear failed'' ([CHR 0xE2, CHR 0x9C, CHR 0x93] @ '' Conversation cleared'') p))"

definition exitHandler :: "'p command_handler" where
  "exitHandler args env p = (Inr ((reply (''Bye! '' @ [CHR 0xF0, CHR 0x9F, CHR 0x91, CHR 0x8B]))\<lparr>cr_quit := True\<rparr>), p)"

section \<open>The processor\<close>

type_synonym 'p processor = "(string, 'p command) gomap"

definition Command_Register :: "'p command \<Rightarrow> 'p processor \<Rightarrow> 'p processor" where
  "Command_Register cmd cs = fold (\<lambda>alias cs. AList.update alias cmd cs) (cm_aliases cmd) (AList.update (cm_name cmd) cmd cs)"

definition default_commands :: "'p command list" where
  "default_commands =
     [\<lparr>cm_name = ''help'', cm_aliases = [], cm_description = ''Show available commands'', cm_usage = ''/help'',
       cm_handler = helpHandler\<rparr>,
      \<lparr>cm_name = ''stop'', cm_aliases = [],
       cm_description = ''Stop the current response (agent stops; you can keep chatting)'', cm_usage = ''/stop'',
       cm_handler = stopHandler\<rparr>,
      \<lparr>cm_name = ''session'', cm_aliases = [], cm_description = ''Show or switch session'', cm_usage = ''/session [id]'',
       cm_handler = sessionHandler\<rparr>,
      \<lparr>cm_name = ''clear'', cm_aliases = [], cm_description = ''Clear conversation history'', cm_usage = ''/clear'',
       cm_handler = clearHandler\<rparr>,
      \<lparr>cm_name = ''exit'', cm_aliases = [''quit''], cm_description = ''Exit the application'', cm_usage = ''/exit'',
       cm_handler = exitHandler\<rparr>]"

definition NewProcessor :: "'p processor" where
  "NewProcessor = fold Command_Register default_commands []"

text \<open>Nothing is returned for a line that is not a command.\<close>

definition Process :: "'p processor \<Rightarrow> string \<Rightarrow> 'p environment option \<Rightarrow> 'p \<Rightarrow> (string + cmd_result) option \<times> 'p" where
  "Process cs line env p =
     (let line = TrimSpace line in
      if \<not> HasPrefix line ''/'' then (None, p)
      else case Fields line of
        [] \<Rightarrow> (None, p)
      | first # args \<Rightarrow> (case map_of cs (TrimPrefix first ''/'') of
            None \<Rightarrow> (Some (Inr (error_reply (''Unknown command: '' @ Quote first @ ''. Type /help for available commands.''))), p)
          | Some cmd \<Rightarrow> (case cm_handler cmd args env p of (r, q) \<Rightarrow> (Some r, q))))"

text \<open>\<open>order\<close> is the order in which Go visits the map.\<close>

definition GetCommands :: "string list \<Rightarrow> 'p processor \<Rightarrow> 'p command list" where
  "GetCommands order cs = rev (fold (\<lambda>key acc. case map_of cs key of None \<Rightarrow> acc
     | Some cmd \<Rightarrow> (if cm_name cmd \<in> set (map cm_name acc) then acc else cmd # acc)) order [])"

section \<open>What commands do\<close>

text \<open>The word that selects the command.\<close>

definition command_word :: "string \<Rightarrow> string" where
  "command_word line = (case Fields (TrimSpace line) of [] \<Rightarrow> [] | w # _ \<Rightarrow> w)"

lemma default_lookup:
  "map_of NewProcessor k = map_of (zip [''help'', ''stop'', ''session'', ''clear'', ''exit'', ''quit'']
     (default_commands @ [last default_commands])) k"
  by (simp add: NewProcessor_def default_commands_def Command_Register_def)

inductive builtin :: "string \<Rightarrow> 'p command_handler \<Rightarrow> bool" where
  "builtin ''help'' helpHandler"
| "builtin ''stop'' stopHandler"
| "builtin ''session'' sessionHandler"
| "builtin ''clear'' clearHandler"
| "builtin ''exit'' exitHandler"
| "builtin ''quit'' exitHandler"

lemma default_handler: "map_of NewProcessor k = Some cmd \<Longrightarrow> builtin k (cm_handler cmd)"
  by (auto simp: default_lookup default_commands_def builtin.intros split: if_splits)

lemma default_none: "map_of NewProcessor k = None \<Longrightarrow> k \<notin> {''help'', ''stop'', ''session'', ''clear'', ''exit'', ''quit''}"
  by (auto simp: default_lookup default_commands_def split: if_splits)

lemma TrimPrefix_slash: "HasPrefix w ''/'' \<Longrightarrow> TrimPrefix w ''/'' = k \<longleftrightarrow> w = ''/'' @ k"
  by (cases w) (auto simp: TrimPrefix_def)

lemma call_back_result:
  "snd (call_back f failed succeeded p) = snd (f p)"
  "\<exists>res. fst (call_back f failed succeeded p) = Inr res \<and> \<not> cr_quit res"
  by (cases "f p"; cases "fst (f p)"; simp add: call_back_def reply_def error_reply_def)+

text \<open>The callback a command may call.\<close>

inductive may_call :: "'p environment option \<Rightarrow> string \<Rightarrow> 'p callback \<Rightarrow> bool" where
  may_stop: "en_stop e = Some f \<Longrightarrow> may_call (Some e) ''/stop'' f"
| may_clear: "en_clear e = Some f \<Longrightarrow> may_call (Some e) ''/clear'' f"
| may_switch: "en_switch e = Some g \<Longrightarrow> may_call (Some e) ''/session'' (g new)"

lemma quits [simp]: "cr_quit (reply m) = False" "cr_quit (error_reply m) = False" "cr_isError (error_reply m)"
  by (simp_all add: reply_def error_reply_def)

lemma builtin_effects:
  assumes "builtin k h"
  shows "snd (h args env p) = p \<or> (\<exists>f. may_call env (''/'' @ k) f \<and> snd (h args env p) = snd (f p))"
  using assms
proof cases
  case 2
  show ?thesis
  proof (cases "env = None \<or> en_stop (the env) = None")
    case False
    then obtain e f where e: "env = Some e" "en_stop e = Some f" by auto
    then have "may_call env (''/'' @ k) f" using 2 may_stop by simp
    then show ?thesis by (auto simp: 2(2) stopHandler_def e call_back_result(1))
  qed (auto simp: 2(2) stopHandler_def split: option.split)
next
  case 3
  show ?thesis
  proof (cases "env = None \<or> args = [] \<or> en_switch (the env) = None")
    case False
    then obtain e f new as where e: "env = Some e" "en_switch e = Some f" "args = new # as" by (cases args) auto
    then have "may_call env (''/'' @ k) (f new)" using 3 may_switch by simp
    then show ?thesis by (auto simp: 3(2) sessionHandler_def e call_back_result(1))
  qed (auto simp: 3(2) sessionHandler_def split: option.split list.split)
next
  case 4
  show ?thesis
  proof (cases "env = None \<or> en_clear (the env) = None")
    case False
    then obtain e f where e: "env = Some e" "en_clear e = Some f" by auto
    then have "may_call env (''/'' @ k) f" using 4 may_clear by simp
    then show ?thesis by (auto simp: 4(2) clearHandler_def e call_back_result(1))
  qed (auto simp: 4(2) clearHandler_def split: option.split)
qed (simp_all add: helpHandler_def exitHandler_def Let_def)

lemma builtin_replies:
  assumes "builtin k h"
  shows "\<exists>res. fst (h args env p) = Inr res \<and> (cr_quit res \<longleftrightarrow> k \<in> {''exit'', ''quit''})"
  using assms
proof cases
  case 2
  then show ?thesis using call_back_result(2) by (auto simp: stopHandler_def split: option.split)
next
  case 3
  then show ?thesis using call_back_result(2) by (auto simp: sessionHandler_def split: option.split list.split)
next
  case 4
  then show ?thesis using call_back_result(2) by (auto simp: clearHandler_def split: option.split)
qed (simp_all add: helpHandler_def exitHandler_def Let_def)

lemma fields_acc_first: "acc \<noteq> [] \<Longrightarrow> \<exists>w ws. fields_acc acc s = (rev acc @ w) # ws"
proof (induction s arbitrary: acc)
  case (Cons c s)
  from Cons.IH [of "c # acc"] Cons.prems show ?case by auto
qed simp

lemma Fields_slash:
  assumes "HasPrefix s ''/''"
  shows "\<exists>k ws. Fields s = (''/'' @ k) # ws"
proof -
  obtain t where "s = CHR ''/'' # t" using assms by (cases s) auto
  moreover have "\<not> is_space (CHR ''/'')" by (simp add: is_space_def)
  ultimately show ?thesis using fields_acc_first [of "''/''" t] by (simp add: Fields_def)
qed

lemma Process_effect:
  "snd (Process NewProcessor line env p) = p \<or> (\<exists>word f. may_call env word f \<and> snd (Process NewProcessor line env p) = snd (f p))"
proof (cases "HasPrefix (TrimSpace line) ''/''")
  case True
  then obtain k ws where f: "Fields (TrimSpace line) = (''/'' @ k) # ws" using Fields_slash by blast
  have trim: "TrimPrefix (''/'' @ k) ''/'' = k" by (rule TrimPrefix_append)
  show ?thesis
  proof (cases "map_of NewProcessor k :: 'a command option")
    case None
    with True f trim show ?thesis by (simp add: Process_def Let_def)
  next
    case (Some cmd)
    have "snd (Process NewProcessor line env p) = snd (cm_handler cmd ws env p)"
      using True f Some trim by (simp add: Process_def Let_def split: prod.split)
    with builtin_effects [OF default_handler [OF Some], of ws env p] show ?thesis by metis
  qed
qed (simp add: Process_def Let_def)

text \<open>C28: What a line typed to a channel can do. It is a command exactly when it begins, after spaces, with
  a slash. A command changes the outside through at most one call of the callback its word names; it always
  replies, with an error for a word that is no command; and it ends the program exactly for \<open>/exit\<close> and
  \<open>/quit\<close>.\<close>

theorem command_effects:
  "(fst (Process NewProcessor line env p) = None \<longleftrightarrow> \<not> HasPrefix (TrimSpace line) ''/'') \<and>
   (snd (Process NewProcessor line env p) = p \<or>
     (\<exists>f. may_call env (command_word line) f \<and> snd (Process NewProcessor line env p) = snd (f p))) \<and>
   (\<forall>x. fst (Process NewProcessor line env p) = Some x \<longrightarrow> (\<exists>res. x = Inr res \<and>
     (cr_quit res \<longleftrightarrow> command_word line \<in> {''/exit'', ''/quit''}) \<and>
     (command_word line \<notin> {''/help'', ''/stop'', ''/session'', ''/clear'', ''/exit'', ''/quit''} \<longrightarrow> cr_isError res)))"
proof (cases "HasPrefix (TrimSpace line) ''/''")
  case True
  then obtain k ws where f: "Fields (TrimSpace line) = (''/'' @ k) # ws" using Fields_slash by blast
  then have w: "command_word line = ''/'' @ k" by (simp add: command_word_def)
  have trim: "TrimPrefix (''/'' @ k) ''/'' = k" by (rule TrimPrefix_append)
  have quit: "command_word line \<in> {''/exit'', ''/quit''} \<longleftrightarrow> k \<in> {''exit'', ''quit''}" by (simp add: w)
  show ?thesis
  proof (cases "map_of NewProcessor k :: 'a command option")
    case None
    let ?r = "error_reply (''Unknown command: '' @ Quote (''/'' @ k) @ ''. Type /help for available commands.'')"
    have "Process NewProcessor line env p = (Some (Inr ?r), p)"
      using True f None trim by (simp add: Process_def Let_def)
    moreover have "\<not> k \<in> {''exit'', ''quit''}" using default_none [OF None] by blast
    ultimately show ?thesis using True unfolding quit by auto
  next
    case (Some cmd)
    note h = default_handler [OF Some]
    have r: "Process NewProcessor line env p = (Some (fst (cm_handler cmd ws env p)), snd (cm_handler cmd ws env p))"
      using True f Some trim by (simp add: Process_def Let_def split: prod.split)
    have known: "command_word line \<in> {''/help'', ''/stop'', ''/session'', ''/clear'', ''/exit'', ''/quit''}"
      using h unfolding w by cases simp_all
    obtain res where res: "fst (cm_handler cmd ws env p) = Inr res" "cr_quit res \<longleftrightarrow> k \<in> {''exit'', ''quit''}"
      using builtin_replies [OF h] by blast
    show ?thesis
      unfolding r fst_conv snd_conv res(1) quit using True known builtin_effects [OF h, of ws env p] res(2)
      unfolding w by blast
  qed
qed (simp add: Process_def Let_def)

theorem command_effects_witness:
  "\<exists>res. fst (Process NewProcessor '' /quit now'' None (0::nat)) = Some (Inr res) \<and> cr_quit res"
proof -
  have w: "command_word '' /quit now'' = ''/quit''" by code_simp
  have "HasPrefix (TrimSpace '' /quit now'') ''/''" by code_simp
  with command_effects [of "'' /quit now''" None "0::nat"] show ?thesis unfolding w by auto
qed

text \<open>In whatever order the map is visited, the help lists each built-in command once.\<close>

theorem help_lists_commands:
  assumes "set order = fst ` set (NewProcessor :: 'p processor)"
  shows "distinct (map cm_name (GetCommands order (NewProcessor :: 'p processor))) \<and>
    set (map cm_name (GetCommands order (NewProcessor :: 'p processor))) = {''help'', ''stop'', ''session'', ''clear'', ''exit''}"
proof -
  let ?cs = "NewProcessor :: 'p processor"
  let ?step = "\<lambda>key acc. case map_of ?cs key of None \<Rightarrow> acc
     | Some cmd \<Rightarrow> (if cm_name cmd \<in> set (map cm_name acc) then acc else cmd # acc)"
  have "distinct (map cm_name (fold ?step ks [])) \<and>
      set (map cm_name (fold ?step ks [])) = {n. \<exists>key \<in> set ks. \<exists>cmd. map_of ?cs key = Some cmd \<and> n = cm_name cmd}" for ks
  proof (induction ks rule: rev_induct)
    case (snoc k ks)
    then show ?case by (cases "map_of ?cs k") auto
  qed simp
  from this [of order] have "distinct (map cm_name (GetCommands order ?cs))"
    and "set (map cm_name (GetCommands order ?cs)) = {n. \<exists>key \<in> fst ` set ?cs. \<exists>cmd. map_of ?cs key = Some cmd \<and> n = cm_name cmd}"
    using assms by (auto simp: GetCommands_def rev_map [symmetric])
  moreover have "fst ` set ?cs = {''help'', ''stop'', ''session'', ''clear'', ''exit'', ''quit''}"
    by (simp add: NewProcessor_def default_commands_def Command_Register_def)
  ultimately show ?thesis by (auto simp: default_lookup default_commands_def)
qed

end
