(* ===== verification/Lark_Channel.thy ===== *)
theory Lark_Channel
  imports Commands App_Config
begin

text \<open>
  The Lark channel (\<open>channel/lark/channel.go\<close>, \<open>factory.go\<close>): which messages it takes, their content and
  session, commands and replies. Times are nanoseconds. The service, the JSON decoders and the handler are
  fields of \<open>lark_env\<close>; the handler gets the message and the chat its card writer is made for. Log lines are
  left out.
\<close>

section \<open>The state\<close>

text \<open>The sessions of chats with their type, the messages seen with the time they were first seen, and the
  time of the last pruning, none at first. \<open>lx_asked\<close> records what the handler was asked.\<close>

record lark_channel =
  lx_sessions :: "string \<rightharpoonup> string \<times> string"
  lx_processed :: "string \<rightharpoonup> int"
  lx_dedupeTTL :: int
  lx_lastPrune :: "int option"
  lx_asked :: "(string \<times> string \<times> string) list"

definition two_minutes :: int where "two_minutes = 120000000000"

definition New_Lark :: lark_channel where
  "New_Lark = \<lparr>lx_sessions = Map.empty, lx_processed = Map.empty, lx_dedupeTTL = two_minutes, lx_lastPrune = None, lx_asked = []\<rparr>"

record lark_message =
  lm_id :: "string option"
  lm_chat :: "string option"
  lm_chatType :: "string option"
  lm_type :: "string option"
  lm_content :: "string option"

record 'w lark_env =
  le_text :: "string \<Rightarrow> string option"
  le_post :: "string \<Rightarrow> string option"
  le_rich :: "string \<Rightarrow> (string \<times> string) list list option"
  le_action :: "string \<Rightarrow> string option"
  le_send :: "string \<Rightarrow> string \<Rightarrow> 'w callback"
  le_handler :: "(string \<times> string \<Rightarrow> string \<Rightarrow> string \<Rightarrow> 'w callback) option"
  le_stop :: "'w callback option"
  le_clear :: "(string \<Rightarrow> 'w callback) option"
  le_commands :: "(lark_channel \<times> 'w) processor"
  le_order :: "string list"

definition string_value :: "string option \<Rightarrow> string" where
  "string_value s = (case s of None \<Rightarrow> [] | Some v \<Rightarrow> v)"

section \<open>Messages seen before\<close>

definition pruneProcessedMessages :: "int \<Rightarrow> lark_channel \<Rightarrow> lark_channel" where
  "pruneProcessedMessages now c =
     (let interval = (if lx_dedupeTTL c \<le> 0 then two_minutes else lx_dedupeTTL c) in
      if (case lx_lastPrune c of None \<Rightarrow> False | Some t \<Rightarrow> now - t < interval) then c
      else c\<lparr>lx_lastPrune := Some now,
        lx_processed := (\<lambda>k. case lx_processed c k of None \<Rightarrow> None | Some t \<Rightarrow> if t < now - interval then None else Some t)\<rparr>)"

definition markMessageIfNew :: "string \<Rightarrow> int \<Rightarrow> lark_channel \<Rightarrow> bool \<times> lark_channel" where
  "markMessageIfNew i now c =
     (let c1 = c\<lparr>lx_dedupeTTL := (if lx_dedupeTTL c \<le> 0 then two_minutes else lx_dedupeTTL c)\<rparr> in
      case lx_processed c1 i of
        Some _ \<Rightarrow> (False, pruneProcessedMessages now c1)
      | None \<Rightarrow> (True, pruneProcessedMessages now (c1\<lparr>lx_processed := (lx_processed c1)(i \<mapsto> now)\<rparr>)))"

section \<open>The content of a message\<close>

definition extractPostContent :: "'w lark_env \<Rightarrow> string \<Rightarrow> string" where
  "extractPostContent env content = (case le_post env content of
       None \<Rightarrow> content
     | Some post \<Rightarrow> (case le_rich env post of
           None \<Rightarrow> post
         | Some paragraphs \<Rightarrow> TrimSpace (concat (map (\<lambda>es. concat (map (\<lambda>(txt, c). if txt \<noteq> [] then txt else c) es) @ [newline])
             paragraphs))))"

definition extractInteractiveContent :: "'w lark_env \<Rightarrow> string \<Rightarrow> string" where
  "extractInteractiveContent env content = (case le_action env content of Some v \<Rightarrow> v | None \<Rightarrow> content)"

definition parseMessageContent :: "'w lark_env \<Rightarrow> lark_message \<Rightarrow> string" where
  "parseMessageContent env m = (case lm_content m of
       None \<Rightarrow> []
     | Some content \<Rightarrow> (let t = (case lm_type m of None \<Rightarrow> ''text'' | Some t \<Rightarrow> t) in
         if t = ''text'' then (case le_text env content of Some s \<Rightarrow> s | None \<Rightarrow> content)
         else if t = ''post'' then extractPostContent env content
         else if t = ''interactive'' then extractInteractiveContent env content
         else content))"

section \<open>Sessions\<close>

definition getOrCreateSession :: "string \<Rightarrow> string \<Rightarrow> lark_channel \<Rightarrow> string \<times> lark_channel" where
  "getOrCreateSession chatID chatType c = (case lx_sessions c chatID of
       Some (s, _) \<Rightarrow> (s, c)
     | None \<Rightarrow> (chatID, c\<lparr>lx_sessions := (lx_sessions c)(chatID \<mapsto> (chatID, chatType))\<rparr>))"

definition setSession :: "string \<Rightarrow> string \<Rightarrow> lark_channel \<Rightarrow> lark_channel" where
  "setSession chatID sessionID c = (let k = TrimSpace chatID; s = TrimSpace sessionID in
     if k = [] then c
     else c\<lparr>lx_sessions := (lx_sessions c)(k \<mapsto> (if s = [] then k else s,
       case lx_sessions c k of Some (_, t) \<Rightarrow> t | None \<Rightarrow> []))\<rparr>)"

section \<open>Replies\<close>

text \<open>\<open>le_send\<close> sends the JSON object of a text to a chat.\<close>

definition sendTextMessage :: "'w lark_env \<Rightarrow> string \<Rightarrow> string \<Rightarrow> 'w callback" where
  "sendTextMessage env chatID txt w = (if chatID = [] \<or> TrimSpace txt = [] then (None, w) else le_send env chatID (TrimSpace txt) w)"

abbreviation cross_mark :: string where "cross_mark \<equiv> [CHR 0xE2, CHR 0x9D, CHR 0x8C]"

definition sendErrorMessage :: "'w lark_env \<Rightarrow> string \<Rightarrow> string \<Rightarrow> 'w callback" where
  "sendErrorMessage env chatID e w = le_send env chatID (cross_mark @ '' Error: '' @ e) w"

definition SendToSession :: "'w lark_env \<Rightarrow> string \<Rightarrow> string \<Rightarrow> 'w callback" where
  "SendToSession env sessionID txt w = (if sessionID = [] \<or> TrimSpace txt = [] then (None, w)
     else le_send env sessionID (TrimSpace txt) w)"

section \<open>Commands\<close>

definition beside :: "'w callback \<Rightarrow> (lark_channel \<times> 'w) callback" where
  "beside f p = (case f (snd p) of (e, v) \<Rightarrow> (e, (fst p, v)))"

definition lark_environment :: "'w lark_env \<Rightarrow> string \<Rightarrow> string \<Rightarrow> (lark_channel \<times> 'w) environment" where
  "lark_environment env sessionID chatID = \<lparr>en_sessionID = sessionID, en_stop = map_option beside (le_stop env),
     en_switch = Some (\<lambda>new p. (None, (setSession chatID new (fst p), snd p))),
     en_clear = Some (case le_clear env of None \<Rightarrow> (\<lambda>p. (None, p)) | Some f \<Rightarrow> beside (f sessionID)),
     en_commands = Some (map command_info.truncate (GetCommands (le_order env) (le_commands env))), en_helpSuffix = None\<rparr>"

definition handleCommand :: "'w lark_env \<Rightarrow> string \<Rightarrow> string \<Rightarrow> string \<Rightarrow> (lark_channel \<times> 'w) callback" where
  "handleCommand env line sessionID chatID p =
     (case Process (le_commands env) line (Some (lark_environment env sessionID chatID)) p of (r, q) \<Rightarrow>
       (case r of
          None \<Rightarrow> (None, q)
        | Some (Inl e) \<Rightarrow> beside (sendErrorMessage env chatID (''Command error: '' @ e)) q
        | Some (Inr res) \<Rightarrow> beside (sendTextMessage env chatID
            ((if cr_isError res then cross_mark @ '' '' else []) @ cr_message res)) q))"

section \<open>Handling a message\<close>

text \<open>The handler runs with a card writer for the message, which is closed when it returns.\<close>

definition ask_handler :: "'w lark_env \<Rightarrow> string \<Rightarrow> string \<Rightarrow> string \<Rightarrow> string \<Rightarrow> (lark_channel \<times> 'w) callback" where
  "ask_handler env messageID chatID sessionID content p = (case le_handler env of
       None \<Rightarrow> (Some ''stream handler is nil'', p)
     | Some h \<Rightarrow> (let c = (fst p)\<lparr>lx_asked := lx_asked (fst p) @ [(messageID, sessionID, content)]\<rparr> in
         case h (messageID, chatID) sessionID content (snd p) of
           (None, v) \<Rightarrow> (None, (c, v))
         | (Some e, v) \<Rightarrow> (Some e, (c, snd (sendErrorMessage env chatID e v)))))"

definition handleMessage :: "'w lark_env \<Rightarrow> int \<Rightarrow> lark_message option \<Rightarrow> (lark_channel \<times> 'w) callback" where
  "handleMessage env now event p = (case event of
       None \<Rightarrow> (None, p)
     | Some m \<Rightarrow> (let messageID = TrimSpace (string_value (lm_id m)) in
         if messageID = [] then (None, p)
         else case markMessageIfNew messageID now (fst p) of
           (False, c) \<Rightarrow> (None, (c, snd p))
         | (True, c) \<Rightarrow> (let chatID = string_value (lm_chat m); content = TrimSpace (parseMessageContent env m) in
             if content = [] then (None, (c, snd p))
             else case getOrCreateSession chatID (string_value (lm_chatType m)) c of (sessionID, d) \<Rightarrow>
               (if HasPrefix content ''/'' then handleCommand env content sessionID chatID (d, snd p)
                else ask_handler env messageID chatID sessionID content (d, snd p)))))"

section \<open>Configuration\<close>

text \<open>What the options set.\<close>

record lark_settings =
  ls_appID :: string
  ls_appSecret :: string
  ls_encryptKey :: string
  ls_verificationToken :: string
  ls_debug :: bool

definition newFromConfig :: "lark_config \<Rightarrow> (string \<Rightarrow> string) \<Rightarrow> string + lark_settings" where
  "newFromConfig cfg getenv =
     (let appID = (if lk_appID cfg = [] then getenv ''LARK_APP_ID'' else lk_appID cfg);
          secret = (if lk_appSecret cfg = [] then getenv ''LARK_APP_SECRET'' else lk_appSecret cfg)
      in if appID = [] then Inl ''lark.appID or LARK_APP_ID is required''
         else if secret = [] then Inl ''lark.appSecret or LARK_APP_SECRET is required''
         else Inr \<lparr>ls_appID = appID, ls_appSecret = secret, ls_encryptKey = lk_encryptKey cfg,
           ls_verificationToken = lk_verificationToken cfg, ls_debug = lk_debug cfg\<rparr>)"

section \<open>A redelivered message\<close>

text \<open>The results of marking a sequence of messages.\<close>

fun marks :: "(string \<times> int) list \<Rightarrow> lark_channel \<Rightarrow> bool list" where
  "marks [] c = []"
| "marks (m # ms) c = (case markMessageIfNew (fst m) (snd m) c of (b, d) \<Rightarrow> b # marks ms d)"

lemma mark_ttl: "0 < lx_dedupeTTL c \<Longrightarrow> lx_dedupeTTL (snd (markMessageIfNew i t c)) = lx_dedupeTTL c"
  by (simp add: markMessageIfNew_def pruneProcessedMessages_def Let_def split: option.split)

lemma mark_kept:
  assumes "lx_processed c i = Some t" and "u - lx_dedupeTTL c \<le> t" and "0 < lx_dedupeTTL c"
  shows "lx_processed (snd (markMessageIfNew k u c)) i = Some t"
  using assms by (auto simp: markMessageIfNew_def pruneProcessedMessages_def Let_def split: option.split)

lemma mark_new:
  assumes "0 < lx_dedupeTTL c"
  shows "fst (markMessageIfNew i t c) = (lx_processed c i = None)"
    and "fst (markMessageIfNew i t c) \<Longrightarrow> lx_processed (snd (markMessageIfNew i t c)) i = Some t"
  using assms by (auto simp: markMessageIfNew_def pruneProcessedMessages_def Let_def split: option.splits)

lemma marks_length [simp]: "length (marks ms c) = length ms"
  by (induction ms arbitrary: c) (simp_all split: prod.split)

lemma marks_seen:
  assumes "lx_processed c i = Some t" and "0 < lx_dedupeTTL c" and "j < length ms" and "fst (ms ! j) = i"
    and "\<forall>k \<le> j. snd (ms ! k) \<le> t + lx_dedupeTTL c"
  shows "\<not> marks ms c ! j"
  using assms
proof (induction ms arbitrary: c j)
  case (Cons m ms)
  obtain b d where d: "markMessageIfNew (fst m) (snd m) c = (b, d)" by fastforce
  have "snd m \<le> t + lx_dedupeTTL c" using Cons.prems(5) by force
  then have k: "lx_processed d i = Some t" "lx_dedupeTTL d = lx_dedupeTTL c"
    using mark_kept [OF Cons.prems(1) _ Cons.prems(2), of "snd m" "fst m"] mark_ttl [OF Cons.prems(2), of "fst m" "snd m"] d by simp_all
  show ?case
  proof (cases j)
    case 0
    with Cons.prems d mark_new(1) [OF Cons.prems(2), of "fst m" "snd m"] show ?thesis by simp
  next
    case (Suc n)
    have "\<not> marks ms d ! n"
    proof (rule Cons.IH [OF k(1)])
      show "\<forall>k \<le> n. snd (ms ! k) \<le> t + lx_dedupeTTL d"
      proof (intro allI impI)
        fix k' assume "k' \<le> n"
        with Cons.prems(5) Suc have "snd ((m # ms) ! Suc k') \<le> t + lx_dedupeTTL c" by blast
        with k(2) show "snd (ms ! k') \<le> t + lx_dedupeTTL d" by simp
      qed
    qed (use Cons.prems Suc k in auto)
    with Suc d show ?thesis by simp
  qed
qed simp

lemma marks_first:
  assumes "lx_processed c (fst (ms ! j)) = None" and "0 < lx_dedupeTTL c" and "j < length ms"
    and "\<forall>k < j. fst (ms ! k) \<noteq> fst (ms ! j)"
  shows "marks ms c ! j"
  using assms
proof (induction ms arbitrary: c j)
  case (Cons m ms)
  obtain b d where d: "markMessageIfNew (fst m) (snd m) c = (b, d)" by fastforce
  show ?case
  proof (cases j)
    case 0
    with Cons.prems(1) d mark_new(1) [OF Cons.prems(2), of "fst m" "snd m"] show ?thesis by simp
  next
    case (Suc n)
    have "fst m \<noteq> fst (ms ! n)" using Cons.prems(4) Suc by force
    then have "lx_processed d (fst (ms ! n)) = None"
      using Cons.prems(1) Suc d by (auto simp: markMessageIfNew_def pruneProcessedMessages_def Let_def split: option.splits if_splits)
    moreover have "lx_dedupeTTL d = lx_dedupeTTL c" using mark_ttl [OF Cons.prems(2), of "fst m" "snd m"] d by simp
    moreover have "\<forall>k < n. fst (ms ! k) \<noteq> fst (ms ! n)" using Cons.prems(4) Suc by force
    ultimately have "marks ms d ! n" using Cons.IH [of d n] Cons.prems(2,3) Suc by simp
    with Suc d show ?thesis by simp
  qed
qed simp

lemma marks_again:
  assumes "sorted (map snd ms)" and "k < j" and "j < length ms" and "fst (ms ! k) = fst (ms ! j)" and "marks ms c ! k"
    and "0 < lx_dedupeTTL c" and "snd (ms ! j) \<le> snd (ms ! k) + lx_dedupeTTL c"
  shows "\<not> marks ms c ! j"
  using assms
proof (induction ms arbitrary: c j k)
  case (Cons m ms)
  obtain b d where d: "markMessageIfNew (fst m) (snd m) c = (b, d)" by fastforce
  have ttl: "lx_dedupeTTL d = lx_dedupeTTL c" using mark_ttl [OF Cons.prems(6), of "fst m" "snd m"] d by simp
  obtain n where n: "j = Suc n" using Cons.prems(2) by (cases j) auto
  show ?case
  proof (cases k)
    case 0
    with Cons.prems(5) d have "lx_processed d (fst m) = Some (snd m)"
      using mark_new(2) [OF Cons.prems(6), of "fst m" "snd m"] by simp
    moreover have "\<forall>i \<le> n. snd (ms ! i) \<le> snd m + lx_dedupeTTL d"
    proof (intro allI impI)
      fix i assume "i \<le> n"
      then have "map snd ms ! i \<le> map snd ms ! n" using Cons.prems(1,3) n by (intro sorted_nth_mono) simp_all
      then show "snd (ms ! i) \<le> snd m + lx_dedupeTTL d" using Cons.prems(3,7) n 0 ttl \<open>i \<le> n\<close> by simp
    qed
    ultimately have "\<not> marks ms d ! n" using marks_seen [of d "fst m" "snd m" n ms] Cons.prems(3,4,6) n 0 ttl by simp
    with n d show ?thesis by simp
  next
    case (Suc i)
    have "\<not> marks ms d ! n" by (rule Cons.IH [of i]) (use Cons.prems n Suc ttl d in auto)
    with n d show ?thesis by simp
  qed
qed simp

text \<open>C40: Redelivered messages are dropped. The service repeats messages: in a sequence whose times do not decrease
  the first delivery of a message is taken, and one that comes within two minutes of a delivery that was
  taken is not, whatever messages and prunings lie between them.\<close>

theorem redelivery_dropped:
  assumes "sorted (map snd ms)" and "j < length ms"
  shows "((\<forall>k < j. fst (ms ! k) \<noteq> fst (ms ! j)) \<longrightarrow> marks ms New_Lark ! j) \<and>
    (\<forall>k < j. fst (ms ! k) = fst (ms ! j) \<and> marks ms New_Lark ! k \<and> snd (ms ! j) \<le> snd (ms ! k) + two_minutes \<longrightarrow>
      \<not> marks ms New_Lark ! j)"
proof -
  have "0 < lx_dedupeTTL New_Lark" "lx_dedupeTTL New_Lark = two_minutes" "lx_processed New_Lark = Map.empty"
    by (simp_all add: New_Lark_def two_minutes_def)
  then show ?thesis using marks_first [of New_Lark ms j] marks_again [OF assms(1) _ assms(2)] assms(2) by simp
qed

theorem redelivery_dropped_witness:
  "marks [(''m1'', 0), (''m2'', 5), (''m1'', two_minutes)] New_Lark ! 0 \<and>
   \<not> marks [(''m1'', 0), (''m2'', 5), (''m1'', two_minutes)] New_Lark ! 2"
proof -
  let ?ms = "[(''m1'', 0), (''m2'', 5), (''m1'', two_minutes)]"
  have s: "sorted (map snd ?ms)" by (simp add: two_minutes_def)
  have a: "marks ?ms New_Lark ! 0" using redelivery_dropped [OF s, of 0] by (simp del: marks.simps)
  have "\<forall>k < 2. fst (?ms ! k) = fst (?ms ! 2) \<and> marks ?ms New_Lark ! k \<and> snd (?ms ! 2) \<le> snd (?ms ! k) + two_minutes \<longrightarrow>
      \<not> marks ?ms New_Lark ! 2" using redelivery_dropped [OF s, of 2] by (simp del: marks.simps)
  from spec [OF this, of 0] a show ?thesis by (simp del: marks.simps)
qed

section \<open>Which messages reach the handler\<close>

text \<open>The handler is asked exactly for a message that has an identifier not seen before and a content that is
  not blank and no command; it gets the trimmed content and the session of the chat.\<close>

theorem handler_asked:
  assumes "le_handler env = Some h" and "le_commands env = NewProcessor"
    and "mid = TrimSpace (string_value (lm_id m))" and "content = TrimSpace (parseMessageContent env m)"
    and "lx_dedupeTTL c = two_minutes"
  shows "lx_asked (fst (snd (handleMessage env now (Some m) (c, w)))) = lx_asked c @
    (if mid \<noteq> [] \<and> lx_processed c mid = None \<and> content \<noteq> [] \<and> \<not> HasPrefix content ''/''
     then [(mid, case lx_sessions c (string_value (lm_chat m)) of Some (s, _) \<Rightarrow> s | None \<Rightarrow> string_value (lm_chat m), content)]
     else [])"
proof (cases "mid = [] \<or> lx_processed c mid \<noteq> None")
  case True
  then show ?thesis using assms(3)
    by (auto simp: handleMessage_def Let_def markMessageIfNew_def pruneProcessedMessages_def split: option.splits)
next
  case False
  obtain d where d: "markMessageIfNew mid now c = (True, d)"
    using mark_new(1) [of c mid now] assms(5) False by (cases "markMessageIfNew mid now c") (auto simp: two_minutes_def)
  have dd: "lx_asked d = lx_asked c" "lx_sessions d = lx_sessions c"
    using arg_cong [OF d, of snd] by (auto simp: markMessageIfNew_def pruneProcessedMessages_def Let_def split: option.splits if_splits)
  obtain s e where s: "getOrCreateSession (string_value (lm_chat m)) (string_value (lm_chatType m)) d = (s, e)" by fastforce
  have se: "lx_asked e = lx_asked c"
    "s = (case lx_sessions c (string_value (lm_chat m)) of Some (s, _) \<Rightarrow> s | None \<Rightarrow> string_value (lm_chat m))"
    using s dd by (auto simp: getOrCreateSession_def split: option.splits)
  have snd_beside: "fst (snd (beside f p)) = fst p" for f :: "'a callback" and p :: "lark_channel \<times> 'a"
    by (simp add: beside_def split: prod.split)
  have call: "lx_asked (fst (snd (f p))) = lx_asked (fst p)"
    if "may_call (Some (lark_environment env s chat)) word f" for f p chat word
    using that by cases (auto simp: lark_environment_def beside_def setSession_def Let_def split: option.splits prod.splits)
  have "lx_asked (fst (snd (handleCommand env content s (string_value (lm_chat m)) (e, w)))) = lx_asked e"
    if sl: "HasPrefix content ''/''"
  proof -
    let ?p = "(e, w)" and ?env = "Some (lark_environment env s (string_value (lm_chat m)))"
    obtain r q where r: "Process NewProcessor content ?env ?p = (r, q)" by (metis surj_pair)
    have "q = ?p \<or> (\<exists>word f. may_call ?env word f \<and> q = snd (f ?p))"
      using Process_effect [of content ?env ?p] r by simp
    then have "lx_asked (fst q) = lx_asked e" using call by fastforce
    then show ?thesis using r assms(2) by (auto simp: handleCommand_def snd_beside split: option.split sum.split)
  qed
  with False d s se assms(1,3,4) show ?thesis
    by (simp add: handleMessage_def Let_def ask_handler_def dd split: option.split prod.split)
qed

end
