(* ===== verification/Weixin_Channel.thy ===== *)
theory Weixin_Channel
  imports Commands App_Config
begin

text \<open>
  The Weixin channel (\<open>channel/weixin/channel.go\<close>, \<open>factory.go\<close>): incoming messages with media, commands,
  replies and notifications, and the choice of the account. The SDK, with its table of context tokens, and
  the handler are fields of \<open>weixin_env\<close>; \<open>'i\<close> is an item of a message. Log lines are left out.
\<close>

section \<open>The state\<close>

record media =
  md_pic :: string
  md_video :: string
  md_file :: string
  md_voice :: string

record 'i weixin_message =
  wm_isBot :: bool
  wm_from :: string
  wm_token :: string
  wm_items :: "'i list"

text \<open>The sessions of users.\<close>

type_synonym weixin_sessions = "string \<rightharpoonup> string"

text \<open>\<open>we_order\<close> is the order in which \<open>Range\<close> visits the sessions. Media are downloaded if \<open>we_media\<close>, that is
  if both the address of the CDN and the directory are configured.\<close>

record ('i, 'w) weixin_env =
  we_body :: "'i list \<Rightarrow> string"
  we_isMedia :: "'i \<Rightarrow> bool"
  we_media :: bool
  we_download :: "'i \<Rightarrow> 'w \<Rightarrow> (string + media option) \<times> 'w"
  we_setToken :: "string \<Rightarrow> string \<Rightarrow> 'w \<Rightarrow> 'w"
  we_getToken :: "string \<Rightarrow> 'w \<Rightarrow> string"
  we_plain :: "string \<Rightarrow> string"
  we_sendText :: "string \<Rightarrow> string \<Rightarrow> string \<Rightarrow> 'w callback"
  we_handler :: "string \<Rightarrow> string \<Rightarrow> 'w \<Rightarrow> (string \<times> string option) \<times> 'w"
  we_stop :: "'w callback option"
  we_clear :: "(string \<Rightarrow> 'w callback) option"
  we_commands :: "(weixin_sessions \<times> 'w) processor"
  we_names :: "string list"
  we_order :: "weixin_sessions \<Rightarrow> string list"

section \<open>Sessions and replies\<close>

definition getOrCreate :: "string \<Rightarrow> weixin_sessions \<Rightarrow> string \<times> weixin_sessions" where
  "getOrCreate userID ss = (let k = TrimSpace userID in
     if k = [] then ([], ss)
     else case ss k of
       Some s \<Rightarrow> (if TrimSpace s \<noteq> [] then (s, ss) else (k, ss(k \<mapsto> k)))
     | None \<Rightarrow> (k, ss(k \<mapsto> k)))"

definition set_weixin_session :: "string \<Rightarrow> string \<Rightarrow> weixin_sessions \<Rightarrow> weixin_sessions" where
  "set_weixin_session userID sessionID ss = (let k = TrimSpace userID; s = TrimSpace sessionID in
     if k = [] then ss else ss(k \<mapsto> (if s = [] then k else s)))"

definition sendText :: "('i, 'w) weixin_env \<Rightarrow> string \<Rightarrow> string \<Rightarrow> 'w callback" where
  "sendText env toUserID txt w =
     (let to_user = TrimSpace toUserID; t = TrimSpace txt in
      if to_user = [] \<or> t = [] then (None, w)
      else let token = TrimSpace (we_getToken env to_user w) in
        if token = [] then (Some (''weixin context token missing for '' @ to_user), w)
        else we_sendText env to_user token (we_plain env t) w)"

definition resolveUserID :: "('i, 'w) weixin_env \<Rightarrow> weixin_sessions \<Rightarrow> string \<Rightarrow> 'w \<Rightarrow> string" where
  "resolveUserID env ss session w =
     (let s = TrimSpace session in
      if s = [] then []
      else if TrimSpace (we_getToken env s w) \<noteq> [] then s
      else case find (\<lambda>u. case ss u of Some v \<Rightarrow> TrimSpace v = s | None \<Rightarrow> False) (we_order env ss) of
        Some u \<Rightarrow> u | None \<Rightarrow> s)"

definition notify_session :: "('i, 'w) weixin_env \<Rightarrow> weixin_sessions \<Rightarrow> string \<Rightarrow> string \<Rightarrow> 'w callback" where
  "notify_session env ss session txt w = (let s = TrimSpace session in
     if s = [] \<or> TrimSpace txt = [] then (None, w) else sendText env (resolveUserID env ss s w) txt w)"

section \<open>Commands\<close>

definition on_outside :: "'w callback \<Rightarrow> (weixin_sessions \<times> 'w) callback" where
  "on_outside f p = (case f (snd p) of (e, v) \<Rightarrow> (e, (fst p, v)))"

definition weixin_environment :: "('i, 'w) weixin_env \<Rightarrow> string \<Rightarrow> string \<Rightarrow> (weixin_sessions \<times> 'w) environment" where
  "weixin_environment env session userID = \<lparr>en_sessionID = session, en_stop = map_option on_outside (we_stop env),
     en_switch = Some (\<lambda>new p. (None, (set_weixin_session userID new (fst p), snd p))),
     en_clear = Some (case we_clear env of None \<Rightarrow> (\<lambda>p. (None, p)) | Some f \<Rightarrow> on_outside (f session)),
     en_commands = Some (map command_info.truncate (GetCommands (we_names env) (we_commands env))), en_helpSuffix = None\<rparr>"

definition weixin_command :: "('i, 'w) weixin_env \<Rightarrow> string \<Rightarrow> string \<Rightarrow> string \<Rightarrow> (weixin_sessions \<times> 'w) callback" where
  "weixin_command env line session userID p =
     (case Process (we_commands env) line (Some (weixin_environment env session userID)) p of (r, q) \<Rightarrow>
       (case r of
          None \<Rightarrow> (None, q)
        | Some (Inl e) \<Rightarrow> on_outside (sendText env userID (''Command error: '' @ e)) q
        | Some (Inr res) \<Rightarrow> on_outside (sendText env userID
            ((if cr_isError res then ''Error: '' else []) @ cr_message res)) q))"

section \<open>Messages\<close>

definition media_path :: "media \<Rightarrow> string" where
  "media_path m = (if md_pic m \<noteq> [] then md_pic m else if md_video m \<noteq> [] then md_video m
     else if md_file m \<noteq> [] then md_file m else md_voice m)"

text \<open>The text of a message, the path of its first medium, and whether the download failed.\<close>

definition buildInboundText :: "('i, 'w) weixin_env \<Rightarrow> 'i weixin_message \<Rightarrow> 'w \<Rightarrow> (string \<times> string \<times> string option) \<times> 'w" where
  "buildInboundText env m w =
     (let t = TrimSpace (we_body env (wm_items m)) in
      if \<not> we_media env then ((t, [], None), w)
      else case find (we_isMedia env) (wm_items m) of
        None \<Rightarrow> ((t, [], None), w)
      | Some item \<Rightarrow> (case we_download env item w of
            (Inl e, v) \<Rightarrow> ((t, [], Some e), v)
          | (Inr None, v) \<Rightarrow> ((t, [], None), v)
          | (Inr (Some md), v) \<Rightarrow> ((t, media_path md, None), v)))"

definition hasMediaItem :: "('i, 'w) weixin_env \<Rightarrow> 'i list \<Rightarrow> bool" where
  "hasMediaItem env items = list_ex (we_isMedia env) items"

text \<open>The content given to the handler; nothing is returned for an empty message.\<close>

definition weixin_content :: "('i, 'w) weixin_env \<Rightarrow> 'i weixin_message \<Rightarrow> string \<Rightarrow> string \<Rightarrow> string option" where
  "weixin_content env m txt path = (let content = TrimSpace txt in
     if content \<noteq> [] then Some content
     else if path \<noteq> [] then Some (''[received media] '' @ Base path)
     else if hasMediaItem env (wm_items m) then Some ''[received media]''
     else None)"

definition weixin_answer :: "('i, 'w) weixin_env \<Rightarrow> string \<Rightarrow> string \<Rightarrow> string \<Rightarrow> 'w callback" where
  "weixin_answer env userID session content w = (case we_handler env session content w of
       ((_, Some e), v) \<Rightarrow> (Some e, snd (sendText env userID (''Error: '' @ e) v))
     | ((r, None), v) \<Rightarrow> (if TrimSpace r = [] then (None, v) else sendText env userID r v))"

definition weixin_message :: "('i, 'w) weixin_env \<Rightarrow> 'i weixin_message \<Rightarrow> (weixin_sessions \<times> 'w) callback" where
  "weixin_message env m p =
     (let userID = TrimSpace (wm_from m); token = TrimSpace (wm_token m) in
      if wm_isBot m \<or> userID = [] then (None, p)
      else let w = (if token \<noteq> [] then we_setToken env userID token (snd p) else snd p) in
        case buildInboundText env m w of ((txt, path, _), v) \<Rightarrow>
          (case weixin_content env m txt path of
             None \<Rightarrow> (None, (fst p, v))
           | Some content \<Rightarrow> (case getOrCreate userID (fst p) of (session, ss) \<Rightarrow>
               (if HasPrefix content ''/'' then weixin_command env content session userID (ss, v)
                else on_outside (weixin_answer env userID session content) (ss, v)))))"

text \<open>Errors are logged and the next message is handled.\<close>

definition handleMessages :: "('i, 'w) weixin_env \<Rightarrow> 'i weixin_message list \<Rightarrow> weixin_sessions \<times> 'w \<Rightarrow> weixin_sessions \<times> 'w" where
  "handleMessages env ms p = fold (\<lambda>m q. snd (weixin_message env m q)) ms p"

section \<open>The account\<close>

record account =
  ac_id :: string
  ac_token :: string
  ac_baseURL :: string

text \<open>The environment, the home directory, the files of saved accounts: \<open>ae_load\<close> reads the account of an
  identifier, \<open>ae_list\<close> a directory as names with whether they are directories, \<open>ae_account\<close> a file.\<close>

record account_env =
  ae_getenv :: "string \<Rightarrow> string"
  ae_home :: "string option"
  ae_defaultURL :: string
  ae_load :: "string \<Rightarrow> string \<Rightarrow> string + account option"
  ae_list :: "string \<Rightarrow> (string + (string \<times> bool) list) option"
  ae_account :: "string \<Rightarrow> string + account"

fun firstNonEmpty :: "string list \<Rightarrow> string" where
  "firstNonEmpty [] = []"
| "firstNonEmpty (v # vs) = (if TrimSpace v \<noteq> [] then TrimSpace v else firstNonEmpty vs)"

definition DefaultRootDir :: "account_env \<Rightarrow> string" where
  "DefaultRootDir env = (case ae_home env of
       Some home \<Rightarrow> (if TrimSpace home = [] then Path_Join [''.blades'', ''weixin''] else Path_Join [home, ''.blades'', ''weixin''])
     | None \<Rightarrow> Path_Join [''.blades'', ''weixin''])"

definition DefaultAccountDir :: "account_env \<Rightarrow> string" where
  "DefaultAccountDir env = Path_Join [DefaultRootDir env, ''account'']"

definition syncBufPath :: "string \<Rightarrow> string \<Rightarrow> string" where
  "syncBufPath stateDir accountID = Path_Join [stateDir, ''sync'', accountID @ ''.sync.json'']"

text \<open>A directory that does not exist has no accounts.\<close>

definition ListSavedAccounts :: "account_env \<Rightarrow> string \<Rightarrow> string + account list" where
  "ListSavedAccounts env dir = (case ae_list env dir of
       None \<Rightarrow> Inr []
     | Some (Inl e) \<Rightarrow> Inl e
     | Some (Inr entries) \<Rightarrow> ebind
         (map_err (\<lambda>(name, _). ae_account env (Path_Join [dir, name]))
            (filter (\<lambda>(name, isDir). \<not> isDir \<and> HasSuffix name ''.json'' \<and> \<not> HasSuffix name ''.sync.json'') entries))
         (\<lambda>as. Inr (filter (\<lambda>a. TrimSpace (ac_id a) \<noteq> []) as)))"

text \<open>A saved account, with what the configuration sets.\<close>

definition override_account :: "weixin_config \<Rightarrow> account \<Rightarrow> account" where
  "override_account cfg a = a\<lparr>
     ac_baseURL := (if TrimSpace (wc_baseURL cfg) \<noteq> [] then TrimSpace (wc_baseURL cfg) else ac_baseURL a),
     ac_token := (if TrimSpace (wc_botToken cfg) \<noteq> [] then TrimSpace (wc_botToken cfg) else ac_token a)\<rparr>"

definition select_account :: "account_env \<Rightarrow> weixin_config \<Rightarrow> string \<Rightarrow> account \<Rightarrow> string + account" where
  "select_account env cfg accountDir a =
     (if ac_id a = [] \<and> accountDir \<noteq> [] then (case ListSavedAccounts env accountDir of
        Inl e \<Rightarrow> Inl (''list weixin accounts from '' @ accountDir @ '': '' @ e)
      | Inr [] \<Rightarrow> Inr a
      | Inr [b] \<Rightarrow> Inr (override_account cfg b)
      | Inr _ \<Rightarrow> Inl (''multiple weixin accounts found in '' @ accountDir @ ''; set weixin.accountID''))
      else Inr a)"

definition load_token :: "account_env \<Rightarrow> weixin_config \<Rightarrow> string \<Rightarrow> bool \<Rightarrow> account \<Rightarrow> string + account" where
  "load_token env cfg accountDir may_load a =
     (if ac_token a = [] \<and> accountDir \<noteq> [] \<and> may_load then (case ae_load env accountDir (ac_id a) of
        Inl e \<Rightarrow> Inl (''load weixin account '' @ Quote (ac_id a) @ '' from '' @ accountDir @ '': '' @ e)
      | Inr None \<Rightarrow> Inr a
      | Inr (Some b) \<Rightarrow> Inr (override_account cfg b))
      else Inr a)"

definition account_directory :: "account_env \<Rightarrow> weixin_config \<Rightarrow> string" where
  "account_directory env cfg = ExpandTilde (ae_home env) (TrimSpace (firstNonEmpty
     [wc_accountDir cfg, TrimSpace (ae_getenv env ''WEIXIN_ACCOUNT_DIR''), DefaultAccountDir env]))"

text \<open>The channel.\<close>

record weixin_settings =
  wn_account :: account
  wn_syncBufPath :: string
  wn_routeTag :: string
  wn_channelVersion :: string
  wn_cdnBaseURL :: string
  wn_mediaDir :: string
  wn_allowFrom :: "string list"
  wn_debug :: bool

definition weixin_from_config :: "account_env \<Rightarrow> weixin_config \<Rightarrow> string + weixin_settings" where
  "weixin_from_config env cfg =
     (let envDir = TrimSpace (ae_getenv env ''WEIXIN_ACCOUNT_DIR'');
          explicit = (TrimSpace (wc_accountDir cfg) \<noteq> [] \<or> envDir \<noteq> []);
          accountDir = account_directory env cfg;
          accountID = firstNonEmpty [wc_accountID cfg, ae_getenv env ''WEIXIN_ACCOUNT_ID''];
          a = \<lparr>ac_id = TrimSpace accountID,
            ac_token = TrimSpace (firstNonEmpty [wc_botToken cfg, ae_getenv env ''WEIXIN_BOT_TOKEN'']),
            ac_baseURL = TrimSpace (firstNonEmpty [wc_baseURL cfg, ae_getenv env ''WEIXIN_BASE_URL'', ae_defaultURL env])\<rparr>
      in ebind (select_account env cfg accountDir a) (\<lambda>a.
        if ac_id a = [] then Inl ''no weixin account selected; run `blades weixin login` or set weixin.accountDir / weixin.accountID''
        else ebind (load_token env cfg accountDir (explicit \<or> TrimSpace accountID = []) a) (\<lambda>a.
          if TrimSpace (ac_token a) = [] then Inl (''weixin account '' @ Quote (ac_id a) @
            '' is missing bot token; re-run `blades weixin login` or set weixin.botToken'')
          else (let b = (if TrimSpace (ac_baseURL a) = [] then a\<lparr>ac_baseURL := ae_defaultURL env\<rparr> else a);
                    stateDir = ExpandTilde (ae_home env) (TrimSpace (firstNonEmpty
                      [wc_stateDir cfg, ae_getenv env ''WEIXIN_STATE_DIR'', DefaultRootDir env]))
                in Inr \<lparr>wn_account = b, wn_syncBufPath = TrimSpace (syncBufPath stateDir (ac_id b)),
                     wn_routeTag = TrimSpace (firstNonEmpty [wc_routeTag cfg, ae_getenv env ''WEIXIN_ROUTE_TAG'']),
                     wn_channelVersion = TrimSpace (firstNonEmpty
                       [wc_channelVersion cfg, ae_getenv env ''WEIXIN_CHANNEL_VERSION'', ''blades'']),
                     wn_cdnBaseURL = TrimSpace (firstNonEmpty [wc_cdnBaseURL cfg, ae_getenv env ''WEIXIN_CDN_BASE_URL'']),
                     wn_mediaDir = ExpandTilde (ae_home env) (TrimSpace (firstNonEmpty
                       [wc_mediaDir cfg, Path_Join [stateDir, ''media'']])),
                     wn_allowFrom = wc_allowFrom cfg, wn_debug = wc_debug cfg\<rparr>))))"

section \<open>Notifications find the user\<close>

lemma find_order:
  assumes "set order = dom ss" and "\<exists>u. P u" and "\<And>u. P u \<Longrightarrow> u \<in> dom ss"
  shows "\<exists>u. find P order = Some u \<and> P u"
proof (cases "find P order")
  case None
  obtain u where u: "P u" using assms(2) by blast
  then have "u \<in> set order" using assms(1,3) by blast
  with u None show ?thesis by (auto simp only: find_None_iff)
next
  case (Some u)
  then show ?thesis by (auto simp: find_Some_iff)
qed

text \<open>A notification to a session reaches a user of it: after a user switched to a session that is no user's
  own conversation, text sent to that session goes to a user whose session it is.\<close>

theorem notification_reaches_user:
  assumes "set (we_order env ss) = dom ss" and "ss = set_weixin_session user s ss0" and "TrimSpace user \<noteq> []"
    and "TrimSpace s \<noteq> []" and "TrimSpace (we_getToken env (TrimSpace s) w) = []" and "TrimSpace txt \<noteq> []"
  shows "\<exists>u v. ss u = Some v \<and> TrimSpace v = TrimSpace s \<and> notify_session env ss s txt w = sendText env u txt w"
proof -
  let ?P = "\<lambda>u. case ss u of Some v \<Rightarrow> TrimSpace v = TrimSpace s | None \<Rightarrow> False"
  have "?P (TrimSpace user)" using assms(2-4) by (simp add: set_weixin_session_def Let_def)
  moreover have "?P u \<Longrightarrow> u \<in> dom ss" for u by (auto split: option.splits)
  ultimately obtain u where u: "find ?P (we_order env ss) = Some u" "?P u" using find_order [OF assms(1), of ?P] by blast
  then show ?thesis using assms(4-6)
    by (auto simp: notify_session_def resolveUserID_def Let_def split: option.splits)
qed

end
