(* ===== verification/Cron_Laws.thy ===== *)
theory Cron_Laws
  imports Cron
begin

text \<open>
  The laws of the job scheduler: when computed runs lie in the future, what a store file means and
  that every operation of the service acts on that meaning, and what a tick does to the jobs.
\<close>

named_theorems job_simps \<open>projections of jobs after an operation\<close>

section \<open>Computed runs\<close>

text \<open>What the cron library documents: the next activation is later than the given time, or the
  zero time if there is none.\<close>

definition cron_lib_ok :: "cron_env \<Rightarrow> bool" where
  "cron_lib_ok env \<longleftrightarrow> (\<forall>e f loc b. ce_parse env e = Some f \<longrightarrow> f loc b = 0 \<or> f loc b > b)"

text \<open>The largest interval whose nanoseconds fit in a duration.\<close>

definition no_overflow :: "schedule \<Rightarrow> bool" where
  "no_overflow s \<longleftrightarrow> sint (sch_everyMs s) \<le> 9223372036854"

lemma millis_exact: "0 < sint ms \<Longrightarrow> sint ms \<le> 9223372036854 \<Longrightarrow> sint (millis ms) = sint ms * 1000000"
  by (simp add: millis_def sint_word_ariths signed_take_bit_int_eq_self)

lemma computeNextRun_later:
  assumes "cron_lib_ok env" and "no_overflow s"
  shows "computeNextRun env s base = 0 \<or> computeNextRun env s base > base"
  using assms millis_exact [of "sch_everyMs s"]
  by (auto simp: computeNextRun_def Let_def cron_lib_ok_def no_overflow_def split: option.split)

section \<open>Jobs after an operation\<close>

lemma set_next_simps [simp, job_simps]:
  "job_id (set_next t j) = job_id j" "job_enabled (set_next t j) = job_enabled j"
  "job_schedule (set_next t j) = job_schedule j" "next_run (set_next t j) = t"
  "deleteAfterRun (set_next t j) = deleteAfterRun j"
  by (simp_all add: set_next_def)

lemma after_run_simps [simp, job_simps]:
  "job_id (after_run env now j) = job_id j" "job_schedule (after_run env now j) = job_schedule j"
  "deleteAfterRun (after_run env now j) = deleteAfterRun j"
  by (simp_all add: after_run_def)

lemma record_run_simps [simp, job_simps]:
  "job_id (record_run t u r j) = job_id j" "job_schedule (record_run t u r j) = job_schedule j"
  "job_enabled (record_run t u r j) = job_enabled j" "next_run (record_run t u r j) = next_run j"
  "deleteAfterRun (record_run t u r j) = deleteAfterRun j"
  by (simp_all add: record_run_def)

lemma enable_job_simps [simp, job_simps]:
  "job_id (enable_job env t u e j) = job_id j" "job_schedule (enable_job env t u e j) = job_schedule j"
  by (simp_all add: enable_job_def)

lemma after_run_not_due:
  assumes "cron_lib_ok env" and "no_overflow (job_schedule j)" and "t \<le> now"
  shows "\<not> is_due t (after_run env now j)"
  using computeNextRun_later [OF assms(1,2), of now] assms(3) by (auto simp: after_run_def is_due_def)

lemma update_first_ids: "(\<And>j. job_id (f j) = job_id j) \<Longrightarrow> map job_id (update_first i f js) = map job_id js"
  by (induction js) auto

lemma update_first_mem: "j \<in> set (update_first i f js) \<Longrightarrow> j \<in> set js \<or> (\<exists>k \<in> set js. job_id k = i \<and> j = f k)"
  by (induction js) (auto split: if_splits)

lemma update_first_spares:
  assumes "distinct (map job_id js)" and "j \<in> set (update_first i f js)" and "job_id j = i"
    and "\<And>j. job_id (f j) = job_id j"
  shows "\<exists>k \<in> set js. j = f k"
  using assms by (induction js) (auto split: if_splits)

lemma removeJobSlice_ids [simp]: "i \<notin> job_id ` set (removeJobSlice js i)"
  by (auto simp: removeJobSlice_def)

lemma finish_run_mem:
  assumes "j \<in> set (finish_run env t u v i res js)"
  shows "j \<in> set js \<or> (\<exists>k \<in> set js. job_id k = i \<and> j = after_run env v (record_run t u res k))"
  using assms
  by (auto simp: finish_run_def removeJobSlice_def split: option.splits if_splits dest!: update_first_mem)

lemma distinct_removeJobSlice: "distinct (map job_id js) \<Longrightarrow> distinct (map job_id (removeJobSlice js i))"
  by (simp add: removeJobSlice_def distinct_map_filter)

lemma distinct_finish_run:
  "distinct (map job_id js) \<Longrightarrow> distinct (map job_id (finish_run env t u v i res js))"
  by (auto simp: finish_run_def update_first_ids distinct_removeJobSlice split: option.split)

lemma removeJobSlice_count: "count_list (map job_id (removeJobSlice js k)) i \<le> count_list (map job_id js) i"
  by (induction js) (auto simp: removeJobSlice_def)

lemma finish_run_count:
  "count_list (map job_id (finish_run env t u v k res js)) i \<le> count_list (map job_id js) i"
  by (auto simp: finish_run_def update_first_ids removeJobSlice_count split: option.split)

section \<open>What the store file means\<close>

text \<open>The store \<open>loadLocked\<close> makes of the file.\<close>

definition file_store :: "cron_env \<Rightarrow> string \<Rightarrow> (string \<times> time) option \<Rightarrow> store" where
  "file_store env path file = (case file of None \<Rightarrow> fresh_store
     | Some (raw, _) \<Rightarrow>
         (if TrimSpace raw = [] then fresh_store
          else case decodeStore env (TrimSpace raw) path of None \<Rightarrow> fresh_store
            | Some st \<Rightarrow> if version st = 0 then st\<lparr>version := 1\<rparr> else st))"

definition disk_store :: "cron_env \<Rightarrow> 'p service \<Rightarrow> store" where
  "disk_store env s = file_store env (sv_path s) (d_file (sv_disk s))"

definition disk_works :: "disk \<Rightarrow> bool" where
  "disk_works d \<longleftrightarrow> \<not> d_stat_fails d \<and> \<not> d_read_fails d \<and> \<not> d_write_fails d"

text \<open>What the codecs promise: an encoded store is not blank and decodes to itself.\<close>

definition codec_ok :: "cron_env \<Rightarrow> string \<Rightarrow> bool" where
  "codec_ok env path \<longleftrightarrow> (\<forall>st. version st \<noteq> 0 \<longrightarrow> (\<exists>data. encodeStore env st path = Some data \<and>
     TrimSpace data \<noteq> [] \<and> decodeStore env (TrimSpace data) path = Some st))"

text \<open>The store in memory is that of the file, unless the file was changed since or nothing is
  loaded.\<close>

definition in_sync :: "cron_env \<Rightarrow> 'p service \<Rightarrow> bool" where
  "in_sync env s \<longleftrightarrow> disk_works (sv_disk s) \<and>
     (version (sv_st s) \<noteq> 0 \<longrightarrow> map_option snd (d_file (sv_disk s)) \<in> {None, Some (sv_lastMtime s)} \<longrightarrow>
        sv_st s = disk_store env s)"

lemma disk_store_version [simp]: "version (disk_store env s) \<noteq> 0"
  by (auto simp: disk_store_def file_store_def split: option.split)

lemma disk_store_cong: "sv_disk s = sv_disk t \<Longrightarrow> sv_path s = sv_path t \<Longrightarrow> disk_store env s = disk_store env t"
  by (simp add: disk_store_def)

lemma disk_store_other [simp]:
  "disk_store env (s\<lparr>sv_st := a\<rparr>) = disk_store env s" "disk_store env (s\<lparr>sv_lastMtime := b\<rparr>) = disk_store env s"
  "disk_store env (s\<lparr>sv_knownIDs := c\<rparr>) = disk_store env s" "disk_store env (s\<lparr>sv_timer := e\<rparr>) = disk_store env s"
  "disk_store env (s\<lparr>sv_outside := p\<rparr>) = disk_store env s"
  by (simp_all add: disk_store_def)

lemma loadLocked_sync:
  assumes "in_sync env s"
  shows "\<exists>mt. loadLocked env s = (None, s\<lparr>sv_st := disk_store env s, sv_lastMtime := mt\<rparr>) \<and>
    in_sync env (s\<lparr>sv_st := disk_store env s, sv_lastMtime := mt\<rparr>)"
proof -
  have f: "\<not> d_stat_fails (sv_disk s)" "\<not> d_read_fails (sv_disk s)"
    using assms by (auto simp: in_sync_def disk_works_def)
  define mt where "mt = (case d_file (sv_disk s) of None \<Rightarrow> sv_lastMtime s | Some (_, t) \<Rightarrow> t)"
  have "loadLocked env s = (None, s\<lparr>sv_st := disk_store env s, sv_lastMtime := mt\<rparr>)"
  proof (cases "version (sv_st s) \<noteq> 0 \<and> map_option snd (d_file (sv_disk s)) \<in> {None, Some (sv_lastMtime s)}")
    case True
    then have "sv_st s = disk_store env s" using assms by (auto simp: in_sync_def)
    moreover have "check_mtime s = s" "mt = sv_lastMtime s"
      using True f by (auto simp: check_mtime_def stat_mtime_def mt_def split: option.splits)
    ultimately show ?thesis using True by (simp add: loadLocked_def Let_def)
  next
    case False
    then have "version (sv_st (check_mtime s)) = 0"
      using f by (auto simp: check_mtime_def stat_mtime_def split: option.splits)
    moreover have "check_mtime s = s\<lparr>sv_st := sv_st (check_mtime s), sv_lastMtime := mt\<rparr>"
      using f by (auto simp: check_mtime_def stat_mtime_def mt_def split: option.splits)
    ultimately obtain st where "check_mtime s = s\<lparr>sv_st := st, sv_lastMtime := mt\<rparr>" "version st = 0" by metis
    then show ?thesis using f
      by (auto simp: loadLocked_def Let_def read_file_def disk_store_def file_store_def split: option.splits)
  qed
  moreover have "in_sync env (s\<lparr>sv_st := disk_store env s, sv_lastMtime := mt\<rparr>)"
    using assms by (simp add: in_sync_def)
  ultimately show ?thesis by blast
qed

lemma saveLocked_sync:
  assumes "codec_ok env (sv_path s)" and "disk_works (sv_disk s)" and "version (sv_st s) \<noteq> 0"
  shows "\<exists>d mt. saveLocked env s = (None, s\<lparr>sv_disk := d, sv_lastMtime := mt\<rparr>) \<and> disk_works d \<and>
    d_clock d = d_clock (sv_disk s) \<and> disk_store env (s\<lparr>sv_disk := d, sv_lastMtime := mt\<rparr>) = sv_st s"
proof -
  obtain data where d: "encodeStore env (sv_st s) (sv_path s) = Some data" "TrimSpace data \<noteq> []"
    "decodeStore env (TrimSpace data) (sv_path s) = Some (sv_st s)"
    using assms(1,3) unfolding codec_ok_def by blast
  with assms(2,3) show ?thesis
    by (auto simp: saveLocked_def disk_works_def stat_mtime_def disk_store_def file_store_def Let_def)
qed

section \<open>The store as an interface\<close>

text \<open>What the operations of the service rely on: loading brings the file into memory, saving makes the
  file the store in memory, and both succeed while the disk works.\<close>

locale durable_store =
  fixes load save :: "'s \<Rightarrow> 'e option \<times> 's" and mem disk :: "'s \<Rightarrow> store" and works sync :: "'s \<Rightarrow> bool"
    and modify :: "(job list \<Rightarrow> job list) \<Rightarrow> 's \<Rightarrow> 's"
  assumes load_law: "sync s \<Longrightarrow> \<exists>s'. load s = (None, s') \<and> sync s' \<and> works s' \<and> mem s' = disk s \<and> disk s' = disk s"
    and save_law: "works s \<Longrightarrow> version (mem s) \<noteq> 0 \<Longrightarrow>
      \<exists>s'. save s = (None, s') \<and> sync s' \<and> mem s' = mem s \<and> disk s' = mem s"
    and modify_law: "works s \<Longrightarrow> works (modify f s)" "mem (modify f s) = (mem s)\<lparr>jobs := f (jobs (mem s))\<rparr>"
    and disk_law: "version (disk s) \<noteq> 0"
begin

text \<open>Load, modify and save: the file changes by the modification.\<close>

lemma update_durable:
  assumes "sync s"
  obtains s1 s2 where "load s = (None, s1)" "mem s1 = disk s" "sync s1" "disk s1 = disk s"
    "save (modify f s1) = (None, s2)" "sync s2" "mem s2 = disk s2" "disk s2 = (disk s)\<lparr>jobs := f (jobs (disk s))\<rparr>"
proof -
  obtain s1 where s1: "load s = (None, s1)" "sync s1" "works s1" "mem s1 = disk s" "disk s1 = disk s"
    using load_law [OF assms] by blast
  have "works (modify f s1)" "version (mem (modify f s1)) \<noteq> 0"
    using s1 modify_law disk_law [of s] by auto
  then obtain s2 where "save (modify f s1) = (None, s2)" "sync s2" "mem s2 = mem (modify f s1)"
    "disk s2 = mem (modify f s1)" using save_law by blast
  with s1 modify_law(2) that show thesis by simp
qed

text \<open>What was saved is what a later load finds.\<close>

lemma load_after_save:
  assumes "works s" and "version (mem s) \<noteq> 0"
  shows "\<exists>s1 s2. save s = (None, s1) \<and> load s1 = (None, s2) \<and> mem s2 = mem s"
  using save_law [OF assms] load_law by metis

end

definition works :: "cron_env \<Rightarrow> 'p service \<Rightarrow> bool" where
  "works env s \<longleftrightarrow> codec_ok env (sv_path s) \<and> disk_works (sv_disk s)"

definition synced :: "cron_env \<Rightarrow> 'p service \<Rightarrow> bool" where
  "synced env s \<longleftrightarrow> codec_ok env (sv_path s) \<and> in_sync env s"

lemma synced_intro:
  "codec_ok env (sv_path s) \<Longrightarrow> disk_works (sv_disk s) \<Longrightarrow> sv_st s = disk_store env s \<Longrightarrow> synced env s"
  by (simp add: synced_def in_sync_def)

lemma synced_other [simp]:
  "synced env (s\<lparr>sv_timer := t\<rparr>) = synced env s" "synced env (s\<lparr>sv_knownIDs := k\<rparr>) = synced env s"
  "synced env (s\<lparr>sv_outside := p\<rparr>) = synced env s"
  by (simp_all add: synced_def in_sync_def)

interpretation cron_file: durable_store "loadLocked env" "saveLocked env" sv_st "disk_store env"
    "works env" "synced env" update_store for env
proof
  fix s :: "'a service"
  assume s: "synced env s"
  then obtain mt where "loadLocked env s = (None, s\<lparr>sv_st := disk_store env s, sv_lastMtime := mt\<rparr>)"
    using loadLocked_sync by (metis synced_def)
  with s show "\<exists>s'. loadLocked env s = (None, s') \<and> synced env s' \<and> works env s' \<and> sv_st s' = disk_store env s \<and>
      disk_store env s' = disk_store env s"
    by (auto simp: works_def synced_def in_sync_def intro: synced_intro)
next
  fix s :: "'a service"
  assume "works env s" and v: "version (sv_st s) \<noteq> 0"
  then have c: "codec_ok env (sv_path s)" "disk_works (sv_disk s)" by (auto simp: works_def)
  from saveLocked_sync [OF this v] obtain d mt where "saveLocked env s = (None, s\<lparr>sv_disk := d, sv_lastMtime := mt\<rparr>)"
    "disk_works d" "disk_store env (s\<lparr>sv_disk := d, sv_lastMtime := mt\<rparr>) = sv_st s" by blast
  with c show "\<exists>s'. saveLocked env s = (None, s') \<and> synced env s' \<and> sv_st s' = sv_st s \<and> disk_store env s' = sv_st s"
    by (auto intro: synced_intro)
qed (auto simp: works_def update_store_def)

section \<open>The operations on the table of jobs\<close>

definition table :: "cron_env \<Rightarrow> 'p service \<Rightarrow> job list" where
  "table env s = jobs (disk_store env s)"

text \<open>A state in which memory and file agree: every operation leaves one.\<close>

definition loaded :: "cron_env \<Rightarrow> 'p service \<Rightarrow> bool" where
  "loaded env s \<longleftrightarrow> synced env s \<and> sv_st s = disk_store env s"

lemma loaded_table: "loaded env s \<Longrightarrow> jobs (sv_st s) = table env s"
  by (simp add: loaded_def table_def)

lemma loaded_other [simp]:
  "loaded env (s\<lparr>sv_timer := t\<rparr>) = loaded env s" "loaded env (s\<lparr>sv_knownIDs := k\<rparr>) = loaded env s"
  "loaded env (s\<lparr>sv_outside := p\<rparr>) = loaded env s"
  "table env (s\<lparr>sv_timer := t\<rparr>) = table env s" "table env (s\<lparr>sv_knownIDs := k\<rparr>) = table env s"
  "table env (s\<lparr>sv_outside := p\<rparr>) = table env s"
  by (simp_all add: loaded_def table_def)

lemma arm_other [simp]:
  "loaded env (armTimerLocked now s) = loaded env s" "table env (armTimerLocked now s) = table env s"
  by (simp_all add: armTimerLocked_def Let_def)

lemma AddJob_table:
  assumes "synced env s"
  shows "\<exists>s'. AddJob env now now' i name sch pl del s =
      (if computeNextRun env sch now = 0 then Inl (NoFutureRun (sch_kind sch)) else Inr (new_job env now i name sch pl del), s')
    \<and> loaded env s' \<and> table env s' = table env s @
       (if computeNextRun env sch now = 0 then [] else [new_job env now i name sch pl del])"
proof -
  obtain s1 s2 where s: "loadLocked env s = (None, s1)" "sv_st s1 = disk_store env s" "synced env s1"
    "disk_store env s1 = disk_store env s"
    "saveLocked env (update_store (\<lambda>js. js @ [new_job env now i name sch pl del]) s1) = (None, s2)" "synced env s2"
    "sv_st s2 = disk_store env s2"
    "disk_store env s2 = (disk_store env s)\<lparr>jobs := jobs (disk_store env s) @ [new_job env now i name sch pl del]\<rparr>"
    by (rule cron_file.update_durable [OF assms])
  then have "loaded env s2" "table env s2 = table env s @ [new_job env now i name sch pl del]"
    "loaded env s1" "table env s1 = table env s"
    by (simp_all add: loaded_def table_def)
  with s(1,5) show ?thesis by (auto simp: AddJob_def Let_def)
qed

lemma removeJobSlice_absent: "i \<notin> job_id ` set js \<Longrightarrow> removeJobSlice js i = js"
  by (auto simp: removeJobSlice_def intro!: filter_True)

lemma removeJobSlice_length: "length (removeJobSlice js i) = length js \<longleftrightarrow> i \<notin> job_id ` set js"
proof
  assume "length (removeJobSlice js i) = length js"
  then have "\<forall>j \<in> set js. job_id j \<noteq> i"
    using length_filter_less [of _ js "\<lambda>j. job_id j \<noteq> i"] unfolding removeJobSlice_def by force
  then show "i \<notin> job_id ` set js" by auto
qed (simp add: removeJobSlice_absent)

lemma RemoveJob_table:
  assumes "synced env s"
  shows "\<exists>s'. RemoveJob env now i s = (Inr (i \<in> job_id ` set (table env s)), s') \<and> loaded env s' \<and>
    table env s' = removeJobSlice (table env s) i"
proof -
  let ?k = "\<lambda>s. s\<lparr>sv_knownIDs := map_option (\<lambda>ks. ks - {i}) (sv_knownIDs s)\<rparr>"
  obtain s1 where s: "loadLocked env s = (None, s1)" "synced env s1" "works env s1" "sv_st s1 = disk_store env s"
    "disk_store env s1 = disk_store env s"
    using cron_file.load_law [OF assms] by blast
  have j: "jobs (sv_st (update_store f s1)) = f (table env s)" for f using s(4) by (simp add: update_store_def table_def)
  show ?thesis
  proof (cases "i \<in> job_id ` set (table env s)")
    case False
    then have "update_store (\<lambda>js. removeJobSlice js i) s1 = s1"
      using s(4) by (simp add: update_store_def table_def removeJobSlice_absent)
    with False s show ?thesis by (simp add: RemoveJob_def Let_def loaded_def table_def removeJobSlice_absent)
  next
    case True
    have w: "works env (?k (update_store (\<lambda>js. removeJobSlice js i) s1))"
      using s(3) by (simp add: works_def update_store_def)
    have "version (sv_st (?k (update_store (\<lambda>js. removeJobSlice js i) s1))) \<noteq> 0"
      using s(4) by (simp add: update_store_def)
    from cron_file.save_law [OF w this] obtain s2 where
      s2: "saveLocked env (?k (update_store (\<lambda>js. removeJobSlice js i) s1)) = (None, s2)" "synced env s2"
      "sv_st s2 = sv_st (update_store (\<lambda>js. removeJobSlice js i) s1)"
      "disk_store env s2 = sv_st (update_store (\<lambda>js. removeJobSlice js i) s1)" by auto
    then have "loaded env s2" "table env s2 = removeJobSlice (table env s) i"
      using j by (simp_all add: loaded_def table_def)
    moreover have "length (removeJobSlice (table env s) i) \<noteq> length (jobs (sv_st s1))"
      using True s(4) removeJobSlice_length [of "table env s" i] by (simp add: table_def)
    ultimately show ?thesis using True s(1) s2(1) j by (simp add: RemoveJob_def Let_def)
  qed
qed

lemma update_first_absent: "i \<notin> job_id ` set js \<Longrightarrow> update_first i f js = js"
  by (induction js) auto

lemma EnableJob_table:
  assumes "synced env s"
  shows "\<exists>s'. EnableJob env now now2 now3 i enable s = (Inr (i \<in> job_id ` set (table env s)), s') \<and> loaded env s' \<and>
    table env s' = update_first i (enable_job env now now2 enable) (table env s)"
proof -
  obtain s1 s2 where s: "loadLocked env s = (None, s1)" "sv_st s1 = disk_store env s" "synced env s1"
    "disk_store env s1 = disk_store env s"
    "saveLocked env (update_store (update_first i (enable_job env now now2 enable)) s1) = (None, s2)" "synced env s2"
    "sv_st s2 = disk_store env s2"
    "disk_store env s2 = (disk_store env s)\<lparr>jobs := update_first i (enable_job env now now2 enable) (jobs (disk_store env s))\<rparr>"
    by (rule cron_file.update_durable [OF assms])
  then have "loaded env s2" "table env s2 = update_first i (enable_job env now now2 enable) (table env s)"
    "loaded env s1" "table env s1 = table env s"
    by (simp_all add: loaded_def table_def)
  with s(1,2,5) show ?thesis
    by (auto simp: EnableJob_def jobIDSet_def update_first_absent table_def [symmetric])
qed

lemma ListJobs_table:
  assumes "synced env s"
  shows "\<exists>s'. ListJobs env all s = (Inr (sort_jobs (filter (\<lambda>j. all \<or> job_enabled j) (table env s))), s') \<and>
    loaded env s' \<and> table env s' = table env s"
  using cron_file.load_law [OF assms] by (auto simp: ListJobs_def loaded_def table_def)

lemma save_loaded:
  assumes "loaded env s"
  shows "\<exists>s'. saveLocked env (update_store f s) = (None, s') \<and> loaded env s' \<and> table env s' = f (table env s)"
proof -
  have st: "sv_st s = disk_store env s" using assms by (simp add: loaded_def)
  have w: "works env s" using assms unfolding loaded_def synced_def in_sync_def works_def by blast
  have "works env (update_store f s)" "version (sv_st (update_store f s)) \<noteq> 0"
    using w by (simp_all add: works_def update_store_def) (simp add: st)
  from cron_file.save_law [OF this] obtain s' where s': "saveLocked env (update_store f s) = (None, s')" "synced env s'"
    "sv_st s' = sv_st (update_store f s)" "disk_store env s' = sv_st (update_store f s)" by blast
  then have "loaded env s'" "table env s' = f (table env s)"
    using loaded_table [OF assms] by (simp_all add: loaded_def table_def update_store_def)
  with s'(1) show ?thesis by blast
qed

lemma execute_table:
  assumes "loaded env s" and "call_handler j s = (res, s1)"
  shows "fst (execute env (t, u, v) j s) = res" and "loaded env (snd (execute env (t, u, v) j s))"
    and "table env (snd (execute env (t, u, v) j s)) = finish_run env t u v (job_id j) res (table env s)"
proof -
  have "loaded env s1" "table env s1 = table env s"
    using assms by (auto simp: call_handler_def split: option.splits prod.splits)
  with save_loaded [OF this(1), of "finish_run env t u v (job_id j) res"] assms(2)
  show "fst (execute env (t, u, v) j s) = res" "loaded env (snd (execute env (t, u, v) j s))"
    "table env (snd (execute env (t, u, v) j s)) = finish_run env t u v (job_id j) res (table env s)"
    by (auto simp: execute_def)
qed

section \<open>A tick\<close>

lemma tick_collect_table:
  assumes "loaded env s"
  shows "\<exists>s1. tick_collect env now s = (filter (is_due now) (table env s), s1) \<and> loaded env s1 \<and>
    table env s1 = map (\<lambda>j. if job_id j \<in> job_id ` set (filter (is_due now) (table env s)) then after_run env now j else j) (table env s)"
proof (cases "filter (is_due now) (table env s) = []")
  case True
  with assms show ?thesis by (auto simp: tick_collect_def loaded_table Let_def)
next
  case False
  let ?f = "map (\<lambda>j. if job_id j \<in> jobIDSet (filter (is_due now) (table env s)) then after_run env now j else j)"
  obtain s1 where "saveLocked env (update_store ?f s) = (None, s1)" "loaded env s1" "table env s1 = ?f (table env s)"
    using save_loaded [OF assms, of ?f] by blast
  with False loaded_table [OF assms] show ?thesis
    by (simp add: tick_collect_def Let_def  jobIDSet_def)
qed

abbreviation run_all :: "cron_env \<Rightarrow> job list \<Rightarrow> (nat \<times> time \<times> time \<times> time) list \<Rightarrow> 'p service \<Rightarrow> 'p service" where
  "run_all env due order s \<equiv> fold (\<lambda>(n, ts) s. snd (execute env ts (due ! n) s)) order s"

lemma tick_unfold:
  assumes "synced env s"
  shows "\<exists>s1. loaded env s1 \<and> tick env now order now' s =
      armTimerLocked now' (run_all env (filter (is_due now) (table env s)) (order (filter (is_due now) (table env s))) s1) \<and>
    table env s1 = map (\<lambda>j. if job_id j \<in> job_id ` set (filter (is_due now) (table env s)) then after_run env now j else j) (table env s)"
proof -
  obtain s0 where s0: "loadLocked env s = (None, s0)" "synced env s0" "sv_st s0 = disk_store env s"
    "disk_store env s0 = disk_store env s" using cron_file.load_law [OF assms] by blast
  then have "loaded env s0" "table env s0 = table env s" by (simp_all add: loaded_def table_def)
  from tick_collect_table [OF this(1), of now] this(2) s0(1) show ?thesis by (auto simp: tick_def)
qed

text \<open>A property of jobs that a finished run keeps holds after any number of runs.\<close>

lemma run_all_invariant:
  assumes "loaded env s" and "\<forall>j \<in> set (table env s). P j"
    and "\<forall>(n, t, u, v) \<in> set order. \<forall>j res. P j \<longrightarrow> P (after_run env v (record_run t u res j))"
  shows "loaded env (run_all env due order s) \<and> (\<forall>j \<in> set (table env (run_all env due order s)). P j)"
  using assms
proof (induction order arbitrary: s)
  case (Cons x order)
  obtain n t u v where x: "x = (n, t, u, v)" by (metis prod_cases4)
  obtain res s1 where c: "call_handler (due ! n) s = (res, s1)" by fastforce
  let ?s = "snd (execute env (t, u, v) (due ! n) s)"
  note e = execute_table [OF Cons.prems(1) c, of t u v]
  have "P (after_run env v (record_run t u res j))" if "P j" for j res
    using Cons.prems(3) that x by (cases res) simp
  then have "\<forall>j \<in> set (table env ?s). P j"
    using Cons.prems(2) unfolding e(3) by (blast dest: finish_run_mem)
  from Cons.IH [OF e(2) this] Cons.prems(3) x show ?case by simp
qed simp

lemma run_all_ids:
  assumes "loaded env s"
  shows "count_list (map job_id (table env (run_all env due order s))) i \<le> count_list (map job_id (table env s)) i"
  using assms
proof (induction order arbitrary: s)
  case (Cons x order)
  obtain n t u v where x: "x = (n, t, u, v)" by (metis prod_cases4)
  obtain res s1 where c: "call_handler (due ! n) s = (res, s1)" by fastforce
  let ?s = "snd (execute env (t, u, v) (due ! n) s)"
  note e = execute_table [OF Cons.prems c, of t u v]
  have "count_list (map job_id (table env ?s)) i \<le> count_list (map job_id (table env s)) i"
    unfolding e(3) by (rule finish_run_count)
  with Cons.IH [OF e(2)] x show ?case by (simp add: order_trans)
qed simp

section \<open>Runs of the service\<close>

text \<open>One operation at a time, as the service's mutex has it; a tick is labelled with the jobs it
  runs. The clock of the file system may move in between.\<close>

datatype cron_label = Ran "string list" | Switched string bool | Added string | Quiet

inductive cron_step :: "cron_env \<Rightarrow> 'p service \<Rightarrow> cron_label \<Rightarrow> 'p service \<Rightarrow> bool" for env where
  step_tick: "loadLocked env s = (None, s1) \<Longrightarrow> due = filter (is_due now) (jobs (sv_st s1)) \<Longrightarrow>
    mset (map fst (order due)) = mset [0..<length due] \<Longrightarrow>
    cron_step env s (Ran (map job_id due)) (tick env now order now' s)"
| step_add: "cron_step env s (Added i) (snd (AddJob env now now' i name sch pl del s))"
| step_enable: "cron_step env s (Switched i e) (snd (EnableJob env now now2 now3 i e s))"
| step_remove: "cron_step env s Quiet (snd (RemoveJob env now i s))"
| step_run: "cron_step env s Quiet (snd (RunNow env ts i s))"
| step_list: "cron_step env s Quiet (snd (ListJobs env all s))"
| step_stale: "cron_step env s Quiet (snd (StaleJobs env now threshold s))"
| step_watch: "cron_step env s Quiet (watch_round env now s)"
| step_start: "cron_step env s Quiet (snd (Start env now s))"
| step_stop: "cron_step env s Quiet (Stop s)"
| step_handler: "cron_step env s Quiet (SetHandler h s)"
| step_clock: "cron_step env s Quiet (s\<lparr>sv_disk := (sv_disk s)\<lparr>d_clock := t\<rparr>\<rparr>)"

inductive cron_run :: "cron_env \<Rightarrow> 'p service \<Rightarrow> cron_label list \<Rightarrow> 'p service \<Rightarrow> bool" for env where
  run_nil: "cron_run env s [] s"
| run_cons: "cron_step env s l s1 \<Longrightarrow> cron_run env s1 ls s2 \<Longrightarrow> cron_run env s (l # ls) s2"

inductive_cases cron_run_ConsE: "cron_run env s (l # ls) s2"

text \<open>What a step makes of the table: \<open>keeps P\<close> says that jobs with \<open>P\<close> keep it through runs.\<close>

definition keeps :: "cron_env \<Rightarrow> (job \<Rightarrow> bool) \<Rightarrow> bool" where
  "keeps env P \<longleftrightarrow> (\<forall>now j. P j \<longrightarrow> P (after_run env now j)) \<and> (\<forall>t u res j. P j \<longrightarrow> P (record_run t u res j))"

definition settled :: "cron_env \<Rightarrow> (job \<Rightarrow> bool) \<Rightarrow> string \<Rightarrow> 'p service \<Rightarrow> 'p service \<Rightarrow> bool" where
  "settled env P i s s' \<longleftrightarrow> synced env s' \<and>
     ((\<forall>j \<in> set (table env s). P j) \<longrightarrow> (\<forall>j \<in> set (table env s'). P j)) \<and>
     count_list (map job_id (table env s')) i \<le> count_list (map job_id (table env s)) i"

lemma settled_same: "synced env s' \<Longrightarrow> table env s' = table env s \<Longrightarrow> settled env P i s s'"
  by (simp add: settled_def)

lemma loaded_synced: "loaded env s \<Longrightarrow> synced env s"
  by (simp add: loaded_def)

lemma loadLocked_table:
  assumes "synced env s"
  obtains s1 where "loadLocked env s = (None, s1)" "loaded env s1" "table env s1 = table env s"
  using cron_file.load_law [OF assms] unfolding loaded_def table_def by force

lemma RunNow_settled:
  assumes "synced env s" and "keeps env P"
  shows "settled env P i s (snd (RunNow env ts k s))"
proof -
  obtain s1 where s1: "loadLocked env s = (None, s1)" "loaded env s1" "table env s1 = table env s"
    by (rule loadLocked_table [OF assms(1)])
  obtain t u v where ts: "ts = (t, u, v)" by (metis prod_cases3)
  show ?thesis
  proof (cases "find (\<lambda>j. job_id j = k) (jobs (sv_st s1))")
    case None
    with s1 show ?thesis by (auto simp: RunNow_def intro!: settled_same loaded_synced)
  next
    case (Some j)
    obtain res s2 where "call_handler j s1 = (res, s2)" by fastforce
    note e = execute_table [OF s1(2) this, of t u v]
    have "\<forall>j' \<in> set (table env s). P j' \<Longrightarrow> \<forall>j' \<in> set (finish_run env t u v (job_id j) res (table env s)). P j'"
      using assms(2) unfolding keeps_def by (blast dest: finish_run_mem)
    moreover have "snd (RunNow env ts k s) = snd (execute env (t, u, v) j s1)"
      using Some s1(1) ts by (simp add: RunNow_def split: prod.split)
    ultimately show ?thesis
      using e(2,3) s1(3) finish_run_count by (auto simp: settled_def loaded_synced)
  qed
qed

lemma tick_settled:
  assumes "synced env s" and "keeps env P"
  shows "settled env P i s (tick env now order now' s)"
proof -
  obtain s1 where s1: "loaded env s1" "tick env now order now' s =
      armTimerLocked now' (run_all env (filter (is_due now) (table env s)) (order (filter (is_due now) (table env s))) s1)"
    "table env s1 = map (\<lambda>j. if job_id j \<in> job_id ` set (filter (is_due now) (table env s)) then after_run env now j else j) (table env s)"
    using tick_unfold [OF assms(1)] by blast
  have ids: "map job_id (table env s1) = map job_id (table env s)" unfolding s1(3) by auto
  have "\<forall>j \<in> set (table env s). P j \<Longrightarrow> \<forall>j \<in> set (table env s1). P j"
    using assms(2) unfolding s1(3) keeps_def by auto
  moreover have "loaded env (run_all env due order' s1)" for due order'
    using run_all_invariant [OF s1(1), of "\<lambda>_. True" order'] by auto
  moreover have "\<forall>j \<in> set (table env (run_all env due order' s1)). P j" if "\<forall>j \<in> set (table env s1). P j" for due order'
    using run_all_invariant [OF s1(1) that, of order'] assms(2) unfolding keeps_def by auto
  ultimately show ?thesis
    using run_all_ids [OF s1(1)] ids unfolding settled_def s1(2) by (auto simp: loaded_synced)
qed

lemma synced_status [simp]:
  "synced env (s\<lparr>sv_running := b\<rparr>) = synced env s" "synced env (s\<lparr>sv_watching := b\<rparr>) = synced env s"
  "synced env (s\<lparr>sv_handler := h\<rparr>) = synced env s"
  "synced env (s\<lparr>sv_disk := (sv_disk s)\<lparr>d_clock := t\<rparr>\<rparr>) = synced env s"
  "table env (s\<lparr>sv_running := b\<rparr>) = table env s" "table env (s\<lparr>sv_watching := b\<rparr>) = table env s"
  "table env (s\<lparr>sv_handler := h\<rparr>) = table env s" "table env (s\<lparr>sv_st := st\<rparr>) = table env s"
  "table env (s\<lparr>sv_disk := (sv_disk s)\<lparr>d_clock := t\<rparr>\<rparr>) = table env s"
  by (simp_all add: synced_def in_sync_def table_def disk_store_def disk_works_def)

lemma synced_arm [simp]: "synced env (armTimerLocked now s) = synced env s"
  by (simp add: armTimerLocked_def Let_def)

lemma watch_settled: "synced env s \<Longrightarrow> settled env P i s (watch_round env now s)"
proof -
  assume s: "synced env s"
  then have "synced env (s\<lparr>sv_st := empty_store\<rparr>)" by (simp add: synced_def in_sync_def)
  then obtain s1 where "loadLocked env (s\<lparr>sv_st := empty_store\<rparr>) = (None, s1)" "loaded env s1" "table env s1 = table env s"
    by (rule loadLocked_table) simp
  then show ?thesis by (auto simp: watch_round_def loaded_synced intro!: settled_same)
qed

lemma Start_settled: "synced env s \<Longrightarrow> settled env P i s (snd (Start env now s))"
  by (erule loadLocked_table) (auto simp: Start_def loaded_synced intro!: settled_same)

lemma EnableJob_settled:
  assumes "synced env s" and "k \<noteq> i \<or> \<not> e" and "\<And>j. job_id j \<noteq> i \<Longrightarrow> P j"
    and "\<And>t u j. P j \<Longrightarrow> P (enable_job env t u False j)"
  shows "settled env P i s (snd (EnableJob env now now2 now3 k e s))"
proof -
  obtain s' where s': "EnableJob env now now2 now3 k e s = (Inr (k \<in> job_id ` set (table env s)), s')" "loaded env s'"
    "table env s' = update_first k (enable_job env now now2 e) (table env s)"
    using EnableJob_table [OF assms(1)] by blast
  have "P (enable_job env now now2 e j)" if "P j" "job_id j = k" for j
    using assms(2,4) assms(3) [of "enable_job env now now2 e j"] that by (cases e) auto
  then have "(\<forall>j \<in> set (table env s). P j) \<longrightarrow> (\<forall>j \<in> set (table env s'). P j)"
    unfolding s'(3) by (blast dest: update_first_mem)
  moreover have "map job_id (table env s') = map job_id (table env s)"
    unfolding s'(3) by (rule update_first_ids) simp
  ultimately show ?thesis using s'(1,2) by (simp add: settled_def loaded_synced)
qed

lemma AddJob_settled:
  assumes "synced env s" and "k \<noteq> i" and "\<And>j. job_id j \<noteq> i \<Longrightarrow> P j"
  shows "settled env P i s (snd (AddJob env now now' k name sch pl del s))"
proof -
  obtain s' where s': "snd (AddJob env now now' k name sch pl del s) = s'" "loaded env s'"
    "table env s' = table env s @ (if computeNextRun env sch now = 0 then [] else [new_job env now k name sch pl del])"
    using AddJob_table [OF assms(1), of now now' k name sch pl del] by auto
  have "job_id (new_job env now k name sch pl del) = k" by (simp add: new_job_def)
  with s' assms(2,3) show ?thesis by (simp add: settled_def loaded_synced)
qed

lemma RemoveJob_settled:
  assumes "synced env s"
  shows "settled env P i s (snd (RemoveJob env now k s))"
proof -
  obtain s' where s': "snd (RemoveJob env now k s) = s'" "loaded env s'" "table env s' = removeJobSlice (table env s) k"
    using RemoveJob_table [OF assms, of now k] by auto
  have "set (removeJobSlice (table env s) k) \<subseteq> set (table env s)" by (auto simp: removeJobSlice_def)
  with s' show ?thesis using removeJobSlice_count by (auto simp: settled_def loaded_synced)
qed

lemma list_settled:
  assumes "synced env s"
  shows "settled env P i s (snd (ListJobs env all s))" and "settled env P i s (snd (StaleJobs env now th s))"
proof -
  show l: "settled env P i s (snd (ListJobs env all s))" for all
    using ListJobs_table [OF assms, of all] by (auto intro!: settled_same loaded_synced)
  have "snd (StaleJobs env now th s) = snd (ListJobs env False s)"
    by (simp add: StaleJobs_def split: prod.split sum.split)
  with l show "settled env P i s (snd (StaleJobs env now th s))" by simp
qed

lemma step_settled:
  assumes "cron_step env s l s'" and s: "synced env s" and k: "keeps env P"
    and "l \<noteq> Switched i True" and "l \<noteq> Added i" and o: "\<And>j. job_id j \<noteq> i \<Longrightarrow> P j"
    and d: "\<And>t u j. P j \<Longrightarrow> P (enable_job env t u False j)"
  shows "settled env P i s s'"
  using assms(1,4,5)
proof cases
  case step_tick
  then show ?thesis using tick_settled [OF s k] by simp
next
  case step_add
  then show ?thesis using AddJob_settled [OF s _ o] assms(5) by simp
next
  case (step_enable k e)
  have "k \<noteq> i \<or> \<not> e" using step_enable(1) assms(4) by auto
  with step_enable(2) show ?thesis by (auto intro: EnableJob_settled [OF s] o d)
next
  case step_remove
  then show ?thesis using RemoveJob_settled [OF s] by simp
next
  case step_run
  then show ?thesis using RunNow_settled [OF s k] by simp
qed (auto simp: list_settled s watch_settled Start_settled Stop_def SetHandler_def intro!: settled_same)

section \<open>One-shot jobs\<close>

definition one_shot :: "string \<Rightarrow> job \<Rightarrow> bool" where
  "one_shot i j \<longleftrightarrow> job_id j = i \<longrightarrow> sch_kind (job_schedule j) = ScheduleAt"

definition spent :: "string \<Rightarrow> job \<Rightarrow> bool" where
  "spent i j \<longleftrightarrow> job_id j = i \<longrightarrow> sch_kind (job_schedule j) = ScheduleAt \<and> (\<not> job_enabled j \<or> next_run j = 0)"

lemma one_shot_keeps: "keeps env (one_shot i)"
  by (simp add: keeps_def one_shot_def)

lemma spent_keeps: "keeps env (spent i)"
  by (auto simp: keeps_def spent_def after_run_def)

lemma spent_disable: "spent i j \<Longrightarrow> spent i (enable_job env t u False j)"
  by (auto simp: spent_def enable_job_def)

lemma one_shot_disable: "one_shot i j \<Longrightarrow> one_shot i (enable_job env t u False j)"
  by (simp add: one_shot_def)

lemma spent_not_due: "spent i j \<Longrightarrow> job_id j = i \<Longrightarrow> \<not> is_due now j"
  by (auto simp: spent_def is_due_def)

text \<open>How often the ticks of a run start job \<open>i\<close>.\<close>

fun started :: "string \<Rightarrow> cron_label list \<Rightarrow> nat" where
  "started i [] = 0"
| "started i (Ran ids # ls) = count_list ids i + started i ls"
| "started i (l # ls) = started i ls"

lemma tick_label:
  assumes "cron_step env s (Ran ids) s'" and "synced env s"
  obtains now order now' where "ids = map job_id (filter (is_due now) (table env s))" "s' = tick env now order now' s"
  using assms(1)
proof cases
  case (step_tick s1 now order now')
  from assms(2) obtain s2 where "loadLocked env s = (None, s2)" "loaded env s2" "table env s2 = table env s"
    by (rule loadLocked_table)
  with step_tick that show thesis by (auto simp: loaded_table)
qed

lemma spent_runs:
  assumes "cron_run env s ls s'" and "synced env s" and "\<forall>j \<in> set (table env s). spent i j"
    and "Switched i True \<notin> set ls" and "Added i \<notin> set ls"
  shows "started i ls = 0"
  using assms
proof (induction rule: cron_run.induct)
  case (run_cons s l s1 ls s2)
  have st: "settled env (spent i) i s s1"
  proof (rule step_settled [OF run_cons.hyps(1) run_cons.prems(1) spent_keeps])
    show "l \<noteq> Switched i True" "l \<noteq> Added i" using run_cons.prems(3,4) by auto
    show "spent i j" if "job_id j \<noteq> i" for j using that by (simp add: spent_def)
  qed (rule spent_disable)
  then have "started i ls = 0" using run_cons.prems by (intro run_cons.IH) (auto simp: settled_def)
  moreover have "count_list ids i = 0" if "l = Ran ids" for ids
  proof -
    from run_cons.hyps(1) [unfolded that] run_cons.prems(1) obtain now order now'
      where ids: "ids = map job_id (filter (is_due now) (table env s))" by (rule tick_label)
    have "i \<notin> set ids" using run_cons.prems(2) spent_not_due unfolding ids by auto
    then show ?thesis by (simp add: count_list_0_iff)
  qed
  ultimately show ?case by (cases l) auto
qed simp

lemma tick_spends:
  assumes "synced env s" and "\<forall>j \<in> set (table env s). one_shot i j"
    and "i \<in> job_id ` set (filter (is_due now) (table env s))"
  shows "\<forall>j \<in> set (table env (tick env now order now' s)). spent i j"
proof -
  let ?due = "filter (is_due now) (table env s)"
  obtain s1 where s1: "loaded env s1" "tick env now order now' s = armTimerLocked now' (run_all env ?due (order ?due) s1)"
    "table env s1 = map (\<lambda>j. if job_id j \<in> job_id ` set ?due then after_run env now j else j) (table env s)"
    using tick_unfold [OF assms(1)] by blast
  have "\<forall>j \<in> set (table env s1). spent i j"
    unfolding s1(3) using assms(2,3) by (auto simp: spent_def one_shot_def after_run_def)
  from run_all_invariant [OF s1(1) this, of "order ?due"] spent_keeps [of env i] show ?thesis
    unfolding s1(2) keeps_def by auto
qed

lemma count_filter_le: "count_list (map f (filter P xs)) i \<le> count_list (map f xs) i"
  by (induction xs) auto

lemma one_shot_runs:
  assumes "cron_run env s ls s'" and "synced env s" and "\<forall>j \<in> set (table env s). one_shot i j"
    and "count_list (map job_id (table env s)) i \<le> 1"
    and "Switched i True \<notin> set ls" and "Added i \<notin> set ls"
  shows "started i ls \<le> 1"
  using assms
proof (induction rule: cron_run.induct)
  case (run_cons s l s1 ls s2)
  have st: "settled env (one_shot i) i s s1"
  proof (rule step_settled [OF run_cons.hyps(1) run_cons.prems(1) one_shot_keeps])
    show "l \<noteq> Switched i True" "l \<noteq> Added i" using run_cons.prems(4,5) by auto
    show "one_shot i j" if "job_id j \<noteq> i" for j using that by (simp add: one_shot_def)
  qed (rule one_shot_disable)
  then have IH: "started i ls \<le> 1" using run_cons.prems by (intro run_cons.IH) (auto simp: settled_def)
  show ?case
  proof (cases "\<exists>ids. l = Ran ids \<and> i \<in> set ids")
    case False
    with IH show ?thesis by (cases l) (auto simp: count_list_0_iff)
  next
    case True
    then obtain ids where l: "l = Ran ids" "i \<in> set ids" by blast
    from run_cons.hyps(1) [unfolded l(1)] run_cons.prems(1) obtain now order now'
      where ids: "ids = map job_id (filter (is_due now) (table env s))"
      and s1: "s1 = tick env now order now' s" by (rule tick_label)
    have "\<forall>j \<in> set (table env s1). spent i j"
      unfolding s1 by (rule tick_spends) (use run_cons.prems l ids in auto)
    then have "started i ls = 0"
      using spent_runs [OF run_cons.hyps(2)] st run_cons.prems by (auto simp: settled_def)
    moreover have "count_list ids i \<le> 1"
      unfolding ids by (rule order_trans [OF count_filter_le run_cons.prems(3)])
    ultimately show ?thesis using l by simp
  qed
qed simp

end
