(* ===== verification/Cron_Props.thy ===== *)
theory Cron_Props
  imports Cron_Laws "HOL-Library.Countable"
begin

text \<open>The properties of the job scheduler, each with a concrete service.\<close>

section \<open>Lemmas\<close>

abbreviation pending :: "job \<Rightarrow> bool" where
  "pending j \<equiv> job_enabled j \<and> next_run j \<noteq> 0"

lemma wake_fold:
  "let r = fold (\<lambda>j mn. if \<not> job_enabled j \<or> IsZero (next_run j) then mn
       else if IsZero mn \<or> next_run j < mn then next_run j else mn) js m
   in (r = m \<or> (\<exists>j \<in> set js. pending j \<and> r = next_run j)) \<and> (\<forall>j \<in> set js. pending j \<longrightarrow> r \<noteq> 0 \<and> r \<le> next_run j) \<and>
      (m \<noteq> 0 \<longrightarrow> r \<noteq> 0 \<and> r \<le> m)"
proof (induction js arbitrary: m)
  case (Cons j js)
  let ?m = "if \<not> job_enabled j \<or> IsZero (next_run j) then m
       else if IsZero m \<or> next_run j < m then next_run j else m"
  from Cons [of ?m] show ?case by (simp add: Let_def split: if_splits) fastforce+
qed (simp add: Let_def)

lemma nextWake_min:
  "(nextWakeLocked s = 0 \<longleftrightarrow> (\<forall>j \<in> set (jobs (sv_st s)). \<not> pending j)) \<and>
   (\<forall>j \<in> set (jobs (sv_st s)). pending j \<longrightarrow> nextWakeLocked s \<le> next_run j) \<and>
   (nextWakeLocked s \<noteq> 0 \<longrightarrow> (\<exists>j \<in> set (jobs (sv_st s)). pending j \<and> nextWakeLocked s = next_run j))"
  using wake_fold [of "jobs (sv_st s)" 0] unfolding nextWakeLocked_def Let_def by auto

lemma insert_job_mset: "mset (insert_job j js) = add_mset j (mset js)"
  by (induction js) auto

lemma sort_jobs_mset: "mset (sort_jobs js) = mset js"
  unfolding sort_jobs_def by (induction js) (simp_all add: insert_job_mset)

lemma runs_before_trans: "\<not> runs_before b a \<Longrightarrow> \<not> runs_before c b \<Longrightarrow> \<not> runs_before c a"
  by (auto simp: runs_before_def split: if_splits)

lemma insert_job_sorted:
  "sorted_wrt (\<lambda>a b. \<not> runs_before b a) js \<Longrightarrow> sorted_wrt (\<lambda>a b. \<not> runs_before b a) (insert_job j js)"
proof (induction js)
  case (Cons k ks)
  have set: "set (insert_job j ks) = insert j (set ks)"
    by (metis insert_job_mset set_mset_add_mset_insert set_mset_mset)
  show ?case
  proof (cases "runs_before k j")
    case True
    then have "\<not> runs_before j k" by (auto simp: runs_before_def split: if_splits)
    with Cons True set show ?thesis by auto
  next
    case False
    then have "\<forall>x \<in> set ks. \<not> runs_before x j" using Cons.prems runs_before_trans by fastforce
    with Cons.prems False show ?thesis by simp
  qed
qed simp

lemma sort_jobs_sorted: "sorted_wrt (\<lambda>a b. \<not> runs_before b a) (sort_jobs js)"
  unfolding sort_jobs_def by (induction js) (simp_all add: insert_job_sorted)

text \<open>A handler that logs the jobs it is called for.\<close>

lemma execute_keeps:
  "sv_handler (snd (execute env ts j s)) = sv_handler s"
  "sv_handler s = Some (\<lambda>j p. (h j p, p @ [job_id j])) \<Longrightarrow> sv_outside (snd (execute env ts j s)) = sv_outside s @ [job_id j]"
  by (auto simp: execute_def call_handler_def saveLocked_def update_store_def Let_def split: prod.split option.split)

lemma run_all_log:
  assumes "sv_handler s = Some (\<lambda>j p. (h j p, p @ [job_id j]))"
  shows "sv_outside (run_all env due order s) = sv_outside s @ map (\<lambda>(n, _). job_id (due ! n)) order"
  using assms
  by (induction order arbitrary: s) (auto simp: execute_keeps)

lemma load_keeps: "sv_handler (snd (loadLocked env s)) = sv_handler s" "sv_outside (snd (loadLocked env s)) = sv_outside s"
  by (auto simp: loadLocked_def check_mtime_def Let_def split: option.split read_result.split)

lemma collect_keeps:
  "sv_handler (snd (tick_collect env now s)) = sv_handler s" "sv_outside (snd (tick_collect env now s)) = sv_outside s"
  by (auto simp: tick_collect_def saveLocked_def update_store_def Let_def split: option.split)

lemma arm_keeps [simp]: "sv_outside (armTimerLocked t s) = sv_outside s"
  by (simp add: armTimerLocked_def Let_def)

section \<open>A concrete service\<close>

text \<open>A codec for every store: its number in unary between braces.\<close>

instance schedule_ext :: (countable) countable
  by (rule countable_classI [of "\<lambda>s. to_nat (sch_kind s, sch_at s, uint (sch_everyMs s), sch_expr s, sch_tz s, schedule.more s)"])
    (auto simp: schedule.equality word_uint_eq_iff)

instance payload_ext :: (countable) countable
  by (rule countable_classI [of "\<lambda>p. to_nat (pl_kind p, pl_command p, pl_message p, pl_sessionID p, pl_replySessionID p, payload.more p)"])
    (auto simp: payload.equality)

instance jobState_ext :: (countable) countable
  by (rule countable_classI [of "\<lambda>s. to_nat (nextRunAt s, lastRunAt s, lastStatus s, lastError s, lastOutput s, jobState.more s)"])
    (auto simp: jobState.equality)

instance job_ext :: (countable) countable
  by (rule countable_classI [of "\<lambda>j. to_nat (job_id j, job_name j, job_enabled j, job_schedule j, job_payload j, job_state j,
      createdAt j, updatedAt j, deleteAfterRun j, job.more j)"]) (auto simp: job.equality)

instance store_ext :: (countable) countable
  by (rule countable_classI [of "\<lambda>s. to_nat (version s, jobs s, store.more s)"]) (auto simp: store.equality)

definition unary :: "store \<Rightarrow> string" where
  "unary st = ''{'' @ replicate (to_nat st) (CHR ''1'') @ ''}''"

abbreviation minute :: int where "minute \<equiv> 60000000000"

definition demo_env :: cron_env where
  "demo_env = \<lparr>ce_local = ''UTC'', ce_loadLocation = (\<lambda>_. None),
     ce_parse = (\<lambda>e. if e = ''* * * * *'' then Some (\<lambda>loc b. b + minute - b mod minute) else None),
     ce_yaml_marshal = (\<lambda>_. None), ce_yaml_unmarshal = (\<lambda>_ st. (False, st)),
     ce_json_encode = (\<lambda>st. Some (unary st)), ce_json_unmarshal = (\<lambda>d st. (True, from_nat (length d - 2))),
     ce_rfc3339 = (\<lambda>_. []), ce_duration = (\<lambda>_. [])\<rparr>"

definition demo_disk :: disk where
  "demo_disk = \<lparr>d_file = None, d_clock = 5, d_stat_fails = False, d_read_fails = False, d_write_fails = False\<rparr>"

definition demo_service :: "string list service" where
  "demo_service = NewService ''cron.json'' (Some (\<lambda>j p. ((''done'', None), p @ [job_id j]))) demo_disk []"

definition demo_schedule :: schedule where
  "demo_schedule = \<lparr>sch_kind = ScheduleAt, sch_at = 100, sch_everyMs = 0, sch_expr = [], sch_tz = []\<rparr>"

definition demo_payload :: payload where
  "demo_payload = \<lparr>pl_kind = ''shell'', pl_command = ''date'', pl_message = [], pl_sessionID = [], pl_replySessionID = []\<rparr>"

definition demo_job :: job where
  "demo_job = new_job demo_env 10 ''j1'' ''alarm'' demo_schedule demo_payload False"

lemma demo_lib_ok: "cron_lib_ok demo_env"
proof -
  have "b mod minute < minute" for b :: int by (rule pos_mod_bound) simp
  then show ?thesis by (auto simp: cron_lib_ok_def demo_env_def split: if_splits)
qed

lemma demo_not_yaml: "\<not> isYAMLStorePath ''cron.json''"
  by (simp add: isYAMLStorePath_def path_ext_def Let_def ToLower_def lower_char_def)

lemma demo_codec_ok: "codec_ok demo_env ''cron.json''"
proof -
  have "TrimSpace (unary st) = unary st" for st
    by (rule TrimSpace_no_outer) (simp_all add: unary_def is_space_def)
  then show ?thesis
    by (simp add: codec_ok_def encodeStore_def decodeStore_def unmarshalStore_def demo_not_yaml demo_env_def)
      (simp add: unary_def)
qed

lemma demo_synced: "synced demo_env demo_service"
  by (simp add: synced_def in_sync_def demo_service_def NewService_def demo_codec_ok demo_disk_def disk_works_def)

lemma demo_table: "table demo_env demo_service = []"
  by (simp add: table_def disk_store_def file_store_def demo_service_def NewService_def demo_disk_def)

lemma demo_next: "computeNextRun demo_env demo_schedule 10 = 100"
  by (simp add: computeNextRun_def demo_schedule_def)

text \<open>The service after \<open>AddJob\<close>.\<close>

definition demo_added :: "string list service" where
  "demo_added = snd (AddJob demo_env 10 11 ''j1'' ''alarm'' demo_schedule demo_payload False demo_service)"

lemma demo_added: "loaded demo_env demo_added" "table demo_env demo_added = [demo_job]"
  using AddJob_table [OF demo_synced, of 10 11 "''j1''" "''alarm''" demo_schedule demo_payload False]
  by (auto simp: demo_next demo_table demo_added_def demo_job_def)

lemma demo_job_simps [simp]:
  "job_id demo_job = ''j1''" "is_due 200 demo_job" "job_schedule demo_job = demo_schedule" "job_enabled demo_job"
  by (simp_all add: is_due_def new_job_def demo_next demo_job_def)

section \<open>Properties\<close>

text \<open>A computed next run is the zero time (never) or lies in the future, and a repeating job runs
  exactly one interval later, provided the interval in nanoseconds fits in 63 bits.\<close>

theorem next_run_future:
  assumes "cron_lib_ok env" and "sint (sch_everyMs s) \<le> 9223372036854"
  shows "(computeNextRun env s base = 0 \<or> computeNextRun env s base > base) \<and>
    (if sch_kind s = ScheduleEvery \<and> sint (sch_everyMs s) > 0
     then computeNextRun env s base = base + sint (sch_everyMs s) * 1000000 else True)"
  using computeNextRun_later [OF assms(1), of s base] assms(2) millis_exact [of "sch_everyMs s"]
  by (auto simp: no_overflow_def computeNextRun_def)

theorem next_run_future_witness:
  "computeNextRun demo_env (demo_schedule\<lparr>sch_kind := ScheduleEvery, sch_everyMs := 1500\<rparr>) 7 = 1500000007"
  using next_run_future [OF demo_lib_ok, of "demo_schedule\<lparr>sch_kind := ScheduleEvery, sch_everyMs := 1500\<rparr>" 7]
  by (simp add: demo_schedule_def)

text \<open>With a longer interval the multiplication wraps: a job that should run every 292 years is
  computed to run 292 years ago, and it is due again right after every run.\<close>

theorem every_overflow:
  assumes "sch_kind s = ScheduleEvery" and "sch_everyMs s = 9223372036855"
    and "job_schedule j = s" and "job_enabled j" and "0 < now" and "now \<noteq> 9223372036854551616"
  shows "computeNextRun env s now = now - 9223372036854551616 \<and> is_due now (after_run env now j)"
proof -
  have "computeNextRun env s now = now - 9223372036854551616"
    using assms by (simp add: computeNextRun_def millis_def)
  with assms show ?thesis by (simp add: after_run_def is_due_def)
qed

theorem every_overflow_witness:
  "is_due 50 (after_run demo_env 50 (demo_job\<lparr>job_schedule := demo_schedule\<lparr>sch_kind := ScheduleEvery, sch_everyMs := 9223372036855\<rparr>\<rparr>))"
  using every_overflow [of "demo_schedule\<lparr>sch_kind := ScheduleEvery, sch_everyMs := 9223372036855\<rparr>"
      "demo_job\<lparr>job_schedule := demo_schedule\<lparr>sch_kind := ScheduleEvery, sch_everyMs := 9223372036855\<rparr>\<rparr>" 50 demo_env]
  by simp

text \<open>After a tick nothing that was due is due any more: however the runs of the due jobs
  interleave, no job of the store is due at the time of the tick, so it cannot be started twice for
  the same run.\<close>

theorem tick_leaves_nothing_due:
  assumes "synced env s" and "cron_lib_ok env" and "\<And>j. j \<in> set (table env s) \<Longrightarrow> no_overflow (job_schedule j)"
    and "\<And>due n t u v. (n, t, u, v) \<in> set (order due) \<Longrightarrow> now \<le> v"
  shows "\<not> (\<exists>j \<in> set (table env (tick env now order now' s)). is_due now j)"
proof -
  let ?due = "filter (is_due now) (table env s)" and ?P = "\<lambda>j. no_overflow (job_schedule j) \<and> \<not> is_due now j"
  obtain s1 where s1: "loaded env s1" "tick env now order now' s = armTimerLocked now' (run_all env ?due (order ?due) s1)"
    "table env s1 = map (\<lambda>j. if job_id j \<in> job_id ` set ?due then after_run env now j else j) (table env s)"
    using tick_unfold [OF assms(1)] by blast
  have init: "\<forall>j \<in> set (table env s1). ?P j"
    unfolding s1(3) using assms(3) after_run_not_due [OF assms(2) _ order_refl] by auto
  have keep: "\<forall>(n, t, u, v) \<in> set (order ?due). \<forall>j res. ?P j \<longrightarrow> ?P (after_run env v (record_run t u res j))"
  proof (clarify, intro conjI)
    fix n t u v res1 res2 and j :: job
    assume v: "(n, t, u, v) \<in> set (order ?due)" and j: "no_overflow (job_schedule j)"
    show "no_overflow (job_schedule (after_run env v (record_run t u (res1, res2) j)))" using j by simp
    show "\<not> is_due now (after_run env v (record_run t u (res1, res2) j))"
      by (rule after_run_not_due [OF assms(2)]) (simp_all add: j assms(4) [OF v])
  qed
  show ?thesis using conjunct2 [OF run_all_invariant [OF s1(1) init keep, of ?due]] unfolding s1(2) arm_other by blast
qed

theorem tick_leaves_nothing_due_witness:
  "\<not> (\<exists>j \<in> set (table demo_env (tick demo_env 200 (\<lambda>due. map (\<lambda>n. (n, 200, 201, 202)) [0..<length due]) 203 demo_added)). is_due 200 j)"
  by (rule tick_leaves_nothing_due)
    (auto simp: loaded_synced demo_added demo_lib_ok no_overflow_def demo_schedule_def)


abbreviation demo_order :: "job list \<Rightarrow> (nat \<times> time \<times> time \<times> time) list" where
  "demo_order due \<equiv> map (\<lambda>n. (n, 200, 201, 202)) [0..<length due]"






text \<open>The store file round trip: what \<open>saveLocked\<close> writes is what the next \<open>loadLocked\<close> brings back,
  also after \<open>watchFile\<close> dropped the store from memory.\<close>

theorem store_round_trip:
  assumes "codec_ok env (sv_path s)" and "disk_works (sv_disk s)" and "version (sv_st s) \<noteq> 0"
  shows "\<exists>s1. saveLocked env s = (None, s1) \<and> sv_st (snd (loadLocked env s1)) = sv_st s \<and>
    sv_st (watch_round env now s1) = sv_st s"
proof -
  have "works env s" using assms by (simp add: works_def)
  then obtain s1 where s1: "saveLocked env s = (None, s1)" "synced env s1" "sv_st s1 = sv_st s" "disk_store env s1 = sv_st s"
    using cron_file.save_law [of env s] assms(3) by blast
  have "synced env (s1\<lparr>sv_st := empty_store\<rparr>)" using s1(2) by (simp add: synced_def in_sync_def)
  from cron_file.load_law [OF this] cron_file.load_law [OF s1(2)] s1 show ?thesis
    by (auto simp: watch_round_def armTimerLocked_def Let_def)
qed

theorem store_round_trip_witness:
  "\<exists>s1. saveLocked demo_env (demo_service\<lparr>sv_st := \<lparr>version = 1, jobs = [demo_job]\<rparr>\<rparr>) = (None, s1) \<and>
     sv_st (snd (loadLocked demo_env s1)) = \<lparr>version = 1, jobs = [demo_job]\<rparr>"
  using store_round_trip [of demo_env "demo_service\<lparr>sv_st := \<lparr>version = 1, jobs = [demo_job]\<rparr>\<rparr>" 0]
  by (auto simp: demo_service_def NewService_def demo_codec_ok demo_disk_def disk_works_def)

text \<open>The timer. \<open>armTimerLocked\<close> arms it exactly when the service runs and some enabled job has a next
  run, for the earliest of those runs, and never for a negative delay.\<close>

theorem timer_wakes_for_earliest:
  assumes "s' = armTimerLocked now s"
  shows "(sv_timer s' = None \<longleftrightarrow> \<not> sv_running s \<or> \<not> (\<exists>j \<in> set (jobs (sv_st s)). pending j)) \<and>
    (case sv_timer s' of None \<Rightarrow> True | Some d \<Rightarrow>
       \<exists>j \<in> set (jobs (sv_st s)). pending j \<and> \<not> (\<exists>k \<in> set (jobs (sv_st s)). pending k \<and> next_run k < next_run j) \<and>
         d = max 0 (time_sub (next_run j) now))"
  using nextWake_min [of s] unfolding assms armTimerLocked_def Let_def by (fastforce simp: not_less)

theorem timer_wakes_for_earliest_witness:
  "sv_timer (armTimerLocked 40 (demo_service\<lparr>sv_running := True, sv_st := \<lparr>version = 1, jobs = [demo_job]\<rparr>\<rparr>)) = Some 60"
proof -
  let ?s = "demo_service\<lparr>sv_running := True, sv_st := \<lparr>version = 1, jobs = [demo_job]\<rparr>\<rparr>"
  have "next_run demo_job = 100" by (simp add: demo_job_def new_job_def demo_next)
  with timer_wakes_for_earliest [of _ 40 ?s, OF refl] show ?thesis by (auto simp: time_sub_def split: option.splits)
qed

text \<open>\<open>AddJob\<close> when the store cannot be written: it reports an error, yet the job stays in the
  service's memory, where the scheduler runs it and the next successful save stores it.\<close>

theorem add_job_failed_save:
  assumes "loadLocked env s = (None, s1)" and "computeNextRun env sch now \<noteq> 0" and "d_write_fails (sv_disk s1)"
  shows "\<exists>s'. AddJob env now now' i name sch pl del s = (Inl SaveErr, s') \<and>
    jobs (sv_st s') = jobs (sv_st s1) @ [new_job env now i name sch pl del]"
  using assms by (auto simp: AddJob_def saveLocked_def update_store_def Let_def split: option.split)

theorem add_job_failed_save_witness:
  "\<exists>s'. AddJob demo_env 10 11 ''j1'' ''alarm'' demo_schedule demo_payload False
       (demo_service\<lparr>sv_disk := demo_disk\<lparr>d_write_fails := True\<rparr>\<rparr>) = (Inl SaveErr, s') \<and> jobs (sv_st s') = [demo_job]"
proof -
  let ?s = "demo_service\<lparr>sv_disk := demo_disk\<lparr>d_write_fails := True\<rparr>\<rparr>"
  have "loadLocked demo_env ?s = (None, ?s\<lparr>sv_st := fresh_store\<rparr>)"
    by (simp add: loadLocked_def check_mtime_def stat_mtime_def read_file_def demo_service_def NewService_def demo_disk_def Let_def)
  from add_job_failed_save [OF this, of demo_schedule 10 11 "''j1''" "''alarm''" demo_payload False] show ?thesis
    by (simp add: demo_next demo_job_def)
qed

end
