(* ===== verification/Cron_Tool.thy ===== *)
theory Cron_Tool
  imports Cron_Props Complex_Main
begin

text \<open>
  The tool through which an agent manages scheduled jobs (\<open>src/cmd/blades/internal/tools/cron.go\<close>).
  The floating-point numbers of its input are exact rationals here; a number of milliseconds
  outside 64 bits becomes the smallest integer, as on the 64-bit targets of the Go compiler.
  Parsing the JSON input and parsing and formatting times are parameters. \<open>run\<close> starts the job in a
  goroutine: the ids of the runs it starts are returned.
\<close>

section \<open>The tool\<close>

record cronInput =
  in_action :: string
  in_name :: string
  in_scheduleType :: string
  in_at :: string
  in_delaySeconds :: rat
  in_delayMinutes :: rat
  in_everySeconds :: rat
  in_everyMinutes :: rat
  in_cronExpr :: string
  in_tz :: string
  in_taskType :: string
  in_command :: string
  in_prompt :: string
  in_text :: string
  in_agentSessionID :: string
  in_chatSessionID :: string
  in_deleteAfterRun :: bool
  in_jobID :: string

record tool_env = cron_env +
  te_unmarshal :: "string \<Rightarrow> string + cronInput"
  te_parse_time :: "string \<Rightarrow> time option"
  te_format_nano :: "time \<Rightarrow> string"
  te_format_list :: "time \<Rightarrow> string"

definition trunc_rat :: "rat \<Rightarrow> int" where
  "trunc_rat x = (if x < 0 then \<lceil>x\<rceil> else \<lfloor>x\<rfloor>)"

definition to_int64 :: "rat \<Rightarrow> 64 word" where
  "to_int64 x = (if - (2 ^ 63) \<le> trunc_rat x \<and> trunc_rat x < 2 ^ 63 then word_of_int (trunc_rat x) else word_of_int (- (2 ^ 63)))"

definition normScheduleKind :: "string \<Rightarrow> string" where
  "normScheduleKind raw = (let k = ToLower (TrimSpace raw) in
     if k = [] then [] else if k \<in> {''delay'', ''once''} then ScheduleAt else k)"

definition normPayloadKind :: "string \<Rightarrow> string" where
  "normPayloadKind raw = (let k = ToLower (TrimSpace raw) in
     if k = [] then [] else if k \<in> {''command'', ''shell''} then PayloadExec
     else if k \<in> {''message'', ''agent_message''} then PayloadAgentTurn
     else if k \<in> {''chat'', ''social'', ''channel_message''} then PayloadNotify else k)"

definition zero_schedule :: schedule where
  "zero_schedule = \<lparr>sch_kind = [], sch_at = 0, sch_everyMs = 0, sch_expr = [], sch_tz = []\<rparr>"

definition zero_payload :: payload where
  "zero_payload = \<lparr>pl_kind = [], pl_command = [], pl_message = [], pl_sessionID = [], pl_replySessionID = []\<rparr>"

text \<open>The id of the session in the context, if there is one.\<close>

definition currentChatSessionID :: "string option \<Rightarrow> string" where
  "currentChatSessionID sess = (case sess of None \<Rightarrow> [] | Some i \<Rightarrow> TrimSpace i)"

definition fillChatSessionID :: "string option \<Rightarrow> string \<Rightarrow> string" where
  "fillChatSessionID sess chat = (if TrimSpace chat \<noteq> [] then TrimSpace chat else currentChatSessionID sess)"

definition scheduleKindOf :: "cronInput \<Rightarrow> string \<Rightarrow> string \<Rightarrow> rat \<Rightarrow> string option" where
  "scheduleKindOf i scheduleType atText everySeconds =
     (let sk = normScheduleKind scheduleType in
      if sk \<noteq> [] then Some sk
      else if TrimSpace (in_cronExpr i) \<noteq> [] then Some ScheduleCron
      else if everySeconds > 0 then Some ScheduleEvery
      else if atText \<noteq> [] then Some ScheduleAt else None)"

definition buildSchedule :: "'x tool_env_scheme \<Rightarrow> time \<Rightarrow> cronInput \<Rightarrow> string + schedule" where
  "buildSchedule env now i =
     (let delaySeconds = (if in_delayMinutes i > 0 \<and> in_delaySeconds i = 0 then in_delayMinutes i * 60 else in_delaySeconds i);
          everySeconds = (if in_everyMinutes i > 0 \<and> in_everySeconds i = 0 then in_everyMinutes i * 60 else in_everySeconds i);
          delayed = (delaySeconds > 0 \<and> TrimSpace (in_at i) = []);
          atText = (if delayed then te_format_nano env (now + sint (to_int64 (delaySeconds * 1000000000))) else TrimSpace (in_at i));
          scheduleType = (if delayed \<and> TrimSpace (in_scheduleType i) = [] then ''at'' else TrimSpace (in_scheduleType i))
      in case scheduleKindOf i scheduleType atText everySeconds of
           None \<Rightarrow> Inl ''add requires one of at, delay_seconds, delay_minutes, every_seconds, every_minutes, or cron_expr''
         | Some sk \<Rightarrow>
             (let out = zero_schedule\<lparr>sch_kind := sk\<rparr> in
              if sk = ScheduleAt then
                (if atText = [] then Inl ''at is required for schedule_type=at''
                 else case te_parse_time env atText of
                     None \<Rightarrow> Inl (''invalid at value '' @ Quote atText @ '': use RFC3339 time'')
                   | Some t \<Rightarrow> Inr (out\<lparr>sch_at := t\<rparr>))
              else if sk = ScheduleEvery then
                (if everySeconds \<le> 0 then Inl ''every_seconds or every_minutes is required for schedule_type=every''
                 else Inr (out\<lparr>sch_everyMs := to_int64 (everySeconds * 1000)\<rparr>))
              else if sk = ScheduleCron then
                (if TrimSpace (in_cronExpr i) = [] then Inl ''cron_expr is required for schedule_type=cron''
                 else case ce_parse (cron_env.truncate env) (in_cronExpr i) of
                     None \<Rightarrow> Inl (''invalid cron_expr '' @ Quote (in_cronExpr i))
                   | Some _ \<Rightarrow> Inr (out\<lparr>sch_expr := TrimSpace (in_cronExpr i), sch_tz := TrimSpace (in_tz i)\<rparr>))
              else Inl (''unknown schedule_type '' @ Quote (in_scheduleType i) @ ''; valid: at, every, cron'')))"

definition taskTypeOf :: "cronInput \<Rightarrow> string option" where
  "taskTypeOf i = (let t = ToLower (TrimSpace (in_taskType i)) in
     if t \<noteq> [] then Some t
     else if TrimSpace (in_command i) \<noteq> [] then Some ''exec''
     else if TrimSpace (in_prompt i) \<noteq> [] then Some ''agent''
     else if TrimSpace (in_text i) \<noteq> [] then Some ''notify'' else None)"

definition buildTask :: "string option \<Rightarrow> cronInput \<Rightarrow> string + payload" where
  "buildTask sess i = (case taskTypeOf i of
       None \<Rightarrow> Inl ''add requires task_type, command, prompt, or text''
     | Some t \<Rightarrow>
         (let chat = fillChatSessionID sess (in_chatSessionID i) in
          if t = ''exec'' then
            (if TrimSpace (in_command i) = [] then Inl ''command is required for task_type=exec''
             else Inr (zero_payload\<lparr>pl_kind := PayloadExec, pl_command := TrimSpace (in_command i), pl_replySessionID := chat\<rparr>))
          else if t = ''agent'' then
            (if TrimSpace (in_prompt i) = [] then Inl ''prompt is required for task_type=agent''
             else Inr (zero_payload\<lparr>pl_kind := PayloadAgentTurn, pl_message := TrimSpace (in_prompt i),
                     pl_sessionID := TrimSpace (in_agentSessionID i), pl_replySessionID := chat\<rparr>))
          else if t = ''notify'' then
            (if TrimSpace (in_text i) = [] then Inl ''text is required for task_type=notify''
             else if chat = [] then Inl ''chat_session_id is required for task_type=notify''
             else Inr (zero_payload\<lparr>pl_kind := PayloadNotify, pl_message := TrimSpace (in_text i), pl_replySessionID := chat\<rparr>))
          else Inl (''unknown task_type '' @ Quote (in_taskType i) @ ''; valid: exec, agent, notify'')))"

definition defaultJobName :: "payload \<Rightarrow> string" where
  "defaultJobName p = (if pl_kind p = PayloadExec then pl_command p
     else if pl_kind p \<in> {PayloadAgentTurn, PayloadNotify} then pl_message p else [])"

text \<open>\<open>s[:n-1]\<close>; every caller passes a positive \<open>n\<close>.\<close>

definition truncStr :: "string \<Rightarrow> nat \<Rightarrow> string" where
  "truncStr s n = (if length s \<le> n then s else take (n - 1) s @ [CHR 0xE2, CHR 0x80, CHR 0xA6])"

definition taskListLabel :: "payload \<Rightarrow> string" where
  "taskListLabel p =
     (let chat = (if pl_replySessionID p \<noteq> [] then '' -> chat:'' @ truncStr (pl_replySessionID p) 12 else []) in
      if pl_kind p = PayloadExec then ''exec:'' @ truncStr (pl_command p) 28 @ chat
      else if pl_kind p = PayloadAgentTurn then ''agent:'' @ truncStr (pl_message p) 28 @ chat
      else if pl_kind p = PayloadNotify then ''notify -> chat:'' @ truncStr (pl_replySessionID p) 12
      else pl_kind p)"

definition cron_error_text :: "cron_error \<Rightarrow> string" where
  "cron_error_text e = (case e of LoadErr \<Rightarrow> ''load'' | SaveErr \<Rightarrow> ''save''
     | NoFutureRun k \<Rightarrow> ''cron: schedule '' @ Quote k @ '' does not produce a future run''
     | JobNotFound i \<Rightarrow> ''cron: job '' @ Quote i @ '' not found'')"

definition resolveJobID :: "'x tool_env_scheme \<Rightarrow> cronInput \<Rightarrow> 'p service \<Rightarrow> (string + string) \<times> 'p service" where
  "resolveJobID env i s =
     (if TrimSpace (in_jobID i) \<noteq> [] then (Inr (TrimSpace (in_jobID i)), s)
      else let name = TrimSpace (in_name i) in
        if name = [] then (Inl ''job_id is required (name is also accepted)'', s)
        else case ListJobs (cron_env.truncate env) True s of
            (Inl e, s') \<Rightarrow> (Inl (''list jobs: '' @ cron_error_text e), s')
          | (Inr js, s') \<Rightarrow>
              (case map job_id (filter (\<lambda>j. ToLower (TrimSpace (job_name j)) = ToLower name) js) of
                 [] \<Rightarrow> (Inl (''job '' @ Quote name @ '' not found''), s')
               | [m] \<Rightarrow> (Inr m, s')
               | ms \<Rightarrow> (Inl (''multiple jobs named '' @ Quote name @ '': '' @ Join ms '', '' @ ''; use job_id''), s')))"

definition tool_job_name :: "cronInput \<Rightarrow> payload \<Rightarrow> string" where
  "tool_job_name a p = (if TrimSpace (in_name a) \<noteq> [] then TrimSpace (in_name a) else take 40 (defaultJobName p))"

definition cron_add :: "'x tool_env_scheme \<Rightarrow> time \<Rightarrow> time \<Rightarrow> time \<Rightarrow> string \<Rightarrow> string option \<Rightarrow> cronInput \<Rightarrow> 'p service \<Rightarrow>
    (string + string) \<times> 'p service" where
  "cron_add env now now2 now3 new_id sess a s = (case buildSchedule env now a of
       Inl e \<Rightarrow> (Inl e, s)
     | Inr sch \<Rightarrow> (case buildTask sess a of
          Inl e \<Rightarrow> (Inl e, s)
        | Inr p \<Rightarrow>
            (if tool_job_name a p = [] then (Inl ''name is required when task content is empty'', s)
             else case AddJob (cron_env.truncate env) now2 now3 new_id (tool_job_name a p) sch p (in_deleteAfterRun a) s of
                 (Inl e, s') \<Rightarrow> (Inl (cron_error_text e), s')
               | (Inr j, s') \<Rightarrow> (Inr (''Job added. id='' @ job_id j @ '' name='' @ Quote (job_name j) @ '' next='' @
                     (if IsZero (next_run j) then ''never'' else ce_rfc3339 (cron_env.truncate env) (next_run j))), s'))))"

definition list_row :: "'x tool_env_scheme \<Rightarrow> job \<Rightarrow> string" where
  "list_row env j =
     (let next = (if IsZero (next_run j) then [CHR 0xE2, CHR 0x80, CHR 0x94] else te_format_list env (next_run j))
      in pad_right 10 (job_id j) @ '' '' @ pad_right 24 (truncStr (job_name j) 23) @ '' '' @
         pad_right 8 (sch_kind (job_schedule j)) @ '' '' @ pad_right 22 next @ '' '' @
         pad_right 6 (if job_enabled j then ''on'' else ''off'') @ '' '' @ taskListLabel (job_payload j) @ [newline] @
         (if lastStatus (job_state j) \<noteq> [] then ''  last='' @ lastStatus (job_state j) @ '' '' @ lastError (job_state j) @ [newline] else []))"

definition cron_list :: "'x tool_env_scheme \<Rightarrow> 'p service \<Rightarrow> (string + string) \<times> 'p service" where
  "cron_list env s = (case ListJobs (cron_env.truncate env) True s of
       (Inl e, s') \<Rightarrow> (Inl (''list jobs: '' @ cron_error_text e), s')
     | (Inr [], s') \<Rightarrow> (Inr ''No scheduled jobs.'', s')
     | (Inr js, s') \<Rightarrow> (Inr (pad_right 10 ''ID'' @ '' '' @ pad_right 24 ''NAME'' @ '' '' @ pad_right 8 ''WHEN'' @ '' '' @
          pad_right 22 ''NEXT RUN'' @ '' '' @ pad_right 6 ''ON'' @ '' TASK'' @ [newline] @
          replicate 100 (CHR ''-'') @ [newline] @ concat (map (list_row env) js)), s'))"

definition cron_remove :: "'x tool_env_scheme \<Rightarrow> time \<Rightarrow> string \<Rightarrow> 'p service \<Rightarrow> (string + string) \<times> 'p service" where
  "cron_remove env now i s =
     (if i = [] then (Inl ''job_id is required (name is also accepted)'', s)
      else case RemoveJob (cron_env.truncate env) now i s of
          (Inl e, s') \<Rightarrow> (Inl (''remove job: '' @ cron_error_text e), s')
        | (Inr False, s') \<Rightarrow> (Inr (''Job '' @ Quote i @ '' not found.''), s')
        | (Inr True, s') \<Rightarrow> (Inr (''Job '' @ Quote i @ '' removed.''), s'))"

definition cron_run_tool :: "string \<Rightarrow> (string + string) \<times> string list" where
  "cron_run_tool i = (if i = [] then (Inl ''job_id is required (name is also accepted)'', [])
     else (Inr (''Job '' @ Quote i @ '' triggered (running in background).''), [i]))"

text \<open>\<open>handle\<close>: the answer, the service, and the jobs started in the background.\<close>

definition cron_handle :: "'x tool_env_scheme \<Rightarrow> time \<Rightarrow> time \<Rightarrow> time \<Rightarrow> string \<Rightarrow> string option \<Rightarrow> string \<Rightarrow> 'p service \<Rightarrow>
    (string + string) \<times> 'p service \<times> string list" where
  "cron_handle env now now2 now3 new_id sess raw s = (case te_unmarshal env raw of
       Inl e \<Rightarrow> (Inl (''cron: parse input: '' @ e), s, [])
     | Inr i \<Rightarrow>
         (let action = ToLower (TrimSpace (in_action i)) in
          if action = ''add'' then (case cron_add env now now2 now3 new_id sess i s of (r, s') \<Rightarrow> (r, s', []))
          else if action = ''list'' then (case cron_list env s of (r, s') \<Rightarrow> (r, s', []))
          else if action = ''remove'' then
            (case resolveJobID env i s of
               (Inl e, s') \<Rightarrow> (Inl e, s', [])
             | (Inr k, s') \<Rightarrow> (case cron_remove env now k s' of (r, s'') \<Rightarrow> (r, s'', [])))
          else if action = ''run'' then
            (case resolveJobID env i s of
               (Inl e, s') \<Rightarrow> (Inl e, s', [])
             | (Inr k, s') \<Rightarrow> (case cron_run_tool k of (r, bg) \<Rightarrow> (r, s', bg)))
          else (Inl (''unknown action '' @ Quote (in_action i) @ ''; valid: add, list, remove, run''), s, [])))"

section \<open>What the tool adds and removes\<close>

text \<open>A payload every check of the job handler accepts.\<close>

definition dispatchable :: "payload \<Rightarrow> bool" where
  "dispatchable p \<longleftrightarrow> (let kind = normalizePayloadKind (pl_kind p) in
     kind = PayloadExec \<and> pl_command p \<noteq> [] \<or>
     kind = PayloadAgentTurn \<and> pl_message p \<noteq> [] \<and> pl_sessionID p \<noteq> [] \<or>
     kind = PayloadNotify \<and> TrimSpace (pl_message p) \<noteq> [] \<and> TrimSpace (pl_replySessionID p) \<noteq> [])"

lemma normalize_kinds [simp]:
  "normalizePayloadKind PayloadExec = PayloadExec" "normalizePayloadKind PayloadAgentTurn = PayloadAgentTurn"
  "normalizePayloadKind PayloadNotify = PayloadNotify"
  by (simp_all add: normalizePayloadKind_def Let_def ToLower_def TrimSpace_def lower_char_def is_space_def)

lemma fillChat_trimmed: "TrimSpace (fillChatSessionID sess chat) = fillChatSessionID sess chat"
  by (auto simp: fillChatSessionID_def currentChatSessionID_def split: option.split)

lemma buildTask_cases:
  assumes "buildTask sess i = Inr p"
  shows "pl_kind p = PayloadExec \<and> pl_command p \<noteq> [] \<or> pl_kind p = PayloadAgentTurn \<and> pl_message p \<noteq> [] \<or>
    pl_kind p = PayloadNotify \<and> TrimSpace (pl_message p) \<noteq> [] \<and> TrimSpace (pl_replySessionID p) \<noteq> []"
  using assms fillChat_trimmed [of sess "in_chatSessionID i"]
  by (auto simp: buildTask_def zero_payload_def Let_def split: option.splits if_splits)

lemma new_job_dispatchable:
  assumes "buildTask sess i = Inr p"
  shows "dispatchable (job_payload (new_job env now new_id name sch p del))"
  using buildTask_cases [OF assms]
proof (elim disjE conjE)
  assume "pl_kind p = PayloadAgentTurn" "pl_message p \<noteq> []"
  moreover have "pl_sessionID p \<noteq> []" if "TrimSpace (pl_sessionID p) \<noteq> []" using that by auto
  ultimately show ?thesis by (simp add: dispatchable_def new_job_def)
qed (simp_all add: dispatchable_def new_job_def)

text \<open>Adding a job through the tool. Either it answers with an error and the table of jobs is
  as before, or one job with the new id is appended whose next run is set, whose name is not empty and
  whose payload passes every check of the job handler.\<close>

theorem tool_add_appends:
  assumes "synced (cron_env.truncate env) s"
  shows "\<exists>r s'. cron_add env now now2 now3 new_id sess a s = (r, s') \<and> synced (cron_env.truncate env) s' \<and>
    (case r of Inl e \<Rightarrow> table (cron_env.truncate env) s' = table (cron_env.truncate env) s
     | Inr msg \<Rightarrow> \<exists>j. table (cron_env.truncate env) s' = table (cron_env.truncate env) s @ [j] \<and> job_id j = new_id \<and>
         next_run j \<noteq> 0 \<and> job_name j \<noteq> [] \<and> dispatchable (job_payload j))"
proof (cases "\<exists>sch p. buildSchedule env now a = Inr sch \<and> buildTask sess a = Inr p \<and> tool_job_name a p \<noteq> []")
  case False
  then show ?thesis using assms by (auto simp: cron_add_def split: sum.splits)
next
  case True
  then obtain sch p where b: "buildSchedule env now a = Inr sch" "buildTask sess a = Inr p" "tool_job_name a p \<noteq> []" by blast
  let ?e = "cron_env.truncate env" and ?j = "new_job (cron_env.truncate env) now2 new_id (tool_job_name a p) sch p (in_deleteAfterRun a)"
  obtain s' where s': "AddJob ?e now2 now3 new_id (tool_job_name a p) sch p (in_deleteAfterRun a) s =
      (if computeNextRun ?e sch now2 = 0 then Inl (NoFutureRun (sch_kind sch)) else Inr ?j, s')"
    "loaded ?e s'" "table ?e s' = table ?e s @ (if computeNextRun ?e sch now2 = 0 then [] else [?j])"
    using AddJob_table [OF assms] by blast
  have j: "job_id ?j = new_id" "next_run ?j = computeNextRun ?e sch now2" "job_name ?j = tool_job_name a p"
    by (simp_all add: new_job_def)
  show ?thesis
  proof (cases "computeNextRun ?e sch now2 = 0")
    case True
    with b s' show ?thesis by (simp add: cron_add_def loaded_synced)
  next
    case False
    with b s' j new_job_dispatchable [OF b(2)] show ?thesis by (simp add: cron_add_def loaded_synced)
  qed
qed

definition demo_tool_env :: tool_env where
  "demo_tool_env = cron_env.extend demo_env
     \<lparr>te_unmarshal = (\<lambda>_. Inl []), te_parse_time = (\<lambda>t. if t = ''soon'' then Some 100 else None),
      te_format_nano = (\<lambda>_. []), te_format_list = (\<lambda>_. []), \<dots> = ()\<rparr>"

definition demo_input :: cronInput where
  "demo_input = \<lparr>in_action = ''add'', in_name = [], in_scheduleType = [], in_at = ''soon'', in_delaySeconds = 0,
     in_delayMinutes = 0, in_everySeconds = 0, in_everyMinutes = 0, in_cronExpr = [], in_tz = [], in_taskType = [],
     in_command = ''date'', in_prompt = [], in_text = [], in_agentSessionID = [], in_chatSessionID = [],
     in_deleteAfterRun = False, in_jobID = []\<rparr>"

lemma demo_tool_truncate [simp]: "cron_env.truncate demo_tool_env = demo_env"
  by (simp add: demo_tool_env_def cron_env.truncate_def cron_env.extend_def)

lemma demo_rfc: "ce_rfc3339 demo_env = (\<lambda>_. [])"
  by (simp add: demo_env_def)

lemmas trim_eval = TrimSpace_def is_space_def ToLower_def lower_char_def

theorem tool_add_appends_witness:
  "\<exists>s' j. cron_add demo_tool_env 10 10 11 ''j7'' None demo_input demo_service =
       (Inr (''Job added. id=j7 name='' @ Quote ''date'' @ '' next=''), s') \<and>
     table demo_env s' = [j] \<and> job_id j = ''j7'' \<and> job_name j \<noteq> [] \<and> dispatchable (job_payload j)"
proof -
  have s: "buildSchedule demo_tool_env 10 demo_input = Inr demo_schedule"
    by (simp add: buildSchedule_def scheduleKindOf_def normScheduleKind_def demo_input_def demo_tool_env_def
        cron_env.extend_def zero_schedule_def demo_schedule_def trim_eval Let_def)
  have p: "buildTask None demo_input = Inr (zero_payload\<lparr>pl_kind := PayloadExec, pl_command := ''date''\<rparr>)"
    by (simp add: buildTask_def taskTypeOf_def demo_input_def fillChatSessionID_def currentChatSessionID_def
        zero_payload_def trim_eval Let_def)
  have n: "tool_job_name demo_input (zero_payload\<lparr>pl_kind := PayloadExec, pl_command := ''date''\<rparr>) = ''date''"
    by (simp add: tool_job_name_def demo_input_def defaultJobName_def trim_eval)
  obtain r s' where rs: "cron_add demo_tool_env 10 10 11 ''j7'' None demo_input demo_service = (r, s')"
    "case r of Inl e \<Rightarrow> table demo_env s' = [] | Inr msg \<Rightarrow> \<exists>j. table demo_env s' = [j] \<and> job_id j = ''j7'' \<and>
         next_run j \<noteq> 0 \<and> job_name j \<noteq> [] \<and> dispatchable (job_payload j)"
    using tool_add_appends [of demo_tool_env demo_service 10 10 11 "''j7''" None demo_input]
    unfolding demo_tool_truncate demo_table append_Nil using demo_synced by blast
  obtain s'' where "AddJob demo_env 10 11 ''j7'' ''date'' demo_schedule (zero_payload\<lparr>pl_kind := PayloadExec, pl_command := ''date''\<rparr>)
      False demo_service = (Inr (new_job demo_env 10 ''j7'' ''date'' demo_schedule (zero_payload\<lparr>pl_kind := PayloadExec, pl_command := ''date''\<rparr>) False), s'')"
    using AddJob_table [OF demo_synced, of 10 11 "''j7''" "''date''" demo_schedule _ False] demo_next by auto
  with s p n have "r = Inr (''Job added. id=j7 name='' @ Quote ''date'' @ '' next='')"
    using rs(1) demo_rfc by (simp add: cron_add_def demo_input_def new_job_def demo_next)
  then have r: "r = Inr (''Job added. id=j7 name='' @ Quote ''date'' @ '' next='')" .
  with rs(2) obtain j where j: "table demo_env s' = [j]" "job_id j = ''j7''" "job_name j \<noteq> []" "dispatchable (job_payload j)"
    by (simp only: sum.case) blast
  show ?thesis using rs(1) r j by blast
qed

text \<open>Naming a job instead of giving its id. The tool answers with an id only if exactly one job of the
  table has that name (ignoring case and outer white space) and the id is that job's; the service's
  table is not changed by looking.\<close>

theorem tool_resolves_unique_name:
  assumes "synced (cron_env.truncate env) s" and "TrimSpace (in_jobID i) = []"
  shows "\<exists>r s'. resolveJobID env i s = (r, s') \<and> table (cron_env.truncate env) s' = table (cron_env.truncate env) s \<and>
    (case r of Inl e \<Rightarrow> True
     | Inr k \<Rightarrow> \<exists>j. filter (\<lambda>j. ToLower (TrimSpace (job_name j)) = ToLower (TrimSpace (in_name i)))
          (table (cron_env.truncate env) s) = [j] \<and> job_id j = k)"
proof -
  let ?e = "cron_env.truncate env" and ?m = "\<lambda>j. ToLower (TrimSpace (job_name j)) = ToLower (TrimSpace (in_name i))"
  obtain s' where s': "ListJobs ?e True s = (Inr (sort_jobs (table ?e s)), s')" "table ?e s' = table ?e s"
    using ListJobs_table [OF assms(1), of True] by auto
  have one: "filter ?m (table ?e s) = [j]" if "filter ?m (sort_jobs (table ?e s)) = [j]" for j
  proof -
    have "mset (filter ?m (table ?e s)) = mset [j]"
      by (metis that mset_filter sort_jobs_mset)
    then show ?thesis by (metis mset_single_iff_right mset.simps(1) mset.simps(2))
  qed
  show ?thesis
    using assms(2) s' one
    by (auto simp: resolveJobID_def Let_def split: list.splits)
qed

theorem tool_resolves_unique_name_witness:
  "\<exists>s'. resolveJobID demo_tool_env (demo_input\<lparr>in_name := '' alarm''\<rparr>) demo_added = (Inr ''j1'', s') \<and>
     table demo_env s' = [demo_job]"
proof -
  let ?i = "demo_input\<lparr>in_name := '' alarm''\<rparr>"
  have j: "TrimSpace (in_jobID ?i) = []" by (simp add: demo_input_def)
  have n: "job_name demo_job = ''alarm''" by (simp add: demo_job_def new_job_def)
  obtain s' where l: "ListJobs demo_env True demo_added = (Inr [demo_job], s')"
    using ListJobs_table [OF loaded_synced [OF demo_added(1)], of True] by (auto simp: demo_added(2) sort_jobs_def)
  have "fst (resolveJobID demo_tool_env ?i demo_added) = Inr ''j1''"
    by (simp add: resolveJobID_def l n Let_def) (simp add: demo_input_def trim_eval)
  moreover obtain r s'' where rs: "resolveJobID demo_tool_env ?i demo_added = (r, s'')" "table demo_env s'' = table demo_env demo_added"
    using tool_resolves_unique_name [of demo_tool_env demo_added ?i, OF _ j] loaded_synced [OF demo_added(1)]
    unfolding demo_tool_truncate by blast
  ultimately show ?thesis by (simp add: demo_added(2))
qed

end
