(* ===== verification/Doctor.thy ===== *)
theory Doctor
  imports Workspace App_Runner Lark_Channel Weixin_Channel Cron_Tool
begin

text \<open>
  The health checks of \<open>blades doctor\<close> (\<open>app/doctor.go\<close>, \<open>cmd/doctor.go\<close>) over the parts they look at: the
  files, the configuration, the agent's recipe, the channels and the scheduler. The scheduler's file is
  the disk of its model, and a file that cannot be found there is one without a modification time.
\<close>

section \<open>Contexts and results\<close>

record 'p doctor_env = "'p boot_env" +
  dv_accounts :: account_env
  dv_recipe :: "string \<Rightarrow> string + agentSpec"
  dv_loadSkills :: "'p \<Rightarrow> string \<Rightarrow> string + skill list"
  dv_cron :: cron_env
  dv_disk :: disk
  dv_now :: time

record doctor_context =
  dc_workspace :: workspace
  dc_configPath :: string
  dc_config :: "Config option"

record doctor_result =
  dr_Label :: string
  dr_Detail :: string
  dr_OK :: bool
  dr_Follow :: "string list"

abbreviation report :: "string \<Rightarrow> string \<Rightarrow> bool \<Rightarrow> string list \<Rightarrow> doctor_result" where
  "report label detail ok follow \<equiv> \<lparr>dr_Label = label, dr_Detail = detail, dr_OK = ok, dr_Follow = follow\<rparr>"

definition show_bool :: "bool \<Rightarrow> string" where
  "show_bool b = (if b then ''true'' else ''false'')"

text \<open>The workspace as the construction of the agent sees it.\<close>

definition agent_files :: "'p doctor_env \<Rightarrow> workspace \<Rightarrow> 'p \<Rightarrow> app_workspace" where
  "agent_files env w p = \<lparr>wk_dir = ws_workspace w, wk_sessionsDir = SessionsDir w,
     wk_agentsMd = Workspace_ReadFile env w ''AGENTS.md'' p, wk_agentExists = (\<not> missing env p (AgentPath w)),
     wk_agentPath = AgentPath w,
     wk_readRecipe = (\<lambda>path. case x_readFile env p path of Inl e \<Rightarrow> Inl (fs_text e) | Inr d \<Rightarrow> Inr d),
     wk_unmarshalRecipe = dv_recipe env, wk_skillsExist = (\<not> missing env p (SkillsDir w)),
     wk_skillEntries = (case s_readDir env p (SkillsDir w) of Inl e \<Rightarrow> Inl (fs_text e) | Inr es \<Rightarrow> Inr (length es)),
     wk_loadSkills = dv_loadSkills env p (SkillsDir w)\<rparr>"

text \<open>An error of the configuration leaves the context without one.\<close>

definition BuildDoctorContext :: "'p doctor_env \<Rightarrow> app_options \<Rightarrow> 'p \<Rightarrow> doctor_context" where
  "BuildDoctorContext env opts p = (let w = boot_workspace (bt_home env) opts in
     \<lparr>dc_workspace = w,
      dc_configPath = (if op_ConfigPath opts \<noteq> [] then Clean (ExpandTilde (bt_home env) (op_ConfigPath opts)) else ConfigPath w),
      dc_config = (case LoadConfig env opts p of Inl _ \<Rightarrow> None | Inr c \<Rightarrow> Some c)\<rparr>)"

section \<open>Checks\<close>

type_synonym 'p doctor_run = "'p doctor_env \<Rightarrow> doctor_context \<Rightarrow> 'p \<Rightarrow> string + doctor_result list"

definition fileDoctorCheck :: "string \<Rightarrow> (doctor_context \<Rightarrow> string) \<Rightarrow> string \<times> 'p doctor_run" where
  "fileDoctorCheck label path = (label, \<lambda>env ctx p. Inr [
     if isl (x_stat env p (path ctx)) then report label (path ctx @ '' (missing)'') False [] else report label (path ctx) True []])"

definition cronDoctorCheck :: "string \<times> 'p doctor_run" where
  "cronDoctorCheck = (''Cron'', \<lambda>env ctx p.
     if stat_mtime (dv_disk env) = None then Inr [report ''Cron'' ''no cron.yaml (add jobs with 'blades cron add')'' True []]
     else case ListJobs (dv_cron env) False (NewService (CronStorePath (dc_workspace ctx)) None (dv_disk env) p) of
       (Inl e, s) \<Rightarrow> Inr [report ''Cron'' (cron_error_text e) False []]
     | (Inr js, s) \<Rightarrow> (let stale = fst (StaleJobs (dv_cron env) (dv_now env) 93600000000000 s) in
         Inr (report ''Cron'' (show_nat (length js) @ '' jobs, '' @ show_nat (length stale) @ '' stale'') True [] #
           map (\<lambda>j. report ''stale'' (FormatJob (dv_cron env) (dv_now env) j) False []) stale)))"

definition provider_ok :: "Provider \<Rightarrow> bool" where
  "provider_ok q \<longleftrightarrow> TrimSpace (pv_apiKey q) \<noteq> [] \<and> pv_models q \<noteq> []"

definition provider_line :: "Provider \<Rightarrow> string" where
  "provider_line q = pv_name q @ '' ('' @ pv_provider q @ ''): '' @
     (if TrimSpace (pv_apiKey q) = [] then ''missing apiKey'' else if pv_models q = [] then ''missing models'' else ''ok'')"

definition configured_providers :: "doctor_context \<Rightarrow> Provider list" where
  "configured_providers ctx = (case dc_config ctx of None \<Rightarrow> [] | Some c \<Rightarrow> cf_providers c)"

definition providerDoctorCheck :: "string \<times> 'p doctor_run" where
  "providerDoctorCheck = (''Providers'', \<lambda>env ctx p. (let qs = configured_providers ctx in
     if qs = [] then Inr [report ''Providers'' ''none configured'' False [''add at least one provider entry to '' @ dc_configPath ctx]]
     else Inr [report ''Providers'' (show_nat (length qs) @ '' configured'') (list_all provider_ok qs) (map provider_line qs)]))"

definition agentRecipeDoctorCheck :: "string \<times> 'p doctor_run" where
  "agentRecipeDoctorCheck = (''Agent recipe'', \<lambda>env ctx p.
     case LoadAgentSpec (agent_files env (dc_workspace ctx) p) of
       Inl e \<Rightarrow> Inr [report ''agent recipe'' e False []]
     | Inr spec \<Rightarrow> (case Validate (Some spec) of
           Some e \<Rightarrow> Inr [report ''agent recipe'' e False []]
         | None \<Rightarrow> Inr [report ''agent recipe'' (AgentPath (dc_workspace ctx)) True []]))"

definition execDoctorCheck :: "string \<times> 'p doctor_run" where
  "execDoctorCheck = (''Tools'', \<lambda>env ctx p.
     (let e = (case dc_config ctx of None \<Rightarrow> cf_exec empty_config | Some c \<Rightarrow> cf_exec c) in
      Inr [report ''Tools'' (if ce_restrict e then ''timeout='' @ x_duration env (ExecTimeout e) else ''workspace restriction disabled'')
        (ce_restrict e) [''restrictToWorkspace='' @ show_bool (ce_restrict e),
          ''allowPatterns='' @ show_nat (length (ce_allow e)) @ '' denyPatterns='' @ show_nat (length (ce_deny e))]]))"

text \<open>The first of the values that is not blank, trimmed; like \<open>firstNonEmpty\<close>.\<close>

definition larkDoctorCheck :: "string \<times> 'p doctor_run" where
  "larkDoctorCheck = (''Lark'', \<lambda>env ctx p. (case dc_config ctx of
       None \<Rightarrow> Inr [report ''Lark'' ''disabled'' True []]
     | Some c \<Rightarrow> (let cfg = cf_lark c;
           appID = firstNonEmpty [lk_appID cfg, ae_getenv (dv_accounts env) ''LARK_APP_ID''];
           appSecret = firstNonEmpty [lk_appSecret cfg, ae_getenv (dv_accounts env) ''LARK_APP_SECRET''];
           ok = (appID \<noteq> [] \<and> appSecret \<noteq> [])
         in if \<not> lk_enabled cfg then Inr [report ''Lark'' ''disabled'' True []]
         else Inr [report ''Lark'' (if ok then ''enabled'' else ''enabled but credentials missing'') ok
           [''appID='' @ show_bool (appID \<noteq> []), ''appSecret='' @ show_bool (appSecret \<noteq> []),
            ''encryptKey='' @ show_bool (TrimSpace (lk_encryptKey cfg) \<noteq> []),
            ''verificationToken='' @ show_bool (TrimSpace (lk_verificationToken cfg) \<noteq> [])]])))"

text \<open>A directory of accounts that cannot be listed counts as empty.\<close>

definition weixin_report :: "account_env \<Rightarrow> weixin_config \<Rightarrow> doctor_result" where
  "weixin_report env cfg =
     (let accountID = firstNonEmpty [wc_accountID cfg, ae_getenv env ''WEIXIN_ACCOUNT_ID''];
          botToken = firstNonEmpty [wc_botToken cfg, ae_getenv env ''WEIXIN_BOT_TOKEN''];
          dir = firstNonEmpty [wc_accountDir cfg, ae_getenv env ''WEIXIN_ACCOUNT_DIR''];
          accountDir = ExpandTilde (ae_home env) (if dir = [] then DefaultAccountDir env else dir);
          saved = (case ListSavedAccounts env accountDir of Inl _ \<Rightarrow> 0 | Inr as \<Rightarrow> length as);
          ok = (botToken \<noteq> [] \<or> saved = 1 \<or> 1 < saved \<and> accountID \<noteq> [])
      in report ''Weixin'' (if ok then ''enabled''
           else if 1 < saved \<and> accountID = [] then ''enabled but multiple saved accounts need accountID''
           else if saved = 0 \<and> botToken = [] then ''enabled but no saved account found''
           else ''enabled but account credentials missing'') ok
           [''accountID='' @ show_bool (accountID \<noteq> []), ''botToken='' @ show_bool (botToken \<noteq> []), ''accountDir='' @ accountDir,
            ''savedAccounts='' @ show_nat saved, ''cdnBaseURL='' @ show_bool (TrimSpace (wc_cdnBaseURL cfg) \<noteq> []),
            ''stateDir='' @ show_bool (TrimSpace (wc_stateDir cfg) \<noteq> [])])"

definition weixinDoctorCheck :: "string \<times> 'p doctor_run" where
  "weixinDoctorCheck = (''Weixin'', \<lambda>env ctx p. (case dc_config ctx of
       None \<Rightarrow> Inr [report ''Weixin'' ''disabled'' True []]
     | Some c \<Rightarrow> (if \<not> wc_enabled (cf_weixin c) then Inr [report ''Weixin'' ''disabled'' True []]
         else Inr [weixin_report (dv_accounts env) (cf_weixin c)])))"

definition DefaultDoctorChecks :: "(string \<times> 'p doctor_run) list" where
  "DefaultDoctorChecks =
     [fileDoctorCheck ''Blades home (root)'' (ws_home \<circ> dc_workspace),
      fileDoctorCheck ''Workspace directory'' (ws_workspace \<circ> dc_workspace),
      fileDoctorCheck ''config.yaml'' dc_configPath,
      fileDoctorCheck ''agent.yaml'' (AgentPath \<circ> dc_workspace),
      fileDoctorCheck ''workspace/AGENTS.md'' (AgentsPath \<circ> dc_workspace),
      fileDoctorCheck ''workspace/SOUL.md'' (SoulPath \<circ> dc_workspace),
      fileDoctorCheck ''workspace/IDENTITY.md'' (IdentityPath \<circ> dc_workspace),
      fileDoctorCheck ''workspace/USER.md'' (UserPath \<circ> dc_workspace),
      fileDoctorCheck ''workspace/MEMORY.md'' (MemoryPath \<circ> dc_workspace),
      fileDoctorCheck ''workspace/TOOLS.md'' (ToolsPath \<circ> dc_workspace),
      fileDoctorCheck ''workspace/HEARTBEAT.md'' (HeartbeatPath \<circ> dc_workspace),
      fileDoctorCheck ''skills/'' (SkillsDir \<circ> dc_workspace),
      fileDoctorCheck ''workspace/memory/'' (MemoriesDir \<circ> dc_workspace),
      providerDoctorCheck, agentRecipeDoctorCheck, execDoctorCheck, larkDoctorCheck, weixinDoctorCheck, cronDoctorCheck]"

section \<open>Running and printing\<close>

fun RunDoctorChecks :: "'p doctor_env \<Rightarrow> doctor_context \<Rightarrow> 'p \<Rightarrow> (string \<times> 'p doctor_run) list \<Rightarrow> string + doctor_result list" where
  "RunDoctorChecks env ctx p [] = Inr []"
| "RunDoctorChecks env ctx p (c # cs) = (case snd c env ctx p of
       Inl e \<Rightarrow> Inl (fst c @ '': '' @ e)
     | Inr rs \<Rightarrow> ebind (RunDoctorChecks env ctx p cs) (\<lambda>more. Inr (rs @ more)))"

abbreviation check_mark :: string where "check_mark \<equiv> [CHR 0xE2, CHR 0x9C, CHR 0x93]"
abbreviation ballot_x :: string where "ballot_x \<equiv> [CHR 0xE2, CHR 0x9C, CHR 0x97]"

definition print_result :: "doctor_result \<Rightarrow> string" where
  "print_result r = (if dr_Label r = ''stale'' then ''  '' @ ballot_x @ '' '' @ dr_Label r @ '': '' @ dr_Detail r @ [newline]
     else (if dr_OK r then check_mark else ballot_x) @ '' '' @ pad_right 30 (dr_Label r) @ '' '' @ dr_Detail r @ [newline] @
       concat (map (\<lambda>line. ''  '' @ line @ [newline]) (dr_Follow r)))"

definition PrintDoctorResults :: "doctor_result list \<Rightarrow> string \<times> bool" where
  "PrintDoctorResults rs = (concat (map print_result rs), list_all (\<lambda>r. dr_Label r \<noteq> ''stale'' \<and> dr_OK r) rs)"

text \<open>\<open>blades doctor\<close>: its output and its error.\<close>

definition run_doctor :: "'p doctor_env \<Rightarrow> app_options \<Rightarrow> 'p \<Rightarrow> string \<times> string option" where
  "run_doctor env opts p = (case LoadConfig env opts p of
       Inl e \<Rightarrow> ([], Some e)
     | Inr _ \<Rightarrow> (case RunDoctorChecks env (BuildDoctorContext env opts p) p DefaultDoctorChecks of
           Inl e \<Rightarrow> ([], Some e)
         | Inr rs \<Rightarrow> (case PrintDoctorResults rs of (out, ok) \<Rightarrow>
             if ok then (out, None)
             else (out @ [newline] @ ''Run 'blades init' to create missing files.'' @ [newline], Some ''doctor found issues''))))"

end
