(* ===== verification/Memory_Props.thy ===== *)
theory Memory_Props
  imports Memory_Store
begin

text \<open>
  What the memory store promises: the file of long-term facts is always a whole version, to which notes
  are added in order; the daily logs grow; recent logs come in the order of their days and a search
  gives exactly the matching lines.
\<close>

section \<open>What the file system documents\<close>

definition content :: "('p, 'z) file_env_scheme \<Rightarrow> 'p \<Rightarrow> string \<Rightarrow> string option" where
  "content env p path = (case x_readFile env p path of Inl _ \<Rightarrow> None | Inr c \<Rightarrow> Some c)"

text \<open>Two states agree on all files but some.\<close>

definition same_but :: "('p, 'z) file_env_scheme \<Rightarrow> string set \<Rightarrow> 'p \<Rightarrow> 'p \<Rightarrow> bool" where
  "same_but env A p q \<longleftrightarrow> (\<forall>path. path \<notin> A \<longrightarrow> content env q path = content env p path)"

text \<open>A temporary file is new and empty; a file written is longer by what was written; renaming moves a
  file and replaces the target; a call that fails leaves the other files alone, and a rename that fails
  leaves all.\<close>

definition temp_laws :: "('p, 'z) file_env_scheme \<Rightarrow> bool" where
  "temp_laws env \<longleftrightarrow>
     (\<forall>dir p e q. x_createTemp env dir p = (Inl e, q) \<longrightarrow> same_but env {} p q) \<and>
     (\<forall>dir p tmp q. x_createTemp env dir p = (Inr tmp, q) \<longrightarrow>
        content env p tmp = None \<and> content env q tmp = Some [] \<and> same_but env {tmp} p q) \<and>
     (\<forall>tmp c p r q. x_writeString env tmp c p = (r, q) \<longrightarrow> same_but env {tmp} p q \<and>
        (r = None \<longrightarrow> content env q tmp = map_option (\<lambda>b. b @ c) (content env p tmp))) \<and>
     (\<forall>tmp p r q. x_close env tmp p = (r, q) \<longrightarrow> same_but env {} p q) \<and>
     (\<forall>tmp p. same_but env {tmp} p (x_remove env tmp p)) \<and>
     (\<forall>tmp path p e q. x_rename env tmp path p = (Some e, q) \<longrightarrow> same_but env {} p q) \<and>
     (\<forall>tmp path p q. x_rename env tmp path p = (None, q) \<longrightarrow> content env q path = content env p tmp \<and>
        (tmp \<noteq> path \<longrightarrow> content env q tmp = None) \<and> same_but env {tmp, path} p q)"

lemma temp_rules:
  assumes "temp_laws env"
  shows "x_createTemp env dir p = (Inl e, q) \<Longrightarrow> same_but env {} p q"
    and "x_createTemp env dir p = (Inr tmp, q) \<Longrightarrow>
      content env p tmp = None \<and> content env q tmp = Some [] \<and> same_but env {tmp} p q"
    and "x_writeString env tmp c p = (r, q) \<Longrightarrow> same_but env {tmp} p q"
    and "x_writeString env tmp c p = (None, q) \<Longrightarrow> content env q tmp = map_option (\<lambda>b. b @ c) (content env p tmp)"
    and "x_close env tmp p = (r, q) \<Longrightarrow> same_but env {} p q"
    and "same_but env {tmp} p (x_remove env tmp p)"
    and "x_rename env tmp path p = (Some x, q) \<Longrightarrow> same_but env {} p q"
    and "x_rename env tmp path p = (None, q) \<Longrightarrow> content env q path = content env p tmp \<and>
      (tmp \<noteq> path \<longrightarrow> content env q tmp = None) \<and> same_but env {tmp, path} p q"
  using assms by (simp_all add: temp_laws_def)

lemma same_but_refl [simp]: "same_but env A p p"
  by (simp add: same_but_def)

lemma same_but_trans: "same_but env A p q \<Longrightarrow> same_but env B q r \<Longrightarrow> same_but env (A \<union> B) p r"
  by (simp add: same_but_def)

lemma same_but_mono: "same_but env A p q \<Longrightarrow> A \<subseteq> B \<Longrightarrow> same_but env B p q"
  by (auto simp: same_but_def)

section \<open>Long-term memory\<close>

text \<open>Whatever fails, the file has its old content or the new one, and besides it only the temporary file
  is touched.\<close>

lemma WriteMemory_atomic:
  assumes laws: "temp_laws env" and ex: "content env p (ms_memoryFile s) \<noteq> None"
    and w: "WriteMemory env s new p = (r, q)"
  shows "content env q (ms_memoryFile s) = (if r = None then Some new else content env p (ms_memoryFile s)) \<and>
    (\<exists>A. same_but env (insert (ms_memoryFile s) A) p q \<and> (\<forall>path \<in> A. content env p path = None) \<and>
       (r = None \<longrightarrow> (\<forall>path \<in> A. content env q path = None)))"
proof -
  let ?f = "ms_memoryFile s"
  note rules = temp_rules [OF laws]
  obtain a p1 where c: "x_createTemp env (Dir ?f) p = (a, p1)" by fastforce
  show ?thesis
  proof (cases a)
    case (Inl e)
    have "same_but env {} p p1" using rules(1) c Inl by blast
    moreover have "q = p1" "r \<noteq> None" using w c Inl by (auto simp: WriteMemory_def)
    ultimately show ?thesis by (auto simp: same_but_def intro: exI [of _ "{}"])
  next
    case (Inr tmp)
    have t: "content env p tmp = None" "content env p1 tmp = Some []" "same_but env {tmp} p p1" using rules(2) c Inr by blast+
    then have ne: "tmp \<noteq> ?f" using ex by auto
    obtain b p2 where wr: "x_writeString env tmp new p1 = (b, p2)" by fastforce
    obtain d p3 where cl: "x_close env tmp p2 = (d, p3)" by fastforce
    obtain e p4 where rn: "x_rename env tmp ?f p3 = (e, p4)" by fastforce
    have s3: "same_but env {tmp} p p3"
      using t(3) rules(3) [OF wr] rules(5) [OF cl] by (auto simp: same_but_def)
    have res: "(r, q) = (if b \<noteq> None \<or> d \<noteq> None then (r, x_remove env tmp p3)
        else if e \<noteq> None then (r, x_remove env tmp p4) else (None, p4))"
      and fails: "r = None \<longleftrightarrow> b = None \<and> d = None \<and> e = None"
      using w c Inr wr cl rn by (auto simp: WriteMemory_def split: option.splits)
    show ?thesis
    proof (cases "r = None")
      case True
      then have ok: "b = None" "e = None" "q = p4" using fails res by auto
      have "content env p3 tmp = Some new" using rules(4) wr ok(1) rules(5) [OF cl] t(2) by (auto simp: same_but_def)
      then have "content env q ?f = Some new \<and> content env q tmp = None \<and> same_but env {tmp, ?f} p3 q"
        using rules(8) rn ok ne by metis
      with True s3 t(1) show ?thesis by (auto simp: same_but_def intro!: exI [of _ "{tmp}"])
    next
      case False
      have "same_but env {tmp} p q"
      proof (cases "b \<noteq> None \<or> d \<noteq> None")
        case True
        then show ?thesis using res s3 rules(6) [of tmp p3] by (auto simp: same_but_def)
      next
        case no: False
        then obtain x where "e = Some x" using False fails by auto
        then show ?thesis using no res s3 rules(7) rn rules(6) [of tmp p4] by (auto simp: same_but_def)
      qed
      with False ne t(1) show ?thesis by (auto simp: same_but_def intro!: exI [of _ "{tmp}"])
    qed
  qed
qed

lemma TrimSpace_snoc_space: "is_space c \<Longrightarrow> TrimSpace (s @ [c]) = TrimSpace s"
proof (cases "\<forall>x \<in> set s. is_space x")
  case False
  then have "dropWhile is_space (s @ [c]) = dropWhile is_space s @ [c]" by (auto simp: dropWhile_append1)
  moreover assume "is_space c"
  ultimately show ?thesis by (simp add: TrimSpace_def)
qed (auto simp: TrimSpace_def dropWhile_append dest: set_dropWhileD)

lemma is_space_newline [simp]: "is_space newline"
  by (simp add: is_space_def)

lemma ReadMemory_content: "ReadMemory env s p = Inr m \<longleftrightarrow> (\<exists>c. content env p (ms_memoryFile s) = Some c \<and> m = TrimSpace c)"
  by (auto simp: ReadMemory_def content_def split: sum.splits)

lemma trimmed_no_newline: "TrimSpace m = m \<Longrightarrow> \<not> HasSuffix m [newline]"
proof
  assume "TrimSpace m = m" and "HasSuffix m [newline]"
  moreover then obtain a where "m = a @ [newline]" by (auto simp: HasSuffix_iff suffix_def)
  ultimately show False using TrimSpace_ends(2) [of m] by simp
qed

text \<open>One note: the new content is the old one, trimmed, and the note on a line of its own; a note that
  cannot be added leaves the memory as it is.\<close>

lemma AppendMemory_reads:
  assumes laws: "temp_laws env" and m: "ReadMemory env s p = Inr m" and a: "AppendMemory env s t p = (r, q)"
  shows "ReadMemory env s q = Inr (if r = None then TrimSpace (m @ newline # t) else m)"
    and "path \<noteq> ms_memoryFile s \<Longrightarrow> content env p path \<noteq> None \<Longrightarrow> content env q path = content env p path"
proof -
  obtain c where c: "content env p (ms_memoryFile s) = Some c" "m = TrimSpace c" using m by (auto simp: ReadMemory_content)
  have w: "WriteMemory env s (m @ newline # t @ [newline]) p = (r, q)"
    using a m trimmed_no_newline [of m] c(2) by (simp add: AppendMemory_def)
  note at = WriteMemory_atomic [OF laws _ w]
  have "TrimSpace (m @ newline # t @ [newline]) = TrimSpace (m @ newline # t)"
    using TrimSpace_snoc_space [of newline "m @ newline # t"] by simp
  with at c show "ReadMemory env s q = Inr (if r = None then TrimSpace (m @ newline # t) else m)"
    by (auto simp: ReadMemory_content)
  show "content env q path = content env p path" if "path \<noteq> ms_memoryFile s" "content env p path \<noteq> None"
    using at c that by (auto simp: same_but_def)
qed

fun append_all :: "'p store_env \<Rightarrow> memoryStore \<Rightarrow> string list \<Rightarrow> 'p \<Rightarrow> string option list \<times> 'p" where
  "append_all env s [] p = ([], p)"
| "append_all env s (t # ts) p = (case AppendMemory env s t p of (r, p1) \<Rightarrow>
     (case append_all env s ts p1 of (rs, q) \<Rightarrow> (r # rs, q)))"

text \<open>The notes that were added.\<close>

definition added :: "string list \<Rightarrow> string option list \<Rightarrow> string list" where
  "added ts rs = map fst (filter (\<lambda>(t, r). r = None) (zip ts rs))"

lemma added_simps [simp]: "added [] rs = []" "added (t # ts) (r # rs) = (if r = None then t # added ts rs else added ts rs)"
  by (simp_all add: added_def)

text \<open>C27: Long-term memory is a file to which notes are added in order. After any sequence of
  \<open>AppendMemory\<close> calls, some of which may fail at any of their file system calls, reading gives what was
  there before followed by exactly the notes that were reported as added, each on its own line; every
  other file that existed is unchanged.\<close>

theorem memory_accumulates:
  assumes "temp_laws env" and "ReadMemory env s p = Inr m" and "m \<noteq> []"
    and "\<forall>t \<in> set ts. TrimSpace t = t \<and> t \<noteq> []" and "append_all env s ts p = (rs, q)"
  shows "ReadMemory env s q = Inr (m @ concat (map (\<lambda>t. newline # t) (added ts rs))) \<and>
    (\<forall>path. path \<noteq> ms_memoryFile s \<longrightarrow> content env p path \<noteq> None \<longrightarrow> content env q path = content env p path)"
  using assms(2-5)
proof (induction ts arbitrary: p m rs)
  case (Cons t ts)
  obtain r p1 where a: "AppendMemory env s t p = (r, p1)" by fastforce
  obtain rs' where rs: "append_all env s ts p1 = (rs', q)" "rs = r # rs'" using Cons.prems(4) a by (auto split: prod.splits)
  note one = AppendMemory_reads [OF assms(1) Cons.prems(1) a]
  have m: "TrimSpace m = m" using Cons.prems(1) by (auto simp: ReadMemory_content)
  have t: "TrimSpace t = t" "t \<noteq> []" using Cons.prems(3) by simp_all
  have "TrimSpace (m @ newline # t) = m @ newline # t"
    using TrimSpace_no_outer [of "m @ newline # t"] TrimSpace_ends(1) [of m] TrimSpace_ends(2) [of t] m t Cons.prems(2) by simp
  then have read: "ReadMemory env s p1 = Inr (if r = None then m @ newline # t else m)" using one(1) by simp
  have "ReadMemory env s q = Inr ((if r = None then m @ newline # t else m) @ concat (map (\<lambda>t. newline # t) (added ts rs'))) \<and>
    (\<forall>path. path \<noteq> ms_memoryFile s \<longrightarrow> content env p1 path \<noteq> None \<longrightarrow> content env q path = content env p1 path)"
    by (rule Cons.IH [OF read _ _ rs(1)]) (use Cons.prems in auto)
  with rs(2) one(2) show ?case by (auto split: if_splits)
qed simp

text \<open>A file system that is an association list; the name of a temporary file is longer than any other.\<close>

definition fresh_name :: "(string, string) gomap \<Rightarrow> string" where
  "fresh_name p = replicate (Suc (sum_list (map (length \<circ> fst) p))) (CHR ''t'')"

lemma fresh_name: "map_of p (fresh_name p) = None"
proof -
  have "length k \<le> sum_list (map (length \<circ> fst) p)" if "(k, v) \<in> set p" for k v
    using member_le_sum_list [of "length k" "map (length \<circ> fst) p"] that by force
  then show ?thesis unfolding map_of_eq_None_iff fresh_name_def
    by (metis (no_types, lifting) imageE length_replicate not_less_eq_eq order_refl prod.collapse)
qed

definition list_store :: "(string, string) gomap store_env" where
  "list_store = \<lparr>x_getwd = Inr ''/'', x_evalSymlinks = (\<lambda>p path. Inr path), x_lstat = (\<lambda>p path. None),
     x_stat = (\<lambda>p path. case map_of p path of None \<Rightarrow> Inl (NotExist ''not found'') | Some _ \<Rightarrow> Inr False),
     x_readFile = (\<lambda>p path. case map_of p path of None \<Rightarrow> Inl (NotExist ''not found'') | Some c \<Rightarrow> Inr c),
     x_mkdirAll = (\<lambda>d p. (None, p)),
     x_createTemp = (\<lambda>d p. (Inr (fresh_name p), AList.update (fresh_name p) [] p)),
     x_writeString = (\<lambda>f c p. case map_of p f of None \<Rightarrow> (Some (OtherError ''not found''), p)
       | Some b \<Rightarrow> (None, AList.update f (b @ c) p)),
     x_close = (\<lambda>f p. (None, p)),
     x_rename = (\<lambda>f g p. case map_of p f of None \<Rightarrow> (Some (OtherError ''not found''), p)
       | Some b \<Rightarrow> (None, if f = g then p else AList.delete f (AList.update g b p))),
     x_remove = (\<lambda>f p. AList.delete f p),
     x_compile = (\<lambda>pattern. Inl ''unused''), x_shell = (\<lambda>dir c t p. ((ShellOk, []), p)), x_duration = (\<lambda>_. []),
     x_decodeRead = (\<lambda>_. Inl ''unused''), x_decodeEdit = (\<lambda>_. Inl ''unused''), x_decodeWrite = (\<lambda>_. Inl ''unused''),
     x_decodeBash = (\<lambda>_. Inl ''unused''),
     s_writeFile = (\<lambda>f c p. (None, AList.update f c p)),
     s_openAppend = (\<lambda>p f. if map_of p f = None then Some (NotExist ''not found'') else None),
     s_append = (\<lambda>f c p. (None, AList.update f (the (map_of p f) @ c) p)),
     s_readDir = (\<lambda>p d. Inr (map (\<lambda>(f, c). \<lparr>dt_name = f, dt_isDir = False, dt_size = Some (length c)\<rparr>) p))\<rparr>"

lemma list_store_content [simp]: "content list_store p path = map_of p path"
  by (simp add: content_def list_store_def split: option.split)

lemma list_store_laws: "temp_laws list_store"
  unfolding temp_laws_def same_but_def
  by (simp, simp add: list_store_def) (auto simp: fresh_name update_conv' delete_conv' split: option.splits if_splits)

definition demo_memory :: memoryStore where
  "demo_memory = \<lparr>ms_memoryFile = ''M'', ms_memoriesDir = ''/d'', ms_knowledgesDir = ''/k''\<rparr>"

theorem memory_accumulates_witness:
  "ReadMemory list_store demo_memory (snd (append_all list_store demo_memory [''a'', ''b''] [(''M'', ''facts''), (''o'', ''x'')])) =
     Inr (''facts'' @ [newline] @ ''a'' @ [newline] @ ''b'') \<and>
   map_of (snd (append_all list_store demo_memory [''a'', ''b''] [(''M'', ''facts''), (''o'', ''x'')])) ''o'' = Some ''x''"
proof -
  let ?p = "[(''M'', ''facts''), (''o'', ''x'')]"
  obtain rs q where a: "append_all list_store demo_memory [''a'', ''b''] ?p = (rs, q)" by fastforce
  have trims: "TrimSpace ''a'' = ''a''" "TrimSpace ''b'' = ''b''" "TrimSpace ''facts'' = ''facts''"
    by (simp_all add: TrimSpace_def is_space_def)
  have m: "ReadMemory list_store demo_memory ?p = Inr ''facts''"
    by (simp add: ReadMemory_def list_store_def demo_memory_def trims)
  have "fst (append_all list_store demo_memory [''a'', ''b''] ?p) = [None, None]"
    by (simp add: AppendMemory_def WriteMemory_def ReadMemory_def list_store_def demo_memory_def update_conv delete_conv
        split: prod.splits)
  then have rs: "rs = [None, None]" using a by simp
  from memory_accumulates [OF list_store_laws m _ _ a] trims
  have "ReadMemory list_store demo_memory q = Inr (''facts'' @ concat (map (\<lambda>t. newline # t) (added [''a'', ''b''] rs))) \<and>
    (\<forall>path. path \<noteq> ms_memoryFile demo_memory \<longrightarrow> content list_store ?p path \<noteq> None \<longrightarrow>
      content list_store q path = content list_store ?p path)" by simp
  then show ?thesis using a by (simp add: rs demo_memory_def)
qed

section \<open>Logs\<close>

lemma rev_take_rev: "rev (take n (rev xs)) = drop (length xs - n) xs"
  by (simp add: take_rev)

lemma last_of_sorted:
  fixes xs :: "'a :: linorder list"
  assumes "distinct xs" and "ys = drop (length xs - n) (sort xs)"
  shows "sorted_wrt (<) ys" and "set ys \<subseteq> set xs" and "length ys = min n (length xs)"
    and "\<forall>a \<in> set xs - set ys. \<forall>b \<in> set ys. a < b"
proof -
  have s: "sorted_wrt (<) (take (length xs - n) (sort xs) @ ys)"
    using assms by (simp add: strict_sorted_iff)
  then show "sorted_wrt (<) ys" by (simp add: sorted_wrt_append)
  show "set ys \<subseteq> set xs" using assms(2) set_drop_subset [of _ "sort xs"] by simp
  show "length ys = min n (length xs)" using assms(2) by simp
  have "set xs = set (take (length xs - n) (sort xs)) \<union> set ys"
    using assms(2) by (metis append_take_drop_id set_append set_sort)
  then show "\<forall>a \<in> set xs - set ys. \<forall>b \<in> set ys. a < b" using s by (auto simp: sorted_wrt_append)
qed

definition log_content :: "'p store_env \<Rightarrow> memoryStore \<Rightarrow> 'p \<Rightarrow> string \<Rightarrow> string option" where
  "log_content env s p name = content env p (Path_Join [ms_memoriesDir s, name])"

lemma read_log_content: "read_log env s p name = (case log_content env s p name of None \<Rightarrow> [] | Some c \<Rightarrow> [c])"
  by (simp add: read_log_def log_content_def content_def split: sum.split)

lemma read_logs:
  "\<forall>name \<in> set names. log_content env s p name \<noteq> None \<Longrightarrow>
   concat (map (read_log env s p) names) = map (\<lambda>name. the (log_content env s p name)) names"
  by (induction names) (auto simp: read_log_content)

text \<open>The recent logs are the logs of the latest \<open>n\<close> days (the greatest names), oldest first, and a
  search gives exactly the lines of all logs that contain the query, ignoring case, each with the name of
  its log.\<close>

theorem logs_recent_and_searched:
  assumes "s_readDir env p (ms_memoriesDir s) = Inr entries" and "distinct (map dt_name entries)"
    and "\<forall>name \<in> set (log_names entries). log_content env s p name \<noteq> None"
  shows "(\<exists>names. recentLogs env s n p = Inr (map (\<lambda>name. the (log_content env s p name)) names) \<and>
      sorted_wrt (<) names \<and> set names \<subseteq> set (log_names entries) \<and>
      length names = min (nat n) (length (log_names entries)) \<and>
      (\<forall>a \<in> set (log_names entries) - set names. \<forall>b \<in> set names. a < b)) \<and>
    (\<exists>rs. SearchLogs env s query p = Inr rs \<and> set rs = {''['' @ name @ ''] '' @ line | name line.
      name \<in> set (log_names entries) \<and> line \<in> set (split_on newline (the (log_content env s p name))) \<and>
      Contains (ToLower line) (ToLower query)})"
proof (intro conjI exI)
  let ?names = "log_names entries" and ?n = "nat n"
  let ?ys = "drop (length ?names - ?n) (sort ?names)"
  have d: "distinct ?names" using assms(2) by (simp add: log_names_def distinct_map inj_on_def)
  note l = last_of_sorted [OF d refl, of ?n]
  show "sorted_wrt (<) ?ys" "set ?ys \<subseteq> set ?names" "length ?ys = min ?n (length ?names)"
    "\<forall>a \<in> set ?names - set ?ys. \<forall>b \<in> set ?ys. a < b" using l by blast+
  have "\<forall>name \<in> set (take ?n (rev (sort ?names))). log_content env s p name \<noteq> None"
    using assms(3) set_take_subset [of ?n "rev (sort ?names)"] by auto
  then show "recentLogs env s n p = Inr (map (\<lambda>name. the (log_content env s p name)) ?ys)"
    using assms(1) by (simp add: recentLogs_def read_logs rev_map rev_take_rev)
  show "SearchLogs env s query p = Inr (concat (map (search_log env s p query) ?names))"
    using assms(1) by (simp add: SearchLogs_def)
  have "set (search_log env s p query name) = {''['' @ name @ ''] '' @ line | line.
      line \<in> set (split_on newline (the (log_content env s p name))) \<and> Contains (ToLower line) (ToLower query)}"
    if "name \<in> set ?names" for name
    using assms(3) that by (auto simp: search_log_def read_log_content split: option.splits)
  then show "set (concat (map (search_log env s p query) ?names)) = {''['' @ name @ ''] '' @ line | name line.
      name \<in> set ?names \<and> line \<in> set (split_on newline (the (log_content env s p name))) \<and>
      Contains (ToLower line) (ToLower query)}" by auto
qed

definition demo_logs :: "(string, string) gomap store_env" where
  "demo_logs = list_store\<lparr>s_readDir := (\<lambda>p d. Inr [\<lparr>dt_name = ''01.md'', dt_isDir = False, dt_size = None\<rparr>,
     \<lparr>dt_name = ''02.md'', dt_isDir = False, dt_size = None\<rparr>, \<lparr>dt_name = ''x'', dt_isDir = True, dt_size = None\<rparr>])\<rparr>"

theorem logs_recent_and_searched_witness:
  "recentLogs demo_logs demo_memory 1 [(''/d/01.md'', ''old''), (''/d/02.md'', ''New'')] = Inr [''New''] \<and>
   (\<exists>rs. SearchLogs demo_logs demo_memory ''new'' [(''/d/01.md'', ''old''), (''/d/02.md'', ''New'')] = Inr rs \<and>
     ''[02.md] New'' \<in> set rs)"
proof -
  let ?p = "[(''/d/01.md'', ''old''), (''/d/02.md'', ''New'')]"
  let ?es = "[\<lparr>dt_name = ''01.md'', dt_isDir = False, dt_size = None\<rparr>,
     \<lparr>dt_name = ''02.md'', dt_isDir = False, dt_size = None\<rparr>, \<lparr>dt_name = ''x'', dt_isDir = True, dt_size = None :: nat option\<rparr>]"
  have r: "s_readDir demo_logs ?p (ms_memoriesDir demo_memory) = Inr ?es" by (simp add: demo_logs_def)
  have ns: "log_names ?es = [''01.md'', ''02.md'']" by code_simp
  have joins: "Path_Join [''/d'', ''01.md''] = ''/d/01.md''" "Path_Join [''/d'', ''02.md''] = ''/d/02.md''" by code_simp+
  have c: "log_content demo_logs demo_memory ?p ''01.md'' = Some ''old''" "log_content demo_logs demo_memory ?p ''02.md'' = Some ''New''"
    by (simp_all add: log_content_def content_def demo_logs_def demo_memory_def list_store_def joins)
  have all: "\<forall>name \<in> set (log_names ?es). log_content demo_logs demo_memory ?p name \<noteq> None" unfolding ns by (simp add: c)
  have "distinct (map dt_name ?es)" by simp
  from logs_recent_and_searched [OF r this all, of 1 "''new''"] obtain names rs where
    n: "recentLogs demo_logs demo_memory 1 ?p = Inr (map (\<lambda>name. the (log_content demo_logs demo_memory ?p name)) names)"
      "set names \<subseteq> {''01.md'', ''02.md''}" "length names = 1" "\<forall>a \<in> {''01.md'', ''02.md''} - set names. \<forall>b \<in> set names. a < b"
    and rs: "SearchLogs demo_logs demo_memory ''new'' ?p = Inr rs" "set rs = {''['' @ name @ ''] '' @ line | name line.
      name \<in> {''01.md'', ''02.md''} \<and> line \<in> set (split_on newline (the (log_content demo_logs demo_memory ?p name))) \<and>
      Contains (ToLower line) (ToLower ''new'')}"
    unfolding ns by auto
  obtain b where b: "names = [b]" using n(3) by (cases names) auto
  have lt: "\<not> ''02.md'' < (''01.md'' :: string)" by code_simp
  have "b = ''02.md''" using n(2,4) lt by (auto simp: b)
  then have "recentLogs demo_logs demo_memory 1 ?p = Inr [''New'']" using n(1) c by (simp add: b)
  moreover have "Contains (ToLower ''New'') (ToLower ''new'')" by code_simp
  then have "''[02.md] New'' \<in> set rs" unfolding rs(2)
    using c(2) by (intro CollectI exI [of _ "''02.md''"] exI [of _ "''New''"] conjI) (simp_all add: split_on_none)
  ultimately show ?thesis using rs(1) by blast
qed

end
