(* ===== verification/Workspace_Props.thy ===== *)
theory Workspace_Props
  imports Workspace Memory_Props
begin

text \<open>
  Properties of the initialisation of the workspace: it never touches a file that exists, and when it
  succeeds everything the rest of the program loads is there.
\<close>

section \<open>What is relied on\<close>

definition exists_at :: "('p, 'z) store_env_scheme \<Rightarrow> 'p \<Rightarrow> string \<Rightarrow> bool" where
  "exists_at env p path \<longleftrightarrow> \<not> isl (x_stat env p path)"

definition stat_grows :: "('p, 'z) store_env_scheme \<Rightarrow> 'p \<Rightarrow> 'p \<Rightarrow> bool" where
  "stat_grows env p q \<longleftrightarrow> (\<forall>path. exists_at env p path \<longrightarrow> exists_at env q path)"

text \<open>Directories are created without touching files, a file is written where it is named, and what can be read
  exists.\<close>

definition init_laws :: "('p, 'z) store_env_scheme \<Rightarrow> bool" where
  "init_laws env \<longleftrightarrow>
     (\<forall>d p r q. x_mkdirAll env d p = (r, q) \<longrightarrow> same_but env {} p q \<and> stat_grows env p q \<and> (r = None \<longrightarrow> exists_at env q d)) \<and>
     (\<forall>path c p r q. s_writeFile env path c p = (r, q) \<longrightarrow> same_but env {path} p q \<and> stat_grows env p q \<and>
        (r = None \<longrightarrow> content env q path = Some c \<and> exists_at env q path)) \<and>
     (\<forall>p path. content env p path \<noteq> None \<longrightarrow> exists_at env p path)"

lemma init_rules:
  assumes "init_laws env"
  shows "x_mkdirAll env d p = (r, q) \<Longrightarrow> same_but env {} p q \<and> stat_grows env p q"
    and "x_mkdirAll env d p = (None, q) \<Longrightarrow> exists_at env q d"
    and "s_writeFile env path c p = (r, q) \<Longrightarrow> same_but env {path} p q \<and> stat_grows env p q"
    and "s_writeFile env path c p = (None, q) \<Longrightarrow> content env q path = Some c \<and> exists_at env q path"
    and "content env p path = Some c \<Longrightarrow> exists_at env p path"
  using assms unfolding init_laws_def by blast+

section \<open>What a step adds\<close>

text \<open>From one state to the next, nothing that exists changes, and on success new contents are those of the given
  files.\<close>

definition adds :: "('p, 'z) store_env_scheme \<Rightarrow> (string \<times> string) set \<Rightarrow> string option \<Rightarrow> 'p \<Rightarrow> 'p \<Rightarrow> bool" where
  "adds env F r p q \<longleftrightarrow> stat_grows env p q \<and>
     (\<forall>k. content env q k \<noteq> content env p k \<longrightarrow> \<not> exists_at env p k \<and> (r = None \<longrightarrow> (\<exists>c. (k, c) \<in> F \<and> content env q k = Some c)))"

lemma adds_refl [intro, simp]: "adds env F r p p"
  by (simp add: adds_def stat_grows_def)

lemma adds_mono: "adds env F r p q \<Longrightarrow> F \<subseteq> G \<Longrightarrow> adds env G r p q"
  unfolding adds_def by blast

lemma adds_trans:
  assumes "init_laws env" and "adds env F None p q" and "adds env G r q s"
  shows "adds env (F \<union> G) r p s"
  unfolding adds_def
proof (intro conjI allI impI)
  show "stat_grows env p s" using assms(2,3) by (simp add: adds_def stat_grows_def)
  fix k assume ne: "content env s k \<noteq> content env p k"
  have new: "\<not> exists_at env p k \<and> (r = None \<longrightarrow> (\<exists>c. (k, c) \<in> F \<union> G \<and> content env s k = Some c))"
  proof (cases "content env s k = content env q k")
    case True
    with ne assms(2) show ?thesis unfolding adds_def by (metis UnI1)
  next
    case False
    with assms(2,3) show ?thesis unfolding adds_def stat_grows_def by (metis UnI2)
  qed
  show "\<not> exists_at env p k" using new by blast
  assume "r = None"
  with new show "\<exists>c. (k, c) \<in> F \<union> G \<and> content env s k = Some c" by blast
qed

lemma adds_and_then:
  assumes l: "init_laws env" and "and_then f g p = (r, s)"
    and f: "\<And>e q. f p = (e, q) \<Longrightarrow> adds env F e p q" and g: "\<And>q. f p = (None, q) \<Longrightarrow> g q = (r, s) \<Longrightarrow> adds env G r q s"
  shows "adds env (F \<union> G) r p s"
proof (cases "f p")
  case (Pair e q)
  show ?thesis
  proof (cases e)
    case None
    with Pair assms(2) have "g q = (r, s)" by (simp add: and_then_def)
    with adds_trans [OF l f g] Pair None show ?thesis by blast
  next
    case (Some x)
    with Pair assms(2) have "r = e" "s = q" by (auto simp: and_then_def)
    with f [OF Pair] adds_mono [of env F e p q "F \<union> G"] show ?thesis by simp
  qed
qed

section \<open>Directories and templates\<close>

lemma mkdirs_adds:
  assumes l: "init_laws env"
  shows "mkdirs env pre ds p = (r, q) \<Longrightarrow> adds env {} r p q \<and> (r = None \<longrightarrow> (\<forall>d \<in> set ds. exists_at env q d))"
proof (induction ds arbitrary: p)
  case (Cons d ds)
  obtain e p1 where m: "x_mkdirAll env d p = (e, p1)" by fastforce
  have a: "adds env {} x p p1" for x
    using init_rules(1) [OF l m] by (auto simp: adds_def same_but_def)
  show ?case
  proof (cases e)
    case None
    with Cons.prems m have q: "mkdirs env pre ds p1 = (r, q)" by simp
    from init_rules(2) [OF l] m None have "exists_at env p1 d" by simp
    with Cons.IH [OF q] have "r = None \<longrightarrow> exists_at env q d" by (auto simp: adds_def stat_grows_def)
    with Cons.IH [OF q] adds_trans [OF l a, of "{}" r q] show ?thesis by auto
  next
    case (Some x)
    with Cons.prems m a show ?thesis by auto
  qed
qed (auto intro: adds_refl)

definition targets :: "string \<Rightarrow> templates \<Rightarrow> (string \<times> string) set" where
  "targets dst es = {(Path_Join [dst, rel], data) | rel data. (rel, Some data) \<in> set es}"

lemma copy_entry_adds:
  assumes l: "init_laws env" and c: "copy_entry env dst e p = (r, q)"
  shows "adds env (targets dst [e]) r p q" and "r = None \<Longrightarrow> exists_at env q (Path_Join [dst, fst e])"
proof -
  let ?k = "Path_Join [dst, fst e]"
  have "adds env (targets dst [e]) r p q \<and> (r = None \<longrightarrow> exists_at env q ?k)"
  proof (cases "snd e")
    case None
    then obtain x where m: "x_mkdirAll env ?k p = (x, q)" "r = map_option fs_text x"
      using c by (auto simp: copy_entry_def Let_def split: prod.splits)
    then show ?thesis using init_rules(1) [OF l m(1)] init_rules(2) [OF l, of ?k p q]
      by (auto simp: adds_def same_but_def)
  next
    case (Some data)
    show ?thesis
    proof (cases "exists_at env p ?k")
      case True
      with c Some show ?thesis by (auto simp: copy_entry_def exists_at_def intro: adds_refl)
    next
      case False
      then obtain x where m: "s_writeFile env ?k data p = (x, q)" "r = None \<longleftrightarrow> x = None"
        using c Some by (auto simp: copy_entry_def exists_at_def Let_def split: prod.splits)
      have t: "(?k, data) \<in> targets dst [e]" using Some by (cases e) (auto simp: targets_def)
      have k: "k = ?k" if "content env q k \<noteq> content env p k" for k
        using init_rules(3) [OF l m(1)] that unfolding same_but_def by blast
      have "adds env (targets dst [e]) r p q"
        unfolding adds_def
      proof (intro conjI allI impI)
        fix k assume k': "content env q k \<noteq> content env p k"
        show "\<not> exists_at env p k" using k [OF k'] False by simp
        assume "r = None"
        with m init_rules(4) [OF l, of ?k data p q] t show "\<exists>c. (k, c) \<in> targets dst [e] \<and> content env q k = Some c"
          unfolding k [OF k'] by blast
      qed (use init_rules(3) [OF l m(1)] in simp)
      with m init_rules(4) [OF l, of ?k data p q] show ?thesis by simp
    qed
  qed
  then show "adds env (targets dst [e]) r p q" "r = None \<Longrightarrow> exists_at env q (Path_Join [dst, fst e])" by blast+
qed

lemma targets_Cons: "targets dst (e # es) = targets dst [e] \<union> targets dst es"
  by (auto simp: targets_def)

lemma copyTemplates_adds:
  assumes l: "init_laws env"
  shows "copyTemplates env dst es p = (r, q) \<Longrightarrow>
    adds env (targets dst es) r p q \<and> (r = None \<longrightarrow> (\<forall>e \<in> set es. exists_at env q (Path_Join [dst, fst e])))"
proof (induction es arbitrary: p)
  case (Cons e es)
  obtain x p1 where c: "copy_entry env dst e p = (x, p1)" by fastforce
  show ?case
  proof (cases x)
    case None
    with Cons.prems c have q: "copyTemplates env dst es p1 = (r, q)" by simp
    have a: "adds env (targets dst (e # es)) r p q" unfolding targets_Cons [of dst e es]
      using copy_entry_adds(1) [OF l c] Cons.IH [OF q] None by (auto intro: adds_trans [OF l])
    have "r = None \<longrightarrow> exists_at env q (Path_Join [dst, fst e])"
      using copy_entry_adds(2) [OF l c None] Cons.IH [OF q] by (auto simp: adds_def stat_grows_def)
    with a Cons.IH [OF q] show ?thesis by auto
  next
    case (Some y)
    with Cons.prems c have "r = x" "q = p1" by auto
    with adds_mono [OF copy_entry_adds(1) [OF l c], of "targets dst (e # es)"] Some show ?thesis
      by (auto simp: targets_def)
  qed
qed auto

section \<open>Initialisation\<close>

definition template_files :: "templates \<Rightarrow> workspace \<Rightarrow> (string \<times> string) set" where
  "template_files T w = targets (ws_home w) (home_templates T) \<union>
     (case workspace_templates T of Inl _ \<Rightarrow> {} | Inr es \<Rightarrow> targets (ws_workspace w) es)"

lemma copy_workspace_adds:
  assumes l: "init_laws env" and c: "copy_workspace env T w p = (r, q)"
  shows "adds env (template_files T w) r p q"
    and "r = None \<Longrightarrow> \<exists>es. workspace_templates T = Inr es \<and> (\<forall>e \<in> set es. exists_at env q (Path_Join [ws_workspace w, fst e]))"
  using c copyTemplates_adds [OF l, of "ws_workspace w" _ p r q]
  by (auto simp: copy_workspace_def template_files_def split: sum.splits intro: adds_mono)

lemma InitHome_adds:
  assumes l: "init_laws env" and c: "InitHome env T w p = (r, q)"
  shows "adds env (template_files T w) r p q"
    and "r = None \<Longrightarrow> (\<forall>d \<in> set (home_dirs w). exists_at env q d) \<and>
      (\<forall>e \<in> set (home_templates T). exists_at env q (Path_Join [ws_home w, fst e]))"
proof -
  show "adds env (template_files T w) r p q"
    using adds_and_then [OF l c [unfolded InitHome_def], of "{}" "targets (ws_home w) (home_templates T)"]
      mkdirs_adds [OF l] copyTemplates_adds [OF l]
    by (auto simp: template_files_def intro: adds_mono)
  assume n: "r = None"
  with c obtain p1 where "mkdirs env ''workspace: mkdir '' (home_dirs w) p = (None, p1)"
    "copyTemplates env (ws_home w) (home_templates T) p1 = (None, q)"
    by (auto simp: InitHome_def and_then_def split: prod.splits option.splits)
  with mkdirs_adds [OF l this(1)] copyTemplates_adds [OF l this(2)]
  show "(\<forall>d \<in> set (home_dirs w). exists_at env q d) \<and>
      (\<forall>e \<in> set (home_templates T). exists_at env q (Path_Join [ws_home w, fst e]))"
    by (auto simp: adds_def stat_grows_def)
qed

lemma InitWorkspace_adds:
  assumes l: "init_laws env" and c: "InitWorkspace env T w p = (r, q)"
  shows "adds env (template_files T w) r p q"
    and "r = None \<Longrightarrow> (\<forall>d \<in> set (workspace_dirs w). exists_at env q d) \<and>
      (\<exists>es. workspace_templates T = Inr es \<and> (\<forall>e \<in> set es. exists_at env q (Path_Join [ws_workspace w, fst e])))"
proof -
  show "adds env (template_files T w) r p q"
    using adds_and_then [OF l c [unfolded InitWorkspace_def], of "{}" "template_files T w"]
      mkdirs_adds [OF l] copy_workspace_adds(1) [OF l] by auto
  assume n: "r = None"
  with c obtain p1 where "mkdirs env ''workspace: mkdir '' (workspace_dirs w) p = (None, p1)" "copy_workspace env T w p1 = (None, q)"
    by (auto simp: InitWorkspace_def and_then_def split: prod.splits option.splits)
  with mkdirs_adds [OF l this(1)] copy_workspace_adds [OF l this(2)]
  show "(\<forall>d \<in> set (workspace_dirs w). exists_at env q d) \<and>
      (\<exists>es. workspace_templates T = Inr es \<and> (\<forall>e \<in> set es. exists_at env q (Path_Join [ws_workspace w, fst e])))"
    by (auto simp: adds_def stat_grows_def)
qed

text \<open>Both parts, as \<open>blades init\<close> runs them.\<close>

definition init_both :: "('p, 'z) store_env_scheme \<Rightarrow> templates \<Rightarrow> workspace \<Rightarrow> 'p \<Rightarrow> string option \<times> 'p" where
  "init_both env T w = and_then (InitHome env T w) (InitWorkspace env T w)"

lemma init_both_adds:
  assumes l: "init_laws env" and c: "init_both env T w p = (r, q)"
  shows "adds env (template_files T w) r p q"
    and "r = None \<Longrightarrow> (\<forall>d \<in> set (home_dirs w @ workspace_dirs w). exists_at env q d) \<and>
      (\<forall>(k, data) \<in> template_files T w. exists_at env q k)"
proof -
  show "adds env (template_files T w) r p q"
    using adds_and_then [OF l c [unfolded init_both_def], of "template_files T w" "template_files T w"]
      InitHome_adds(1) [OF l] InitWorkspace_adds(1) [OF l] by auto
  assume n: "r = None"
  with c obtain p1 where h: "InitHome env T w p = (None, p1)" and i: "InitWorkspace env T w p1 = (None, q)"
    by (auto simp: init_both_def and_then_def split: prod.splits option.splits)
  have "stat_grows env p1 q" using InitWorkspace_adds(1) [OF l i] by (simp add: adds_def)
  then have grow: "exists_at env p1 k \<Longrightarrow> exists_at env q k" for k by (simp add: stat_grows_def)
  obtain es where es: "workspace_templates T = Inr es" "\<forall>e \<in> set es. exists_at env q (Path_Join [ws_workspace w, fst e])"
    using InitWorkspace_adds(2) [OF l i] by blast
  have "exists_at env q k" if "(k, data) \<in> targets (ws_home w) (home_templates T)" for k data
    using InitHome_adds(2) [OF l h] grow that by (fastforce simp: targets_def)
  moreover have "exists_at env q k" if "(k, data) \<in> targets (ws_workspace w) es" for k data
    using es(2) that by (fastforce simp: targets_def)
  ultimately have "\<forall>(k, data) \<in> template_files T w. exists_at env q k" by (auto simp: template_files_def es(1))
  with InitHome_adds(2) [OF l h] InitWorkspace_adds(2) [OF l i] grow
  show "(\<forall>d \<in> set (home_dirs w @ workspace_dirs w). exists_at env q d) \<and> (\<forall>(k, data) \<in> template_files T w. exists_at env q k)"
    by auto
qed

text \<open>C31: Initialising never touches what is there. Whatever fails on the way, \<open>blades init\<close> (no repository asked for) leaves every existing
  file with its content; if it succeeds, every directory and every template file exists, a file that is new
  has the content of its template, and the home and the workspace are found by the commands that are run
  with the same options afterwards.\<close>

theorem init_keeps_files:
  assumes "init_laws env" and "run_init env T git opts False p = (res, q)" and "w = boot_workspace (bt_home env) opts"
  shows "(\<forall>k c. content env p k = Some c \<longrightarrow> content env q k = Some c) \<and>
    (\<not> isl res \<longrightarrow> (\<forall>d \<in> set (home_dirs w @ workspace_dirs w). exists_at env q d) \<and>
       (\<forall>(k, data) \<in> template_files T w. exists_at env q k) \<and>
       (\<forall>k. content env q k \<noteq> content env p k \<longrightarrow> (\<exists>data. (k, data) \<in> template_files T w \<and> content env q k = Some data)) \<and>
       Workspace_Load env w q = None \<and> LoadHome env w q = None)"
proof -
  have w: "(case InitPaths (bt_home env) opts of (h, d, c) \<Rightarrow> NewWithWorkspace h d) = w"
    by (simp add: InitPaths_def assms(3) boot_workspace_def NewWithWorkspace_def)
  obtain r q' where c: "init_both env T w p = (r, q')" by fastforce
  have q: "q' = q" "isl res \<longleftrightarrow> r \<noteq> None"
    using assms(2) w c by (auto simp: run_init_def init_both_def Let_def split: prod.splits option.splits)
  note a = init_both_adds [OF assms(1) c [unfolded q(1)]]
  have keep: "\<forall>k c. content env p k = Some c \<longrightarrow> content env q k = Some c"
    using a(1) init_rules(5) [OF assms(1)] unfolding adds_def by metis
  show ?thesis
  proof (cases r)
    case None
    have dirs: "exists_at env q (ws_workspace w)" "exists_at env q (ws_home w)"
      using a(2) [OF None] by (simp_all add: home_dirs_def workspace_dirs_def)
    from a(1) None have "\<forall>k. content env q k \<noteq> content env p k \<longrightarrow> (\<exists>data. (k, data) \<in> template_files T w \<and> content env q k = Some data)"
      unfolding adds_def by blast
    with keep a(2) [OF None] dirs show ?thesis by (auto simp: Workspace_Load_def LoadHome_def exists_at_def)
  next
    case (Some e)
    with keep q(2) show ?thesis by simp
  qed
qed

section \<open>A concrete run\<close>

text \<open>Files with their contents, and directories.\<close>

definition dir_store :: "((string, string) gomap \<times> string list) boot_env" where
  "dir_store = \<lparr>x_getwd = Inr ''/'', x_evalSymlinks = (\<lambda>p path. Inr path), x_lstat = (\<lambda>p path. None),
     x_stat = (\<lambda>p path. if map_of (fst p) path \<noteq> None then Inr False else if path \<in> set (snd p) then Inr True
       else Inl (fs_error.NotExist ''not found'')),
     x_readFile = (\<lambda>p path. case map_of (fst p) path of None \<Rightarrow> Inl (fs_error.NotExist ''not found'') | Some c \<Rightarrow> Inr c),
     x_mkdirAll = (\<lambda>d p. (None, (fst p, d # snd p))),
     x_createTemp = (\<lambda>d p. (Inl (OtherError ''unused''), p)), x_writeString = (\<lambda>f c p. (Some (OtherError ''unused''), p)),
     x_close = (\<lambda>f p. (None, p)), x_rename = (\<lambda>f g p. (Some (OtherError ''unused''), p)), x_remove = (\<lambda>f p. p),
     x_compile = (\<lambda>pattern. Inl ''unused''), x_shell = (\<lambda>dir c t p. ((ShellOk, []), p)), x_duration = (\<lambda>_. []),
     x_decodeRead = (\<lambda>_. Inl ''unused''), x_decodeEdit = (\<lambda>_. Inl ''unused''), x_decodeWrite = (\<lambda>_. Inl ''unused''),
     x_decodeBash = (\<lambda>_. Inl ''unused''),
     s_writeFile = (\<lambda>f c p. (None, (AList.update f c (fst p), snd p))), s_openAppend = (\<lambda>p f. None),
     s_append = (\<lambda>f c p. (None, p)), s_readDir = (\<lambda>p d. Inr []),
     bt_home = Some ''/h'', bt_expand = (\<lambda>s. s), bt_unmarshal = (\<lambda>_. Inr empty_config)\<rparr>"

lemma dir_store_content [simp]: "content dir_store p path = map_of (fst p) path"
  by (simp add: content_def dir_store_def split: option.split)

lemma dir_store_exists [simp]: "exists_at dir_store p path \<longleftrightarrow> map_of (fst p) path \<noteq> None \<or> path \<in> set (snd p)"
  by (simp add: exists_at_def dir_store_def)

lemma dir_store_laws: "init_laws dir_store"
  unfolding init_laws_def same_but_def stat_grows_def by (simp, simp add: dir_store_def) (auto simp: update_conv')

definition demo_templates :: templates where
  "demo_templates = [(''config.yaml'', Some ''c''), (''workspace'', None), (''workspace/USER.md'', Some ''u'')]"

definition demo_options :: app_options where
  "demo_options = \<lparr>op_ConfigPath = [], op_WorkspaceDir = ''~/agent'', op_Debug = False\<rparr>"

abbreviation demo_init :: "(string + string) \<times> (string, string) gomap \<times> string list" where
  "demo_init \<equiv> run_init dir_store demo_templates (\<lambda>d p. (([], None), p)) demo_options False
     ([(''/h/.blades/config.yaml'', ''mine'')], [])"

lemma demo_init_succeeds: "isl (fst demo_init) = False"
  by code_simp

lemma demo_init_files: "(''/h/agent/USER.md'', ''u'') \<in> template_files demo_templates (boot_workspace (bt_home dir_store) demo_options)"
proof -
  have "(''USER.md'', Some ''u'') \<in> set (projr (workspace_templates demo_templates))" "\<not> isl (workspace_templates demo_templates)" by code_simp+
  moreover have "Path_Join [ws_workspace (boot_workspace (bt_home dir_store) demo_options), ''USER.md''] = ''/h/agent/USER.md''" by code_simp
  ultimately show ?thesis unfolding template_files_def targets_def by (cases "workspace_templates demo_templates") force+
qed

theorem init_keeps_files_witness:
  "\<exists>s q. demo_init = (Inr s, q) \<and> content dir_store q ''/h/.blades/config.yaml'' = Some ''mine'' \<and>
     exists_at dir_store q ''/h/agent/USER.md'' \<and>
     Workspace_Load dir_store (boot_workspace (bt_home dir_store) demo_options) q = None"
proof -
  obtain r q where i: "demo_init = (r, q)" by (metis surj_pair)
  with demo_init_succeeds obtain s where s: "r = Inr s" by (cases r) auto
  have "content dir_store ([(''/h/.blades/config.yaml'', ''mine'')], []) ''/h/.blades/config.yaml'' = Some ''mine''" by simp
  with init_keeps_files [OF dir_store_laws i refl] i s demo_init_files show ?thesis by fastforce
qed

end
