(* ===== verification/Doctor_Props.thy ===== *)
theory Doctor_Props
  imports Doctor Workspace_Props
begin

text \<open>
  Properties of the health checks: what a clean report promises about the parts of the program, and where
  it promises too much.
\<close>

section \<open>Reports\<close>

lemma run_checks_part:
  "RunDoctorChecks env ctx p cs = Inr rs \<Longrightarrow> c \<in> set cs \<Longrightarrow> \<exists>qs. snd c env ctx p = Inr qs \<and> set qs \<subseteq> set rs"
proof (induction cs arbitrary: rs)
  case (Cons d cs)
  then obtain qs more where "snd d env ctx p = Inr qs" "RunDoctorChecks env ctx p cs = Inr more" "rs = qs @ more"
    by (cases "snd d env ctx p"; cases "RunDoctorChecks env ctx p cs") auto
  with Cons show ?case by fastforce
qed simp

definition fine :: "doctor_result list \<Rightarrow> bool" where
  "fine rs \<longleftrightarrow> (\<forall>r \<in> set rs. dr_Label r \<noteq> ''stale'' \<and> dr_OK r)"

lemma doctor_checks_fine:
  assumes "run_doctor env opts p = (out, None)" and "c \<in> set DefaultDoctorChecks"
  shows "\<exists>qs. snd c env (BuildDoctorContext env opts p) p = Inr qs \<and> fine qs"
proof -
  obtain rs where "RunDoctorChecks env (BuildDoctorContext env opts p) p DefaultDoctorChecks = Inr rs" "snd (PrintDoctorResults rs)"
    using assms(1) by (auto simp: run_doctor_def split: sum.splits if_splits prod.splits)
  with run_checks_part [OF this(1) assms(2)] show ?thesis
    by (auto simp: PrintDoctorResults_def fine_def list_all_iff)
qed

lemma file_check_fine:
  fixes env :: "'p doctor_env"
  assumes "run_doctor env opts p = (out, None)" and "(fileDoctorCheck label f :: string \<times> 'p doctor_run) \<in> set DefaultDoctorChecks"
  shows "\<not> isl (x_stat env p (f (BuildDoctorContext env opts p)))"
  using doctor_checks_fine [OF assms] by (auto simp: fileDoctorCheck_def fine_def split: if_splits)

lemma default_checks:
  "fileDoctorCheck ''Workspace directory'' (ws_workspace \<circ> dc_workspace) \<in> set DefaultDoctorChecks"
  "fileDoctorCheck ''Blades home (root)'' (ws_home \<circ> dc_workspace) \<in> set DefaultDoctorChecks"
  "fileDoctorCheck ''workspace/MEMORY.md'' (MemoryPath \<circ> dc_workspace) \<in> set DefaultDoctorChecks"
  "providerDoctorCheck \<in> set DefaultDoctorChecks" "agentRecipeDoctorCheck \<in> set DefaultDoctorChecks"
  "execDoctorCheck \<in> set DefaultDoctorChecks" "larkDoctorCheck \<in> set DefaultDoctorChecks"
  "cronDoctorCheck \<in> set DefaultDoctorChecks"
  by (simp_all add: DefaultDoctorChecks_def)

lemma firstNonEmpty_some: "firstNonEmpty [a, b] \<noteq> [] \<Longrightarrow> a \<noteq> [] \<or> b \<noteq> []"
  by (auto simp: TrimSpace_def split: if_splits)

lemma lark_fine_starts:
  assumes "firstNonEmpty [lk_appID cfg, getenv ''LARK_APP_ID''] \<noteq> []"
    and "firstNonEmpty [lk_appSecret cfg, getenv ''LARK_APP_SECRET''] \<noteq> []"
  shows "\<exists>s. newFromConfig cfg getenv = Inr s"
  using firstNonEmpty_some [OF assms(1)] firstNonEmpty_some [OF assms(2)] by (auto simp: newFromConfig_def Let_def)

text \<open>What a clean report of \<open>blades doctor\<close> promises: the configuration loads and each of its providers has
  a key and models, the tools are restricted to the workspace, the agent's recipe loads and is valid, the
  workspace is found with its memory, an enabled Lark channel can be made, and the scheduler's jobs can be
  listed and none of them is overdue by more than 26 hours.\<close>

theorem clean_report_promises:
  assumes "run_doctor env opts p = (out, None)" and "w = boot_workspace (bt_home env) opts"
  shows "\<exists>cfg spec. LoadConfig env opts p = Inr cfg \<and> cf_providers cfg \<noteq> [] \<and>
      (\<forall>q \<in> set (cf_providers cfg). TrimSpace (pv_apiKey q) \<noteq> [] \<and> pv_models q \<noteq> []) \<and> ce_restrict (cf_exec cfg) \<and>
      LoadAgentSpec (agent_files env w p) = Inr spec \<and> Validate (Some spec) = None \<and>
      Workspace_Load env w p = None \<and> LoadHome env w p = None \<and> \<not> missing env p (MemoryPath w) \<and>
      (lk_enabled (cf_lark cfg) \<longrightarrow> (\<exists>s. newFromConfig (cf_lark cfg) (ae_getenv (dv_accounts env)) = Inr s)) \<and>
      (stat_mtime (dv_disk env) \<noteq> None \<longrightarrow>
        (\<exists>js s. ListJobs (dv_cron env) False (NewService (CronStorePath w) None (dv_disk env) p) = (Inr js, s) \<and>
          fst (StaleJobs (dv_cron env) (dv_now env) 93600000000000 s) = []))"
proof -
  let ?ctx = "BuildDoctorContext env opts p"
  have w: "dc_workspace ?ctx = w" by (simp add: BuildDoctorContext_def Let_def assms(2))
  obtain cfg where cfg: "LoadConfig env opts p = Inr cfg" using assms(1) by (auto simp: run_doctor_def split: sum.splits)
  then have c: "dc_config ?ctx = Some cfg" by (simp add: BuildDoctorContext_def Let_def)
  note fine = doctor_checks_fine [OF assms(1)] and files = file_check_fine [OF assms(1)]
  have prov: "cf_providers cfg \<noteq> [] \<and> (\<forall>q \<in> set (cf_providers cfg). provider_ok q)"
    using fine [OF default_checks(4)] by (auto simp: providerDoctorCheck_def Let_def configured_providers_def c fine_def list_all_iff split: if_splits)
  have restrict: "ce_restrict (cf_exec cfg)"
    using fine [OF default_checks(6)] by (auto simp: execDoctorCheck_def c fine_def Let_def)
  obtain spec where spec: "LoadAgentSpec (agent_files env w p) = Inr spec" "Validate (Some spec) = None"
    using fine [OF default_checks(5)] by (auto simp: agentRecipeDoctorCheck_def w fine_def split: sum.splits option.splits)
  have lark: "lk_enabled (cf_lark cfg) \<longrightarrow> (\<exists>s. newFromConfig (cf_lark cfg) (ae_getenv (dv_accounts env)) = Inr s)"
    using fine [OF default_checks(7)]
    by (auto simp: larkDoctorCheck_def c fine_def Let_def simp del: firstNonEmpty.simps split: if_splits intro!: lark_fine_starts)
  have cron: "stat_mtime (dv_disk env) \<noteq> None \<longrightarrow>
        (\<exists>js s. ListJobs (dv_cron env) False (NewService (CronStorePath w) None (dv_disk env) p) = (Inr js, s) \<and>
          fst (StaleJobs (dv_cron env) (dv_now env) 93600000000000 s) = [])"
    using fine [OF default_checks(8)]
    by (auto simp: cronDoctorCheck_def w fine_def Let_def split: prod.splits sum.splits if_splits)
  have "Workspace_Load env w p = None" "LoadHome env w p = None" "\<not> missing env p (MemoryPath w)"
    using files [OF default_checks(1)] files [OF default_checks(2)] files [OF default_checks(3)]
    by (auto simp: Workspace_Load_def LoadHome_def missing_def w split: sum.splits)
  with cfg prov restrict spec lark cron show ?thesis by (auto simp: provider_ok_def)
qed

section \<open>A clean report\<close>

definition demo_accounts :: account_env where
  "demo_accounts = \<lparr>ae_getenv = (\<lambda>_. []), ae_home = Some ''/h'', ae_defaultURL = ''https://service'',
     ae_load = (\<lambda>d i. Inr None), ae_list = (\<lambda>d. None), ae_account = (\<lambda>_. Inl ''unused'')\<rparr>"

definition demo_config :: Config where
  "demo_config = empty_config\<lparr>cf_providers := [\<lparr>pv_name = ''main'', pv_provider = ''openai'', pv_models = [''m''],
       pv_apiKey = ''k'', pv_baseURL = []\<rparr>],
     cf_exec := \<lparr>ce_timeoutSeconds = 0, ce_deny = [], ce_allow = [], ce_restrict = True\<rparr>\<rparr>"

definition plain_cron :: cron_env where
  "plain_cron = \<lparr>ce_local = ''UTC'', ce_loadLocation = (\<lambda>_. None), ce_parse = (\<lambda>_. None), ce_yaml_marshal = (\<lambda>_. None),
     ce_yaml_unmarshal = (\<lambda>_ st. (False, st)), ce_json_encode = (\<lambda>_. None), ce_json_unmarshal = (\<lambda>_ st. (False, st)),
     ce_rfc3339 = (\<lambda>_. []), ce_duration = (\<lambda>_. [])\<rparr>"

definition no_file :: disk where
  "no_file = \<lparr>d_file = None, d_clock = 0, d_stat_fails = False, d_read_fails = False, d_write_fails = False\<rparr>"

definition demo_doctor :: "((string, string) gomap \<times> string list) doctor_env" where
  "demo_doctor = boot_env.extend (dir_store\<lparr>bt_unmarshal := (\<lambda>_. Inr demo_config)\<rparr>)
     (doctor_env.fields demo_accounts (\<lambda>_. Inr default_spec) (\<lambda>p d. Inr []) plain_cron no_file 0)"

definition demo_home :: "(string, string) gomap \<times> string list" where
  "demo_home = (map (\<lambda>f. (''/h/.blades/'' @ f, ''x'')) ([''config.yaml'', ''agent.yaml''] @
       map (\<lambda>f. ''workspace/'' @ f) [''AGENTS.md'', ''SOUL.md'', ''IDENTITY.md'', ''USER.md'', ''MEMORY.md'', ''TOOLS.md'', ''HEARTBEAT.md'']),
     [''/h/.blades'', ''/h/.blades/workspace'', ''/h/.blades/skills'', ''/h/.blades/workspace/memory''])"

abbreviation default_options :: app_options where
  "default_options \<equiv> \<lparr>op_ConfigPath = [], op_WorkspaceDir = [], op_Debug = False\<rparr>"

definition check_fine :: "'p doctor_env \<Rightarrow> doctor_context \<Rightarrow> 'p \<Rightarrow> string \<times> 'p doctor_run \<Rightarrow> bool" where
  "check_fine env ctx p c = (case snd c env ctx p of Inl _ \<Rightarrow> False | Inr rs \<Rightarrow> list_all (\<lambda>r. dr_Label r \<noteq> ''stale'' \<and> dr_OK r) rs)"

lemma checks_fine_run:
  "list_all (check_fine env ctx p) cs \<Longrightarrow>
    \<exists>rs. RunDoctorChecks env ctx p cs = Inr rs \<and> list_all (\<lambda>r. dr_Label r \<noteq> ''stale'' \<and> dr_OK r) rs"
  by (induction cs) (auto simp: check_fine_def split: sum.splits)

lemma clean_run:
  assumes "\<not> isl (LoadConfig env opts p)" and "list_all (check_fine env (BuildDoctorContext env opts p) p) DefaultDoctorChecks"
  shows "\<exists>out. run_doctor env opts p = (out, None)"
  using assms checks_fine_run [OF assms(2)] by (auto simp: run_doctor_def PrintDoctorResults_def split: sum.split)

definition demo_context :: doctor_context where
  "demo_context = \<lparr>dc_workspace = \<lparr>ws_home = ''/h/.blades'', ws_workspace = ''/h/.blades/workspace''\<rparr>,
     dc_configPath = ''/h/.blades/config.yaml'', dc_config = Some demo_config\<rparr>"

lemma demo_loaded: "LoadConfig demo_doctor default_options demo_home = Inr demo_config"
  by code_simp

lemma demo_paths: "boot_workspace (bt_home demo_doctor) default_options = dc_workspace demo_context"
  "ConfigPath (dc_workspace demo_context) = dc_configPath demo_context"
  by code_simp+

lemma demo_context: "BuildDoctorContext demo_doctor default_options demo_home = demo_context"
  unfolding BuildDoctorContext_def Let_def demo_loaded demo_paths by (simp add: demo_context_def)

lemma demo_checks: "list_all (check_fine demo_doctor demo_context demo_home) DefaultDoctorChecks"
  unfolding DefaultDoctorChecks_def list.pred_inject
  by (intro conjI; code_simp)

theorem clean_report_promises_witness:
  "\<exists>cfg spec. LoadConfig demo_doctor default_options demo_home = Inr cfg \<and> cf_providers cfg \<noteq> [] \<and>
     LoadAgentSpec (agent_files demo_doctor (boot_workspace (bt_home demo_doctor) default_options) demo_home) = Inr spec \<and>
     Validate (Some spec) = None"
proof -
  obtain out where "run_doctor demo_doctor default_options demo_home = (out, None)"
    using clean_run [of demo_doctor default_options demo_home] demo_checks by (auto simp: demo_loaded demo_context)
  from clean_report_promises [OF this refl] show ?thesis by blast
qed

section \<open>A token that is not loaded\<close>

lemma select_one:
  "ac_id a = [] \<Longrightarrow> dir \<noteq> [] \<Longrightarrow> ListSavedAccounts env dir = Inr [b] \<Longrightarrow> TrimSpace (wc_baseURL cfg) = [] \<Longrightarrow>
   TrimSpace (wc_botToken cfg) = [] \<Longrightarrow> select_account env cfg dir a = Inr b"
  by (simp add: select_account_def override_account_def)

lemma select_given: "ac_id a \<noteq> [] \<Longrightarrow> select_account env cfg dir a = Inr a"
  by (simp add: select_account_def)

lemma load_skipped: "ac_token a \<noteq> [] \<or> \<not> may \<Longrightarrow> load_token env cfg dir may a = Inr a"
  by (auto simp: load_token_def)

text \<open>C34: Where the report promises too much. With one saved account and nothing else configured the Weixin
  channel starts with that account. If the configuration names that very account, the report stays clean,
  but the channel refuses to start: its saved token is not loaded.\<close>

theorem saved_token_not_loaded:
  assumes "ListSavedAccounts env (ExpandTilde (ae_home env) (DefaultAccountDir env)) = Inr [a]"
    and "ac_id a \<noteq> []" and "TrimSpace (ac_token a) \<noteq> []" and "TrimSpace (ac_baseURL a) \<noteq> []"
    and "\<forall>v. TrimSpace (ae_getenv env v) = []" and "TrimSpace (DefaultAccountDir env) = DefaultAccountDir env"
    and "ExpandTilde (ae_home env) (DefaultAccountDir env) \<noteq> []" and "DefaultAccountDir env \<noteq> []"
    and "cfg = cf_weixin empty_config"
  shows "dr_OK (weixin_report env cfg) \<and> (\<exists>s. weixin_from_config env cfg = Inr s \<and> wn_account s = a) \<and>
    (TrimSpace i \<noteq> [] \<longrightarrow> dr_OK (weixin_report env (cfg\<lparr>wc_accountID := i\<rparr>)) \<and>
      weixin_from_config env (cfg\<lparr>wc_accountID := i\<rparr>) = Inl (''weixin account '' @ Quote (TrimSpace i) @
        '' is missing bot token; re-run `blades weixin login` or set weixin.botToken''))"
proof -
  have t: "TrimSpace (TrimSpace x) = TrimSpace x" for x by simp
  have nil: "TrimSpace [] = []" by (simp add: TrimSpace_def)
  have blank: "wc_accountDir cfg = []" "wc_accountID cfg = []" "wc_botToken cfg = []" "wc_baseURL cfg = []"
    using assms(9) by (simp_all add: empty_config_def)
  have dir: "account_directory env (cfg\<lparr>wc_accountID := j\<rparr>) = ExpandTilde (ae_home env) (DefaultAccountDir env)"
    "account_directory env cfg = ExpandTilde (ae_home env) (DefaultAccountDir env)" for j
    using assms(5,6,8) blank nil by (simp_all add: account_directory_def)
  show ?thesis
  proof (intro conjI impI)
    show "dr_OK (weixin_report env cfg)" using assms(1,5) blank nil by (simp add: weixin_report_def Let_def)
    have tok: "ac_token a \<noteq> []" using assms(3) nil by auto
    show "\<exists>s. weixin_from_config env cfg = Inr s \<and> wn_account s = a"
      unfolding weixin_from_config_def Let_def dir using assms(2-5,7) blank nil tok
      by (simp add: select_one [OF _ assms(7) assms(1)] load_skipped)
    assume i: "TrimSpace i \<noteq> []"
    show "dr_OK (weixin_report env (cfg\<lparr>wc_accountID := i\<rparr>))"
      using assms(1,5) blank nil by (simp add: weixin_report_def Let_def)
    show "weixin_from_config env (cfg\<lparr>wc_accountID := i\<rparr>) = Inl (''weixin account '' @ Quote (TrimSpace i) @
        '' is missing bot token; re-run `blades weixin login` or set weixin.botToken'')"
      using assms(5) blank nil dir i by (simp add: weixin_from_config_def Let_def select_given load_skipped)
  qed
qed

definition demo_account :: account where
  "demo_account = \<lparr>ac_id = ''u1'', ac_token = ''t'', ac_baseURL = ''https://service''\<rparr>"

definition logged_in :: account_env where
  "logged_in = demo_accounts\<lparr>ae_list := (\<lambda>d. Some (Inr [(''u1.json'', False)])), ae_account := (\<lambda>_. Inr demo_account)\<rparr>"

theorem saved_token_not_loaded_witness:
  "(\<exists>s. weixin_from_config logged_in (cf_weixin empty_config) = Inr s \<and> wn_account s = demo_account) \<and>
   dr_OK (weixin_report logged_in ((cf_weixin empty_config)\<lparr>wc_accountID := ''u1''\<rparr>)) \<and>
   isl (weixin_from_config logged_in ((cf_weixin empty_config)\<lparr>wc_accountID := ''u1''\<rparr>))"
proof -
  have "ListSavedAccounts logged_in (ExpandTilde (ae_home logged_in) (DefaultAccountDir logged_in)) = Inr [demo_account]"
    "TrimSpace (ac_token demo_account) \<noteq> []" "TrimSpace (ac_baseURL demo_account) \<noteq> []"
    "TrimSpace (DefaultAccountDir logged_in) = DefaultAccountDir logged_in"
    "ExpandTilde (ae_home logged_in) (DefaultAccountDir logged_in) \<noteq> []" "DefaultAccountDir logged_in \<noteq> []" "TrimSpace ''u1'' \<noteq> []"
    by code_simp+
  moreover have "\<forall>v. TrimSpace (ae_getenv logged_in v) = []" by (simp add: logged_in_def demo_accounts_def TrimSpace_def)
  ultimately show ?thesis
    using saved_token_not_loaded [of logged_in demo_account, OF _ _ _ _ _ _ _ _ refl, of "''u1''"]
    by (simp add: demo_account_def)
qed

end
