(* ===== verification/Cron_Command.thy ===== *)
theory Cron_Command
  imports Cron_Tool
begin

text \<open>
  The commands \<open>blades cron list\<close>, \<open>add\<close>, \<open>remove\<close> and \<open>heartbeat\<close> (\<open>cmd/cron.go\<close>, \<open>cmd/cron_heartbeat.go\<close>,
  \<open>cmd/command_helpers.go\<close>) on the scheduler: the reading of their flags, and the heartbeat job, which is
  replaced when it changes. The parsers of cron expressions, durations and numbers are fields of
  \<open>flag_env\<close>. Times are nanoseconds.
\<close>

section \<open>Flags\<close>

text \<open>\<open>fe_parseFloat\<close> gives whether a number of seconds is positive and the duration it makes.\<close>

record flag_env =
  fe_cronError :: "string \<Rightarrow> string option"
  fe_parseDuration :: "string \<Rightarrow> string + 64 word"
  fe_parseFloat :: "string \<Rightarrow> (bool \<times> 64 word) option"

record schedule_options =
  so_allowDelay :: bool
  so_defaultEvery :: int
  so_validateOnly :: bool

definition defaultHeartbeatEvery :: int where "defaultHeartbeatEvery = 1800000000000"

definition every_schedule :: "int \<Rightarrow> schedule" where
  "every_schedule d = zero_schedule\<lparr>sch_kind := ScheduleEvery, sch_everyMs := of_int (d div 1000000)\<rparr>"

definition parseDelayValue :: "flag_env \<Rightarrow> string \<Rightarrow> string + 64 word" where
  "parseDelayValue env given = (let raw = TrimSpace given in
     if raw = [] then Inl ''--delay must not be empty''
     else case fe_parseDuration env raw of
       Inr d \<Rightarrow> (if sint d \<le> 0 then Inl ''--delay must be > 0'' else Inr d)
     | Inl _ \<Rightarrow> (case fe_parseFloat env raw of
           None \<Rightarrow> Inl (''invalid --delay value '' @ Quote raw @ '': use seconds (e.g. 10) or duration (e.g. 10s, 5m)'')
         | Some (positive, d) \<Rightarrow> (if \<not> positive then Inl ''--delay must be > 0'' else Inr d)))"

definition parseScheduleFlagsWithNow ::
  "flag_env \<Rightarrow> time \<Rightarrow> string \<Rightarrow> string \<Rightarrow> string \<Rightarrow> string \<Rightarrow> schedule_options \<Rightarrow> string + schedule" where
  "parseScheduleFlagsWithNow env now cronExpr everyStr delayStr tz opts =
     (let given = length (filter (\<lambda>v. TrimSpace v \<noteq> []) [cronExpr, everyStr, delayStr]);
          answer = (\<lambda>s. Inr (if so_validateOnly opts then zero_schedule else s)) in
      if 1 < given then Inl ''--cron, --every, and --delay are mutually exclusive''
      else if given = 0 then
        (if 0 < so_defaultEvery opts then Inr (every_schedule (so_defaultEvery opts))
         else Inl ''one of --cron, --every, or --delay is required'')
      else if TrimSpace cronExpr \<noteq> [] then
        (case fe_cronError env cronExpr of
           Some e \<Rightarrow> Inl (''invalid --cron expression: '' @ e)
         | None \<Rightarrow> answer (zero_schedule\<lparr>sch_kind := ScheduleCron, sch_expr := cronExpr, sch_tz := tz\<rparr>))
      else if TrimSpace everyStr \<noteq> [] then
        (case fe_parseDuration env everyStr of
           Inl e \<Rightarrow> Inl (''invalid --every duration: '' @ e)
         | Inr d \<Rightarrow> (if sint d \<le> 0 then Inl ''--every must be > 0'' else answer (every_schedule (sint d))))
      else if \<not> so_allowDelay opts then Inl ''--delay is not supported here''
      else ebind (parseDelayValue env delayStr)
        (\<lambda>d. answer (zero_schedule\<lparr>sch_kind := ScheduleAt, sch_at := now + sint d\<rparr>)))"

definition cronPayloadFromFlags :: "string \<Rightarrow> string \<Rightarrow> string \<Rightarrow> string \<Rightarrow> string \<Rightarrow> string \<Rightarrow> string + payload" where
  "cronPayloadFromFlags taskType0 prompt0 command0 text0 agentSession chatSession =
     (let given = ToLower (TrimSpace taskType0); prompt = TrimSpace prompt0; command = TrimSpace command0;
          message = TrimSpace text0; chat = TrimSpace chatSession;
          taskType = (if given \<noteq> [] then given else if command \<noteq> [] then ''exec'' else if prompt \<noteq> [] then ''agent''
            else if message \<noteq> [] then ''notify'' else [])
      in if 1 < length (filter (\<lambda>v. v \<noteq> []) [command, prompt, message])
         then Inl ''--command, --prompt, and --text are mutually exclusive''
      else if taskType = ''exec'' then
        (if command = [] then Inl ''--command is required for --type exec''
         else Inr (zero_payload\<lparr>pl_kind := PayloadExec, pl_command := command, pl_replySessionID := chat\<rparr>))
      else if taskType = ''agent'' then
        (if prompt = [] then Inl ''--prompt is required for --type agent''
         else Inr (zero_payload\<lparr>pl_kind := PayloadAgentTurn, pl_message := prompt, pl_sessionID := TrimSpace agentSession,
           pl_replySessionID := chat\<rparr>))
      else if taskType = ''notify'' then
        (if message = [] then Inl ''--text is required for --type notify''
         else if chat = [] then Inl ''--chat-session is required for --type notify''
         else Inr (zero_payload\<lparr>pl_kind := PayloadNotify, pl_message := message, pl_replySessionID := chat\<rparr>))
      else Inl ''one of --command, --prompt, or --text is required'')"

record add_flags =
  af_name :: string
  af_cron :: string
  af_every :: string
  af_delay :: string
  af_type :: string
  af_prompt :: string
  af_command :: string
  af_text :: string
  af_agentSession :: string
  af_chatSession :: string
  af_deleteAfter :: bool
  af_tz :: string

definition validateCronAddFlags :: "flag_env \<Rightarrow> time \<Rightarrow> add_flags \<Rightarrow> string option" where
  "validateCronAddFlags env now f =
     (case parseScheduleFlagsWithNow env now (af_cron f) (af_every f) (af_delay f) []
        \<lparr>so_allowDelay = True, so_defaultEvery = 0, so_validateOnly = True\<rparr> of
        Inl e \<Rightarrow> Some e
      | Inr _ \<Rightarrow> (case cronPayloadFromFlags (af_type f) (af_prompt f) (af_command f) (af_text f) ''cron-agent-session'' (af_chatSession f) of
            Inl e \<Rightarrow> Some e | Inr _ \<Rightarrow> None))"

section \<open>Replacing a job\<close>

record job_spec =
  js_name :: string
  js_schedule :: schedule
  js_payload :: payload
  js_deleteAfterRun :: bool

text \<open>The clock and the identifier of a new job, as \<open>AddJob\<close> and \<open>RemoveJob\<close> read them.\<close>

record cron_moment =
  cm_now :: time
  cm_arm :: time
  cm_id :: string

definition findMatchingCronJob :: "cron_env \<Rightarrow> (job \<Rightarrow> bool) \<Rightarrow> 'p service \<Rightarrow> (string + job option) \<times> 'p service" where
  "findMatchingCronJob env match s = (case ListJobs env True s of
       (Inl e, s1) \<Rightarrow> (Inl (cron_error_text e), s1) | (Inr js, s1) \<Rightarrow> (Inr (find match js), s1))"

definition add_spec :: "cron_env \<Rightarrow> cron_moment \<Rightarrow> job_spec \<Rightarrow> 'p service \<Rightarrow> (string + job \<times> bool) \<times> 'p service" where
  "add_spec env m spec s =
     (case AddJob env (cm_now m) (cm_arm m) (cm_id m) (js_name spec) (js_schedule spec) (js_payload spec) (js_deleteAfterRun spec) s of
        (Inl e, s1) \<Rightarrow> (Inl (cron_error_text e), s1) | (Inr j, s1) \<Rightarrow> (Inr (j, False), s1))"

definition unchanged :: "job_spec \<Rightarrow> job \<Rightarrow> bool" where
  "unchanged spec j \<longleftrightarrow> job_schedule j = js_schedule spec \<and> job_payload j = js_payload spec \<and> deleteAfterRun j = js_deleteAfterRun spec"

definition upsertCronJob :: "cron_env \<Rightarrow> cron_moment \<Rightarrow> (job \<Rightarrow> bool) \<Rightarrow> job_spec \<Rightarrow> 'p service \<Rightarrow>
    (string + job \<times> bool) \<times> 'p service" where
  "upsertCronJob env m match spec s = (case findMatchingCronJob env match s of
       (Inl e, s1) \<Rightarrow> (Inl e, s1)
     | (Inr None, s1) \<Rightarrow> add_spec env m spec s1
     | (Inr (Some j), s1) \<Rightarrow>
         (if unchanged spec j then (Inr (j, True), s1)
          else case RemoveJob env (cm_arm m) (job_id j) s1 of
            (Inl e, s2) \<Rightarrow> (Inl (cron_error_text e), s2)
          | (Inr False, s2) \<Rightarrow> (Inl (''job '' @ Quote (job_id j) @ '' disappeared during update''), s2)
          | (Inr True, s2) \<Rightarrow> add_spec env m spec s2))"

definition is_heartbeat :: "string \<Rightarrow> string \<Rightarrow> string \<Rightarrow> job \<Rightarrow> bool" where
  "is_heartbeat name message session j \<longleftrightarrow> TrimSpace (job_name j) = TrimSpace name \<and> pl_kind (job_payload j) = PayloadAgentTurn \<and>
     TrimSpace (pl_message (job_payload j)) = TrimSpace message \<and> TrimSpace (pl_sessionID (job_payload j)) = TrimSpace session"

definition findHeartbeatJob :: "cron_env \<Rightarrow> string \<Rightarrow> string \<Rightarrow> string \<Rightarrow> 'p service \<Rightarrow> job option \<times> 'p service" where
  "findHeartbeatJob env name message session s = (case findMatchingCronJob env (is_heartbeat name message session) s of
       (Inl _, s1) \<Rightarrow> (None, s1) | (Inr j, s1) \<Rightarrow> (j, s1))"

definition heartbeat_spec :: "schedule \<Rightarrow> string \<Rightarrow> string \<Rightarrow> string \<Rightarrow> job_spec" where
  "heartbeat_spec sch name message session = \<lparr>js_name = name, js_schedule = sch,
     js_payload = zero_payload\<lparr>pl_kind := PayloadAgentTurn, pl_message := message, pl_sessionID := session\<rparr>,
     js_deleteAfterRun = False\<rparr>"

definition ensureHeartbeatJob :: "cron_env \<Rightarrow> cron_moment \<Rightarrow> schedule \<Rightarrow> string \<Rightarrow> string \<Rightarrow> string \<Rightarrow> 'p service \<Rightarrow>
    (string + job \<times> bool) \<times> 'p service" where
  "ensureHeartbeatJob env m sch name message session =
     upsertCronJob env m (is_heartbeat name message session) (heartbeat_spec sch name message session)"

section \<open>The commands\<close>

abbreviation done_mark :: string where "done_mark \<equiv> [CHR 0xE2, CHR 0x9C, CHR 0x93]"

definition cmd_cron_list :: "cron_env \<Rightarrow> time \<Rightarrow> bool \<Rightarrow> 'p service \<Rightarrow> (string + string) \<times> 'p service" where
  "cmd_cron_list env now all s = (case ListJobs env all s of
       (Inl e, s1) \<Rightarrow> (Inl (cron_error_text e), s1)
     | (Inr js, s1) \<Rightarrow> (Inr (if js = [] then ''(no jobs)'' @ [newline] else concat (map (\<lambda>j. FormatJob env now j @ [newline]) js)), s1))"

definition cmd_cron_add :: "flag_env \<Rightarrow> cron_env \<Rightarrow> cron_moment \<Rightarrow> time \<Rightarrow> add_flags \<Rightarrow> 'p service \<Rightarrow> (string + string) \<times> 'p service" where
  "cmd_cron_add fenv env m now f s =
     (if af_name f = [] then (Inl ''--name is required'', s)
      else case validateCronAddFlags fenv now f of
        Some e \<Rightarrow> (Inl e, s)
      | None \<Rightarrow> (case ebind (parseScheduleFlagsWithNow fenv now (af_cron f) (af_every f) (af_delay f) (af_tz f)
              \<lparr>so_allowDelay = True, so_defaultEvery = 0, so_validateOnly = False\<rparr>) (\<lambda>sch.
            ebind (cronPayloadFromFlags (af_type f) (af_prompt f) (af_command f) (af_text f) (af_agentSession f) (af_chatSession f))
              (\<lambda>pl. Inr (sch, pl))) of
            Inl e \<Rightarrow> (Inl e, s)
          | Inr (sch, pl) \<Rightarrow> (case AddJob env (cm_now m) (cm_arm m) (cm_id m) (af_name f) sch pl (af_deleteAfter f) s of
                (Inl e, s1) \<Rightarrow> (Inl (cron_error_text e), s1)
              | (Inr j, s1) \<Rightarrow> (Inr (done_mark @ '' job added: '' @ FormatJob env now j @ [newline]), s1))))"

definition cmd_cron_remove :: "cron_env \<Rightarrow> time \<Rightarrow> string \<Rightarrow> 'p service \<Rightarrow> (string + string) \<times> 'p service" where
  "cmd_cron_remove env now i s = (case RemoveJob env now i s of
       (Inl e, s1) \<Rightarrow> (Inl (cron_error_text e), s1)
     | (Inr False, s1) \<Rightarrow> (Inl (''job '' @ Quote i @ '' not found''), s1)
     | (Inr True, s1) \<Rightarrow> (Inr (done_mark @ '' removed job '' @ i @ [newline]), s1))"

text \<open>The heartbeat without \<open>--run-now\<close>.\<close>

definition cron_heartbeat :: "flag_env \<Rightarrow> cron_env \<Rightarrow> cron_moment \<Rightarrow> time \<Rightarrow> string \<Rightarrow> string \<Rightarrow> string \<Rightarrow> string \<Rightarrow> string \<Rightarrow> string \<Rightarrow>
    'p service \<Rightarrow> (string + string) \<times> 'p service" where
  "cron_heartbeat fenv env m now name cronExpr everyStr message session tz s =
     (case parseScheduleFlagsWithNow fenv now cronExpr everyStr [] tz
        \<lparr>so_allowDelay = False, so_defaultEvery = defaultHeartbeatEvery, so_validateOnly = False\<rparr> of
        Inl e \<Rightarrow> (Inl e, s)
      | Inr sch \<Rightarrow> (case ensureHeartbeatJob env m sch name message session s of
            (Inl e, s1) \<Rightarrow> (Inl e, s1)
          | (Inr (j, existed), s1) \<Rightarrow> (Inr (done_mark @ '' heartbeat job '' @ (if existed then ''already exists: '' else ''ready: '') @
              FormatJob env now j @ [newline]), s1)))"

definition writeCommandOutput :: "string \<Rightarrow> string" where
  "writeCommandOutput out = (if TrimSpace out = [] then [] else if HasSuffix out [newline] then out else out @ [newline])"

section \<open>The heartbeat job\<close>

lemma find_filter: "find P xs = (case filter P xs of [] \<Rightarrow> None | x # _ \<Rightarrow> Some x)"
  by (induction xs) auto

lemma find_sorted: "filter P xs = [j] \<Longrightarrow> find P (sort_jobs xs) = Some j" and
  find_sorted_none: "filter P xs = [] \<Longrightarrow> find P (sort_jobs xs) = None"
proof -
  have m: "mset (filter P (sort_jobs xs)) = mset (filter P xs)" by (simp add: sort_jobs_mset)
  show "find P (sort_jobs xs) = Some j" if "filter P xs = [j]"
  proof -
    have "mset (filter P (sort_jobs xs)) = {#j#}" using m that by (simp only: mset.simps)
    then have "filter P (sort_jobs xs) = [j]" by (simp only: mset_single_iff)
    then show ?thesis by (simp add: find_filter)
  qed
  show "find P (sort_jobs xs) = None" if "filter P xs = []"
  proof -
    have "filter P (sort_jobs xs) = []" using m that by (simp only: mset.simps mset_zero_iff)
    then show ?thesis by (simp add: find_filter)
  qed
qed

text \<open>What a table with at most one matching job becomes, where the new job would be \<open>j\<close>: nothing changes, or
  the old job is removed, whether a new one can be added or not.\<close>

definition new_of :: "cron_env \<Rightarrow> cron_moment \<Rightarrow> job_spec \<Rightarrow> job" where
  "new_of env m spec = new_job env (cm_now m) (cm_id m) (js_name spec) (js_schedule spec) (js_payload spec) (js_deleteAfterRun spec)"

definition never_runs :: "cron_env \<Rightarrow> cron_moment \<Rightarrow> job_spec \<Rightarrow> bool" where
  "never_runs env m spec \<longleftrightarrow> computeNextRun env (js_schedule spec) (cm_now m) = 0"

definition added :: "cron_env \<Rightarrow> cron_moment \<Rightarrow> job_spec \<Rightarrow> string + job \<times> bool" where
  "added env m spec = (if never_runs env m spec then Inl (cron_error_text (NoFutureRun (sch_kind (js_schedule spec))))
     else Inr (new_of env m spec, False))"

lemma add_spec_table:
  assumes "synced env s"
  shows "\<exists>s'. add_spec env m spec s = (added env m spec, s') \<and> loaded env s' \<and>
    table env s' = table env s @ (if never_runs env m spec then [] else [new_of env m spec])"
  using AddJob_table [OF assms, of "cm_now m" "cm_arm m" "cm_id m" "js_name spec" "js_schedule spec" "js_payload spec" "js_deleteAfterRun spec"]
  by (auto simp: add_spec_def added_def never_runs_def new_of_def)

lemma find_matching_table:
  assumes "synced env s" and "filter match (table env s) = hits" and "length hits \<le> 1"
  shows "\<exists>s'. findMatchingCronJob env match s = (Inr (case hits of [] \<Rightarrow> None | j # _ \<Rightarrow> Some j), s') \<and> loaded env s' \<and> table env s' = table env s"
proof -
  have "find match (sort_jobs (table env s)) = (case hits of [] \<Rightarrow> None | j # _ \<Rightarrow> Some j)"
    using assms(2,3) by (cases hits) (auto simp: find_sorted find_sorted_none)
  with ListJobs_table [OF assms(1), of True] show ?thesis by (auto simp: findMatchingCronJob_def)
qed

lemma upsert_table:
  assumes s: "synced env s" and hits: "filter match (table env s) = hits" "length hits \<le> 1"
  shows "\<exists>s'. upsertCronJob env m match spec s = ((case hits of
         [] \<Rightarrow> added env m spec | j # _ \<Rightarrow> if unchanged spec j then Inr (j, True) else added env m spec), s') \<and> loaded env s' \<and>
     table env s' = (let new = (if never_runs env m spec then [] else [new_of env m spec]) in case hits of
         [] \<Rightarrow> table env s @ new
       | j # _ \<Rightarrow> if unchanged spec j then table env s else removeJobSlice (table env s) (job_id j) @ new)"
proof -
  obtain s1 where f: "findMatchingCronJob env match s = (Inr (case hits of [] \<Rightarrow> None | j # _ \<Rightarrow> Some j), s1)"
    "loaded env s1" "table env s1 = table env s" using find_matching_table [OF s hits] by blast
  have s1: "synced env s1" using f(2) by (rule loaded_synced)
  show ?thesis
  proof (cases hits)
    case Nil
    with f add_spec_table [OF s1, of m spec] show ?thesis by (auto simp: upsertCronJob_def)
  next
    case (Cons j js)
    have j: "j \<in> set (table env s)" using hits(1) Cons by (metis filter_is_subset list.set_intros(1) subsetD)
    show ?thesis
    proof (cases "unchanged spec j")
      case True
      with f Cons show ?thesis by (auto simp: upsertCronJob_def)
    next
      case False
      obtain s2 where r: "RemoveJob env (cm_arm m) (job_id j) s1 = (Inr True, s2)" "loaded env s2"
        "table env s2 = removeJobSlice (table env s) (job_id j)"
        using RemoveJob_table [OF s1, of "cm_arm m" "job_id j"] j f(3) by auto
      from f r Cons False add_spec_table [OF loaded_synced [OF r(2)], of m spec] show ?thesis
        by (auto simp: upsertCronJob_def)
    qed
  qed
qed

lemma normalize_agent: "normalizePayloadKind PayloadAgentTurn = PayloadAgentTurn"
  by code_simp

lemma TrimSpace_cron: "TrimSpace (''cron:'' @ i) \<noteq> []"
  by (simp add: TrimSpace_def is_space_def)

lemma new_heartbeat:
  assumes "TrimSpace session \<noteq> []"
  shows "is_heartbeat name message session (new_of env m (heartbeat_spec sch name message session))"
    and "unchanged (heartbeat_spec sch name message session) (new_of env m (heartbeat_spec sch name message session))"
  using assms by (auto simp: is_heartbeat_def unchanged_def new_of_def new_job_def heartbeat_spec_def zero_payload_def)


definition first_moment :: cron_moment where
  "first_moment = \<lparr>cm_now = 10, cm_arm = 11, cm_id = ''h1''\<rparr>"

abbreviation "demo_beat \<equiv> ensureHeartbeatJob demo_env first_moment demo_schedule ''heartbeat'' ''poll'' ''hb'' demo_service"

lemma demo_beat_runs:
  "\<exists>j s1. demo_beat = (Inr (j, False), s1) \<and> loaded demo_env s1 \<and> table demo_env s1 = [j] \<and> is_heartbeat ''heartbeat'' ''poll'' ''hb'' j \<and>
     job_schedule j = demo_schedule"
proof -
  have "TrimSpace ''hb'' \<noteq> []" "\<not> never_runs demo_env first_moment (heartbeat_spec demo_schedule ''heartbeat'' ''poll'' ''hb'')" by code_simp+
  with upsert_table [OF demo_synced, of "is_heartbeat ''heartbeat'' ''poll'' ''hb''" "[]" first_moment
      "heartbeat_spec demo_schedule ''heartbeat'' ''poll'' ''hb''"]
    new_heartbeat [where session = "''hb''" and name = "''heartbeat''" and message = "''poll''" and env = demo_env and m = first_moment
      and sch = demo_schedule]
  show ?thesis by (auto simp: demo_table ensureHeartbeatJob_def added_def) (simp add: new_of_def new_job_def heartbeat_spec_def)
qed




end
