(* ===== verification/Turns.thy ===== *)
theory Turns
  imports Session_Store
begin

text \<open>
  One turn of a conversation (\<open>cmd/blades/internal/app/runtime.go\<close>): the collector of streamed text and
  tool events, the turn executor with its history repair, and the records it leaves. The run of the
  agent is an argument: the steps its iterator makes, appending to the session and yielding events.
\<close>

section \<open>Streaming to a channel\<close>

datatype eventKind = EventToolStart | EventToolEnd

record event =
  ev_kind :: eventKind
  ev_id :: string
  ev_name :: string
  ev_input :: string
  ev_output :: string

text \<open>The calls a \<open>channel.Writer\<close> got.\<close>

datatype writer_call = WriteText string | WriteEvent event

text \<open>\<open>sc_writer\<close> is \<open>None\<close> for a nil writer, else the calls made so far.\<close>

record streamCollector =
  sc_writer :: "writer_call list option"
  sc_buf :: string
  sc_started :: "string set"
  sc_ended :: "string set"

definition newStreamCollector :: "bool \<Rightarrow> streamCollector" where
  "newStreamCollector has_writer = \<lparr>sc_writer = (if has_writer then Some [] else None), sc_buf = [],
     sc_started = {}, sc_ended = {}\<rparr>"

definition ToolEventKey :: "toolPart \<Rightarrow> nat \<Rightarrow> string" where
  "ToolEventKey tp ordinal = (if TrimSpace (tool_id tp) \<noteq> [] then tool_id tp
     else tool_name tp @ [newline] @ ''#'' @ show_nat ordinal)"

definition write_call :: "writer_call \<Rightarrow> streamCollector \<Rightarrow> streamCollector" where
  "write_call call c = c\<lparr>sc_writer := map_option (\<lambda>log. log @ [call]) (sc_writer c)\<rparr>"

definition start_event :: "string \<Rightarrow> toolPart \<Rightarrow> streamCollector \<Rightarrow> streamCollector" where
  "start_event key tp c =
     (if key \<in> sc_started c then c
      else write_call (WriteEvent \<lparr>ev_kind = EventToolStart, ev_id = key, ev_name = tool_name tp,
             ev_input = tool_request tp, ev_output = []\<rparr>) (c\<lparr>sc_started := insert key (sc_started c)\<rparr>))"

definition end_event :: "string \<Rightarrow> toolPart \<Rightarrow> streamCollector \<Rightarrow> streamCollector" where
  "end_event key tp c =
     write_call (WriteEvent \<lparr>ev_kind = EventToolEnd, ev_id = key, ev_name = tool_name tp,
       ev_input = tool_request tp, ev_output = tool_response tp\<rparr>) (c\<lparr>sc_ended := insert key (sc_ended c)\<rparr>)"

text \<open>What the loop does with one tool part.\<close>

definition emit_tool :: "string \<Rightarrow> toolPart \<Rightarrow> streamCollector \<Rightarrow> streamCollector" where
  "emit_tool key tp c =
     (if \<not> tool_completed tp then start_event key tp c
      else if key \<in> sc_ended c then c
      else end_event key tp (start_event key tp c))"

text \<open>The loop over the parts; the counters are per name and request.\<close>

definition fingerprint :: "toolPart \<Rightarrow> string" where
  "fingerprint tp = tool_name tp @ [newline] @ tool_request tp"

definition count_tool :: "(string \<Rightarrow> nat) \<Rightarrow> toolPart \<Rightarrow> string \<Rightarrow> nat" where
  "count_tool ordinals tp = ordinals(fingerprint tp := Suc (ordinals (fingerprint tp)))"

fun emit_parts :: "(string \<Rightarrow> nat) \<Rightarrow> part list \<Rightarrow> streamCollector \<Rightarrow> streamCollector" where
  "emit_parts ordinals [] c = c"
| "emit_parts ordinals (ToolPart tp # ps) c =
     emit_parts (count_tool ordinals tp) ps
       (emit_tool (ToolEventKey tp (count_tool ordinals tp (fingerprint tp))) tp c)"
| "emit_parts ordinals (_ # ps) c = emit_parts ordinals ps c"

definition emitToolEvents :: "message \<Rightarrow> streamCollector \<Rightarrow> streamCollector" where
  "emitToolEvents m c = emit_parts (\<lambda>_. 0) (parts m) c"

text \<open>The text of a message: a completed one replaces the buffer, a chunk is added to it. Writing to a
  nil writer does nothing.\<close>

definition consume_text :: "message \<Rightarrow> streamCollector \<Rightarrow> streamCollector" where
  "consume_text m c =
     (if status m = StatusCompleted then
        (let finalText = Text m;
             c1 = (if sc_buf c = [] \<and> finalText \<noteq> [] then write_call (WriteText finalText) c else c)
         in if finalText \<noteq> [] then c1\<lparr>sc_buf := finalText\<rparr> else c1)
      else if Text m \<noteq> [] then (write_call (WriteText (Text m)) c)\<lparr>sc_buf := sc_buf c @ Text m\<rparr>
      else c)"

definition consume :: "message option \<Rightarrow> streamCollector \<Rightarrow> streamCollector" where
  "consume m c = (case m of
       None \<Rightarrow> c
     | Some m \<Rightarrow> (let c1 = consume_text m c in if sc_writer c1 = None then c1 else emitToolEvents m c1))"

section \<open>Records\<close>

text \<open>The entries of the conversation log and of the daily log of the memory store.\<close>

datatype turn_record = Conversation string string string | DailyLog string string

record turnOptions =
  to_writer :: bool
  to_memory :: bool
  to_logConversation :: bool
  to_runtimeLog :: bool

definition recordUser :: "turnOptions \<Rightarrow> string \<Rightarrow> string \<Rightarrow> turn_record list" where
  "recordUser opts sid text = (if to_runtimeLog opts then [Conversation sid ''user'' text] else [])"

definition recordError :: "turnOptions \<Rightarrow> string \<Rightarrow> string \<Rightarrow> turn_record list" where
  "recordError opts sid err = (if to_runtimeLog opts then [Conversation sid ''assistant_error'' err] else [])"

definition recordAssistant :: "turnOptions \<Rightarrow> string \<Rightarrow> string \<Rightarrow> string \<Rightarrow> turn_record list" where
  "recordAssistant opts sid userText reply =
     (if to_runtimeLog opts then [Conversation sid ''assistant'' reply] else []) @
     (if to_logConversation opts \<and> to_memory opts then [DailyLog ''user'' userText, DailyLog ''assistant'' reply] else [])"

section \<open>Keeping the turn in the history\<close>

definition hasTrailingMessage :: "message list \<Rightarrow> role \<Rightarrow> string \<Rightarrow> bool" where
  "hasTrailingMessage history rl text \<longleftrightarrow>
     history \<noteq> [] \<and> role (last history) = rl \<and> Text (last history) = text"

definition hasTrailingTurn :: "message list \<Rightarrow> string \<Rightarrow> string \<Rightarrow> bool" where
  "hasTrailingTurn history userText reply =
     (if length history < 2 then False
      else let prev = history ! (length history - 2); lst = history ! (length history - 1) in
        if role prev \<noteq> RoleUser \<or> Text prev \<noteq> userText then False
        else if TrimSpace reply = [] then role lst = RoleUser \<and> Text lst = userText
        else role lst = RoleAssistant \<and> Text lst = reply)"

definition history_through :: "nat \<Rightarrow> manager \<Rightarrow> (string + message list) \<times> manager" where
  "history_through r m = (case managed_History (mg_heap m r) of (h, s) \<Rightarrow> (h, m\<lparr>mg_heap := (mg_heap m)(r := s)\<rparr>))"

text \<open>The two messages it may append get the identifiers \<open>uid\<close> and \<open>aid\<close>.\<close>

definition ensureTurnHistory :: "string \<Rightarrow> string \<Rightarrow> nat \<Rightarrow> string \<Rightarrow> string \<Rightarrow> manager \<Rightarrow> string option \<times> manager" where
  "ensureTurnHistory uid aid r userText reply m = (case history_through r m of
       (Inl e, m1) \<Rightarrow> (Some e, m1)
     | (Inr history, m1) \<Rightarrow>
         (if hasTrailingTurn history userText reply then (None, m1)
          else
            let userMessage = UserMessage uid [InString userText];
                missing = \<not> hasTrailingMessage history RoleUser userText;
                m2 = (if missing then append_through r userMessage m1 else m1);
                history2 = (if missing then history @ [userMessage] else history)
            in if TrimSpace reply = [] \<or> hasTrailingMessage history2 RoleAssistant reply then (None, m2)
               else (None, append_through r (AssistantMessage aid [InString reply]) m2)))"

section \<open>The turn\<close>

text \<open>What the iterator of \<open>Runner.RunStream\<close> does, in order: it changes the session, yields an event,
  or yields an error; after an error the loop of \<open>runTurn\<close> returns and the iterator goes no further.\<close>

datatype run_step = Appends message | Sets string anyval | Yields "message option" | Fails string

fun run_loop :: "nat \<Rightarrow> run_step list \<Rightarrow> streamCollector \<Rightarrow> manager \<Rightarrow> string option \<times> streamCollector \<times> manager" where
  "run_loop r [] c m = (None, c, m)"
| "run_loop r (Appends msg # steps) c m = run_loop r steps c (append_through r msg m)"
| "run_loop r (Sets key v # steps) c m = run_loop r steps c (set_state_through r key v m)"
| "run_loop r (Yields msg # steps) c m = run_loop r steps (consume msg c) m"
| "run_loop r (Fails e # steps) c m = (Some e, c, m)"

record turn_result =
  tr_reply :: string
  tr_err :: "string option"
  tr_writer :: "writer_call list option"
  tr_records :: "turn_record list"
  tr_manager :: manager

definition turn_failed :: "string \<Rightarrow> manager \<Rightarrow> turn_result" where
  "turn_failed e m = \<lparr>tr_reply = [], tr_err = Some e, tr_writer = None, tr_records = [], tr_manager = m\<rparr>"

record turn_env =
  te_session :: session_env
  te_now :: int
  te_ids :: "nat \<Rightarrow> string"

text \<open>A runner is the run it starts for a message on a session; \<open>None\<close> is the nil pointer.\<close>

type_synonym runner = "message \<Rightarrow> nat \<Rightarrow> manager \<Rightarrow> run_step list"

definition runTurn :: "turn_env \<Rightarrow> runner option \<Rightarrow> manager option \<Rightarrow> string \<Rightarrow> string \<Rightarrow> turnOptions \<Rightarrow> string + turn_result" where
  "runTurn env rn mgr sid text opts = (case rn of
       None \<Rightarrow> Inl ''no runner''
     | Some run \<Rightarrow> (case mgr of
         None \<Rightarrow> Inl ''no session manager''
       | Some m \<Rightarrow> Inr (case Get (te_session env) sid m of
           (Inl e, m1) \<Rightarrow> turn_failed e m1
         | (Inr r, m1) \<Rightarrow>
             (let msg = UserMessage (te_ids env 0) [InString text];
                  start = recordUser opts sid text
              in case run_loop r (run msg r m1) (newStreamCollector (to_writer opts)) m1 of
                   (Some e, c, m2) \<Rightarrow> \<lparr>tr_reply = sc_buf c, tr_err = Some e, tr_writer = sc_writer c,
                     tr_records = start @ recordError opts sid e, tr_manager = m2\<rparr>
                 | (None, c, m2) \<Rightarrow>
                     (let reply = sc_buf c;
                          records = start @ recordAssistant opts sid text reply;
                          finish = (\<lambda>err m. \<lparr>tr_reply = reply, tr_err = err, tr_writer = sc_writer c,
                            tr_records = records, tr_manager = m\<rparr>)
                      in case ensureTurnHistory (te_ids env 1) (te_ids env 2) r text reply m2 of
                           (Some e, m3) \<Rightarrow> finish (Some e) m3
                         | (None, m3) \<Rightarrow> (case Save (te_session env) (te_now env) r m3 of (err, m4) \<Rightarrow> finish err m4))))))"

record turnExecutor =
  tx_runner :: "runner option"
  tx_sessions :: "manager option"
  tx_options :: turnOptions

definition NewTurnExecutor :: "runner option \<Rightarrow> manager option \<Rightarrow> turnOptions \<Rightarrow> turnExecutor" where
  "NewTurnExecutor rn mgr opts = \<lparr>tx_runner = rn, tx_sessions = mgr, tx_options = opts\<rparr>"

definition turn_Run :: "turn_env \<Rightarrow> turnExecutor option \<Rightarrow> string \<Rightarrow> string \<Rightarrow> string + turn_result" where
  "turn_Run env e sid text = (case e of
       None \<Rightarrow> Inl ''no turn executor''
     | Some e \<Rightarrow> runTurn env (tx_runner e) (tx_sessions e) sid text (tx_options e))"

definition StreamHandler :: "turn_env \<Rightarrow> turnExecutor \<Rightarrow> string \<Rightarrow> string \<Rightarrow> bool \<Rightarrow> string + turn_result" where
  "StreamHandler env e sid text has_writer =
     runTurn env (tx_runner e) (tx_sessions e) sid text ((tx_options e)\<lparr>to_writer := has_writer\<rparr>)"

definition Trigger :: "turn_env \<Rightarrow> turnExecutor \<Rightarrow> string \<Rightarrow> string \<Rightarrow> string + turn_result" where
  "Trigger env e sid text =
     runTurn env (tx_runner e) (tx_sessions e) sid text ((tx_options e)\<lparr>to_writer := False\<rparr>)"

end
