(* ===== verification/Lark_Card.thy ===== *)
theory Lark_Card
  imports Turns Go_Text
begin

text \<open>
  The card writer of the Lark channel (\<open>channel/lark/card_writer.go\<close>): how a reply is streamed into a
  card. The handler writes, a timer and the events start goroutines that send the card under the lock, and
  closing sends the final card without holding the lock. Each critical section and each call of the
  service is a step, so that every interleaving is a run; the results of the service are part of the
  labels. A card is the list of the contents of its elements.
\<close>

section \<open>Tool panels\<close>

datatype tool_status = Tool_Running | Tool_Done | Tool_Error

record toolInfo =
  ti_id :: string
  ti_name :: string
  ti_input :: string
  ti_output :: string
  ti_status :: tool_status

text \<open>The decoder gives the command and the working directory of an input that is a JSON object.\<close>

type_synonym decoder = "string \<Rightarrow> (string \<times> string) option"

definition parseToolCommand :: "decoder \<Rightarrow> string \<Rightarrow> string \<times> string" where
  "parseToolCommand decode input = (let trimmed = TrimSpace input in
     if trimmed = [] then ([], [])
     else case decode trimmed of Some (command, dir) \<Rightarrow> (TrimSpace command, TrimSpace dir) | None \<Rightarrow> ([], []))"

definition isToolErrorOutput :: "string \<Rightarrow> bool" where
  "isToolErrorOutput output = (let normalized = ToLower (TrimSpace output) in
     normalized \<noteq> [] \<and> (HasPrefix normalized ''error:'' \<or> Contains normalized ([newline] @ ''exit:'') \<or>
       HasPrefix normalized ''exit:''))"

definition buildToolCodeBlock :: "decoder \<Rightarrow> toolInfo \<Rightarrow> nat \<Rightarrow> string" where
  "buildToolCodeBlock decode t maxOutput =
     (let trimmed = TrimSpace (ti_output t);
          output = (if 0 < maxOutput \<and> maxOutput < length trimmed then take maxOutput trimmed @ ''...(truncated)'' else trimmed);
          head = (case parseToolCommand decode (ti_input t) of (command, dir) \<Rightarrow>
            if command \<noteq> [] then (if dir \<noteq> [] then ''# cwd: '' @ dir @ [newline] else []) @ ''$ '' @ command
            else if TrimSpace (ti_input t) \<noteq> [] then ''# input'' @ [newline] @ TrimSpace (ti_input t)
            else ''# no input'');
          tail = (if output \<noteq> [] then output else if ti_status t = Tool_Running then ''[running]'' else ''[no output]'')
      in ''```bash'' @ [newline] @ head @ [newline, newline] @ tail @ [newline] @ ''```'')"

definition status_text :: "tool_status \<Rightarrow> string" where
  "status_text st = (case st of Tool_Running \<Rightarrow> ''running'' | Tool_Error \<Rightarrow> ''error'' | Tool_Done \<Rightarrow> [])"

definition buildToolPanel :: "decoder \<Rightarrow> toolInfo \<Rightarrow> string" where
  "buildToolPanel decode t = TrimSpace (''**'' @ ti_name t @ ''**'') @
     (if status_text (ti_status t) \<noteq> [] then '' '' @ status_text (ti_status t) else []) @
     [newline] @ buildToolCodeBlock decode t 1200"

section \<open>The writer\<close>

type_synonym card = "string list"

text \<open>A goroutine that sends a card: to the card of this identifier, or a new one.\<close>

record sending =
  sd_target :: "string option"
  sd_card :: card
  sd_length :: nat

datatype close_phase = Open | Closing | Built card | Sending_Final sending | Closed "string option"

text \<open>\<open>cw_pending\<close> counts the goroutines about to send, \<open>cw_flushing\<close> is the one that holds the lock,
  \<open>cw_reacting\<close> whether a reaction is on its way, \<open>cw_unreacted\<close> the reaction that closing asked to delete.
  \<open>cw_sent\<close> records the cards the service accepted: whether the card was created, its identifier, and its
  elements.\<close>

record card_writer =
  cw_textBuf :: string
  cw_tools :: "toolInfo list"
  cw_lastSentLen :: nat
  cw_cardID :: string
  cw_timer :: bool
  cw_done :: bool
  cw_reactionID :: string
  cw_reactionSent :: bool
  cw_unreacted :: "string option"
  cw_pending :: nat
  cw_flushing :: "sending option"
  cw_reacting :: bool
  cw_phase :: close_phase
  cw_sent :: "(bool \<times> string \<times> card) list"

definition NewCardWriter :: card_writer where
  "NewCardWriter = \<lparr>cw_textBuf = [], cw_tools = [], cw_lastSentLen = 0, cw_cardID = [], cw_timer = False, cw_done = False,
     cw_reactionID = [], cw_reactionSent = False, cw_unreacted = None, cw_pending = 0, cw_flushing = None, cw_reacting = False,
     cw_phase = Open, cw_sent = []\<rparr>"

abbreviation cursor :: string where "cursor \<equiv> [CHR 0xE2, CHR 0x96, CHR 0x8C]"

definition WriteCardText :: "string \<Rightarrow> card_writer \<Rightarrow> card_writer" where
  "WriteCardText chunk w = w\<lparr>cw_textBuf := cw_textBuf w @ chunk, cw_reactionSent := True, cw_timer := True,
     cw_reacting := cw_reacting w \<or> \<not> cw_reactionSent w\<rparr>"

text \<open>The end of a tool call closes the first running tool with its identifier.\<close>

fun end_tool :: "event \<Rightarrow> toolInfo list \<Rightarrow> toolInfo list" where
  "end_tool e [] = []"
| "end_tool e (t # ts) = (if ti_id t = ev_id e \<and> ti_status t = Tool_Running
     then t\<lparr>ti_output := ev_output e, ti_status := (if isToolErrorOutput (ev_output e) then Tool_Error else Tool_Done)\<rparr> # ts
     else t # end_tool e ts)"

definition WriteCardEvent :: "event \<Rightarrow> card_writer \<Rightarrow> card_writer" where
  "WriteCardEvent e w = w\<lparr>cw_pending := cw_pending w + 1, cw_tools := (case ev_kind e of
       EventToolStart \<Rightarrow> cw_tools w @
         [\<lparr>ti_id = ev_id e, ti_name = ev_name e, ti_input = ev_input e, ti_output = [], ti_status = Tool_Running\<rparr>]
     | EventToolEnd \<Rightarrow> end_tool e (cw_tools w))\<rparr>"

definition buildCard :: "decoder \<Rightarrow> card_writer \<Rightarrow> card" where
  "buildCard decode w = map (buildToolPanel decode) (cw_tools w) @
     (if cw_textBuf w \<noteq> [] then [cw_textBuf w @ cursor] else [])"

definition buildFinalCard :: "decoder \<Rightarrow> card_writer \<Rightarrow> card" where
  "buildFinalCard decode w = map (buildToolPanel decode) (cw_tools w) @
     (if TrimSuffix (cw_textBuf w) cursor \<noteq> [] then [TrimSuffix (cw_textBuf w) cursor] else [])"

text \<open>Where an update of the card goes.\<close>

definition card_target :: "card_writer \<Rightarrow> string option" where
  "card_target w = (if cw_cardID w = [] then None else Some (cw_cardID w))"

text \<open>The service answers with an error, or accepts: a new card may come with an identifier.\<close>

definition accept_card :: "sending \<Rightarrow> string + string option \<Rightarrow> card_writer \<Rightarrow> card_writer" where
  "accept_card sd r w = (case r of
       Inl e \<Rightarrow> w
     | Inr i \<Rightarrow> (case sd_target sd of
           Some c \<Rightarrow> w\<lparr>cw_sent := cw_sent w @ [(False, c, sd_card sd)]\<rparr>
         | None \<Rightarrow> (case i of
               None \<Rightarrow> w\<lparr>cw_sent := cw_sent w @ [(True, [], sd_card sd)]\<rparr>
             | Some c \<Rightarrow> w\<lparr>cw_cardID := c, cw_sent := cw_sent w @ [(True, c, sd_card sd)]\<rparr>)))"

text \<open>\<open>flushSync\<close>: nothing to send, or a card goes out under the lock.\<close>

definition flush_start :: "decoder \<Rightarrow> card_writer \<Rightarrow> card_writer" where
  "flush_start decode w = (if length (cw_textBuf w) \<le> cw_lastSentLen w \<and> cw_tools w = []
     then w\<lparr>cw_pending := cw_pending w - 1\<rparr>
     else w\<lparr>cw_pending := cw_pending w - 1, cw_flushing :=
       Some \<lparr>sd_target = card_target w, sd_card = buildCard decode w, sd_length = length (cw_textBuf w)\<rparr>\<rparr>)"

definition flush_end :: "sending \<Rightarrow> string + string option \<Rightarrow> card_writer \<Rightarrow> card_writer" where
  "flush_end sd r w = (let v = (accept_card sd r w)\<lparr>cw_flushing := None\<rparr> in
     if isl r then v else v\<lparr>cw_lastSentLen := sd_length sd\<rparr>)"

section \<open>Steps\<close>

datatype card_label =
    Wrote_Text string
  | Wrote_Event event
  | Reacted "string + string option"
  | Timer_Fired
  | Flush_Started
  | Flush_Ended "string + string option"
  | Close_Begun
  | Final_Built
  | Final_Started
  | Final_Ended "string + string option"

definition deleteReaction :: "card_writer \<Rightarrow> string option" where
  "deleteReaction w = (if cw_reactionSent w \<and> cw_reactionID w \<noteq> [] then Some (cw_reactionID w) else None)"

definition begin_close :: "card_writer \<Rightarrow> card_writer" where
  "begin_close w = w\<lparr>cw_phase := Closing, cw_done := True, cw_timer := False, cw_unreacted := deleteReaction w\<rparr>"

text \<open>The final update, with the target and the error it was sent with.\<close>

definition final_sending :: "card \<Rightarrow> card_writer \<Rightarrow> sending" where
  "final_sending k w = \<lparr>sd_target = card_target w, sd_card = k, sd_length = 0\<rparr>"

definition end_close :: "sending \<Rightarrow> string + string option \<Rightarrow> card_writer \<Rightarrow> card_writer" where
  "end_close sd r w = (accept_card sd r w)\<lparr>cw_phase := Closed (case r of
     Inl e \<Rightarrow> Some ((if sd_target sd = None then ''create card: '' else ''update card: '') @ e) | Inr _ \<Rightarrow> None)\<rparr>"

text \<open>A section under the lock waits for the goroutine that holds it. The handler has returned when the writer
  is closed, and a writer is closed once; the timer fires while the writer is not done, and its goroutine
  may send later.\<close>

definition card_step :: "decoder \<Rightarrow> card_label \<Rightarrow> card_writer \<Rightarrow> card_writer option" where
  "card_step decode l w = (let free = (cw_flushing w = None); writable = (cw_phase w = Open \<and> free) in case l of
       Wrote_Text chunk \<Rightarrow> (if writable then Some (WriteCardText chunk w) else None)
     | Wrote_Event e \<Rightarrow> (if writable then Some (WriteCardEvent e w) else None)
     | Reacted r \<Rightarrow> (if cw_reacting w \<and> writable then Some (w\<lparr>cw_reacting := False,
           cw_reactionID := (case r of Inr (Some i) \<Rightarrow> i | _ \<Rightarrow> cw_reactionID w)\<rparr>) else None)
     | Timer_Fired \<Rightarrow> (if cw_timer w \<and> \<not> cw_done w then Some (w\<lparr>cw_timer := False, cw_pending := cw_pending w + 1\<rparr>) else None)
     | Flush_Started \<Rightarrow> (if 0 < cw_pending w \<and> free then Some (flush_start decode w) else None)
     | Flush_Ended r \<Rightarrow> map_option (\<lambda>sd. flush_end sd r w) (cw_flushing w)
     | Close_Begun \<Rightarrow> (if writable \<and> \<not> cw_reacting w then Some (begin_close w) else None)
     | Final_Built \<Rightarrow> (if cw_phase w = Closing \<and> free then Some (w\<lparr>cw_phase := Built (buildFinalCard decode w)\<rparr>) else None)
     | Final_Started \<Rightarrow> (case cw_phase w of Built k \<Rightarrow> Some (w\<lparr>cw_phase := Sending_Final (final_sending k w)\<rparr>) | _ \<Rightarrow> None)
     | Final_Ended r \<Rightarrow> (case cw_phase w of Sending_Final sd \<Rightarrow> Some (end_close sd r w) | _ \<Rightarrow> None))"

text \<open>What a writer can come to by steps of a kind, and by a given sequence of steps.\<close>

inductive card_reach :: "decoder \<Rightarrow> (card_label \<Rightarrow> card_writer \<Rightarrow> bool) \<Rightarrow> card_writer \<Rightarrow> bool" for decode ok where
  card_new: "card_reach decode ok NewCardWriter"
| card_next: "card_reach decode ok w \<Longrightarrow> ok l w \<Longrightarrow> card_step decode l w = Some v \<Longrightarrow> card_reach decode ok v"

interpretation cards: transition_system "card_reach decode ok" "\<lambda>w. w = NewCardWriter"
  "\<lambda>w v. \<exists>l. ok l w \<and> card_step decode l w = Some v" for decode ok
proof (unfold_locales, goal_cases)
  case (1 P s)
  from 1(1) show ?case by (induction rule: card_reach.induct) (auto intro: 1(2,3))
next
  case (2 s s')
  then show ?case by (blast intro: card_next)
qed

fun card_run :: "decoder \<Rightarrow> (card_label \<Rightarrow> card_writer \<Rightarrow> bool) \<Rightarrow> card_label list \<Rightarrow> card_writer \<Rightarrow> card_writer option" where
  "card_run decode ok [] w = Some w"
| "card_run decode ok (l # ls) w = (if ok l w then (case card_step decode l w of None \<Rightarrow> None
     | Some v \<Rightarrow> card_run decode ok ls v) else None)"

lemma card_run_reach: "card_reach decode ok w \<Longrightarrow> card_run decode ok ls w = Some v \<Longrightarrow> card_reach decode ok v"
  by (induction ls arbitrary: w) (auto split: if_splits option.splits intro: card_next)

section \<open>The final card\<close>

text \<open>A good run: the service accepts every card and gives a new one an identifier, and no goroutine is about to
  send when the writer is closed.\<close>

definition accepted :: "string option \<Rightarrow> string + string option \<Rightarrow> bool" where
  "accepted target r \<longleftrightarrow> (case r of Inl _ \<Rightarrow> False
     | Inr i \<Rightarrow> target \<noteq> None \<or> (case i of Some c \<Rightarrow> c \<noteq> [] | None \<Rightarrow> False))"

definition good_step :: "card_label \<Rightarrow> card_writer \<Rightarrow> bool" where
  "good_step l w \<longleftrightarrow> (case l of
       Flush_Ended r \<Rightarrow> (case cw_flushing w of Some sd \<Rightarrow> accepted (sd_target sd) r | None \<Rightarrow> True)
     | Final_Ended r \<Rightarrow> (case cw_phase w of Sending_Final sd \<Rightarrow> accepted (sd_target sd) r | _ \<Rightarrow> True)
     | Close_Begun \<Rightarrow> cw_pending w = 0
     | _ \<Rightarrow> True)"

text \<open>One card: the first entry creates it and every entry is for it.\<close>

definition one_card :: "card_writer \<Rightarrow> bool" where
  "one_card w \<longleftrightarrow> (cw_sent w = [] \<longleftrightarrow> cw_cardID w = []) \<and>
     (\<forall>i < length (cw_sent w). fst (cw_sent w ! i) = (i = 0) \<and> fst (snd (cw_sent w ! i)) = cw_cardID w)"

definition card_inv :: "decoder \<Rightarrow> card_writer \<Rightarrow> bool" where
  "card_inv decode w \<longleftrightarrow> one_card w \<and> (\<forall>sd. cw_flushing w = Some sd \<longrightarrow> sd_target sd = card_target w) \<and>
     (cw_phase w \<noteq> Open \<longrightarrow> cw_pending w = 0 \<and> cw_flushing w = None \<and> cw_done w) \<and>
     (case cw_phase w of Built k \<Rightarrow> k = buildFinalCard decode w
      | Sending_Final sd \<Rightarrow> sd_card sd = buildFinalCard decode w \<and> sd_target sd = card_target w
      | Closed e \<Rightarrow> e = None \<and> cw_sent w \<noteq> [] \<and> snd (snd (last (cw_sent w))) = buildFinalCard decode w
      | _ \<Rightarrow> True)"

lemma accept_one_card:
  assumes "one_card w" and "sd_target sd = card_target w" and "accepted (sd_target sd) r"
  shows "one_card (accept_card sd r w)" and "cw_sent (accept_card sd r w) \<noteq> []"
    and "snd (snd (last (cw_sent (accept_card sd r w)))) = sd_card sd"
  using assms by (auto simp: one_card_def accept_card_def card_target_def accepted_def nth_append less_Suc_eq
      split: sum.splits option.splits if_splits)

lemma accept_fields [simp]:
  "cw_textBuf (accept_card sd r w) = cw_textBuf w" "cw_tools (accept_card sd r w) = cw_tools w"
  "cw_pending (accept_card sd r w) = cw_pending w" "cw_done (accept_card sd r w) = cw_done w"
  "cw_phase (accept_card sd r w) = cw_phase w" "cw_flushing (accept_card sd r w) = cw_flushing w"
  by (simp_all add: accept_card_def split: sum.split option.split)

lemma one_card_more [simp]:
  "one_card (w\<lparr>cw_phase := p\<rparr>) = one_card w" "one_card (w\<lparr>cw_flushing := f\<rparr>) = one_card w"
  "one_card (w\<lparr>cw_lastSentLen := n\<rparr>) = one_card w" "one_card (w\<lparr>cw_pending := n\<rparr>) = one_card w"
  by (simp_all add: one_card_def)

lemma card_inv_step:
  assumes "card_inv decode w" and "good_step l w" and "card_step decode l w = Some v"
  shows "card_inv decode v"
proof (cases l)
  case (Flush_Ended r)
  then obtain sd where sd: "cw_flushing w = Some sd" "v = flush_end sd r w" "accepted (sd_target sd) r"
    using assms(2,3) by (auto simp: card_step_def good_step_def Let_def)
  have "one_card w" "sd_target sd = card_target w" "cw_phase w = Open" using assms(1) sd(1) by (auto simp: card_inv_def)
  with accept_one_card(1) [of w sd r] sd show ?thesis by (auto simp: card_inv_def flush_end_def Let_def)
next
  case (Final_Ended r)
  then obtain sd where sd: "cw_phase w = Sending_Final sd" "v = end_close sd r w" "accepted (sd_target sd) r"
    using assms(2,3) by (auto simp: card_step_def good_step_def Let_def split: close_phase.splits)
  have "one_card w" "sd_target sd = card_target w" "sd_card sd = buildFinalCard decode w" "cw_pending w = 0"
    "cw_flushing w = None" "cw_done w" using assms(1) sd(1) by (auto simp: card_inv_def)
  with accept_one_card [of w sd r] sd show ?thesis
    by (auto simp: card_inv_def end_close_def buildFinalCard_def accepted_def split: sum.splits)
next
  case Flush_Started
  with assms show ?thesis by (auto simp: card_step_def card_inv_def flush_start_def Let_def one_card_def card_target_def
        split: if_splits)
next
  case Final_Started
  with assms show ?thesis by (auto simp: card_step_def card_inv_def final_sending_def card_target_def buildFinalCard_def
        one_card_def Let_def split: close_phase.splits)
qed (use assms in \<open>auto simp: card_step_def card_inv_def good_step_def WriteCardText_def WriteCardEvent_def begin_close_def
      one_card_def card_target_def buildFinalCard_def Let_def split: if_splits\<close>)

end
