(* ===== verification/Lark_Props.thy ===== *)
theory Lark_Props
  imports Lark_Card
begin

text \<open>
  Properties of the Lark channel: the card a reply ends with, and what goroutines that are late do to it.
\<close>

section \<open>What was written\<close>

definition card_text :: "card_label list \<Rightarrow> string" where
  "card_text ls = concat (map (\<lambda>l. case l of Wrote_Text chunk \<Rightarrow> chunk | _ \<Rightarrow> []) ls)"

definition card_tools :: "card_label list \<Rightarrow> toolInfo list" where
  "card_tools ls = cw_tools (fold (\<lambda>l w. case l of Wrote_Event e \<Rightarrow> WriteCardEvent e w | _ \<Rightarrow> w) ls NewCardWriter)"

lemma event_tools: "cw_tools w = cw_tools v \<Longrightarrow> cw_tools (WriteCardEvent e w) = cw_tools (WriteCardEvent e v)"
  by (simp add: WriteCardEvent_def split: eventKind.split)

lemma card_step_written:
  assumes "card_step decode l w = Some v"
  shows "cw_textBuf v = cw_textBuf w @ card_text [l]"
    and "cw_tools v = cw_tools (case l of Wrote_Event e \<Rightarrow> WriteCardEvent e w | _ \<Rightarrow> w)"
  using assms by (cases l; auto simp: card_step_def card_text_def WriteCardText_def WriteCardEvent_def flush_start_def flush_end_def
      begin_close_def end_close_def Let_def split: if_splits close_phase.splits)+

lemma fold_tools:
  "cw_tools w = cw_tools v \<Longrightarrow> cw_tools (fold (\<lambda>l w. case l of Wrote_Event e \<Rightarrow> WriteCardEvent e w | _ \<Rightarrow> w) ls w) =
     cw_tools (fold (\<lambda>l w. case l of Wrote_Event e \<Rightarrow> WriteCardEvent e w | _ \<Rightarrow> w) ls v)"
proof (induction ls arbitrary: w v)
  case (Cons l ls)
  have "cw_tools (case l of Wrote_Event e \<Rightarrow> WriteCardEvent e w | _ \<Rightarrow> w) = cw_tools (case l of Wrote_Event e \<Rightarrow> WriteCardEvent e v | _ \<Rightarrow> v)"
    by (cases l) (simp_all add: Cons.prems event_tools [OF Cons.prems])
  from Cons.IH [OF this] show ?case unfolding fold_simps .
qed simp

lemma card_run_written:
  "card_run decode ok ls w = Some v \<Longrightarrow> cw_textBuf v = cw_textBuf w @ card_text ls \<and>
     cw_tools v = cw_tools (fold (\<lambda>l w. case l of Wrote_Event e \<Rightarrow> WriteCardEvent e w | _ \<Rightarrow> w) ls w)"
proof (induction ls arbitrary: w)
  case (Cons l ls)
  then obtain u where u: "card_step decode l w = Some u" "card_run decode ok ls u = Some v"
    by (auto split: if_splits option.splits)
  from Cons.IH [OF u(2)] card_step_written [OF u(1)] fold_tools [OF card_step_written(2) [OF u(1)], of ls] show ?case
    by (simp add: card_text_def)
qed (simp add: card_text_def)


definition demo_event :: "eventKind \<Rightarrow> event" where
  "demo_event k = \<lparr>ev_kind = k, ev_id = ''t1'', ev_name = ''bash'', ev_input = ''ls'', ev_output = ''a b''\<rparr>"

definition demo_card :: "card_label list" where
  "demo_card = [Wrote_Text ''hel'', Reacted (Inr (Some ''r1'')), Wrote_Event (demo_event EventToolStart), Flush_Started,
     Flush_Ended (Inr (Some ''c1'')), Wrote_Event (demo_event EventToolEnd), Wrote_Text ''lo'', Timer_Fired, Flush_Started,
     Flush_Ended (Inr None), Flush_Started, Flush_Ended (Inr None), Close_Begun, Final_Built, Final_Started, Final_Ended (Inr None)]"

lemma demo_card_run:
  "map_option cw_phase (card_run (\<lambda>_. None) good_step demo_card NewCardWriter) = Some (Closed None)"
  "TrimSuffix (card_text demo_card) cursor = ''hello''"
  by code_simp+


definition late_flush :: "card_label list" where
  "late_flush = [Wrote_Text ''hi'', Reacted (Inr None), Wrote_Event (demo_event EventToolStart), Close_Begun, Final_Built,
     Final_Started, Final_Ended (Inr (Some ''c1'')), Flush_Started, Flush_Ended (Inr None)]"

definition late_create :: "card_label list" where
  "late_create = [Wrote_Text ''hi'', Reacted (Inr None), Wrote_Event (demo_event EventToolStart), Close_Begun, Final_Built,
     Final_Started, Flush_Started, Final_Ended (Inr (Some ''c1'')), Flush_Ended (Inr (Some ''c2''))]"

definition accepting :: "card_label \<Rightarrow> card_writer \<Rightarrow> bool" where
  "accepting l w \<longleftrightarrow> l = Close_Begun \<or> good_step l w"

lemma late_runs:
  "map_option (\<lambda>w. (cw_phase w, map fst (cw_sent w), map (last \<circ> snd \<circ> snd) (cw_sent w)))
     (card_run (\<lambda>_. None) accepting late_flush NewCardWriter) = Some (Closed None, [True, False], [''hi'', ''hi'' @ cursor])"
  "map_option (\<lambda>w. (cw_phase w, map fst (cw_sent w), map (fst \<circ> snd) (cw_sent w)))
     (card_run (\<lambda>_. None) accepting late_create NewCardWriter) = Some (Closed None, [True, True], [''c1'', ''c2''])"
  by code_simp+

text \<open>C39: Goroutines that are late spoil the final card. An event starts a goroutine that nothing waits for:
  although the service accepts everything, a run exists in which closing succeeds and the card ends with
  the cursor of an unfinished reply, and one in which two cards are created.\<close>

theorem late_goroutines_spoil_card:
  "(\<exists>ls w. card_run (\<lambda>_. None) accepting ls NewCardWriter = Some w \<and> cw_phase w = Closed None \<and>
      card_text ls = ''hi'' \<and> last (snd (snd (last (cw_sent w)))) = ''hi'' @ cursor) \<and>
   (\<exists>ls w. card_run (\<lambda>_. None) accepting ls NewCardWriter = Some w \<and> cw_phase w = Closed None \<and>
      map fst (cw_sent w) = [True, True] \<and> map (fst \<circ> snd) (cw_sent w) = [''c1'', ''c2''])"
proof
  obtain w where w: "card_run (\<lambda>_. None) accepting late_flush NewCardWriter = Some w" "cw_phase w = Closed None"
    "map (last \<circ> snd \<circ> snd) (cw_sent w) = [''hi'', ''hi'' @ cursor]" using late_runs(1) by auto
  have "cw_sent w \<noteq> []" using w(3) by auto
  then have "last (snd (snd (last (cw_sent w)))) = last (map (last \<circ> snd \<circ> snd) (cw_sent w))" by (simp add: last_map)
  with w have "last (snd (snd (last (cw_sent w)))) = ''hi'' @ cursor" by simp
  moreover have "card_text late_flush = ''hi''" by code_simp
  ultimately show "\<exists>ls w. card_run (\<lambda>_. None) accepting ls NewCardWriter = Some w \<and> cw_phase w = Closed None \<and>
      card_text ls = ''hi'' \<and> last (snd (snd (last (cw_sent w)))) = ''hi'' @ cursor" using w by blast
  obtain v where "card_run (\<lambda>_. None) accepting late_create NewCardWriter = Some v" "cw_phase v = Closed None"
    "map fst (cw_sent v) = [True, True]" "map (fst \<circ> snd) (cw_sent v) = [''c1'', ''c2'']" using late_runs(2) by auto
  then show "\<exists>ls w. card_run (\<lambda>_. None) accepting ls NewCardWriter = Some w \<and> cw_phase w = Closed None \<and>
      map fst (cw_sent w) = [True, True] \<and> map (fst \<circ> snd) (cw_sent w) = [''c1'', ''c2'']" by (intro exI [of _ late_create] exI [of _ v] conjI)
qed

end
