(* ===== verification/Terminal.thy ===== *)
theory Terminal
  imports Commands Turns
begin

text \<open>
  The interactive terminal (\<open>cmd/blades/internal/channel/cli\<close>): the state of its model, the view it
  renders, and how it handles keys, slash commands and the items a turn streams. What the widgets, the
  styles and the markdown renderer do is a field of \<open>term_env\<close>; scroll positions, the spinner and the
  place of the cursor are left out. A context is the number of its turn, and \<open>tm_cancelled\<close> holds the
  contexts that are cancelled.
\<close>

section \<open>The state\<close>

datatype appState = StateInput | StateRunning

record toolSection =
  ts_idx :: nat
  ts_id :: string
  ts_name :: string
  ts_input :: string
  ts_output :: string
  ts_complete :: bool
  ts_expanded :: bool

record convTurn =
  cv_user :: string
  cv_assistant :: string
  cv_tools :: "toolSection list"
  cv_rendered :: string
  cv_isMeta :: bool
  cv_metaText :: string

datatype turn_error = Turn_Canceled | Turn_Failed string

text \<open>\<open>tm_vp\<close> is the size of the viewport once it is ready, \<open>tm_glamour\<close> the width the markdown renderer was
  made for, \<open>tm_streamCh\<close> the number of the turn whose channel it is, \<open>tm_stopCh\<close> whether the channel of
  capacity one is full, \<open>tm_turnCount\<close> the number of turns started.\<close>

record term_model =
  tm_sessionID :: string
  tm_state :: appState
  tm_input :: string
  tm_content :: string
  tm_vp :: "(int \<times> int) option"
  tm_turns :: "convTurn list"
  tm_pastContent :: string
  tm_streamCh :: "nat option"
  tm_streamBuf :: string
  tm_streamTools :: "toolSection list"
  tm_toolCounter :: nat
  tm_cancelTurn :: "nat option"
  tm_stopCh :: bool
  tm_glamour :: "int option"
  tm_width :: int
  tm_height :: int
  tm_err :: "turn_error option"
  tm_quitting :: bool
  tm_turnCount :: nat
  tm_cancelled :: "nat set"

definition newModel :: "string \<Rightarrow> term_model" where
  "newModel session = \<lparr>tm_sessionID = session, tm_state = StateInput, tm_input = [], tm_content = [], tm_vp = None,
     tm_turns = [], tm_pastContent = [], tm_streamCh = None, tm_streamBuf = [], tm_streamTools = [], tm_toolCounter = 0,
     tm_cancelTurn = None, tm_stopCh = False, tm_glamour = None, tm_width = 0, tm_height = 0, tm_err = None,
     tm_quitting = False, tm_turnCount = 0, tm_cancelled = {}\<rparr>"

section \<open>The environment\<close>

datatype style = Header_Style | Dim_Style | User_Style | Assistant_Style | Tool_Style | Hint_Style | Err_Style | Status_Style

record key =
  ky_string :: string
  ky_text :: string
  ky_enter :: bool

text \<open>The callbacks act on the model and the outside, as the closures over the model do. \<open>te_order\<close> is the order
  in which Go visits the map of commands; \<open>te_stop\<close> is nothing where the channel was given no function.\<close>

record 'w term_env =
  te_style :: "style \<Rightarrow> string \<Rightarrow> string"
  te_box :: "bool \<Rightarrow> int \<Rightarrow> string \<Rightarrow> string"
  te_newGlamour :: "int \<Rightarrow> bool"
  te_glamour :: "int \<Rightarrow> string \<Rightarrow> string option"
  te_viewport :: "int \<times> int \<Rightarrow> string \<Rightarrow> string"
  te_inputBox :: "int \<Rightarrow> string \<Rightarrow> string"
  te_spinner :: string
  te_edit :: "key \<Rightarrow> string \<Rightarrow> string"
  te_stop :: "'w callback option"
  te_switch :: "(string \<Rightarrow> 'w callback) option"
  te_clear :: "(string \<Rightarrow> 'w callback) option"
  te_commands :: "(term_model \<times> 'w) processor"
  te_order :: "string list"

section \<open>The view\<close>

definition vpHeight :: "term_model \<Rightarrow> int" where
  "vpHeight m = (let h = tm_height m - 5 in if h < 1 then 1 else h)"

definition truncate_runes :: "string \<Rightarrow> int \<Rightarrow> string" where
  "truncate_runes s limit = (if limit \<le> 3 then s
     else if int (length (runes s)) \<le> limit then s
     else concat (take (nat (limit - 1)) (runes s)) @ [CHR 0xE2, CHR 0x80, CHR 0xA6])"

definition singleLine :: "string \<Rightarrow> string" where
  "singleLine s = ReplaceAll (TrimSpace s) [newline] '' ''"

definition renderToolSection :: "'w term_env \<Rightarrow> term_model \<Rightarrow> toolSection \<Rightarrow> string" where
  "renderToolSection env m ts =
     (let maxW = (let w = tm_width m - 6 in if w < 20 then 20 else w);
          dim = te_style env Dim_Style; box = te_box env False maxW; active = te_box env True maxW;
          label = te_style env Tool_Style (show_nat (ts_idx ts) @ ''. '' @ ts_name ts)
      in if \<not> ts_complete ts
         then let content = label @ ''  '' @ dim ''running'' @
                (if ts_input ts \<noteq> [] then (if ts_expanded ts then [newline] @ dim ''input: '' @ ts_input ts
                   else [newline] @ dim (truncate_runes (singleLine (ts_input ts)) (maxW - 4))) else [])
              in if ts_expanded ts then active content else box content
         else if \<not> ts_expanded ts
         then box (label @ (if ts_output ts \<noteq> []
                then [newline] @ dim (truncate_runes (singleLine (ts_output ts)) (maxW - 4)) else []))
         else active (label @
                (if ts_input ts \<noteq> [] then [newline] @ dim ''input: '' @ ts_input ts else []) @
                (if ts_output ts \<noteq> [] then [newline] @ dim ''output: '' @ ts_output ts else [])))"

text \<open>The label of the assistant, what it said and its tools; nothing if there is neither.\<close>

definition render_answer :: "'w term_env \<Rightarrow> term_model \<Rightarrow> string \<Rightarrow> toolSection list \<Rightarrow> string" where
  "render_answer env m body tools =
     (if body \<noteq> [] \<or> tools \<noteq> [] then
        te_style env Assistant_Style ''Assistant'' @ [newline] @
        (if body \<noteq> [] then body @ (if tools \<noteq> [] then [newline] else []) else []) @
        concat (map (\<lambda>t. renderToolSection env m t @ [newline]) tools)
      else [])"

definition renderTurn :: "'w term_env \<Rightarrow> term_model \<Rightarrow> convTurn \<Rightarrow> string" where
  "renderTurn env m t = (if cv_isMeta t then cv_metaText t
     else te_style env User_Style ''User'' @ '' '' @ cv_user t @ [newline] @ render_answer env m (cv_rendered t) (cv_tools t))"

definition renderStreaming :: "'w term_env \<Rightarrow> term_model \<Rightarrow> string" where
  "renderStreaming env m = render_answer env m (tm_streamBuf m) (tm_streamTools m)"

definition rebuildPastContent :: "'w term_env \<Rightarrow> term_model \<Rightarrow> term_model" where
  "rebuildPastContent env m = m\<lparr>tm_pastContent := te_style env Header_Style ''blades'' @ ''  '' @
     te_style env Dim_Style (''session '' @ tm_sessionID m) @ [newline, newline] @
     concat (map (\<lambda>t. renderTurn env m t @ [newline]) (tm_turns m))\<rparr>"

definition buildContent :: "'w term_env \<Rightarrow> term_model \<Rightarrow> string" where
  "buildContent env m = (if tm_state m = StateRunning then tm_pastContent m @ renderStreaming env m else tm_pastContent m)"

definition refreshViewport :: "'w term_env \<Rightarrow> term_model \<Rightarrow> term_model" where
  "refreshViewport env m = (case tm_vp m of None \<Rightarrow> m | Some _ \<Rightarrow> m\<lparr>tm_content := buildContent env m\<rparr>)"

text \<open>The last turn that is no meta turn.\<close>

definition last_real :: "term_model \<Rightarrow> convTurn option" where
  "last_real m = find (\<lambda>t. \<not> cv_isMeta t) (rev (tm_turns m))"

definition statusBar :: "'w term_env \<Rightarrow> term_model \<Rightarrow> string" where
  "statusBar env m = te_style env Status_Style
     (if tm_state m = StateRunning then te_spinner env @ '' thinking...  Esc to stop''
      else case tm_err m of
        Some e \<Rightarrow> te_style env Err_Style (''error: '' @ (case e of Turn_Canceled \<Rightarrow> ''context canceled'' | Turn_Failed s \<Rightarrow> s))
      | None \<Rightarrow> (case last_real m of
            Some t \<Rightarrow> te_style env Hint_Style (if cv_tools t \<noteq> [] then ''1-9 details  PgUp/PgDn scroll  /help''
              else ''PgUp/PgDn scroll  /help'')
          | None \<Rightarrow> te_style env Hint_Style ''PgUp/PgDn scroll  /help''))"

definition View :: "'w term_env \<Rightarrow> term_model \<Rightarrow> string" where
  "View env m = (if tm_quitting m then te_style env Dim_Style (''Bye! '' @ [CHR 0xF0, CHR 0x9F, CHR 0x91, CHR 0x8B]) @ [newline]
     else case tm_vp m of
       None \<Rightarrow> []
     | Some dims \<Rightarrow> te_viewport env dims (tm_content m) @ [newline] @ statusBar env m @ [newline] @
         te_inputBox env (tm_width m - 2) (tm_input m) @ [newline])"

text \<open>Markdown as the renderer gives it, or as it is.\<close>

definition markdown :: "'w term_env \<Rightarrow> term_model \<Rightarrow> string \<Rightarrow> string" where
  "markdown env m md = (case tm_glamour m of None \<Rightarrow> md
     | Some w \<Rightarrow> (case te_glamour env w md of Some r \<Rightarrow> r | None \<Rightarrow> md))"

definition meta_turn :: "string \<Rightarrow> convTurn" where
  "meta_turn s = \<lparr>cv_user = [], cv_assistant = [], cv_tools = [], cv_rendered = [], cv_isMeta = True, cv_metaText = s\<rparr>"

definition addMetaRaw :: "string \<Rightarrow> term_model \<Rightarrow> term_model" where
  "addMetaRaw s m = m\<lparr>tm_turns := tm_turns m @ [meta_turn s]\<rparr>"

definition addMeta :: "'w term_env \<Rightarrow> string \<Rightarrow> term_model \<Rightarrow> term_model" where
  "addMeta env md m = addMetaRaw (markdown env m md) m"

definition toggle :: "toolSection \<Rightarrow> toolSection" where
  "toggle t = t\<lparr>ts_expanded := \<not> ts_expanded t\<rparr>"

text \<open>Toggle a tool of the last real turn; nothing is returned where there is none.\<close>

fun toggle_first :: "nat \<Rightarrow> convTurn list \<Rightarrow> convTurn list option" where
  "toggle_first i [] = None"
| "toggle_first i (t # ts) =
     (if cv_isMeta t then map_option (\<lambda>r. t # r) (toggle_first i ts)
      else if i < length (cv_tools t) then Some (t\<lparr>cv_tools := (cv_tools t)[i := toggle (cv_tools t ! i)]\<rparr> # ts)
      else None)"

definition toggleLastTool :: "nat \<Rightarrow> term_model \<Rightarrow> term_model option" where
  "toggleLastTool i m = map_option (\<lambda>ts. m\<lparr>tm_turns := rev ts\<rparr>) (toggle_first i (rev (tm_turns m)))"

section \<open>Streaming\<close>

datatype stream_msg = Stream_Text string | Stream_Event event | Stream_Done "turn_error option"

text \<open>What an update starts: a command that waits for a channel or the stop signal, the handler of a turn with
  its context, session and text, or the end of the program.\<close>

datatype effect = Wait "nat option" | Spawn nat string string | Quit_Program

definition sameToolInvocation :: "toolSection \<Rightarrow> event \<Rightarrow> bool" where
  "sameToolInvocation section event = (if ts_id section \<noteq> [] \<and> ev_id event \<noteq> [] then ts_id section = ev_id event
     else ts_name section = ev_name event)"

definition open_section :: "event \<Rightarrow> toolSection \<Rightarrow> bool" where
  "open_section e t \<longleftrightarrow> \<not> ts_complete t \<and> sameToolInvocation t e"

text \<open>Change the last section the test accepts; nothing is returned where there is none.\<close>

fun update_first :: "('a \<Rightarrow> bool) \<Rightarrow> ('a \<Rightarrow> 'a) \<Rightarrow> 'a list \<Rightarrow> 'a list option" where
  "update_first P f [] = None"
| "update_first P f (x # xs) = (if P x then Some (f x # xs) else map_option (\<lambda>ys. x # ys) (update_first P f xs))"

definition update_last :: "('a \<Rightarrow> bool) \<Rightarrow> ('a \<Rightarrow> 'a) \<Rightarrow> 'a list \<Rightarrow> 'a list option" where
  "update_last P f xs = map_option rev (update_first P f (rev xs))"

definition new_input :: "event \<Rightarrow> toolSection \<Rightarrow> toolSection" where
  "new_input e t = t\<lparr>ts_input := (if ev_input e \<noteq> [] then ev_input e else ts_input t)\<rparr>"

definition stream_tool :: "event \<Rightarrow> term_model \<Rightarrow> term_model" where
  "stream_tool e m = (case ev_kind e of
       EventToolStart \<Rightarrow> (case update_last (open_section e) (new_input e) (tm_streamTools m) of
           Some ts \<Rightarrow> m\<lparr>tm_streamTools := ts\<rparr>
         | None \<Rightarrow> m\<lparr>tm_toolCounter := tm_toolCounter m + 1, tm_streamTools := tm_streamTools m @
             [\<lparr>ts_idx = tm_toolCounter m + 1, ts_id = ev_id e, ts_name = ev_name e, ts_input = ev_input e, ts_output = [],
               ts_complete = False, ts_expanded = False\<rparr>]\<rparr>)
     | EventToolEnd \<Rightarrow> (case update_last (open_section e)
           (\<lambda>t. (new_input e t)\<lparr>ts_output := ev_output e, ts_complete := True, ts_expanded := False\<rparr>) (tm_streamTools m) of
           Some ts \<Rightarrow> m\<lparr>tm_streamTools := ts\<rparr>
         | None \<Rightarrow> m))"

definition reset_stream :: "term_model \<Rightarrow> term_model" where
  "reset_stream m = m\<lparr>tm_streamBuf := [], tm_streamTools := [], tm_toolCounter := 0\<rparr>"

text \<open>Call the cancel function of the turn, if there is one.\<close>

definition cancel_turn :: "term_model \<Rightarrow> term_model" where
  "cancel_turn m = (case tm_cancelTurn m of None \<Rightarrow> m
     | Some c \<Rightarrow> m\<lparr>tm_cancelled := insert c (tm_cancelled m), tm_cancelTurn := None\<rparr>)"

definition stopped_text :: string where
  "stopped_text = [CHR 0xE2, CHR 0x8F, CHR 0xB9] @ '' Response stopped. You can continue the conversation.''"

definition fill_turn :: "'w term_env \<Rightarrow> term_model \<Rightarrow> convTurn \<Rightarrow> convTurn" where
  "fill_turn env m t = t\<lparr>cv_tools := tm_streamTools m, cv_assistant := tm_streamBuf m,
     cv_rendered := (if tm_streamBuf m \<noteq> [] then markdown env m (tm_streamBuf m) else tm_streamBuf m)\<rparr>"

definition finishTurn :: "'w term_env \<Rightarrow> turn_error option \<Rightarrow> term_model \<Rightarrow> term_model" where
  "finishTurn env turnErr m =
     (let m1 = cancel_turn (m\<lparr>tm_state := StateInput, tm_streamCh := None\<rparr>);
          m2 = (if turnErr = Some Turn_Canceled then (addMeta env stopped_text m1)\<lparr>tm_err := None\<rparr> else m1\<lparr>tm_err := turnErr\<rparr>);
          m3 = (if tm_turns m2 = [] then m2
            else m2\<lparr>tm_turns := butlast (tm_turns m2) @ [fill_turn env m2 (last (tm_turns m2))]\<rparr>)
      in refreshViewport env (rebuildPastContent env (reset_stream m3)))"

definition handleStream :: "'w term_env \<Rightarrow> stream_msg \<Rightarrow> term_model \<Rightarrow> term_model \<times> effect list" where
  "handleStream env msg m = (case msg of
       Stream_Done e \<Rightarrow> (finishTurn env e m, [])
     | Stream_Event e \<Rightarrow> (refreshViewport env (stream_tool e m), [Wait (tm_streamCh m)])
     | Stream_Text chunk \<Rightarrow> (refreshViewport env (m\<lparr>tm_streamBuf := tm_streamBuf m @ chunk\<rparr>), [Wait (tm_streamCh m)]))"

definition user_turn :: "string \<Rightarrow> convTurn" where
  "user_turn s = \<lparr>cv_user = s, cv_assistant = [], cv_tools = [], cv_rendered = [], cv_isMeta = False, cv_metaText = []\<rparr>"

definition startTurn :: "'w term_env \<Rightarrow> string \<Rightarrow> term_model \<Rightarrow> term_model \<times> effect list" where
  "startTurn env txt m =
     (let c = tm_turnCount m + 1;
          m1 = (reset_stream (m\<lparr>tm_state := StateRunning\<rparr>))\<lparr>tm_err := None, tm_turns := tm_turns m @ [user_turn txt]\<rparr>
      in ((refreshViewport env (rebuildPastContent env m1))\<lparr>tm_streamCh := Some c, tm_cancelTurn := Some c, tm_turnCount := c\<rparr>,
          [Spawn c (tm_sessionID m) txt, Wait (Some c)]))"

definition quit :: "term_model \<Rightarrow> term_model \<times> effect list" where
  "quit m = (m\<lparr>tm_quitting := True\<rparr>, [Quit_Program])"

section \<open>Slash commands\<close>

definition cliHelpSuffix :: string where
  "cliHelpSuffix = ''## Keyboard Shortcuts'' @ [newline, newline] @
     ''- **1'' @ [CHR 0xE2, CHR 0x80, CHR 0x93] @ ''9** '' @ [CHR 0xE2, CHR 0x80, CHR 0x94] @ '' toggle tool call details'' @ [newline] @
     ''- **PgUp / PgDn** '' @ [CHR 0xE2, CHR 0x80, CHR 0x94] @ '' scroll conversation'' @ [newline] @
     ''- **Esc** '' @ [CHR 0xE2, CHR 0x80, CHR 0x94] @ '' stop current response (agent stops; you can keep chatting)'' @ [newline] @
     ''- **Ctrl+C** '' @ [CHR 0xE2, CHR 0x80, CHR 0x94] @ '' quit'' @ [newline]"

definition resetConversationView :: "term_model \<Rightarrow> term_model" where
  "resetConversationView m = reset_stream (m\<lparr>tm_turns := [], tm_pastContent := [], tm_err := None\<rparr>)"

text \<open>The function that stops a response: the one the channel was given, or else cancelling the turn.\<close>

definition stop_function :: "'w term_env \<Rightarrow> (term_model \<times> 'w) callback" where
  "stop_function env p = (case p of (m, w) \<Rightarrow> (case te_stop env of
       None \<Rightarrow> (None, (cancel_turn m, w))
     | Some f \<Rightarrow> (case f w of (e, v) \<Rightarrow> (e, (m, v)))))"

text \<open>A callback of the channel, if it has it, and the change of the model unless it failed.\<close>

definition then_change :: "'w callback option \<Rightarrow> (term_model \<Rightarrow> term_model) \<Rightarrow> (term_model \<times> 'w) callback" where
  "then_change f change p = (case p of (m, w) \<Rightarrow> (case f of
       None \<Rightarrow> (None, (change m, w))
     | Some g \<Rightarrow> (case g w of (Some e, v) \<Rightarrow> (Some e, (m, v)) | (None, v) \<Rightarrow> (None, (change m, v)))))"

definition slash_environment :: "'w term_env \<Rightarrow> term_model \<Rightarrow> (term_model \<times> 'w) environment" where
  "slash_environment env m = \<lparr>en_sessionID = tm_sessionID m, en_stop = Some (stop_function env),
     en_switch = Some (\<lambda>s. then_change (map_option (\<lambda>f. f s) (te_switch env)) (\<lambda>m. (resetConversationView m)\<lparr>tm_sessionID := s\<rparr>)),
     en_clear = Some (\<lambda>p. then_change (map_option (\<lambda>f. f (tm_sessionID (fst p))) (te_clear env)) resetConversationView p),
     en_commands = Some (map command_info.truncate (GetCommands (te_order env) (te_commands env))),
     en_helpSuffix = Some cliHelpSuffix\<rparr>"

definition handleSlash :: "'w term_env \<Rightarrow> string \<Rightarrow> term_model \<times> 'w \<Rightarrow> (term_model \<times> effect list) \<times> 'w" where
  "handleSlash env line p = (case Process (te_commands env) line (Some (slash_environment env (fst p))) p of (r, (m, w)) \<Rightarrow>
     (let redraw = (\<lambda>m. (refreshViewport env (rebuildPastContent env m), [])) in
      (case r of
         None \<Rightarrow> redraw m
       | Some (Inl e) \<Rightarrow> redraw (addMetaRaw (te_style env Err_Style (''Command error: '' @ e)) m)
       | Some (Inr res) \<Rightarrow>
           (let m1 = (if cr_isError res then addMetaRaw (te_style env Err_Style (cr_message res)) m else addMeta env (cr_message res) m)
            in if cr_quit res then quit m1 else redraw m1), w)))"

section \<open>Keys\<close>

definition is_digit_key :: "key \<Rightarrow> nat option" where
  "is_digit_key k = (case ky_text k of
       [c] \<Rightarrow> (if in_range 49 57 c then Some (of_char c - 49) else None)
     | _ \<Rightarrow> None)"

text \<open>A key in a state that awaits input, after the shortcuts.\<close>

definition input_key :: "'w term_env \<Rightarrow> key \<Rightarrow> term_model \<times> 'w \<Rightarrow> (term_model \<times> effect list) \<times> 'w" where
  "input_key env k p = (case p of (m, w) \<Rightarrow>
     (if ky_enter k then
        (let val = TrimSpace (tm_input m) in
         if val = [] then ((m, []), w)
         else if HasPrefix val ''/'' then handleSlash env val (m\<lparr>tm_input := []\<rparr>, w)
         else (startTurn env val (m\<lparr>tm_input := []\<rparr>), w))
      else ((m\<lparr>tm_input := te_edit env k (tm_input m)\<rparr>, []), w)))"

text \<open>A key while a turn runs, after the shortcuts: escape calls the stop function and signals the waiting
  command; the signal is dropped if the last one was not received.\<close>

definition running_key :: "'w term_env \<Rightarrow> key \<Rightarrow> term_model \<times> 'w \<Rightarrow> (term_model \<times> effect list) \<times> 'w" where
  "running_key env k p =
     (if ky_string k = ''esc'' then (case stop_function env p of (_, (m, w)) \<Rightarrow>
        ((m\<lparr>tm_stopCh := True\<rparr>, [Wait (tm_streamCh m)]), w))
      else ((fst p, []), snd p))"

definition handleKey :: "'w term_env \<Rightarrow> key \<Rightarrow> term_model \<times> 'w \<Rightarrow> (term_model \<times> effect list) \<times> 'w" where
  "handleKey env k p = (case p of (m, w) \<Rightarrow>
     (if ky_string k = ''ctrl+c'' then (quit m, w)
      else if ky_string k = ''ctrl+d'' \<and> tm_input m = [] then (quit m, w)
      else if ky_string k = ''pgup'' \<or> ky_string k = ''pgdown'' then ((m, []), w)
      else case is_digit_key k of
          None \<Rightarrow> (if tm_state m = StateRunning then running_key env k p else input_key env k p)
        | Some i \<Rightarrow>
            (if tm_state m = StateRunning then
               ((if i < length (tm_streamTools m)
                 then refreshViewport env (m\<lparr>tm_streamTools := (tm_streamTools m)[i := toggle (tm_streamTools m ! i)]\<rparr>)
                 else m, []), w)
             else if tm_input m = [] then (case toggleLastTool i m of
                 Some m1 \<Rightarrow> ((refreshViewport env (rebuildPastContent env m1), []), w)
               | None \<Rightarrow> input_key env k p)
             else input_key env k p)))"

section \<open>Updates\<close>

datatype term_msg = Window_Size int int | Spinner_Tick | Stream_Msg stream_msg | Key_Press key | Other_Msg

definition resize :: "'w term_env \<Rightarrow> int \<Rightarrow> int \<Rightarrow> term_model \<Rightarrow> term_model" where
  "resize env w h m =
     (let m1 = m\<lparr>tm_width := w, tm_height := h\<rparr>;
          m2 = m1\<lparr>tm_vp := Some (w, vpHeight m1), tm_glamour := (if te_newGlamour env (w - 6) then Some (w - 6) else tm_glamour m)\<rparr>
      in refreshViewport env (rebuildPastContent env m2))"

definition Update :: "'w term_env \<Rightarrow> term_msg \<Rightarrow> term_model \<times> 'w \<Rightarrow> (term_model \<times> effect list) \<times> 'w" where
  "Update env msg p = (case p of (m, w) \<Rightarrow> (case msg of
       Window_Size x y \<Rightarrow> ((resize env x y m, []), w)
     | Spinner_Tick \<Rightarrow> (((if tm_state m = StateRunning then refreshViewport env m else m), []), w)
     | Stream_Msg s \<Rightarrow> (handleStream env s m, w)
     | Key_Press k \<Rightarrow> handleKey env k p
     | Other_Msg \<Rightarrow> ((m, []), w)))"

end
