(* ===== verification/Terminal_Run.thy ===== *)
theory Terminal_Run
  imports Terminal
begin

text \<open>
  The interactive terminal as it runs (\<open>channel/cli/update.go\<close>): the event loop, the commands that wait
  for the channel of a turn, and the handlers that write to it, one step per message so that every order
  of keys, writes and deliveries is a run. A handler is arbitrary: it writes texts and events while it is
  busy and ends with a done message. The channel of a turn holds 512 messages; a handler whose context is
  cancelled may drop a write, which is no step.
\<close>

section \<open>The program\<close>

datatype waiter = Waiting "nat option" | Holding stream_msg

text \<open>\<open>tw_written\<close> and \<open>tw_asked\<close> record what was put in a turn's channel, and the session and text its
  handler got.\<close>

record 'w terminal =
  tw_model :: term_model
  tw_outside :: 'w
  tw_queue :: "nat \<Rightarrow> stream_msg list"
  tw_busy :: "nat set"
  tw_waiting :: "waiter list"
  tw_ended :: bool
  tw_written :: "nat \<Rightarrow> stream_msg list"
  tw_asked :: "nat \<Rightarrow> string \<times> string"

definition term_start :: "string \<Rightarrow> 'w \<Rightarrow> 'w terminal" where
  "term_start session w = \<lparr>tw_model = newModel session, tw_outside = w, tw_queue = (\<lambda>_. []), tw_busy = {}, tw_waiting = [],
     tw_ended = False, tw_written = (\<lambda>_. []), tw_asked = (\<lambda>_. ([], []))\<rparr>"

definition perform :: "effect \<Rightarrow> 'w terminal \<Rightarrow> 'w terminal" where
  "perform e s = (case e of
       Wait c \<Rightarrow> s\<lparr>tw_waiting := tw_waiting s @ [Waiting c]\<rparr>
     | Spawn c session txt \<Rightarrow> s\<lparr>tw_busy := insert c (tw_busy s), tw_queue := (tw_queue s)(c := []),
         tw_asked := (tw_asked s)(c := (session, txt))\<rparr>
     | Quit_Program \<Rightarrow> s\<lparr>tw_ended := True\<rparr>)"

text \<open>The model and the outside after an update, and the effects it starts.\<close>

definition updated :: "(term_model \<times> effect list) \<times> 'w \<Rightarrow> 'w terminal \<Rightarrow> 'w terminal" where
  "updated r s = fold perform (snd (fst r)) (s\<lparr>tw_model := fst (fst r), tw_outside := snd r\<rparr>)"

definition put :: "nat \<Rightarrow> stream_msg \<Rightarrow> 'w terminal \<Rightarrow> 'w terminal" where
  "put c x s = s\<lparr>tw_queue := (tw_queue s)(c := tw_queue s c @ [x]), tw_written := (tw_written s)(c := tw_written s c @ [x])\<rparr>"

datatype label = User term_msg | Received | Stop_Received | Delivered | Wrote nat stream_msg | Returned nat "turn_error option"

inductive term_step :: "'w term_env \<Rightarrow> label \<Rightarrow> 'w terminal \<Rightarrow> 'w terminal \<Rightarrow> bool" for env where
  user: "\<not> tw_ended s \<Longrightarrow> \<forall>x. msg \<noteq> Stream_Msg x \<Longrightarrow>
    term_step env (User msg) s (updated (Update env msg (tw_model s, tw_outside s)) s)"
| received: "tw_waiting s = xs @ Waiting (Some c) # ys \<Longrightarrow> tw_queue s c = x # q \<Longrightarrow>
    term_step env Received s (s\<lparr>tw_waiting := xs @ Holding x # ys, tw_queue := (tw_queue s)(c := q)\<rparr>)"
| stop_received: "tw_waiting s = xs @ Waiting c # ys \<Longrightarrow> tm_stopCh (tw_model s) \<Longrightarrow>
    term_step env Stop_Received s (s\<lparr>tw_waiting := xs @ Holding (Stream_Done (Some Turn_Canceled)) # ys,
      tw_model := (tw_model s)\<lparr>tm_stopCh := False\<rparr>\<rparr>)"
| delivered: "\<not> tw_ended s \<Longrightarrow> tw_waiting s = xs @ Holding x # ys \<Longrightarrow>
    term_step env Delivered s (updated (Update env (Stream_Msg x) (tw_model s, tw_outside s)) (s\<lparr>tw_waiting := xs @ ys\<rparr>))"
| wrote: "c \<in> tw_busy s \<Longrightarrow> length (tw_queue s c) < 512 \<Longrightarrow> \<forall>e. x \<noteq> Stream_Done e \<Longrightarrow>
    term_step env (Wrote c x) s (put c x s)"
| returned: "c \<in> tw_busy s \<Longrightarrow> length (tw_queue s c) < 512 \<Longrightarrow>
    term_step env (Returned c e) s (put c (Stream_Done e) (s\<lparr>tw_busy := tw_busy s - {c}\<rparr>))"

text \<open>What a program can come to by steps of a kind.\<close>

inductive term_reach :: "'w term_env \<Rightarrow> (label \<Rightarrow> bool) \<Rightarrow> 'w terminal \<Rightarrow> bool" for env ok where
  reach_start: "term_reach env ok (term_start session w)"
| reach_next: "term_reach env ok s \<Longrightarrow> ok l \<Longrightarrow> term_step env l s s' \<Longrightarrow> term_reach env ok s'"

interpretation terminals: transition_system "term_reach env ok" "\<lambda>s. \<exists>session w. s = term_start session w"
  "\<lambda>s s'. \<exists>l. ok l \<and> term_step env l s s'" for env ok
proof (unfold_locales, goal_cases)
  case (1 P s)
  from 1(1) show ?case by (induction rule: term_reach.induct) (auto intro: 1(2,3))
next
  case (2 s s')
  then show ?case by (blast intro: reach_next)
qed

section \<open>An executable schedule\<close>

text \<open>The step of a label; the number picks the waiting command.\<close>

definition exec_step :: "'w term_env \<Rightarrow> label \<times> nat \<Rightarrow> 'w terminal \<Rightarrow> 'w terminal option" where
  "exec_step env li s = (case li of (l, i) \<Rightarrow> (case l of
       User msg \<Rightarrow> (if tw_ended s \<or> (case msg of Stream_Msg _ \<Rightarrow> True | _ \<Rightarrow> False) then None
         else Some (updated (Update env msg (tw_model s, tw_outside s)) s))
     | Received \<Rightarrow> (if i < length (tw_waiting s) then (case tw_waiting s ! i of
           Waiting (Some c) \<Rightarrow> (case tw_queue s c of [] \<Rightarrow> None
             | x # q \<Rightarrow> Some (s\<lparr>tw_waiting := (tw_waiting s)[i := Holding x], tw_queue := (tw_queue s)(c := q)\<rparr>))
         | _ \<Rightarrow> None) else None)
     | Stop_Received \<Rightarrow> (if i < length (tw_waiting s) \<and> tm_stopCh (tw_model s) then (case tw_waiting s ! i of
           Waiting c \<Rightarrow> Some (s\<lparr>tw_waiting := (tw_waiting s)[i := Holding (Stream_Done (Some Turn_Canceled))],
             tw_model := (tw_model s)\<lparr>tm_stopCh := False\<rparr>\<rparr>)
         | _ \<Rightarrow> None) else None)
     | Delivered \<Rightarrow> (if i < length (tw_waiting s) \<and> \<not> tw_ended s then (case tw_waiting s ! i of
           Holding x \<Rightarrow> Some (updated (Update env (Stream_Msg x) (tw_model s, tw_outside s))
             (s\<lparr>tw_waiting := take i (tw_waiting s) @ drop (Suc i) (tw_waiting s)\<rparr>))
         | _ \<Rightarrow> None) else None)
     | Wrote c x \<Rightarrow> (if c \<in> tw_busy s \<and> length (tw_queue s c) < 512 \<and> (case x of Stream_Done _ \<Rightarrow> False | _ \<Rightarrow> True)
         then Some (put c x s) else None)
     | Returned c e \<Rightarrow> (if c \<in> tw_busy s \<and> length (tw_queue s c) < 512
         then Some (put c (Stream_Done e) (s\<lparr>tw_busy := tw_busy s - {c}\<rparr>)) else None)))"

fun exec_steps :: "'w term_env \<Rightarrow> (label \<times> nat) list \<Rightarrow> 'w terminal \<Rightarrow> 'w terminal option" where
  "exec_steps env [] s = Some s"
| "exec_steps env (l # ls) s = (case exec_step env l s of None \<Rightarrow> None | Some s' \<Rightarrow> exec_steps env ls s')"

lemma exec_step_sound:
  assumes "exec_step env (l, i) s = Some s'"
  shows "term_step env l s s'"
proof (cases l)
  case Received
  with assms obtain c x q where c: "i < length (tw_waiting s)" "tw_waiting s ! i = Waiting (Some c)" "tw_queue s c = x # q"
    "s' = s\<lparr>tw_waiting := (tw_waiting s)[i := Holding x], tw_queue := (tw_queue s)(c := q)\<rparr>"
    by (auto simp: exec_step_def split: if_splits waiter.splits option.splits list.splits)
  have "tw_waiting s = take i (tw_waiting s) @ Waiting (Some c) # drop (Suc i) (tw_waiting s)"
    using id_take_nth_drop [OF c(1)] unfolding c(2) .
  from received [OF this c(3), of env] Received show ?thesis unfolding c(4) upd_conv_take_nth_drop [OF c(1)] by simp
next
  case Stop_Received
  with assms obtain c where c: "i < length (tw_waiting s)" "tw_waiting s ! i = Waiting c" "tm_stopCh (tw_model s)"
    "s' = s\<lparr>tw_waiting := (tw_waiting s)[i := Holding (Stream_Done (Some Turn_Canceled))],
       tw_model := (tw_model s)\<lparr>tm_stopCh := False\<rparr>\<rparr>"
    by (auto simp: exec_step_def split: if_splits waiter.splits)
  have "tw_waiting s = take i (tw_waiting s) @ Waiting c # drop (Suc i) (tw_waiting s)"
    using id_take_nth_drop [OF c(1)] unfolding c(2) .
  from stop_received [OF this c(3), of env] Stop_Received show ?thesis unfolding c(4) upd_conv_take_nth_drop [OF c(1)] by simp
next
  case Delivered
  with assms obtain x where c: "i < length (tw_waiting s)" "tw_waiting s ! i = Holding x" "\<not> tw_ended s"
    "s' = updated (Update env (Stream_Msg x) (tw_model s, tw_outside s))
       (s\<lparr>tw_waiting := take i (tw_waiting s) @ drop (Suc i) (tw_waiting s)\<rparr>)"
    by (auto simp: exec_step_def split: if_splits waiter.splits)
  have "tw_waiting s = take i (tw_waiting s) @ Holding x # drop (Suc i) (tw_waiting s)"
    using id_take_nth_drop [OF c(1)] unfolding c(2) .
  from delivered [OF c(3) this, of env] Delivered show ?thesis by (simp add: c(4))
qed (use assms in \<open>auto simp: exec_step_def split: if_splits term_msg.splits stream_msg.splits intro: term_step.intros\<close>)

lemma exec_steps_reach:
  "term_reach env ok s \<Longrightarrow> \<forall>l \<in> set ls. ok (fst l) \<Longrightarrow> exec_steps env ls s = Some s' \<Longrightarrow> term_reach env ok s'"
proof (induction ls arbitrary: s)
  case (Cons l ls)
  obtain k i where l: "l = (k, i)" by fastforce
  obtain s1 where s1: "exec_step env (k, i) s = Some s1" "exec_steps env ls s1 = Some s'"
    using Cons.prems(3) l by (auto split: option.splits)
  have "term_reach env ok s1" by (rule reach_next [OF Cons.prems(1) _ exec_step_sound [OF s1(1)]]) (use Cons.prems(2) l in auto)
  with Cons s1(2) show ?case by simp
qed simp

section \<open>What a turn should show\<close>

definition texts :: "stream_msg list \<Rightarrow> string" where
  "texts xs = concat (map (\<lambda>x. case x of Stream_Text t \<Rightarrow> t | _ \<Rightarrow> []) xs)"

text \<open>The sections of a sequence of events, all collapsed.\<close>

definition collapse :: "toolSection \<Rightarrow> toolSection" where
  "collapse t = t\<lparr>ts_expanded := False\<rparr>"

definition sections :: "stream_msg list \<Rightarrow> toolSection list" where
  "sections xs = tm_streamTools (fold (\<lambda>x m. case x of Stream_Event e \<Rightarrow> stream_tool e m | _ \<Rightarrow> m) xs (newModel []))"

definition shows_turn :: "stream_msg list \<Rightarrow> convTurn \<Rightarrow> bool" where
  "shows_turn xs t \<longleftrightarrow> cv_assistant t = texts xs \<and> map collapse (cv_tools t) = map collapse (sections xs)"

text \<open>A turn that is over: the handler's messages up to its result, and the turn shows them.\<close>

definition turn_over :: "stream_msg list \<Rightarrow> string \<Rightarrow> convTurn \<Rightarrow> bool" where
  "turn_over written txt t \<longleftrightarrow> cv_user t = txt \<and> (\<exists>xs e. written = xs @ [Stream_Done e] \<and> shows_turn xs t)"

definition real_turns :: "term_model \<Rightarrow> convTurn list" where
  "real_turns m = filter (\<lambda>t. \<not> cv_isMeta t) (tm_turns m)"

text \<open>Steps without a stop: escape is not pressed and no handler says it was cancelled.\<close>

definition calm :: "label \<Rightarrow> bool" where
  "calm l \<longleftrightarrow> (case l of User (Key_Press k) \<Rightarrow> ky_string k \<noteq> ''esc'' | Returned c e \<Rightarrow> e \<noteq> Some Turn_Canceled | _ \<Rightarrow> True)"

end
