(* ===== verification/Terminal_Props.thy ===== *)
theory Terminal_Props
  imports Terminal_Run
begin

text \<open>
  Properties of the interactive terminal: what a finished turn shows, what stopping a response loses, and
  how a stopped response ends a later one.
\<close>

section \<open>Fields the view does not change\<close>

named_theorems view_simps

lemma refresh_view_fields [view_simps, simp]:
  "tm_state (refreshViewport env m) = tm_state m" "tm_streamCh (refreshViewport env m) = tm_streamCh m"
  "tm_cancelTurn (refreshViewport env m) = tm_cancelTurn m" "tm_stopCh (refreshViewport env m) = tm_stopCh m"
  "tm_turnCount (refreshViewport env m) = tm_turnCount m" "tm_turns (refreshViewport env m) = tm_turns m"
  "tm_streamBuf (refreshViewport env m) = tm_streamBuf m" "tm_streamTools (refreshViewport env m) = tm_streamTools m"
  "tm_toolCounter (refreshViewport env m) = tm_toolCounter m" "tm_sessionID (refreshViewport env m) = tm_sessionID m"
  "tm_cancelled (refreshViewport env m) = tm_cancelled m" "tm_input (refreshViewport env m) = tm_input m"
  by (simp_all add: refreshViewport_def split: option.split)

lemma rebuild_view_fields [view_simps, simp]:
  "tm_state (rebuildPastContent env m) = tm_state m" "tm_streamCh (rebuildPastContent env m) = tm_streamCh m"
  "tm_cancelTurn (rebuildPastContent env m) = tm_cancelTurn m" "tm_stopCh (rebuildPastContent env m) = tm_stopCh m"
  "tm_turnCount (rebuildPastContent env m) = tm_turnCount m" "tm_turns (rebuildPastContent env m) = tm_turns m"
  "tm_streamBuf (rebuildPastContent env m) = tm_streamBuf m" "tm_streamTools (rebuildPastContent env m) = tm_streamTools m"
  "tm_toolCounter (rebuildPastContent env m) = tm_toolCounter m" "tm_sessionID (rebuildPastContent env m) = tm_sessionID m"
  "tm_cancelled (rebuildPastContent env m) = tm_cancelled m" "tm_input (rebuildPastContent env m) = tm_input m"
  by (simp_all add: rebuildPastContent_def)

section \<open>Sections of tools\<close>

lemma collapse_toggle [simp]: "collapse (toggle t) = collapse t"
  by (simp add: collapse_def toggle_def)

lemma collapse_fields:
  "collapse t = collapse u \<longleftrightarrow> ts_idx t = ts_idx u \<and> ts_id t = ts_id u \<and> ts_name t = ts_name u \<and> ts_input t = ts_input u \<and>
     ts_output t = ts_output u \<and> ts_complete t = ts_complete u"
  by (cases t; cases u) (simp add: collapse_def)

lemma update_first_collapse:
  assumes "map collapse xs = map collapse ys"
    and "\<And>t u. collapse t = collapse u \<Longrightarrow> P t = P u \<and> collapse (f t) = collapse (f u)"
  shows "map_option (map collapse) (update_first P f xs) = map_option (map collapse) (update_first P f ys)"
  using assms(1)
proof (induction xs arbitrary: ys)
  case (Cons x xs)
  then obtain y zs where ys: "ys = y # zs" "collapse x = collapse y" "map collapse xs = map collapse zs" by (cases ys) auto
  have step: "map_option (map collapse) (map_option (\<lambda>ts. z # ts) o') = map_option (\<lambda>ts. collapse z # ts) (map_option (map collapse) o')"
    for z o' by (cases o') simp_all
  show ?case using Cons.IH [OF ys(3)] assms(2) [OF ys(2)] ys(2,3) by (simp add: ys(1) step)
qed simp

lemma update_last_collapse:
  assumes "map collapse xs = map collapse ys"
    and "\<And>t u. collapse t = collapse u \<Longrightarrow> P t = P u \<and> collapse (f t) = collapse (f u)"
  shows "map_option (map collapse) (update_last P f xs) = map_option (map collapse) (update_last P f ys)"
proof -
  have "map collapse (rev xs) = map collapse (rev ys)" using assms(1) by (simp add: rev_map [symmetric])
  from update_first_collapse [OF this assms(2)] have
    "map_option rev (map_option (map collapse) (update_first P f (rev xs))) =
     map_option rev (map_option (map collapse) (update_first P f (rev ys)))" by simp
  then show ?thesis by (simp add: update_last_def option.map_comp comp_def rev_map)
qed

text \<open>What has been streamed so far, the model's fields agreeing with it up to expanded sections.\<close>

definition streamed :: "stream_msg list \<Rightarrow> term_model" where
  "streamed xs = fold (\<lambda>x m. case x of Stream_Event e \<Rightarrow> stream_tool e m | _ \<Rightarrow> m) xs (newModel [])"

definition agree :: "term_model \<Rightarrow> term_model \<Rightarrow> bool" where
  "agree m n \<longleftrightarrow> tm_toolCounter m = tm_toolCounter n \<and> map collapse (tm_streamTools m) = map collapse (tm_streamTools n)"

lemma agree_tool:
  assumes "agree m n"
  shows "agree (stream_tool e m) (stream_tool e n)"
proof -
  have "map_option (map collapse) (update_last (open_section e) (new_input e) (tm_streamTools m)) =
      map_option (map collapse) (update_last (open_section e) (new_input e) (tm_streamTools n))"
    and "map_option (map collapse) (update_last (open_section e)
        (\<lambda>t. (new_input e t)\<lparr>ts_output := ev_output e, ts_complete := True, ts_expanded := False\<rparr>) (tm_streamTools m)) =
      map_option (map collapse) (update_last (open_section e)
        (\<lambda>t. (new_input e t)\<lparr>ts_output := ev_output e, ts_complete := True, ts_expanded := False\<rparr>) (tm_streamTools n))"
    using assms by (auto intro!: update_last_collapse simp: agree_def collapse_fields open_section_def sameToolInvocation_def
        new_input_def)
  with assms show ?thesis
    by (auto simp: agree_def stream_tool_def split: eventKind.split option.splits)
qed

lemma sections_streamed: "sections xs = tm_streamTools (streamed xs)"
  by (simp add: sections_def streamed_def)

lemma texts_append [simp]: "texts (xs @ ys) = texts xs @ texts ys" "texts [] = []"
  by (simp_all add: texts_def)

lemma stream_tool_fields [simp]:
  "tm_state (stream_tool e m) = tm_state m" "tm_streamCh (stream_tool e m) = tm_streamCh m"
  "tm_cancelTurn (stream_tool e m) = tm_cancelTurn m" "tm_stopCh (stream_tool e m) = tm_stopCh m"
  "tm_turnCount (stream_tool e m) = tm_turnCount m" "tm_turns (stream_tool e m) = tm_turns m"
  "tm_streamBuf (stream_tool e m) = tm_streamBuf m"
  by (simp_all add: stream_tool_def split: eventKind.split option.split)

section \<open>Updates in each state\<close>

definition keeps :: "term_model \<Rightarrow> term_model \<Rightarrow> bool" where
  "keeps m n \<longleftrightarrow> tm_state n = tm_state m \<and> tm_streamCh n = tm_streamCh m \<and> tm_cancelTurn n = tm_cancelTurn m \<and>
     tm_stopCh n = tm_stopCh m \<and> tm_turnCount n = tm_turnCount m"

definition same_turn :: "convTurn \<Rightarrow> convTurn \<Rightarrow> bool" where
  "same_turn t u \<longleftrightarrow> cv_user t = cv_user u \<and> cv_assistant t = cv_assistant u \<and>
     map collapse (cv_tools t) = map collapse (cv_tools u)"

definition keeps_turns :: "term_model \<Rightarrow> term_model \<Rightarrow> bool" where
  "keeps_turns m n \<longleftrightarrow> keeps m n \<and> (real_turns n = [] \<or> list_all2 same_turn (real_turns m) (real_turns n))"

lemma same_turn_refl [simp]: "same_turn t t" "list_all2 same_turn ts ts"
  by (simp_all add: same_turn_def list_all2_refl)

lemma keeps_turns_refl [simp]: "keeps_turns m m"
  by (simp add: keeps_turns_def keeps_def)

lemma keeps_turns_view [simp]:
  "keeps_turns m (refreshViewport env n) = keeps_turns m n" "keeps_turns m (rebuildPastContent env n) = keeps_turns m n"
  "keeps_turns m (n\<lparr>tm_input := i\<rparr>) = keeps_turns m n"
  "keeps_turns (m\<lparr>tm_input := i\<rparr>) n = keeps_turns m n"
  by (simp_all add: keeps_turns_def keeps_def real_turns_def)

lemma keeps_turns_meta [simp]:
  "keeps_turns m (addMetaRaw s n) = keeps_turns m n" "keeps_turns m (addMeta env s n) = keeps_turns m n"
  by (simp_all add: keeps_turns_def keeps_def real_turns_def addMeta_def addMetaRaw_def meta_turn_def)

lemma keeps_turns_reset: "keeps_turns m (resetConversationView m)" "keeps_turns m ((resetConversationView m)\<lparr>tm_sessionID := s\<rparr>)"
  by (simp_all add: keeps_turns_def keeps_def real_turns_def resetConversationView_def reset_stream_def)

lemma toggle_first_same:
  "toggle_first i ts = Some us \<Longrightarrow>
     list_all2 same_turn (filter (\<lambda>t. \<not> cv_isMeta t) ts) (filter (\<lambda>t. \<not> cv_isMeta t) us)"
proof (induction ts arbitrary: us)
  case (Cons t ts)
  show ?case
  proof (cases "cv_isMeta t")
    case True
    with Cons show ?thesis by auto
  next
    case False
    have "map collapse ((cv_tools t)[i := toggle (cv_tools t ! i)]) = map collapse (cv_tools t)"
      if "i < length (cv_tools t)" using that by (auto simp: map_update list_eq_iff_nth_eq nth_list_update)
    with Cons.prems False have "i < length (cv_tools t)"
      "us = t\<lparr>cv_tools := (cv_tools t)[i := toggle (cv_tools t ! i)]\<rparr> # ts" by (auto split: if_splits)
    moreover from this(1) have "same_turn t (t\<lparr>cv_tools := (cv_tools t)[i := toggle (cv_tools t ! i)]\<rparr>)"
      using \<open>_ \<Longrightarrow> _ = map collapse (cv_tools t)\<close> by (simp add: same_turn_def)
    ultimately show ?thesis using False by simp
  qed
qed simp

lemma toggle_keeps:
  assumes "toggleLastTool i m = Some n"
  shows "keeps_turns m n"
proof -
  obtain us where us: "toggle_first i (rev (tm_turns m)) = Some us" "n = m\<lparr>tm_turns := rev us\<rparr>"
    using assms by (auto simp: toggleLastTool_def)
  from toggle_first_same [OF us(1)] have "list_all2 same_turn (rev (real_turns m)) (rev (real_turns n))"
    by (simp add: real_turns_def rev_filter us(2))
  then have "list_all2 same_turn (real_turns m) (real_turns n)" by simp
  then show ?thesis by (simp add: keeps_turns_def keeps_def us(2))
qed

text \<open>A slash command leaves the turns, the meta turns apart, or clears them.\<close>

lemma cancel_none: "tm_cancelTurn m = None \<Longrightarrow> cancel_turn m = m"
  by (simp add: cancel_turn_def)

lemma callback_keeps:
  assumes "may_call (Some (slash_environment env m0)) word f" and "tm_cancelTurn m = None"
  shows "keeps_turns m (fst (snd (f (m, w))))"
  using assms(1)
  by cases (auto simp: slash_environment_def stop_function_def then_change_def cancel_none [OF assms(2)] keeps_turns_reset
      split: option.split prod.split)

lemma slash_keeps:
  assumes "te_commands env = NewProcessor" and "tm_cancelTurn m = None"
    and "handleSlash env line (m, w) = ((n, effs), v)"
  shows "keeps_turns m n \<and> (effs = [] \<or> effs = [Quit_Program])"
proof -
  obtain r k u where r: "Process (te_commands env) line (Some (slash_environment env m)) (m, w) = (r, (k, u))"
    by (metis prod_cases3)
  then have k: "keeps_turns m k"
    using Process_effect [of line "Some (slash_environment env m)" "(m, w)"] callback_keeps [OF _ assms(2)]
    unfolding assms(1) by (metis fst_conv keeps_turns_refl snd_conv)
  let ?redraw = "\<lambda>m. (refreshViewport env (rebuildPastContent env m), [])"
  show ?thesis
  proof (cases r)
    case None
    with r assms(3) have "(n, effs) = ?redraw k" by (simp add: handleSlash_def)
    with k show ?thesis by simp
  next
    case (Some x)
    show ?thesis
    proof (cases x)
      case (Inl e)
      with r Some assms(3) have "(n, effs) = ?redraw (addMetaRaw (te_style env Err_Style (''Command error: '' @ e)) k)"
        by (simp add: handleSlash_def)
      with k show ?thesis by simp
    next
      case (Inr res)
      define k1 where "k1 = (if cr_isError res then addMetaRaw (te_style env Err_Style (cr_message res)) k
        else addMeta env (cr_message res) k)"
      have "(n, effs) = (if cr_quit res then quit k1 else ?redraw k1)"
        using r Some Inr assms(3) by (simp add: handleSlash_def Let_def k1_def split: if_splits)
      moreover have "keeps_turns m k1" using k by (simp add: k1_def)
      then have "keeps_turns m (fst (quit k1))" by (simp add: quit_def keeps_turns_def keeps_def real_turns_def)
      ultimately show ?thesis using \<open>keeps_turns m k1\<close> by (simp add: quit_def split: if_splits)
    qed
  qed
qed

lemma input_key_cases:
  assumes "te_commands env = NewProcessor" and "tm_cancelTurn m = None" and "input_key env k (m, w) = ((n, effs), v)"
  shows "keeps_turns m n \<and> (effs = [] \<or> effs = [Quit_Program]) \<or> (\<exists>txt. (n, effs) = startTurn env txt (m\<lparr>tm_input := []\<rparr>))"
proof -
  let ?val = "TrimSpace (tm_input m)"
  consider (edit) "\<not> ky_enter k" | (blank) "ky_enter k" "?val = []" | (slash) "ky_enter k" "?val \<noteq> []" "HasPrefix ?val ''/''"
    | (turn) "ky_enter k" "?val \<noteq> []" "\<not> HasPrefix ?val ''/''" by blast
  then show ?thesis
  proof cases
    case slash
    then have "handleSlash env ?val (m\<lparr>tm_input := []\<rparr>, w) = ((n, effs), v)" using assms(3) by (simp add: input_key_def Let_def)
    from slash_keeps [OF assms(1) _ this] assms(2) show ?thesis by simp
  next
    case turn
    then have "(n, effs) = startTurn env ?val (m\<lparr>tm_input := []\<rparr>)" using assms(3) by (simp add: input_key_def Let_def)
    then show ?thesis by blast
  qed (use assms(3) in \<open>auto simp: input_key_def\<close>)
qed

lemma quit_keeps: "keeps_turns m (fst (quit m)) \<and> snd (quit m) = [Quit_Program]"
  by (simp add: quit_def keeps_turns_def keeps_def real_turns_def)

lemma resize_keeps: "keeps_turns m (resize env x y m)"
  by (simp add: resize_def Let_def) (simp add: keeps_turns_def keeps_def real_turns_def)

lemma input_update:
  assumes "te_commands env = NewProcessor" and "tm_cancelTurn m = None" and "tm_state m = StateInput"
    and "\<forall>x. msg \<noteq> Stream_Msg x" and "Update env msg (m, w) = ((n, effs), v)"
  shows "keeps_turns m n \<and> (effs = [] \<or> effs = [Quit_Program]) \<or> (\<exists>txt. (n, effs) = startTurn env txt (m\<lparr>tm_input := []\<rparr>))"
proof (cases msg)
  case (Key_Press k)
  with assms(5) have u: "handleKey env k (m, w) = ((n, effs), v)" by (simp add: Update_def)
  show ?thesis
  proof (cases "input_key env k (m, w) = ((n, effs), v)")
    case True
    then show ?thesis by (rule input_key_cases [OF assms(1,2)])
  next
    case False
    with u assms(3) show ?thesis
      using toggle_keeps quit_keeps [of m]
      by (auto simp: handleKey_def split: if_splits option.splits)
  qed
qed (use assms in \<open>auto simp: Update_def resize_keeps\<close>)

text \<open>While a turn runs, a key other than escape at most expands or collapses a section.\<close>

definition keeps_stream :: "term_model \<Rightarrow> term_model \<Rightarrow> bool" where
  "keeps_stream m n \<longleftrightarrow> keeps m n \<and> tm_turns n = tm_turns m \<and> tm_streamBuf n = tm_streamBuf m \<and> agree n m"

lemma keeps_stream_simps [simp]:
  "keeps_stream m m" "keeps_stream m (refreshViewport env n) = keeps_stream m n"
  "keeps_stream m (rebuildPastContent env n) = keeps_stream m n" "keeps_stream m (fst (quit m))"
  by (simp_all add: keeps_stream_def keeps_def agree_def quit_def)

lemma running_update:
  assumes "tm_state m = StateRunning" and "\<forall>x. msg \<noteq> Stream_Msg x" and "\<forall>k. msg = Key_Press k \<longrightarrow> ky_string k \<noteq> ''esc''"
    and "Update env msg (m, w) = ((n, effs), v)"
  shows "keeps_stream m n \<and> (effs = [] \<or> effs = [Quit_Program])"
proof (cases msg)
  case (Window_Size x y)
  have "keeps_stream m (resize env x y m)" by (simp add: resize_def Let_def) (simp add: keeps_stream_def keeps_def agree_def)
  with Window_Size assms(4) show ?thesis by (auto simp: Update_def)
next
  case (Key_Press k)
  with assms(4) have u: "handleKey env k (m, w) = ((n, effs), v)" by (simp add: Update_def)
  have esc: "running_key env k (m, w) = ((m, []), w)" using assms(3) Key_Press by (simp add: running_key_def)
  have t: "keeps_stream m (m\<lparr>tm_streamTools := (tm_streamTools m)[i := toggle (tm_streamTools m ! i)]\<rparr>)"
    if "i < length (tm_streamTools m)" for i
    using that by (auto simp: keeps_stream_def keeps_def agree_def list_eq_iff_nth_eq nth_list_update)
  have q: "quit m = (n, effs) \<Longrightarrow> keeps_stream m n \<and> effs = [Quit_Program]"
    using keeps_stream_simps(4) [of m] quit_keeps [of m] by (metis fst_conv snd_conv)
  show ?thesis using u assms(1) t esc
    by (auto simp: handleKey_def dest: q split: if_splits option.splits)
qed (use assms in \<open>auto simp: Update_def split: if_splits\<close>)

section \<open>The invariant without a stop\<close>

definition no_done :: "stream_msg list \<Rightarrow> bool" where
  "no_done xs \<longleftrightarrow> (\<forall>e. Stream_Done e \<notin> set xs)"

definition calm_end :: "stream_msg list \<Rightarrow> bool" where
  "calm_end ys \<longleftrightarrow> (\<exists>xs e. ys = xs @ [Stream_Done e] \<and> no_done xs \<and> e \<noteq> Some Turn_Canceled)"

text \<open>The turns that are over belong to the last channels up to \<open>k\<close>.\<close>

definition over :: "'w terminal \<Rightarrow> nat \<Rightarrow> convTurn list \<Rightarrow> bool" where
  "over s k ts \<longleftrightarrow> length ts \<le> k \<and>
     (\<forall>j < length ts. let c = k - length ts + j + 1 in turn_over (tw_written s c) (snd (tw_asked s c)) (ts ! j))"

text \<open>The command of the running turn waits, or holds the next message; what was delivered is in the model.\<close>

definition in_turn :: "'w terminal \<Rightarrow> nat \<Rightarrow> stream_msg list \<Rightarrow> bool" where
  "in_turn s c ds \<longleftrightarrow> no_done ds \<and> tm_streamBuf (tw_model s) = texts ds \<and> agree (tw_model s) (streamed ds) \<and>
     (if c \<in> tw_busy s then no_done (tw_written s c) else calm_end (tw_written s c)) \<and>
     (tw_waiting s = [Waiting (Some c)] \<and> tw_written s c = ds @ tw_queue s c \<or>
      (\<exists>x. tw_waiting s = [Holding x] \<and> tw_written s c = ds @ x # tw_queue s c))"

definition running_inv :: "'w terminal \<Rightarrow> bool" where
  "running_inv s \<longleftrightarrow> (let m = tw_model s; c = tm_turnCount m in tm_streamCh m = Some c \<and> tm_cancelTurn m = Some c \<and> 0 < c \<and> tw_busy s \<subseteq> {c} \<and>
     (\<exists>ds. in_turn s c ds) \<and>
     (\<exists>ts. tm_turns m = ts @ [user_turn (snd (tw_asked s c))] \<and>
        over s (c - 1) (filter (\<lambda>t. \<not> cv_isMeta t) ts)))"

definition input_inv :: "'w terminal \<Rightarrow> bool" where
  "input_inv s \<longleftrightarrow> (let m = tw_model s in tw_waiting s = [] \<and> tm_streamCh m = None \<and> tm_cancelTurn m = None \<and>
     tw_busy s = {} \<and> over s (tm_turnCount m) (real_turns m))"

definition calm_inv :: "'w terminal \<Rightarrow> bool" where
  "calm_inv s \<longleftrightarrow> \<not> tm_stopCh (tw_model s) \<and> (\<forall>c > tm_turnCount (tw_model s). tw_written s c = []) \<and>
     (if tm_state (tw_model s) = StateRunning then running_inv s else input_inv s)"

lemma over_same:
  assumes "over s k ts" and "us = [] \<or> list_all2 same_turn ts us"
    and "\<And>c. c \<le> k \<Longrightarrow> tw_written s' c = tw_written s c \<and> tw_asked s' c = tw_asked s c"
  shows "over s' k us"
proof (cases "us = []")
  case False
  then have l: "list_all2 same_turn ts us" using assms(2) by simp
  then have len: "length us = length ts" by (simp add: list_all2_lengthD)
  have trans: "turn_over w x u" if "turn_over w x t" "same_turn t u" for w x t u
    using that by (auto simp: turn_over_def same_turn_def shows_turn_def)
  have "turn_over (tw_written s' (k - length us + j + 1)) (snd (tw_asked s' (k - length us + j + 1))) (us ! j)"
    if j: "j < length us" for j
  proof -
    let ?c = "k - length ts + j + 1"
    have "length ts \<le> k" using assms(1) by (simp add: over_def)
    then have "?c \<le> k" using j len by simp
    with assms(3) have "tw_written s' ?c = tw_written s ?c" "tw_asked s' ?c = tw_asked s ?c" by blast+
    moreover from assms(1) have "\<forall>j < length ts. turn_over (tw_written s (k - length ts + j + 1))
        (snd (tw_asked s (k - length ts + j + 1))) (ts ! j)" unfolding over_def Let_def by blast
    then have "turn_over (tw_written s ?c) (snd (tw_asked s ?c)) (ts ! j)" using j len by (simp only:)
    moreover have "same_turn (ts ! j) (us ! j)" using l j by (simp add: list_all2_conv_all_nth)
    ultimately show ?thesis using trans len by simp
  qed
  then show ?thesis using assms(1) len by (simp add: over_def Let_def)
qed (simp add: over_def)

lemma appstate_cases: "tm_state m \<noteq> StateRunning \<longleftrightarrow> tm_state m = StateInput"
  by (cases "tm_state m") simp_all

lemma updated_simps:
  "updated ((n, []), v) s = s\<lparr>tw_model := n, tw_outside := v\<rparr>"
  "updated ((n, [Quit_Program]), v) s = s\<lparr>tw_model := n, tw_outside := v, tw_ended := True\<rparr>"
  "updated ((n, [Wait c]), v) s = s\<lparr>tw_model := n, tw_outside := v, tw_waiting := tw_waiting s @ [Waiting c]\<rparr>"
  by (simp_all add: updated_def perform_def)

text \<open>A change of the model that keeps what the invariant reads.\<close>

lemma calm_input_keeps:
  assumes "calm_inv s" and "tm_state (tw_model s) = StateInput" and "keeps_turns (tw_model s) n"
  shows "calm_inv (s\<lparr>tw_model := n, tw_outside := v, tw_ended := e\<rparr>)"
  using assms over_same [of s "tm_turnCount (tw_model s)" "real_turns (tw_model s)" "real_turns n"
      "s\<lparr>tw_model := n, tw_outside := v, tw_ended := e\<rparr>"]
  by (auto simp: calm_inv_def input_inv_def keeps_turns_def keeps_def Let_def)

lemma calm_running_keeps:
  assumes "calm_inv s" and "tm_state (tw_model s) = StateRunning" and "keeps_stream (tw_model s) n"
  shows "calm_inv (s\<lparr>tw_model := n, tw_outside := v, tw_ended := e\<rparr>)"
proof -
  let ?s = "s\<lparr>tw_model := n, tw_outside := v, tw_ended := e\<rparr>"
  have t: "in_turn ?s c ds" if "in_turn s c ds" for c ds
    using that assms(3) unfolding in_turn_def keeps_stream_def agree_def by simp
  have "over ?s = over s" by (simp add: over_def fun_eq_iff)
  with assms t show ?thesis unfolding calm_inv_def running_inv_def keeps_stream_def keeps_def Let_def by auto
qed

lemma over_written: "(\<And>c. c \<le> k \<Longrightarrow> tw_written s' c = tw_written s c \<and> tw_asked s' c = tw_asked s c) \<Longrightarrow> over s k ts \<Longrightarrow> over s' k ts"
  using over_same [of s k ts ts s'] by simp

text \<open>A new turn.\<close>

lemma calm_startTurn:
  assumes "calm_inv s" and "tm_state (tw_model s) = StateInput"
  shows "calm_inv (updated (startTurn env txt ((tw_model s)\<lparr>tm_input := []\<rparr>), v) s)"
proof -
  let ?m = "tw_model s" and ?c = "tm_turnCount (tw_model s) + 1"
  let ?s = "updated (startTurn env txt (?m\<lparr>tm_input := []\<rparr>), v) s"
  have i: "input_inv s" "tw_written s ?c = []" "\<not> tm_stopCh ?m" "\<forall>c > tm_turnCount ?m. tw_written s c = []"
    using assms by (simp_all add: calm_inv_def)
  let ?t = "user_turn txt"
  have m: "tm_state (tw_model ?s) = StateRunning" "tm_streamCh (tw_model ?s) = Some ?c" "tm_cancelTurn (tw_model ?s) = Some ?c" "tm_turnCount (tw_model ?s) = ?c"
    "tm_stopCh (tw_model ?s) = tm_stopCh ?m" "tm_turns (tw_model ?s) = tm_turns ?m @ [?t]"
    "tm_streamBuf (tw_model ?s) = []" "tm_streamTools (tw_model ?s) = []" "tm_toolCounter (tw_model ?s) = 0"
    "tw_busy ?s = {?c}" "tw_queue ?s ?c = []" "tw_written ?s = tw_written s" "tw_waiting ?s = [Waiting (Some ?c)]"
    "tw_asked ?s = (tw_asked s)(?c := (tm_sessionID ?m, txt))"
    using i(1) by (simp_all add: updated_def startTurn_def perform_def reset_stream_def Let_def input_inv_def)
  have "agree (tw_model ?s) (streamed [])" using m by (simp add: agree_def streamed_def newModel_def)
  then have "in_turn ?s ?c []" using m i(2) by (simp add: in_turn_def no_done_def)
  moreover have "over ?s (?c - 1) (real_turns ?m)"
    by (rule over_written [of _ _ s]) (use i(1) m in \<open>auto simp: input_inv_def Let_def\<close>)
  ultimately have "running_inv ?s" using m by (auto simp: running_inv_def Let_def real_turns_def)
  then show ?thesis using m i by (simp add: calm_inv_def)
qed

text \<open>The next message of the running turn.\<close>

lemma calm_received:
  assumes "calm_inv s" and "tw_waiting s = xs @ Waiting (Some c) # ys" and "tw_queue s c = x # q"
  shows "calm_inv (s\<lparr>tw_waiting := xs @ Holding x # ys, tw_queue := (tw_queue s)(c := q)\<rparr>)"
proof -
  let ?s = "s\<lparr>tw_waiting := xs @ Holding x # ys, tw_queue := (tw_queue s)(c := q)\<rparr>" and ?k = "tm_turnCount (tw_model s)"
  have run: "tm_state (tw_model s) = StateRunning" using assms(1,2)
    by (auto simp: calm_inv_def input_inv_def Let_def split: if_splits)
  have t: "in_turn ?s ?k ds" if "in_turn s ?k ds" for ds
  proof -
    have "xs = []" "ys = []" "c = ?k"
      using that assms(2) unfolding in_turn_def by (cases xs; auto)+
    with that assms(2,3) show ?thesis unfolding in_turn_def by (auto split: if_splits)
  qed
  have "over ?s = over s" by (simp add: over_def fun_eq_iff)
  with assms(1) run t show ?thesis unfolding calm_inv_def running_inv_def Let_def by auto
qed

text \<open>What a handler writes.\<close>

lemma calm_wrote:
  assumes "calm_inv s" and "c \<in> tw_busy s" and "\<forall>e. x \<noteq> Stream_Done e \<or> e \<noteq> Some Turn_Canceled"
    and "b = (if \<exists>e. x = Stream_Done e then tw_busy s - {c} else tw_busy s)"
  shows "calm_inv (put c x (s\<lparr>tw_busy := b\<rparr>))"
proof -
  let ?s = "put c x (s\<lparr>tw_busy := b\<rparr>)" and ?k = "tm_turnCount (tw_model s)"
  have run: "tm_state (tw_model s) = StateRunning" and c: "c = ?k" "0 < ?k"
    using assms(1,2) by (auto simp: calm_inv_def input_inv_def running_inv_def Let_def split: if_splits)
  have b: "tw_busy ?s \<subseteq> {?k}" "?k \<in> tw_busy ?s \<longleftrightarrow> \<not> (\<exists>e. x = Stream_Done e)"
    using assms(1,2,4) run c by (auto simp: put_def calm_inv_def running_inv_def Let_def)
  have t: "in_turn ?s ?k ds" if i: "in_turn s ?k ds" for ds
  proof -
    have nd: "no_done (tw_written s ?k)" using i assms(2) c by (simp add: in_turn_def)
    have "if ?k \<in> tw_busy ?s then no_done (tw_written ?s ?k) else calm_end (tw_written ?s ?k)"
      using nd b(2) assms(3) c by (auto simp: put_def no_done_def calm_end_def)
    with i show ?thesis unfolding in_turn_def by (auto simp: put_def c)
  qed
  have o: "over ?s (?k - 1) ts" if "over s (?k - 1) ts" for ts
    by (rule over_written [OF _ that]) (use c in \<open>auto simp: put_def\<close>)
  have m: "tw_model ?s = tw_model s" "tw_asked ?s = tw_asked s" "\<forall>d > ?k. tw_written ?s d = tw_written s d"
    using c by (simp_all add: put_def)
  from assms(1) run have r: "running_inv s" by (simp add: calm_inv_def)
  have "running_inv ?s" using r t o b(1) unfolding running_inv_def Let_def m by blast
  then show ?thesis using assms(1) run m by (simp add: calm_inv_def)
qed

text \<open>A message is delivered: it is shown, or the turn is over.\<close>

lemma streamed_append [simp]: "streamed (xs @ [x]) = (case x of Stream_Event e \<Rightarrow> stream_tool e (streamed xs) | _ \<Rightarrow> streamed xs)"
  unfolding streamed_def by simp

lemma agree_view [simp]:
  "agree (refreshViewport env m) n = agree m n" "agree (m\<lparr>tm_streamBuf := b\<rparr>) n = agree m n"
  by (simp_all add: agree_def)

lemma finish_fields:
  assumes "tm_turns m = ts @ [t]" and "err \<noteq> Some Turn_Canceled"
  shows "tm_state (finishTurn env err m) = StateInput" "tm_streamCh (finishTurn env err m) = None"
    "tm_cancelTurn (finishTurn env err m) = None" "tm_stopCh (finishTurn env err m) = tm_stopCh m"
    "tm_turnCount (finishTurn env err m) = tm_turnCount m"
    "\<exists>r. tm_turns (finishTurn env err m) = ts @ [t\<lparr>cv_tools := tm_streamTools m, cv_assistant := tm_streamBuf m, cv_rendered := r\<rparr>]"
  using assms by (simp_all add: finishTurn_def cancel_turn_def reset_stream_def fill_turn_def Let_def split: option.split) auto

lemma calm_delivered:
  assumes "calm_inv s" and "tw_waiting s = xs @ Holding x # ys"
  shows "calm_inv (updated (Update env (Stream_Msg x) (tw_model s, tw_outside s)) (s\<lparr>tw_waiting := xs @ ys\<rparr>))"
proof -
  let ?m = "tw_model s" and ?c = "tm_turnCount (tw_model s)"
  let ?s = "updated (Update env (Stream_Msg x) (?m, tw_outside s)) (s\<lparr>tw_waiting := xs @ ys\<rparr>)"
  have run: "tm_state ?m = StateRunning" using assms by (auto simp: calm_inv_def input_inv_def Let_def split: if_splits)
  have c: "\<not> tm_stopCh ?m" "\<forall>d > ?c. tw_written s d = []" using assms(1) by (simp_all add: calm_inv_def)
  let ?t = "user_turn (snd (tw_asked s ?c))"
  obtain ds ts where r: "tm_streamCh ?m = Some ?c" "0 < ?c" and cn: "tm_cancelTurn ?m = Some ?c" and r3: "tw_busy s \<subseteq> {?c}" "in_turn s ?c ds"
    and t: "tm_turns ?m = ts @ [?t]" "over s (?c - 1) (filter (\<lambda>t. \<not> cv_isMeta t) ts)"
    using assms(1) run unfolding calm_inv_def running_inv_def Let_def by auto
  note r = r r3
  have u: "\<not> cv_isMeta ?t" "cv_user ?t = snd (tw_asked s ?c)" by (simp_all add: user_turn_def)
  have e: "xs = []" "ys = []" and w: "tw_written s ?c = ds @ x # tw_queue s ?c"
    using r(4) assms(2) unfolding in_turn_def by (cases xs; auto)+
  have over: "over s' (?c - 1) ts'" if "tw_written s' = tw_written s" "tw_asked s' = tw_asked s"
    "ts' = filter (\<lambda>t. \<not> cv_isMeta t) ts" for s' :: "'a terminal" and ts'
    using t(2) that by (simp add: over_def)
  show ?thesis
  proof (cases "\<exists>err. x = Stream_Done err")
    case False
    let ?n = "fst (handleStream env x ?m)"
    have h: "handleStream env x ?m = (?n, [Wait (Some ?c)])" using False r(1) by (cases x) (simp_all add: handleStream_def)
    have n: "tm_state ?n = StateRunning" "tm_streamCh ?n = Some ?c" "tm_cancelTurn ?n = Some ?c" "tm_turnCount ?n = ?c" "tm_stopCh ?n = tm_stopCh ?m"
      "tm_turns ?n = tm_turns ?m" "tm_streamBuf ?n = texts (ds @ [x])"
      using run r(1,4) cn False by (cases x; simp add: handleStream_def in_turn_def texts_def)+
    have "agree ?n (streamed (ds @ [x]))"
      using r(4) False agree_tool by (cases x) (simp_all add: handleStream_def in_turn_def)
    moreover have up: "Update env (Stream_Msg x) (?m, tw_outside s) = ((?n, [Wait (Some ?c)]), tw_outside s)"
      unfolding Update_def prod.case term_msg.case using h by simp
    have s: "?s = s\<lparr>tw_model := ?n, tw_waiting := [Waiting (Some ?c)]\<rparr>" unfolding up updated_simps by (simp add: e)
    moreover have "no_done (ds @ [x])" using r(4) False by (auto simp: in_turn_def no_done_def)
    moreover have "if ?c \<in> tw_busy s then no_done (tw_written s ?c) else calm_end (tw_written s ?c)"
      using r(4) by (simp add: in_turn_def)
    ultimately have "in_turn ?s ?c (ds @ [x])" using w n by (cases "?c \<in> tw_busy s") (simp_all add: in_turn_def)
    then have "running_inv ?s" using s n r(2,3) t over [of ?s] unfolding running_inv_def Let_def by auto
    then show ?thesis using s n c by (simp add: calm_inv_def)
  next
    case True
    then obtain err where err: "x = Stream_Done err" by blast
    have nb: "?c \<notin> tw_busy s" using r(4) w err by (auto simp: in_turn_def no_done_def split: if_splits)
    then obtain zs e' where z: "tw_written s ?c = zs @ [Stream_Done e']" "no_done zs" "e' \<noteq> Some Turn_Canceled"
      using r(4) by (auto simp: in_turn_def calm_end_def)
    have q: "tw_queue s ?c = []"
    proof (rule ccontr)
      assume "tw_queue s ?c \<noteq> []"
      with z(1) w err have "Stream_Done err \<in> set zs" by (metis append_butlast_last_id butlast_append butlast_snoc
            in_set_conv_decomp list.discI butlast.simps(2))
      with z(2) show False by (auto simp: no_done_def)
    qed
    with z(1,3) w err have eq: "zs = ds" "e' = err" "err \<noteq> Some Turn_Canceled" by auto
    let ?n = "finishTurn env err ?m"
    have s: "?s = s\<lparr>tw_model := ?n, tw_waiting := []\<rparr>" using err by (simp add: Update_def handleStream_def updated_simps e)
    note f = finish_fields [OF t(1) eq(3), of env]
    obtain res where res: "tm_turns ?n = ts @ [?t\<lparr>cv_tools := tm_streamTools ?m, cv_assistant := tm_streamBuf ?m, cv_rendered := res\<rparr>]"
      using f(6) by blast
    let ?u = "?t\<lparr>cv_tools := tm_streamTools ?m, cv_assistant := tm_streamBuf ?m, cv_rendered := res\<rparr>"
    have "turn_over (tw_written s ?c) (snd (tw_asked s ?c)) ?u"
      using r(4) u(2) z(1) eq unfolding turn_over_def shows_turn_def
      by (auto simp: in_turn_def agree_def sections_streamed)
    then have "over ?s ?c (filter (\<lambda>t. \<not> cv_isMeta t) ts @ [?u])"
      using over [OF _ _ refl, of ?s] r(2) s unfolding over_def Let_def by (auto simp: nth_append less_Suc_eq)
    moreover have "real_turns ?n = filter (\<lambda>t. \<not> cv_isMeta t) ts @ [?u]" using res u(1) by (simp add: real_turns_def)
    ultimately have "input_inv ?s" using s f r(3) nb by (auto simp: input_inv_def Let_def)
    then show ?thesis using s f c by (simp add: calm_inv_def)
  qed
qed

lemma calm_step:
  assumes "te_commands env = NewProcessor" and "calm_inv s" and "calm l" and "term_step env l s s'"
  shows "calm_inv s'"
  using assms(4)
proof cases
  case (user msg)
  obtain n effs v where u: "Update env msg (tw_model s, tw_outside s) = ((n, effs), v)" by (metis surj_pair)
  have esc: "\<forall>k. msg = Key_Press k \<longrightarrow> ky_string k \<noteq> ''esc''" using assms(3) user(1) by (auto simp: calm_def)
  show ?thesis
  proof (cases "tm_state (tw_model s) = StateRunning")
    case True
    from running_update [OF True user(4) esc u] show ?thesis
    proof (elim conjE disjE)
      assume "keeps_stream (tw_model s) n" "effs = []"
      with calm_running_keeps [OF assms(2) True this(1), of "tw_ended s" v] show ?thesis by (simp add: user(2) u updated_simps)
    next
      assume "keeps_stream (tw_model s) n" "effs = [Quit_Program]"
      with calm_running_keeps [OF assms(2) True this(1), of True v] show ?thesis by (simp add: user(2) u updated_simps)
    qed
  next
    case False
    then have i: "tm_state (tw_model s) = StateInput" by (simp add: appstate_cases)
    have nc: "tm_cancelTurn (tw_model s) = None" using assms(2) False by (auto simp: calm_inv_def input_inv_def Let_def)
    from input_update [OF assms(1) nc i user(4) u] show ?thesis
    proof (elim disjE exE conjE)
      assume "keeps_turns (tw_model s) n" "effs = []"
      with calm_input_keeps [OF assms(2) i this(1), of "tw_ended s" v] show ?thesis by (simp add: user(2) u updated_simps)
    next
      assume "keeps_turns (tw_model s) n" "effs = [Quit_Program]"
      with calm_input_keeps [OF assms(2) i this(1), of True v] show ?thesis by (simp add: user(2) u updated_simps)
    next
      fix x assume "(n, effs) = startTurn env x ((tw_model s)\<lparr>tm_input := []\<rparr>)"
      with calm_startTurn [OF assms(2) i, of env x v] show ?thesis by (simp add: user(2) u)
    qed
  qed
next
  case (received xs c ys x q)
  with calm_received [OF assms(2)] show ?thesis by blast
next
  case (stop_received xs c ys)
  with assms(2) show ?thesis by (simp add: calm_inv_def)
next
  case (delivered xs x ys)
  with calm_delivered [OF assms(2)] show ?thesis by blast
next
  case (wrote c x)
  with calm_wrote [OF assms(2), of c x "tw_busy s"] show ?thesis by simp
next
  case (returned c e)
  then show ?thesis using calm_wrote [OF assms(2), of c "Stream_Done e" "tw_busy s - {c}"] assms(3) by (simp add: calm_def)
qed

lemma calm_reach:
  assumes "te_commands env = NewProcessor" and "term_reach env calm s"
  shows "calm_inv s"
proof (rule terminals.invariant_rule [OF _ _ assms(2)])
  fix s :: "'a terminal" assume "\<exists>session w. s = term_start session w"
  then show "calm_inv s"
    by (auto simp: calm_inv_def input_inv_def term_start_def newModel_def over_def real_turns_def)
qed (use calm_step [OF assms(1)] in blast)


text \<open>An environment for concrete runs: a key adds its text to the input.\<close>

definition demo_term :: "nat term_env" where
  "demo_term = \<lparr>te_style = (\<lambda>_ s. s), te_box = (\<lambda>_ _ s. s), te_newGlamour = (\<lambda>_. False), te_glamour = (\<lambda>_ s. Some s),
     te_viewport = (\<lambda>_ s. s), te_inputBox = (\<lambda>_ s. s), te_spinner = [], te_edit = (\<lambda>k s. s @ ky_text k),
     te_stop = None, te_switch = None, te_clear = None, te_commands = NewProcessor, te_order = []\<rparr>"

definition typed :: "string \<Rightarrow> label \<times> nat" where
  "typed s = (User (Key_Press \<lparr>ky_string = s, ky_text = s, ky_enter = False\<rparr>), 0)"

definition pressed :: "string \<Rightarrow> label \<times> nat" where
  "pressed s = (User (Key_Press \<lparr>ky_string = s, ky_text = [], ky_enter = (s = ''enter'')\<rparr>), 0)"

definition demo_talk :: "(label \<times> nat) list" where
  "demo_talk = [typed ''hi'', pressed ''enter'', (Wrote 1 (Stream_Text ''ho''), 0), (Returned 1 None, 0),
     (Received, 0), (Delivered, 0), (Received, 0), (Delivered, 0)]"

lemma demo_talked:
  "map_option (\<lambda>s. (tm_state (tw_model s), map cv_assistant (real_turns (tw_model s))))
     (exec_steps demo_term demo_talk (term_start ''s'' (0::nat))) = Some (StateInput, [''ho''])"
  by code_simp


section \<open>Stopping a response\<close>

text \<open>C30: A stopped response is lost. If escape is pressed while a turn runs, three steps lead back to the input
  whatever the handler does: the signal reaches a waiting command and its result is delivered. The context
  of the turn is cancelled, and what had been streamed goes to the meta turn that reports the stop, of which
  only the report is shown: the turn itself stays without text and tools.\<close>

theorem stopped_reply_is_lost:
  assumes "te_commands env = NewProcessor" and "term_reach env calm s" and "tm_state (tw_model s) = StateRunning"
    and "\<not> tw_ended s" and "te_stop env = None"
  shows "\<exists>s1 s2 s3 c t. term_step env (User (Key_Press \<lparr>ky_string = ''esc'', ky_text = [], ky_enter = False\<rparr>)) s s1 \<and>
    term_step env Stop_Received s1 s2 \<and> term_step env Delivered s2 s3 \<and> tm_state (tw_model s3) = StateInput \<and>
    tm_streamCh (tw_model s) = Some c \<and> c \<in> tm_cancelled (tw_model s3) \<and>
    tm_turns (tw_model s3) = tm_turns (tw_model s) @ [t] \<and> cv_isMeta t \<and> cv_assistant t = tm_streamBuf (tw_model s) \<and>
    renderTurn env (tw_model s3) t = markdown env (tw_model s) stopped_text \<and>
    last (real_turns (tw_model s3)) = user_turn (snd (tw_asked s c)) \<and> tm_streamBuf (tw_model s3) = []"
proof -
  let ?m = "tw_model s" and ?k = "\<lparr>ky_string = ''esc'', ky_text = [], ky_enter = False\<rparr>"
  obtain c ts where c: "tm_streamCh ?m = Some c" "tm_cancelTurn ?m = Some c" "tm_turns ?m = ts @ [user_turn (snd (tw_asked s c))]"
    using calm_reach [OF assms(1,2)] assms(3) by (auto simp: calm_inv_def running_inv_def Let_def)
  let ?m1 = "?m\<lparr>tm_cancelled := insert c (tm_cancelled ?m), tm_cancelTurn := None, tm_stopCh := True\<rparr>"
  have "Update env (Key_Press ?k) (?m, tw_outside s) = ((?m1, [Wait (Some c)]), tw_outside s)"
    using assms(3,5) c(1,2) by (simp add: Update_def handleKey_def is_digit_key_def running_key_def stop_function_def cancel_turn_def)
  then have u: "updated (Update env (Key_Press ?k) (?m, tw_outside s)) s =
      s\<lparr>tw_model := ?m1, tw_waiting := tw_waiting s @ [Waiting (Some c)]\<rparr>" by (simp add: updated_simps)
  let ?s1 = "s\<lparr>tw_model := ?m1, tw_waiting := tw_waiting s @ [Waiting (Some c)]\<rparr>"
  have s1: "term_step env (User (Key_Press ?k)) s ?s1" using user [OF assms(4), of "Key_Press ?k" env] by (simp add: u)
  let ?s2 = "?s1\<lparr>tw_waiting := tw_waiting s @ [Holding (Stream_Done (Some Turn_Canceled))], tw_model := ?m1\<lparr>tm_stopCh := False\<rparr>\<rparr>"
  have s2: "term_step env Stop_Received ?s1 ?s2" using stop_received [of ?s1 "tw_waiting s" "Some c" "[]" env] by simp
  let ?m2 = "?m1\<lparr>tm_stopCh := False\<rparr>"
  let ?m3 = "finishTurn env (Some Turn_Canceled) ?m2"
  let ?s3 = "?s2\<lparr>tw_model := ?m3, tw_waiting := tw_waiting s\<rparr>"
  have s3: "term_step env Delivered ?s2 ?s3"
    using delivered [of ?s2 "tw_waiting s" "Stream_Done (Some Turn_Canceled)" "[]" env] assms(4)
    by (simp add: Update_def handleStream_def updated_simps)
  have f: "tm_state ?m3 = StateInput" "tm_cancelled ?m3 = insert c (tm_cancelled ?m)" "tm_streamBuf ?m3 = []"
    by (simp_all add: finishTurn_def cancel_turn_def reset_stream_def addMeta_def addMetaRaw_def Let_def)
  obtain t where t: "tm_turns ?m3 = tm_turns ?m @ [t]" "cv_isMeta t" "cv_assistant t = tm_streamBuf ?m"
    "cv_metaText t = markdown env ?m stopped_text"
    by (simp add: finishTurn_def cancel_turn_def reset_stream_def addMeta_def addMetaRaw_def meta_turn_def fill_turn_def
        markdown_def Let_def)
  have "renderTurn env ?m3 t = markdown env ?m stopped_text" using t(2,4) by (simp add: renderTurn_def)
  moreover have "last (real_turns ?m3) = user_turn (snd (tw_asked s c))"
    using t(1,2) c(3) by (simp add: real_turns_def user_turn_def)
  ultimately show ?thesis using s1 s2 s3 f t c(1)
    by (intro exI [of _ ?s1] exI [of _ ?s2] exI [of _ ?s3] exI [of _ c] exI [of _ t]) simp
qed

definition demo_asking :: "(label \<times> nat) list" where
  "demo_asking = [typed ''hi'', pressed ''enter'', (Wrote 1 (Stream_Text ''ho''), 0), (Received, 0), (Delivered, 0)]"

lemma demo_asked:
  "map_option (\<lambda>s. (tm_state (tw_model s), tm_streamBuf (tw_model s), tw_ended s, snd (tw_asked s 1), tm_streamCh (tw_model s)))
     (exec_steps demo_term demo_asking (term_start ''s'' (0::nat))) = Some (StateRunning, ''ho'', False, ''hi'', Some 1)"
  by code_simp

theorem stopped_reply_is_lost_witness:
  "\<exists>s (s3 :: nat terminal). term_reach demo_term (\<lambda>_. True) s \<and> tm_streamBuf (tw_model s) = ''ho'' \<and>
     tm_state (tw_model s3) = StateInput \<and> last (real_turns (tw_model s3)) = user_turn ''hi'' \<and> tm_streamBuf (tw_model s3) = []"
proof -
  obtain s where s: "exec_steps demo_term demo_asking (term_start ''s'' (0::nat)) = Some s" "tm_state (tw_model s) = StateRunning"
    "tm_streamBuf (tw_model s) = ''ho''" "\<not> tw_ended s" "snd (tw_asked s 1) = ''hi''" "tm_streamCh (tw_model s) = Some 1"
    using demo_asked by auto
  have r: "term_reach demo_term calm s"
    by (rule exec_steps_reach [OF reach_start _ s(1)]) (simp add: demo_asking_def typed_def pressed_def calm_def)
  have a: "term_reach demo_term (\<lambda>_. True) s" by (rule exec_steps_reach [OF reach_start _ s(1)]) simp
  have "te_commands demo_term = NewProcessor" "te_stop demo_term = None" by (simp_all add: demo_term_def)
  from stopped_reply_is_lost [OF this(1) r s(2,4) this(2)] obtain s3 :: "nat terminal" and c where
    "tm_state (tw_model s3) = StateInput" "tm_streamCh (tw_model s) = Some c"
    "last (real_turns (tw_model s3)) = user_turn (snd (tw_asked s c))" "tm_streamBuf (tw_model s3) = []" by blast
  with s(5,6) a s(3) show ?thesis by auto
qed

definition demo_stopping :: "(label \<times> nat) list" where
  "demo_stopping = [typed ''one'', pressed ''enter'', pressed ''esc'', (Stop_Received, 0), (Delivered, 0),
     typed ''two'', pressed ''enter'', (Returned 1 (Some Turn_Canceled), 0), (Received, 0), (Delivered, 0)]"

definition escapes :: "(label \<times> nat) list \<Rightarrow> nat" where
  "escapes ls = length (filter (\<lambda>l. case fst l of User (Key_Press k) \<Rightarrow> ky_string k = ''esc'' | _ \<Rightarrow> False) ls)"

lemma demo_stopped:
  "map_option (\<lambda>s. (tm_state (tw_model s), 2 \<in> tw_busy s, 2 \<in> tm_cancelled (tw_model s), tm_turnCount (tw_model s),
       map cv_user (real_turns (tw_model s)), length (filter (\<lambda>t. cv_metaText t = stopped_text) (tm_turns (tw_model s)))))
     (exec_steps demo_term demo_stopping (term_start ''s'' (0::nat))) = Some (StateInput, True, True, 2, [''one'', ''two''], 2)"
  "escapes demo_stopping = 1"
  by code_simp+

text \<open>A stopped response can stop the next one. Escape leaves a command waiting for the stopped turn; when the
  handler of that turn ends, its result finishes whatever turn runs then. The program can come, with
  escape pressed in the first turn only, to a state that awaits input and reports a second stop while the
  handler of the second turn is busy with its context cancelled.\<close>

theorem stop_reaches_next_turn:
  "\<exists>ls s. exec_steps demo_term ls (term_start ''s'' (0::nat)) = Some s \<and> term_reach demo_term (\<lambda>_. True) s \<and>
     escapes ls = 1 \<and> tm_turnCount (tw_model s) = 2 \<and> tm_state (tw_model s) = StateInput \<and>
     2 \<in> tw_busy s \<and> 2 \<in> tm_cancelled (tw_model s) \<and> map cv_user (real_turns (tw_model s)) = [''one'', ''two''] \<and>
     length (filter (\<lambda>t. cv_metaText t = stopped_text) (tm_turns (tw_model s))) = 2"
proof -
  obtain s where s: "exec_steps demo_term demo_stopping (term_start ''s'' (0::nat)) = Some s"
    "tm_state (tw_model s) = StateInput" "2 \<in> tw_busy s" "2 \<in> tm_cancelled (tw_model s)" "tm_turnCount (tw_model s) = 2"
    "map cv_user (real_turns (tw_model s)) = [''one'', ''two'']"
    "length (filter (\<lambda>t. cv_metaText t = stopped_text) (tm_turns (tw_model s))) = 2"
    using demo_stopped(1) by auto
  have "term_reach demo_term (\<lambda>_. True) s" by (rule exec_steps_reach [OF reach_start _ s(1)]) simp
  with s demo_stopped(2) show ?thesis by (intro exI [of _ demo_stopping] exI [of _ s] conjI)
qed

end
