(* ===== verification/Terminal_Simple.thy ===== *)
theory Terminal_Simple
  imports Commands Turns
begin

text \<open>
  The line-based terminal (\<open>startSimple\<close> of \<open>channel/cli/channel.go\<close>): a loop that reads lines, runs slash
  commands and hands every other line to the handler, which writes directly to the output. The scanner
  gives a list of lines and then its error; the context, the handler and the callbacks are parameters.
\<close>

section \<open>The channel\<close>

datatype printed = Out string | Err_Out string

text \<open>\<open>sp_asked\<close> records the sessions and texts the handler got.\<close>

record 'w simple =
  sp_session :: string
  sp_outside :: 'w
  sp_printed :: "printed list"
  sp_asked :: "(string \<times> string) list"

text \<open>A handler returns what it wrote and its error. \<open>si_over\<close> tells whether the context is done.\<close>

record 'w simple_env =
  si_over :: "'w \<Rightarrow> bool"
  si_handler :: "(string \<Rightarrow> string \<Rightarrow> 'w \<Rightarrow> (writer_call list \<times> string option) \<times> 'w) option"
  si_stop :: "'w callback option"
  si_switch :: "(string \<Rightarrow> 'w callback) option"
  si_clear :: "(string \<Rightarrow> 'w callback) option"
  si_commands :: "(string \<times> 'w) processor"
  si_order :: "string list"

definition print_text :: "printed \<Rightarrow> 'w simple \<Rightarrow> 'w simple" where
  "print_text x s = s\<lparr>sp_printed := sp_printed s @ [x]\<rparr>"

definition simple_write :: "writer_call \<Rightarrow> string" where
  "simple_write c = (case c of
       WriteText chunk \<Rightarrow> chunk
     | WriteEvent e \<Rightarrow> (case ev_kind e of
           EventToolStart \<Rightarrow> [newline] @ ''tool '' @ ev_name e @ ''...'' @ [newline]
         | EventToolEnd \<Rightarrow> [newline]))"

section \<open>Slash commands\<close>

definition on_session :: "'w callback option \<Rightarrow> (string \<Rightarrow> string) \<Rightarrow> (string \<times> 'w) callback" where
  "on_session f change p = (case p of (session, w) \<Rightarrow> (case f of
       None \<Rightarrow> (None, (change session, w))
     | Some g \<Rightarrow> (case g w of (Some e, v) \<Rightarrow> (Some e, (session, v)) | (None, v) \<Rightarrow> (None, (change session, v)))))"

definition simple_environment :: "'w simple_env \<Rightarrow> string \<Rightarrow> (string \<times> 'w) environment" where
  "simple_environment env session = \<lparr>en_sessionID = session,
     en_stop = map_option (\<lambda>f. on_session (Some f) (\<lambda>s. s)) (si_stop env),
     en_switch = Some (\<lambda>new. on_session (map_option (\<lambda>f. f new) (si_switch env)) (\<lambda>_. new)),
     en_clear = Some (\<lambda>p. on_session (map_option (\<lambda>f. f (fst p)) (si_clear env)) (\<lambda>s. s) p),
     en_commands = Some (map command_info.truncate (GetCommands (si_order env) (si_commands env))), en_helpSuffix = None\<rparr>"

text \<open>What follows a line: the loop goes on, or it returns an error or nothing.\<close>

datatype next_line = Next | Return_With "string option"

definition simple_slash :: "'w simple_env \<Rightarrow> string \<Rightarrow> 'w simple \<Rightarrow> next_line \<times> 'w simple" where
  "simple_slash env line s =
     (case Process (si_commands env) line (Some (simple_environment env (sp_session s))) (sp_session s, sp_outside s) of
        (r, (session, w)) \<Rightarrow>
       (let s1 = s\<lparr>sp_session := session, sp_outside := w\<rparr> in
        case r of
          None \<Rightarrow> (Next, s1)
        | Some (Inl e) \<Rightarrow> (Next, print_text (Err_Out (''command error: '' @ e @ [newline])) s1)
        | Some (Inr res) \<Rightarrow> (if cr_quit res then Return_With None else Next,
            print_text ((if cr_isError res then Err_Out else Out) (cr_message res @ [newline])) s1)))"

section \<open>The loop\<close>

definition simple_turn :: "'w simple_env \<Rightarrow> string \<Rightarrow> 'w simple \<Rightarrow> next_line \<times> 'w simple" where
  "simple_turn env line s =
     (let s1 = print_text (Out [newline]) s;
          report = (\<lambda>e t. if si_over env (sp_outside t) then t else print_text (Err_Out (''error: '' @ e @ [newline])) t)
      in case si_handler env of
           None \<Rightarrow> (Return_With (Some ''stream handler is nil''), report ''stream handler is nil'' (print_text (Out [newline]) s1))
         | Some h \<Rightarrow> (case h (sp_session s) line (sp_outside s) of ((calls, err), w) \<Rightarrow>
             (let s2 = print_text (Out [newline]) (s1\<lparr>sp_outside := w, sp_asked := sp_asked s1 @ [(sp_session s, line)],
                    sp_printed := sp_printed s1 @ map (Out \<circ> simple_write) calls\<rparr>)
              in (Next, case err of None \<Rightarrow> s2 | Some e \<Rightarrow> report e s2))))"

definition simple_line :: "'w simple_env \<Rightarrow> string \<Rightarrow> 'w simple \<Rightarrow> next_line \<times> 'w simple" where
  "simple_line env scanned s = (let line = TrimSpace scanned in
     if line = [] then (Next, s)
     else if HasPrefix line ''/'' then simple_slash env line s
     else simple_turn env line s)"

fun simple_loop :: "'w simple_env \<Rightarrow> string option \<Rightarrow> string list \<Rightarrow> 'w simple \<Rightarrow> string option \<times> 'w simple" where
  "simple_loop env scan_err [] s = (if si_over env (sp_outside s) then (None, s) else (scan_err, print_text (Out ''> '') s))"
| "simple_loop env scan_err (l # ls) s =
     (if si_over env (sp_outside s) then (None, s)
      else case simple_line env l (print_text (Out ''> '') s) of
        (Next, s1) \<Rightarrow> simple_loop env scan_err ls s1
      | (Return_With r, s1) \<Rightarrow> (r, s1))"

definition startSimple :: "'w simple_env \<Rightarrow> string option \<Rightarrow> string list \<Rightarrow> string \<Rightarrow> 'w \<Rightarrow> string option \<times> 'w simple" where
  "startSimple env scan_err ls session w = simple_loop env scan_err ls
     \<lparr>sp_session = session, sp_outside = w, sp_printed =
       [Out (''blades simple mode  /help  Ctrl+C quit'' @ [newline]), Out [newline]], sp_asked = []\<rparr>"

section \<open>What the handler gets\<close>

definition spoken :: "string \<Rightarrow> bool" where
  "spoken l \<longleftrightarrow> TrimSpace l \<noteq> [] \<and> \<not> HasPrefix (TrimSpace l) ''/''"

definition leaving :: "string \<Rightarrow> bool" where
  "leaving l \<longleftrightarrow> command_word l \<in> {''/exit'', ''/quit''}"

lemma print_fields [simp]:
  "sp_asked (print_text x s) = sp_asked s" "sp_outside (print_text x s) = sp_outside s" "sp_session (print_text x s) = sp_session s"
  by (simp_all add: print_text_def)

lemma slash_quits:
  assumes "HasPrefix (TrimSpace line) ''/''"
  shows "\<exists>res q. Process NewProcessor line env p = (Some (Inr res), q) \<and> (cr_quit res \<longleftrightarrow> leaving line)"
proof -
  obtain k ws where f: "Fields (TrimSpace line) = (''/'' @ k) # ws" using Fields_slash [OF assms] by blast
  have w: "leaving line \<longleftrightarrow> k \<in> {''exit'', ''quit''}" using f by (simp add: leaving_def command_word_def)
  have trim: "TrimPrefix (''/'' @ k) ''/'' = k" by (rule TrimPrefix_append)
  show ?thesis
  proof (cases "map_of NewProcessor k :: 'a command option")
    case None
    then have "\<not> leaving line" using default_none [OF None] w by blast
    with assms f trim None show ?thesis by (auto simp: Process_def Let_def)
  next
    case (Some cmd)
    obtain res where "fst (cm_handler cmd ws env p) = Inr res" "cr_quit res \<longleftrightarrow> k \<in> {''exit'', ''quit''}"
      using builtin_replies [OF default_handler [OF Some]] by blast
    with assms f trim Some w show ?thesis
      by (cases "cm_handler cmd ws env p") (simp add: Process_def Let_def)
  qed
qed

lemma leaving_trim: "leaving (TrimSpace l) = leaving l"
  by (simp add: leaving_def command_word_def TrimSpace_idem)

lemma leaving_slash:
  assumes "leaving l"
  shows "HasPrefix (TrimSpace l) ''/''"
proof -
  obtain ws where f: "Fields (TrimSpace l) = ''/exit'' # ws \<or> Fields (TrimSpace l) = ''/quit'' # ws"
    using assms by (auto simp: leaving_def command_word_def split: list.splits)
  then obtain c t where c: "TrimSpace l = c # t" by (cases "TrimSpace l") (auto simp: Fields_def)
  then have "\<not> is_space c" using TrimSpace_ends [of l] by simp
  then have "\<exists>w ws. Fields (TrimSpace l) = (c # w) # ws" using c fields_acc_first [of "[c]" t] by (simp add: Fields_def)
  with f have "c = CHR ''/''" by auto
  with c show ?thesis by simp
qed

text \<open>One line: it is given to the handler exactly if it is spoken, and the loop returns exactly at a command
  to leave.\<close>

lemma simple_line_result:
  assumes "si_commands env = NewProcessor" and "si_handler env = Some h"
  shows "map snd (sp_asked (snd (simple_line env l s))) = map snd (sp_asked s) @ (if spoken l then [TrimSpace l] else [])"
    and "fst (simple_line env l s) = (if leaving l then Return_With None else Next)"
proof -
  have slash_line: "sp_asked (snd (simple_slash env line s)) = sp_asked s \<and>
      fst (simple_slash env line s) = (if leaving line then Return_With None else Next)"
    if sl: "HasPrefix (TrimSpace line) ''/''" for line
  proof -
    obtain res session w where "Process NewProcessor line (Some (simple_environment env (sp_session s))) (sp_session s, sp_outside s)
        = (Some (Inr res), (session, w))" "cr_quit res \<longleftrightarrow> leaving line"
      using slash_quits [OF sl, of "Some (simple_environment env (sp_session s))" "(sp_session s, sp_outside s)"]
      by (metis surj_pair)
    then show ?thesis by (simp add: simple_slash_def assms(1))
  qed
  have no: "\<not> leaving l" if "\<not> HasPrefix (TrimSpace l) ''/''" using leaving_slash that by blast
  consider (blank) "TrimSpace l = []" | (slash) "TrimSpace l \<noteq> []" "HasPrefix (TrimSpace l) ''/''"
    | (turn) "TrimSpace l \<noteq> []" "\<not> HasPrefix (TrimSpace l) ''/''" by blast
  then have "map snd (sp_asked (snd (simple_line env l s))) = map snd (sp_asked s) @ (if spoken l then [TrimSpace l] else []) \<and>
      fst (simple_line env l s) = (if leaving l then Return_With None else Next)"
  proof cases
    case blank
    then show ?thesis using no by (simp add: simple_line_def spoken_def)
  next
    case slash
    then show ?thesis using slash_line [of "TrimSpace l"]
      by (simp add: simple_line_def spoken_def TrimSpace_idem leaving_trim)
  next
    case turn
    then show ?thesis using no
      by (simp add: simple_line_def spoken_def simple_turn_def assms(2) Let_def split: prod.split option.split)
  qed
  then show "map snd (sp_asked (snd (simple_line env l s))) = map snd (sp_asked s) @ (if spoken l then [TrimSpace l] else [])"
    "fst (simple_line env l s) = (if leaving l then Return_With None else Next)" by simp_all
qed

text \<open>In the line-based terminal the handler gets every line that is neither blank nor a command, trimmed and in
  order, up to a command to leave: \<open>/exit\<close> or \<open>/quit\<close>. If there is none, the error of the scanner is returned.\<close>

theorem simple_asks_spoken_lines:
  assumes "si_commands env = NewProcessor" and "si_handler env = Some h" and "\<And>w. \<not> si_over env w"
  shows "map snd (sp_asked (snd (startSimple env scan_err ls session w))) =
      map TrimSpace (filter spoken (takeWhile (\<lambda>l. \<not> leaving l) ls)) \<and>
    fst (startSimple env scan_err ls session w) = (if \<exists>l \<in> set ls. leaving l then None else scan_err)"
proof -
  have spoken_leaves: "leaving l \<Longrightarrow> \<not> spoken l" for l using leaving_slash [of l] by (simp add: spoken_def)
  have "map snd (sp_asked (snd (simple_loop env scan_err ls s))) =
      map snd (sp_asked s) @ map TrimSpace (filter spoken (takeWhile (\<lambda>l. \<not> leaving l) ls)) \<and>
    fst (simple_loop env scan_err ls s) = (if \<exists>l \<in> set ls. leaving l then None else scan_err)" for s
  proof (induction ls arbitrary: s)
    case (Cons l ls)
    obtain n t where t: "simple_line env l (print_text (Out ''> '') s) = (n, t)" by fastforce
    with simple_line_result [OF assms(1,2), of l "print_text (Out ''> '') s"] Cons.IH [of t] spoken_leaves [of l] assms(3)
    show ?case by (cases "leaving l") simp_all
  qed (simp add: assms(3))
  then show ?thesis by (simp add: startSimple_def)
qed

end
