(* ===== verification/Agent_Laws.thy ===== *)
theory Agent_Laws
  imports Flows
begin

text \<open>
  The contract of the \<open>Agent\<close> interface (\<open>src/core.go\<close>): an error is the last event of a run.
  The runner relies on it; the agents and flow agents of the repository provide it. Then what
  the agent loop does to the world: how messages reach the session, and how often.
\<close>

section \<open>The interface\<close>

locale agent_interface =
  fixes run :: "'p handler"
  assumes errors_last: "stops_at isl (run c ivn w)"
begin

lemma error_is_last: "gevents (run c ivn w) = xs @ Inl e # ys \<Longrightarrow> ys = []"
  using stops_at_events [OF errors_last] by (metis isl_def)

lemma runner_gen:
  assumes "stops_at isl g"
  shows "fst (last_message g acc) = (case rev (gevents g) of [] \<Rightarrow> Inr acc | Inl e # _ \<Rightarrow> Inl e | Inr m # _ \<Rightarrow> Inr (Some m))"
  using assms
proof (induction g arbitrary: acc)
  case (Yld x w k)
  show ?case
  proof (cases x)
    case (Inl e)
    with Yld.prems have "\<exists>r v. k w = Ret r v" by simp
    with Inl show ?thesis by auto
  next
    case (Inr m)
    have "stops_at isl (k w)" using Yld.prems by simp
    then have "fst (last_message (k w) (Some m)) =
      (case rev (gevents (k w)) of [] \<Rightarrow> Inr (Some m) | Inl e # _ \<Rightarrow> Inl e | Inr m # _ \<Rightarrow> Inr (Some m))"
      using Yld.IH by blast
    with Inr show ?thesis by (cases "rev (gevents (k w))") (auto split: sum.split)
  qed
qed simp

text \<open>\<open>Runner.Run\<close> returns the last event of the agent's run.\<close>

lemma runner_last:
  "fst (Runner_Run run m opts w) =
     (case rev (gevents (run \<lparr>ctx_session = opt_session opts, ctx_agent = None\<rparr>
         (buildInvocation m False opts (fst (alloc_flag w))) (snd (alloc_flag w)))) of
        [] \<Rightarrow> Inl ErrNoFinalResponse | Inl e # _ \<Rightarrow> Inl e | Inr out # _ \<Rightarrow> Inr out)"
proof -
  let ?g = "run \<lparr>ctx_session = opt_session opts, ctx_agent = None\<rparr>
         (buildInvocation m False opts (fst (alloc_flag w))) (snd (alloc_flag w))"
  have "fst (last_message ?g None) = (case rev (gevents ?g) of [] \<Rightarrow> Inr None | Inl e # _ \<Rightarrow> Inl e | Inr m # _ \<Rightarrow> Inr (Some m))"
    by (rule runner_gen [OF errors_last])
  then show ?thesis
    unfolding Runner_Run_def
    by (cases "last_message ?g None"; cases "rev (gevents ?g)")
      (auto simp: case_prod_unfold split: sum.splits option.splits)
qed

text \<open>\<open>Runner.RunStream\<close> passes the agent's run on, world by world.\<close>

lemma forwarding_trace:
  assumes "stops_at isl g"
  shows "gtrace (grange g (\<lambda>_ x. case x of
             Inl e \<Rightarrow> gthen (gyield (Inl e)) (\<lambda>_. greturn (Leave ()))
           | Inr out \<Rightarrow> gthen (gyield (Inr out)) (\<lambda>_. greturn (Next ()))) ()) = gtrace g"
  using assms
proof (induction g)
  case (Yld x w k)
  then have k: "stops_at isl (k w)" "isl x \<Longrightarrow> \<exists>r v. k w = Ret r v" by auto
  with Yld.IH [of "k w"] show ?case by (cases x) auto
qed simp

lemma stream_forwards:
  "gtrace (RunStream run m opts w) =
     gtrace (run \<lparr>ctx_session = opt_session opts, ctx_agent = None\<rparr>
       (buildInvocation m True opts (fst (alloc_flag w))) (snd (alloc_flag w)))"
  unfolding RunStream_def by (simp add: forwarding_trace [OF errors_last] split: prod.split)

end

section \<open>The agent loop\<close>

lemma isl_Inr [simp]: "\<not> isl (Inr m)" "isl (Inl e)"
  by simp_all

lemma fail_with_ends: "ends_at isl leaves (fail_with e w)"
  unfolding fail_with_def gthen_def gyield_def by (simp add: greturn_def)

lemmas ends_rules = ends_at_gact ends_at_gyield fail_with_ends ends_at_simple

lemma generate_once_ends: "ends_at isl leaves (generate_once a ivn req w)"
  unfolding generate_once_def
  by (rule ends_at_gact)
    (auto simp: Let_def fail_with_ends intro!: ends_at_gact ends_at_gyield split: sum.split option.split)

lemma stream_event_ends: "ends_at isl leaves (stream_event a ivn prev r w)"
  unfolding stream_event_def
  by (auto simp: Let_def fail_with_ends intro!: ends_at_gact ends_at_gyield split: sum.split option.split)

lemma generate_stream_ends: "ends_at isl leaves (generate_stream a ivn req w)"
  unfolding generate_stream_def
  by (rule ends_at_gact) (auto intro: ends_at_gforeach stream_event_ends)

lemma after_model_ends: "ends_at isl leaves (after_model x a sref ivn local final w)"
  unfolding after_model_def persist_tools_def
  by (auto simp: fail_with_ends intro!: ends_at_gact ends_at_gyield split: sum.split option.split)

lemma iteration_ends: "ends_at isl leaves (iteration x a sref ivn first local w)"
proof -
  have "ends_at isl leaves (gthen (if inv_stream ivn then generate_stream a ivn req else generate_once a ivn req)
      (\<lambda>c. case c of Leave _ \<Rightarrow> greturn (Leave ()) | Next final \<Rightarrow> after_model x a sref ivn local final) v)" for req v
    by (rule ends_at_gthen [where P = leaves])
      (auto simp: generate_stream_ends generate_once_ends after_model_ends leaves_def greturn_def split: ctl.split)
  then show ?thesis
    unfolding iteration_def
    by (intro ends_at_gact) (auto simp: fail_with_ends split: sum.split)
qed

lemma iterations_stops: "stops_at isl (iterations x a sref ivn n first local w)"
proof (induction n arbitrary: first local w)
  case (Suc n)
  show ?case
    unfolding iterations.simps
    by (rule ends_at_gthen [OF iteration_ends])
      (auto simp: Suc leaves_def greturn_def split: ctl.split)
qed (simp add: gyield_def)

lemma handle_stops: "stops_at isl (handle x a sref ivn w)"
  unfolding handle_def by (rule iterations_stops)

definition without_middlewares :: "'p agent \<Rightarrow> 'p agent" where
  "without_middlewares a = a\<lparr>a_middlewares := []\<rparr>"

lemma Run_plain:
  "Run x (without_middlewares a) c inv0 w0 =
     (case EnsureSession c w0 of (sref, w1) \<Rightarrow>
      case prepareInvocation x (without_middlewares a) inv0 w1 of
        (Inl e, w2) \<Rightarrow> gyield (Inl e) w2
      | (Inr inv1, w2) \<Rightarrow> (case commit_message sref inv1 w2 of (inv2, w3) \<Rightarrow>
             handle x (without_middlewares a) sref inv2 w3))"
  by (simp add: Run_def chain_def without_middlewares_def split: prod.split sum.split)

interpretation core: agent_interface "Run x (without_middlewares a)" for x a
  by unfold_locales (simp add: Run_plain handle_stops split: prod.split sum.split)

section \<open>The flow agents\<close>

lemma forward_ends: "ends_at isl leaves (forward note l x w)"
  unfolding forward_def
  by (auto intro: ends_at_gyield simp: gthen_def gyield_def greturn_def split: sum.split)

interpretation sequential: agent_interface "SequentialAgent_Run agents" for agents
proof
  fix c ivn w
  show "stops_at isl (SequentialAgent_Run agents c ivn w)"
    unfolding SequentialAgent_Run_def
    by (rule ends_at_gbind [where P = leaves])
      (auto intro: ends_at_gforeach ends_at_grange forward_ends)
qed

lemma loop_agent_ends: "ends_at isl leaves (loop_agent c ivn l agent w)"
  unfolding loop_agent_def
  by (rule ends_at_gbind [where P = leaves])
    (auto intro!: ends_at_grange forward_ends simp: leaves_def split: ctl.split)

lemma loop_iterations_stops: "stops_at isl (loop_iterations cfg c ivn n st w)"
proof (induction n arbitrary: st w)
  case (Suc n)
  show ?case
    unfolding loop_iterations.simps
    by (rule ends_at_gbind [where P = leaves])
      (auto intro!: ends_at_gforeach loop_agent_ends simp: Suc leaves_def
        split: ctl.split option.split prod.split)
qed simp

interpretation loop: agent_interface "LoopAgent_Run cfg" for cfg
  by unfold_locales (simp add: LoopAgent_Run_def loop_iterations_stops)

text \<open>A routing agent forwards the events of its target unchanged, so it needs the targets'
  contract.\<close>

locale routed_agents =
  fixes router :: "'p handler" and targets :: "(string, 'p handler) gomap"
  assumes targets_end: "\<And>n h c ivn w. map_of targets n = Some h \<Longrightarrow> stops_at isl (h c ivn w)"
begin

lemma route_step_ends: "ends_at isl (\<lambda>r. r = Leave None) (route_step prev x w)"
  unfolding route_step_def
  by (auto simp: gthen_def gyield_def greturn_def split: sum.split option.split anyval.split)

lemma route_to_stops: "stops_at isl (route_to targets c ivn target prev w)"
  unfolding route_to_def by (auto intro: targets_end split: option.split)

lemma routing_stops: "stops_at isl (RoutingAgent_Run router targets c ivn w)"
proof -
  let ?P = "\<lambda>r. r = Leave None"
  have "ends_at isl ?P (grange g route_step prev)" for g :: "(event, 'p world, unit) gen" and prev
  proof (induction g arbitrary: prev)
    case (Yld x w k)
    show ?case
      unfolding grange.simps
      by (rule ends_at_gbind [OF route_step_ends]) (use Yld in \<open>auto split: ctl.split\<close>)
  qed simp
  then show ?thesis
    unfolding RoutingAgent_Run_def
    by (rule ends_at_gbind) (auto simp: route_to_stops split: ctl.split option.split)
qed

end

sublocale routed_agents \<subseteq> agent_interface "RoutingAgent_Run router targets"
  by unfold_locales (rule routing_stops)

text \<open>A routing agent over agents of this package.\<close>

definition core_targets :: "ext \<Rightarrow> (string \<times> 'p agent) list \<Rightarrow> (string, 'p handler) gomap" where
  "core_targets x agents = routing_targets (map (\<lambda>(n, a). (n, Run x (without_middlewares a))) agents)"

lemma fold_update_values:
  assumes "map_of (fold (\<lambda>(k, v) m. AList.update (f k) v m) kvs m) n = Some h"
  shows "map_of m n = Some h \<or> h \<in> snd ` set kvs"
  using assms
proof (induction kvs arbitrary: m)
  case (Cons kv kvs)
  obtain k v where kv: "kv = (k, v)" by (cases kv)
  with Cons.prems have "map_of (AList.update (f k) v m) n = Some h \<or> h \<in> snd ` set kvs"
    by (intro Cons.IH) simp
  with kv show ?case by (auto simp: gomap_lookup_update split: if_splits)
qed simp

lemma core_targets_lookup:
  assumes "map_of (core_targets x agents) n = Some h"
  shows "\<exists>a. h = Run x (without_middlewares a)"
  using fold_update_values [OF assms [unfolded core_targets_def routing_targets_def]] by auto

interpretation routing: routed_agents router "core_targets x agents" for router x agents
  by unfold_locales (auto dest!: core_targets_lookup intro: core.errors_last)

text \<open>The router's first message with a handoff action decides where the run goes on.\<close>

definition hands_off :: "Agents.event \<Rightarrow> bool" where
  "hands_off x \<longleftrightarrow> (case x of Inl _ \<Rightarrow> False | Inr m \<Rightarrow> actions m ActionHandoffToAgent \<noteq> None)"

lemma route_range:
  assumes "gtrace g = pre @ (Inr m, v) # rest" and "\<forall>(x, u) \<in> set pre. \<not> isl x \<and> \<not> hands_off x"
    and "actions m ActionHandoffToAgent = Some (AnyString target)"
  shows "gtrace (grange g route_step prev) = []"
    and "gfinal (grange g route_step prev) = (Leave (Some (target, Some m)), v)"
proof -
  have "gtrace (grange g route_step prev) = [] \<and>
    gfinal (grange g route_step prev) = (Leave (Some (target, Some m)), v)"
    using assms(1,2)
  proof (induction g arbitrary: pre prev)
    case (Yld x w k)
    show ?case
    proof (cases pre)
      case Nil
      with Yld.prems assms(3) show ?thesis by (auto simp: route_step_def)
    next
      case (Cons y pre')
      with Yld.prems have k: "gtrace (k w) = pre' @ (Inr m, v) # rest" "\<forall>(x, u) \<in> set pre'. \<not> isl x \<and> \<not> hands_off x"
        and "\<not> isl x" "\<not> hands_off x" by auto
      then obtain m' where "x = Inr m'" "actions m' ActionHandoffToAgent = None"
        by (cases x) (auto simp: hands_off_def)
      with Yld.IH [OF _ k, of "Some m'"] show ?thesis by (simp add: route_step_def)
    qed
  qed simp
  then show "gtrace (grange g route_step prev) = []"
    "gfinal (grange g route_step prev) = (Leave (Some (target, Some m)), v)" by auto
qed

end
