(* ===== verification/Agent_Session.thy ===== *)
theory Agent_Session
  imports Agent_Laws
begin

text \<open>
  What the agent loop of \<open>src/agent.go\<close> does to messages and sessions: the execution of a tool
  message, the transcript a run leaves in its session, and the single commit of the user's
  message by agents that share an invocation.
\<close>

section \<open>Executing the tools of a message\<close>

text \<open>A part is kept, or it is a pending call and the result of handling it.\<close>

definition executed :: "'p invocation \<Rightarrow> part \<Rightarrow> part \<Rightarrow> bool" where
  "executed ivn p q \<longleftrightarrow> q = p \<or> (\<exists>v out v' acts out'. p = ToolPart v \<and> \<not> tool_completed v \<and>
     handleTools ivn v out = (Inr v', acts, out') \<and> q = ToolPart (v'\<lparr>tool_completed := True\<rparr>))"

definition completed_part :: "part \<Rightarrow> bool" where
  "completed_part p \<longleftrightarrow> (case p of ToolPart v \<Rightarrow> tool_completed v | _ \<Rightarrow> True)"

lemma executed_refl [simp]: "executed ivn p p"
  by (simp add: executed_def)

lemma executed_trans: "executed ivn p q \<Longrightarrow> executed ivn q r \<Longrightarrow> executed ivn p r"
proof (cases "q = p")
  case False
  moreover assume "executed ivn p q" and qr: "executed ivn q r"
  ultimately obtain v' where "q = ToolPart (v'\<lparr>tool_completed := True\<rparr>)" by (auto simp: executed_def)
  with qr have "r = q" by (auto simp: executed_def)
  with \<open>executed ivn p q\<close> show ?thesis by simp
qed simp

definition exec_inv :: "'p invocation \<Rightarrow> message \<Rightarrow> nat set \<Rightarrow> 'p exec \<Rightarrow> bool" where
  "exec_inv ivn m ds s \<longleftrightarrow>
     (\<exists>ps ac. ex_message s = m\<lparr>parts := ps, actions := ac\<rparr>) \<and>
     list_all2 (executed ivn) (parts m) (parts (ex_message s)) \<and>
     (ex_err s = None \<longrightarrow> (\<forall>i \<in> ds. i < length (parts m) \<longrightarrow> completed_part (parts (ex_message s) ! i)))"

lemma handleTools_part:
  assumes "handleTools ivn v p = (Inr part, acts, p')"
  shows "tool_id part = tool_id v \<and> tool_name part = tool_name v \<and> tool_request part = tool_request v"
  using assms by (auto simp: handleTools_def split: option.splits prod.splits sum.splits terror.splits)

lemma exec_part_inv:
  assumes i: "exec_inv ivn m ds s"
  shows "exec_inv ivn m (insert i ds) (exec_part ivn i s)"
proof (cases "i < length (parts m)")
  case False
  with i show ?thesis by (auto simp: exec_inv_def exec_part_def dest: list_all2_lengthD)
next
  case True
  have len: "length (parts (ex_message s)) = length (parts m)"
    using i by (auto simp: exec_inv_def dest: list_all2_lengthD)
  let ?p = "parts (ex_message s) ! i"
  consider (other) "completed_part ?p" "exec_part ivn i s = s"
    | (call) v where "?p = ToolPart v" "\<not> tool_completed v"
    using True len by (cases ?p) (auto simp: exec_part_def completed_part_def)
  then show ?thesis
  proof cases
    case other
    with i True show ?thesis by (auto simp: exec_inv_def)
  next
    case call
    obtain r acts p' where h: "handleTools ivn v (ex_outside s) = (r, acts, p')" by (metis prod_cases3)
    show ?thesis
    proof (cases r)
      case (Inl e)
      with call h True len i show ?thesis by (auto simp: exec_part_def exec_inv_def Let_def)
    next
      case (Inr part)
      let ?q = "ToolPart (part\<lparr>tool_completed := True\<rparr>)"
      have q: "executed ivn ?p ?q" using h Inr call by (auto simp: executed_def)
      have parts: "parts (ex_message (exec_part ivn i s)) = (parts (ex_message s))[i := ?q]"
        "ex_err (exec_part ivn i s) = ex_err s"
        "ex_message (exec_part ivn i s) = (ex_message s)\<lparr>parts := parts (ex_message (exec_part ivn i s)),
            actions := actions (ex_message (exec_part ivn i s))\<rparr>"
        using call h Inr True len by (simp_all add: exec_part_def Let_def)
      have "list_all2 (executed ivn) (parts m) ((parts (ex_message s))[i := ?q])"
        using i q True len unfolding exec_inv_def list_all2_conv_all_nth
        by (auto simp: nth_list_update intro: executed_trans)
      moreover have "\<forall>j \<in> insert i ds. j < length (parts m) \<longrightarrow>
          completed_part ((parts (ex_message s))[i := ?q] ! j)" if "ex_err s = None"
      proof (intro ballI impI)
        fix j assume j: "j \<in> insert i ds" "j < length (parts m)"
        have "completed_part ?q" by (simp add: completed_part_def)
        with i that len j show "completed_part ((parts (ex_message s))[i := ?q] ! j)"
          by (cases "j = i") (auto simp: exec_inv_def)
      qed
      moreover have "\<exists>ps ac. ex_message (exec_part ivn i s) = m\<lparr>parts := ps, actions := ac\<rparr>"
      proof -
        obtain ps ac where "ex_message s = m\<lparr>parts := ps, actions := ac\<rparr>" using i by (auto simp: exec_inv_def)
        then show ?thesis by (subst parts(3)) auto
      qed
      ultimately show ?thesis using parts by (simp add: exec_inv_def)
    qed
  qed
qed

lemma exec_fold_inv:
  "exec_inv ivn m ds s \<Longrightarrow> exec_inv ivn m (ds \<union> set order) (fold (exec_part ivn) order s)"
proof (induction order arbitrary: ds s)
  case (Cons i order)
  have "ds \<union> set (i # order) = insert i ds \<union> set order" by auto
  with Cons.IH [OF exec_part_inv [OF Cons.prems, of i]] show ?case by simp
qed simp

lemma executeTools_result:
  assumes "fst (executeTools x ivn m p) = Inr m'"
  shows "m' = m\<lparr>parts := parts m', actions := actions m'\<rparr>"
    and "list_all2 (executed ivn) (parts m) (parts m')"
    and "set (tool_order x (parts m)) = {..< length (parts m)} \<Longrightarrow> list_all completed_part (parts m')"
proof -
  let ?s = "fold (exec_part ivn) (tool_order x (parts m))
      \<lparr>ex_message = m, ex_actions = actions m, ex_err = None, ex_outside = p\<rparr>"
  have "\<exists>ps ac. m = m\<lparr>parts := ps, actions := ac\<rparr>"
    by (rule exI [of _ "parts m"], rule exI [of _ "actions m"]) simp
  then have "exec_inv ivn m {} \<lparr>ex_message = m, ex_actions = actions m, ex_err = None, ex_outside = p\<rparr>"
    unfolding exec_inv_def by (auto intro: list_all2_refl)
  from exec_fold_inv [OF this] have i: "exec_inv ivn m (set (tool_order x (parts m))) ?s" by simp
  have m': "ex_err ?s = None" "m' = ex_message ?s"
    using assms by (auto simp: executeTools_def Let_def split: option.splits)
  show "m' = m\<lparr>parts := parts m', actions := actions m'\<rparr>" "list_all2 (executed ivn) (parts m) (parts m')"
    using i m' by (auto simp: exec_inv_def)
  then have "length (parts m') = length (parts m)" by (auto dest: list_all2_lengthD)
  then show "list_all completed_part (parts m')"
    if "set (tool_order x (parts m)) = {..< length (parts m)}"
    using i m' that by (auto simp: exec_inv_def list_all_length)
qed

text \<open>What becomes of a part: a pending call is completed with the response of its tool.\<close>

definition finished :: "'p invocation \<Rightarrow> part \<Rightarrow> part \<Rightarrow> bool" where
  "finished ivn p q \<longleftrightarrow> (case p of
     ToolPart v \<Rightarrow> (\<exists>v'. q = ToolPart v' \<and> tool_completed v' \<and> tool_id v' = tool_id v \<and>
       tool_name v' = tool_name v \<and> tool_request v' = tool_request v \<and>
       (if tool_completed v then v' = v
        else \<exists>out u acts out'. handleTools ivn v out = (Inr u, acts, out') \<and> tool_response v' = tool_response u))
   | _ \<Rightarrow> q = p)"

lemma executed_finished:
  assumes "executed ivn p q" and "completed_part q"
  shows "finished ivn p q"
proof (cases "q = p")
  case True
  with assms(2) show ?thesis by (cases p) (auto simp: finished_def completed_part_def)
next
  case False
  with assms(1) obtain v out v' acts out' where
    c: "p = ToolPart v" "\<not> tool_completed v" "handleTools ivn v out = (Inr v', acts, out')"
       "q = ToolPart (v'\<lparr>tool_completed := True\<rparr>)" unfolding executed_def by blast
  with handleTools_part [OF c(3)] show ?thesis by (auto simp: finished_def intro!: exI [of _ v'])
qed

lemma executeTools_finished:
  assumes "set (tool_order x (parts m)) = {..< length (parts m)}" and "fst (executeTools x ivn m p) = Inr m'"
  shows "list_all2 (finished ivn) (parts m) (parts m')"
  using executeTools_result(2) [OF assms(2)] executeTools_result(3) [OF assms(2,1)]
  by (auto simp: list_all2_conv_all_nth list_all_length intro: executed_finished)

text \<open>Only a cancelled tool makes the whole call fail.\<close>

lemma executeTools_ok:
  assumes "\<And>t i req out e acts out'. t \<in> set (inv_tools ivn) \<Longrightarrow> t_handle t i req out \<noteq> (Inl (Canceled e), acts, out')"
  shows "\<exists>m'. fst (executeTools x ivn m p) = Inr m'"
proof -
  have part: "\<exists>v' acts out'. handleTools ivn v out = (Inr v', acts, out')" for v out
  proof (cases "find (\<lambda>t. t_name t = tool_name v) (inv_tools ivn)")
    case (Some t)
    then have t: "t \<in> set (inv_tools ivn)" by (auto simp: find_Some_iff)
    obtain r acts out' where r: "t_handle t (tool_id v) (tool_request v) out = (r, acts, out')" by (metis prod_cases3)
    have "r \<noteq> Inl (Canceled e)" for e using assms [OF t] r by auto
    then show ?thesis using Some r by (auto simp: handleTools_def split: sum.splits terror.splits)
  qed (simp add: handleTools_def)
  have step: "ex_err (exec_part ivn i s) = ex_err s" for i s
  proof (cases "i < length (parts (ex_message s))")
    case True
    obtain q where q: "parts (ex_message s) ! i = q" by simp
    show ?thesis
    proof (cases q)
      case (ToolPart v)
      with part [of v "ex_outside s"] True q show ?thesis by (auto simp: exec_part_def Let_def)
    qed (use True q in \<open>auto simp: exec_part_def\<close>)
  qed (simp add: exec_part_def)
  have "ex_err (fold (exec_part ivn) order s) = ex_err s" for order s
    by (induction order arbitrary: s) (simp_all add: step)
  then show ?thesis by (simp add: executeTools_def Let_def)
qed

lemma executeTools_role: "fst (executeTools x ivn m p) = Inr m' \<Longrightarrow> role m' = role m"
  using executeTools_result(1) by (metis message.select_convs(2) message.surjective message.update_convs(3,9))

section \<open>The transcript of a run\<close>

abbreviation hist :: "nat \<Rightarrow> 'p world \<Rightarrow> message list" where
  "hist r w \<equiv> sess_history (sessions w r)"

lemma hist_append [simp]: "hist r (append_to s m w) = (if r = s then hist r w @ [m] else hist r w)"
  by (simp add: append_to_def Append_def)

lemma hist_set_state [simp]: "hist r (set_state_of s k v w) = hist r w"
  by (simp add: set_state_of_def SetState_def)

lemma hist_save [simp]: "hist r (saveOutputState a ivn m w) = hist r w"
  by (auto simp: saveOutputState_def split: option.split)

lemma hist_request [simp]: "hist r (snd (request_messages a sref ivn first local w)) = hist r w"
  by (auto simp: request_messages_def Let_def on_session_def History_def split: option.splits prod.splits sum.splits)

text \<open>The world at each event has in its history exactly the messages yielded before it.\<close>

fun follows :: "nat \<Rightarrow> message list \<Rightarrow> (event \<times> 'p world) list \<Rightarrow> 'p world \<Rightarrow> bool" where
  "follows r h [] w = (hist r w = h)"
| "follows r h ((Inr m, v) # t) w = (hist r v = h \<and> follows r (h @ [m]) t w)"
| "follows r h ((Inl e, v) # t) w = (hist r v = h \<and> t = [] \<and> hist r w = h)"

definition speaks :: "'p agent \<Rightarrow> bool" where
  "speaks a \<longleftrightarrow> (\<forall>req p. \<forall>m p'. p_generate (the_model a) req p = (Inr (Some m), p') \<longrightarrow>
     role m = RoleAssistant \<or> role m = RoleTool)"

lemma follows_nth:
  "follows r h t w \<Longrightarrow> i < length t \<Longrightarrow> hist r (snd (t ! i)) = h @ map projr (take i (map fst t))"
proof (induction r h t w arbitrary: i rule: follows.induct)
  case (2 r h m v t w)
  then show ?case by (cases i) auto
qed auto

lemma follows_final:
  "follows r h t w \<Longrightarrow> hist r w = h @ map projr (filter (\<lambda>x. \<not> isl x) (map fst t))"
  by (induction r h t w rule: follows.induct) auto

text \<open>One non-streaming iteration: an error, or one message that is then appended.\<close>

lemma fail_with_trace [simp]:
  "gtrace (fail_with e w) = [(Inl e, w)]" "gfinal (fail_with e w) = (Leave (), w)"
  by (simp_all add: fail_with_def)

lemma generate_once_cases:
  assumes "speaks a" and "hist sref w = h"
  obtains (error) e v where "gtrace (generate_once a ivn req w) = [(Inl e, v)]" "hist sref v = h"
      "gfinal (generate_once a ivn req w) = (Leave (), v)"
  | (answer) m v where "gtrace (generate_once a ivn req w) = [(Inr m, v)]" "hist sref v = h"
      "role m = RoleAssistant" "gfinal (generate_once a ivn req w) = (Next (Some m), v)"
  | (call) m v where "gtrace (generate_once a ivn req w) = []" "hist sref v = h"
      "role m = RoleTool" "gfinal (generate_once a ivn req w) = (Next (Some m), v)"
proof -
  obtain r p where g: "p_generate (the_model a) req (outside w) = (r, p)" by fastforce
  let ?w = "w\<lparr>outside := p\<rparr>"
  consider e where "r = Inl e" | "r = Inr None" | m where "r = Inr (Some m)"
    by (metis option.exhaust sum.exhaust)
  then show thesis
  proof cases
    case 1
    with g assms show thesis by (intro error [of e ?w]) (auto simp: generate_once_def)
  next
    case 2
    with g assms show thesis by (intro error [of ErrNoFinalResponse ?w]) (auto simp: generate_once_def)
  next
    case (3 m)
    let ?m = "stamp a ivn m"
    have role: "role ?m = role m" by (simp add: stamp_def)
    show thesis
    proof (cases "role m = RoleAssistant")
      case True
      with g 3 assms role show thesis
        by (intro answer [of ?m "saveOutputState a ivn ?m ?w"]) (auto simp: generate_once_def Let_def)
    next
      case False
      then have "role m = RoleTool" using assms(1) g 3 unfolding speaks_def by blast
      with g 3 assms role show thesis
        by (intro call [of ?w ?m]) (auto simp: generate_once_def Let_def)
    qed
  qed
qed

lemma after_answer:
  assumes "role m \<noteq> RoleTool" and "\<not> inv_stream ivn"
  shows "gtrace (after_model x a sref ivn local (Some m) w) = []"
    and "gfinal (after_model x a sref ivn local (Some m) w) = (Leave (), append_to sref m w)"
  using assms by (simp_all add: after_model_def)

lemma after_call_cases:
  assumes "role m = RoleTool" and "\<not> inv_stream ivn" and "hist sref w = h"
  obtains (error) e v where "gtrace (after_model x a sref ivn local (Some m) w) = [(Inl e, v)]"
      "hist sref v = h" "gfinal (after_model x a sref ivn local (Some m) w) = (Leave (), v)"
  | (tools) tm v c where "gtrace (after_model x a sref ivn local (Some m) w) = [(Inr tm, v)]"
      "hist sref v = h" "gfinal (after_model x a sref ivn local (Some m) w) = (c, append_to sref tm v)"
proof -
  obtain r p where g: "executeTools x ivn m (outside w) = (r, p)" by fastforce
  show thesis
  proof (cases r)
    case (Inl e)
    with g assms show thesis by (intro error [of e "w\<lparr>outside := p\<rparr>"]) (auto simp: after_model_def run_tools_def persist_tools_def)
  next
    case (Inr tm)
    with g assms show thesis
      by (intro tools [of tm "w\<lparr>outside := p\<rparr>"
            "if actions tm ActionLoopExit \<noteq> None then Leave () else
             Next (if loadHistory a ivn then local else local @ [Some tm])"])
        (auto simp: after_model_def run_tools_def persist_tools_def)
  qed
qed

lemma iteration_follows:
  assumes "speaks a" and st: "\<not> inv_stream ivn" and h: "hist sref w = h"
  shows "follows sref h (gtrace (iteration x a sref ivn first local w)) (snd (gfinal (iteration x a sref ivn first local w)))
    \<and> ((\<exists>m v. gtrace (iteration x a sref ivn first local w) = [(Inr m, v)]) \<or>
       fst (gfinal (iteration x a sref ivn first local w)) = Leave ())"
proof -
  obtain r w1 where r: "request_messages a sref ivn first local w = (r, w1)" by fastforce
  have "hist sref (snd (request_messages a sref ivn first local w)) = h" using h by simp
  with r have h1: "hist sref w1 = h" by simp
  show ?thesis
  proof (cases r)
    case (Inl e)
    with r h1 show ?thesis by (simp add: iteration_def)
  next
    case (Inr ms)
    let ?g = "generate_once a ivn (model_request ivn ms) w1"
    from assms(1) h1 show ?thesis
    proof (cases rule: generate_once_cases [where ivn = ivn and req = "model_request ivn ms"])
      case (error e v)
      with r Inr st show ?thesis by (simp add: iteration_def)
    next
      case (answer m v)
      with r Inr st show ?thesis by (simp add: iteration_def after_answer)
    next
      case (call m v)
      from call(3) st call(2) show ?thesis
      proof (cases rule: after_call_cases [where x = x and a = a and local = local])
        case (error e u)
        with call r Inr st show ?thesis by (simp add: iteration_def)
      next
        case (tools tm u c)
        with call r Inr st show ?thesis by (simp add: iteration_def)
      qed
    qed
  qed
qed

lemma iterations_follows:
  assumes "speaks a" and st: "\<not> inv_stream ivn" and "hist sref w = h"
  shows "follows sref h (gtrace (iterations x a sref ivn n first local w))
    (snd (gfinal (iterations x a sref ivn n first local w)))"
  using assms(3)
proof (induction n arbitrary: first local w h)
  case (Suc n)
  let ?i = "iteration x a sref ivn first local w"
  have f: "follows sref h (gtrace ?i) (snd (gfinal ?i))"
    and c: "(\<exists>m v. gtrace ?i = [(Inr m, v)]) \<or> fst (gfinal ?i) = Leave ()"
    using iteration_follows [OF assms(1) st Suc.prems, of x first local] by auto
  show ?case
  proof (cases "fst (gfinal ?i)")
    case (Leave u)
    with f show ?thesis by simp
  next
    case (Next local')
    with c obtain m v where i: "gtrace ?i = [(Inr m, v)]" by auto
    with f have "hist sref (snd (gfinal ?i)) = h @ [m]" "hist sref v = h" by auto
    with Suc.IH [of "snd (gfinal ?i)" "h @ [m]" False local'] Next i show ?thesis by simp
  qed
qed simp

section \<open>One commit of the user's message\<close>

definition user_count :: "nat \<Rightarrow> 'p world \<Rightarrow> nat" where
  "user_count r w = length (filter (\<lambda>m. role m = RoleUser) (hist r w))"

text \<open>The number of user messages in session \<open>r\<close> grows exactly when flag \<open>f\<close> is set.\<close>

definition committed_once :: "nat \<Rightarrow> nat \<Rightarrow> 'p world \<Rightarrow> 'p world \<Rightarrow> bool" where
  "committed_once r f w w' \<longleftrightarrow> (flags w f \<longrightarrow> flags w' f) \<and>
     user_count r w' + (if flags w f then 1 else 0) = user_count r w + (if flags w' f then 1 else 0)"

lemma committed_once_reflp: "reflp (committed_once r f)"
  by (simp add: reflp_def committed_once_def)

lemma committed_once_transp: "transp (committed_once r f)"
  by (auto simp: transp_def committed_once_def)

lemmas once_rules = committed_once_reflp committed_once_transp

text \<open>The model never speaks for the user.\<close>

definition quiet_model :: "'p agent \<Rightarrow> bool" where
  "quiet_model a \<longleftrightarrow>
     (\<forall>req p m p'. p_generate (the_model a) req p = (Inr (Some m), p') \<longrightarrow> role m \<noteq> RoleUser) \<and>
     (\<forall>req p m. Inr (Some m) \<in> set (fst (p_streaming (the_model a) req p)) \<longrightarrow> role m \<noteq> RoleUser)"

lemma once_same:
  "flags w' = flags w \<Longrightarrow> (\<And>r. user_count r w' = user_count r w) \<Longrightarrow> committed_once r f w w'"
  by (simp add: committed_once_def)

lemma once_outside [simp]: "committed_once r f w (w\<lparr>outside := p\<rparr>)"
  by (rule once_same) (simp_all add: user_count_def)

lemma once_save [simp]: "committed_once r f w (saveOutputState a ivn m w)"
  by (rule once_same)
    (auto simp: user_count_def saveOutputState_def set_state_of_def SetState_def split: option.split)

lemma once_append [simp]: "role m \<noteq> RoleUser \<Longrightarrow> committed_once r f w (append_to s m w)"
  by (rule once_same) (auto simp: user_count_def append_to_def Append_def)

lemma once_request [simp]: "committed_once r f w (snd (request_messages a sref ivn first local w))"
  by (rule once_same) (auto simp: user_count_def request_messages_def Let_def on_session_def History_def
      split: option.splits prod.splits sum.splits)

lemma fail_with_once: "gsteps (committed_once r f) (fail_with e w) w"
  unfolding fail_with_def by (rule gsteps_gthen [OF once_rules]) (simp_all add: once_rules)

definition next_ok :: "(message option, 'r) ctl \<Rightarrow> bool" where
  "next_ok c \<longleftrightarrow> (\<forall>m. c = Next (Some m) \<longrightarrow> role m \<noteq> RoleUser)"

lemma save_yield_once:
  "gsteps (committed_once r f) (gthen (gact (\<lambda>w. ((), saveOutputState a ivn m w)))
     (\<lambda>_. gthen (gyield x) (\<lambda>_. greturn c)) w) w"
  by (intro gsteps_gthen [OF once_rules]) (simp_all add: once_rules)

lemma stream_event_once:
  assumes "\<forall>m. res = Inr (Some m) \<longrightarrow> role m \<noteq> RoleUser"
  shows "gsteps (committed_once r f) (stream_event a ivn prev res w) w" and "gres next_ok (stream_event a ivn prev res w)"
proof -
  have role: "role (stamp a ivn m) = role m" for m by (simp add: stamp_def)
  show "gsteps (committed_once r f) (stream_event a ivn prev res w) w"
    unfolding stream_event_def
    by (auto simp: fail_with_once save_yield_once once_rules Let_def split: sum.split option.split)
  show "gres next_ok (stream_event a ivn prev res w)"
    using assms unfolding stream_event_def fail_with_def
    by (auto simp: Let_def next_ok_def role gthen_def gact_def gyield_def greturn_def
        split: sum.split option.split)
qed

lemma generate_once_once:
  assumes "quiet_model a"
  shows "gsteps (committed_once r f) (generate_once a ivn req w) w" and "gres next_ok (generate_once a ivn req w)"
proof -
  obtain res p where g: "p_generate (the_model a) req (outside w) = (res, p)" by fastforce
  have "\<forall>m. res = Inr (Some m) \<longrightarrow> role m \<noteq> RoleUser" using assms g unfolding quiet_model_def by blast
  moreover have "role (stamp a ivn m) = role m" for m by (simp add: stamp_def)
  ultimately show "gres next_ok (generate_once a ivn req w)"
    using g unfolding generate_once_def fail_with_def
    by (auto simp: Let_def next_ok_def gthen_def gact_def gyield_def greturn_def split: sum.split option.split)
  show "gsteps (committed_once r f) (generate_once a ivn req w) w"
    unfolding generate_once_def
    by (rule gsteps_gthen [OF once_rules])
      (auto simp: fail_with_once save_yield_once once_rules Let_def split: prod.split sum.split option.split)
qed

lemma generate_stream_once:
  assumes "quiet_model a"
  shows "gsteps (committed_once r f) (generate_stream a ivn req w) w" and "gres next_ok (generate_stream a ivn req w)"
proof -
  obtain rs p where g: "p_streaming (the_model a) req (outside w) = (rs, p)" by fastforce
  have "role m \<noteq> RoleUser" if "Inr (Some m) \<in> set rs" for m
  proof -
    have "Inr (Some m) \<in> set (fst (p_streaming (the_model a) req (outside w)))" using that g by simp
    with assms show ?thesis unfolding quiet_model_def by blast
  qed
  then have ok: "res \<in> set rs \<Longrightarrow> \<forall>m. res = Inr (Some m) \<longrightarrow> role m \<noteq> RoleUser" for res by blast
  have "gsteps (committed_once r f) (gforeach rs (stream_event a ivn) None v) v" for v
    by (rule gsteps_gforeach [OF once_rules]) (rule stream_event_once(1) [OF ok])
  then show "gsteps (committed_once r f) (generate_stream a ivn req w) w"
    unfolding generate_stream_def gthen_def gact_def
    by (simp add: g) (rule gsteps_trans [OF committed_once_transp once_outside])
  have "gres next_ok (gforeach rs (stream_event a ivn) None v)" for v
    by (rule gres_gforeach) (simp add: next_ok_def, rule stream_event_once(2) [OF ok])
  then show "gres next_ok (generate_stream a ivn req w)"
    unfolding generate_stream_def gthen_def gact_def using g by auto
qed

lemma persist_tools_once:
  assumes "\<forall>tm. res = Inr tm \<longrightarrow> role tm \<noteq> RoleUser"
  shows "gsteps (committed_once r f) (persist_tools a sref ivn local res w) w"
  using assms unfolding persist_tools_def
  by (auto simp: fail_with_once once_rules split: sum.split intro!: gsteps_gthen [OF once_rules])

lemma run_tools_facts:
  "committed_once r f w (snd (run_tools x ivn m w))"
  "fst (run_tools x ivn m w) = Inr tm \<Longrightarrow> role tm = role m"
  using executeTools_role [of x ivn m "outside w" tm] by (auto simp: run_tools_def split: prod.splits)

lemma after_model_once:
  assumes "\<forall>m. final = Some m \<longrightarrow> role m \<noteq> RoleUser"
  shows "gsteps (committed_once r f) (after_model x a sref ivn local final w) w"
proof -
  have "gsteps (committed_once r f) (gthen (gact (run_tools x ivn m)) (persist_tools a sref ivn local) w) w"
    if "role m \<noteq> RoleUser" for m
    by (rule gsteps_gthen_res [OF committed_once_transp, where P = "\<lambda>r. \<forall>tm. r = Inr tm \<longrightarrow> role tm \<noteq> RoleUser"])
      (use that run_tools_facts(2) [of x ivn m w] in \<open>auto simp: run_tools_facts(1) intro: persist_tools_once\<close>)
  then show ?thesis
    using assms unfolding after_model_def
    by (auto simp: fail_with_once once_rules split: option.split intro!: gsteps_gthen [OF once_rules])
qed

lemma iteration_once:
  assumes "quiet_model a"
  shows "gsteps (committed_once r f) (iteration x a sref ivn first local w) w"
  unfolding iteration_def
proof (rule gsteps_gthen [OF once_rules])
  fix res v
  have "gsteps (committed_once r f) (gthen (if inv_stream ivn then generate_stream a ivn req else generate_once a ivn req)
      (\<lambda>c. case c of Leave _ \<Rightarrow> greturn (Leave ()) | Next final \<Rightarrow> after_model x a sref ivn local final) v) v" for req
    by (rule gsteps_gthen_res [OF committed_once_transp, where P = next_ok])
      (auto simp: generate_stream_once generate_once_once assms next_ok_def after_model_once once_rules
        split: ctl.split)
  then show "gsteps (committed_once r f) ((case res of Inl e \<Rightarrow> fail_with e | Inr ms \<Rightarrow>
     gthen (if inv_stream ivn then generate_stream a ivn (model_request ivn ms) else generate_once a ivn (model_request ivn ms))
      (\<lambda>c. case c of Leave _ \<Rightarrow> greturn (Leave ()) | Next final \<Rightarrow> after_model x a sref ivn local final)) v) v"
    by (auto simp: fail_with_once split: sum.split)
qed simp

lemma iterations_once:
  assumes "quiet_model a"
  shows "gsteps (committed_once r f) (iterations x a sref ivn n first local w) w"
proof (induction n arbitrary: first local w)
  case (Suc n)
  show ?case
    unfolding iterations.simps
    by (rule gsteps_gthen [OF once_rules iteration_once [OF assms]])
      (auto simp: Suc once_rules split: ctl.split)
qed (simp add: once_rules)

text \<open>An invocation for session \<open>r\<close> whose user message is guarded by flag \<open>f\<close>.\<close>

definition guarded :: "nat \<Rightarrow> 'p invocation \<Rightarrow> bool" where
  "guarded f ivn \<longleftrightarrow> inv_committed ivn = Some f \<and> \<not> inv_resume ivn \<and>
     (\<exists>m. inv_message ivn = Some m \<and> role m = RoleUser)"

lemma clone_id [simp]: "clone_invocation ivn = ivn"
  by (cases ivn) (simp add: clone_invocation_def Clone_def split: option.split)

lemma prepend_keeps [simp]:
  "inv_committed (prepend_instruction x t ivn) = inv_committed ivn"
  "inv_resume (prepend_instruction x t ivn) = inv_resume ivn"
  "inv_message (prepend_instruction x t ivn) = inv_message ivn"
  by (simp_all add: prepend_instruction_def)

lemma prepareInvocation_guarded:
  assumes "guarded f ivn" and "prepareInvocation x a ivn w = (r, w')"
  shows "w' = w" and "r = Inr ivn' \<Longrightarrow> guarded f ivn'"
proof -
  have f: "with_flag ivn w = (ivn, w)" using assms(1) by (simp add: with_flag_def guarded_def)
  then show "w' = w" using assms(2) by (simp add: prepareInvocation_def)
  assume "r = Inr ivn'"
  with f assms show "guarded f ivn'"
    by (auto simp: prepareInvocation_def guarded_def Let_def static_instruction_def provided_instruction_def
        split: sum.splits option.splits prod.splits if_splits)
qed

lemma commit_guarded:
  assumes "guarded f ivn" and "commit_message r ivn w = (ivn', w')"
  shows "committed_once r f w w'" and "flags w' f"
proof -
  obtain m where m: "inv_message ivn = Some m" "role m = RoleUser" "inv_committed ivn = Some f" "\<not> inv_resume ivn"
    using assms(1) by (auto simp: guarded_def)
  show "committed_once r f w w'" "flags w' f"
    using assms(2) m
    by (auto simp: commit_message_def cas_flag_def committed_once_def user_count_def append_to_def Append_def
        Let_def split: if_splits)
qed

primrec head_world :: "('x, 'w, 'r) gen \<Rightarrow> 'w" where
  "head_world (Ret r w) = w"
| "head_world (Yld x w k) = w"

lemma gsteps_head: "gsteps R g w \<Longrightarrow> R w (head_world g)"
  by (cases g) auto

lemma Run_once:
  assumes q: "quiet_model a" and g: "guarded f ivn" and c: "ctx_session c = Some r"
  shows "gsteps (committed_once r f) (Run x (without_middlewares a) c ivn w) w"
    and "\<exists>i. fst (prepareInvocation x (without_middlewares a) ivn w) = Inr i \<Longrightarrow>
      flags (head_world (Run x (without_middlewares a) c ivn w)) f"
proof -
  let ?a = "without_middlewares a"
  have qa: "quiet_model ?a" using q by (simp add: quiet_model_def the_model_def without_middlewares_def)
  obtain p w2 where p: "prepareInvocation x ?a ivn w = (p, w2)" by fastforce
  have w2: "w2 = w" using prepareInvocation_guarded(1) [OF g p] .
  have "gsteps (committed_once r f) (Run x ?a c ivn w) w \<and>
    ((\<exists>i. p = Inr i) \<longrightarrow> flags (head_world (Run x ?a c ivn w)) f)"
  proof (cases p)
    case (Inl e)
    then show ?thesis by (simp add: Run_plain EnsureSession_def c p w2 once_rules)
  next
    case (Inr i)
    obtain i' w3 where k: "commit_message r i w = (i', w3)" by fastforce
    have gi: "guarded f i" using prepareInvocation_guarded(2) [OF g p Inr] .
    have h: "gsteps (committed_once r f) (handle x ?a r i' w3) w3"
      unfolding handle_def by (rule iterations_once [OF qa])
    have "Run x ?a c ivn w = handle x ?a r i' w3"
      by (simp add: Run_plain EnsureSession_def c p w2 Inr k)
    moreover have "flags (head_world (handle x ?a r i' w3)) f"
      using gsteps_head [OF h] commit_guarded(2) [OF gi k] by (simp add: committed_once_def)
    ultimately show ?thesis
      using gsteps_trans [OF committed_once_transp commit_guarded(1) [OF gi k] h] by simp
  qed
  with p show "gsteps (committed_once r f) (Run x ?a c ivn w) w"
    "\<exists>i. fst (prepareInvocation x ?a ivn w) = Inr i \<Longrightarrow> flags (head_world (Run x ?a c ivn w)) f" by auto
qed

lemma forward_once: "gsteps (committed_once r f) (forward note l x w) w"
  unfolding forward_def
  by (auto simp: once_rules split: sum.split intro!: gsteps_gthen [OF once_rules])

lemma sequential_once:
  assumes "\<forall>a \<in> set agents. quiet_model a" and g: "guarded f ivn" and c: "ctx_session c = Some r"
  shows "gsteps (committed_once r f)
    (SequentialAgent_Run (map (\<lambda>a. Run x (without_middlewares a)) agents) c ivn w) w"
proof -
  have "gsteps (committed_once r f) (gforeach (map (\<lambda>a. Run x (without_middlewares a)) agents)
     (\<lambda>_ agent w. grange (agent c (clone_invocation ivn) w) (forward (\<lambda>_ _. ())) ()) () w) w"
    by (rule gsteps_gforeach [OF once_rules])
      (use assms(1) in \<open>auto intro!: gsteps_grange [OF once_rules] Run_once(1) [OF _ g c] forward_once\<close>)
  then show ?thesis
    unfolding SequentialAgent_Run_def
    by (rule gsteps_gbind [OF once_rules]) (simp add: committed_once_def)
qed

lemma forward_flag:
  assumes "gsteps (committed_once r f) g w" and "flags (head_world g) f"
  shows "flags (snd (gfinal (grange g (forward note) l))) f"
proof (cases g)
  case (Yld x v k)
  then have k: "gsteps (committed_once r f) (k v) v" and v: "flags v f" using assms by auto
  have "committed_once r f v (snd (gfinal (grange (k v) (forward note) l')))" for l'
    by (rule gsteps_final [OF once_rules gsteps_grange [OF once_rules k forward_once]])
  with v Yld show ?thesis by (cases x) (auto simp: forward_def committed_once_def)
qed (use assms in simp)

lemma sequential_flag:
  assumes "agents \<noteq> []" and q: "\<forall>a \<in> set agents. quiet_model a" and g: "guarded f ivn" and c: "ctx_session c = Some r"
    and p: "\<And>a v. a \<in> set agents \<Longrightarrow> \<exists>i. fst (prepareInvocation x (without_middlewares a) ivn v) = Inr i"
  shows "flags (snd (gfinal (SequentialAgent_Run (map (\<lambda>a. Run x (without_middlewares a)) agents) c ivn w))) f"
proof -
  obtain a as where as: "agents = a # as" using assms(1) by (cases agents) auto
  let ?body = "\<lambda>_ agent w. grange (agent c (clone_invocation ivn) w) (forward (\<lambda>_ _. ())) ()"
  let ?first = "grange (Run x (without_middlewares a) c ivn w) (forward (\<lambda>_ _. ())) ()"
  have "flags (snd (gfinal ?first)) f"
    by (rule forward_flag [OF Run_once(1) [OF _ g c] Run_once(2) [OF _ g c]]) (use q p as in auto)
  moreover have "gsteps (committed_once r f) (gforeach (map (\<lambda>a. Run x (without_middlewares a)) as) ?body () v) v" for v
    by (rule gsteps_gforeach [OF once_rules])
      (use q as in \<open>auto intro!: gsteps_grange [OF once_rules] Run_once(1) [OF _ g c] forward_once\<close>)
  then have "committed_once r f v (snd (gfinal (gforeach (map (\<lambda>a. Run x (without_middlewares a)) as) ?body () v)))" for v
    by (rule gsteps_final [OF once_rules])
  ultimately show ?thesis
    unfolding as SequentialAgent_Run_def by (auto simp: committed_once_def split: ctl.split)
qed

text \<open>Goroutines each of which changes the world along \<open>R\<close> change it along \<open>R\<close> together.\<close>

lemma parallel_steps:
  assumes "reflp R" and "transp R" and "parallel_run ps w es v" and "\<forall>p \<in> set ps. \<forall>w. gsteps R (p w) w"
  shows "R w v"
  using assms(3,4)
proof (induction rule: parallel_run.induct)
  case (par_closed w)
  then show ?case using assms(1) by (simp add: reflpD)
next
  case (par_returns p w w' xs ys es v)
  have "gsteps R (p w) w" using par_returns.prems by simp
  then have "R w w'" using par_returns.hyps(1) by simp
  moreover have "R w' v" by (rule par_returns.IH) (use par_returns.prems in auto)
  ultimately show ?case by (rule transpD [OF assms(2)])
next
  case (par_sends p w m w' k xs ys es v)
  have "gsteps R (p w) w" using par_sends.prems by simp
  then have k: "R w w'" "\<forall>u. gsteps R (k u) u" using par_sends.hyps(1) by simp_all
  moreover have "R w' v" by (rule par_sends.IH) (use par_sends.prems k(2) in auto)
  ultimately show ?case by (blast intro: transpD [OF assms(2)])
next
  case (par_fails p w e w' k xs ys es v)
  have "gsteps R (p w) w" using par_fails.prems by simp
  then have "R w w'" using par_fails.hyps(1) by simp
  moreover have "R w' v" by (rule par_fails.IH) (use par_fails.prems in auto)
  ultimately show ?case by (rule transpD [OF assms(2)])
qed

lemma parallel_flag:
  assumes run: "parallel_run ps w es v" and "ps \<noteq> []"
    and steps: "\<forall>p \<in> set ps. \<forall>w. gsteps (committed_once r f) (p w) w"
    and first: "\<forall>p \<in> set ps. \<forall>w. flags (head_world (p w)) f"
  shows "flags v f"
  using run
proof cases
  case (par_returns p w' xs ys)
  have ps: "\<forall>q \<in> set (xs @ ys). \<forall>w. gsteps (committed_once r f) (q w) w" using steps par_returns(1) by auto
  have "flags w' f" using first par_returns by (metis head_world.simps(1) in_set_conv_decomp)
  with parallel_steps [OF once_rules par_returns(3) ps] show ?thesis by (simp add: committed_once_def)
next
  case (par_sends p m w' k xs ys es')
  have "gsteps (committed_once r f) (p w) w" using steps par_sends(1) by simp
  then have ps: "\<forall>q \<in> set (xs @ k # ys). \<forall>w. gsteps (committed_once r f) (q w) w"
    using steps par_sends(1,3) by auto
  have "flags w' f" using first par_sends(1,3) by (metis head_world.simps(2) in_set_conv_decomp)
  with parallel_steps [OF once_rules par_sends(4) ps] show ?thesis by (simp add: committed_once_def)
next
  case (par_fails p e w' k xs ys es')
  have ps: "\<forall>q \<in> set (xs @ ys). \<forall>w. gsteps (committed_once r f) (q w) w" using steps par_fails(1) by auto
  have "flags w' f" using first par_fails(1,3) by (metis head_world.simps(2) in_set_conv_decomp)
  with parallel_steps [OF once_rules par_fails(4) ps] show ?thesis by (simp add: committed_once_def)
qed (use assms(2) in simp)

text \<open>The user's message as \<open>Run\<close> appends it.\<close>

definition attributed :: "'p invocation \<Rightarrow> message \<Rightarrow> message" where
  "attributed ivn m = m\<lparr>author := (if author m = [] then ''user'' else author m),
     invocationID := (if invocationID m = [] then inv_id ivn else invocationID m)\<rparr>"

lemma prepare_keeps:
  assumes "prepareInvocation x a ivn w = (Inr i, w')"
  shows "inv_message i = inv_message ivn" and "inv_id i = inv_id ivn" and "inv_stream i = inv_stream ivn"
  using assms
  by (auto simp: prepareInvocation_def Let_def static_instruction_def provided_instruction_def with_flag_def
      prepend_instruction_def alloc_flag_def split: sum.splits option.splits prod.splits if_splits)

lemma Run_follows:
  assumes "speaks a" and st: "\<not> inv_stream ivn" and c: "ctx_session c = Some r"
    and g: "guarded f ivn" and m: "inv_message ivn = Some m"
    and p: "fst (prepareInvocation x (without_middlewares a) ivn w) = Inr i"
  shows "follows r (hist r w @ (if flags w f then [] else [attributed ivn m]))
    (gtrace (Run x (without_middlewares a) c ivn w)) (snd (gfinal (Run x (without_middlewares a) c ivn w)))"
proof -
  let ?a = "without_middlewares a"
  have sp: "speaks ?a" using assms(1) by (simp add: speaks_def the_model_def without_middlewares_def)
  have p': "prepareInvocation x ?a ivn w = (Inr i, w)"
    using p prepareInvocation_guarded(1) [OF g] by (metis prod.collapse)
  have gi: "guarded f i" using prepareInvocation_guarded(2) [OF g p'] by simp
  note k = prepare_keeps [OF p']
  obtain i' w3 where c3: "commit_message r i w = (i', w3)" by fastforce
  have i': "inv_stream i' = inv_stream ivn" "hist r w3 = hist r w @ (if flags w f then [] else [attributed ivn m])"
    using c3 gi m k by (auto simp: commit_message_def guarded_def cas_flag_def attributed_def Let_def append_to_def
        Append_def split: if_splits)
  have "Run x ?a c ivn w = handle x ?a r i' w3" by (simp add: Run_plain EnsureSession_def c p' c3)
  then show ?thesis using iterations_follows [OF sp _ i'(2)] i'(1) st by (simp add: handle_def)
qed

end
