(* ===== verification/Provider_Base.thy ===== *)
theory Provider_Base
  imports Agent_Session
begin

text \<open>
  What the adapters of model providers (\<open>contrib/openai\<close>, \<open>contrib/anthropic\<close>, \<open>contrib/gemini\<close>) have in
  common: the tools they describe to the service, and the interface \<open>model_provider\<close>, which is what the
  agent of the root package relies on.
\<close>

text \<open>What an adapter reads of a tool besides its name: the description, and the schemas of its input and
  its output if it has them. A schema is what its conversion to JSON gives, a text or an error.\<close>

type_synonym schema = "string + string"

record tool_doc =
  dc_text :: string
  dc_schema :: "schema option"
  dc_output :: "schema option"

type_synonym 'p describe = "'p tool \<Rightarrow> tool_doc"

section \<open>The interface of a model provider\<close>

text \<open>A pending call, as \<open>NewToolPart\<close> makes it, or a part that is no call.\<close>

definition fresh_part :: "part \<Rightarrow> bool" where
  "fresh_part q \<longleftrightarrow> (case q of ToolPart t \<Rightarrow> \<not> tool_completed t \<and> tool_response t = [] | _ \<Rightarrow> True)"

text \<open>A message made from an answer of the service: a tool message exactly if it calls a tool.\<close>

definition answer :: "status \<Rightarrow> message \<Rightarrow> bool" where
  "answer st m \<longleftrightarrow> status m = st \<and> (role m = RoleAssistant \<or> role m = RoleTool) \<and>
     (role m = RoleTool \<longleftrightarrow> (\<exists>t. ToolPart t \<in> set (parts m))) \<and> (\<forall>q \<in> set (parts m). fresh_part q)"

text \<open>A stream: incomplete messages, then nothing, an error or the completed message.\<close>

definition answer_stream :: "(aerror + message option) list \<Rightarrow> bool" where
  "answer_stream rs \<longleftrightarrow> (\<exists>ms end. rs = map (\<lambda>m. Inr (Some m)) ms @ end \<and> (\<forall>m \<in> set ms. answer StatusIncomplete m) \<and>
     (end = [] \<or> (\<exists>e. end = [Inl e]) \<or> (\<exists>m. end = [Inr (Some m)] \<and> answer StatusCompleted m)))"

locale model_provider =
  fixes provider :: "'p provider"
  assumes generates: "p_generate provider req p = (Inr om, q) \<Longrightarrow> \<exists>m. om = Some m \<and> answer StatusCompleted m"
    and streams: "answer_stream (fst (p_streaming provider req p))"
begin

lemma speaks: "a_model a = Some provider \<Longrightarrow> speaks a"
  using generates by (fastforce simp: speaks_def the_model_def answer_def)

lemma stream_roles:
  assumes "Inr (Some m) \<in> set (fst (p_streaming provider req p))"
  shows "role m = RoleAssistant \<or> role m = RoleTool"
proof -
  obtain ms "end" where e: "fst (p_streaming provider req p) = map (\<lambda>m. Inr (Some m)) ms @ end"
    "\<forall>m \<in> set ms. answer StatusIncomplete m"
    "end = [] \<or> (\<exists>e. end = [Inl e]) \<or> (\<exists>m. end = [Inr (Some m)] \<and> answer StatusCompleted m)"
    using streams [of req p] unfolding answer_stream_def by blast
  with assms show ?thesis by (auto simp: answer_def)
qed

lemma quiet: "a_model a = Some provider \<Longrightarrow> quiet_model a"
  using generates stream_roles by (fastforce simp: quiet_model_def the_model_def answer_def)

end

text \<open>Streams made by adapters: converted chunks, then what follows them.\<close>

lemma answer_streamI:
  assumes "\<forall>m \<in> set ms. answer StatusIncomplete m"
    and "end = [] \<or> (\<exists>e. end = [Inl e]) \<or> (\<exists>m. end = [Inr (Some m)] \<and> answer StatusCompleted m)"
  shows "answer_stream (map (\<lambda>m. Inr (Some m)) ms @ end)"
  using assms unfolding answer_stream_def by blast

lemma fresh_parts [simp]:
  "fresh_part (TextPart s)" "fresh_part (FilePart f)" "fresh_part (DataPart d)" "fresh_part (ToolPart (NewToolPart i n r))"
  by (simp_all add: fresh_part_def NewToolPart_def)

text \<open>The tool calls of a message, in order.\<close>

definition message_calls :: "message \<Rightarrow> toolPart list" where
  "message_calls m = concat (map (\<lambda>q. case q of ToolPart t \<Rightarrow> [t] | _ \<Rightarrow> []) (parts m))"

end
