(* ===== verification/OpenAI_Chat.thy ===== *)
theory OpenAI_Chat
  imports Provider_Base
begin

text \<open>
  The chat adapter for OpenAI-compatible services (\<open>contrib/openai/chat.go\<close>): a model request becomes the
  parameters of a chat completion, a completion or a chunk of a stream becomes a message. The client, its
  accumulator of chunks and the base64 decoder are fields of \<open>openai_env\<close>. A floating-point number is its
  decimal text, and \<open>oa_positive\<close> compares it with zero.
\<close>

section \<open>Types of the service\<close>

record call =
  cl_id :: string
  cl_name :: string
  cl_arguments :: string

datatype content_part =
    Content_Text string
  | Content_Image string
  | Content_Audio string string
  | Content_File string string

datatype chat_message =
    Chat_System "string list"
  | Chat_User "content_part list"
  | Chat_Assistant string
  | Chat_Calls "call list"
  | Chat_Tool string string

record function_def =
  fd_name :: string
  fd_description :: "string option"
  fd_parameters :: "string option"

record response_schema =
  rs_name :: string
  rs_description :: "string option"
  rs_json :: string

record chat_params =
  cp_tools :: "function_def list"
  cp_model :: string
  cp_reasoning :: string
  cp_seed :: "int option"
  cp_maxTokens :: "int option"
  cp_frequency :: "string option"
  cp_presence :: "string option"
  cp_temperature :: "string option"
  cp_topP :: "string option"
  cp_stop :: "string list"
  cp_extra :: "string \<rightharpoonup> anyval"
  cp_format :: "response_schema option"
  cp_usage :: bool
  cp_messages :: "chat_message list"

record choice =
  ch_content :: string
  ch_audio :: string
  ch_finish :: string
  ch_calls :: "call list"

record completion =
  co_usage :: tokenUsage
  co_choices :: "choice list"

record chat_config =
  cc_seed :: int
  cc_maxTokens :: int
  cc_frequency :: string
  cc_presence :: string
  cc_temperature :: string
  cc_topP :: string
  cc_stop :: "string list"
  cc_extra :: "string \<rightharpoonup> anyval"
  cc_reasoning :: string

record output_schema =
  os_title :: string
  os_description :: string
  os_json :: string

text \<open>A chunk of a stream is a completion whose choices are deltas; a stream ends with the error of the
  client, if any. \<open>oa_parameters\<close> decodes a schema into the parameters of a function.\<close>

record 'p openai_env =
  oa_describe :: "'p describe"
  oa_parameters :: "string \<Rightarrow> string + string"
  oa_positive :: "string \<Rightarrow> bool"
  oa_decode64 :: "string \<Rightarrow> string + string"
  oa_newID :: string
  oa_create :: "chat_params \<Rightarrow> 'p \<Rightarrow> (string + completion) \<times> 'p"
  oa_stream :: "chat_params \<Rightarrow> 'p \<Rightarrow> (completion list \<times> string option) \<times> 'p"
  oa_accumulate :: "completion list \<Rightarrow> completion"

section \<open>Requests\<close>

definition toTools :: "'p openai_env \<Rightarrow> 'p tool list \<Rightarrow> string + function_def list" where
  "toTools env tools = map_err (\<lambda>t.
     (let doc = oa_describe env t; fn = \<lparr>fd_name = t_name t,
         fd_description = (if dc_text doc \<noteq> [] then Some (dc_text doc) else None), fd_parameters = None\<rparr>
      in case dc_schema doc of
           None \<Rightarrow> Inr fn
         | Some schema \<Rightarrow> ebind (ebind schema (oa_parameters env)) (\<lambda>ps. Inr (fn\<lparr>fd_parameters := Some ps\<rparr>)))) tools"

definition toTextParts :: "message \<Rightarrow> string list" where
  "toTextParts m = concat (map (\<lambda>q. case q of TextPart t \<Rightarrow> [t] | _ \<Rightarrow> []) (parts m))"

definition content_of :: "part \<Rightarrow> content_part list" where
  "content_of q = (case q of
       TextPart t \<Rightarrow> [Content_Text t]
     | FilePart f \<Rightarrow> (if mime_type (file_mime f) = ''image'' then [Content_Image (file_uri f)]
         else if mime_type (file_mime f) = ''audio'' then [Content_Audio (file_uri f) (mime_format (file_mime f))] else [])
     | DataPart d \<Rightarrow> (if mime_type (data_mime d) = ''image''
           then [Content_Image (''data:'' @ data_mime d @ '';base64,'' @ base64 (data_bytes d))]
         else if mime_type (data_mime d) = ''audio''
           then [Content_Audio (''data:;base64,'' @ base64 (data_bytes d)) (mime_format (data_mime d))]
         else [Content_File (base64 (data_bytes d)) (data_name d)])
     | ToolPart t \<Rightarrow> [])"

definition toContentParts :: "message \<Rightarrow> content_part list" where
  "toContentParts m = concat (map content_of (parts m))"

definition call_of :: "toolPart \<Rightarrow> call" where
  "call_of t = \<lparr>cl_id = tool_id t, cl_name = tool_name t, cl_arguments = tool_request t\<rparr>"

definition toToolCallMessage :: "message \<Rightarrow> chat_message" where
  "toToolCallMessage m = Chat_Calls (map call_of (message_calls m))"

text \<open>The messages of one message of the request; a message with another role is skipped.\<close>

definition chat_messages :: "message \<Rightarrow> chat_message list" where
  "chat_messages m = (case role m of
       RoleUser \<Rightarrow> [Chat_User (toContentParts m)]
     | RoleAssistant \<Rightarrow> [Chat_Assistant (Text m)]
     | RoleSystem \<Rightarrow> [Chat_System (toTextParts m)]
     | RoleTool \<Rightarrow> toToolCallMessage m # map (\<lambda>t. Chat_Tool (tool_response t) (tool_id t)) (message_calls m)
     | RoleOther _ \<Rightarrow> [])"

definition response_format :: "output_schema \<Rightarrow> response_schema" where
  "response_format s = \<lparr>rs_name = (if os_title s \<noteq> [] then os_title s else ''structured_outputs''),
     rs_description = (if os_description s \<noteq> [] then Some (os_description s) else None), rs_json = os_json s\<rparr>"

text \<open>The messages of a request are pointers; a nil one, which panics, is left out.\<close>

definition toChatCompletionParams :: "'p openai_env \<Rightarrow> string \<Rightarrow> chat_config \<Rightarrow> output_schema option \<Rightarrow> bool \<Rightarrow>
    'p request \<Rightarrow> string + chat_params" where
  "toChatCompletionParams env model cfg schema isStreaming req =
     ebind (toTools env (req_tools req)) (\<lambda>tools.
       (let num = (\<lambda>n :: int. if n > 0 then Some n else None);
            float = (\<lambda>x. if oa_positive env x then Some x else None) in
        Inr \<lparr>cp_tools = tools, cp_model = model, cp_reasoning = cc_reasoning cfg, cp_seed = num (cc_seed cfg),
          cp_maxTokens = num (cc_maxTokens cfg), cp_frequency = float (cc_frequency cfg), cp_presence = float (cc_presence cfg),
          cp_temperature = float (cc_temperature cfg), cp_topP = float (cc_topP cfg), cp_stop = cc_stop cfg,
          cp_extra = cc_extra cfg, cp_format = map_option response_format schema, cp_usage = isStreaming,
          cp_messages = (case req_instruction req of None \<Rightarrow> [] | Some m \<Rightarrow> [Chat_System (toTextParts m)]) @
            concat (map (\<lambda>m. chat_messages (the m)) (req_messages req))\<rparr>))"

section \<open>Responses\<close>

definition call_part :: "call \<Rightarrow> part" where
  "call_part c = ToolPart (NewToolPart (cl_id c) (cl_name c) (cl_arguments c))"

definition add_calls :: "call list \<Rightarrow> message \<Rightarrow> message" where
  "add_calls cs m = m\<lparr>role := (if cs = [] then role m else RoleTool), parts := parts m @ map call_part cs\<rparr>"

definition add_finish :: "string \<Rightarrow> message \<Rightarrow> message" where
  "add_finish f m = m\<lparr>finishReason := (if f \<noteq> [] then f else finishReason m)\<rparr>"

definition text_part :: "string \<Rightarrow> part list" where
  "text_part t = (if t \<noteq> [] then [TextPart t] else [])"

fun add_choices :: "'p openai_env \<Rightarrow> choice list \<Rightarrow> message \<Rightarrow> string + message" where
  "add_choices env [] m = Inr m"
| "add_choices env (c # cs) m =
     ebind (if ch_audio c = [] then Inr [] else ebind (oa_decode64 env (ch_audio c))
         (\<lambda>b. Inr [DataPart \<lparr>data_name = [], data_bytes = b, data_mime = []\<rparr>]))
       (\<lambda>audio. add_choices env cs
          (add_calls (ch_calls c) (add_finish (ch_finish c) (m\<lparr>parts := parts m @ text_part (ch_content c) @ audio\<rparr>))))"

text \<open>Not used in the repository.\<close>

definition choiceToToolCalls :: "choice list \<Rightarrow> message" where
  "choiceToToolCalls choices = fold (\<lambda>c m. m\<lparr>parts := parts m @ text_part (ch_content c) @ map call_part (ch_calls c)\<rparr>)
     choices (zero_message\<lparr>role := RoleTool, status := StatusCompleted\<rparr>)"

definition choiceToResponse :: "'p openai_env \<Rightarrow> completion \<Rightarrow> string + message" where
  "choiceToResponse env cc = add_choices env (co_choices cc)
     ((NewAssistantMessage (oa_newID env) StatusCompleted)\<lparr>usage := co_usage cc\<rparr>)"

definition add_delta :: "choice \<Rightarrow> message \<Rightarrow> message" where
  "add_delta c m = add_calls (ch_calls c) (add_finish (ch_finish c) (m\<lparr>parts := parts m @ text_part (ch_content c)\<rparr>))"

definition chunkChoiceToResponse :: "'p openai_env \<Rightarrow> choice list \<Rightarrow> message" where
  "chunkChoiceToResponse env choices = fold add_delta choices (NewAssistantMessage (oa_newID env) StatusIncomplete)"

section \<open>The model\<close>

definition as_response :: "string + message \<Rightarrow> aerror + message option" where
  "as_response r = (case r of Inl e \<Rightarrow> Inl (OtherErr e) | Inr m \<Rightarrow> Inr (Some m))"

definition chat_Generate :: "'p openai_env \<Rightarrow> string \<Rightarrow> chat_config \<Rightarrow> output_schema option \<Rightarrow> 'p request \<Rightarrow> 'p \<Rightarrow>
    (aerror + message option) \<times> 'p" where
  "chat_Generate env model cfg schema req p = (case toChatCompletionParams env model cfg schema False req of
       Inl e \<Rightarrow> (Inl (OtherErr e), p)
     | Inr params \<Rightarrow> (case oa_create env params p of
           (Inl e, q) \<Rightarrow> (Inl (OtherErr e), q)
         | (Inr cc, q) \<Rightarrow> (as_response (choiceToResponse env cc), q)))"

definition chat_NewStreaming :: "'p openai_env \<Rightarrow> string \<Rightarrow> chat_config \<Rightarrow> output_schema option \<Rightarrow> 'p request \<Rightarrow> 'p \<Rightarrow>
    (aerror + message option) list \<times> 'p" where
  "chat_NewStreaming env model cfg schema req p = (case toChatCompletionParams env model cfg schema True req of
       Inl e \<Rightarrow> ([Inl (OtherErr e)], p)
     | Inr params \<Rightarrow> (case oa_stream env params p of
         ((chunks, err), q) \<Rightarrow>
           (map (\<lambda>m. Inr (Some m)) (map (chunkChoiceToResponse env \<circ> co_choices) chunks) @
             [case err of Some e \<Rightarrow> Inl (OtherErr e)
              | None \<Rightarrow> as_response (choiceToResponse env (oa_accumulate env chunks))], q)))"

definition chatModel :: "'p openai_env \<Rightarrow> string \<Rightarrow> chat_config \<Rightarrow> output_schema option \<Rightarrow> 'p provider" where
  "chatModel env model cfg schema = \<lparr>p_name = model, p_generate = chat_Generate env model cfg schema,
     p_streaming = chat_NewStreaming env model cfg schema\<rparr>"

section \<open>The adapter keeps the contract of a provider\<close>

lemma answer_new: "answer st (NewAssistantMessage i st)" "answer st ((NewAssistantMessage i st)\<lparr>usage := u\<rparr>)"
  by (simp_all add: answer_def NewAssistantMessage_def zero_message_def)

lemma answer_add:
  assumes "answer st m" and "\<forall>q \<in> set qs. fresh_part q \<and> (\<forall>t. q \<noteq> ToolPart t)"
  shows "answer st (add_calls cs (add_finish f (m\<lparr>parts := parts m @ qs\<rparr>)))"
proof -
  have "(\<exists>t. ToolPart t \<in> set (map call_part cs)) \<longleftrightarrow> cs \<noteq> []" by (cases cs) (auto simp: call_part_def)
  moreover have "\<forall>q \<in> set (map call_part cs). fresh_part q" by (auto simp: call_part_def)
  ultimately show ?thesis using assms by (auto simp: answer_def add_calls_def add_finish_def)
qed

lemma text_part_plain: "\<forall>q \<in> set (text_part t). fresh_part q \<and> (\<forall>u. q \<noteq> ToolPart u)"
  by (simp add: text_part_def)

lemma choices_answer: "add_choices env cs m = Inr m' \<Longrightarrow> answer st m \<Longrightarrow> answer st m'"
proof (induction cs arbitrary: m)
  case (Cons c cs)
  then obtain audio where a: "(if ch_audio c = [] then Inr [] else ebind (oa_decode64 env (ch_audio c))
         (\<lambda>b. Inr [DataPart \<lparr>data_name = [], data_bytes = b, data_mime = []\<rparr>])) = Inr audio"
    "add_choices env cs (add_calls (ch_calls c) (add_finish (ch_finish c)
      (m\<lparr>parts := parts m @ text_part (ch_content c) @ audio\<rparr>))) = Inr m'" by auto
  have plain: "\<forall>q \<in> set audio. fresh_part q \<and> (\<forall>u. q \<noteq> ToolPart u)" using a(1) by (auto split: if_splits)
  show ?case
    by (rule Cons.IH [OF a(2)], rule answer_add [OF Cons.prems(2)]) (use plain text_part_plain in auto)
qed simp

lemma chunk_answer: "answer StatusIncomplete (chunkChoiceToResponse env choices)"
proof -
  have "answer StatusIncomplete m \<Longrightarrow> answer StatusIncomplete (fold add_delta choices m)" for m
    by (induction choices arbitrary: m) (simp_all add: add_delta_def answer_add text_part_plain)
  then show ?thesis by (simp add: chunkChoiceToResponse_def answer_new)
qed

lemma response_answer: "as_response (choiceToResponse env cc) = Inr om \<Longrightarrow> \<exists>m. om = Some m \<and> answer StatusCompleted m"
  by (auto simp: as_response_def choiceToResponse_def split: sum.splits dest: choices_answer [OF _ answer_new(2)])

interpretation openai: model_provider "chatModel env model cfg schema" for env model cfg schema
proof unfold_locales
  fix req p om q
  assume "p_generate (chatModel env model cfg schema) req p = (Inr om, q)"
  then show "\<exists>m. om = Some m \<and> answer StatusCompleted m"
    by (auto simp: chatModel_def chat_Generate_def split: sum.splits prod.splits dest: response_answer)
next
  fix req p
  let ?r = "\<lambda>cc. as_response (choiceToResponse env cc)"
  have last: "[r] = [] \<or> (\<exists>e. [r] = [Inl e]) \<or> (\<exists>m. [r] = [Inr (Some m)] \<and> answer StatusCompleted m)"
    if "r = ?r cc \<or> (\<exists>e. r = Inl e)" for r cc
    using that response_answer [of env cc] by (cases r) (auto dest: sym)
  show "answer_stream (fst (p_streaming (chatModel env model cfg schema) req p))"
  proof (cases "toChatCompletionParams env model cfg schema True req")
    case (Inl e)
    then show ?thesis
      using answer_streamI [of "[]" "[Inl (OtherErr e)]"] by (simp add: chatModel_def chat_NewStreaming_def)
  next
    case (Inr params)
    obtain chunks err q where s: "oa_stream env params p = ((chunks, err), q)" by (metis prod.exhaust)
    let ?fin = "case err of Some e \<Rightarrow> Inl (OtherErr e) | None \<Rightarrow> ?r (oa_accumulate env chunks)"
    have "answer_stream (map (\<lambda>m. Inr (Some m)) (map (chunkChoiceToResponse env \<circ> co_choices) chunks) @ [?fin])"
      by (rule answer_streamI [OF _ last]) (auto simp: chunk_answer split: option.split)
    then show ?thesis using Inr s by (simp add: chatModel_def chat_NewStreaming_def)
  qed
qed

end
