(* ===== verification/Claude_Model.thy ===== *)
theory Claude_Model
  imports Provider_Base
begin

text \<open>
  The adapter for Claude (\<open>contrib/anthropic/claude.go\<close>, \<open>types.go\<close>): a model request becomes the
  parameters of a message, with breakpoints for the prompt cache; a message or the events of a stream
  become messages. The client, the accumulator of events and the JSON codecs are fields of \<open>claude_env\<close>.
\<close>

section \<open>Types of the service\<close>

text \<open>The input of a call: a JSON value, or the text of a request that is not JSON.\<close>

datatype tool_input = Decoded string | Undecoded string

datatype block =
    Block_Text string
  | Block_ToolUse string tool_input string
  | Block_ToolResult string string

text \<open>Blocks, system texts and tools carry a flag for \<open>cache_control\<close>.\<close>

record claude_message =
  cm_assistant :: bool
  cm_content :: "(block \<times> bool) list"

record claude_tool =
  ct_name :: string
  ct_description :: "string option"
  ct_schema :: string

record claude_params =
  lp_model :: string
  lp_maxTokens :: int
  lp_temperature :: "string option"
  lp_topK :: "int option"
  lp_topP :: "string option"
  lp_stop :: "string list"
  lp_thinking :: "string option"
  lp_system :: "(string \<times> bool) list"
  lp_messages :: "claude_message list"
  lp_tools :: "(claude_tool \<times> bool) list"

record claude_config =
  lc_maxTokens :: int
  lc_topK :: int
  lc_topP :: string
  lc_temperature :: string
  lc_stop :: "string list"
  lc_thinking :: "string option"
  lc_cache :: bool

text \<open>A block of an answer: a text, a call with its input as it was received, or another kind.\<close>

datatype answer_block = Answer_Text string | Answer_ToolUse string string string | Answer_Other

text \<open>An event of a stream: a delta of text, another delta, or no delta. The number stands for the rest of
  the event.\<close>

datatype stream_event = Text_Delta nat string | Other_Delta nat | Other_Event nat

record 'p claude_env =
  le_describe :: "'p describe"
  le_schema :: "string \<Rightarrow> string + string"
  le_positive :: "string \<Rightarrow> bool"
  le_decode :: "string \<Rightarrow> string option"
  le_marshal :: "string \<Rightarrow> string + string"
  le_newID :: string
  le_create :: "claude_params \<Rightarrow> 'p \<Rightarrow> (string + answer_block list) \<times> 'p"
  le_stream :: "claude_params \<Rightarrow> 'p \<Rightarrow> (stream_event list \<times> string option) \<times> 'p"
  le_accumulate :: "stream_event list \<Rightarrow> string + answer_block list"

section \<open>Requests\<close>

definition decodeToolRequest :: "'p claude_env \<Rightarrow> string \<Rightarrow> tool_input" where
  "decodeToolRequest env request = (case le_decode env request of Some v \<Rightarrow> Decoded v | None \<Rightarrow> Undecoded request)"

definition uncached :: "'a list \<Rightarrow> ('a \<times> bool) list" where
  "uncached xs = map (\<lambda>x. (x, False)) xs"

definition convertPartsToContent :: "part list \<Rightarrow> block list" where
  "convertPartsToContent ps = concat (map (\<lambda>q. case q of TextPart t \<Rightarrow> [Block_Text t] | _ \<Rightarrow> []) ps)"

definition claude_results :: "message \<Rightarrow> block list" where
  "claude_results m = map (\<lambda>t. Block_ToolResult (tool_id t) (tool_response t)) (message_calls m)"

definition claude_calls :: "'p claude_env \<Rightarrow> message \<Rightarrow> block list" where
  "claude_calls env m = concat (map (\<lambda>q. case q of
       TextPart t \<Rightarrow> [Block_Text t]
     | ToolPart t \<Rightarrow> [Block_ToolUse (tool_id t) (decodeToolRequest env (tool_request t)) (tool_name t)]
     | _ \<Rightarrow> []) (parts m))"

definition claude_messages :: "'p claude_env \<Rightarrow> message \<Rightarrow> claude_message list" where
  "claude_messages env m = (case role m of
       RoleUser \<Rightarrow> [\<lparr>cm_assistant = False, cm_content = uncached (convertPartsToContent (parts m))\<rparr>]
     | RoleAssistant \<Rightarrow> [\<lparr>cm_assistant = True, cm_content = uncached (convertPartsToContent (parts m))\<rparr>]
     | RoleTool \<Rightarrow>
         (if 0 < length (claude_calls env m) then [\<lparr>cm_assistant = True, cm_content = uncached (claude_calls env m)\<rparr>] else []) @
         (if 0 < length (claude_results m) then [\<lparr>cm_assistant = False, cm_content = uncached (claude_results m)\<rparr>] else [])
     | _ \<Rightarrow> [])"

text \<open>Each system message replaces what was there, the instruction of the agent too.\<close>

definition claude_system :: "message option \<Rightarrow> message list \<Rightarrow> string list" where
  "claude_system instruction ms = fold (\<lambda>m system. if role m = RoleSystem then [Text m] else system) ms
     (case instruction of None \<Rightarrow> [] | Some m \<Rightarrow> [Text m])"

text \<open>A tool without a schema has the schema \<open>null\<close>.\<close>

definition convertBladesToolsToClaude :: "'p claude_env \<Rightarrow> 'p tool list \<Rightarrow> string + claude_tool list" where
  "convertBladesToolsToClaude env tools = map_err (\<lambda>t.
     (let doc = le_describe env t in
      case (case dc_schema doc of None \<Rightarrow> Inr ''null'' | Some schema \<Rightarrow> schema) of
        Inl e \<Rightarrow> Inl (''marshaling tool schema: '' @ e)
      | Inr json \<Rightarrow> (case le_schema env json of
            Inl e \<Rightarrow> Inl (''unmarshaling tool schema: '' @ e)
          | Inr schema \<Rightarrow> Inr \<lparr>ct_name = t_name t,
              ct_description = (if dc_text doc \<noteq> [] then Some (dc_text doc) else None), ct_schema = schema\<rparr>))) tools"

definition cache_last :: "('a \<times> bool) list \<Rightarrow> ('a \<times> bool) list" where
  "cache_last xs = (if 0 < length xs then xs[length xs - 1 := (fst (last xs), True)] else xs)"

definition applyEphemeralCache :: "claude_params \<Rightarrow> claude_params" where
  "applyEphemeralCache params = params\<lparr>lp_system := cache_last (lp_system params), lp_tools := cache_last (lp_tools params),
     lp_messages := (let ms = lp_messages params in if 0 < length ms
       then ms[length ms - 1 := (last ms)\<lparr>cm_content := cache_last (cm_content (last ms))\<rparr>] else ms)\<rparr>"

definition toClaudeParams :: "'p claude_env \<Rightarrow> string \<Rightarrow> claude_config \<Rightarrow> 'p request \<Rightarrow> string + claude_params" where
  "toClaudeParams env model cfg req =
     (let num = (\<lambda>n :: int. if n > 0 then Some n else None);
          float = (\<lambda>x. if le_positive env x then Some x else None);
          ms = map the (req_messages req);
          params = \<lparr>lp_model = model, lp_maxTokens = (if lc_maxTokens cfg > 0 then lc_maxTokens cfg else 0),
            lp_temperature = float (lc_temperature cfg), lp_topK = num (lc_topK cfg), lp_topP = float (lc_topP cfg),
            lp_stop = lc_stop cfg, lp_thinking = lc_thinking cfg,
            lp_system = uncached (claude_system (req_instruction req) ms),
            lp_messages = concat (map (claude_messages env) ms), lp_tools = []\<rparr>
      in case convertBladesToolsToClaude env (req_tools req) of
           Inl e \<Rightarrow> Inl (''converting tools: '' @ e)
         | Inr tools \<Rightarrow> (let full = params\<lparr>lp_tools := uncached tools\<rparr> in
             Inr (if lc_cache cfg then applyEphemeralCache full else full)))"

section \<open>Responses\<close>

definition answer_part :: "'p claude_env \<Rightarrow> answer_block \<Rightarrow> string + part list" where
  "answer_part env b = (case b of
       Answer_Text t \<Rightarrow> Inr [TextPart t]
     | Answer_ToolUse i name input \<Rightarrow> ebind (le_marshal env input) (\<lambda>json. Inr [ToolPart (NewToolPart i name json)])
     | Answer_Other \<Rightarrow> Inr [])"

definition is_tool_use :: "answer_block \<Rightarrow> bool" where
  "is_tool_use b \<longleftrightarrow> (case b of Answer_ToolUse _ _ _ \<Rightarrow> True | _ \<Rightarrow> False)"

definition convertClaudeToBlades :: "'p claude_env \<Rightarrow> answer_block list \<Rightarrow> status \<Rightarrow> string + message" where
  "convertClaudeToBlades env bs st = ebind (map_err (answer_part env) bs) (\<lambda>pss.
     (let m = (NewAssistantMessage (le_newID env) st)\<lparr>parts := concat pss\<rparr> in
      Inr (if list_ex is_tool_use bs then m\<lparr>role := RoleTool\<rparr> else m)))"

definition convertStreamDeltaToBlades :: "'p claude_env \<Rightarrow> stream_event \<Rightarrow> message" where
  "convertStreamDeltaToBlades env ev = (NewAssistantMessage (le_newID env) StatusIncomplete)
     \<lparr>parts := (case ev of Text_Delta _ t \<Rightarrow> [TextPart t] | _ \<Rightarrow> [])\<rparr>"

section \<open>The model\<close>

definition claude_response :: "string + message \<Rightarrow> aerror + message option" where
  "claude_response r = (case r of Inl e \<Rightarrow> Inl (OtherErr e) | Inr m \<Rightarrow> Inr (Some m))"

definition claude_Generate :: "'p claude_env \<Rightarrow> string \<Rightarrow> claude_config \<Rightarrow> 'p request \<Rightarrow> 'p \<Rightarrow> (aerror + message option) \<times> 'p" where
  "claude_Generate env model cfg req p = (case toClaudeParams env model cfg req of
       Inl e \<Rightarrow> (Inl (OtherErr (''converting request: '' @ e)), p)
     | Inr params \<Rightarrow> (case le_create env params p of
           (Inl e, q) \<Rightarrow> (Inl (OtherErr (''generating content: '' @ e)), q)
         | (Inr bs, q) \<Rightarrow> (claude_response (convertClaudeToBlades env bs StatusCompleted), q)))"

text \<open>The events of a stream: the messages of its deltas up to an error of the accumulator.\<close>

fun claude_events :: "'p claude_env \<Rightarrow> stream_event list \<Rightarrow> stream_event list \<Rightarrow> message list \<times> string option" where
  "claude_events env seen [] = ([], None)"
| "claude_events env seen (e # es) = (case le_accumulate env (seen @ [e]) of
       Inl x \<Rightarrow> ([], Some x)
     | Inr _ \<Rightarrow> (case claude_events env (seen @ [e]) es of (ms, r) \<Rightarrow>
         ((case e of Other_Event _ \<Rightarrow> [] | _ \<Rightarrow> [convertStreamDeltaToBlades env e]) @ ms, r)))"

definition claude_NewStreaming :: "'p claude_env \<Rightarrow> string \<Rightarrow> claude_config \<Rightarrow> 'p request \<Rightarrow> 'p \<Rightarrow>
    (aerror + message option) list \<times> 'p" where
  "claude_NewStreaming env model cfg req p = (case toClaudeParams env model cfg req of
       Inl e \<Rightarrow> ([Inl (OtherErr e)], p)
     | Inr params \<Rightarrow> (case le_stream env params p of ((es, err), q) \<Rightarrow>
         (case claude_events env [] es of (ms, r) \<Rightarrow>
           (map (\<lambda>m. Inr (Some m)) ms @
             [case r of Some e \<Rightarrow> Inl (OtherErr e)
              | None \<Rightarrow> (case err of Some e \<Rightarrow> Inl (OtherErr e)
                  | None \<Rightarrow> claude_response (ebind (le_accumulate env es)
                      (\<lambda>bs. convertClaudeToBlades env bs StatusCompleted)))], q))))"

definition Claude :: "'p claude_env \<Rightarrow> string \<Rightarrow> claude_config \<Rightarrow> 'p provider" where
  "Claude env model cfg = \<lparr>p_name = model, p_generate = claude_Generate env model cfg,
     p_streaming = claude_NewStreaming env model cfg\<rparr>"

section \<open>The adapter keeps the contract of a provider\<close>

lemma answer_part_fresh:
  assumes "answer_part env b = Inr qs"
  shows "\<forall>q \<in> set qs. fresh_part q" and "is_tool_use b \<longleftrightarrow> (\<exists>t. ToolPart t \<in> set qs)"
  using assms by (cases b; auto simp: answer_part_def is_tool_use_def)+

lemma answer_parts:
  "map_err (answer_part env) bs = Inr pss \<Longrightarrow>
     (\<forall>q \<in> set (concat pss). fresh_part q) \<and> (list_ex is_tool_use bs \<longleftrightarrow> (\<exists>t. ToolPart t \<in> set (concat pss)))"
proof (induction bs arbitrary: pss)
  case (Cons b bs)
  then obtain qs pss' where p: "pss = qs # pss'" "answer_part env b = Inr qs" "map_err (answer_part env) bs = Inr pss'"
    by (auto split: sum.splits)
  with Cons.IH [OF p(3)] answer_part_fresh [OF p(2)] show ?case by auto
qed simp

lemma convert_answer:
  assumes "convertClaudeToBlades env bs st = Inr m"
  shows "answer st m"
proof -
  obtain pss where p: "map_err (answer_part env) bs = Inr pss"
    and "m = (let m = (NewAssistantMessage (le_newID env) st)\<lparr>parts := concat pss\<rparr> in
       if list_ex is_tool_use bs then m\<lparr>role := RoleTool\<rparr> else m)"
    using assms by (auto simp: convertClaudeToBlades_def Let_def)
  with answer_parts [OF p] show ?thesis by (auto simp: answer_def Let_def NewAssistantMessage_def zero_message_def)
qed

lemma delta_answer: "answer StatusIncomplete (convertStreamDeltaToBlades env ev)"
  by (cases ev) (simp_all add: convertStreamDeltaToBlades_def answer_def NewAssistantMessage_def zero_message_def)

lemma events_answer: "\<forall>m \<in> set (fst (claude_events env seen es)). answer StatusIncomplete m"
  by (induction es arbitrary: seen)
    (auto simp: delta_answer split: sum.split prod.split stream_event.split dest!: arg_cong [where f = fst])

lemma claude_response_answer:
  "claude_response (ebind r (\<lambda>bs. convertClaudeToBlades env bs StatusCompleted)) = Inr om \<Longrightarrow>
     \<exists>m. om = Some m \<and> answer StatusCompleted m"
  by (cases r) (auto simp: claude_response_def split: sum.splits dest: convert_answer)

interpretation claude: model_provider "Claude env model cfg" for env model cfg
proof unfold_locales
  fix req p om q
  assume "p_generate (Claude env model cfg) req p = (Inr om, q)"
  then obtain bs where "claude_response (ebind (Inr bs) (\<lambda>bs. convertClaudeToBlades env bs StatusCompleted)) = Inr om"
    by (auto simp: Claude_def claude_Generate_def split: sum.splits prod.splits)
  then show "\<exists>m. om = Some m \<and> answer StatusCompleted m" by (rule claude_response_answer)
next
  fix req p
  show "answer_stream (fst (p_streaming (Claude env model cfg) req p))"
  proof (cases "toClaudeParams env model cfg req")
    case (Inl e)
    then show ?thesis using answer_streamI [of "[]" "[Inl (OtherErr e)]"] by (simp add: Claude_def claude_NewStreaming_def)
  next
    case (Inr params)
    obtain es err q where s: "le_stream env params p = ((es, err), q)" by (metis prod.exhaust)
    obtain ms r where ev: "claude_events env [] es = (ms, r)" by fastforce
    let ?r = "claude_response (ebind (le_accumulate env es) (\<lambda>bs. convertClaudeToBlades env bs StatusCompleted))"
    let ?fin = "case r of Some e \<Rightarrow> Inl (OtherErr e) | None \<Rightarrow> (case err of Some e \<Rightarrow> Inl (OtherErr e) | None \<Rightarrow> ?r)"
    have "?fin = ?r \<or> (\<exists>e. ?fin = Inl e)" by (auto split: option.split)
    then have "[?fin] = [] \<or> (\<exists>e. [?fin] = [Inl e]) \<or> (\<exists>m. [?fin] = [Inr (Some m)] \<and> answer StatusCompleted m)"
      using claude_response_answer [of "le_accumulate env es" env] by (cases ?fin) (auto dest: sym)
    moreover have "\<forall>m \<in> set ms. answer StatusIncomplete m" using events_answer [of env "[]" es] ev by simp
    ultimately show ?thesis using answer_streamI Inr s ev by (simp add: Claude_def claude_NewStreaming_def)
  qed
qed

end
