(* ===== verification/Gemini_Model.thy ===== *)
theory Gemini_Model
  imports Provider_Base
begin

text \<open>
  The adapter for Gemini (\<open>contrib/gemini/gemini.go\<close>, \<open>types.go\<close>): a model request becomes contents and a
  configuration, a response or the chunks of a stream become messages, and the chunks are gathered for
  the last message. The client and the JSON codec are fields of \<open>gemini_env\<close>.
\<close>

section \<open>Types of the service\<close>

text \<open>The response of a call: the JSON object it is, or the text put under \<open>output\<close>.\<close>

datatype function_result = Parsed string | Output string

datatype content_item =
    Item_Text string
  | Item_Data string string string
  | Item_File string string string
  | Item_Response string function_result

datatype content_role = No_Role | User_Role | Model_Role

record gemini_content =
  gc_role :: content_role
  gc_parts :: "content_item list"

text \<open>A part of a response. The arguments of a call are nothing where they are empty, and otherwise what
  their conversion to JSON gives.\<close>

record function_call =
  fc_id :: string
  fc_name :: string
  fc_args :: "(string + string) option"

record gemini_part =
  gp_call :: "function_call option"
  gp_file :: "filePart option"
  gp_data :: "dataPart option"
  gp_text :: string

record candidate =
  cd_content :: "gemini_part list option"
  cd_finish :: string

record gemini_settings =
  gs_temperature :: string
  gs_topP :: string
  gs_topK :: string
  gs_maxTokens :: int
  gs_stop :: "string list"
  gs_presence :: string
  gs_frequency :: string
  gs_seed :: int
  gs_thinking :: "string option"

record function_declaration =
  fn_name :: string
  fn_description :: string
  fn_parameters :: "schema option"
  fn_response :: "schema option"

record gemini_params =
  gq_temperature :: "string option"
  gq_topP :: "string option"
  gq_topK :: "string option"
  gq_maxTokens :: int
  gq_stop :: "string list"
  gq_presence :: "string option"
  gq_frequency :: "string option"
  gq_seed :: "int option"
  gq_thinking :: "string option"
  gq_tools :: "function_declaration list"
  gq_system :: "content_item list option"

text \<open>A stream gives responses, each a list of candidates, or errors.\<close>

record 'p gemini_env =
  ge_describe :: "'p describe"
  ge_positive :: "string \<Rightarrow> bool"
  ge_object :: "string \<Rightarrow> string option"
  ge_newID :: string
  ge_create :: "string \<Rightarrow> gemini_content list \<Rightarrow> gemini_params \<Rightarrow> 'p \<Rightarrow> (string + candidate list) \<times> 'p"
  ge_stream :: "string \<Rightarrow> gemini_content list \<Rightarrow> gemini_params \<Rightarrow> 'p \<Rightarrow> (string + candidate list) list \<times> 'p"

section \<open>Requests\<close>

definition convertMessagePartsToGenAI :: "part list \<Rightarrow> content_item list" where
  "convertMessagePartsToGenAI ps = concat (map (\<lambda>q. case q of
       TextPart t \<Rightarrow> [Item_Text t]
     | DataPart d \<Rightarrow> [Item_Data (data_bytes d) (data_name d) (data_mime d)]
     | FilePart f \<Rightarrow> [Item_File (file_uri f) (file_name f) (file_mime f)]
     | ToolPart t \<Rightarrow> []) ps)"

definition function_response :: "'p gemini_env \<Rightarrow> toolPart \<Rightarrow> content_item" where
  "function_response env t = Item_Response (tool_name t)
     (case ge_object env (tool_response t) of Some v \<Rightarrow> Parsed v | None \<Rightarrow> Output (tool_response t))"

definition gemini_contents :: "'p gemini_env \<Rightarrow> message \<Rightarrow> gemini_content list" where
  "gemini_contents env m = (case role m of
       RoleUser \<Rightarrow> [\<lparr>gc_role = User_Role, gc_parts = convertMessagePartsToGenAI (parts m)\<rparr>]
     | RoleAssistant \<Rightarrow> [\<lparr>gc_role = Model_Role, gc_parts = convertMessagePartsToGenAI (parts m)\<rparr>]
     | RoleTool \<Rightarrow> [\<lparr>gc_role = User_Role, gc_parts = map (function_response env) (message_calls m)\<rparr>]
     | _ \<Rightarrow> [])"

text \<open>Each system message replaces what was there, the instruction of the agent too.\<close>

definition convertMessageToGenAI :: "'p gemini_env \<Rightarrow> 'p request \<Rightarrow> content_item list option \<times> gemini_content list" where
  "convertMessageToGenAI env req = (let ms = map the (req_messages req) in
     (fold (\<lambda>m system. if role m = RoleSystem then Some (convertMessagePartsToGenAI (parts m)) else system) ms
        (map_option (\<lambda>m. convertMessagePartsToGenAI (parts m)) (req_instruction req)),
      concat (map (gemini_contents env) ms)))"

text \<open>Converting a tool never fails; each becomes a tool of its own with one function.\<close>

definition convertBladesToolToGenAI :: "'p gemini_env \<Rightarrow> 'p tool \<Rightarrow> function_declaration" where
  "convertBladesToolToGenAI env t = (let doc = ge_describe env t in
     \<lparr>fn_name = t_name t, fn_description = dc_text doc, fn_parameters = dc_schema doc, fn_response = dc_output doc\<rparr>)"

definition convertBladesToolsToGenAI :: "'p gemini_env \<Rightarrow> 'p tool list \<Rightarrow> function_declaration list" where
  "convertBladesToolsToGenAI env tools = map (convertBladesToolToGenAI env) tools"

definition toGenerateConfig :: "'p gemini_env \<Rightarrow> gemini_settings \<Rightarrow> 'p request \<Rightarrow> gemini_params" where
  "toGenerateConfig env cfg req =
     (let float = (\<lambda>x. if ge_positive env x then Some x else None) in
      \<lparr>gq_temperature = float (gs_temperature cfg), gq_topP = float (gs_topP cfg), gq_topK = float (gs_topK cfg),
       gq_maxTokens = (if gs_maxTokens cfg > 0 then gs_maxTokens cfg else 0), gq_stop = gs_stop cfg,
       gq_presence = float (gs_presence cfg), gq_frequency = float (gs_frequency cfg),
       gq_seed = (if gs_seed cfg > 0 then Some (gs_seed cfg) else None), gq_thinking = gs_thinking cfg,
       gq_tools = convertBladesToolsToGenAI env (req_tools req), gq_system = None\<rparr>)"

section \<open>Responses\<close>

definition convertGenAIPartToBlades :: "gemini_part \<Rightarrow> string + part" where
  "convertGenAIPartToBlades q = (case gp_call q of
       Some c \<Rightarrow> (case fc_args c of
           None \<Rightarrow> Inr (ToolPart (NewToolPart (fc_id c) (fc_name c) ''{}''))
         | Some (Inl e) \<Rightarrow> Inl (''marshal function call args: '' @ e)
         | Some (Inr json) \<Rightarrow> Inr (ToolPart (NewToolPart (fc_id c) (fc_name c) json)))
     | None \<Rightarrow> (case gp_file q of
           Some f \<Rightarrow> Inr (FilePart f)
         | None \<Rightarrow> (case gp_data q of Some d \<Rightarrow> Inr (DataPart d) | None \<Rightarrow> Inr (TextPart (gp_text q)))))"

definition candidate_parts :: "candidate list \<Rightarrow> gemini_part list" where
  "candidate_parts cs = concat (map (\<lambda>c. case cd_content c of None \<Rightarrow> [] | Some qs \<Rightarrow> qs) cs)"

definition convertGenAIToBlades :: "'p gemini_env \<Rightarrow> candidate list \<Rightarrow> status \<Rightarrow> string + message" where
  "convertGenAIToBlades env cs st = ebind (map_err convertGenAIPartToBlades (candidate_parts cs)) (\<lambda>ps.
     (let m = (NewAssistantMessage (ge_newID env) st)\<lparr>parts := ps\<rparr> in
      Inr (if list_ex (\<lambda>q. case q of ToolPart _ \<Rightarrow> True | _ \<Rightarrow> False) ps then m\<lparr>role := RoleTool\<rparr> else m)))"

text \<open>The first candidate of a chunk is appended to the first candidate gathered so far.\<close>

definition add_chunk :: "candidate list option \<Rightarrow> candidate list \<Rightarrow> candidate list option" where
  "add_chunk acc chunk = (case acc of
       None \<Rightarrow> Some chunk
     | Some gathered \<Rightarrow> (case (chunk, gathered) of
           (c # _, g # gs) \<Rightarrow> Some (g\<lparr>cd_content := (case cd_content c of None \<Rightarrow> cd_content g
               | Some qs \<Rightarrow> Some ((case cd_content g of None \<Rightarrow> [] | Some ps \<Rightarrow> ps) @ qs)),
             cd_finish := (if cd_finish c \<noteq> [] then cd_finish c else cd_finish g)\<rparr> # gs)
         | _ \<Rightarrow> Some gathered))"

section \<open>The model\<close>

definition gemini_response :: "string + message \<Rightarrow> aerror + message option" where
  "gemini_response r = (case r of Inl e \<Rightarrow> Inl (OtherErr e) | Inr m \<Rightarrow> Inr (Some m))"

definition gemini_Generate :: "'p gemini_env \<Rightarrow> string \<Rightarrow> gemini_settings \<Rightarrow> 'p request \<Rightarrow> 'p \<Rightarrow> (aerror + message option) \<times> 'p" where
  "gemini_Generate env model cfg req p = (case convertMessageToGenAI env req of (system, contents) \<Rightarrow>
     (case ge_create env model contents ((toGenerateConfig env cfg req)\<lparr>gq_system := system\<rparr>) p of
        (Inl e, q) \<Rightarrow> (Inl (OtherErr e), q)
      | (Inr cs, q) \<Rightarrow> (gemini_response (convertGenAIToBlades env cs StatusCompleted), q)))"

text \<open>The loop over the stream, with the chunks gathered so far.\<close>

fun gemini_chunks :: "'p gemini_env \<Rightarrow> candidate list option \<Rightarrow> (string + candidate list) list \<Rightarrow>
    message list \<times> (aerror + message option) list" where
  "gemini_chunks env acc [] = ([], case acc of None \<Rightarrow> []
     | Some cs \<Rightarrow> [gemini_response (convertGenAIToBlades env cs StatusCompleted)])"
| "gemini_chunks env acc (Inl e # rs) = ([], [Inl (OtherErr e)])"
| "gemini_chunks env acc (Inr chunk # rs) = (case convertGenAIToBlades env chunk StatusIncomplete of
       Inl e \<Rightarrow> ([], [Inl (OtherErr e)])
     | Inr m \<Rightarrow> (case gemini_chunks env (add_chunk acc chunk) rs of (ms, end) \<Rightarrow> (m # ms, end)))"

definition gemini_NewStreaming :: "'p gemini_env \<Rightarrow> string \<Rightarrow> gemini_settings \<Rightarrow> 'p request \<Rightarrow> 'p \<Rightarrow> (aerror + message option) list \<times> 'p" where
  "gemini_NewStreaming env model cfg req p = (case convertMessageToGenAI env req of (system, contents) \<Rightarrow>
     (case ge_stream env model contents ((toGenerateConfig env cfg req)\<lparr>gq_system := system\<rparr>) p of (rs, q) \<Rightarrow>
       (case gemini_chunks env None rs of (ms, end) \<Rightarrow> (map (\<lambda>m. Inr (Some m)) ms @ end, q))))"

definition Gemini :: "'p gemini_env \<Rightarrow> string \<Rightarrow> gemini_settings \<Rightarrow> 'p provider" where
  "Gemini env model cfg = \<lparr>p_name = model, p_generate = gemini_Generate env model cfg,
     p_streaming = gemini_NewStreaming env model cfg\<rparr>"

section \<open>The adapter keeps the contract of a provider\<close>

lemma part_fresh: "convertGenAIPartToBlades q = Inr x \<Longrightarrow> fresh_part x"
  by (auto simp: convertGenAIPartToBlades_def split: option.splits sum.splits)

lemma gemini_answer:
  assumes "convertGenAIToBlades env cs st = Inr m"
  shows "answer st m"
proof -
  obtain ps where p: "map_err convertGenAIPartToBlades (candidate_parts cs) = Inr ps"
    and m: "m = (let m = (NewAssistantMessage (ge_newID env) st)\<lparr>parts := ps\<rparr> in
       if list_ex (\<lambda>q. case q of ToolPart _ \<Rightarrow> True | _ \<Rightarrow> False) ps then m\<lparr>role := RoleTool\<rparr> else m)"
    using assms by (auto simp: convertGenAIToBlades_def Let_def)
  have "map_err convertGenAIPartToBlades xs = Inr ps \<Longrightarrow> \<forall>q \<in> set ps. fresh_part q" for xs
    by (induction xs arbitrary: ps) (auto split: sum.splits dest: part_fresh)
  from this [OF p] have "\<forall>q \<in> set ps. fresh_part q" .
  moreover have "list_ex (\<lambda>q. case q of ToolPart _ \<Rightarrow> True | _ \<Rightarrow> False) ps \<longleftrightarrow> (\<exists>t. ToolPart t \<in> set ps)"
    by (induction ps) (auto split: part.splits)
  ultimately show ?thesis unfolding m by (auto simp: answer_def Let_def NewAssistantMessage_def zero_message_def)
qed

lemma gemini_response_answer:
  "gemini_response (convertGenAIToBlades env cs StatusCompleted) = Inr om \<Longrightarrow> \<exists>m. om = Some m \<and> answer StatusCompleted m"
  by (auto simp: gemini_response_def split: sum.splits dest: gemini_answer)

lemma chunks_answer:
  "gemini_chunks env acc rs = (ms, end) \<Longrightarrow> (\<forall>m \<in> set ms. answer StatusIncomplete m) \<and>
     (end = [] \<or> (\<exists>e. end = [Inl e]) \<or> (\<exists>m. end = [Inr (Some m)] \<and> answer StatusCompleted m))"
proof (induction env acc rs arbitrary: ms "end" rule: gemini_chunks.induct)
  case (1 env acc)
  show ?case
  proof (cases acc)
    case (Some cs)
    let ?r = "gemini_response (convertGenAIToBlades env cs StatusCompleted)"
    have "ms = []" "end = [?r]" using 1 Some by auto
    then show ?thesis using gemini_response_answer [of env cs] by (cases ?r) auto
  qed (use 1 in auto)
next
  case (3 env acc chunk rs)
  then show ?case by (auto split: sum.splits prod.splits dest: gemini_answer)
qed auto

interpretation gemini: model_provider "Gemini env model cfg" for env model cfg
proof unfold_locales
  fix req p om q
  assume "p_generate (Gemini env model cfg) req p = (Inr om, q)"
  then show "\<exists>m. om = Some m \<and> answer StatusCompleted m"
    by (auto simp: Gemini_def gemini_Generate_def split: sum.splits prod.splits dest: gemini_response_answer)
next
  fix req p
  show "answer_stream (fst (p_streaming (Gemini env model cfg) req p))"
  proof -
    obtain system contents where c: "convertMessageToGenAI env req = (system, contents)" by fastforce
    obtain rs q where s: "ge_stream env model contents ((toGenerateConfig env cfg req)\<lparr>gq_system := system\<rparr>) p = (rs, q)" by fastforce
    obtain ms "end" where e: "gemini_chunks env None rs = (ms, end)" by fastforce
    have "fst (p_streaming (Gemini env model cfg) req p) = map (\<lambda>m. Inr (Some m)) ms @ end"
      by (simp add: Gemini_def gemini_NewStreaming_def c s e)
    then show ?thesis using chunks_answer [OF e] answer_streamI by metis
  qed
qed

end
