(* ===== verification/Streams.thy ===== *)
theory Streams
  imports Generators "HOL-Library.Sublist"
begin

text \<open>
  Package \<open>stream\<close> (\<open>src/stream/stream.go\<close>): combinators on \<open>iter.Seq2[T, error]\<close>. An event is a
  value with an error that may be nil; \<open>zero\<close> is the zero value of the element type
  (\<open>*new(T)\<close>). \<open>Merge\<close> runs its inputs in goroutines that call \<open>yield\<close> under a mutex, so its
  events are an interleaving of theirs.
\<close>

section \<open>The combinators\<close>

type_synonym ('a, 'e) event = "'a \<times> 'e option"
type_synonym ('a, 'e, 'w) seq = "(('a, 'e) event, 'w, unit) proc"

fun Just :: "'a list \<Rightarrow> ('a, 'e, 'w) seq" where
  "Just [] w = Ret () w"
| "Just (v # vs) w = Yld (v, None) w (Just vs)"

definition Error :: "'a \<Rightarrow> 'e \<Rightarrow> ('a, 'e, 'w) seq" where
  "Error zero err w = gyield (zero, Some err) w"

text \<open>\<open>stream(func(v, err) bool { ... return yield(...) })\<close>: every call of the consumer function
  becomes a round of the loop.\<close>

definition Filter :: "'a \<Rightarrow> ('a, 'e, 'w) seq \<Rightarrow> ('a \<Rightarrow> bool) \<Rightarrow> ('a, 'e, 'w) seq" where
  "Filter zero stream predicate w =
     gbind (grange (stream w) (\<lambda>_ (v, err). case err of
         Some e \<Rightarrow> gthen (gyield (zero, Some e)) (\<lambda>_. greturn (Next ()))
       | None \<Rightarrow> if predicate v then gthen (gyield (v, None)) (\<lambda>_. greturn (Next ()))
                 else greturn (Next ())) ())
       (\<lambda>_ :: (unit, unit) ctl. Ret ())"

definition Observe :: "('a, 'e, 'w) seq \<Rightarrow> ('a \<Rightarrow> 'e option \<Rightarrow> 'e option) \<Rightarrow> ('a, 'e, 'w) seq" where
  "Observe stream observer w =
     gbind (grange (stream w) (\<lambda>_ (v, err). case observer v err of
         Some e \<Rightarrow> gthen (gyield (v, Some e)) (\<lambda>_. greturn (Next ()))
       | None \<Rightarrow> gthen (gyield (v, err)) (\<lambda>_. greturn (Next ()))) ())
       (\<lambda>_ :: (unit, unit) ctl. Ret ())"

definition Map :: "'b \<Rightarrow> ('a, 'e, 'w) seq \<Rightarrow> ('a \<Rightarrow> 'e + 'b) \<Rightarrow> ('b, 'e, 'w) seq" where
  "Map zero stream mapper w =
     gbind (grange (stream w) (\<lambda>_ (v, err). case err of
         Some e \<Rightarrow> gthen (gyield (zero, Some e)) (\<lambda>_. greturn (Next ()))
       | None \<Rightarrow> (case mapper v of
            Inl e \<Rightarrow> gthen (gyield (zero, Some e)) (\<lambda>_. greturn (Next ()))
          | Inr r \<Rightarrow> gthen (gyield (r, None)) (\<lambda>_. greturn (Next ())))) ())
       (\<lambda>_ :: (unit, unit) ctl. Ret ())"

text \<open>The event sequences a consumer of \<open>Merge\<close> that takes everything may see.\<close>

fun Merge :: "'x list list \<Rightarrow> 'x list set" where
  "Merge [] = {[]}"
| "Merge (s # ss) = (\<Union>m \<in> Merge ss. shuffles s m)"

section \<open>Their traces\<close>

text \<open>Every combinator transforms the events one by one and keeps the worlds they occur in.\<close>

lemma Just_trace: "gtrace (Just vs w) = map (\<lambda>v. ((v, None), w)) vs"
  and Just_final: "gfinal (Just vs w) = ((), w)"
  by (induction vs arbitrary: w) auto

definition filter_event :: "'a \<Rightarrow> ('a \<Rightarrow> bool) \<Rightarrow> ('a, 'e) event \<Rightarrow> ('a, 'e) event list" where
  "filter_event zero p = (\<lambda>(v, e). if e \<noteq> None then [(zero, e)] else if p v then [(v, None)] else [])"

definition map_event :: "'b \<Rightarrow> ('a \<Rightarrow> 'e + 'b) \<Rightarrow> ('a, 'e) event \<Rightarrow> ('b, 'e) event list" where
  "map_event zero f = (\<lambda>(v, e). case e of Some x \<Rightarrow> [(zero, Some x)]
     | None \<Rightarrow> (case f v of Inl x \<Rightarrow> [(zero, Some x)] | Inr r \<Rightarrow> [(r, None)]))"

definition observe_event :: "('a \<Rightarrow> 'e option \<Rightarrow> 'e option) \<Rightarrow> ('a, 'e) event \<Rightarrow> ('a, 'e) event list" where
  "observe_event f = (\<lambda>(v, e). [(v, case f v e of Some x \<Rightarrow> Some x | None \<Rightarrow> e)])"

text \<open>\<open>at_worlds h t\<close>: each event of the trace \<open>t\<close> replaced by the events \<open>h\<close> gives, in the world of
  the event.\<close>

definition at_worlds :: "('x \<Rightarrow> 'y list) \<Rightarrow> ('x \<times> 'w) list \<Rightarrow> ('y \<times> 'w) list" where
  "at_worlds h t = concat (map (\<lambda>(x, w). map (\<lambda>y. (y, w)) (h x)) t)"

lemma at_worlds_simps [simp]:
  "at_worlds h [] = []" "at_worlds h ((x, w) # t) = map (\<lambda>y. (y, w)) (h x) @ at_worlds h t"
  by (simp_all add: at_worlds_def)

lemma Filter_gen: "gtrace (Filter zero (\<lambda>_. g) p w) = at_worlds (filter_event zero p) (gtrace g) \<and>
    snd (gfinal (Filter zero (\<lambda>_. g) p w)) = snd (gfinal g)"
  by (induction g) (auto simp: Filter_def filter_event_def split: option.splits)

lemma Map_gen: "gtrace (Map zero (\<lambda>_. g) f w) = at_worlds (map_event zero f) (gtrace g) \<and>
    snd (gfinal (Map zero (\<lambda>_. g) f w)) = snd (gfinal g)"
  by (induction g) (auto simp: Map_def map_event_def split: option.splits sum.splits)

lemma Observe_gen: "gtrace (Observe (\<lambda>_. g) f w) = at_worlds (observe_event f) (gtrace g) \<and>
    snd (gfinal (Observe (\<lambda>_. g) f w)) = snd (gfinal g)"
  by (induction g) (auto simp: Observe_def observe_event_def split: option.splits)

lemma Filter_trace: "gtrace (Filter zero s p w) = at_worlds (filter_event zero p) (gtrace (s w))"
  using Filter_gen [of zero "s w" p w] by (simp add: Filter_def)

lemma Map_trace: "gtrace (Map zero s f w) = at_worlds (map_event zero f) (gtrace (s w))"
  using Map_gen [of zero "s w" f w] by (simp add: Map_def)

lemma Observe_trace: "gtrace (Observe s f w) = at_worlds (observe_event f) (gtrace (s w))"
  using Observe_gen [of "s w" f w] by (simp add: Observe_def)

lemma observe_pointwise:
  "at_worlds (observe_event f) t =
     map (\<lambda>((v, e), u). ((v, case f v e of Some x \<Rightarrow> Some x | None \<Rightarrow> e), u)) t"
  by (induction t) (auto simp: observe_event_def)

lemma Merge_mset: "m \<in> Merge ss \<Longrightarrow> mset m = mset (concat ss)"
  by (induction ss arbitrary: m) (auto simp: mset_shuffles)

lemma Merge_nonempty: "Merge ss \<noteq> {}"
  by (induction ss) auto

lemma shuffles_subseq: "zs \<in> shuffles xs ys \<Longrightarrow> subseq xs zs \<and> subseq ys zs"
  by (induction xs ys arbitrary: zs rule: shuffles.induct) (auto intro: subseq_Cons')

lemma Merge_subseq: "m \<in> Merge ss \<Longrightarrow> s \<in> set ss \<Longrightarrow> subseq s m"
proof (induction ss arbitrary: m)
  case (Cons t ss)
  then obtain k where "k \<in> Merge ss" "m \<in> shuffles t k" by auto
  with Cons shuffles_subseq [of m t k] show ?case by (auto intro: subseq_order.order_trans)
qed simp

end
