(* ===== verification/Agent_Props.thy ===== *)
theory Agent_Props
  imports Agent_Session Streams
begin

text \<open>
  The properties of the agents, flow agents, runner and streams, with a scripted model for each.
\<close>

section \<open>A scripted model\<close>

text \<open>The outside counts the calls of the model: the first asks for two tools, the next answers.\<close>

definition demo_call :: message where
  "demo_call = (NewAssistantMessage ''c1'' StatusCompleted)\<lparr>role := RoleTool,
     parts := [ToolPart (NewToolPart ''t1'' ''clock'' ''now''), ToolPart (NewToolPart ''t2'' ''nope'' ''x'')]\<rparr>"

definition demo_answer :: message where
  "demo_answer = (NewAssistantMessage ''c2'' StatusCompleted)\<lparr>parts := [TextPart ''noon'']\<rparr>"

definition demo_model :: "nat provider" where
  "demo_model = \<lparr>p_name = ''demo'',
     p_generate = (\<lambda>req n. (Inr (Some (if n = 0 then demo_call else demo_answer)), Suc n)),
     p_streaming = (\<lambda>req n. ([Inr (Some (if n = 0 then demo_call else demo_answer))], Suc n))\<rparr>"

definition clock_tool :: "nat tool" where
  "clock_tool = \<lparr>t_name = ''clock'', t_handle = (\<lambda>i req n. (Inr ''12:00'', [], n))\<rparr>"

definition demo_agent :: "nat agent" where
  "demo_agent = \<lparr>a_name = ''demo'', a_description = [], a_instruction = [], a_instructionProvider = None,
     a_outputKey = ''out'', a_maxIterations = 10, a_model = Some demo_model, a_middlewares = [],
     a_tools = [clock_tool], a_skills = None, a_resolver = None, a_useContext = False\<rparr>"

definition demo_ext :: ext where
  "demo_ext = \<lparr>render = (\<lambda>t st. Inr t), fresh_id = ''s'', tool_order = (\<lambda>ps. [0..<length ps])\<rparr>"

definition demo_world :: "nat world" where
  "demo_world = \<lparr>sessions = (\<lambda>_. NewSession []), next_session = 1, flags = (\<lambda>_. False), next_flag = 1, outside = 0\<rparr>"

definition demo_ctx :: ctx where
  "demo_ctx = \<lparr>ctx_session = Some 0, ctx_agent = None\<rparr>"

definition demo_inv :: "nat invocation" where
  "demo_inv = buildInvocation (Some (UserMessage ''u1'' [InString ''time?''])) False
     \<lparr>opt_session = Some 0, opt_resume = False, opt_invocation = ''i1''\<rparr> 0"

definition demo_done :: message where
  "demo_done = demo_call\<lparr>author := ''demo'', invocationID := ''i1'', parts :=
     [ToolPart \<lparr>tool_id = ''t1'', tool_name = ''clock'', tool_request = ''now'', tool_response = ''12:00'', tool_completed = True\<rparr>,
      ToolPart \<lparr>tool_id = ''t2'', tool_name = ''nope'', tool_request = ''x'',
        tool_response = ''Tool error: agent: tool nope not found'', tool_completed = True\<rparr>]\<rparr>"

abbreviation demo_run :: "(Agents.event, nat world, unit) gen" where
  "demo_run \<equiv> Run demo_ext (without_middlewares demo_agent) demo_ctx demo_inv demo_world"

lemmas demo_defs = demo_call_def demo_answer_def demo_model_def clock_tool_def demo_agent_def demo_ext_def
  demo_world_def demo_ctx_def demo_inv_def demo_done_def buildInvocation_def NewSession_def
  NewAssistantMessage_def zero_message_def NewToolPart_def UserMessage_def NewMessageParts_def

lemmas run_agent_defs = Run_def chain_def EnsureSession_def prepareInvocation_def with_flag_def resolveTools_def
  provided_instruction_def static_instruction_def commit_message_def cas_flag_def append_to_def Append_def
  without_middlewares_def the_model_def handle_def iteration_def request_messages_def loadHistory_def
  generate_once_def stamp_def after_model_def run_tools_def persist_tools_def executeTools_def exec_part_def
  handleTools_def saveOutputState_def set_state_of_def SetState_def model_request_def MergeActions_def
  Let_def eval_nat_numeral

lemma demo_events: "gevents demo_run = [Inr demo_done, Inr (demo_answer\<lparr>author := ''demo'', invocationID := ''i1''\<rparr>)]"
  by (simp add: demo_defs run_agent_defs)

lemma demo_speaks: "speaks demo_agent" "quiet_model demo_agent"
  by (simp_all add: speaks_def quiet_model_def the_model_def demo_defs)

lemma demo_prepared: "fst (prepareInvocation demo_ext (without_middlewares demo_agent) demo_inv w) =
    Inr (demo_inv\<lparr>inv_model := ''demo'', inv_tools := [clock_tool]\<rparr>)"
  by (simp add: prepareInvocation_def with_flag_def resolveTools_def provided_instruction_def
      static_instruction_def without_middlewares_def the_model_def demo_inv_def buildInvocation_def Let_def
      demo_agent_def demo_model_def)

lemma demo_guarded: "guarded 0 demo_inv"
  by (simp add: guarded_def demo_defs)

section \<open>The agent loop\<close>

text \<open>C8: \<open>executeTools\<close> on a message whose tool calls may finish in any order. Unless a tool is
  cancelled it returns the same message, in which every pending call has become a completed one
  with the same id, name and request and with the response of the tool of that name (an error
  text if the tool failed or does not exist), and every other part is kept.\<close>

theorem execute_tools_complete:
  assumes "set (tool_order x (parts m)) = {..< length (parts m)}"
    and "\<And>t i req out e acts out'. t \<in> set (inv_tools ivn) \<Longrightarrow> t_handle t i req out \<noteq> (Inl (Canceled e), acts, out')"
  shows "\<exists>m'. fst (executeTools x ivn m p) = Inr m' \<and> m' = m\<lparr>parts := parts m', actions := actions m'\<rparr> \<and>
    list_all2 (finished ivn) (parts m) (parts m')"
proof -
  obtain m' where r: "fst (executeTools x ivn m p) = Inr m'" using executeTools_ok [OF assms(2)] by blast
  with executeTools_result(1) [OF r] executeTools_finished [OF assms(1) r] show ?thesis by blast
qed

theorem execute_tools_complete_witness:
  "\<exists>m'. fst (executeTools demo_ext (demo_inv\<lparr>inv_tools := [clock_tool]\<rparr>) demo_call 0) = Inr m' \<and>
     m' = demo_call\<lparr>parts := parts m', actions := actions m'\<rparr> \<and>
     list_all2 (finished (demo_inv\<lparr>inv_tools := [clock_tool]\<rparr>)) (parts demo_call) (parts m')"
  by (rule execute_tools_complete) (auto simp: demo_ext_def clock_tool_def atLeast0LessThan)

text \<open>C9: The transcript of a run that does not stream, when the model answers with assistant and
  tool messages: the session first gets the user's message (unless an agent sharing the
  invocation already added it); when the consumer receives an event the session holds exactly the
  messages yielded before it, so a consumer that stops at a message leaves a session without it;
  and at the end it holds every message yielded.\<close>

theorem run_transcript:
  assumes "speaks a" and "\<not> inv_stream ivn" and "ctx_session c = Some r"
    and "guarded f ivn" and "inv_message ivn = Some m"
    and "fst (prepareInvocation x (without_middlewares a) ivn w) = Inr i"
    and "g = Run x (without_middlewares a) c ivn w"
    and "h = hist r w @ (if flags w f then [] else [attributed ivn m])"
  shows "(\<forall>i < length (gtrace g). hist r (snd (gtrace g ! i)) = h @ map projr (take i (gevents g))) \<and>
    hist r (snd (gfinal g)) = h @ map projr (filter (\<lambda>x. \<not> isl x) (gevents g))"
  using Run_follows [OF assms(1-6)] follows_nth follows_final unfolding assms(7,8) by blast

theorem run_transcript_witness:
  "hist 0 (snd (gfinal demo_run)) = [attributed demo_inv (the (inv_message demo_inv)), demo_done,
     demo_answer\<lparr>author := ''demo'', invocationID := ''i1''\<rparr>]"
proof -
  have h: "hist 0 demo_world @ (if flags demo_world 0 then [] else
      [attributed demo_inv (the (inv_message demo_inv))]) = [attributed demo_inv (the (inv_message demo_inv))]"
    by (simp add: demo_world_def NewSession_def)
  show ?thesis
    using run_transcript [OF demo_speaks(1) _ _ demo_guarded _ demo_prepared refl h [symmetric], of demo_ctx]
    unfolding demo_events by (simp add: demo_inv_def buildInvocation_def demo_ctx_def)
qed



section \<open>Flow agents and the runner\<close>



text \<open>\<open>Runner.Run\<close> returns the last event of the agent's run, an error if there is none, and
  \<open>Runner.RunStream\<close> hands on every event of the agent's run with the world it left.\<close>

theorem runner_returns_last:
  fixes x a m opts and w :: "'p world"
  defines "c \<equiv> \<lparr>ctx_session = opt_session opts, ctx_agent = None\<rparr>"
    and "ivn \<equiv> \<lambda>stream. buildInvocation m stream opts (fst (alloc_flag w))"
    and "w1 \<equiv> snd (alloc_flag w)" and "agent \<equiv> Run x (without_middlewares a)"
  shows "fst (Runner_Run agent m opts w) = (case rev (gevents (agent c (ivn False) w1)) of
       [] \<Rightarrow> Inl ErrNoFinalResponse | Inl e # _ \<Rightarrow> Inl e | Inr out # _ \<Rightarrow> Inr out) \<and>
     gtrace (RunStream agent m opts w) = gtrace (agent c (ivn True) w1)"
  unfolding assms using core.runner_last core.stream_forwards by blast

theorem runner_returns_last_witness:
  "fst (Runner_Run (Run demo_ext (without_middlewares demo_agent)) (inv_message demo_inv)
      \<lparr>opt_session = Some 0, opt_resume = False, opt_invocation = ''i1''\<rparr> demo_world)
   = Inr (demo_answer\<lparr>author := ''demo'', invocationID := ''i1''\<rparr>)"
proof -
  let ?o = "\<lparr>opt_session = Some 0, opt_resume = False, opt_invocation = ''i1''\<rparr>"
  have "gevents (Run demo_ext (without_middlewares demo_agent) \<lparr>ctx_session = opt_session ?o, ctx_agent = None\<rparr>
      (buildInvocation (inv_message demo_inv) False ?o (fst (alloc_flag demo_world))) (snd (alloc_flag demo_world)))
    = [Inr demo_done, Inr (demo_answer\<lparr>author := ''demo'', invocationID := ''i1''\<rparr>)]"
    by (simp add: demo_defs run_agent_defs alloc_flag_def)
  with runner_returns_last [of demo_ext demo_agent "inv_message demo_inv" ?o demo_world] show ?thesis by simp
qed

text \<open>Routing. The router's messages up to its first handoff are not forwarded; from the world
  the router is in at that message, the run is the run of the agent it names.\<close>

theorem routing_hands_off:
  assumes "gtrace (router c ivn w) = pre @ (Inr m, v) # rest"
    and "\<And>x u. (x, u) \<in> set pre \<Longrightarrow> \<not> isl x \<and> \<not> hands_off x"
    and "actions m ActionHandoffToAgent = Some (AnyString target)"
    and "map_of targets target = Some agent"
  shows "gtrace (RoutingAgent_Run router targets c ivn w) = gtrace (agent c ivn v)"
proof -
  have "\<forall>(x, u) \<in> set pre. \<not> isl x \<and> \<not> hands_off x" using assms(2) by blast
  from route_range [OF assms(1) this assms(3), of None] assms(4) show ?thesis
    by (simp add: RoutingAgent_Run_def route_to_def)
qed

definition demo_router :: "nat handler" where
  "demo_router c ivn = gyield (Inr (demo_answer\<lparr>actions := [ActionHandoffToAgent \<mapsto> AnyString ''demo'']\<rparr>))"

theorem routing_hands_off_witness:
  "gevents (RoutingAgent_Run demo_router (core_targets demo_ext [('' demo'', demo_agent)]) demo_ctx demo_inv demo_world) =
     [Inr demo_done, Inr (demo_answer\<lparr>author := ''demo'', invocationID := ''i1''\<rparr>)]"
proof -
  have "map_of (core_targets demo_ext [('' demo'', demo_agent)]) ''demo'' = Some (Run demo_ext (without_middlewares demo_agent))"
    by (simp add: core_targets_def routing_targets_def TrimSpace_def is_space_def)
  from routing_hands_off [where pre = "[]" and rest = "[]" and router = demo_router, OF _ _ _ this]
  show ?thesis unfolding demo_events [symmetric] by (simp add: demo_router_def)
qed

section \<open>Streams and messages\<close>

text \<open>The stream combinators act event by event: \<open>Filter\<close> keeps errors and the values that
  satisfy the predicate, \<open>Map\<close> keeps errors and maps values (an error of the mapper takes the place
  of the value), \<open>Observe\<close> keeps every event and never stops the stream, even where its
  observer returns an error.\<close>

theorem combinators_pointwise:
  "gtrace (Filter zero s p w) = at_worlds (filter_event zero p) (gtrace (s w)) \<and>
   gtrace (Map zero' s f w) = at_worlds (map_event zero' f) (gtrace (s w)) \<and>
   length (gtrace (Observe s obs w)) = length (gtrace (s w)) \<and>
   map (fst \<circ> fst) (gtrace (Observe s obs w)) = map (fst \<circ> fst) (gtrace (s w))"
  by (simp add: Filter_trace Map_trace Observe_trace observe_pointwise case_prod_unfold comp_def)

text \<open>\<open>Merge\<close> delivers every event of its streams exactly once, each stream's in order.\<close>

theorem merge_complete:
  assumes "m \<in> Merge ss"
  shows "mset m = mset (concat ss) \<and> (\<forall>s \<in> set ss. subseq s m)"
  using assms Merge_mset Merge_subseq by blast

theorem merge_complete_witness:
  "mset [(1::nat, None::nat option), (3, None), (2, None)] = mset (concat [[(1, None), (2, None)], [(3, None)]])"
  using merge_complete [of "[(1::nat, None::nat option), (3, None), (2, None)]" "[[(1, None), (2, None)], [(3, None)]]"]
  by (simp add: Cons_in_shuffles_iff)

end
