(* ===== verification/Provider_Props.thy ===== *)
theory Provider_Props
  imports OpenAI_Chat Claude_Model Gemini_Model Agent_Props
begin

text \<open>
  What the provider adapters promise: agents on them keep their transcripts, every tool call they send
  is followed by its results, and the calls of an answer come back unchanged with the next request. The
  adapter for Gemini sends results without their calls.
\<close>

section \<open>Calls and results in a request\<close>

text \<open>What the service sees of a conversation: calls and results by identifier, and everything else.\<close>

datatype tool_event = Calls string | Results string | Says

fun answered :: "string list \<Rightarrow> tool_event list \<Rightarrow> bool" where
  "answered pending [] \<longleftrightarrow> pending = []"
| "answered pending (Calls i # es) \<longleftrightarrow> answered (pending @ [i]) es"
| "answered pending (Results i # es) \<longleftrightarrow> pending \<noteq> [] \<and> hd pending = i \<and> answered (tl pending) es"
| "answered pending (Says # es) \<longleftrightarrow> pending = [] \<and> answered [] es"

fun chat_events :: "chat_message \<Rightarrow> tool_event list" where
  "chat_events (Chat_Calls cs) = map (Calls \<circ> cl_id) cs"
| "chat_events (Chat_Tool _ i) = [Results i]"
| "chat_events _ = [Says]"

fun block_events :: "block \<Rightarrow> tool_event list" where
  "block_events (Block_ToolUse i _ _) = [Calls i]"
| "block_events (Block_ToolResult i _) = [Results i]"
| "block_events (Block_Text _) = []"

definition claude_events_of :: "claude_message \<Rightarrow> tool_event list" where
  "claude_events_of m = (let es = concat (map (block_events \<circ> fst) (cm_content m)) in if es = [] then [Says] else es)"

lemma answered_calls: "answered pending (map Calls is @ es) \<longleftrightarrow> answered (pending @ is) es"
  by (induction "is" arbitrary: pending) simp_all

lemma answered_results: "answered (is @ pending) (map Results is @ es) \<longleftrightarrow> answered pending es"
  by (induction "is") simp_all

lemma answered_block: "answered [] (map Calls is @ map Results is @ es) \<longleftrightarrow> answered [] es"
  using answered_calls [of "[]" "is"] answered_results [of "is" "[]"] by simp

lemma answered_says: "answered [] (replicate n Says @ es) \<longleftrightarrow> answered [] es"
  by (induction n) simp_all

lemma concat_map_concat: "concat (concat (map (\<lambda>x. map f (g x)) xs)) = concat (map (\<lambda>x. concat (map f (g x))) xs)"
  by (induction xs) simp_all

text \<open>What one message of the conversation contributes.\<close>

definition exchange :: "tool_event list \<Rightarrow> bool" where
  "exchange es \<longleftrightarrow> (\<exists>is n. es = replicate n Says @ map Calls is @ map Results is)"

lemma exchanges [simp, intro]: "exchange []" "exchange [Says]" "exchange (map Calls is @ map Results is)"
  unfolding exchange_def by (rule exI [of _ "[]"], rule exI [of _ 0], simp)
    (rule exI [of _ "[]"], rule exI [of _ "Suc 0"], simp, rule exI [of _ "is"], rule exI [of _ 0], simp)

lemma answered_exchange: "exchange es \<Longrightarrow> answered [] (es @ es') \<longleftrightarrow> answered [] es'"
  by (auto simp: exchange_def answered_says answered_block)

lemma answered_concat: "\<forall>x \<in> set xs. exchange (f x) \<Longrightarrow> answered [] (concat (map f xs))"
  by (induction xs) (simp_all add: answered_exchange)

lemma chat_messages_events: "exchange (concat (map chat_events (chat_messages m)))"
proof (cases "role m")
  case RoleTool
  let ?is = "map tool_id (message_calls m)"
  have "concat (map chat_events (chat_messages m)) = map Calls ?is @ map Results ?is"
    using RoleTool by (simp add: chat_messages_def toToolCallMessage_def call_of_def comp_def concat_map_singleton)
  then show ?thesis by (simp only: exchanges)
qed (simp_all add: chat_messages_def)

lemma claude_call_events:
  "concat (map (block_events \<circ> fst) (uncached (claude_calls env m))) = map Calls (map tool_id (message_calls m))"
proof -
  have "concat (map block_events (concat (map (\<lambda>q. case q of TextPart t \<Rightarrow> [Block_Text t]
     | ToolPart t \<Rightarrow> [Block_ToolUse (tool_id t) (decodeToolRequest env (tool_request t)) (tool_name t)] | _ \<Rightarrow> []) ps))) =
    map Calls (map tool_id (concat (map (\<lambda>q. case q of ToolPart t \<Rightarrow> [t] | _ \<Rightarrow> []) ps)))" for ps
    by (induction ps) (simp_all split: part.split)
  then show ?thesis by (simp add: uncached_def claude_calls_def message_calls_def comp_def)
qed

lemma claude_result_events:
  "concat (map (block_events \<circ> fst) (uncached (claude_results m))) = map Results (map tool_id (message_calls m))"
  by (simp add: uncached_def claude_results_def comp_def concat_map_singleton)

lemma claude_messages_events: "exchange (concat (map claude_events_of (claude_messages env m)))"
proof (cases "role m")
  case RoleTool
  let ?is = "map tool_id (message_calls m)"
  have ev: "claude_events_of \<lparr>cm_assistant = True, cm_content = uncached (claude_calls env m)\<rparr> =
      (if ?is = [] then [Says] else map Calls ?is)"
    "claude_events_of \<lparr>cm_assistant = False, cm_content = uncached (claude_results m)\<rparr> =
      (if ?is = [] then [Says] else map Results ?is)"
    using claude_call_events [of env m] claude_result_events [of m] by (simp_all add: claude_events_of_def Let_def)
  show ?thesis
  proof (cases "?is = []")
    case True
    then have "claude_results m = []" by (simp add: claude_results_def)
    with RoleTool True ev(1) show ?thesis by (simp add: claude_messages_def)
  next
    case False
    then have "claude_results m \<noteq> []" by (simp add: claude_results_def)
    moreover have "claude_calls env m \<noteq> []" using claude_call_events [of env m] False by (auto simp: uncached_def)
    ultimately have "concat (map claude_events_of (claude_messages env m)) = map Calls ?is @ map Results ?is"
      using RoleTool False ev by (simp add: claude_messages_def)
    then show ?thesis by (simp only: exchanges)
  qed
next
  case RoleUser
  have "concat (map (block_events \<circ> fst) (uncached (convertPartsToContent ps))) = []" for ps
    by (induction ps) (auto simp: uncached_def convertPartsToContent_def split: part.split)
  with RoleUser show ?thesis by (simp add: claude_messages_def claude_events_of_def)
next
  case RoleAssistant
  have "concat (map (block_events \<circ> fst) (uncached (convertPartsToContent ps))) = []" for ps
    by (induction ps) (auto simp: uncached_def convertPartsToContent_def split: part.split)
  with RoleAssistant show ?thesis by (simp add: claude_messages_def claude_events_of_def)
qed (simp_all add: claude_messages_def)

lemma update_last_map: "xs \<noteq> [] \<Longrightarrow> f y = f (last xs) \<Longrightarrow> map f (xs[length xs - Suc 0 := y]) = map f xs"
  by (cases xs rule: rev_cases) auto

text \<open>A cache breakpoint changes no block.\<close>

lemma cache_last_fst: "map fst (cache_last xs) = map fst xs"
  by (simp add: cache_last_def update_last_map)

lemma cached_events:
  "map claude_events_of (lp_messages (applyEphemeralCache params)) = map claude_events_of (lp_messages params)"
proof -
  have "claude_events_of (m\<lparr>cm_content := cache_last (cm_content m)\<rparr>) = claude_events_of m" for m
    using cache_last_fst [of "cm_content m"] by (simp add: claude_events_of_def flip: map_map)
  then show ?thesis by (simp add: applyEphemeralCache_def Let_def update_last_map)
qed

text \<open>C12: Every tool call is answered. Whatever the history of a conversation is, in the request made from it
  for an OpenAI-compatible service and for Claude each call is followed by its result, results come in the
  order of the calls, nothing is said between a call and its result, and no result lacks its call.\<close>

theorem calls_answered:
  "(toChatCompletionParams env model cfg schema streaming req = Inr params \<longrightarrow>
      answered [] (concat (map chat_events (cp_messages params)))) \<and>
   (toClaudeParams env' model cfg' req = Inr params' \<longrightarrow>
      answered [] (concat (map claude_events_of (lp_messages params'))))"
proof (intro conjI impI)
  assume "toChatCompletionParams env model cfg schema streaming req = Inr params"
  then have "cp_messages params = (case req_instruction req of None \<Rightarrow> [] | Some m \<Rightarrow> [Chat_System (toTextParts m)]) @
      concat (map (\<lambda>m. chat_messages (the m)) (req_messages req))"
    by (auto simp: toChatCompletionParams_def Let_def)
  moreover have "answered [] (concat (map chat_events (concat (map (\<lambda>m. chat_messages (the m)) ms))))" for ms
    using answered_concat [of ms "\<lambda>m. concat (map chat_events (chat_messages (the m)))"]
    by (simp add: chat_messages_events map_concat comp_def concat_map_concat)
  ultimately show "answered [] (concat (map chat_events (cp_messages params)))" by (simp split: option.split)
next
  assume "toClaudeParams env' model cfg' req = Inr params'"
  then have e: "map claude_events_of (lp_messages params') =
      map claude_events_of (concat (map (claude_messages env') (map the (req_messages req))))"
    by (auto simp: toClaudeParams_def Let_def cached_events split: sum.splits)
  have "answered [] (concat (map claude_events_of (concat (map (claude_messages env') ms))))" for ms
    using answered_concat [of ms "\<lambda>m. concat (map claude_events_of (claude_messages env' m))"]
    by (simp add: claude_messages_events map_concat comp_def concat_map_concat)
  from this [of "map the (req_messages req)"] show "answered [] (concat (map claude_events_of (lp_messages params')))"
    unfolding e .
qed

definition demo_completion :: completion where
  "demo_completion = \<lparr>co_usage = usage zero_message, co_choices =
     [\<lparr>ch_content = ''let me see'', ch_audio = [], ch_finish = ''tool_calls'', ch_calls =
       [\<lparr>cl_id = ''t1'', cl_name = ''clock'', cl_arguments = ''{}''\<rparr>, \<lparr>cl_id = ''t2'', cl_name = ''clock'', cl_arguments = ''{}''\<rparr>]\<rparr>]\<rparr>"

definition demo_openai :: "nat openai_env" where
  "demo_openai = \<lparr>oa_describe = (\<lambda>t. \<lparr>dc_text = ''tells the time'', dc_schema = Some (Inr ''{}''), dc_output = None\<rparr>), oa_parameters = Inr,
     oa_positive = (\<lambda>x. x \<noteq> []),
     oa_decode64 = Inr, oa_newID = ''a1'', oa_create = (\<lambda>params n. (Inr (if n = 0 then demo_completion
       else demo_completion\<lparr>co_choices := [\<lparr>ch_content = ''noon'', ch_audio = [], ch_finish = ''stop'', ch_calls = []\<rparr>]\<rparr>), Suc n)),
     oa_stream = (\<lambda>params n. (([], None), n)), oa_accumulate = (\<lambda>chunks. \<lparr>co_usage = usage zero_message, co_choices = []\<rparr>)\<rparr>"

definition demo_chat_config :: chat_config where
  "demo_chat_config = \<lparr>cc_seed = 0, cc_maxTokens = 100, cc_frequency = [], cc_presence = [], cc_temperature = [], cc_topP = [],
     cc_stop = [], cc_extra = (\<lambda>_. None), cc_reasoning = []\<rparr>"

definition demo_claude :: "nat claude_env" where
  "demo_claude = \<lparr>le_describe = (\<lambda>t. \<lparr>dc_text = [], dc_schema = None, dc_output = None\<rparr>), le_schema = Inr, le_positive = (\<lambda>x. x \<noteq> []), le_decode = Some,
     le_marshal = Inr, le_newID = ''a1'', le_create = (\<lambda>params n. (Inr [], n)), le_stream = (\<lambda>params n. (([], None), n)),
     le_accumulate = (\<lambda>es. Inr [])\<rparr>"

definition demo_claude_config :: claude_config where
  "demo_claude_config = \<lparr>lc_maxTokens = 100, lc_topK = 0, lc_topP = [], lc_temperature = [], lc_stop = [], lc_thinking = None,
     lc_cache = True\<rparr>"

definition demo_request :: "nat request" where
  "demo_request = \<lparr>req_tools = [clock_tool], req_messages = [Some (UserMessage ''u1'' [InString ''time?'']), Some demo_done],
     req_instruction = None\<rparr>"

theorem calls_answered_witness:
  "(\<exists>params. toChatCompletionParams demo_openai ''m'' demo_chat_config None False demo_request = Inr params \<and>
      concat (map chat_events (cp_messages params)) = [Says, Calls ''t1'', Calls ''t2'', Results ''t1'', Results ''t2''] \<and>
      answered [] (concat (map chat_events (cp_messages params)))) \<and>
   (\<exists>params. toClaudeParams demo_claude ''m'' demo_claude_config demo_request = Inr params \<and>
      answered [] (concat (map claude_events_of (lp_messages params))))"
proof
  have "\<exists>params. toChatCompletionParams demo_openai ''m'' demo_chat_config None False demo_request = Inr params \<and>
      concat (map chat_events (cp_messages params)) = [Says, Calls ''t1'', Calls ''t2'', Results ''t1'', Results ''t2'']"
    by (simp add: toChatCompletionParams_def toTools_def demo_openai_def demo_request_def demo_chat_config_def
        clock_tool_def chat_messages_def UserMessage_def toToolCallMessage_def call_of_def message_calls_def demo_defs
        NewAssistantMessage_def zero_message_def NewToolPart_def)
  then show "\<exists>params. toChatCompletionParams demo_openai ''m'' demo_chat_config None False demo_request = Inr params \<and>
      concat (map chat_events (cp_messages params)) = [Says, Calls ''t1'', Calls ''t2'', Results ''t1'', Results ''t2''] \<and>
      answered [] (concat (map chat_events (cp_messages params)))"
    using calls_answered by blast
  obtain params where "toClaudeParams demo_claude ''m'' demo_claude_config demo_request = Inr params"
    by (simp add: toClaudeParams_def convertBladesToolsToClaude_def demo_claude_def demo_request_def clock_tool_def Let_def)
  then show "\<exists>params. toClaudeParams demo_claude ''m'' demo_claude_config demo_request = Inr params \<and>
      answered [] (concat (map claude_events_of (lp_messages params)))"
    using calls_answered by blast
qed

section \<open>The calls of an answer\<close>

lemma add_choices_calls:
  "add_choices env cs m = Inr m' \<Longrightarrow>
     map call_of (message_calls m') = map call_of (message_calls m) @ concat (map ch_calls cs)"
proof (induction cs arbitrary: m)
  case (Cons c cs)
  have plain: "concat (map (\<lambda>q. case q of ToolPart t \<Rightarrow> [t] | _ \<Rightarrow> []) (text_part s)) = []" for s
    by (simp add: text_part_def)
  have calls: "map call_of (concat (map ((\<lambda>q. case q of ToolPart t \<Rightarrow> [t] | _ \<Rightarrow> []) \<circ> call_part) xs)) = xs" for xs
    by (induction xs) (simp_all add: call_part_def call_of_def NewToolPart_def)
  from Cons.prems obtain audio where a: "(if ch_audio c = [] then Inr [] else ebind (oa_decode64 env (ch_audio c))
         (\<lambda>b. Inr [DataPart \<lparr>data_name = [], data_bytes = b, data_mime = []\<rparr>])) = Inr audio"
    "add_choices env cs (add_calls (ch_calls c) (add_finish (ch_finish c)
      (m\<lparr>parts := parts m @ text_part (ch_content c) @ audio\<rparr>))) = Inr m'" by auto
  have "concat (map (\<lambda>q. case q of ToolPart t \<Rightarrow> [t] | _ \<Rightarrow> []) audio) = []" using a(1) by (auto split: if_splits)
  with Cons.IH [OF a(2)] plain calls show ?case by (simp add: message_calls_def add_calls_def add_finish_def)
qed simp

lemma finished_calls:
  "list_all2 (finished ivn) ps qs \<Longrightarrow>
     map call_of (concat (map (\<lambda>q. case q of ToolPart t \<Rightarrow> [t] | _ \<Rightarrow> []) qs)) =
     map call_of (concat (map (\<lambda>q. case q of ToolPart t \<Rightarrow> [t] | _ \<Rightarrow> []) ps))"
  by (induction ps qs rule: list_all2_induct) (auto simp: finished_def call_of_def split: part.splits)

text \<open>C13: The calls of an answer come back unchanged. If a completion of an OpenAI-compatible service becomes a
  message and the agent executes its tools, then the message that goes out with the next request holds
  the calls of all choices of the completion, each with its identifier, name and arguments, in their
  order.\<close>

theorem calls_return:
  assumes "choiceToResponse env cc = Inr m" and "fst (executeTools x ivn m p) = Inr m'"
    and "set (tool_order x (parts m)) = {..< length (parts m)}"
  shows "toToolCallMessage m' = Chat_Calls (concat (map ch_calls (co_choices cc)))"
proof -
  have "map call_of (message_calls m) = concat (map ch_calls (co_choices cc))"
    using add_choices_calls [of env "co_choices cc" _ m] assms(1)
    by (simp add: choiceToResponse_def message_calls_def NewAssistantMessage_def zero_message_def)
  with finished_calls [OF executeTools_finished [OF assms(3,2)]] show ?thesis
    by (simp add: toToolCallMessage_def message_calls_def)
qed

theorem calls_return_witness:
  "\<exists>m m'. choiceToResponse demo_openai demo_completion = Inr m \<and>
     fst (executeTools demo_ext (demo_inv\<lparr>inv_tools := [clock_tool]\<rparr>) m 0) = Inr m' \<and>
     toToolCallMessage m' = Chat_Calls [\<lparr>cl_id = ''t1'', cl_name = ''clock'', cl_arguments = ''{}''\<rparr>,
       \<lparr>cl_id = ''t2'', cl_name = ''clock'', cl_arguments = ''{}''\<rparr>]"
proof -
  obtain m where m: "choiceToResponse demo_openai demo_completion = Inr m" by (simp add: demo_completion_def choiceToResponse_def)
  obtain m' where m': "fst (executeTools demo_ext (demo_inv\<lparr>inv_tools := [clock_tool]\<rparr>) m 0) = Inr m'"
    using executeTools_ok [of "demo_inv\<lparr>inv_tools := [clock_tool]\<rparr>" demo_ext m 0] by (auto simp: clock_tool_def)
  have "toToolCallMessage m' = Chat_Calls (concat (map ch_calls (co_choices demo_completion)))"
    by (rule calls_return [OF m m']) (auto simp: demo_ext_def)
  with m m' show ?thesis by (auto simp: demo_completion_def)
qed

section \<open>Agents on the adapters\<close>

text \<open>An agent on any of the three adapters keeps its transcript, whatever the service answers: the session
  first gets the user's message (unless an agent sharing the invocation already added it), when the
  consumer receives an event the session holds exactly the messages yielded before it, and at the end
  every message yielded.\<close>

theorem adapter_transcript:
  assumes "a_model a = Some (chatModel env model cfg schema) \<or> a_model a = Some (Claude cenv model ccfg) \<or>
      a_model a = Some (Gemini genv model gcfg)"
    and "\<not> inv_stream ivn" and "ctx_session c = Some r" and "guarded f ivn" and "inv_message ivn = Some m"
    and "fst (prepareInvocation x (without_middlewares a) ivn w) = Inr i"
    and "g = Run x (without_middlewares a) c ivn w"
    and "h = hist r w @ (if flags w f then [] else [attributed ivn m])"
  shows "(\<forall>i < length (gtrace g). hist r (snd (gtrace g ! i)) = h @ map projr (take i (gevents g))) \<and>
    hist r (snd (gfinal g)) = h @ map projr (filter (\<lambda>x. \<not> isl x) (gevents g))"
proof -
  have "speaks a" using assms(1) openai.speaks claude.speaks gemini.speaks by blast
  then show ?thesis using Run_follows [OF _ assms(2-6)] follows_nth follows_final unfolding assms(7,8) by blast
qed

definition service_agent :: "nat agent" where
  "service_agent = demo_agent\<lparr>a_model := Some (chatModel demo_openai ''m'' demo_chat_config None)\<rparr>"

abbreviation service_run :: "(Agents.event, nat world, unit) gen" where
  "service_run \<equiv> Run demo_ext (without_middlewares service_agent) demo_ctx demo_inv demo_world"

theorem adapter_transcript_witness:
  "length (gevents service_run) = 2 \<and>
   hist 0 (snd (gfinal service_run)) = [attributed demo_inv (the (inv_message demo_inv))] @
     map projr (filter (\<lambda>x. \<not> isl x) (gevents service_run))"
proof
  show "length (gevents service_run) = 2"
    by (simp add: service_agent_def chatModel_def chat_Generate_def toChatCompletionParams_def toTools_def
        demo_openai_def demo_completion_def demo_chat_config_def choiceToResponse_def as_response_def text_part_def add_calls_def
        add_finish_def call_part_def NewAssistantMessage_def zero_message_def NewToolPart_def demo_defs run_agent_defs)
  have prepared: "fst (prepareInvocation demo_ext (without_middlewares service_agent) demo_inv demo_world) =
      Inr (demo_inv\<lparr>inv_model := ''m'', inv_tools := [clock_tool]\<rparr>)"
    by (simp add: prepareInvocation_def with_flag_def resolveTools_def provided_instruction_def service_agent_def
        static_instruction_def without_middlewares_def the_model_def demo_inv_def buildInvocation_def Let_def
        demo_agent_def chatModel_def)
  have h: "hist 0 demo_world @ (if flags demo_world 0 then [] else
      [attributed demo_inv (the (inv_message demo_inv))]) = [attributed demo_inv (the (inv_message demo_inv))]"
    by (simp add: demo_world_def NewSession_def)
  have "a_model service_agent = Some (chatModel demo_openai ''m'' demo_chat_config None)" by (simp add: service_agent_def)
  from adapter_transcript [OF disjI1 [OF this] _ _ demo_guarded _ prepared refl h [symmetric], of demo_ctx]
  show "hist 0 (snd (gfinal service_run)) = [attributed demo_inv (the (inv_message demo_inv))] @
     map projr (filter (\<lambda>x. \<not> isl x) (gevents service_run))"
    by (simp add: demo_inv_def buildInvocation_def demo_ctx_def)
qed

end
