(* ===== verification/Delegation_Prompts.thy ===== *)
theory Delegation_Prompts
  imports Go_Strings "HOL-Library.Char_ord"
begin

text \<open>
  The fixed texts of deep agents (\<open>internal/deep/instruction.go\<close>) and of routing agents
  (\<open>internal/handoff/instructions.go\<close>), byte for byte, and what \<open>html/template\<close>, which renders them, makes
  of fixed text and of inserted text. A template is split at its action.
\<close>

section \<open>Texts\<close>

definition BaseAgentPrompt :: string where
  "BaseAgentPrompt = Join
    [''In order to complete the objective that the user asks of you, you have access to a number of standard tools.''] [newline]"

definition generalAgentName :: string where
  "generalAgentName = Join
    [''general-purpose''] [newline]"

definition generalAgentDescription :: string where
  "generalAgentDescription = Join
    [''General-purpose agent for researching complex questions, searching for files and content, and executing multi-step tasks. When you are searching for a keyword or file and are not confident that you will find the right match in the first few tries use this agent to perform the search for you. This agent has access to all tools as the main agent.''] [newline]"

definition writeTodosToolPrompt :: string where
  "writeTodosToolPrompt = Join
    [''## 'write_todos'' @ [CHR 0x27],
     [],
     ''You have access to the 'write_todos' tool to help you manage and plan complex objectives.'',
     ''Use this tool for complex objectives to ensure that you are tracking each necessary step and giving the user visibility into your progress.'',
     ''This tool is very helpful for planning complex objectives, and for breaking down these larger complex objectives into smaller steps.'',
     [],
     ''It is critical that you mark todos as completed as soon as you are done with a step. Do not batch up multiple steps before marking them as completed.'',
     ''For simple objectives that only require a few steps, it is better to just complete the objective directly and NOT use this tool.'',
     ''Writing todos takes time and tokens, use it when it is helpful for managing complex many-step problems! But not for simple few-step requests.'',
     [],
     ''## Important To-Do List Usage Notes to Remember'',
     ''- The 'write_todos' tool should never be called multiple times in parallel.'',
     ''- Don't be afraid to revise the To-Do list as you go. New information may reveal new tasks that need to be done, or old tasks that are irrelevant.''] [newline]"

definition writeTodosToolDescription :: string where
  "writeTodosToolDescription = Join
    [''Use this tool to create and manage a structured task list for your current work session. This helps you track progress, organize complex tasks, and demonstrate thoroughness to the user.'',
     [],
     ''Only use this tool if you think it will be helpful in staying organized. If the user's request is trivial and takes less than 3 steps, it is better to NOT use this tool and just do the task directly.'',
     [],
     ''## When to Use This Tool'',
     ''Use this tool in these scenarios:'',
     [],
     ''1. Complex multi-step tasks - When a task requires 3 or more distinct steps or actions'',
     ''2. Non-trivial and complex tasks - Tasks that require careful planning or multiple operations'',
     ''3. User explicitly requests todo list - When the user directly asks you to use the todo list'',
     ''4. User provides multiple tasks - When users provide a list of things to be done (numbered or comma-separated)'',
     ''5. The plan may need future revisions or updates based on results from the first few steps'',
     [],
     ''## How to Use This Tool'',
     ''1. When you start working on a task - Mark it as in_progress BEFORE beginning work.'',
     ''2. After completing a task - Mark it as completed and add any new follow-up tasks discovered during implementation.'',
     ''3. You can also update future tasks, such as deleting them if they are no longer necessary, or adding new tasks that are necessary. Don't change previously completed tasks.'',
     ''4. You can make several updates to the todo list at once. For example, when you complete a task, you can mark the next task you need to start as in_progress.'',
     [],
     ''## When NOT to Use This Tool'',
     ''It is important to skip using this tool when:'',
     ''1. There is only a single, straightforward task'',
     ''2. The task is trivial and tracking it provides no benefit'',
     ''3. The task can be completed in less than 3 trivial steps'',
     ''4. The task is purely conversational or informational'',
     [],
     ''## Task States and Management'',
     [],
     ''1. **Task States**: Use these states to track progress:'',
     ''   - pending: Task not yet started'',
     ''   - in_progress: Currently working on (you can have multiple tasks in_progress at a time if they are not related to each other and can be run in parallel)'',
     ''   - completed: Task finished successfully'',
     [],
     ''2. **Task Management**:'',
     ''   - Update task status in real-time as you work'',
     ''   - Mark tasks complete IMMEDIATELY after finishing (don't batch completions)'',
     ''   - Complete current tasks before starting new ones'',
     ''   - Remove tasks that are no longer relevant from the list entirely'',
     ''   - IMPORTANT: When you write this todo list, you should mark your first task (or tasks) as in_progress immediately!'',
     ''   - IMPORTANT: Unless all tasks are completed, you should always have at least one task in_progress to show the user that you are working on something.'',
     [],
     ''3. **Task Completion Requirements**:'',
     ''   - ONLY mark a task as completed when you have FULLY accomplished it'',
     ''   - If you encounter errors, blockers, or cannot finish, keep the task as in_progress'',
     ''   - When blocked, create a new task describing what needs to be resolved'',
     ''   - Never mark a task as completed if:'',
     ''     - There are unresolved issues or errors'',
     ''     - Work is partial or incomplete'',
     ''     - You encountered blockers that prevent completion'',
     ''     - You couldn't find necessary resources or dependencies'',
     ''     - Quality standards haven't been met'',
     [],
     ''4. **Task Breakdown**:'',
     ''   - Create specific, actionable items'',
     ''   - Break complex tasks into smaller, manageable steps'',
     ''   - Use clear, descriptive task names'',
     [],
     ''Being proactive with task management demonstrates attentiveness and ensures you complete all requirements successfully'',
     ''Remember: If you only need to make a few tool calls to complete a task, and it is clear what you need to do, it is better to just do the task directly and NOT call this tool at all.''] [newline]"

definition taskPrompt :: string where
  "taskPrompt = Join
    [''## 'task' (subagent spawner)'',
     [],
     ''You have access to a 'task' tool to launch short-lived subagents that handle isolated tasks. These agents are ephemeral '' @ [CHR 0xE2, CHR 0x80, CHR 0x94] @ '' they live only for the duration of the task and return a single result.'',
     [],
     ''When to use the task tool:'',
     ''- When a task is complex and multi-step, and can be fully delegated in isolation'',
     ''- When a task is independent of other tasks and can run in parallel'',
     ''- When a task requires focused reasoning or heavy token/context usage that would bloat the orchestrator thread'',
     ''- When sandboxing improves reliability (e.g. code execution, structured searches, data formatting)'',
     ''- When you only care about the output of the subagent, and not the intermediate steps (ex. performing a lot of research and then returned a synthesized report, performing a series of computations or lookups to achieve a concise, relevant answer.)'',
     [],
     ''Subagent lifecycle:'',
     ''1. **Spawn** '' @ [CHR 0xE2, CHR 0x86, CHR 0x92] @ '' Provide clear role, instructions, and expected output'',
     ''2. **Run** '' @ [CHR 0xE2, CHR 0x86, CHR 0x92] @ '' The subagent completes the task autonomously'',
     ''3. **Return** '' @ [CHR 0xE2, CHR 0x86, CHR 0x92] @ '' The subagent provides a single structured result'',
     ''4. **Reconcile** '' @ [CHR 0xE2, CHR 0x86, CHR 0x92] @ '' Incorporate or synthesize the result into the main thread'',
     [],
     ''When NOT to use the task tool:'',
     ''- If you need to see the intermediate reasoning or steps after the subagent has completed (the task tool hides them)'',
     ''- If the task is trivial (a few tool calls or simple lookup)'',
     ''- If delegating does not reduce token usage, complexity, or context switching'',
     ''- If splitting would add latency without benefit'',
     [],
     ''## Important Task Tool Usage Notes to Remember'',
     ''- Whenever possible, parallelize the work that you do. This is true for both tool_calls, and for tasks. Whenever you have independent steps to complete - make tool_calls, or kick off tasks (subagents) in parallel to accomplish them faster. This saves time for the user, which is incredibly important.'',
     ''- Remember to use the 'task' tool to silo independent tasks within a multi-part objective.'',
     ''- You should use the 'task' tool whenever you have a complex task that will take multiple steps, and is independent from other tasks that the agent needs to complete. These agents are highly competent and efficient.''] [newline]"

definition taskToolDescription_head :: string where
  "taskToolDescription_head = Join
    [''Launch an ephemeral subagent to handle complex, multi-step independent tasks with isolated context windows. '',
     [],
     ''Available agent types and the tools they have access to:'',
     []] [newline]"

definition taskToolDescription_tail :: string where
  "taskToolDescription_tail = Join
    [[],
     [],
     ''When using the Task tool, you must specify a subagent_type parameter to select which agent type to use.'',
     [],
     ''## Usage notes:'',
     ''1. Launch multiple agents concurrently whenever possible, to maximize performance; to do that, use a single message with multiple tool uses'',
     ''2. When the agent is done, it will return a single message back to you. The result returned by the agent is not visible to the user. To show the user the result, you should send a text message back to the user with a concise summary of the result.'',
     ''3. Each agent invocation is stateless. You will not be able to send additional messages to the agent, nor will the agent be able to communicate with you outside of its final report. Therefore, your prompt should contain a highly detailed task description for the agent to perform autonomously and you should specify exactly what information the agent should return back to you in its final and only message to you.'',
     ''4. The agent's outputs should generally be trusted'',
     ''5. Clearly tell the agent whether you expect it to create content, perform analysis, or just do research (search, file reads, web fetches, etc.), since it is not aware of the user's intent'',
     ''6. If the agent description mentions that it should be used proactively, then you should try your best to use it without the user having to ask for it first. Use your judgement.'',
     ''7. When only the general-purpose agent is provided, you should use it for all tasks. It is great for isolating context and token usage, and completing specific, complex tasks, as it has all the same capabilities as the main agent.'',
     [],
     ''### Example usage of the general-purpose agent:'',
     [],
     ''<example_agent_descriptions>'',
     ''\"general-purpose\": use this agent for general purpose tasks, it has access to all tools as the main agent.'',
     ''</example_agent_descriptions>'',
     [],
     ''<example>'',
     ''User: \"I want to conduct research on the accomplishments of LeBron James, Michael Jordan, and Kobe Bryant, and then compare them.\"'',
     ''Assistant: *Uses the task tool in parallel to conduct isolated research on each of the three players*'',
     ''Assistant: *Synthesizes the results of the three isolated research tasks and responds to the User*'',
     ''<commentary>'',
     ''Research is a complex, multi-step task in it of itself.'',
     ''The research of each individual player is not dependent on the research of the other players.'',
     ''The assistant uses the task tool to break down the complex objective into three isolated tasks.'',
     ''Each research task only needs to worry about context and tokens about one player, then returns synthesized information about each player as the Tool Result.'',
     ''This means each research task can dive deep and spend tokens and context deeply researching each player, but the final result is synthesized information, and saves us tokens in the long run when comparing the players to each other.'',
     ''</commentary>'',
     ''</example>'',
     [],
     ''<example>'',
     ''User: \"Analyze a single large code repository for security vulnerabilities and generate a report.\"'',
     ''Assistant: *Launches a single 'task' subagent for the repository analysis*'',
     ''Assistant: *Receives report and integrates results into final summary*'',
     ''<commentary>'',
     ''Subagent is used to isolate a large, context-heavy task, even though there is only one. This prevents the main thread from being overloaded with details.'',
     ''If the user then asks followup questions, we have a concise report to reference instead of the entire history of analysis and tool calls, which is good and saves us time and money.'',
     ''</commentary>'',
     ''</example>'',
     [],
     ''<example>'',
     ''User: \"Schedule two meetings for me and prepare agendas for each.\"'',
     ''Assistant: *Calls the task tool in parallel to launch two 'task' subagents (one per meeting) to prepare agendas*'',
     ''Assistant: *Returns final schedules and agendas*'',
     ''<commentary>'',
     ''Tasks are simple individually, but subagents help silo agenda preparation.'',
     ''Each subagent only needs to worry about the agenda for one meeting.'',
     ''</commentary>'',
     ''</example>'',
     [],
     ''<example>'',
     ''User: \"I want to order a pizza from Dominos, order a burger from McDonald's, and order a salad from Subway.\"'',
     ''Assistant: *Calls tools directly in parallel to order a pizza from Dominos, a burger from McDonald's, and a salad from Subway*'',
     ''<commentary>'',
     ''The assistant did not use the task tool because the objective is super simple and clear and only requires a few trivial tool calls.'',
     ''It is better to just complete the task directly and NOT use the 'task' tool.'',
     ''</commentary>'',
     ''</example>'',
     [],
     ''### Example usage with custom agents:'',
     [],
     ''<example_agent_descriptions>'',
     ''\"content-reviewer\": use this agent after you are done creating significant content or documents'',
     ''\"greeting-responder\": use this agent to respond to user greetings with a friendly joke'',
     ''\"research-analyst\": use this agent to conduct thorough research on complex topics'',
     ''</example_agent_descriptions>'',
     [],
     ''<example>'',
     ''user: \"Please write a function that checks if a number is prime\"'',
     ''assistant: Sure let me write a function that checks if a number is prime'',
     ''assistant: First let me use the Write tool to write a function that checks if a number is prime'',
     ''assistant: I'm going to use the Write tool to write the following code:'',
     ''<code>'',
     ''function isPrime(n) {'',
     ''  if (n <= 1) return false'',
     ''  for (let i = 2; i * i <= n; i++) {'',
     ''    if (n % i === 0) return false'',
     ''  }'',
     ''  return true'',
     ''}'',
     ''</code>'',
     ''<commentary>'',
     ''Since significant content was created and the task was completed, now use the content-reviewer agent to review the work'',
     ''</commentary>'',
     ''assistant: Now let me use the content-reviewer agent to review the code'',
     ''assistant: Uses the Task tool to launch with the content-reviewer agent'',
     ''</example>'',
     [],
     ''<example>'',
     ''user: \"Can you help me research the environmental impact of different renewable energy sources and create a comprehensive report?\"'',
     ''<commentary>'',
     ''This is a complex research task that would benefit from using the research-analyst agent to conduct thorough analysis'',
     ''</commentary>'',
     ''assistant: I'll help you research the environmental impact of renewable energy sources. Let me use the research-analyst agent to conduct comprehensive research on this topic.'',
     ''assistant: Uses the Task tool to launch with the research-analyst agent, providing detailed instructions about what research to conduct and what format the report should take'',
     ''</example>'',
     [],
     ''<example>'',
     ''user: \"Hello\"'',
     ''<commentary>'',
     ''Since the user is greeting, use the greeting-responder agent to respond with a friendly joke'',
     ''</commentary>'',
     ''assistant: \"I'm going to use the Task tool to launch with the greeting-responder agent\"'',
     ''</example>''] [newline]"

definition handoff_head :: string where
  "handoff_head = Join
    [''You have access to the following agents:'',
     []] [newline]"

definition handoff_tail :: string where
  "handoff_tail = Join
    [[],
     ''Your task:'',
     ''- Determine whether you are the most appropriate agent to answer the user's question based on your own description.'',
     ''- If another agent is clearly better suited to handle the user's request, you must transfer the query by calling the \"handoff_to_agent\" function.'',
     ''- If no other agent is more suitable, respond to the user directly as a helpful assistant, providing clear, detailed, and accurate information.'',
     [],
     ''Important rules:'',
     ''- When transferring a query, output only the function call, and nothing else.'',
     ''- Do not include explanations, reasoning, or any additional text outside of the function call.''] [newline]"

section \<open>What html/template makes of a text\<close>

text \<open>Inserted text: \<open>html/template\<close> escapes one character more than \<open>html.EscapeString\<close>, and replaces NUL.\<close>

definition escaped_char :: "char \<Rightarrow> string" where
  "escaped_char c = (if c = CHR ''&'' then ''&amp;'' else if c = CHR ''<'' then ''&lt;'' else if c = CHR ''>'' then ''&gt;''
     else if c = CHR 0x22 then ''&#34;'' else if c = CHR 0x27 then ''&#39;'' else if c = CHR ''+'' then ''&#43;''
     else if c = CHR 0x00 then [CHR 0xEF, CHR 0xBF, CHR 0xBD] else [c])"

definition template_text :: "string \<Rightarrow> string" where
  "template_text s = concat (map escaped_char s)"

text \<open>Fixed text: a \<open><\<close> that does not open a tag is escaped. The templates have no attributes, comments,
  scripts or styles.\<close>

definition is_letter :: "char \<Rightarrow> bool" where
  "is_letter c \<longleftrightarrow> (CHR ''a'' \<le> c \<and> c \<le> CHR ''z'') \<or> (CHR ''A'' \<le> c \<and> c \<le> CHR ''Z'')"

fun opens_tag :: "string \<Rightarrow> bool" where
  "opens_tag [] = False"
| "opens_tag [c] = is_letter c"
| "opens_tag (c # d # s) = (is_letter c \<or> (c = CHR ''/'' \<and> is_letter d))"

fun fixed_text :: "string \<Rightarrow> string" where
  "fixed_text [] = []"
| "fixed_text (c # s) = (if c = CHR ''<'' \<and> \<not> opens_tag s then ''&lt;'' else [c]) @ fixed_text s"

lemma template_text_plain: "\<forall>c \<in> set s. escaped_char c = [c] \<Longrightarrow> template_text s = s"
  by (induction s) (simp_all add: template_text_def)

lemma template_text_append [simp]: "template_text (s @ t) = template_text s @ template_text t"
  by (simp add: template_text_def)

lemma fixed_text_plain: "CHR ''<'' \<notin> set s \<Longrightarrow> fixed_text s = s"
  by (induction s) auto

end
