(* ===== verification/Delegation.thy ===== *)
theory Delegation
  imports Recipe_Build Tool_Base Delegation_Prompts
begin

text \<open>
  Agents that hand work to other agents: the handoff tool and the routing agent around it
  (\<open>internal/handoff\<close>, \<open>flow/routing.go\<close>), and the deep agent with its list of todos and its task tool
  (\<open>internal/deep\<close>, \<open>flow/deep.go\<close>). The JSON codecs are arguments, the schemas of the tools are left out.
\<close>

text \<open>The \<open>Agent\<close> interface.\<close>

record 'p agent_ref =
  ar_name :: string
  ar_description :: string
  ar_run :: "'p handler"

section \<open>Handing off\<close>

text \<open>\<open>decode\<close> is \<open>json.Unmarshal\<close> into a map of strings; \<open>in_tool\<close> says whether the context carries a tool
  context, which the agent always puts there.\<close>

definition handoffTool_Handle :: "(string \<Rightarrow> string + (string \<rightharpoonup> string)) \<Rightarrow> bool \<Rightarrow> 'p tool_handler" where
  "handoffTool_Handle decode in_tool i input p = (case decode input of
       Inl e \<Rightarrow> (Inl (Failed e), [], p)
     | Inr args \<Rightarrow>
         (let agentName = TrimSpace (case args ''agentName'' of None \<Rightarrow> [] | Some n \<Rightarrow> n) in
          if agentName = [] then (Inl (Failed ''agentName must be a non-empty string''), [], p)
          else if \<not> in_tool then (Inl (Failed ''tool context not found in context''), [], p)
          else (Inr [], [(''handoff_to_agent'', AnyString agentName)], p)))"

definition NewHandoffTool :: "(string \<Rightarrow> string + (string \<rightharpoonup> string)) \<Rightarrow> 'p tool" where
  "NewHandoffTool decode = \<lparr>t_name = ''handoff_to_agent'', t_handle = handoffTool_Handle decode True\<rparr>"

definition handoff_entry :: "'p agent_ref \<Rightarrow> string" where
  "handoff_entry a = [newline] @ ''Agent Name: '' @ template_text (ar_name a) @ [newline] @
     ''Agent Description: '' @ template_text (ar_description a) @ [newline]"

definition BuildInstruction :: "'p agent_ref list \<Rightarrow> string" where
  "BuildInstruction targets = fixed_text handoff_head @ concat (map handoff_entry targets) @ fixed_text handoff_tail"

record 'p routing_config =
  rc_name :: string
  rc_description :: string
  rc_model :: "'p provider option"
  rc_agents :: "'p agent_ref list"
  rc_middlewares :: "('p handler \<Rightarrow> 'p handler) list"

text \<open>The router and its targets.\<close>

definition NewRoutingAgent :: "(string \<Rightarrow> string + (string \<rightharpoonup> string)) \<Rightarrow> 'p routing_config \<Rightarrow>
    aerror + 'p agent \<times> (string, 'p handler) gomap" where
  "NewRoutingAgent decode cfg = (case NewAgent (rc_name cfg)
         [WithModel (rc_model cfg), WithDescription (rc_description cfg),
          WithInstruction (BuildInstruction (rc_agents cfg)), WithTools [NewHandoffTool decode],
          WithAgentMiddleware (rc_middlewares cfg)] of
       Inl e \<Rightarrow> Inl e
     | Inr root \<Rightarrow> Inr (root, routing_targets (map (\<lambda>a. (ar_name a, ar_run a)) (rc_agents cfg))))"

definition routing_ref :: "ext \<Rightarrow> 'p agent \<times> (string, 'p handler) gomap \<Rightarrow> 'p agent_ref" where
  "routing_ref x r = (case r of (root, targets) \<Rightarrow> \<lparr>ar_name = a_name root, ar_description = a_description root,
     ar_run = RoutingAgent_Run (Run x root) targets\<rparr>)"

section \<open>The list of todos\<close>

record todo =
  td_content :: string
  td_status :: string

text \<open>The request decoded into a pointer: \<open>null\<close> makes it nil, and reading its list panics (\<open>None\<close>). A nil
  list of todos is \<open>None\<close> too.\<close>

definition writeTodosTool_Handle :: "(string \<Rightarrow> string + todo list option option) \<Rightarrow> (todo list option \<Rightarrow> string + string) \<Rightarrow>
    string \<Rightarrow> string \<Rightarrow> 'p \<Rightarrow> ((terror + string) \<times> (string \<times> anyval) list \<times> 'p) option" where
  "writeTodosTool_Handle decode encode i input p = (case decode input of
       Inl e \<Rightarrow> Some (Inl (Failed e), [], p)
     | Inr None \<Rightarrow> None
     | Inr (Some todos) \<Rightarrow> Some (case encode todos of
           Inl e \<Rightarrow> (Inl (Failed e), [], p) | Inr text \<Rightarrow> (Inr (''Updated todo list to '' @ text), [], p)))"

text \<open>What a call that panics gives is left open.\<close>

definition NewWriteTodosTool :: "(string \<Rightarrow> string + todo list option option) \<Rightarrow> (todo list option \<Rightarrow> string + string) \<Rightarrow>
    'p tool \<times> string" where
  "NewWriteTodosTool decode encode = (\<lparr>t_name = ''write_todos'',
     t_handle = (\<lambda>i input p. the (writeTodosTool_Handle decode encode i input p))\<rparr>, writeTodosToolPrompt)"

section \<open>Tasks\<close>

record 'p task_config =
  tc_model :: "'p provider option"
  tc_agents :: "'p agent_ref list"
  tc_tools :: "'p tool list"
  tc_instructions :: "string list"
  tc_maxIterations :: int
  tc_withoutGeneral :: bool

definition general_agent :: "'p task_config \<Rightarrow> aerror + 'p agent" where
  "general_agent tc = NewAgent generalAgentName
     [WithModel (tc_model tc), WithDescription generalAgentDescription,
      WithInstruction (Join (tc_instructions tc) [newline, newline]), WithTools (tc_tools tc),
      WithMaxIterations (tc_maxIterations tc)]"

definition agent_ref_of :: "ext \<Rightarrow> 'p agent \<Rightarrow> 'p agent_ref" where
  "agent_ref_of x a = \<lparr>ar_name = a_name a, ar_description = a_description a, ar_run = Run x a\<rparr>"

definition newGeneralPurposeAgent :: "ext \<Rightarrow> 'p task_config \<Rightarrow> aerror + 'p agent_ref" where
  "newGeneralPurposeAgent x tc = (case general_agent tc of Inl e \<Rightarrow> Inl e | Inr a \<Rightarrow> Inr (agent_ref_of x a))"

record 'p taskTool =
  tt_description :: string
  tt_agents :: "'p agent_ref list"
  tt_map :: "string \<rightharpoonup> 'p agent_ref"

definition buildDescription :: "'p agent_ref list \<Rightarrow> string" where
  "buildDescription agents = fixed_text taskToolDescription_head @
     template_text (Join (map (\<lambda>a. ''- '' @ ar_name a @ '': '' @ ar_description a) agents) [newline]) @
     fixed_text taskToolDescription_tail"

definition add_subagent :: "(string \<rightharpoonup> 'p agent_ref) \<Rightarrow> string \<Rightarrow> 'p agent_ref \<Rightarrow> string \<rightharpoonup> 'p agent_ref" where
  "add_subagent m name a = m(name \<mapsto> a)"

definition subagent_named :: "(string \<rightharpoonup> 'p agent_ref) \<Rightarrow> string \<Rightarrow> string + 'p agent_ref" where
  "subagent_named m name = (case m name of
       None \<Rightarrow> Inl (''subagent type '' @ name @ '' not found'') | Some a \<Rightarrow> Inr a)"

text \<open>The sub-agents of the task tool are a registry of agents by name.\<close>

interpretation subagents: registry add_subagent subagent_named Map.empty Inr
  by unfold_locales (simp_all add: add_subagent_def subagent_named_def)

definition NewTaskTool :: "ext \<Rightarrow> 'p task_config \<Rightarrow> aerror + 'p taskTool \<times> string" where
  "NewTaskTool x tc =
     ebind (if tc_withoutGeneral tc then Inr (tc_agents tc)
            else ebind (newGeneralPurposeAgent x tc) (\<lambda>a. Inr (tc_agents tc @ [a])))
       (\<lambda>agents. Inr (\<lparr>tt_description = buildDescription agents, tt_agents = agents,
           tt_map = fold (\<lambda>a m. add_subagent m (ar_name a) a) agents Map.empty\<rparr>, taskPrompt))"

text \<open>\<open>decode\<close> gives the type of the sub-agent and the description of the task. \<open>caller\<close> is the agent that
  owns the tool.\<close>

definition taskTool_Handle :: "recipe_env \<Rightarrow> (string \<Rightarrow> string + string \<times> string) \<Rightarrow> string \<Rightarrow> 'p taskTool \<Rightarrow> 'p tool_handler" where
  "taskTool_Handle env decode caller t i input p = (case decode input of
       Inl e \<Rightarrow> (Inl (Failed e), [], p)
     | Inr (kind, description) \<Rightarrow> (case subagent_named (tt_map t) kind of
           Inl e \<Rightarrow> (Inl (Failed e), [], p)
         | Inr agent \<Rightarrow> t_handle (agent_tool env caller (ar_name agent) (ar_run agent)) i description p))"

definition task_tool :: "recipe_env \<Rightarrow> (string \<Rightarrow> string + string \<times> string) \<Rightarrow> string \<Rightarrow> 'p taskTool \<Rightarrow> 'p tool" where
  "task_tool env decode caller t = \<lparr>t_name = ''task'', t_handle = taskTool_Handle env decode caller t\<rparr>"

section \<open>The deep agent\<close>

record 'p deep_config =
  dc_name :: string
  dc_model :: "'p provider option"
  dc_description :: string
  dc_instruction :: string
  dc_tools :: "'p tool list"
  dc_agents :: "'p agent_ref list"
  dc_maxIterations :: int
  dc_withoutGeneral :: bool
  dc_middlewares :: "('p handler \<Rightarrow> 'p handler) list"

record deep_env =
  de_env :: recipe_env
  de_decodeTodos :: "string \<Rightarrow> string + todo list option option"
  de_encodeTodos :: "todo list option \<Rightarrow> string + string"
  de_decodeTask :: "string \<Rightarrow> string + string \<times> string"

text \<open>What the task tool gets: it is configured before it joins the tools itself.\<close>

definition deep_task_config :: "deep_env \<Rightarrow> 'p deep_config \<Rightarrow> 'p task_config" where
  "deep_task_config env cfg = (case NewWriteTodosTool (de_decodeTodos env) (de_encodeTodos env) of
     (todosTool, todosInstruction) \<Rightarrow>
       \<lparr>tc_model = dc_model cfg, tc_agents = dc_agents cfg, tc_tools = dc_tools cfg @ [todosTool],
        tc_instructions = [dc_instruction cfg, BaseAgentPrompt, todosInstruction],
        tc_maxIterations = dc_maxIterations cfg, tc_withoutGeneral = dc_withoutGeneral cfg\<rparr>)"

definition deep_tools :: "deep_env \<Rightarrow> 'p deep_config \<Rightarrow> aerror + 'p tool list \<times> string list" where
  "deep_tools env cfg =
     (let tc = deep_task_config env cfg in
      if \<not> tc_withoutGeneral tc \<or> 0 < length (tc_agents tc)
      then ebind (NewTaskTool (env_ext (de_env env)) tc) (\<lambda>(t, taskInstruction).
        Inr (tc_tools tc @ [task_tool (de_env env) (de_decodeTask env) (dc_name cfg) t], tc_instructions tc @ [taskInstruction]))
      else Inr (tc_tools tc, tc_instructions tc))"

definition NewDeepAgent :: "deep_env \<Rightarrow> 'p deep_config \<Rightarrow> aerror + 'p agent" where
  "NewDeepAgent env cfg =
     ebind (deep_tools env cfg) (\<lambda>(tools, instructions).
       NewAgent (dc_name cfg)
         [WithModel (dc_model cfg), WithDescription (dc_description cfg),
          WithInstruction (Join instructions [newline, newline]), WithTools tools,
          WithMaxIterations (dc_maxIterations cfg), WithAgentMiddleware (dc_middlewares cfg)])"

end
