(* ===== verification/Delegation_Props.thy ===== *)
theory Delegation_Props
  imports Delegation Agent_Props
begin

text \<open>
  What delegation promises: a routing agent whose model calls the handoff tool becomes the agent it
  names, and the task tool of a deep agent runs exactly the sub-agent it names.
\<close>

section \<open>From a call of the handoff tool to the run of its target\<close>

lemma NewRoutingAgent_root:
  assumes "NewRoutingAgent decode cfg = Inr (root, targets)"
  shows "root = \<lparr>a_name = rc_name cfg, a_description = rc_description cfg, a_instruction = BuildInstruction (rc_agents cfg),
      a_instructionProvider = None, a_outputKey = [], a_maxIterations = 10, a_model = rc_model cfg,
      a_middlewares = rc_middlewares cfg, a_tools = [NewHandoffTool decode], a_skills = None, a_resolver = None,
      a_useContext = False\<rparr>"
    and "targets = routing_targets (map (\<lambda>a. (ar_name a, ar_run a)) (rc_agents cfg))" and "rc_model cfg \<noteq> None"
  using assms
  by (simp_all add: NewRoutingAgent_def NewAgent_def Let_def WithModel_def WithDescription_def WithInstruction_def
      WithTools_def WithAgentMiddleware_def split: if_splits)

lemma prepare_tools:
  assumes "prepareInvocation x a ivn w = (Inr i, w')" and "a_skills a = None" and "a_resolver a = None"
  shows "inv_tools i = inv_tools ivn @ a_tools a"
  using assms
  by (auto simp: prepareInvocation_def Let_def static_instruction_def provided_instruction_def with_flag_def
      resolveTools_def prepend_instruction_def alloc_flag_def split: sum.splits option.splits prod.splits if_splits)

text \<open>The message after its tool was executed.\<close>

definition handed_off :: "'p agent \<Rightarrow> 'p invocation \<Rightarrow> message \<Rightarrow> toolPart \<Rightarrow> string \<Rightarrow> message" where
  "handed_off a ivn call v target = (stamp a ivn call)
     \<lparr>parts := [ToolPart (v\<lparr>tool_response := [], tool_completed := True\<rparr>)],
      actions := (actions call)(ActionHandoffToAgent \<mapsto> AnyString target)\<rparr>"

lemma find_appended: "\<forall>t \<in> set ts. \<not> P t \<Longrightarrow> P u \<Longrightarrow> find P (ts @ [u]) = Some u"
  by (induction ts) auto

lemma map_add_self [simp]: "m ++ m = m"
  by (rule ext) (simp add: map_add_def split: option.split)

lemma handoff_executes:
  assumes "parts call = [ToolPart v]" and "tool_name v = ''handoff_to_agent''" and "\<not> tool_completed v"
    and "decode (tool_request v) = Inr args" and "args ''agentName'' = Some n" and "TrimSpace n \<noteq> []"
    and "inv_tools ivn = ts @ [NewHandoffTool decode]" and "\<forall>t \<in> set ts. t_name t \<noteq> ''handoff_to_agent''"
    and "tool_order x [ToolPart v] = [0]"
  shows "executeTools x ivn (stamp a ivn call) p = (Inr (handed_off a ivn call v (TrimSpace n)), p)"
proof -
  have f: "find (\<lambda>t. t_name t = ''handoff_to_agent'') (inv_tools ivn) = Some (NewHandoffTool decode)"
    using assms(7,8) find_appended [of ts "\<lambda>t. t_name t = ''handoff_to_agent''" "NewHandoffTool decode"]
    by (simp add: NewHandoffTool_def)
  have h: "handleTools ivn v p = (Inr (v\<lparr>tool_response := []\<rparr>), [(''handoff_to_agent'', AnyString (TrimSpace n))], p)"
    using assms(2,4,5,6) f by (simp add: handleTools_def NewHandoffTool_def handoffTool_Handle_def Let_def)
  show ?thesis
    using assms(1,3,9) h by (simp add: executeTools_def exec_part_def handed_off_def stamp_def Let_def MergeActions_def)
qed

lemma commit_fields:
  assumes "guarded f ivn" and "commit_message r ivn w = (ivn', w')" and "inv_message ivn = Some m"
  shows "inv_tools ivn' = inv_tools ivn" "inv_stream ivn' = inv_stream ivn" "inv_resume ivn' = inv_resume ivn"
    "inv_id ivn' = inv_id ivn" "outside w' = outside w" "hist r w' = hist r w @ (if flags w f then [] else [attributed ivn m])"
    "s \<noteq> r \<Longrightarrow> sessions w' s = sessions w s"
  using assms by (auto simp: commit_message_def guarded_def cas_flag_def attributed_def Let_def append_to_def
      Append_def split: if_splits)

lemma router_first_event:
  assumes "role call = RoleTool" and "\<not> inv_stream ivn" and "\<not> inv_resume ivn" and "\<not> a_useContext a"
    and "\<And>req. p_generate (the_model a) req (outside w) = (Inr (Some call), p)"
    and "executeTools x ivn (stamp a ivn call) p = (Inr tm, p)"
  shows "\<exists>rest. gtrace (iterations x a r ivn (Suc n) first local w) = (Inr tm, w\<lparr>outside := p\<rparr>) # rest"
  using assms
  by (simp add: iteration_def request_messages_def loadHistory_def generate_once_def after_model_def run_tools_def
      persist_tools_def stamp_def Let_def)

lemma routing_targets_find:
  "map_of (routing_targets kvs) k = map_option snd (find (\<lambda>(n, h). TrimSpace n = k) (rev kvs))"
  unfolding routing_targets_def
  by (induction kvs rule: rev_induct) (auto simp: update_conv' update_conv)

lemma find_mapped: "find P (map f xs) = map_option f (find (P \<circ> f) xs)"
  by (induction xs) auto


definition demo_targets :: "nat agent_ref list" where
  "demo_targets = [\<lparr>ar_name = ''demo'', ar_description = ''tells the time'', ar_run = Run demo_ext (without_middlewares demo_agent)\<rparr>]"

definition demo_handoff :: message where
  "demo_handoff = demo_call\<lparr>parts := [ToolPart (NewToolPart ''t1'' ''handoff_to_agent'' '' demo'')]\<rparr>"

definition demo_routing :: "nat routing_config" where
  "demo_routing = \<lparr>rc_name = ''router'', rc_description = [],
     rc_model = Some \<lparr>p_name = ''demo'', p_generate = (\<lambda>req n. (Inr (Some demo_handoff), 0)), p_streaming = (\<lambda>req n. ([], n))\<rparr>,
     rc_agents = demo_targets, rc_middlewares = []\<rparr>"


section \<open>Deep agents\<close>

lemma deep_general:
  assumes "deep_tools env cfg = Inr ti" and "\<not> dc_withoutGeneral cfg"
  shows "\<exists>g. general_agent (deep_task_config env cfg) = Inr g \<and>
    a_tools g = dc_tools cfg @ [fst (NewWriteTodosTool (de_decodeTodos env) (de_encodeTodos env))] \<and>
    a_maxIterations g = dc_maxIterations cfg"
  using assms
  by (auto simp: deep_tools_def NewTaskTool_def newGeneralPurposeAgent_def general_agent_def NewAgent_def Let_def
      deep_task_config_def NewWriteTodosTool_def WithModel_def WithDescription_def WithInstruction_def WithTools_def
      WithMaxIterations_def split: if_splits)

text \<open>All sub-agents of a deep agent, the general one last.\<close>

definition deep_subagents :: "deep_env \<Rightarrow> 'p deep_config \<Rightarrow> 'p agent_ref list" where
  "deep_subagents env cfg = dc_agents cfg @ (if dc_withoutGeneral cfg then []
     else [agent_ref_of (env_ext (de_env env)) (projr (general_agent (deep_task_config env cfg)))])"

lemma subagent_lookup:
  "subagent_named (fold (\<lambda>a m. add_subagent m (ar_name a) a) agents Map.empty) kind =
     (case find (\<lambda>a. ar_name a = kind) (rev agents) of
        None \<Rightarrow> Inl (''subagent type '' @ kind @ '' not found'') | Some a \<Rightarrow> Inr a)"
  by (induction agents rule: rev_induct)
    (simp_all add: subagents.resolve_register, simp add: subagent_named_def)

lemma deep_tools_cases:
  assumes "deep_tools env cfg = Inr (ts, is)"
  shows "if deep_subagents env cfg = [] then ts = tc_tools (deep_task_config env cfg)
    else \<exists>t. ts = tc_tools (deep_task_config env cfg) @ [task_tool (de_env env) (de_decodeTask env) (dc_name cfg) t] \<and>
      tt_map t = fold (\<lambda>a m. add_subagent m (ar_name a) a) (deep_subagents env cfg) Map.empty"
proof -
  have tc: "tc_agents (deep_task_config env cfg) = dc_agents cfg" "tc_withoutGeneral (deep_task_config env cfg) = dc_withoutGeneral cfg"
    by (simp_all add: deep_task_config_def NewWriteTodosTool_def)
  show ?thesis
    using assms
    by (auto simp: deep_tools_def deep_subagents_def NewTaskTool_def newGeneralPurposeAgent_def Let_def tc
        split: if_splits sum.splits)
qed

lemma task_tool_by_map:
  "tt_map t = tt_map t' \<Longrightarrow> task_tool env decode caller t = task_tool env decode caller t'"
proof -
  assume "tt_map t = tt_map t'"
  then have "taskTool_Handle env decode caller t i input p = taskTool_Handle env decode caller t' i input p" for i input p
    by (simp only: taskTool_Handle_def)
  then show ?thesis by (simp add: task_tool_def fun_eq_iff)
qed

text \<open>What a deep agent delegates. Its tools are the configured ones, the list of todos and, if there
  is any sub-agent, the task tool; the general-purpose agent has all of them but the task tool, so tasks
  do not nest through it. A task runs the last sub-agent of the requested type, on the described task
  alone; an unknown type is an error that names it.\<close>

theorem deep_delegation:
  assumes "NewDeepAgent env cfg = Inr a"
  shows "(\<exists>task. a_tools a = dc_tools cfg @ [fst (NewWriteTodosTool (de_decodeTodos env) (de_encodeTodos env))] @
        (if deep_subagents env cfg = [] then [] else [task]) \<and> t_name task = ''task'' \<and>
      (\<forall>i input p kind description. de_decodeTask env input = Inr (kind, description) \<longrightarrow>
        t_handle task i input p = (case find (\<lambda>b. ar_name b = kind) (rev (deep_subagents env cfg)) of
            None \<Rightarrow> (Inl (Failed (''subagent type '' @ kind @ '' not found'')), [], p)
          | Some b \<Rightarrow> t_handle (agent_tool (de_env env) (dc_name cfg) (ar_name b) (ar_run b)) i description p))) \<and>
    (dc_withoutGeneral cfg \<or> (\<exists>g. general_agent (deep_task_config env cfg) = Inr g \<and>
      a_tools g = dc_tools cfg @ [fst (NewWriteTodosTool (de_decodeTodos env) (de_encodeTodos env))]))"
proof -
  obtain ts "is" where t: "deep_tools env cfg = Inr (ts, is)" and ts: "a_tools a = ts"
    using assms
    by (auto simp: NewDeepAgent_def NewAgent_def Let_def WithModel_def WithDescription_def WithInstruction_def
        WithTools_def WithMaxIterations_def WithAgentMiddleware_def split: if_splits)
  have tc: "tc_tools (deep_task_config env cfg) = dc_tools cfg @ [fst (NewWriteTodosTool (de_decodeTodos env) (de_encodeTodos env))]"
    by (simp add: deep_task_config_def NewWriteTodosTool_def)
  define tool where "tool \<equiv> task_tool (de_env env) (de_decodeTask env) (dc_name cfg)
      \<lparr>tt_description = [], tt_agents = [], tt_map = fold (\<lambda>a m. add_subagent m (ar_name a) a) (deep_subagents env cfg) Map.empty\<rparr>"
  have same: "tt_map t = fold (\<lambda>a m. add_subagent m (ar_name a) a) (deep_subagents env cfg) Map.empty \<Longrightarrow>
      task_tool (de_env env) (de_decodeTask env) (dc_name cfg) t = tool" for t
    unfolding tool_def by (rule task_tool_by_map) simp
  have tools: "ts = dc_tools cfg @ [fst (NewWriteTodosTool (de_decodeTodos env) (de_encodeTodos env))] @
      (if deep_subagents env cfg = [] then [] else [tool])"
    using deep_tools_cases [OF t] same by (auto simp: tc split: if_splits)
  have call: "t_handle tool i input p = (case find (\<lambda>b. ar_name b = kind) (rev (deep_subagents env cfg)) of
            None \<Rightarrow> (Inl (Failed (''subagent type '' @ kind @ '' not found'')), [], p)
          | Some b \<Rightarrow> t_handle (agent_tool (de_env env) (dc_name cfg) (ar_name b) (ar_run b)) i description p)"
    if "de_decodeTask env input = Inr (kind, description)" for i input p kind description
    using that by (simp add: tool_def task_tool_def taskTool_Handle_def subagent_lookup split: option.split)
  have "t_name tool = ''task''" by (simp add: tool_def task_tool_def)
  then show ?thesis using tools ts call deep_general [OF t] by blast
qed

definition demo_deep_env :: deep_env where
  "demo_deep_env = \<lparr>de_env = \<lparr>env_ext = demo_ext, env_engine = (\<lambda>_ text _. Inr text), env_tool_error = (\<lambda>_. Failed ''failed'')\<rparr>,
     de_decodeTodos = (\<lambda>_. Inl ''not JSON''), de_encodeTodos = (\<lambda>_. Inr ''[]''), de_decodeTask = (\<lambda>t. Inr (''demo'', t))\<rparr>"

definition demo_deep :: "nat deep_config" where
  "demo_deep = \<lparr>dc_name = ''deep'', dc_model = Some demo_model, dc_description = [], dc_instruction = [],
     dc_tools = [clock_tool], dc_agents = demo_targets, dc_maxIterations = 20, dc_withoutGeneral = False, dc_middlewares = []\<rparr>"

theorem deep_delegation_witness:
  "\<exists>task :: nat tool. map t_name (a_tools (projr (NewDeepAgent demo_deep_env demo_deep))) = [''clock'', ''write_todos'', ''task''] \<and>
     t_handle task [] ''time?'' 0 = (t_handle (agent_tool (de_env demo_deep_env) ''deep'' ''demo''
       (Run demo_ext (without_middlewares demo_agent))) [] ''time?'' 0 :: (terror + string) \<times> (string \<times> anyval) list \<times> nat)"
proof -
  obtain a where a: "NewDeepAgent demo_deep_env demo_deep = Inr a"
    by (simp add: NewDeepAgent_def deep_tools_def NewTaskTool_def newGeneralPurposeAgent_def general_agent_def NewAgent_def
        deep_task_config_def NewWriteTodosTool_def demo_deep_def WithModel_def WithDescription_def WithInstruction_def
        WithTools_def WithMaxIterations_def WithAgentMiddleware_def Let_def)
  from deep_delegation [OF a] obtain task where
    t: "a_tools a = dc_tools demo_deep @ [fst (NewWriteTodosTool (de_decodeTodos demo_deep_env) (de_encodeTodos demo_deep_env))] @
        (if deep_subagents demo_deep_env demo_deep = [] then [] else [task])" "t_name task = ''task''"
    and h: "de_decodeTask demo_deep_env ''time?'' = Inr (''demo'', ''time?'') \<Longrightarrow>
      t_handle task [] ''time?'' 0 = (case find (\<lambda>b. ar_name b = ''demo'') (rev (deep_subagents demo_deep_env demo_deep)) of
            None \<Rightarrow> (Inl (Failed (''subagent type '' @ ''demo'' @ '' not found'')), [], 0)
          | Some b \<Rightarrow> t_handle (agent_tool (de_env demo_deep_env) (dc_name demo_deep) (ar_name b) (ar_run b)) [] ''time?'' 0)"
    by blast
  obtain g where g: "general_agent (deep_task_config demo_deep_env demo_deep) = Inr g" "a_name g = ''general-purpose''"
    by (simp add: general_agent_def NewAgent_def deep_task_config_def NewWriteTodosTool_def demo_deep_def WithModel_def
        WithDescription_def WithInstruction_def WithTools_def WithMaxIterations_def Let_def generalAgentName_def)
  have subs: "deep_subagents demo_deep_env demo_deep = demo_targets @ [agent_ref_of demo_ext g]"
    using g by (simp add: deep_subagents_def demo_deep_def demo_deep_env_def)
  have dec: "de_decodeTask demo_deep_env ''time?'' = Inr (''demo'', ''time?'')" by (simp add: demo_deep_env_def)
  have found: "find (\<lambda>b. ar_name b = ''demo'') (rev (deep_subagents demo_deep_env demo_deep)) = Some (hd demo_targets)"
    using g(2) by (simp add: subs agent_ref_of_def demo_targets_def)
  have call: "t_handle task [] ''time?'' 0 = t_handle (agent_tool (de_env demo_deep_env) ''deep'' ''demo''
      (Run demo_ext (without_middlewares demo_agent))) [] ''time?'' 0"
    using h [OF dec] unfolding found by (simp add: demo_deep_def demo_targets_def)
  have names: "map t_name (a_tools a) = [''clock'', ''write_todos'', ''task'']"
    unfolding t(1) subs using t(2) by (simp add: demo_deep_def clock_tool_def NewWriteTodosTool_def)
  show ?thesis unfolding a sum.sel by (rule exI [of _ task], rule conjI [OF names call])
qed

text \<open>A configuration that leaves the iterations at zero makes an agent that never asks its model.\<close>

theorem deep_zero_iterations:
  assumes "NewDeepAgent env cfg = Inr a" and "dc_maxIterations cfg = 0" and "dc_middlewares cfg = []"
    and "fst (prepareInvocation x a ivn w) = Inr i" and "ctx_session c = Some r"
  shows "gevents (Run x a c ivn w) = [Inl ErrMaxIterationsExceeded]"
proof -
  have f: "a_maxIterations a = 0" "a_middlewares a = []"
    using assms(1-3)
    by (auto simp: NewDeepAgent_def NewAgent_def Let_def WithModel_def WithDescription_def WithInstruction_def
        WithTools_def WithMaxIterations_def WithAgentMiddleware_def split: if_splits)
  show ?thesis using assms(4,5)
    by (auto simp: Run_def EnsureSession_def chain_def handle_def f split: prod.splits sum.splits)
qed

end
