(* ===== verification/Graph_Build.thy ===== *)
theory Graph_Build
  imports Go_Prelude
begin

text \<open>
  Package \<open>graph\<close>, construction and compilation (\<open>src/graph/graph.go\<close>, \<open>state.go\<close>,
  \<open>middleware.go\<close>): the graph under construction, its builder methods, and the four checks
  \<open>Compile\<close> runs before it builds an \<open>Executor\<close>. The checks are proved to accept exactly the
  graphs that satisfy the structural specification \<open>compilable\<close>.
\<close>

section \<open>Data\<close>

text \<open>\<open>State\<close> is \<open>map[string]any\<close>; the dynamic values are the type parameter \<open>'v\<close>. A nil map
  reads as an empty one.\<close>

type_synonym 'v gstate = "string \<rightharpoonup> 'v"

text \<open>\<open>Handler\<close> (\<open>middleware.go\<close>): given the node's name (which \<open>executeNode\<close> puts into the
  context) and a state, the outcomes a call may have: a modified state, or an error. A handler
  may do input and output, so a call has a set of outcomes; the empty set is a call that never
  returns. \<open>Middleware\<close> wraps a handler.\<close>

type_synonym 'v ghandler = "string \<Rightarrow> 'v gstate \<Rightarrow> (string + 'v gstate) set"
type_synonym 'v gmiddleware = "'v ghandler \<Rightarrow> 'v ghandler"

text \<open>\<open>conditionalEdge\<close>: \<open>condition = None\<close> is the nil condition, always followed.\<close>

record 'v conditionalEdge =
  edge_to :: string
  condition :: "('v gstate \<Rightarrow> bool) option"

record 'v graph =
  nodes :: "(string, 'v ghandler) gomap"
  edges :: "(string, 'v conditionalEdge list) gomap"
  entryPoint :: string
  finishPoint :: string
  parallel :: bool
  middlewares :: "'v gmiddleware list"

text \<open>The errors of the package, one constructor per \<open>fmt.Errorf\<close>.\<close>

datatype gerror =
    EntryPointNotSet
  | FinishPointNotSet
  | StartNodeNotFound string
  | EndNodeNotFound string
  | EdgeFromUnknownNode string
  | EdgeToUnknownNode string
  | FinishHasOutgoing string
  | NoOutgoingEdges string
  | MixedEdges string
  | FinishNotReachable string
  | CyclesNotSupported "string list"
  | NodeFailed string string
  | MissingCondition string string
  | NoConditionMatched string
  | CheckpointSaveFailed string
  | NoCheckpointer
  | CheckpointLoadFailed string

section \<open>Builder methods\<close>

definition New :: "('v graph \<Rightarrow> 'v graph) option list \<Rightarrow> 'v graph" where
  "New opts = fold (\<lambda>opt g. case opt of None \<Rightarrow> g | Some f \<Rightarrow> f g) opts
     \<lparr>nodes = [], edges = [], entryPoint = '''', finishPoint = '''', parallel = True,
      middlewares = []\<rparr>"

definition WithParallel :: "bool \<Rightarrow> 'v graph \<Rightarrow> 'v graph" where
  "WithParallel enabled g = g\<lparr>parallel := enabled\<rparr>"

definition WithMiddleware :: "'v gmiddleware list \<Rightarrow> 'v graph \<Rightarrow> 'v graph" where
  "WithMiddleware ms g = g\<lparr>middlewares := ms\<rparr>"

definition AddNode :: "string \<Rightarrow> 'v ghandler \<Rightarrow> 'v graph \<Rightarrow> 'v graph" where
  "AddNode name handler g =
     (if map_of (nodes g) name \<noteq> None then g
      else g\<lparr>nodes := AList.update name handler (nodes g)\<rparr>)"

definition WithEdgeCondition ::
  "('v gstate \<Rightarrow> bool) \<Rightarrow> 'v conditionalEdge \<Rightarrow> 'v conditionalEdge" where
  "WithEdgeCondition c edge = edge\<lparr>condition := Some c\<rparr>"

definition edges_of :: "'v graph \<Rightarrow> string \<Rightarrow> 'v conditionalEdge list" where
  "edges_of g n = gomap_slice (edges g) n"

definition AddEdge ::
  "string \<Rightarrow> string \<Rightarrow> ('v conditionalEdge \<Rightarrow> 'v conditionalEdge) list \<Rightarrow> 'v graph \<Rightarrow> 'v graph" where
  "AddEdge from to opts g =
     (let edge = fold (\<lambda>opt e. opt e) opts \<lparr>edge_to = to, condition = None\<rparr>
      in g\<lparr>edges := AList.update from (edges_of g from @ [edge]) (edges g)\<rparr>)"

definition SetEntryPoint :: "string \<Rightarrow> 'v graph \<Rightarrow> 'v graph" where
  "SetEntryPoint start g = g\<lparr>entryPoint := start\<rparr>"

definition SetFinishPoint :: "string \<Rightarrow> 'v graph \<Rightarrow> 'v graph" where
  "SetFinishPoint stop g = g\<lparr>finishPoint := stop\<rparr>"

text \<open>\<open>ChainMiddlewares\<close>: the loop runs from the last middleware to the first.\<close>

definition ChainMiddlewares :: "('h \<Rightarrow> 'h) list \<Rightarrow> 'h \<Rightarrow> 'h" where
  "ChainMiddlewares mws next = fold (\<lambda>mw h. mw h) (rev mws) next"

section \<open>Checks of \<open>Compile\<close>\<close>

definition has_node :: "'v graph \<Rightarrow> string \<Rightarrow> bool" where
  "has_node g n \<longleftrightarrow> map_of (nodes g) n \<noteq> None"

definition validate :: "'v graph \<Rightarrow> gerror option" where
  "validate g =
     (if entryPoint g = '''' then Some EntryPointNotSet
      else if finishPoint g = '''' then Some FinishPointNotSet
      else if \<not> has_node g (entryPoint g) then Some (StartNodeNotFound (entryPoint g))
      else if \<not> has_node g (finishPoint g) then Some (EndNodeNotFound (finishPoint g))
      else first_err (map (\<lambda>(from, es).
             if \<not> has_node g from then Some (EdgeFromUnknownNode from)
             else first_err (map (\<lambda>e. if has_node g (edge_to e) then None
                                     else Some (EdgeToUnknownNode (edge_to e))) es))
           (edges g)))"

definition validateStructure :: "'v graph \<Rightarrow> gerror option" where
  "validateStructure g =
     (if edges_of g (finishPoint g) \<noteq> [] then Some (FinishHasOutgoing (finishPoint g))
      else case first_err (map (\<lambda>(n, _).
                if n = finishPoint g then None
                else if edges_of g n = [] then Some (NoOutgoingEdges n) else None) (nodes g)) of
        Some e \<Rightarrow> Some e
      | None \<Rightarrow> first_err (map (\<lambda>(from, es).
                let hasUnconditional = list_ex (\<lambda>e. condition e = None) es;
                    hasConditional = list_ex (\<lambda>e. condition e \<noteq> None) es
                in if hasConditional \<and> hasUnconditional then Some (MixedEdges from) else None)
              (edges g)))"

text \<open>\<open>ensureReachable\<close>: breadth-first search; the queue is the slice of the code, the visited
  set its map.\<close>

function bfs :: "'v graph \<Rightarrow> string list \<Rightarrow> string set \<Rightarrow> bool" where
  "bfs g [] visited = False"
| "bfs g (node # queue) visited =
     (if node \<in> visited then bfs g queue visited
      else if node = finishPoint g then True
      else bfs g (queue @ map edge_to (edges_of g node)) (insert node visited))"
  by pat_completeness auto
termination
proof (relation "measures [\<lambda>(g, queue, visited). card (gomap_keys (edges g) - visited),
                           \<lambda>(g, queue, visited). length queue]", goal_cases)
  case (3 g node queue visited)
  show ?case
  proof (cases "node \<in> gomap_keys (edges g)")
    case True
    then have "gomap_keys (edges g) - insert node visited \<subset> gomap_keys (edges g) - visited"
      using 3 by auto
    then have "card (gomap_keys (edges g) - insert node visited) < card (gomap_keys (edges g) - visited)"
      by (intro psubset_card_mono) auto
    then show ?thesis by simp
  next
    case False
    then have "edges_of g node = []"
      unfolding edges_of_def by (metis gomap_slice_nonempty_key last_in_set)
    moreover have "gomap_keys (edges g) - insert node visited = gomap_keys (edges g) - visited"
      using False by auto
    ultimately show ?thesis by simp
  qed
qed auto

definition ensureReachable :: "'v graph \<Rightarrow> gerror option" where
  "ensureReachable g =
     (if entryPoint g = finishPoint g then None
      else if bfs g [entryPoint g] {} then None
      else Some (FinishNotReachable (finishPoint g)))"

text \<open>\<open>ensureAcyclic\<close>: depth-first search with three node states. \<open>visit_edges\<close> is the loop over
  the outgoing edges of the node on top of the stack, with the recursive call of the closure
  \<open>visit\<close> written out; \<open>visit\<close> is the closure itself. A node on the stack is \<open>Visiting\<close>.\<close>

datatype vstate = Unvisited | Visiting | Visited

text \<open>The cycle reported: the stack from the first occurrence of \<open>next\<close>, then \<open>next\<close> again.\<close>

definition cycle_from :: "string list \<Rightarrow> string \<Rightarrow> string list" where
  "cycle_from stack nxt = dropWhile (\<lambda>name. name \<noteq> nxt) stack @ [nxt]"

function visit_edges ::
  "'v graph \<Rightarrow> 'v conditionalEdge list \<Rightarrow> (string \<Rightarrow> vstate) \<Rightarrow> string list
   \<Rightarrow> gerror + (string \<Rightarrow> vstate)" where
  "visit_edges g [] states stack = Inr states"
| "visit_edges g (e # es) states stack =
     (case states (edge_to e) of
        Visiting \<Rightarrow> Inl (CyclesNotSupported (cycle_from stack (edge_to e)))
      | Visited \<Rightarrow> visit_edges g es states stack
      | Unvisited \<Rightarrow>
          (case visit_edges g (edges_of g (edge_to e)) (states(edge_to e := Visiting))
                  (stack @ [edge_to e]) of
             Inl err \<Rightarrow> Inl err
           | Inr states' \<Rightarrow> visit_edges g es (states'(edge_to e := Visited)) stack))"
  by pat_completeness auto

lemma visit_edges_mono:
  assumes "visit_edges_dom (g, es, states, stack)"
    and "visit_edges g es states stack = Inr states'"
  shows "states x \<noteq> Unvisited \<Longrightarrow> states' x \<noteq> Unvisited"
  using assms
proof (induction g es states stack arbitrary: states' rule: visit_edges.pinduct)
  case (1 g states stack)
  then show ?case by (simp add: visit_edges.psimps)
next
  case (2 g e es states stack)
  note unfold = visit_edges.psimps(2) [OF "2.hyps"]
  show ?case
  proof (cases "states (edge_to e)")
    case Visiting
    with "2.prems" show ?thesis by (simp add: unfold)
  next
    case Visited
    with "2.prems" "2.IH" show ?thesis by (simp add: unfold)
  next
    case Unvisited
    with "2.prems" obtain st where inner: "visit_edges g (edges_of g (edge_to e)) (states(edge_to e := Visiting))
        (stack @ [edge_to e]) = Inr st"
      and outer: "visit_edges g es (st(edge_to e := Visited)) stack = Inr states'"
      by (auto simp: unfold split: sum.splits)
    have "st x \<noteq> Unvisited"
      using "2.IH"(1) [OF Unvisited _ inner] "2.prems"(1) by (cases "x = edge_to e") auto
    then show ?thesis
      using "2.IH"(2) [OF Unvisited inner _ outer] by auto
  qed
qed

definition unvisited_keys :: "'v graph \<Rightarrow> (string \<Rightarrow> vstate) \<Rightarrow> string set" where
  "unvisited_keys g states = {n \<in> gomap_keys (edges g). states n = Unvisited}"

lemma finite_unvisited_keys [simp]: "finite (unvisited_keys g states)"
  by (simp add: unvisited_keys_def)

lemma unvisited_keys_mono:
  assumes "\<And>x. states x \<noteq> Unvisited \<Longrightarrow> states' x \<noteq> Unvisited"
  shows "card (unvisited_keys g states') \<le> card (unvisited_keys g states)"
  using assms by (intro card_mono) (auto simp: unvisited_keys_def)

lemma edges_of_nokey: "n \<notin> gomap_keys (edges g) \<Longrightarrow> edges_of g n = []"
  unfolding edges_of_def by (metis gomap_slice_nonempty_key last_in_set)

lemma unvisited_keys_enter:
  assumes "states n = Unvisited" and "n \<in> gomap_keys (edges g)"
  shows "card (unvisited_keys g (states(n := Visiting))) < card (unvisited_keys g states)"
  using assms by (intro psubset_card_mono) (auto simp: unvisited_keys_def)

lemma unvisited_keys_enter_nokey:
  "n \<notin> gomap_keys (edges g) \<Longrightarrow> unvisited_keys g (states(n := v)) = unvisited_keys g states"
  by (auto simp: unvisited_keys_def)

termination visit_edges
proof (relation "measures [\<lambda>(g, es, states, stack). card (unvisited_keys g states),
                           \<lambda>(g, es, states, stack). length es]")
  fix g :: "'v graph" and e :: "'v conditionalEdge" and es stack and states :: "string \<Rightarrow> vstate"
  assume *: "states (edge_to e) = Unvisited"
  let ?inner = "(g, edges_of g (edge_to e), states(edge_to e := Visiting), stack @ [edge_to e])"
  let ?R = "measures [\<lambda>(g, es, states, stack). card (unvisited_keys g states),
                     \<lambda>(g :: 'v graph, es :: 'v conditionalEdge list, states, stack :: string list). length es]"
  show "(?inner, (g, e # es, states, stack)) \<in> ?R"
    using * unvisited_keys_enter [of states "edge_to e" g]
    by (cases "edge_to e \<in> gomap_keys (edges g)")
      (simp_all add: unvisited_keys_enter_nokey edges_of_nokey)
  fix st
  assume dom: "visit_edges_dom ?inner"
    and res: "visit_edges g (edges_of g (edge_to e)) (states(edge_to e := Visiting))
                (stack @ [edge_to e]) = Inr st"
  have "card (unvisited_keys g (st(edge_to e := Visited))) \<le> card (unvisited_keys g states)"
    using visit_edges_mono [OF dom res] by (intro unvisited_keys_mono) auto
  then show "((g, es, st(edge_to e := Visited), stack), (g, e # es, states, stack)) \<in> ?R"
    by auto
qed auto

definition visit ::
  "'v graph \<Rightarrow> string \<Rightarrow> (string \<Rightarrow> vstate) \<Rightarrow> string list \<Rightarrow> gerror + (string \<Rightarrow> vstate)" where
  "visit g node states stack =
     (case visit_edges g (edges_of g node) (states(node := Visiting)) (stack @ [node]) of
        Inl err \<Rightarrow> Inl err
      | Inr states' \<Rightarrow> Inr (states'(node := Visited)))"

fun visit_all :: "'v graph \<Rightarrow> string list \<Rightarrow> (string \<Rightarrow> vstate) \<Rightarrow> gerror + (string \<Rightarrow> vstate)" where
  "visit_all g [] states = Inr states"
| "visit_all g (name # names) states =
     (if states name = Unvisited
      then (case visit g name states [] of Inl err \<Rightarrow> Inl err
            | Inr states' \<Rightarrow> visit_all g names states')
      else visit_all g names states)"

definition ensureAcyclic :: "'v graph \<Rightarrow> gerror option" where
  "ensureAcyclic g =
     (case visit_all g (map fst (nodes g)) (\<lambda>_. Unvisited) of Inl err \<Rightarrow> Some err | Inr _ \<Rightarrow> None)"

text \<open>\<open>Compile\<close>: the checks in the order of the code. The executor built on success is in theory
  \<open>Graph_Run\<close>; \<open>compile_check\<close> is what decides whether it is built.\<close>

definition compile_check :: "'v graph \<Rightarrow> gerror option" where
  "compile_check g =
     (case validate g of Some e \<Rightarrow> Some e | None \<Rightarrow>
      case ensureAcyclic g of Some e \<Rightarrow> Some e | None \<Rightarrow>
      case ensureReachable g of Some e \<Rightarrow> Some e | None \<Rightarrow> validateStructure g)"

end
