(* ===== verification/Graph_Compile.thy ===== *)
theory Graph_Compile
  imports Graph_Build
begin

text \<open>
  What \<open>Compile\<close> guarantees. \<open>compilable\<close> is the structural specification; the breadth-first
  and depth-first searches of the code are proved to decide reachability and acyclicity, and
  the four checks together to accept exactly the compilable graphs. The builder methods keep
  the representation of the two Go maps well formed.
\<close>

section \<open>The specification\<close>

definition edge_rel :: "'v graph \<Rightarrow> (string \<times> string) set" where
  "edge_rel g = {(a, b). \<exists>e \<in> set (edges_of g a). edge_to e = b}"

definition node_set :: "'v graph \<Rightarrow> string set" where
  "node_set g = gomap_keys (nodes g)"

definition graph_ok :: "'v graph \<Rightarrow> bool" where
  "graph_ok g \<longleftrightarrow> gomap_ok (nodes g) \<and> gomap_ok (edges g)"

definition uniform_edges :: "'v conditionalEdge list \<Rightarrow> bool" where
  "uniform_edges es \<longleftrightarrow>
     (\<forall>e \<in> set es. condition e = None) \<or> (\<forall>e \<in> set es. condition e \<noteq> None)"

definition compilable :: "'v graph \<Rightarrow> bool" where
  "compilable g \<longleftrightarrow>
     entryPoint g \<noteq> '''' \<and> finishPoint g \<noteq> '''' \<and>
     entryPoint g \<in> node_set g \<and> finishPoint g \<in> node_set g \<and>
     gomap_keys (edges g) \<subseteq> node_set g \<and> edge_rel g \<subseteq> node_set g \<times> node_set g \<and>
     acyclic (edge_rel g) \<and> (entryPoint g, finishPoint g) \<in> (edge_rel g)\<^sup>* \<and>
     edges_of g (finishPoint g) = [] \<and>
     (\<forall>n \<in> node_set g. n \<noteq> finishPoint g \<longrightarrow> edges_of g n \<noteq> []) \<and>
     (\<forall>n. uniform_edges (edges_of g n))"

section \<open>Builder methods keep the maps well formed\<close>

lemma has_node_iff [simp]: "has_node g n \<longleftrightarrow> n \<in> node_set g"
  by (simp add: has_node_def node_set_def gomap_keys_lookup)

lemma graph_ok_AddNode [inv_intros]: "graph_ok g \<Longrightarrow> graph_ok (AddNode n h g)"
  by (simp add: graph_ok_def AddNode_def)

lemma graph_ok_AddEdge [inv_intros]: "graph_ok g \<Longrightarrow> graph_ok (AddEdge a b opts g)"
  by (simp add: graph_ok_def AddEdge_def Let_def)

lemma graph_ok_points [inv_intros]:
  "graph_ok g \<Longrightarrow> graph_ok (SetEntryPoint n g)"
  "graph_ok g \<Longrightarrow> graph_ok (SetFinishPoint n g)"
  by (simp_all add: graph_ok_def SetEntryPoint_def SetFinishPoint_def)

lemma graph_ok_New: "graph_ok (New [])"
  by (simp add: graph_ok_def New_def)

lemma node_set_AddNode: "node_set (AddNode n h g) = insert n (node_set g)"
  by (auto simp: node_set_def AddNode_def gomap_simps gomap_keys_lookup)

lemma AddNode_keeps_first:
  "map_of (nodes g) n = Some h \<Longrightarrow> map_of (nodes (AddNode n h' g)) n = Some h"
  by (simp add: AddNode_def)

lemma edges_of_AddEdge:
  "edges_of (AddEdge a b opts g) n =
     (if n = a then edges_of g a @ [fold (\<lambda>opt e. opt e) opts \<lparr>edge_to = b, condition = None\<rparr>]
      else edges_of g n)"
  by (simp add: AddEdge_def Let_def edges_of_def gomap_simps)

section \<open>Basic facts\<close>

lemma finite_node_set [simp]: "finite (node_set g)"
  by (simp add: node_set_def)

lemma edges_of_mem:
  "graph_ok g \<Longrightarrow> (from, es) \<in> set (edges g) \<Longrightarrow> edges_of g from = es"
  by (simp add: graph_ok_def edges_of_def gomap_slice_mem)

lemma edges_of_entry:
  assumes "e \<in> set (edges_of g n)" shows "(n, edges_of g n) \<in> set (edges g)"
proof -
  from assms have "map_of (edges g) n \<noteq> None"
    unfolding edges_of_def using gomap_slice_nonempty_key gomap_keys_lookup by metis
  then obtain es where "map_of (edges g) n = Some es" by auto
  then show ?thesis by (auto simp: edges_of_def gomap_slice_def dest: map_of_SomeD)
qed

lemma finite_edge_rel [simp]: "finite (edge_rel g)"
proof (rule finite_subset)
  show "edge_rel g \<subseteq> (\<Union>(n, es) \<in> set (edges g). (\<lambda>e. (n, edge_to e)) ` set es)"
    using edges_of_entry by (fastforce simp: edge_rel_def)
qed auto

lemma edge_relI: "e \<in> set (edges_of g n) \<Longrightarrow> (n, edge_to e) \<in> edge_rel g"
  by (auto simp: edge_rel_def)

lemma validate_None:
  assumes "graph_ok g"
  shows "validate g = None \<longleftrightarrow>
     entryPoint g \<noteq> '''' \<and> finishPoint g \<noteq> '''' \<and>
     entryPoint g \<in> node_set g \<and> finishPoint g \<in> node_set g \<and>
     gomap_keys (edges g) \<subseteq> node_set g \<and> edge_rel g \<subseteq> node_set g \<times> node_set g"
proof -
  have "(\<forall>(from, es) \<in> set (edges g). from \<in> node_set g \<and> (\<forall>e \<in> set es. edge_to e \<in> node_set g))
    \<longleftrightarrow> gomap_keys (edges g) \<subseteq> node_set g \<and> edge_rel g \<subseteq> node_set g \<times> node_set g"
    (is "?L \<longleftrightarrow> ?R")
  proof
    assume ?L
    then have "a \<in> node_set g \<and> b \<in> node_set g" if "(a, b) \<in> edge_rel g" for a b
      using that edges_of_entry by (fastforce simp: edge_rel_def)
    with \<open>?L\<close> show ?R by auto
  next
    assume ?R
    show ?L
    proof (clarify)
      fix src es assume mem: "(src, es) \<in> set (edges g)"
      then have "edge_to e \<in> node_set g" if "e \<in> set es" for e
        using \<open>?R\<close> edges_of_mem [OF assms mem] that by (auto dest: edge_relI)
      then show "src \<in> node_set g \<and> (\<forall>e \<in> set es. edge_to e \<in> node_set g)"
        using \<open>?R\<close> mem by force
    qed
  qed
  moreover have "first_err (map (\<lambda>(from, es).
             if \<not> has_node g from then Some (EdgeFromUnknownNode from)
             else first_err (map (\<lambda>e. if has_node g (edge_to e) then None
                                     else Some (EdgeToUnknownNode (edge_to e))) es))
           (edges g)) = None \<longleftrightarrow>
    (\<forall>(from, es) \<in> set (edges g). from \<in> node_set g \<and> (\<forall>e \<in> set es. edge_to e \<in> node_set g))"
    by (auto simp: case_prod_unfold)
  ultimately show ?thesis
    by (simp add: validate_def)
qed

lemma list_ex_uniform:
  "(list_ex (\<lambda>e. \<exists>y. condition e = Some y) es \<longrightarrow> \<not> list_ex (\<lambda>e. condition e = None) es) \<longleftrightarrow>
   uniform_edges es"
  by (auto simp: uniform_edges_def list_ex_iff)

lemma validateStructure_None:
  assumes "graph_ok g"
  shows "validateStructure g = None \<longleftrightarrow>
     edges_of g (finishPoint g) = [] \<and>
     (\<forall>n \<in> node_set g. n \<noteq> finishPoint g \<longrightarrow> edges_of g n \<noteq> []) \<and>
     (\<forall>n. uniform_edges (edges_of g n))"
proof -
  have "(\<forall>(from, es) \<in> set (edges g). uniform_edges es) \<longleftrightarrow> (\<forall>n. uniform_edges (edges_of g n))"
  proof
    assume L: "\<forall>(from, es) \<in> set (edges g). uniform_edges es"
    show "\<forall>n. uniform_edges (edges_of g n)"
    proof
      fix n
      show "uniform_edges (edges_of g n)"
      proof (cases "edges_of g n = []")
        case False
        then have "(n, edges_of g n) \<in> set (edges g)" by (meson edges_of_entry last_in_set)
        with L show ?thesis by blast
      qed (simp add: uniform_edges_def)
    qed
  next
    assume "\<forall>n. uniform_edges (edges_of g n)"
    then show "\<forall>(from, es) \<in> set (edges g). uniform_edges es"
      using edges_of_mem [OF assms] by auto
  qed
  moreover have "first_err (map (\<lambda>(from, es).
        let hasUnconditional = list_ex (\<lambda>e. condition e = None) es;
            hasConditional = list_ex (\<lambda>e. condition e \<noteq> None) es
        in if hasConditional \<and> hasUnconditional then Some (MixedEdges from) else None) (edges g))
      = None \<longleftrightarrow> (\<forall>(from, es) \<in> set (edges g). uniform_edges es)"
    unfolding first_err_map_None by (simp add: case_prod_unfold Let_def list_ex_uniform)
  moreover have "first_err (map (\<lambda>(n, _). if n = finishPoint g then None
        else if edges_of g n = [] then Some (NoOutgoingEdges n) else None) (nodes g)) = None
      \<longleftrightarrow> (\<forall>n \<in> node_set g. n \<noteq> finishPoint g \<longrightarrow> edges_of g n \<noteq> [])"
    by (auto simp: case_prod_unfold node_set_def)
  ultimately show ?thesis
    by (simp add: validateStructure_def)
qed

section \<open>Breadth-first search decides reachability\<close>

declare bfs.simps(2) [simp del]

lemma bfs_unfold:
  "node \<in> visited \<Longrightarrow> bfs g (node # queue) visited = bfs g queue visited"
  "node \<notin> visited \<Longrightarrow> node = finishPoint g \<Longrightarrow> bfs g (node # queue) visited"
  "node \<notin> visited \<Longrightarrow> node \<noteq> finishPoint g \<Longrightarrow> bfs g (node # queue) visited =
     bfs g (queue @ map edge_to (edges_of g node)) (insert node visited)"
  by (simp_all add: bfs.simps(2))

lemma bfs_sound:
  "bfs g queue visited \<Longrightarrow> \<exists>q \<in> set queue. (q, finishPoint g) \<in> (edge_rel g)\<^sup>*"
proof (induction g queue visited rule: bfs.induct)
  case (2 g node queue visited)
  show ?case
  proof (cases "node \<in> visited \<or> node = finishPoint g")
    case True
    with 2 show ?thesis by (cases "node \<in> visited") (auto simp: bfs_unfold)
  next
    case False
    with "2.prems" have "bfs g (queue @ map edge_to (edges_of g node)) (insert node visited)"
      by (simp add: bfs_unfold)
    with False "2.IH"(2) obtain q where "q \<in> set queue \<or> q \<in> edge_to ` set (edges_of g node)"
      and "(q, finishPoint g) \<in> (edge_rel g)\<^sup>*" by auto
    then show ?thesis
      by (auto dest: edge_relI intro: converse_rtrancl_into_rtrancl)
  qed
qed simp

lemma bfs_complete:
  assumes "\<not> bfs g queue visited" and "finishPoint g \<notin> visited"
    and "\<forall>x \<in> visited. edge_rel g `` {x} \<subseteq> visited \<union> set queue"
  shows "\<exists>C. visited \<union> set queue \<subseteq> C \<and> edge_rel g `` C \<subseteq> C \<and> finishPoint g \<notin> C"
  using assms
proof (induction g queue visited rule: bfs.induct)
  case (1 g visited)
  then show ?case by (intro exI [of _ visited]) auto
next
  case (2 g node queue visited)
  show ?case
  proof (cases "node \<in> visited")
    case True
    have "\<exists>C. visited \<union> set queue \<subseteq> C \<and> edge_rel g `` C \<subseteq> C \<and> finishPoint g \<notin> C"
    proof (rule "2.IH"(1) [OF True])
      show "\<not> bfs g queue visited" using "2.prems"(1) True by (simp add: bfs_unfold)
    qed (use "2.prems"(2,3) True in auto)
    moreover have "visited \<union> set (node # queue) = visited \<union> set queue" using True by auto
    ultimately show ?thesis by simp
  next
    case False
    have node: "node \<noteq> finishPoint g" using "2.prems"(1) False by (auto simp: bfs_unfold)
    have succ: "edge_rel g `` {node} \<subseteq> edge_to ` set (edges_of g node)"
      by (auto simp: edge_rel_def)
    have "\<exists>C. insert node visited \<union> set (queue @ map edge_to (edges_of g node)) \<subseteq> C
            \<and> edge_rel g `` C \<subseteq> C \<and> finishPoint g \<notin> C"
    proof (rule "2.IH"(2) [OF False node])
      show "\<not> bfs g (queue @ map edge_to (edges_of g node)) (insert node visited)"
        using "2.prems"(1) False node by (simp add: bfs_unfold)
    qed (use "2.prems"(2,3) node succ in auto)
    then obtain C where "insert node visited \<union> set (queue @ map edge_to (edges_of g node)) \<subseteq> C"
      and "edge_rel g `` C \<subseteq> C" and "finishPoint g \<notin> C" by blast
    then show ?thesis by (intro exI [of _ C]) simp
  qed
qed

lemma ensureReachable_None:
  "ensureReachable g = None \<longleftrightarrow> (entryPoint g, finishPoint g) \<in> (edge_rel g)\<^sup>*"
proof
  assume "ensureReachable g = None"
  then show "(entryPoint g, finishPoint g) \<in> (edge_rel g)\<^sup>*"
    by (auto simp: ensureReachable_def dest: bfs_sound split: if_splits)
next
  assume path: "(entryPoint g, finishPoint g) \<in> (edge_rel g)\<^sup>*"
  show "ensureReachable g = None"
  proof (rule ccontr)
    assume "ensureReachable g \<noteq> None"
    then obtain C where "entryPoint g \<in> C" and "edge_rel g `` C \<subseteq> C" and "finishPoint g \<notin> C"
      using bfs_complete [of g "[entryPoint g]" "{}"]
      by (auto simp: ensureReachable_def split: if_splits)
    with path show False by (auto dest: closed_rtrancl [of C, rotated])
  qed
qed

section \<open>Depth-first search decides acyclicity\<close>

text \<open>What holds of the node states and the stack whenever \<open>visit_edges\<close> is called: the stack
  holds exactly the nodes being visited and is a path, and the visited nodes are closed under
  edges and lie on no cycle.\<close>

definition dfs_inv :: "'v graph \<Rightarrow> (string \<Rightarrow> vstate) \<Rightarrow> string list \<Rightarrow> bool" where
  "dfs_inv g states stack \<longleftrightarrow>
     set stack = {n. states n = Visiting} \<and> distinct stack \<and>
     successively (\<lambda>a b. (a, b) \<in> edge_rel g) stack \<and>
     (\<forall>x y. states x = Visited \<longrightarrow> (x, y) \<in> edge_rel g \<longrightarrow> states y = Visited) \<and>
     (\<forall>x. states x = Visited \<longrightarrow> (x, x) \<notin> (edge_rel g)\<^sup>+)"

text \<open>The cycle an error reports: a path along edges that starts and ends at the same node.\<close>

definition is_cycle :: "'v graph \<Rightarrow> string list \<Rightarrow> bool" where
  "is_cycle g c \<longleftrightarrow> length c \<ge> 2 \<and> hd c = last c \<and> successively (\<lambda>a b. (a, b) \<in> edge_rel g) c"

lemma successively_trancl:
  "successively (\<lambda>a b. (a, b) \<in> r) c \<Longrightarrow> length c \<ge> 2 \<Longrightarrow> (hd c, last c) \<in> r\<^sup>+"
proof (induction c rule: induct_list012)
  case (3 x y zs)
  then show ?case
    by (cases zs) (auto intro: trancl_into_trancl2)
qed auto

lemma is_cycle_not_acyclic: "is_cycle g c \<Longrightarrow> \<not> acyclic (edge_rel g)"
  unfolding is_cycle_def acyclic_def using successively_trancl by metis

lemma cycle_from_is_cycle:
  assumes "successively (\<lambda>a b. (a, b) \<in> edge_rel g) stack" and "n \<in> set stack"
    and "(last stack, n) \<in> edge_rel g"
  shows "is_cycle g (cycle_from stack n)"
proof -
  from assms(2) obtain xs ys where stack: "stack = xs @ n # ys" and "n \<notin> set xs"
    by (meson split_list_first)
  then have "cycle_from stack n = n # ys @ [n]"
    by (auto simp: cycle_from_def dropWhile_append)
  moreover have "successively (\<lambda>a b. (a, b) \<in> edge_rel g) (n # ys @ [n])"
    using assms(1,3) stack by (auto simp: successively_append_iff successively_Cons split: if_splits)
  ultimately show ?thesis by (simp add: is_cycle_def)
qed

lemma dfs_inv_enter:
  assumes "dfs_inv g states stack" and "states n = Unvisited"
    and "stack \<noteq> [] \<longrightarrow> (last stack, n) \<in> edge_rel g"
  shows "dfs_inv g (states(n := Visiting)) (stack @ [n])"
  using assms by (auto simp: dfs_inv_def successively_append_iff)

lemma dfs_inv_leave:
  assumes "dfs_inv g states (stack @ [n])"
    and succ: "\<forall>y. (n, y) \<in> edge_rel g \<longrightarrow> states y = Visited"
  shows "dfs_inv g (states(n := Visited)) stack"
proof -
  have closed: "\<And>x y. states x = Visited \<Longrightarrow> (x, y) \<in> edge_rel g \<Longrightarrow> states y = Visited"
    and "states n = Visiting"
    using assms(1) by (auto simp: dfs_inv_def)
  have "(n, n) \<notin> (edge_rel g)\<^sup>+"
  proof
    assume "(n, n) \<in> (edge_rel g)\<^sup>+"
    then obtain y where "(n, y) \<in> edge_rel g" and "(y, n) \<in> (edge_rel g)\<^sup>*"
      by (meson tranclD)
    then have "n \<in> {x. states x = Visited}"
      using succ closed_rtrancl [of "{x. states x = Visited}" "edge_rel g" y n] closed by auto
    with \<open>states n = Visiting\<close> show False by simp
  qed
  with assms show ?thesis by (auto simp: dfs_inv_def successively_append_iff)
qed

lemma visit_edges_correct:
  assumes "dfs_inv g states stack" and "stack \<noteq> []"
    and "\<forall>e \<in> set es. (last stack, edge_to e) \<in> edge_rel g"
  shows "case visit_edges g es states stack of
      Inl err \<Rightarrow> \<exists>c. err = CyclesNotSupported c \<and> is_cycle g c
    | Inr states' \<Rightarrow> dfs_inv g states' stack \<and> (\<forall>e \<in> set es. states' (edge_to e) = Visited) \<and>
        (\<forall>x. states x = Visited \<longrightarrow> states' x = Visited)"
  using assms
proof (induction g es states stack rule: visit_edges.induct)
  case (1 g states stack)
  then show ?case by simp
next
  case (2 g e es states stack)
  let ?n = "edge_to e"
  have edge: "(last stack, ?n) \<in> edge_rel g" using "2.prems"(3) by simp
  show ?case
  proof (cases "states ?n")
    case Visiting
    then have "is_cycle g (cycle_from stack ?n)"
      using "2.prems" edge by (intro cycle_from_is_cycle) (auto simp: dfs_inv_def)
    with Visiting show ?thesis by simp
  next
    case Visited
    then show ?thesis
      using "2.IH"(3) "2.prems" by (auto split: sum.splits)
  next
    case Unvisited
    let ?r = "visit_edges g (edges_of g ?n) (states(?n := Visiting)) (stack @ [?n])"
    have inner: "case ?r of
        Inl err \<Rightarrow> \<exists>c. err = CyclesNotSupported c \<and> is_cycle g c
      | Inr states' \<Rightarrow> dfs_inv g states' (stack @ [?n]) \<and>
          (\<forall>e \<in> set (edges_of g ?n). states' (edge_to e) = Visited) \<and>
          (\<forall>x. (states(?n := Visiting)) x = Visited \<longrightarrow> states' x = Visited)"
      using "2.prems" edge Unvisited
      by (intro "2.IH"(1) dfs_inv_enter) (auto intro: edge_relI)
    show ?thesis
    proof (cases ?r)
      case (Inl err)
      with inner Unvisited show ?thesis by simp
    next
      case (Inr st)
      with inner have "dfs_inv g (st(?n := Visited)) stack"
        by (intro dfs_inv_leave) (auto simp: edge_rel_def)
      then have "case visit_edges g es (st(?n := Visited)) stack of
          Inl err \<Rightarrow> \<exists>c. err = CyclesNotSupported c \<and> is_cycle g c
        | Inr states' \<Rightarrow> dfs_inv g states' stack \<and> (\<forall>e \<in> set es. states' (edge_to e) = Visited) \<and>
            (\<forall>x. (st(?n := Visited)) x = Visited \<longrightarrow> states' x = Visited)"
        using "2.prems" by (intro "2.IH"(2) [OF Unvisited Inr]) (auto simp del: fun_upd_apply)
      with Inr inner Unvisited show ?thesis by (auto split: sum.splits)
    qed
  qed
qed

lemma visit_correct:
  assumes "dfs_inv g states []" and "states node = Unvisited"
  shows "case visit g node states [] of
      Inl err \<Rightarrow> \<exists>c. err = CyclesNotSupported c \<and> is_cycle g c
    | Inr states' \<Rightarrow> dfs_inv g states' [] \<and> states' node = Visited \<and>
        (\<forall>x. states x = Visited \<longrightarrow> states' x = Visited)"
proof -
  let ?r = "visit_edges g (edges_of g node) (states(node := Visiting)) [node]"
  have "dfs_inv g (states(node := Visiting)) ([] @ [node])"
    using assms by (intro dfs_inv_enter) auto
  then have main: "case ?r of
      Inl err \<Rightarrow> \<exists>c. err = CyclesNotSupported c \<and> is_cycle g c
    | Inr states' \<Rightarrow> dfs_inv g states' [node] \<and>
        (\<forall>e \<in> set (edges_of g node). states' (edge_to e) = Visited) \<and>
        (\<forall>x. (states(node := Visiting)) x = Visited \<longrightarrow> states' x = Visited)"
    using visit_edges_correct [of g "states(node := Visiting)" "[node]"]
    by (auto intro: edge_relI simp del: fun_upd_apply)
  show ?thesis
  proof (cases ?r)
    case (Inl err)
    with main show ?thesis by (simp add: visit_def)
  next
    case (Inr st)
    with main have "dfs_inv g (st(node := Visited)) []"
      by (intro dfs_inv_leave) (auto simp: edge_rel_def)
    with Inr main assms show ?thesis by (auto simp: visit_def)
  qed
qed

lemma visit_all_correct:
  assumes "dfs_inv g states []"
  shows "case visit_all g names states of
      Inl err \<Rightarrow> \<exists>c. err = CyclesNotSupported c \<and> is_cycle g c
    | Inr states' \<Rightarrow> dfs_inv g states' [] \<and> (\<forall>n \<in> set names. states' n = Visited) \<and>
        (\<forall>x. states x = Visited \<longrightarrow> states' x = Visited)"
  using assms
proof (induction names arbitrary: states)
  case (Cons n names)
  show ?case
  proof (cases "states n = Unvisited")
    case True
    then show ?thesis
      using visit_correct [OF Cons.prems True] Cons.IH by (fastforce split: sum.splits)
  next
    case False
    moreover have "states n \<noteq> Visiting" using Cons.prems by (auto simp: dfs_inv_def)
    ultimately have "states n = Visited" by (cases "states n") auto
    with Cons.IH [OF Cons.prems] show ?thesis by (auto split: sum.splits)
  qed
qed simp

lemma ensureAcyclic_None:
  assumes "edge_rel g \<subseteq> node_set g \<times> node_set g"
  shows "ensureAcyclic g = None \<longleftrightarrow> acyclic (edge_rel g)"
proof -
  have "dfs_inv g (\<lambda>_. Unvisited) []" by (simp add: dfs_inv_def)
  note all = visit_all_correct [OF this, of "map fst (nodes g)"]
  show ?thesis
  proof (cases "visit_all g (map fst (nodes g)) (\<lambda>_. Unvisited)")
    case (Inl err)
    with all show ?thesis by (auto simp: ensureAcyclic_def dest: is_cycle_not_acyclic)
  next
    case (Inr st)
    with all have visited: "\<forall>n \<in> node_set g. st n = Visited"
      and nocyc: "\<And>x. st x = Visited \<Longrightarrow> (x, x) \<notin> (edge_rel g)\<^sup>+"
      by (auto simp: node_set_def dfs_inv_def)
    have "acyclic (edge_rel g)"
    proof (rule acyclicI, intro allI notI)
      fix x assume cyc: "(x, x) \<in> (edge_rel g)\<^sup>+"
      then obtain y where "(x, y) \<in> edge_rel g" by (meson tranclD)
      with assms visited have "st x = Visited" by auto
      with nocyc cyc show False by blast
    qed
    with Inr show ?thesis by (simp add: ensureAcyclic_def)
  qed
qed

lemma ensureAcyclic_reports_cycle:
  "ensureAcyclic g = Some err \<Longrightarrow> \<exists>c. err = CyclesNotSupported c \<and> is_cycle g c"
  using visit_all_correct [of g "\<lambda>_. Unvisited" "map fst (nodes g)"]
  by (auto simp: ensureAcyclic_def dfs_inv_def split: sum.splits)

section \<open>The checks together\<close>

lemma compile_check_None:
  assumes "graph_ok g"
  shows "compile_check g = None \<longleftrightarrow> compilable g"
  using validate_None [OF assms] ensureAcyclic_None [of g] ensureReachable_None [of g]
    validateStructure_None [OF assms]
  by (auto simp: compile_check_def compilable_def)

lemma other_checks_no_cycle:
  "validate g \<noteq> Some (CyclesNotSupported c)"
  "ensureReachable g \<noteq> Some (CyclesNotSupported c)"
  "validateStructure g \<noteq> Some (CyclesNotSupported c)"
  by (auto simp: validate_def ensureReachable_def validateStructure_def Let_def
      split: option.splits if_splits dest!: first_err_map_Some)

end
