(* ===== verification/Graph_Run.thy ===== *)
theory Graph_Run
  imports Graph_Compile
begin

text \<open>
  Package \<open>graph\<close>, execution (\<open>src/graph/executor.go\<close>, \<open>task.go\<close>, \<open>checkpoint.go\<close>): the
  executor's precomputed node table, the task's scheduler state, and the operations on it, one
  definition per method. The methods that hold \<open>t.mu\<close> are functions of the task; the
  goroutines of one run and the main scheduling loop are the step relation \<open>run_step\<close>, whose
  steps are the critical sections of the code, so that every interleaving the mutex allows is a
  run of the relation.
\<close>

section \<open>Executor\<close>

record 'v nodeInfo =
  outEdges :: "'v conditionalEdge list"
  unconditionalDests :: "string list"
  dependencies :: nat
  isFinish :: bool
  hasConditions :: bool

record 'v executor =
  graph_of :: "'v graph"
  nodeInfos :: "(string, 'v nodeInfo) gomap"
  has_checkpointer :: bool

definition cloneEdges :: "'v conditionalEdge list \<Rightarrow> 'v conditionalEdge list" where
  "cloneEdges es = (if es = [] then [] else es)"

text \<open>\<open>dependencyCounts\<close>: for every edge list, for every edge, one increment of the target.\<close>

definition dependencyCounts :: "'v graph \<Rightarrow> string \<Rightarrow> nat" where
  "dependencyCounts g = fold (\<lambda>(_, es) cnt. fold (\<lambda>e c. c(edge_to e := Suc (c (edge_to e)))) es cnt)
     (edges g) (\<lambda>_. 0)"

definition node_info :: "'v graph \<Rightarrow> string \<Rightarrow> 'v nodeInfo" where
  "node_info g nodeName =
     (let rawEdges = cloneEdges (edges_of g nodeName) in
      \<lparr>outEdges = rawEdges,
       unconditionalDests = map edge_to (filter (\<lambda>e. condition e = None) rawEdges),
       dependencies = dependencyCounts g nodeName,
       isFinish = (nodeName = finishPoint g),
       hasConditions = list_ex (\<lambda>e. condition e \<noteq> None) rawEdges\<rparr>)"

definition NewExecutor :: "'v graph \<Rightarrow> bool \<Rightarrow> 'v executor" where
  "NewExecutor g checkpointer =
     \<lparr>graph_of = g, nodeInfos = map (\<lambda>(n, _). (n, node_info g n)) (nodes g),
      has_checkpointer = checkpointer\<rparr>"

definition Compile :: "'v graph \<Rightarrow> bool \<Rightarrow> gerror + 'v executor" where
  "Compile g checkpointer =
     (case compile_check g of Some e \<Rightarrow> Inl e | None \<Rightarrow> Inr (NewExecutor g checkpointer))"

text \<open>\<open>t.executor.nodeInfos[n]\<close> for a node of the graph. Every node the scheduler touches is one
  (\<open>run_inv\<close> below), so the nil pointer of an absent key is never dereferenced.\<close>

definition info_of :: "'v executor \<Rightarrow> string \<Rightarrow> 'v nodeInfo" where
  "info_of ex n = (case map_of (nodeInfos ex) n of Some i \<Rightarrow> i
     | None \<Rightarrow> \<lparr>outEdges = [], unconditionalDests = [], dependencies = 0, isFinish = False,
                hasConditions = False\<rparr>)"

section \<open>Task\<close>

record 'v checkpoint =
  cp_received :: "(string \<Rightarrow> nat) option"
  cp_visited :: "string set option"
  cp_state :: "'v gstate"

text \<open>\<open>Task\<close>: the integer-valued maps are total functions (an absent key reads as 0), the
  bool-valued maps the sets of their true keys.\<close>

record 'v task =
  tstate :: "'v gstate"
  ready :: "string list"
  remaining :: "string \<Rightarrow> nat"
  received :: "string \<Rightarrow> nat"
  inFlight :: "string set"
  visited :: "string set"
  progress :: bool
  finished :: bool
  task_err :: "gerror option"

definition newTask :: "'v gstate \<Rightarrow> 'v task" where
  "newTask st = \<lparr>tstate = st, ready = [], remaining = (\<lambda>_. 0), received = (\<lambda>_. 0),
     inFlight = {}, visited = {}, progress = False, finished = False, task_err = None\<rparr>"

definition prepareEntry :: "'v executor \<Rightarrow> 'v task \<Rightarrow> 'v task" where
  "prepareEntry ex t =
     (let entry = entryPoint (graph_of ex);
          rem = fold (\<lambda>(n, info) r. if 0 < dependencies info then r(n := dependencies info) else r)
                  (nodeInfos ex) (remaining t)
      in t\<lparr>remaining := rem, received := (received t)(entry := Suc (received t entry)),
           ready := ready t @ [entry]\<rparr>)"

definition shouldCheckpoint :: "bool \<Rightarrow> 'v task \<Rightarrow> bool" where
  "shouldCheckpoint ck t \<longleftrightarrow> ck \<and> progress t \<and> inFlight t = {}"

definition fail :: "gerror \<Rightarrow> 'v task \<Rightarrow> 'v task" where
  "fail e t = (if task_err t \<noteq> None then t else t\<lparr>task_err := Some e\<rparr>)"

text \<open>\<open>rebuildRemainingLocked\<close>: predecessors that are visited have propagated to their children.\<close>

definition satisfied_by :: "'v graph \<Rightarrow> string set \<Rightarrow> string \<Rightarrow> nat" where
  "satisfied_by g vis = fold (\<lambda>(from, es) sat. if from \<notin> vis then sat
      else fold (\<lambda>e s. s(edge_to e := Suc (s (edge_to e)))) es sat) (edges g) (\<lambda>_. 0)"

definition rebuildRemaining :: "'v executor \<Rightarrow> 'v task \<Rightarrow> 'v task" where
  "rebuildRemaining ex t =
     (let satisfied = satisfied_by (graph_of ex) (visited t) in
      t\<lparr>remaining := fold (\<lambda>(n, info) r.
          if dependencies info = 0 then r
          else if satisfied n < dependencies info then r(n := dependencies info - satisfied n)
          else r) (nodeInfos ex) (\<lambda>_. 0)\<rparr>)"

definition rebuildReady :: "'v executor \<Rightarrow> 'v task \<Rightarrow> 'v task" where
  "rebuildReady ex t =
     t\<lparr>ready := map fst (filter (\<lambda>(n, info).
         if dependencies info = 0 \<and> n \<notin> visited t then 0 < received t n
         else if n \<in> visited t \<or> 0 < remaining t n then False
         else received t n \<noteq> 0) (nodeInfos ex))\<rparr>"

definition restoreCheckpoint :: "'v executor \<Rightarrow> 'v checkpoint \<Rightarrow> 'v task \<Rightarrow> 'v task" where
  "restoreCheckpoint ex cp t =
     (let t1 = t\<lparr>received := (case cp_received cp of Some r \<Rightarrow> r | None \<Rightarrow> received t),
                 visited := (case cp_visited cp of Some v \<Rightarrow> v | None \<Rightarrow> visited t),
                 inFlight := {},
                 tstate := cp_state cp ++ tstate t\<rparr>;
          t2 = rebuildReady ex (rebuildRemaining ex t1)
      in t2\<lparr>finished := finishPoint (graph_of ex) \<in> visited t2, task_err := None, progress := False\<rparr>)"

definition take_checkpoint :: "'v task \<Rightarrow> 'v checkpoint" where
  "take_checkpoint t = \<lparr>cp_received = Some (received t), cp_visited = Some (visited t),
     cp_state = tstate t\<rparr>"

text \<open>\<open>Executor.Resume\<close> up to the run loop: provided values override checkpointed ones.\<close>

definition resume_task :: "'v executor \<Rightarrow> 'v gstate \<Rightarrow> 'v checkpoint \<Rightarrow> 'v task" where
  "resume_task ex st cp =
     (let merged = cp_state cp ++ st
      in restoreCheckpoint ex (cp\<lparr>cp_state := merged\<rparr>) (newTask merged))"

section \<open>Edges and skips\<close>

text \<open>What a goroutine still has to do after its handler returned: the calls of \<open>satisfy\<close> it
  will make, and a call of \<open>fail\<close> after which it returns.\<close>

datatype work = Satisfy string string bool | FailWith gerror

text \<open>\<open>satisfy\<close>: the locked section, and the recursive calls made after the lock is released (a
  skipped node propagates the skip along all its edges).\<close>

definition satisfy :: "'v executor \<Rightarrow> string \<Rightarrow> bool \<Rightarrow> 'v task \<Rightarrow> 'v task \<times> work list" where
  "satisfy ex to activated t =
     (if to \<in> visited t then (t, [])
      else if dependencies (info_of ex to) = 0 then (t, [])
      else
        (let rcv = (if activated then (received t)(to := Suc (received t to)) else received t);
             rem = (if 0 < remaining t to then (remaining t)(to := remaining t to - 1)
                    else remaining t);
             t1 = t\<lparr>received := rcv, remaining := rem\<rparr>
         in if rem to = 0 \<and> to \<notin> visited t1 \<and> to \<notin> inFlight t1
            then (if rcv to = 0
                  then (t1\<lparr>visited := insert to (visited t1), progress := True,
                           received := (received t1)(to := 0)\<rparr>,
                        map (\<lambda>e. Satisfy to (edge_to e) False) (outEdges (info_of ex to)))
                  else (t1\<lparr>ready := ready t1 @ [to]\<rparr>, []))
            else (t1, [])))"

fun conditional_work :: "string \<Rightarrow> 'v conditionalEdge list \<Rightarrow> 'v gstate \<Rightarrow> bool \<Rightarrow> work list" where
  "conditional_work node [] st matched = (if matched then [] else [FailWith (NoConditionMatched node)])"
| "conditional_work node (e # es) st matched =
     (case condition e of
        None \<Rightarrow> [FailWith (MissingCondition node (edge_to e))]
      | Some c \<Rightarrow> (if c st then Satisfy node (edge_to e) True # conditional_work node es st True
                   else Satisfy node (edge_to e) False # conditional_work node es st matched))"

definition processOutgoing :: "string \<Rightarrow> 'v nodeInfo \<Rightarrow> 'v gstate \<Rightarrow> work list" where
  "processOutgoing node info st =
     (if \<not> hasConditions info then map (\<lambda>d. Satisfy node d True) (unconditionalDests info)
      else conditional_work node (outEdges info) st False)"

text \<open>The locked section of \<open>executeNode\<close> after a successful handler, and the work it leaves.\<close>

definition complete_node ::
  "'v executor \<Rightarrow> string \<Rightarrow> 'v gstate \<Rightarrow> 'v task \<Rightarrow> 'v task \<times> work list" where
  "complete_node ex node st t =
     (let info = info_of ex node;
          t1 = t\<lparr>tstate := tstate t ++ st, visited := insert node (visited t), progress := True,
                 finished := finished t \<or> isFinish info\<rparr>
      in (t1, if isFinish info then [] else processOutgoing node info st))"

definition nodeDone :: "string \<Rightarrow> 'v task \<Rightarrow> 'v task" where
  "nodeDone node t = t\<lparr>inFlight := inFlight t - {node}\<rparr>"

text \<open>The handler a node runs: the registered one inside the graph's middlewares.\<close>

definition node_handler :: "'v executor \<Rightarrow> string \<Rightarrow> 'v ghandler option" where
  "node_handler ex node = map_option
     (\<lambda>h. if middlewares (graph_of ex) = [] then h else ChainMiddlewares (middlewares (graph_of ex)) h)
     (map_of (nodes (graph_of ex)) node)"

section \<open>The run loop and the goroutines\<close>

text \<open>Where a goroutine is: before the early-termination check, inside its handler, or in the
  list of calls that follow.\<close>

datatype 'v pc = Entered "'v gstate" | Handling "'v gstate" | Outgoing "work list"

text \<open>Where the main loop is: at the three calls of its body, inside the checkpointer, inside
  \<open>wg.Wait\<close> of \<open>checkTermination\<close> with the error it has read (\<open>None\<close>: it read \<open>finished\<close>), or
  returned.\<close>

datatype 'v mainpc = Emit | Saving "'v checkpoint" | Check | Waiting "gerror option" | Sched
  | Done "gerror + 'v gstate"

text \<open>The state of one run. \<open>calls\<close> records the handler calls in order and \<open>saved\<close> the
  checkpoints handed to the checkpointer.\<close>

record 'v run =
  task :: "'v task"
  procs :: "string \<rightharpoonup> 'v pc"
  main :: "'v mainpc"
  calls :: "string list"
  saved :: "'v checkpoint list"

definition start_run :: "'v executor \<Rightarrow> 'v gstate \<Rightarrow> 'v run" where
  "start_run ex st = \<lparr>task = prepareEntry ex (newTask st), procs = Map.empty, main = Emit,
     calls = [], saved = []\<rparr>"

definition resume_run :: "'v executor \<Rightarrow> 'v gstate \<Rightarrow> 'v checkpoint \<Rightarrow> 'v run" where
  "resume_run ex st cp = \<lparr>task = resume_task ex st cp, procs = Map.empty, main = Emit,
     calls = [], saved = []\<rparr>"

text \<open>In serial mode the main loop runs the node itself, so it takes no step of its own while a
  node is in flight.\<close>

definition main_may_step :: "'v executor \<Rightarrow> 'v run \<Rightarrow> bool" where
  "main_may_step ex s \<longleftrightarrow> parallel (graph_of ex) \<or> procs s = Map.empty"

text \<open>\<open>ck\<close>: a checkpointer is configured and the checkpoint id is not empty.\<close>

inductive run_step :: "'v executor \<Rightarrow> bool \<Rightarrow> 'v run \<Rightarrow> 'v run \<Rightarrow> bool" for ex ck where
  emit_skip: "main s = Emit \<Longrightarrow> main_may_step ex s \<Longrightarrow> \<not> shouldCheckpoint ck (task s) \<Longrightarrow>
    run_step ex ck s (s\<lparr>main := Check\<rparr>)"
| emit_take: "main s = Emit \<Longrightarrow> main_may_step ex s \<Longrightarrow> shouldCheckpoint ck (task s) \<Longrightarrow>
    run_step ex ck s (s\<lparr>main := Saving (take_checkpoint (task s)),
                        task := (task s)\<lparr>progress := False\<rparr>\<rparr>)"
| save_ok: "main s = Saving cp \<Longrightarrow> main_may_step ex s \<Longrightarrow>
    run_step ex ck s (s\<lparr>main := Check, saved := saved s @ [cp]\<rparr>)"
| save_fail: "main s = Saving cp \<Longrightarrow> main_may_step ex s \<Longrightarrow>
    run_step ex ck s (s\<lparr>main := Check, task := fail (CheckpointSaveFailed msg) (task s)\<rparr>)"
| check_err: "main s = Check \<Longrightarrow> main_may_step ex s \<Longrightarrow> task_err (task s) = Some e \<Longrightarrow>
    run_step ex ck s (s\<lparr>main := Waiting (Some e)\<rparr>)"
| check_finished: "main s = Check \<Longrightarrow> main_may_step ex s \<Longrightarrow> task_err (task s) = None \<Longrightarrow>
    finished (task s) \<Longrightarrow> run_step ex ck s (s\<lparr>main := Waiting None\<rparr>)"
| wait_done: "main s = Waiting r \<Longrightarrow> procs s = Map.empty \<Longrightarrow>
    run_step ex ck s (s\<lparr>main := Done (case r of Some e \<Rightarrow> Inl e | None \<Rightarrow> Inr (tstate (task s)))\<rparr>)"
| check_go: "main s = Check \<Longrightarrow> main_may_step ex s \<Longrightarrow> task_err (task s) = None \<Longrightarrow>
    \<not> finished (task s) \<Longrightarrow> run_step ex ck s (s\<lparr>main := Sched\<rparr>)"
| sched_checkpoint: "main s = Sched \<Longrightarrow> main_may_step ex s \<Longrightarrow> shouldCheckpoint ck (task s) \<Longrightarrow>
    run_step ex ck s (s\<lparr>main := Emit\<rparr>)"
| sched_stop: "main s = Sched \<Longrightarrow> main_may_step ex s \<Longrightarrow> \<not> shouldCheckpoint ck (task s) \<Longrightarrow>
    ready (task s) = [] \<Longrightarrow> task_err (task s) \<noteq> None \<or> finished (task s) \<Longrightarrow>
    run_step ex ck s (s\<lparr>main := Emit\<rparr>)"
| sched_stuck: "main s = Sched \<Longrightarrow> main_may_step ex s \<Longrightarrow> \<not> shouldCheckpoint ck (task s) \<Longrightarrow>
    ready (task s) = [] \<Longrightarrow> task_err (task s) = None \<Longrightarrow> \<not> finished (task s) \<Longrightarrow>
    inFlight (task s) = {} \<Longrightarrow>
    run_step ex ck s (s\<lparr>main := Emit,
                        task := fail (FinishNotReachable (finishPoint (graph_of ex))) (task s)\<rparr>)"
| sched_visited: "main s = Sched \<Longrightarrow> main_may_step ex s \<Longrightarrow> \<not> shouldCheckpoint ck (task s) \<Longrightarrow>
    ready (task s) = n # rest \<Longrightarrow> n \<in> visited (task s) \<Longrightarrow>
    run_step ex ck s (s\<lparr>main := Emit, task := (task s)\<lparr>ready := rest\<rparr>\<rparr>)"
| sched_run: "main s = Sched \<Longrightarrow> main_may_step ex s \<Longrightarrow> \<not> shouldCheckpoint ck (task s) \<Longrightarrow>
    ready (task s) = n # rest \<Longrightarrow> n \<notin> visited (task s) \<Longrightarrow>
    run_step ex ck s (s\<lparr>main := Emit,
       task := (task s)\<lparr>ready := rest, inFlight := insert n (inFlight (task s))\<rparr>,
       procs := (procs s)(n \<mapsto> Entered (tstate (task s)))\<rparr>)"
| node_abort: "procs s n = Some (Entered st) \<Longrightarrow> task_err (task s) \<noteq> None \<or> finished (task s) \<Longrightarrow>
    run_step ex ck s (s\<lparr>procs := (procs s)(n \<mapsto> Outgoing [])\<rparr>)"
| node_call: "procs s n = Some (Entered st) \<Longrightarrow> task_err (task s) = None \<Longrightarrow> \<not> finished (task s) \<Longrightarrow>
    run_step ex ck s (s\<lparr>procs := (procs s)(n \<mapsto> Handling st), calls := calls s @ [n]\<rparr>)"
| node_error: "procs s n = Some (Handling st) \<Longrightarrow> node_handler ex n = Some h \<Longrightarrow> Inl msg \<in> h n st \<Longrightarrow>
    run_step ex ck s (s\<lparr>procs := (procs s)(n \<mapsto> Outgoing []),
                        task := fail (NodeFailed n msg) (task s)\<rparr>)"
| node_ok: "procs s n = Some (Handling st) \<Longrightarrow> node_handler ex n = Some h \<Longrightarrow> Inr st' \<in> h n st \<Longrightarrow>
    complete_node ex n st' (task s) = (t', ws) \<Longrightarrow>
    run_step ex ck s (s\<lparr>procs := (procs s)(n \<mapsto> Outgoing ws), task := t'\<rparr>)"
| work_satisfy: "procs s n = Some (Outgoing (Satisfy from to a # ws)) \<Longrightarrow>
    satisfy ex to a (task s) = (t', ws') \<Longrightarrow>
    run_step ex ck s (s\<lparr>procs := (procs s)(n \<mapsto> Outgoing (ws' @ ws)), task := t'\<rparr>)"
| work_fail: "procs s n = Some (Outgoing (FailWith e # ws)) \<Longrightarrow>
    run_step ex ck s (s\<lparr>procs := (procs s)(n \<mapsto> Outgoing []), task := fail e (task s)\<rparr>)"
| node_done: "procs s n = Some (Outgoing []) \<Longrightarrow>
    run_step ex ck s (s\<lparr>procs := (procs s)(n := None), task := nodeDone n (task s)\<rparr>)"

inductive reachable :: "'v executor \<Rightarrow> bool \<Rightarrow> 'v run \<Rightarrow> 'v run \<Rightarrow> bool" for ex ck s0 where
  reach_start: "reachable ex ck s0 s0"
| reach_step: "reachable ex ck s0 s \<Longrightarrow> run_step ex ck s s' \<Longrightarrow> reachable ex ck s0 s'"

text \<open>A history of one checkpoint id: the run \<open>Execute\<close> starts, its steps, and after a crash or a
  return at any point a \<open>Resume\<close> from any checkpoint saved so far.\<close>

inductive execution :: "'v executor \<Rightarrow> bool \<Rightarrow> 'v run \<Rightarrow> bool" for ex ck where
  exec_start: "execution ex ck (start_run ex st)"
| exec_step: "execution ex ck s \<Longrightarrow> run_step ex ck s s' \<Longrightarrow> execution ex ck s'"
| exec_resume: "execution ex ck s \<Longrightarrow> cp \<in> set (saved s) \<Longrightarrow>
    execution ex ck ((resume_run ex st cp)\<lparr>saved := saved s\<rparr>)"

end
