(* ===== verification/Graph_Counts.thy ===== *)
theory Graph_Counts
  imports Graph_Run
begin

text \<open>
  Counting facts behind the scheduler's invariant: the precomputed dependency counts, the
  counts \<open>rebuildRemainingLocked\<close> derives from a checkpoint, and the work lists of
  \<open>processOutgoing\<close> and \<open>satisfy\<close>, all expressed by the number of edges between two nodes.
\<close>

section \<open>Edge counts\<close>

definition ecount :: "'v graph \<Rightarrow> string \<Rightarrow> string \<Rightarrow> nat" where
  "ecount g a b = count_list (map edge_to (edges_of g a)) b"

text \<open>The edges into \<open>b\<close> whose source is not yet visited.\<close>

definition unsat :: "'v graph \<Rightarrow> string set \<Rightarrow> string \<Rightarrow> nat" where
  "unsat g vis b = (\<Sum>a \<in> node_set g - vis. ecount g a b)"

lemma ecount_pos_iff: "0 < ecount g a b \<longleftrightarrow> (a, b) \<in> edge_rel g"
  by (auto simp: ecount_def edge_rel_def count_list_0_iff simp flip: neq0_conv)

lemma ecount_0_iff: "ecount g a b = 0 \<longleftrightarrow> (a, b) \<notin> edge_rel g"
  using ecount_pos_iff [of g a b] by auto

lemma fold_count:
  "fold (\<lambda>e c. c(edge_to e := Suc (c (edge_to e)))) es cnt b = cnt b + count_list (map edge_to es) b"
  by (induction es arbitrary: cnt) auto

lemma fold_edges_count:
  "fold (\<lambda>(a, es) cnt. if P a then cnt
       else fold (\<lambda>e c. c(edge_to e := Suc (c (edge_to e)))) es cnt) m cnt b =
   cnt b + (\<Sum>(a, es) \<leftarrow> m. if P a then 0 else count_list (map edge_to es) b)"
  by (induction m arbitrary: cnt) (auto simp: fold_count)

lemma sum_list_alist:
  assumes "gomap_ok m"
  shows "(\<Sum>(a, es) \<leftarrow> m. f a es) = (\<Sum>a \<in> gomap_keys m. f a (gomap_slice m a))"
  using assms
proof (induction m)
  case (Cons p m)
  obtain a es where p: "p = (a, es)" by (cases p)
  have "(\<Sum>x \<in> gomap_keys m. f x (gomap_slice (p # m) x)) = (\<Sum>x \<in> gomap_keys m. f x (gomap_slice m x))"
    using Cons.prems p by (intro sum.cong) (auto simp: gomap_slice_def gomap_ok_def)
  with Cons p show ?case by (auto simp: gomap_ok_def gomap_slice_def)
qed simp

lemma sum_over_nodes:
  assumes "gomap_keys (edges g) \<subseteq> node_set g"
  shows "(\<Sum>a \<in> gomap_keys (edges g). if P a then 0 else ecount g a b) =
         (\<Sum>a \<in> node_set g. if P a then 0 else ecount g a b)"
  using assms by (intro sum.mono_neutral_left) (auto simp: ecount_def edges_of_nokey)

lemma counts_by_edges:
  assumes "graph_ok g" and "gomap_keys (edges g) \<subseteq> node_set g"
  shows "(\<Sum>(a, es) \<leftarrow> edges g. if P a then 0 else count_list (map edge_to es) b) =
         (\<Sum>a \<in> {a \<in> node_set g. \<not> P a}. ecount g a b)"
proof -
  have "(\<Sum>(a, es) \<leftarrow> edges g. if P a then 0 else count_list (map edge_to es) b) =
        (\<Sum>a \<in> gomap_keys (edges g). if P a then 0 else ecount g a b)"
    unfolding ecount_def edges_of_def
    by (rule sum_list_alist) (use assms(1) in \<open>simp add: graph_ok_def\<close>)
  also have "\<dots> = (\<Sum>a \<in> node_set g. if P a then 0 else ecount g a b)"
    by (rule sum_over_nodes [OF assms(2)])
  also have "\<dots> = (\<Sum>a \<in> {a \<in> node_set g. \<not> P a}. ecount g a b)"
    by (intro sum.mono_neutral_cong_right) auto
  finally show ?thesis .
qed

lemma dependencyCounts_eq:
  assumes "graph_ok g" and "gomap_keys (edges g) \<subseteq> node_set g"
  shows "dependencyCounts g b = unsat g {} b"
  using counts_by_edges [OF assms, of "\<lambda>_. False"]
    fold_edges_count [of "\<lambda>_. False" "edges g" "\<lambda>_. 0" b]
  by (simp add: dependencyCounts_def unsat_def)

lemma satisfied_by_eq:
  assumes "graph_ok g" and "gomap_keys (edges g) \<subseteq> node_set g"
  shows "satisfied_by g vis b = (\<Sum>a \<in> node_set g \<inter> vis. ecount g a b)"
  using counts_by_edges [OF assms, of "\<lambda>a. a \<notin> vis"]
    fold_edges_count [of "\<lambda>a. a \<notin> vis" "edges g" "\<lambda>_. 0" b]
  by (simp add: satisfied_by_def Int_def)

lemma unsat_plus_satisfied:
  "unsat g {} b = unsat g vis b + (\<Sum>a \<in> node_set g \<inter> vis. ecount g a b)"
  using sum.Int_Diff [of "node_set g" "\<lambda>a. ecount g a b" vis] by (simp add: unsat_def)

lemma unsat_insert:
  assumes "n \<in> node_set g" and "n \<notin> vis"
  shows "unsat g vis b = unsat g (insert n vis) b + ecount g n b"
  using assms sum.remove [of "node_set g - vis" n "\<lambda>a. ecount g a b"]
  by (simp add: unsat_def Diff_insert [symmetric])

lemma unsat_0_preds:
  assumes "unsat g vis b = 0" and "(a, b) \<in> edge_rel g" and "a \<in> node_set g"
  shows "a \<in> vis"
proof (rule ccontr)
  assume "a \<notin> vis"
  with assms have "ecount g a b = 0" by (simp add: unsat_def)
  with assms(2) show False by (simp add: ecount_0_iff)
qed

lemma unsat_pos:
  assumes "(a, b) \<in> edge_rel g" and "a \<in> node_set g" and "a \<notin> vis"
  shows "0 < unsat g vis b"
  using unsat_0_preds [OF _ assms(1,2), of vis] assms(3) by blast

section \<open>Compiled executors\<close>

definition compiled :: "'v executor \<Rightarrow> bool" where
  "compiled ex \<longleftrightarrow> graph_ok (graph_of ex) \<and> compilable (graph_of ex) \<and>
     nodeInfos ex = nodeInfos (NewExecutor (graph_of ex) (has_checkpointer ex))"

lemma Compile_compiled:
  "graph_ok g \<Longrightarrow> Compile g c = Inr ex \<Longrightarrow> compiled ex \<and> graph_of ex = g"
  using compile_check_None [of g]
  by (auto simp: Compile_def compiled_def NewExecutor_def split: option.splits)

lemma nodeInfos_NewExecutor:
  "nodeInfos (NewExecutor g c) = map (\<lambda>(n, _). (n, node_info g n)) (nodes g)"
  by (simp add: NewExecutor_def)

lemma map_of_node_infos:
  "map_of (map (\<lambda>(n, _). (n, f n)) m) n = (if n \<in> gomap_keys m then Some (f n) else None)"
  by (induction m) auto

lemma info_of_node:
  "compiled ex \<Longrightarrow> n \<in> node_set (graph_of ex) \<Longrightarrow> info_of ex n = node_info (graph_of ex) n"
  by (simp add: compiled_def info_of_def nodeInfos_NewExecutor map_of_node_infos node_set_def)

lemma cloneEdges_id [simp]: "cloneEdges es = es"
  by (simp add: cloneEdges_def)

lemma compiled_dependencies:
  assumes "compiled ex" and "n \<in> node_set (graph_of ex)"
  shows "dependencies (info_of ex n) = unsat (graph_of ex) {} n"
  using assms by (simp add: info_of_node node_info_def Let_def compiled_def compilable_def
      dependencyCounts_eq)

lemma compiled_outEdges:
  "compiled ex \<Longrightarrow> n \<in> node_set (graph_of ex) \<Longrightarrow> outEdges (info_of ex n) = edges_of (graph_of ex) n"
  by (simp add: info_of_node node_info_def Let_def)

section \<open>Work lists\<close>

text \<open>How many calls of \<open>satisfy\<close> on \<open>b\<close> a work list holds.\<close>

fun wcount :: "work list \<Rightarrow> string \<Rightarrow> nat" where
  "wcount [] b = 0"
| "wcount (Satisfy f t a # ws) b = (if t = b then Suc (wcount ws b) else wcount ws b)"
| "wcount (FailWith e # ws) b = wcount ws b"

lemma wcount_append [simp]: "wcount (xs @ ys) b = wcount xs b + wcount ys b"
  by (induction xs b rule: wcount.induct) auto

lemma wcount_pos_mem: "Satisfy f b a \<in> set ws \<Longrightarrow> 0 < wcount ws b"
  by (induction ws b rule: wcount.induct) auto

lemma wcount_map_satisfy: "wcount (map (\<lambda>e. Satisfy n (f e) a) es) b = count_list (map f es) b"
  by (induction es) auto

text \<open>A \<open>fail\<close> is the last entry of a work list, and reports an unmatched condition.\<close>

definition work_ok :: "work list \<Rightarrow> bool" where
  "work_ok ws \<longleftrightarrow> (\<forall>w \<in> set (butlast ws). \<exists>f t a. w = Satisfy f t a) \<and>
     (\<forall>e. FailWith e \<in> set ws \<longrightarrow> (\<exists>n. e = NoConditionMatched n))"

lemma work_ok_Nil [simp]: "work_ok []"
  by (simp add: work_ok_def)

lemma work_ok_Cons [simp]:
  "work_ok (Satisfy f t a # ws) \<longleftrightarrow> work_ok ws"
  "work_ok (FailWith e # ws) \<longleftrightarrow> ws = [] \<and> (\<exists>n. e = NoConditionMatched n)"
  by (auto simp: work_ok_def)

lemma work_ok_satisfies [simp]: "work_ok (map (\<lambda>e. Satisfy n (f e) a) es @ ws) \<longleftrightarrow> work_ok ws"
  by (induction es) auto

lemma conditional_work_count:
  "\<forall>e \<in> set es. condition e \<noteq> None \<Longrightarrow>
     wcount (conditional_work n es st m) b = count_list (map edge_to es) b"
  by (induction es arbitrary: m) auto

lemma conditional_work_ok:
  "\<forall>e \<in> set es. condition e \<noteq> None \<Longrightarrow> work_ok (conditional_work n es st m)"
  by (induction es arbitrary: m) auto

lemma conditional_work_mem:
  "Satisfy f t a \<in> set (conditional_work n es st m) \<Longrightarrow> f = n \<and> t \<in> edge_to ` set es"
  by (induction es arbitrary: m) (auto split: option.splits if_splits)

text \<open>If some condition held, an activated edge is in the list; otherwise it ends in \<open>fail\<close>.\<close>

lemma conditional_work_activates:
  assumes "\<forall>e \<in> set es. condition e \<noteq> None"
  shows "m \<or> (\<exists>t. Satisfy n t True \<in> set (conditional_work n es st m)) \<or>
     FailWith (NoConditionMatched n) \<in> set (conditional_work n es st m)"
  using assms
proof (induction es arbitrary: m)
  case (Cons e es)
  then obtain c where c: "condition e = Some c" by auto
  show ?case
  proof (cases "c st")
    case True
    with c show ?thesis by auto
  next
    case False
    with c Cons.IH [of m] Cons.prems show ?thesis by auto
  qed
qed simp

lemma uniform_hasConditions:
  assumes "uniform_edges es"
  shows "list_ex (\<lambda>e. condition e \<noteq> None) es \<Longrightarrow> \<forall>e \<in> set es. condition e \<noteq> None"
    and "\<not> list_ex (\<lambda>e. condition e \<noteq> None) es \<Longrightarrow> filter (\<lambda>e. condition e = None) es = es"
  using assms by (auto simp: uniform_edges_def list_ex_iff)

lemma processOutgoing_cases:
  assumes "compiled ex" and n: "n \<in> node_set (graph_of ex)"
  obtains (conditional) "\<forall>e \<in> set (edges_of (graph_of ex) n). condition e \<noteq> None"
      "processOutgoing n (info_of ex n) st = conditional_work n (edges_of (graph_of ex) n) st False"
  | (unconditional) "processOutgoing n (info_of ex n) st =
       map (\<lambda>e. Satisfy n (edge_to e) True) (edges_of (graph_of ex) n)"
proof -
  let ?es = "edges_of (graph_of ex) n"
  have u: "uniform_edges ?es" using assms(1) by (simp add: compiled_def compilable_def)
  have info: "hasConditions (info_of ex n) = list_ex (\<lambda>e. condition e \<noteq> None) ?es"
    "unconditionalDests (info_of ex n) = map edge_to (filter (\<lambda>e. condition e = None) ?es)"
    "outEdges (info_of ex n) = ?es"
    using assms by (simp_all add: info_of_node node_info_def Let_def)
  show thesis
  proof (cases "list_ex (\<lambda>e. condition e \<noteq> None) ?es")
    case True
    with u info show thesis
      by (intro conditional) (auto simp: processOutgoing_def dest: uniform_hasConditions(1))
  next
    case False
    then have "filter (\<lambda>e. condition e = None) ?es = ?es"
      by (rule uniform_hasConditions(2) [OF u])
    with False info show thesis
      by (intro unconditional) (simp add: processOutgoing_def o_def)
  qed
qed

lemma processOutgoing_count:
  assumes "compiled ex" and "n \<in> node_set (graph_of ex)"
  shows "wcount (processOutgoing n (info_of ex n) st) b = ecount (graph_of ex) n b"
  using assms by (cases rule: processOutgoing_cases [where st = st])
    (simp_all add: conditional_work_count ecount_def wcount_map_satisfy)

lemma processOutgoing_ok:
  assumes "compiled ex" and "n \<in> node_set (graph_of ex)"
  shows "work_ok (processOutgoing n (info_of ex n) st)"
  using assms work_ok_satisfies [of n edge_to True "edges_of (graph_of ex) n" "[]"]
  by (cases rule: processOutgoing_cases [where st = st]) (simp_all add: conditional_work_ok)

lemma processOutgoing_mem:
  assumes "compiled ex" and "n \<in> node_set (graph_of ex)"
    and "Satisfy f t a \<in> set (processOutgoing n (info_of ex n) st)"
  shows "f = n \<and> (n, t) \<in> edge_rel (graph_of ex)"
  using assms by (cases rule: processOutgoing_cases [where st = st])
    (auto simp: edge_rel_def dest!: conditional_work_mem)

lemma processOutgoing_activates:
  assumes "compiled ex" and "n \<in> node_set (graph_of ex)" and "n \<noteq> finishPoint (graph_of ex)"
  shows "(\<exists>t. Satisfy n t True \<in> set (processOutgoing n (info_of ex n) st)) \<or>
     FailWith (NoConditionMatched n) \<in> set (processOutgoing n (info_of ex n) st)"
  using assms(1,2)
proof (cases rule: processOutgoing_cases [where st = st])
  case conditional
  then show ?thesis
    using conditional_work_activates [OF conditional(1), of False n st] by simp
next
  case unconditional
  have "edges_of (graph_of ex) n \<noteq> []" using assms by (simp add: compiled_def compilable_def)
  with unconditional show ?thesis by (cases "edges_of (graph_of ex) n") auto
qed

end
