(* ===== verification/Graph_Inv.thy ===== *)
theory Graph_Inv
  imports Graph_Counts
begin

text \<open>
  The invariant of the scheduler of package \<open>graph\<close> (\<open>src/graph/task.go\<close>), for every state of
  every history of runs of a compiled executor: the dependency counts agree with the visited
  nodes and the pending calls of \<open>satisfy\<close>, a node is visited only after its predecessors, a
  queued or running node has its dependencies met, and a checkpoint describes such a state.
\<close>

section \<open>The invariant\<close>

definition reach_set :: "'v executor \<Rightarrow> string set" where
  "reach_set ex = (edge_rel (graph_of ex))\<^sup>* `` {entryPoint (graph_of ex)}"

text \<open>The calls of \<open>satisfy\<close> on \<open>b\<close> that goroutines still have to make.\<close>

fun pc_count :: "'v pc option \<Rightarrow> string \<Rightarrow> nat" where
  "pc_count (Some (Outgoing ws)) b = wcount ws b"
| "pc_count _ b = 0"

definition pend :: "'v executor \<Rightarrow> (string \<rightharpoonup> 'v pc) \<Rightarrow> string \<Rightarrow> nat" where
  "pend ex ps b = (\<Sum>n \<in> node_set (graph_of ex). pc_count (ps n) b)"

definition frame_inv :: "'v executor \<Rightarrow> 'v run \<Rightarrow> bool" where
  "frame_inv ex s \<longleftrightarrow> inFlight (task s) = dom (procs s) \<and>
     visited (task s) \<union> inFlight (task s) \<union> set (ready (task s)) \<subseteq> reach_set ex \<and>
     (\<forall>n. 0 < received (task s) n \<longrightarrow> n \<in> reach_set ex) \<and>
     (progress (task s) \<longrightarrow> visited (task s) \<noteq> {}) \<and>
     (finished (task s) \<longrightarrow> finishPoint (graph_of ex) \<in> visited (task s))"

definition work_inv :: "'v executor \<Rightarrow> 'v run \<Rightarrow> bool" where
  "work_inv ex s \<longleftrightarrow> (\<forall>n ws. procs s n = Some (Outgoing ws) \<longrightarrow> work_ok ws \<and>
     (\<forall>f m a. Satisfy f m a \<in> set ws \<longrightarrow> f \<in> visited (task s) \<and> (f, m) \<in> edge_rel (graph_of ex)))"

definition count_inv :: "'v executor \<Rightarrow> 'v run \<Rightarrow> bool" where
  "count_inv ex s \<longleftrightarrow> (\<forall>b. b \<notin> visited (task s) \<longrightarrow>
     remaining (task s) b = unsat (graph_of ex) (visited (task s)) b + pend ex (procs s) b)"

definition order_inv :: "'v executor \<Rightarrow> 'v run \<Rightarrow> bool" where
  "order_inv ex s \<longleftrightarrow> (\<forall>n \<in> visited (task s). n \<noteq> entryPoint (graph_of ex) \<longrightarrow>
     unsat (graph_of ex) (visited (task s)) n = 0 \<and> pend ex (procs s) n = 0)"

definition ready_inv :: "'v executor \<Rightarrow> 'v run \<Rightarrow> bool" where
  "ready_inv ex s \<longleftrightarrow> distinct (ready (task s)) \<and>
     set (ready (task s)) \<inter> (visited (task s) \<union> inFlight (task s)) = {} \<and>
     (\<forall>n \<in> set (ready (task s)) \<union> inFlight (task s). n \<notin> visited (task s) \<longrightarrow>
        n \<noteq> entryPoint (graph_of ex) \<longrightarrow> remaining (task s) n = 0) \<and>
     (\<forall>n \<in> reach_set ex. n \<notin> visited (task s) \<longrightarrow> n \<noteq> entryPoint (graph_of ex) \<longrightarrow>
        remaining (task s) n = 0 \<longrightarrow> 0 < received (task s) n)"

definition proc_inv :: "'v run \<Rightarrow> bool" where
  "proc_inv s \<longleftrightarrow> (\<forall>n st. procs s n = Some (Entered st) \<or> procs s n = Some (Handling st) \<longrightarrow>
     n \<notin> visited (task s))"

definition call_inv :: "'v executor \<Rightarrow> 'v run \<Rightarrow> bool" where
  "call_inv ex s \<longleftrightarrow> distinct (calls s) \<and> set (calls s) \<inter> set (ready (task s)) = {} \<and>
     (\<forall>n st. procs s n = Some (Entered st) \<longrightarrow> n \<notin> set (calls s)) \<and>
     (\<forall>n \<in> set (calls s). n \<notin> visited (task s) \<longrightarrow> n \<noteq> entryPoint (graph_of ex) \<longrightarrow>
        remaining (task s) n = 0)"

definition cp_inv :: "'v executor \<Rightarrow> 'v checkpoint \<Rightarrow> bool" where
  "cp_inv ex cp \<longleftrightarrow> (\<exists>r v. cp_received cp = Some r \<and> cp_visited cp = Some v \<and>
     v \<subseteq> reach_set ex \<and> entryPoint (graph_of ex) \<in> v \<and> (\<forall>n. 0 < r n \<longrightarrow> n \<in> reach_set ex) \<and>
     (\<forall>n \<in> v. n \<noteq> entryPoint (graph_of ex) \<longrightarrow> unsat (graph_of ex) v n = 0) \<and>
     (\<forall>n \<in> reach_set ex. n \<notin> v \<longrightarrow> unsat (graph_of ex) v n = 0 \<longrightarrow> 0 < r n))"

definition save_inv :: "'v executor \<Rightarrow> 'v run \<Rightarrow> bool" where
  "save_inv ex s \<longleftrightarrow> (\<forall>cp \<in> set (saved s). cp_inv ex cp) \<and> (\<forall>cp. main s = Saving cp \<longrightarrow> cp_inv ex cp)"

definition sched_inv :: "'v executor \<Rightarrow> 'v run \<Rightarrow> bool" where
  "sched_inv ex s \<longleftrightarrow> frame_inv ex s \<and> work_inv ex s \<and> count_inv ex s \<and> order_inv ex s \<and>
     ready_inv ex s \<and> proc_inv s \<and> call_inv ex s \<and> save_inv ex s"

section \<open>Facts about the reachable part of the graph\<close>

lemma reach_set_edge: "a \<in> reach_set ex \<Longrightarrow> (a, b) \<in> edge_rel (graph_of ex) \<Longrightarrow> b \<in> reach_set ex"
  by (auto simp: reach_set_def intro: rtrancl_into_rtrancl)

lemma entry_reach_set [simp]: "entryPoint (graph_of ex) \<in> reach_set ex"
  by (simp add: reach_set_def)

lemma reach_set_node:
  assumes "compiled ex" and "n \<in> reach_set ex" shows "n \<in> node_set (graph_of ex)"
proof (rule closed_rtrancl [where r = "edge_rel (graph_of ex)"])
  show "(entryPoint (graph_of ex), n) \<in> (edge_rel (graph_of ex))\<^sup>*"
    using assms(2) by (simp add: reach_set_def)
qed (use assms(1) in \<open>auto simp: compiled_def compilable_def\<close>)

lemma no_edge_to_entry:
  assumes "compiled ex" and "a \<in> reach_set ex"
  shows "(a, entryPoint (graph_of ex)) \<notin> edge_rel (graph_of ex)"
proof
  assume "(a, entryPoint (graph_of ex)) \<in> edge_rel (graph_of ex)"
  with assms(2) have "(entryPoint (graph_of ex), entryPoint (graph_of ex)) \<in> (edge_rel (graph_of ex))\<^sup>+"
    by (simp add: reach_set_def rtrancl_into_trancl1)
  with assms(1) show False by (auto simp: compiled_def compilable_def acyclic_def)
qed

lemma edge_nodes:
  "compiled ex \<Longrightarrow> (a, b) \<in> edge_rel (graph_of ex) \<Longrightarrow>
     a \<in> node_set (graph_of ex) \<and> b \<in> node_set (graph_of ex)"
  by (auto simp: compiled_def compilable_def)

lemma no_self_edge: "compiled ex \<Longrightarrow> (a, a) \<notin> edge_rel (graph_of ex)"
  by (auto simp: compiled_def compilable_def acyclic_def)

lemma reach_set_pred:
  assumes "n \<in> reach_set ex" and "n \<noteq> entryPoint (graph_of ex)"
  shows "\<exists>m \<in> reach_set ex. (m, n) \<in> edge_rel (graph_of ex)"
  using assms by (auto simp: reach_set_def elim: rtranclE)

lemma unsat_mono: "vis \<subseteq> vis' \<Longrightarrow> unsat g vis' b \<le> unsat g vis b"
  unfolding unsat_def by (intro sum_mono2) auto

lemma unsat_visit_0: "unsat g vis b = 0 \<Longrightarrow> unsat g (insert n vis) b = 0"
  using unsat_mono [of vis "insert n vis" g b] by auto

lemma visited_preds:
  assumes "compiled ex" and "\<forall>n \<in> v. n \<noteq> entryPoint (graph_of ex) \<longrightarrow> unsat (graph_of ex) v n = 0"
    and "b \<in> v" and "b \<noteq> entryPoint (graph_of ex)" and "(a, b) \<in> edge_rel (graph_of ex)"
  shows "a \<in> v"
  using assms edge_nodes unsat_0_preds by metis

text \<open>A nonempty set of visited nodes contains the entry.\<close>

lemma visited_entry:
  assumes c: "compiled ex" and v: "v \<subseteq> reach_set ex" "v \<noteq> {}"
    and u: "\<forall>n \<in> v. n \<noteq> entryPoint (graph_of ex) \<longrightarrow> unsat (graph_of ex) v n = 0"
  shows "entryPoint (graph_of ex) \<in> v"
proof (rule ccontr)
  assume no: "entryPoint (graph_of ex) \<notin> v"
  obtain n where "n \<in> v" "(entryPoint (graph_of ex), n) \<in> (edge_rel (graph_of ex))\<^sup>*"
    using v by (auto simp: reach_set_def)
  from this(2,1) show False
  proof (induction rule: rtrancl_induct)
    case (step y z)
    with no visited_preds [OF c u] show False by metis
  qed (use no in simp)
qed

section \<open>Pending work\<close>

lemma pend_upd:
  assumes "n \<in> node_set (graph_of ex)"
  shows "pend ex (ps(n := p)) b + pc_count (ps n) b = pend ex ps b + pc_count p b"
proof -
  have "(\<Sum>x \<in> node_set (graph_of ex) - {n}. pc_count ((ps(n := p)) x) b) =
        (\<Sum>x \<in> node_set (graph_of ex) - {n}. pc_count (ps x) b)"
    by (intro sum.cong) auto
  with assms show ?thesis
    by (simp add: pend_def sum.remove [of "node_set (graph_of ex)" n])
qed

lemma pend_upd_same:
  assumes "n \<in> node_set (graph_of ex)" and "\<And>b. pc_count (ps n) b = pc_count p b"
  shows "pend ex (ps(n := p)) = pend ex ps"
  using pend_upd [OF assms(1), of ps p] assms(2) by (intro ext) (metis add_right_cancel)

lemma pend_ge:
  assumes "n \<in> node_set (graph_of ex)" and "ps n = Some (Outgoing ws)"
  shows "wcount ws b \<le> pend ex ps b"
  unfolding pend_def using assms(1) member_le_sum [of n "node_set (graph_of ex)" "\<lambda>n. pc_count (ps n) b"]
  by (simp add: assms(2))

lemma pend_empty [simp]: "pend ex Map.empty b = 0"
  by (simp add: pend_def)

lemma pend_pos:
  assumes "0 < pend ex ps b"
  obtains n ws f a where "ps n = Some (Outgoing ws)" and "Satisfy f b a \<in> set ws"
proof -
  have wc: "\<exists>f a. Satisfy f b a \<in> set ws" if "0 < wcount ws b" for ws
    using that by (induction ws b rule: wcount.induct) (auto split: if_splits)
  from assms obtain n where n: "pc_count (ps n) b \<noteq> 0"
    unfolding pend_def by (metis neq0_conv sum.neutral)
  then obtain ws where ps: "ps n = Some (Outgoing ws)" and "0 < wcount ws b"
    by (cases "ps n"; cases "the (ps n)") auto
  with wc that show thesis by blast
qed

section \<open>Steps that leave the scheduler alone\<close>

text \<open>The bookkeeping of the main loop: only its position, the error, the progress flag and the
  saved checkpoints change.\<close>

lemma sched_inv_main:
  assumes "sched_inv ex s" and "m = main s \<or> (\<forall>cp. m = Saving cp \<longrightarrow> cp_inv ex cp)"
    and "\<forall>cp \<in> set sv. cp_inv ex cp" and "p \<longrightarrow> progress (task s)"
  shows "sched_inv ex (s\<lparr>main := m, saved := sv, task := (task s)\<lparr>task_err := e, progress := p\<rparr>\<rparr>)"
proof -
  let ?s = "s\<lparr>main := m, saved := sv, task := (task s)\<lparr>task_err := e, progress := p\<rparr>\<rparr>"
  have "work_inv ex ?s = work_inv ex s" "count_inv ex ?s = count_inv ex s"
    "order_inv ex ?s = order_inv ex s" "ready_inv ex ?s = ready_inv ex s"
    "proc_inv ?s = proc_inv s" "call_inv ex ?s = call_inv ex s"
    by (simp_all add: work_inv_def count_inv_def order_inv_def ready_inv_def proc_inv_def call_inv_def)
  moreover have "frame_inv ex s \<Longrightarrow> frame_inv ex ?s" using assms(4) by (auto simp: frame_inv_def)
  moreover have "save_inv ex s \<Longrightarrow> save_inv ex ?s" using assms(2,3) by (auto simp: save_inv_def)
  ultimately show ?thesis using assms(1) by (simp add: sched_inv_def)
qed

lemma take_checkpoint_inv:
  assumes c: "compiled ex" and i: "sched_inv ex s" and "shouldCheckpoint ck (task s)"
  shows "cp_inv ex (take_checkpoint (task s))"
proof -
  let ?v = "visited (task s)"
  have p: "procs s = Map.empty" and v: "?v \<noteq> {}" "?v \<subseteq> reach_set ex"
    using i assms(3) by (auto simp: sched_inv_def frame_inv_def shouldCheckpoint_def)
  have u: "\<forall>n \<in> ?v. n \<noteq> entryPoint (graph_of ex) \<longrightarrow> unsat (graph_of ex) ?v n = 0"
    using i by (simp add: sched_inv_def order_inv_def)
  have e: "entryPoint (graph_of ex) \<in> ?v" using visited_entry [OF c v(2,1) u] .
  have "0 < received (task s) n"
    if "n \<in> reach_set ex" "n \<notin> ?v" "unsat (graph_of ex) ?v n = 0" for n
    using i that e p by (auto simp: sched_inv_def ready_inv_def count_inv_def)
  with e u v i show ?thesis
    by (auto simp: cp_inv_def take_checkpoint_def sched_inv_def frame_inv_def)
qed

text \<open>A goroutine moves without touching the scheduler state.\<close>

lemma sched_inv_pc:
  assumes c: "compiled ex" and i: "sched_inv ex s" and n: "procs s n = Some p"
    and cnt: "\<And>b. pc_count (Some p) b = pc_count (Some p') b"
    and work: "\<forall>ws. p' = Outgoing ws \<longrightarrow> ws = []"
    and pre: "(\<exists>st. p' = Entered st \<or> p' = Handling st) \<longrightarrow> (\<exists>st. p = Entered st)"
    and calls: "cs = calls s \<or> (\<exists>st. p = Entered st) \<and> (\<exists>st. p' = Handling st) \<and> cs = calls s @ [n]"
    and ent: "\<forall>st. p' \<noteq> Entered st"
  shows "sched_inv ex (s\<lparr>procs := (procs s)(n \<mapsto> p'), calls := cs, task := (task s)\<lparr>task_err := e\<rparr>\<rparr>)"
proof -
  have nn: "n \<in> inFlight (task s)" "n \<in> node_set (graph_of ex)"
    using i n reach_set_node [OF c] by (auto simp: sched_inv_def frame_inv_def)
  have pend: "pend ex ((procs s)(n \<mapsto> p')) = pend ex (procs s)"
    using pend_upd_same [OF nn(2), of "procs s" "Some p'"] n cnt by simp
  have nr: "n \<notin> set (ready (task s))" using i nn by (auto simp: sched_inv_def ready_inv_def)
  have dom: "insert n (dom (procs s)) = dom (procs s)" using n by auto
  let ?s = "s\<lparr>procs := (procs s)(n \<mapsto> p'), calls := cs, task := (task s)\<lparr>task_err := e\<rparr>\<rparr>"
  have "call_inv ex ?s"
    using i n nn nr calls ent by (auto simp: sched_inv_def call_inv_def ready_inv_def)
  moreover have "proc_inv ?s" using i n pre by (auto simp: sched_inv_def proc_inv_def)
  moreover have "work_inv ex ?s"
    using i work by (auto simp: sched_inv_def work_inv_def)
  moreover have "frame_inv ex ?s = frame_inv ex s" by (simp add: frame_inv_def dom)
  moreover have "count_inv ex ?s = count_inv ex s" "order_inv ex ?s = order_inv ex s"
    "ready_inv ex ?s = ready_inv ex s" "save_inv ex ?s = save_inv ex s"
    by (simp_all add: count_inv_def order_inv_def ready_inv_def save_inv_def pend)
  ultimately show ?thesis using i by (simp add: sched_inv_def)
qed

section \<open>Scheduling and finishing a node\<close>

lemma sched_inv_run:
  assumes c: "compiled ex" and i: "sched_inv ex s" and r: "ready (task s) = n # rest"
    and v: "n \<notin> visited (task s)"
  shows "sched_inv ex (s\<lparr>main := Emit,
       task := (task s)\<lparr>ready := rest, inFlight := insert n (inFlight (task s))\<rparr>,
       procs := (procs s)(n \<mapsto> Entered st)\<rparr>)" (is "sched_inv ex ?s")
proof -
  have n: "n \<notin> inFlight (task s)" "n \<in> reach_set ex" "n \<notin> set rest" "procs s n = None"
    using i r by (auto simp: sched_inv_def ready_inv_def frame_inv_def)
  have pend: "pend ex ((procs s)(n \<mapsto> Entered st)) = pend ex (procs s)"
    using pend_upd_same [of n ex "procs s" "Some (Entered st)"] n reach_set_node [OF c] by simp
  have "frame_inv ex ?s" using i n r by (auto simp: sched_inv_def frame_inv_def)
  moreover have "work_inv ex ?s" using i by (auto simp: sched_inv_def work_inv_def)
  moreover have "count_inv ex ?s = count_inv ex s" "order_inv ex ?s = order_inv ex s"
    by (simp_all add: count_inv_def order_inv_def pend)
  moreover have "ready_inv ex ?s" using i r v n by (auto simp: sched_inv_def ready_inv_def)
  moreover have "proc_inv ?s" using i v by (auto simp: sched_inv_def proc_inv_def)
  moreover have "call_inv ex ?s" using i r by (auto simp: sched_inv_def call_inv_def)
  moreover have "save_inv ex ?s" using i by (auto simp: sched_inv_def save_inv_def)
  ultimately show ?thesis using i by (simp add: sched_inv_def)
qed

lemma sched_inv_done:
  assumes c: "compiled ex" and i: "sched_inv ex s" and n: "procs s n = Some (Outgoing [])"
  shows "sched_inv ex (s\<lparr>procs := (procs s)(n := None), task := nodeDone n (task s)\<rparr>)"
    (is "sched_inv ex ?s")
proof -
  have nn: "n \<in> node_set (graph_of ex)"
    using i n reach_set_node [OF c] by (auto simp: sched_inv_def frame_inv_def)
  have pend: "pend ex ((procs s)(n := None)) = pend ex (procs s)"
    using pend_upd_same [OF nn, of "procs s" None] n by simp
  have "frame_inv ex ?s" using i by (auto simp: sched_inv_def frame_inv_def nodeDone_def)
  moreover have "work_inv ex ?s" using i by (auto simp: sched_inv_def work_inv_def nodeDone_def)
  moreover have "count_inv ex ?s = count_inv ex s" "order_inv ex ?s = order_inv ex s"
    "save_inv ex ?s = save_inv ex s"
    by (simp_all add: count_inv_def order_inv_def save_inv_def pend nodeDone_def)
  moreover have "ready_inv ex ?s" using i by (auto simp: sched_inv_def ready_inv_def nodeDone_def)
  moreover have "proc_inv ?s" using i by (auto simp: sched_inv_def proc_inv_def nodeDone_def)
  moreover have "call_inv ex ?s" using i by (auto simp: sched_inv_def call_inv_def nodeDone_def)
  ultimately show ?thesis using i by (simp add: sched_inv_def)
qed

section \<open>Visiting a node\<close>

text \<open>A node \<open>m\<close> becomes visited and its edges become pending.\<close>

lemma visit_counts:
  assumes c: "compiled ex" and m: "m \<in> node_set (graph_of ex)" "m \<notin> vis"
    and p: "\<And>b. b \<noteq> m \<Longrightarrow> p' b = p b + ecount (graph_of ex) m b"
    and pm: "m \<noteq> entryPoint (graph_of ex) \<Longrightarrow> p' m = 0 \<and> unsat (graph_of ex) vis m = 0"
  shows "\<forall>b. b \<notin> vis \<longrightarrow> rem b = unsat (graph_of ex) vis b + p b \<Longrightarrow>
      \<forall>b. b \<notin> insert m vis \<longrightarrow> rem b = unsat (graph_of ex) (insert m vis) b + p' b"
    and "\<forall>n \<in> vis. n \<noteq> entryPoint (graph_of ex) \<longrightarrow> unsat (graph_of ex) vis n = 0 \<and> p n = 0 \<Longrightarrow>
      \<forall>n \<in> insert m vis. n \<noteq> entryPoint (graph_of ex) \<longrightarrow>
        unsat (graph_of ex) (insert m vis) n = 0 \<and> p' n = 0"
proof -
  show "\<forall>b. b \<notin> insert m vis \<longrightarrow> rem b = unsat (graph_of ex) (insert m vis) b + p' b"
    if "\<forall>b. b \<notin> vis \<longrightarrow> rem b = unsat (graph_of ex) vis b + p b"
    using that unsat_insert [OF m] p by auto
  assume o: "\<forall>n \<in> vis. n \<noteq> entryPoint (graph_of ex) \<longrightarrow> unsat (graph_of ex) vis n = 0 \<and> p n = 0"
  show "\<forall>n \<in> insert m vis. n \<noteq> entryPoint (graph_of ex) \<longrightarrow>
        unsat (graph_of ex) (insert m vis) n = 0 \<and> p' n = 0"
  proof (intro ballI impI)
    fix n assume n: "n \<in> insert m vis" "n \<noteq> entryPoint (graph_of ex)"
    show "unsat (graph_of ex) (insert m vis) n = 0 \<and> p' n = 0"
    proof (cases "n = m")
      case True
      with n pm show ?thesis by (auto intro: unsat_visit_0)
    next
      case False
      with n o have "unsat (graph_of ex) vis n = 0" "p n = 0" by auto
      moreover from this unsat_insert [OF m, of n] have "ecount (graph_of ex) m n = 0" by simp
      ultimately show ?thesis using False p by (auto intro: unsat_visit_0)
    qed
  qed
qed

lemma complete_node_work:
  assumes c: "compiled ex" and n: "n \<in> node_set (graph_of ex)"
    and w: "complete_node ex n st t = (t', ws)"
  shows "wcount ws b = ecount (graph_of ex) n b" and "work_ok ws"
    and "Satisfy f m a \<in> set ws \<Longrightarrow> f = n \<and> (n, m) \<in> edge_rel (graph_of ex)"
    and "t' = t\<lparr>tstate := tstate t ++ st, visited := insert n (visited t), progress := True,
                finished := finished t \<or> n = finishPoint (graph_of ex)\<rparr>"
proof -
  have f: "isFinish (info_of ex n) \<longleftrightarrow> n = finishPoint (graph_of ex)"
    using c n by (simp add: info_of_node node_info_def Let_def)
  have ws: "ws = (if n = finishPoint (graph_of ex) then [] else processOutgoing n (info_of ex n) st)"
    using w f by (auto simp: complete_node_def Let_def)
  have fin: "ecount (graph_of ex) (finishPoint (graph_of ex)) b = 0"
    using c by (simp add: compiled_def compilable_def ecount_def)
  show "wcount ws b = ecount (graph_of ex) n b" using ws fin processOutgoing_count [OF c n] by auto
  show "work_ok ws" using ws processOutgoing_ok [OF c n] by auto
  show "f = n \<and> (n, m) \<in> edge_rel (graph_of ex)" if "Satisfy f m a \<in> set ws"
    using that ws processOutgoing_mem [OF c n] by (auto split: if_splits)
  show "t' = t\<lparr>tstate := tstate t ++ st, visited := insert n (visited t), progress := True,
                finished := finished t \<or> n = finishPoint (graph_of ex)\<rparr>"
    using w f by (auto simp: complete_node_def Let_def)
qed

lemma sched_inv_node_ok:
  assumes c: "compiled ex" and i: "sched_inv ex s" and n: "procs s n = Some (Handling st)"
    and w: "complete_node ex n st' (task s) = (t', ws)"
  shows "sched_inv ex (s\<lparr>procs := (procs s)(n \<mapsto> Outgoing ws), task := t'\<rparr>)" (is "sched_inv ex ?s")
proof -
  have nr: "n \<in> reach_set ex" "n \<in> inFlight (task s)"
    using i n by (auto simp: sched_inv_def frame_inv_def)
  then have nn: "n \<in> node_set (graph_of ex)" using reach_set_node [OF c] by blast
  have nv: "n \<notin> visited (task s)" using i n by (auto simp: sched_inv_def proc_inv_def)
  note work = complete_node_work [OF c nn w]
  note t' = work(4)
  have pend: "pend ex ((procs s)(n \<mapsto> Outgoing ws)) b = pend ex (procs s) b + ecount (graph_of ex) n b" for b
    using pend_upd [OF nn, of "procs s" "Some (Outgoing ws)" b] n work(1) by simp
  have count: "count_inv ex s" and order: "order_inv ex s" using i by (auto simp: sched_inv_def)
  have pm: "pend ex ((procs s)(n \<mapsto> Outgoing ws)) n = 0 \<and> unsat (graph_of ex) (visited (task s)) n = 0"
    if "n \<noteq> entryPoint (graph_of ex)"
    using i nr nv that count pend [of n] no_self_edge [OF c, of n]
    by (auto simp: sched_inv_def ready_inv_def count_inv_def ecount_0_iff)
  note vc = visit_counts [OF c nn nv, of "pend ex ((procs s)(n \<mapsto> Outgoing ws))" "pend ex (procs s)",
      OF pend pm]
  have "frame_inv ex ?s" using i n nr by (auto simp: sched_inv_def frame_inv_def t')
  moreover have "work_inv ex ?s" using i work(2,3) by (fastforce simp: sched_inv_def work_inv_def t')
  moreover have "count_inv ex ?s" "order_inv ex ?s"
    using vc count order by (simp_all add: count_inv_def order_inv_def t')
  moreover have "ready_inv ex ?s" using i nr by (auto simp: sched_inv_def ready_inv_def t')
  moreover have "proc_inv ?s" using i by (auto simp: sched_inv_def proc_inv_def t')
  moreover have "call_inv ex ?s" using i by (auto simp: sched_inv_def call_inv_def t')
  moreover have "save_inv ex ?s" using i by (auto simp: sched_inv_def save_inv_def t')
  ultimately show ?thesis by (simp add: sched_inv_def)
qed

section \<open>Satisfying an edge\<close>

lemma work_invD:
  assumes "work_inv ex s" and "procs s n = Some (Outgoing ws)"
  shows "work_ok ws" and "Satisfy f m a \<in> set ws \<Longrightarrow> f \<in> visited (task s)"
    and "Satisfy f m a \<in> set ws \<Longrightarrow> (f, m) \<in> edge_rel (graph_of ex)"
  using assms unfolding work_inv_def by blast+

lemma work_inv_upd:
  assumes "work_inv ex s" and "procs s' = (procs s)(n \<mapsto> Outgoing ws)"
    and "visited (task s) \<subseteq> visited (task s')" and "work_ok ws"
    and "\<And>f m a. Satisfy f m a \<in> set ws \<Longrightarrow> f \<in> visited (task s') \<and> (f, m) \<in> edge_rel (graph_of ex)"
  shows "work_inv ex s'"
  unfolding work_inv_def
proof (intro allI impI)
  fix k vs assume k: "procs s' k = Some (Outgoing vs)"
  show "work_ok vs \<and> (\<forall>f m a. Satisfy f m a \<in> set vs \<longrightarrow>
      f \<in> visited (task s') \<and> (f, m) \<in> edge_rel (graph_of ex))"
  proof (cases "k = n")
    case True
    with k assms show ?thesis by auto
  next
    case False
    with k assms(2) have "procs s k = Some (Outgoing vs)" by simp
    from work_invD [OF assms(1) this] assms(3) show ?thesis by blast
  qed
qed


abbreviation count_activation :: "bool \<Rightarrow> string \<Rightarrow> (string \<Rightarrow> nat) \<Rightarrow> string \<Rightarrow> nat" where
  "count_activation a to r \<equiv> (if a then r(to := Suc (r to)) else r)"

lemma satisfy_target:
  assumes c: "compiled ex" and i: "sched_inv ex s"
    and n: "procs s n = Some (Outgoing (Satisfy from to a # ws))"
  shows "from \<in> visited (task s)" and "to \<in> reach_set ex" and "to \<noteq> entryPoint (graph_of ex)"
    and "(from, to) \<in> edge_rel (graph_of ex)" and "n \<in> node_set (graph_of ex)"
    and "0 < pend ex (procs s) to"
    and "to \<notin> visited (task s) \<Longrightarrow> 0 < remaining (task s) to"
    and "to \<notin> visited (task s) \<Longrightarrow> to \<notin> inFlight (task s)"
    and "to \<notin> visited (task s) \<Longrightarrow> to \<notin> set (ready (task s))"
    and "to \<notin> visited (task s) \<Longrightarrow> to \<notin> set (calls s)"
proof -
  show f: "from \<in> visited (task s)" and e: "(from, to) \<in> edge_rel (graph_of ex)"
    using i work_invD(2,3) [OF _ n, of ex "from" to a] by (simp_all add: sched_inv_def)
  have fr: "from \<in> reach_set ex" using i f by (auto simp: sched_inv_def frame_inv_def)
  show "to \<in> reach_set ex" using reach_set_edge [OF fr e] .
  show ne: "to \<noteq> entryPoint (graph_of ex)" using no_edge_to_entry [OF c fr] e by metis
  show nn: "n \<in> node_set (graph_of ex)"
    using i n reach_set_node [OF c] by (auto simp: sched_inv_def frame_inv_def)
  show p: "0 < pend ex (procs s) to" using pend_ge [of n ex "procs s", OF nn n, of to] by simp
  assume v: "to \<notin> visited (task s)"
  with i p show r: "0 < remaining (task s) to" by (auto simp: sched_inv_def count_inv_def)
  with i v ne show "to \<notin> inFlight (task s)" "to \<notin> set (ready (task s))" "to \<notin> set (calls s)"
    by (auto simp: sched_inv_def ready_inv_def call_inv_def)
qed

lemma satisfy_cases:
  assumes c: "compiled ex" and i: "sched_inv ex s"
    and n: "procs s n = Some (Outgoing (Satisfy from to a # ws))"
    and w: "satisfy ex to a (task s) = (t', ws')"
  obtains (seen) "to \<in> visited (task s)" "t' = task s" "ws' = []"
  | (more) "to \<notin> visited (task s)" "1 < remaining (task s) to" "ws' = []"
      "t' = (task s)\<lparr>received := count_activation a to (received (task s)),
         remaining := (remaining (task s))(to := remaining (task s) to - 1)\<rparr>"
  | (queue) "to \<notin> visited (task s)" "remaining (task s) to = 1" "ws' = []"
      "0 < count_activation a to (received (task s)) to"
      "t' = (task s)\<lparr>received := count_activation a to (received (task s)),
         remaining := (remaining (task s))(to := 0), ready := ready (task s) @ [to]\<rparr>"
  | (skip) "to \<notin> visited (task s)" "remaining (task s) to = 1" "\<not> a" "received (task s) to = 0"
      "ws' = map (\<lambda>e. Satisfy to (edge_to e) False) (edges_of (graph_of ex) to)"
      "t' = (task s)\<lparr>remaining := (remaining (task s))(to := 0),
         visited := insert to (visited (task s)), progress := True\<rparr>"
proof (cases "to \<in> visited (task s)")
  case True
  with w show thesis by (intro seen) (auto simp: satisfy_def)
next
  case False
  note tgt = satisfy_target [OF c i n]
  have tn: "to \<in> node_set (graph_of ex)" using reach_set_node [OF c tgt(2)] .
  have fn: "from \<in> node_set (graph_of ex)" using edge_nodes [OF c tgt(4)] by simp
  have d: "dependencies (info_of ex to) \<noteq> 0"
    using unsat_pos [OF tgt(4) fn, of "{}"] compiled_dependencies [OF c tn] by simp
  note facts = w False d tgt(7,8) compiled_outEdges [OF c tn]
  consider "1 < remaining (task s) to" | "remaining (task s) to = 1" using tgt(7) False by linarith
  then show thesis
  proof cases
    case 1
    with facts show thesis by (intro more) (auto simp: satisfy_def Let_def)
  next
    case 2
    show thesis
    proof (cases "count_activation a to (received (task s)) to = 0")
      case True
      then have a: "\<not> a" "received (task s) to = 0" by (auto split: if_splits)
      then have "(received (task s))(to := 0) = received (task s)" by (simp add: fun_upd_idem)
      with facts a 2 show thesis by (intro skip) (auto simp: satisfy_def Let_def)
    next
      case False
      with facts 2 show thesis by (intro queue) (auto simp: satisfy_def Let_def split: if_splits)
    qed
  qed
qed

lemma pend_pop:
  assumes "n \<in> node_set (graph_of ex)" and "procs s n = Some (Outgoing (Satisfy from to a # ws))"
  shows "pend ex ((procs s)(n \<mapsto> Outgoing (ws' @ ws))) b + (if b = to then 1 else 0) =
    pend ex (procs s) b + wcount ws' b"
  using pend_upd [OF assms(1), of "procs s" "Some (Outgoing (ws' @ ws))" b] assms(2) by (auto split: if_splits)

lemma sched_inv_satisfy_step:
  assumes c: "compiled ex" and i: "sched_inv ex s"
    and n: "procs s n = Some (Outgoing (Satisfy from to a # ws))"
    and v: "to \<notin> visited (task s)" and q: "q \<longleftrightarrow> remaining (task s) to = 1"
    and r: "q \<longrightarrow> 0 < count_activation a to (received (task s)) to"
  shows "sched_inv ex (s\<lparr>procs := (procs s)(n \<mapsto> Outgoing ws),
      task := (task s)\<lparr>received := count_activation a to (received (task s)),
         remaining := (remaining (task s))(to := remaining (task s) to - 1),
         ready := (if q then ready (task s) @ [to] else ready (task s))\<rparr>\<rparr>)" (is "sched_inv ex ?s")
proof -
  note tgt = satisfy_target [OF c i n]
  have dom: "dom (procs ?s) = dom (procs s)" using n by auto
  have pend: "pend ex ((procs s)(n \<mapsto> Outgoing ws)) b + (if b = to then 1 else 0) = pend ex (procs s) b" for b
    using pend_pop [OF tgt(5) n, of "[]" b] by simp
  have p1: "pend ex ((procs s)(n \<mapsto> Outgoing ws)) b = pend ex (procs s) b" if "b \<noteq> to" for b
    using pend [of b] that by simp
  have p2: "pend ex (procs s) to = Suc (pend ex ((procs s)(n \<mapsto> Outgoing ws)) to)"
    using pend [of to] by simp
  have "frame_inv ex ?s"
    using i tgt(2) dom by (auto simp: sched_inv_def frame_inv_def)
  moreover have "work_inv ex ?s"
  proof (rule work_inv_upd)
    show wi: "work_inv ex s" using i by (simp add: sched_inv_def)
    show "work_ok ws" using work_invD(1) [OF wi n] by simp
    show "f \<in> visited (task ?s) \<and> (f, m) \<in> edge_rel (graph_of ex)" if "Satisfy f m b \<in> set ws" for f m b
      using work_invD(2,3) [OF wi n, of f m b] that by simp
  qed simp_all
  moreover have "count_inv ex ?s"
    using i v p1 p2 by (auto simp: sched_inv_def count_inv_def)
  moreover have "order_inv ex ?s"
    using i v p1 by (auto simp: sched_inv_def order_inv_def) (metis p1)
  moreover have "ready_inv ex ?s"
    using i v r q tgt(7-9) by (auto simp: sched_inv_def ready_inv_def split: if_splits)
  moreover have "proc_inv ?s" using i by (auto simp: sched_inv_def proc_inv_def)
  moreover have "call_inv ex ?s" using i v tgt(10) by (auto simp: sched_inv_def call_inv_def)
  moreover have "save_inv ex ?s" using i by (auto simp: sched_inv_def save_inv_def)
  ultimately show ?thesis by (simp add: sched_inv_def)
qed

lemma sched_inv_skip:
  assumes c: "compiled ex" and i: "sched_inv ex s"
    and n: "procs s n = Some (Outgoing (Satisfy from to a # ws))"
    and v: "to \<notin> visited (task s)" and q: "remaining (task s) to = 1"
    and ws': "ws' = map (\<lambda>e. Satisfy to (edge_to e) False) (edges_of (graph_of ex) to)"
  shows "sched_inv ex (s\<lparr>procs := (procs s)(n \<mapsto> Outgoing (ws' @ ws)),
      task := (task s)\<lparr>remaining := (remaining (task s))(to := 0),
         visited := insert to (visited (task s)), progress := True\<rparr>\<rparr>)" (is "sched_inv ex ?s")
proof -
  note tgt = satisfy_target [OF c i n]
  have tn: "to \<in> node_set (graph_of ex)" using reach_set_node [OF c tgt(2)] .
  have dom: "dom (procs ?s) = dom (procs s)" using n by auto
  have pend: "pend ex ((procs s)(n \<mapsto> Outgoing (ws' @ ws))) b + (if b = to then 1 else 0) =
      pend ex (procs s) b + ecount (graph_of ex) to b" for b
    using pend_pop [OF tgt(5) n, of ws' b] by (simp add: ws' wcount_map_satisfy ecount_def)
  have count: "count_inv ex s" and order: "order_inv ex s" using i by (auto simp: sched_inv_def)
  have pt: "unsat (graph_of ex) (visited (task s)) to = 0" "pend ex (procs s) to = 1"
    using count v q tgt(6) by (auto simp: count_inv_def)
  have "ecount (graph_of ex) to to = 0" using no_self_edge [OF c] by (simp add: ecount_0_iff)
  note vc = visit_counts [OF c tn v, of "pend ex ((procs s)(n \<mapsto> Outgoing (ws' @ ws)))" "pend ex (procs s)"]
  have p1: "pend ex ((procs s)(n \<mapsto> Outgoing (ws' @ ws))) b = pend ex (procs s) b + ecount (graph_of ex) to b"
    if "b \<noteq> to" for b using pend [of b] that by simp
  have p2: "pend ex ((procs s)(n \<mapsto> Outgoing (ws' @ ws))) to = 0 \<and>
      unsat (graph_of ex) (visited (task s)) to = 0"
    using pend [of to] pt \<open>ecount (graph_of ex) to to = 0\<close> by simp
  have "frame_inv ex ?s"
    using i tgt(2) dom by (auto simp: sched_inv_def frame_inv_def)
  moreover have "work_inv ex ?s"
  proof (rule work_inv_upd)
    show wi: "work_inv ex s" using i by (simp add: sched_inv_def)
    show "work_ok (ws' @ ws)" using work_invD(1) [OF wi n] by (simp add: ws')
    show "f \<in> visited (task ?s) \<and> (f, m) \<in> edge_rel (graph_of ex)"
      if "Satisfy f m b \<in> set (ws' @ ws)" for f m b
      using work_invD(2,3) [OF wi n, of f m b] that by (auto simp: ws' intro: edge_relI)
  qed auto
  moreover have "count_inv ex ?s" "order_inv ex ?s"
    using vc(1) [OF p1 p2, of "remaining (task s)"] vc(2) [OF p1 p2] count order
    by (simp_all add: count_inv_def order_inv_def)
  moreover have "ready_inv ex ?s" using i tgt(9) v by (auto simp: sched_inv_def ready_inv_def)
  moreover have "proc_inv ?s" using i tgt(8) v by (auto simp: sched_inv_def proc_inv_def frame_inv_def)
  moreover have "call_inv ex ?s" using i v by (auto simp: sched_inv_def call_inv_def)
  moreover have "save_inv ex ?s" using i by (auto simp: sched_inv_def save_inv_def)
  ultimately show ?thesis by (simp add: sched_inv_def)
qed

section \<open>Every step keeps the invariant\<close>

lemma fail_eq: "fail e t = t\<lparr>task_err := (case task_err t of None \<Rightarrow> Some e | Some x \<Rightarrow> Some x)\<rparr>"
  by (cases t) (auto simp: fail_def)

lemma task_triv [simp]:
  "(t :: 'v task)\<lparr>task_err := task_err t\<rparr> = t" "t\<lparr>progress := progress t\<rparr> = t"
  "t\<lparr>task_err := e, progress := progress t\<rparr> = t\<lparr>task_err := e\<rparr>"
  "t\<lparr>task_err := task_err t, progress := b\<rparr> = t\<lparr>progress := b\<rparr>"
  by (cases t; simp)+

lemma run_triv [simp]:
  "(s :: 'v run)\<lparr>main := m, saved := saved s, task := task s\<rparr> = s\<lparr>main := m\<rparr>"
  "s\<lparr>main := m, saved := saved s, task := t\<rparr> = s\<lparr>main := m, task := t\<rparr>"
  "s\<lparr>main := m, saved := sv, task := task s\<rparr> = s\<lparr>main := m, saved := sv\<rparr>"
  "s\<lparr>procs := ps, calls := calls s, task := t\<rparr> = s\<lparr>procs := ps, task := t\<rparr>"
  "s\<lparr>procs := ps, calls := cs, task := task s\<rparr> = s\<lparr>procs := ps, calls := cs\<rparr>"
  "s\<lparr>procs := ps, task := task s\<rparr> = s\<lparr>procs := ps\<rparr>"
  by (cases s; simp)+

lemma sched_inv_pos:
  assumes "sched_inv ex s" and "\<forall>cp. m \<noteq> Saving cp"
  shows "sched_inv ex (s\<lparr>main := m\<rparr>)"
    and "sched_inv ex (s\<lparr>main := m, task := fail err (task s)\<rparr>)"
    and "(\<forall>cp \<in> set sv. cp_inv ex cp) \<Longrightarrow> sched_inv ex (s\<lparr>main := m, saved := sv\<rparr>)"
proof -
  have sv: "\<forall>cp \<in> set (saved s). cp_inv ex cp" using assms(1) by (simp add: sched_inv_def save_inv_def)
  note main = sched_inv_main [OF assms(1), where m = m and p = "progress (task s)"]
  show "sched_inv ex (s\<lparr>main := m\<rparr>)"
    using main [of "saved s" "task_err (task s)"] assms(2) sv by simp
  show "sched_inv ex (s\<lparr>main := m, task := fail err (task s)\<rparr>)"
    using main [of "saved s"] assms(2) sv by (simp add: fail_eq)
  show "sched_inv ex (s\<lparr>main := m, saved := sv\<rparr>)" if "\<forall>cp \<in> set sv. cp_inv ex cp"
    using main [of sv "task_err (task s)"] assms(2) that by simp
qed

lemma sched_inv_take:
  assumes "compiled ex" and i: "sched_inv ex s" and "shouldCheckpoint ck (task s)"
  shows "sched_inv ex (s\<lparr>main := Saving (take_checkpoint (task s)), task := (task s)\<lparr>progress := False\<rparr>\<rparr>)"
  using sched_inv_main [OF i, where m = "Saving (take_checkpoint (task s))" and sv = "saved s"
      and p = False and e = "task_err (task s)"] take_checkpoint_inv [OF assms] i
  by (simp add: sched_inv_def save_inv_def)

lemma sched_inv_goroutine:
  assumes "compiled ex" and "sched_inv ex s"
  shows "procs s n = Some (Entered st) \<Longrightarrow> sched_inv ex (s\<lparr>procs := (procs s)(n \<mapsto> Outgoing [])\<rparr>)"
    and "procs s n = Some (Entered st) \<Longrightarrow>
      sched_inv ex (s\<lparr>procs := (procs s)(n \<mapsto> Handling st'), calls := calls s @ [n]\<rparr>)"
    and "procs s n = Some (Handling st) \<Longrightarrow>
      sched_inv ex (s\<lparr>procs := (procs s)(n \<mapsto> Outgoing []), task := fail err (task s)\<rparr>)"
    and "procs s n = Some (Outgoing (FailWith x # ws)) \<Longrightarrow> work_ok (FailWith x # ws) \<Longrightarrow>
      sched_inv ex (s\<lparr>procs := (procs s)(n \<mapsto> Outgoing []), task := fail err (task s)\<rparr>)"
  using sched_inv_pc [OF assms, of n _ "Outgoing []" "calls s" "task_err (task s)"]
    sched_inv_pc [OF assms, of n _ "Handling st'" "calls s @ [n]" "task_err (task s)"]
    sched_inv_pc [OF assms, of n _ "Outgoing []" "calls s"]
  by (simp_all add: fail_eq)

theorem sched_inv_step:
  assumes c: "compiled ex" and i: "sched_inv ex s" and "run_step ex ck s s'"
  shows "sched_inv ex s'"
  using assms(3)
proof cases
  case (save_ok cp)
  with i have "\<forall>cp \<in> set (saved s @ [cp]). cp_inv ex cp" by (auto simp: sched_inv_def save_inv_def)
  with save_ok sched_inv_pos(3) [OF i, of Check] show ?thesis by simp
next
  case (sched_visited n rest)
  with i have False by (auto simp: sched_inv_def ready_inv_def)
  then show ?thesis ..
next
  case (sched_run n rest)
  with c i show ?thesis by (auto intro: sched_inv_run)
next
  case (node_ok n st h st' t' ws)
  with c i show ?thesis by (auto intro: sched_inv_node_ok)
next
  case (work_satisfy n f to a ws t' ws')
  note n = work_satisfy(2) and t = work_satisfy(3)
  from c i n t show ?thesis
  proof (cases rule: satisfy_cases)
    case seen
    note tgt = satisfy_target [OF c i n]
    from seen i tgt(3,6) have False by (auto simp: sched_inv_def order_inv_def)
    then show ?thesis ..
  next
    case more
    with sched_inv_satisfy_step [OF c i n more(1), of False] work_satisfy(1) show ?thesis by simp
  next
    case queue
    with sched_inv_satisfy_step [OF c i n queue(1), of True] work_satisfy(1) show ?thesis by simp
  next
    case skip
    with sched_inv_skip [OF c i n skip(1,2,5)] work_satisfy(1) show ?thesis by simp
  qed
next
  case (work_fail n e ws)
  have "work_inv ex s" using i by (simp add: sched_inv_def)
  from work_invD(1) [OF this work_fail(2)] have "work_ok (FailWith e # ws)" .
  with work_fail sched_inv_goroutine(4) [OF c i] show ?thesis by simp
next
  case (node_done n)
  with c i show ?thesis by (auto intro: sched_inv_done)
qed (use c i in \<open>auto intro: sched_inv_pos sched_inv_take sched_inv_goroutine\<close>)

section \<open>Starting and resuming\<close>

lemma fold_upd_if:
  assumes "distinct (map fst xs)"
  shows "fold (\<lambda>(n, i) r. if P n i then r(n := f n i) else r) xs r0 b =
    (case map_of xs b of Some i \<Rightarrow> if P b i then f b i else r0 b | None \<Rightarrow> r0 b)"
  using assms
proof (induction xs arbitrary: r0)
  case (Cons p xs)
  obtain n i where p: "p = (n, i)" by (cases p)
  from Cons.prems p have "map_of xs n = None" by (auto simp: map_of_eq_None_iff)
  with Cons p show ?case by (auto split: option.split)
qed simp

lemma nodeInfos_distinct: "compiled ex \<Longrightarrow> distinct (map fst (nodeInfos ex))"
  by (simp add: compiled_def graph_ok_def gomap_ok_def nodeInfos_NewExecutor o_def case_prod_unfold)

lemma nodeInfos_lookup:
  assumes "compiled ex"
  shows "map_of (nodeInfos ex) n =
    (if n \<in> node_set (graph_of ex) then Some (info_of ex n) else None)"
proof -
  have "nodeInfos ex = map (\<lambda>(n, _). (n, node_info (graph_of ex) n)) (nodes (graph_of ex))"
    using assms by (simp add: compiled_def nodeInfos_NewExecutor)
  then show ?thesis by (simp add: info_of_def map_of_node_infos node_set_def)
qed

lemma unsat_no_node: "compiled ex \<Longrightarrow> n \<notin> node_set (graph_of ex) \<Longrightarrow> unsat (graph_of ex) v n = 0"
  using edge_nodes by (fastforce simp: unsat_def ecount_0_iff)

lemma prepareEntry_remaining:
  assumes "compiled ex"
  shows "remaining (prepareEntry ex (newTask st)) b = unsat (graph_of ex) {} b"
  using compiled_dependencies [OF assms, of b] unsat_no_node [OF assms, of b "{}"]
  by (auto simp: prepareEntry_def newTask_def Let_def nodeInfos_lookup [OF assms]
      fold_upd_if [OF nodeInfos_distinct [OF assms], where f = "\<lambda>n i. dependencies i" and P = "\<lambda>n i. 0 < dependencies i"])

lemma sched_inv_start:
  assumes c: "compiled ex" shows "sched_inv ex (start_run ex st)" (is "sched_inv ex ?s")
proof -
  have t: "visited (task ?s) = {}" "inFlight (task ?s) = {}" "ready (task ?s) = [entryPoint (graph_of ex)]"
    "received (task ?s) = (\<lambda>_. 0)(entryPoint (graph_of ex) := 1)" "procs ?s = Map.empty" "main ?s = Emit"
    "\<not> progress (task ?s)" "\<not> finished (task ?s)" "calls ?s = []" "saved ?s = []"
    by (auto simp: start_run_def prepareEntry_def newTask_def Let_def)
  have r: "remaining (task ?s) b = unsat (graph_of ex) {} b" for b
    using prepareEntry_remaining [OF c] by (simp add: start_run_def)
  have "frame_inv ex ?s" by (auto simp: frame_inv_def t)
  moreover have "0 < unsat (graph_of ex) {} n"
    if "n \<in> reach_set ex" "n \<noteq> entryPoint (graph_of ex)" for n
    using reach_set_pred [OF that] edge_nodes [OF c] by (auto intro: unsat_pos)
  then have "ready_inv ex ?s" by (auto simp: ready_inv_def t r)
  moreover have "work_inv ex ?s" "count_inv ex ?s" "order_inv ex ?s" "proc_inv ?s" "call_inv ex ?s"
      "save_inv ex ?s"
    by (simp_all add: work_inv_def count_inv_def order_inv_def proc_inv_def call_inv_def save_inv_def t r)
  ultimately show ?thesis by (simp add: sched_inv_def)
qed

lemma rebuildRemaining_eq:
  assumes "compiled ex"
  shows "remaining (rebuildRemaining ex t) b = unsat (graph_of ex) (visited t) b"
proof -
  let ?sat = "satisfied_by (graph_of ex) (visited t)"
  have g: "graph_ok (graph_of ex)" "gomap_keys (edges (graph_of ex)) \<subseteq> node_set (graph_of ex)"
    using assms by (simp_all add: compiled_def compilable_def)
  have split: "unsat (graph_of ex) {} b = unsat (graph_of ex) (visited t) b + ?sat b"
    using unsat_plus_satisfied [of "graph_of ex" b "visited t"] satisfied_by_eq [OF g] by simp
  have "remaining (rebuildRemaining ex t) b = fold (\<lambda>(n, i) r.
      if dependencies i \<noteq> 0 \<and> ?sat n < dependencies i then r(n := dependencies i - ?sat n) else r)
      (nodeInfos ex) (\<lambda>_. 0) b"
    unfolding rebuildRemaining_def Let_def
    by (simp, intro arg_cong [where f = "\<lambda>F. fold F (nodeInfos ex) (\<lambda>_. 0) b"] ext) auto
  also have "\<dots> = unsat (graph_of ex) (visited t) b"
    unfolding fold_upd_if [OF nodeInfos_distinct [OF assms],
          where f = "\<lambda>n i. dependencies i - ?sat n" and
            P = "\<lambda>n i. dependencies i \<noteq> 0 \<and> ?sat n < dependencies i"]
    using compiled_dependencies [OF assms, of b] unsat_no_node [OF assms, of b "visited t"] split
    by (auto simp: nodeInfos_lookup [OF assms])
  finally show ?thesis .
qed

lemma rebuild_fields [simp]:
  "visited (rebuildRemaining ex t) = visited t" "received (rebuildRemaining ex t) = received t"
  "inFlight (rebuildRemaining ex t) = inFlight t" "tstate (rebuildRemaining ex t) = tstate t"
  "visited (rebuildReady ex t) = visited t" "received (rebuildReady ex t) = received t"
  "inFlight (rebuildReady ex t) = inFlight t" "tstate (rebuildReady ex t) = tstate t"
  "remaining (rebuildReady ex t) = remaining t"
  by (simp_all add: rebuildRemaining_def rebuildReady_def Let_def)

lemma resume_task_fields:
  assumes c: "compiled ex" and cp: "cp_received cp = Some r" "cp_visited cp = Some v"
  shows "visited (resume_task ex st cp) = v" and "received (resume_task ex st cp) = r"
    and "inFlight (resume_task ex st cp) = {}"
    and "remaining (resume_task ex st cp) b = unsat (graph_of ex) v b"
    and "task_err (resume_task ex st cp) = None" and "\<not> progress (resume_task ex st cp)"
    and "finished (resume_task ex st cp) \<longleftrightarrow> finishPoint (graph_of ex) \<in> v"
    and "distinct (ready (resume_task ex st cp))"
    and "tstate (resume_task ex st cp) = cp_state cp ++ st"
    and "set (ready (resume_task ex st cp)) =
      {n \<in> node_set (graph_of ex). n \<notin> v \<and> unsat (graph_of ex) v n = 0 \<and> 0 < r n}"
proof -
  let ?t = "(newTask (cp_state cp ++ st))\<lparr>received := r, visited := v, inFlight := {},
    tstate := (cp_state cp ++ st) ++ (cp_state cp ++ st)\<rparr>"
  have t: "resume_task ex st cp = (rebuildReady ex (rebuildRemaining ex ?t))
      \<lparr>finished := finishPoint (graph_of ex) \<in> v, task_err := None, progress := False\<rparr>"
    using cp by (simp add: resume_task_def restoreCheckpoint_def Let_def newTask_def)
  show "visited (resume_task ex st cp) = v" "received (resume_task ex st cp) = r"
    "inFlight (resume_task ex st cp) = {}" "task_err (resume_task ex st cp) = None"
    "\<not> progress (resume_task ex st cp)" "tstate (resume_task ex st cp) = cp_state cp ++ st"
    "finished (resume_task ex st cp) \<longleftrightarrow> finishPoint (graph_of ex) \<in> v"
    by (auto simp: t map_add_def split: option.splits)
  show rem: "remaining (resume_task ex st cp) b = unsat (graph_of ex) v b" for b
    using rebuildRemaining_eq [OF c, of ?t b] by (simp add: t)
  show "distinct (ready (resume_task ex st cp))"
    using nodeInfos_distinct [OF c] by (simp add: t rebuildReady_def distinct_map_filter)
  have info: "(n, i) \<in> set (nodeInfos ex) \<longleftrightarrow> n \<in> node_set (graph_of ex) \<and> i = info_of ex n" for n i
    using nodeInfos_lookup [OF c, of n] nodeInfos_distinct [OF c]
    by (metis (no_types, lifting) Some_eq_map_of_iff option.distinct(1) option.inject)
  have dep: "n \<in> node_set (graph_of ex) \<Longrightarrow> dependencies (info_of ex n) = 0 \<Longrightarrow> unsat (graph_of ex) v n = 0" for n
    using compiled_dependencies [OF c, of n] unsat_mono [of "{}" v "graph_of ex" n] by simp
  show "set (ready (resume_task ex st cp)) =
      {n \<in> node_set (graph_of ex). n \<notin> v \<and> unsat (graph_of ex) v n = 0 \<and> 0 < r n}"
    using rebuildRemaining_eq [OF c, of ?t] dep
    by (auto simp: t rebuildReady_def image_iff info split: if_splits)
qed

lemma sched_inv_resume:
  assumes c: "compiled ex" and cp: "cp_inv ex cp" and sv: "\<forall>cp \<in> set sv. cp_inv ex cp"
  shows "sched_inv ex ((resume_run ex st cp)\<lparr>saved := sv\<rparr>)" (is "sched_inv ex ?s")
proof -
  from cp obtain r v where rv: "cp_received cp = Some r" "cp_visited cp = Some v"
    and v: "v \<subseteq> reach_set ex" "entryPoint (graph_of ex) \<in> v" "\<forall>n. 0 < r n \<longrightarrow> n \<in> reach_set ex"
      "\<forall>n \<in> v. n \<noteq> entryPoint (graph_of ex) \<longrightarrow> unsat (graph_of ex) v n = 0"
      "\<forall>n \<in> reach_set ex. n \<notin> v \<longrightarrow> unsat (graph_of ex) v n = 0 \<longrightarrow> 0 < r n"
    by (auto simp: cp_inv_def)
  note t = resume_task_fields [OF c rv]
  have "frame_inv ex ?s" using v by (auto simp: frame_inv_def resume_run_def t)
  moreover have "ready_inv ex ?s" using v by (auto simp: ready_inv_def resume_run_def t)
  moreover have "work_inv ex ?s" "count_inv ex ?s" "order_inv ex ?s" "proc_inv ?s" "call_inv ex ?s"
      "save_inv ex ?s"
    using v(4) sv
    by (simp_all add: work_inv_def count_inv_def order_inv_def proc_inv_def call_inv_def save_inv_def
        resume_run_def t)
  ultimately show ?thesis by (simp add: sched_inv_def)
qed

text \<open>The transition system of the histories of one checkpoint id.\<close>

definition exec_move :: "'v executor \<Rightarrow> bool \<Rightarrow> 'v run \<Rightarrow> 'v run \<Rightarrow> bool" where
  "exec_move ex ck s s' \<longleftrightarrow> run_step ex ck s s' \<or>
     (\<exists>st. \<exists>cp \<in> set (saved s). s' = (resume_run ex st cp)\<lparr>saved := saved s\<rparr>)"

interpretation histories: transition_system "execution ex ck" "\<lambda>s. \<exists>st. s = start_run ex st" "exec_move ex ck"
  for ex ck
proof (unfold_locales, goal_cases)
  case (1 P s)
  from 1(1) show ?case
  proof (induction rule: execution.induct)
    case (exec_step s s')
    show ?case by (rule 1(3) [of s s']) (use exec_step in \<open>simp_all add: exec_move_def\<close>)
  next
    case (exec_resume s cp st)
    show ?case by (rule 1(3) [of s]) (use exec_resume in \<open>auto simp: exec_move_def\<close>)
  qed (auto intro: 1(2))
next
  case (2 s s')
  then show ?case by (auto simp: exec_move_def intro: execution.intros)
qed

lemma sched_inv_execution:
  assumes c: "compiled ex" and e: "execution ex ck s"
  shows "sched_inv ex s"
proof (rule histories.invariant_rule [OF _ _ e])
  fix s s' :: "'a run" assume i: "sched_inv ex s" and "exec_move ex ck s s'"
  moreover from i have "\<forall>cp \<in> set (saved s). cp_inv ex cp" by (simp add: sched_inv_def save_inv_def)
  ultimately show "sched_inv ex s'"
    by (auto simp: exec_move_def intro: sched_inv_step [OF c] sched_inv_resume [OF c])
qed (auto intro: sched_inv_start [OF c])

interpretation runs: transition_system "reachable ex ck s0" "\<lambda>s. s = s0" "run_step ex ck" for ex ck s0
proof (unfold_locales, goal_cases)
  case (1 P s)
  from 1(1) show ?case by (induction rule: reachable.induct) (auto intro: 1(2,3))
next
  case (2 s s')
  then show ?case by (rule reach_step)
qed

lemma reachable_execution:
  assumes "execution ex ck s0" and "reachable ex ck s0 s" shows "execution ex ck s"
  using assms(2) by (induction) (auto intro: assms(1) exec_step)

lemma sched_inv_reachable:
  "compiled ex \<Longrightarrow> reachable ex ck (start_run ex st) s \<Longrightarrow> sched_inv ex s"
  by (rule sched_inv_execution [OF _ reachable_execution [OF exec_start]])

end
