(* ===== verification/Graph_Live.thy ===== *)
theory Graph_Live
  imports Graph_Inv
begin

text \<open>
  Liveness side of the scheduler of package \<open>graph\<close>: no node whose dependencies are met is
  forgotten, a run that has neither failed nor finished still carries an activation, and every
  error a run reports has its cause in a handler, a condition, the checkpointer, or a node that
  cannot be reached from the entry.
\<close>

section \<open>No node is forgotten\<close>

definition queue_inv :: "'v executor \<Rightarrow> 'v run \<Rightarrow> bool" where
  "queue_inv ex s \<longleftrightarrow> (task_err (task s) = None \<and> \<not> finished (task s) \<longrightarrow>
     (\<forall>n \<in> reach_set ex. n \<notin> visited (task s) \<longrightarrow>
        n = entryPoint (graph_of ex) \<or> remaining (task s) n = 0 \<longrightarrow>
        n \<in> set (ready (task s)) \<union> inFlight (task s)) \<and>
     (\<forall>n ws. procs s n = Some (Outgoing ws) \<longrightarrow> n \<in> visited (task s)))"

lemma fail_fields [simp]:
  "task_err (fail e t) \<noteq> None" "visited (fail e t) = visited t" "inFlight (fail e t) = inFlight t"
  "ready (fail e t) = ready t" "remaining (fail e t) = remaining t" "received (fail e t) = received t"
  "finished (fail e t) = finished t" "tstate (fail e t) = tstate t" "progress (fail e t) = progress t"
  by (auto simp: fail_eq split: option.splits)

lemma task_err_fail: "task_err (fail e t) = Some x \<longleftrightarrow> (case task_err t of None \<Rightarrow> x = e | Some y \<Rightarrow> x = y)"
  by (auto simp: fail_eq split: option.splits)

lemma nodeDone_fields [simp]:
  "task_err (nodeDone n t) = task_err t" "visited (nodeDone n t) = visited t"
  "inFlight (nodeDone n t) = inFlight t - {n}" "ready (nodeDone n t) = ready t"
  "remaining (nodeDone n t) = remaining t" "received (nodeDone n t) = received t"
  "finished (nodeDone n t) = finished t" "tstate (nodeDone n t) = tstate t"
  "progress (nodeDone n t) = progress t"
  by (simp_all add: nodeDone_def)

text \<open>What the locked section after a handler does, for a goroutine the invariant describes.\<close>

lemma node_ok_task:
  assumes c: "compiled ex" and i: "sched_inv ex s" and "procs s n = Some (Handling st)"
    and w: "complete_node ex n st' (task s) = (t', ws)"
  shows "t' = (task s)\<lparr>tstate := tstate (task s) ++ st', visited := insert n (visited (task s)),
      progress := True, finished := finished (task s) \<or> n = finishPoint (graph_of ex)\<rparr>"
    and "n \<in> reach_set ex" and "n \<in> node_set (graph_of ex)" and "n \<in> inFlight (task s)"
    and "n \<notin> visited (task s)"
proof -
  show "n \<in> reach_set ex" and "n \<in> inFlight (task s)" and "n \<notin> visited (task s)"
    using i assms(3) by (auto simp: sched_inv_def frame_inv_def proc_inv_def)
  then show n: "n \<in> node_set (graph_of ex)" using reach_set_node [OF c] by blast
  show "t' = (task s)\<lparr>tstate := tstate (task s) ++ st', visited := insert n (visited (task s)),
      progress := True, finished := finished (task s) \<or> n = finishPoint (graph_of ex)\<rparr>"
    by (rule complete_node_work(4) [OF c n w])
qed

lemma queue_inv_step:
  assumes c: "compiled ex" and i: "sched_inv ex s" and q: "queue_inv ex s" and "run_step ex ck s s'"
  shows "queue_inv ex s'"
  using assms(4)
proof cases
  case (sched_visited n rest)
  with i show ?thesis by (auto simp: sched_inv_def ready_inv_def)
next
  case (sched_run n rest)
  with q show ?thesis by (auto simp: queue_inv_def)
next
  case (node_ok n st h st' t' ws)
  note t' = node_ok_task [OF c i node_ok(2,5)]
  show ?thesis using q node_ok(1) t'(4) by (auto simp: queue_inv_def t'(1))
next
  case (work_satisfy n f to a ws t' ws')
  from c i work_satisfy(2,3) show ?thesis
    by (cases rule: satisfy_cases) (use q work_satisfy(1,2) in \<open>auto simp: queue_inv_def\<close>)
next
  case (node_done n)
  with q show ?thesis by (auto simp: queue_inv_def)
qed (use q in \<open>auto simp: queue_inv_def\<close>)

lemma queue_inv_execution:
  assumes c: "compiled ex" and e: "execution ex ck s"
  shows "queue_inv ex s"
proof (rule histories.relative_invariant_rule [OF _ _ _ e, of "sched_inv ex"])
  fix s :: "'a run" assume "\<exists>st. s = start_run ex st"
  then obtain st where s: "s = start_run ex st" by blast
  have pos: "0 < remaining (task s) n" if "n \<in> reach_set ex" "n \<noteq> entryPoint (graph_of ex)" for n
    using reach_set_pred [OF that] edge_nodes [OF c] unsat_pos [of _ n "graph_of ex" "{}"]
    by (fastforce simp: s start_run_def prepareEntry_remaining [OF c])
  have "entryPoint (graph_of ex) \<in> set (ready (task s))" "procs s = Map.empty"
    by (simp_all add: s start_run_def prepareEntry_def newTask_def Let_def)
  then show "queue_inv ex s" unfolding queue_inv_def using pos by (metis Un_iff less_not_refl option.distinct(1))
next
  fix s s' :: "'a run" assume i: "sched_inv ex s" "queue_inv ex s" and m: "exec_move ex ck s s'"
  from m show "queue_inv ex s'"
    unfolding exec_move_def
  proof (elim disjE exE bexE)
    fix st cp assume cp: "cp \<in> set (saved s)" and s': "s' = (resume_run ex st cp)\<lparr>saved := saved s\<rparr>"
    have "cp_inv ex cp" using cp i(1) by (auto simp: sched_inv_def save_inv_def)
    then obtain r v where rv: "cp_received cp = Some r" "cp_visited cp = Some v"
      "entryPoint (graph_of ex) \<in> v"
      "\<forall>n \<in> reach_set ex. n \<notin> v \<longrightarrow> unsat (graph_of ex) v n = 0 \<longrightarrow> 0 < r n"
      by (auto simp: cp_inv_def)
    then show ?thesis
      using reach_set_node [OF c]
      by (auto simp: queue_inv_def s' resume_run_def resume_task_fields [OF c rv(1,2)])
  qed (use queue_inv_step [OF c i] in blast)
qed (auto intro: sched_inv_execution [OF c])

section \<open>An activation is always under way\<close>

text \<open>The calls all goroutines still have to make.\<close>

fun pc_work :: "'v pc option \<Rightarrow> work set" where
  "pc_work (Some (Outgoing ws)) = set ws"
| "pc_work _ = {}"

definition others :: "(string \<rightharpoonup> 'v pc) \<Rightarrow> string \<Rightarrow> work set" where
  "others ps n = (\<Union>k \<in> - {n}. pc_work (ps k))"

definition agenda :: "(string \<rightharpoonup> 'v pc) \<Rightarrow> work set" where
  "agenda ps = (\<Union>k. pc_work (ps k))"

lemma agenda_split: "agenda ps = pc_work (ps n) \<union> others ps n"
  by (auto simp: agenda_def others_def)

lemma agenda_upd: "agenda (ps(n := p)) = pc_work p \<union> others ps n"
  unfolding agenda_split [of "ps(n := p)" n] by (auto simp: others_def)

lemma pc_work_mem: "w \<in> pc_work p \<longleftrightarrow> (\<exists>ws. p = Some (Outgoing ws) \<and> w \<in> set ws)"
  by (cases p rule: pc_work.cases) auto

lemma agenda_mem: "w \<in> agenda ps \<longleftrightarrow> (\<exists>n ws. ps n = Some (Outgoing ws) \<and> w \<in> set ws)"
  by (simp add: agenda_def pc_work_mem)

definition live :: "'v executor \<Rightarrow> 'v run \<Rightarrow> bool" where
  "live ex s \<longleftrightarrow> (\<exists>e. FailWith e \<in> agenda (procs s)) \<or>
     (\<exists>y \<in> reach_set ex. y \<notin> visited (task s) \<and>
       (0 < received (task s) y \<or> (\<exists>f. Satisfy f y True \<in> agenda (procs s))))"

definition alive_inv :: "'v executor \<Rightarrow> 'v run \<Rightarrow> bool" where
  "alive_inv ex s \<longleftrightarrow> (task_err (task s) = None \<and> \<not> finished (task s) \<longrightarrow> live ex s)"

lemma liveI:
  "y \<in> reach_set ex \<Longrightarrow> y \<notin> visited (task s) \<Longrightarrow> 0 < received (task s) y \<Longrightarrow> live ex s"
  "y \<in> reach_set ex \<Longrightarrow> y \<notin> visited (task s) \<Longrightarrow> Satisfy f y True \<in> agenda (procs s) \<Longrightarrow> live ex s"
  unfolding live_def by blast+

lemma live_mono:
  assumes "live ex s" and "agenda (procs s) \<subseteq> agenda (procs s')" and "visited (task s') = visited (task s)"
    and "\<And>y. 0 < received (task s) y \<Longrightarrow> 0 < received (task s') y"
  shows "live ex s'"
  using assms unfolding live_def by (metis subsetD)

text \<open>A completed node hands the activation on, or its goroutine is about to fail.\<close>

lemma live_node_ok:
  assumes c: "compiled ex" and i: "sched_inv ex s" and n: "procs s n = Some (Handling st)"
    and w: "complete_node ex n st' (task s) = (t', ws)" and f: "\<not> finished t'"
  shows "live ex (s\<lparr>procs := (procs s)(n \<mapsto> Outgoing ws), task := t'\<rparr>)"
proof -
  note t' = node_ok_task [OF c i n w]
  have nf: "n \<noteq> finishPoint (graph_of ex)" using f by (simp add: t'(1))
  have ws: "ws = processOutgoing n (info_of ex n) st'"
    using w nf c t'(3) by (auto simp: complete_node_def Let_def info_of_node node_info_def)
  from processOutgoing_activates [OF c t'(3) nf, of st']
  consider t where "Satisfy n t True \<in> set ws" | e where "FailWith e \<in> set ws" unfolding ws by blast
  then show ?thesis
  proof cases
    case 1
    have e: "(n, t) \<in> edge_rel (graph_of ex)" using complete_node_work(3) [OF c t'(3) w 1] by simp
    have "t \<noteq> entryPoint (graph_of ex)" using no_edge_to_entry [OF c t'(2)] e by metis
    then have "t \<notin> visited (task s)"
      using visited_preds [OF c _ _ _ e] i t'(5) by (auto simp: sched_inv_def order_inv_def)
    moreover have "t \<noteq> n" using e no_self_edge [OF c] by metis
    ultimately show ?thesis
      using 1 reach_set_edge [OF t'(2) e] by (auto simp: live_def t'(1) agenda_upd)
  next
    case 2
    then show ?thesis by (auto simp: live_def agenda_upd)
  qed
qed

lemma live_satisfy:
  assumes c: "compiled ex" and i: "sched_inv ex s" and l: "live ex s"
    and n: "procs s n = Some (Outgoing (Satisfy f to a # ws))"
    and w: "satisfy ex to a (task s) = (t', ws')"
  shows "live ex (s\<lparr>procs := (procs s)(n \<mapsto> Outgoing (ws' @ ws)), task := t'\<rparr>)" (is "live ex ?s")
proof -
  note tgt = satisfy_target [OF c i n]
  have old: "agenda (procs s) = insert (Satisfy f to a) (set ws \<union> others (procs s) n)"
    unfolding agenda_split [of "procs s" n] using n by simp
  have new: "agenda (procs ?s) = set ws' \<union> set ws \<union> others (procs s) n" by (simp add: agenda_upd)
  from c i n w show ?thesis
  proof (cases rule: satisfy_cases)
    case seen
    with i tgt(3,6) show ?thesis by (auto simp: sched_inv_def order_inv_def)
  next
    case more
    with l tgt(2) old new show ?thesis unfolding live_def by (cases a) auto
  next
    case queue
    with l tgt(2) old new show ?thesis unfolding live_def by (cases a) auto
  next
    case skip
    have p: "pend ex (procs s) to = 1"
      using i skip(1,2) tgt(6) by (auto simp: sched_inv_def count_inv_def)
    have none: "Satisfy g to True \<notin> set ws \<union> others (procs s) n" for g
    proof
      assume "Satisfy g to True \<in> set ws \<union> others (procs s) n"
      then have "Satisfy g to True \<in> agenda ((procs s)(n \<mapsto> Outgoing ws))" by (simp add: agenda_upd)
      then obtain k vs where k: "((procs s)(n \<mapsto> Outgoing ws)) k = Some (Outgoing vs)"
        "Satisfy g to True \<in> set vs" by (auto simp: agenda_mem simp del: fun_upd_apply)
      then have kn: "k \<in> node_set (graph_of ex)"
        using i tgt(5) reach_set_node [OF c] by (auto simp: sched_inv_def frame_inv_def split: if_splits)
      have "0 < pend ex ((procs s)(n \<mapsto> Outgoing ws)) to"
        using pend_ge [of k ex "(procs s)(n \<mapsto> Outgoing ws)", OF kn k(1), of to] wcount_pos_mem [OF k(2)] by simp
      with pend_pop [OF tgt(5) n, of "[]" to] p show False by simp
    qed
    from l consider e where "FailWith e \<in> agenda (procs ?s)"
      | y where "y \<in> reach_set ex" "y \<notin> visited (task s)" "0 < received (task s) y"
      | y g where "y \<in> reach_set ex" "y \<notin> visited (task s)" "Satisfy g y True \<in> set ws \<union> others (procs s) n"
      unfolding live_def old new using skip(3) by auto
    then show ?thesis
    proof cases
      case 2
      then have "y \<noteq> to" using skip(4) by auto
      with 2 skip(6) show ?thesis by (intro liveI(1) [of y]) auto
    next
      case 3
      then have "y \<noteq> to" using none by blast
      with 3 skip(6) new show ?thesis by (intro liveI(2) [of y ex _ g]) auto
    qed (auto simp: live_def)
  qed
qed

lemma alive_inv_step:
  assumes c: "compiled ex" and i: "sched_inv ex s" and l: "alive_inv ex s" and st: "run_step ex ck s s'"
  shows "alive_inv ex s'"
  using st
proof cases
  case (sched_run n rest)
  have "n \<notin> dom (procs s)" using i sched_run by (auto simp: sched_inv_def ready_inv_def frame_inv_def)
  then have "agenda (procs s') = agenda (procs s)"
    using sched_run by (auto simp: agenda_upd agenda_split [of "procs s" n])
  with l sched_run show ?thesis by (auto simp: alive_inv_def intro: live_mono)
next
  case (node_call n st)
  then have "agenda (procs s') = agenda (procs s)"
    by (simp add: agenda_upd agenda_split [of "procs s" n])
  with l node_call show ?thesis by (auto simp: alive_inv_def intro: live_mono)
next
  case (node_ok n st h st' t' ws)
  with live_node_ok [OF c i node_ok(2,5)] show ?thesis by (auto simp: alive_inv_def)
next
  case (work_satisfy n f to a ws t' ws')
  have "task_err t' = task_err (task s)" "finished t' = finished (task s)"
    using work_satisfy(3) by (auto simp: satisfy_def Let_def split: if_splits)
  with live_satisfy [OF c i _ work_satisfy(2,3)] l work_satisfy(1) show ?thesis by (auto simp: alive_inv_def)
next
  case (node_done n)
  then have "agenda (procs s') = agenda (procs s)"
    by (simp add: agenda_upd agenda_split [of "procs s" n])
  with l node_done show ?thesis by (auto simp: alive_inv_def intro: live_mono)
qed (use l in \<open>auto simp: alive_inv_def intro: live_mono\<close>)

lemma alive_inv_reachable:
  assumes c: "compiled ex" and r: "reachable ex ck (start_run ex st) s"
  shows "alive_inv ex s"
proof (rule runs.relative_invariant_rule [OF _ _ _ r, of "sched_inv ex"])
  show "alive_inv ex s" if "s = start_run ex st" for s
    unfolding that alive_inv_def live_def
    by (auto simp: start_run_def prepareEntry_def newTask_def Let_def intro!: bexI [OF _ entry_reach_set])
qed (auto intro: sched_inv_reachable [OF c] alive_inv_step [OF c])

end
