(* ===== verification/Graph_Term.thy ===== *)
theory Graph_Term
  imports Graph_Live
begin

text \<open>
  Termination and progress of a run of package \<open>graph\<close>: a measure that every step of every
  interleaving decreases, and a step from every state that has not returned.
\<close>

section \<open>The measure\<close>

definition node_weight :: "'v graph \<Rightarrow> string \<Rightarrow> nat" where
  "node_weight g n = 10 + 5 * length (edges_of g n)"

fun pc_weight :: "'v pc option \<Rightarrow> nat" where
  "pc_weight None = 0"
| "pc_weight (Some (Entered _)) = 3"
| "pc_weight (Some (Handling _)) = 2"
| "pc_weight (Some (Outgoing ws)) = 1 + 5 * length ws"

definition open_weight :: "'v executor \<Rightarrow> string set \<Rightarrow> nat" where
  "open_weight ex vis = (\<Sum>n \<in> node_set (graph_of ex) - vis. node_weight (graph_of ex) n)"

definition procs_weight :: "'v executor \<Rightarrow> (string \<rightharpoonup> 'v pc) \<Rightarrow> nat" where
  "procs_weight ex ps = (\<Sum>n \<in> node_set (graph_of ex). pc_weight (ps n))"

definition work_left :: "'v executor \<Rightarrow> 'v run \<Rightarrow> nat" where
  "work_left ex s = open_weight ex (visited (task s)) + 4 * length (ready (task s)) +
     procs_weight ex (procs s) + (if progress (task s) then 1 else 0) +
     (if task_err (task s) = None then 1 else 0)"

text \<open>Where the main loop is within an iteration that does no work.\<close>

definition main_rank :: "bool \<Rightarrow> 'v run \<Rightarrow> nat" where
  "main_rank ck s = (case main s of
       Saving _ \<Rightarrow> 10 | Done _ \<Rightarrow> 0 | Waiting _ \<Rightarrow> 1
     | Emit \<Rightarrow> (if shouldCheckpoint ck (task s) then 2
               else if task_err (task s) \<noteq> None \<or> finished (task s) then 3 else 4)
     | Check \<Rightarrow> (if shouldCheckpoint ck (task s) then 4
               else if task_err (task s) \<noteq> None \<or> finished (task s) then 2 else 3)
     | Sched \<Rightarrow> (if shouldCheckpoint ck (task s) then 3
               else if task_err (task s) \<noteq> None \<or> finished (task s) then 4 else 2))"

definition run_measure :: "'v executor \<Rightarrow> bool \<Rightarrow> 'v run \<Rightarrow> nat \<times> nat" where
  "run_measure ex ck s = (work_left ex s, main_rank ck s)"

lemma open_weight_visit:
  assumes "n \<in> node_set (graph_of ex)" and "n \<notin> vis"
  shows "open_weight ex vis = open_weight ex (insert n vis) + node_weight (graph_of ex) n"
  using assms sum.remove [of "node_set (graph_of ex) - vis" n "node_weight (graph_of ex)"]
  by (simp add: open_weight_def Diff_insert [symmetric])

lemma procs_weight_upd:
  assumes "n \<in> node_set (graph_of ex)"
  shows "procs_weight ex (ps(n := p)) + pc_weight (ps n) = procs_weight ex ps + pc_weight p"
proof -
  have "(\<Sum>x \<in> node_set (graph_of ex) - {n}. pc_weight ((ps(n := p)) x)) =
        (\<Sum>x \<in> node_set (graph_of ex) - {n}. pc_weight (ps x))"
    by (intro sum.cong) auto
  with assms show ?thesis
    by (simp add: procs_weight_def sum.remove [of "node_set (graph_of ex)" n])
qed

lemma conditional_work_length: "length (conditional_work n es st m) \<le> Suc (length es)"
  by (induction es arbitrary: m) (auto split: option.split)

lemma complete_node_length:
  assumes c: "compiled ex" and n: "n \<in> node_set (graph_of ex)"
    and w: "complete_node ex n st t = (t', ws)"
  shows "length ws \<le> Suc (length (edges_of (graph_of ex) n))"
proof -
  from c n have "length (processOutgoing n (info_of ex n) st) \<le> Suc (length (edges_of (graph_of ex) n))"
    by (cases rule: processOutgoing_cases [where st = st]) (simp_all add: conditional_work_length)
  with w show ?thesis by (auto simp: complete_node_def Let_def)
qed

lemma proc_node:
  assumes "compiled ex" and "sched_inv ex s" and "procs s n = Some p"
  shows "n \<in> node_set (graph_of ex)"
proof -
  have "n \<in> reach_set ex" using assms(2,3) by (auto simp: sched_inv_def frame_inv_def)
  then show ?thesis by (rule reach_set_node [OF assms(1)])
qed

lemma err_weight_fail: "(if task_err (fail e t) = None then 1 else 0 :: nat) = 0"
  by simp

lemma run_step_decreases:
  assumes c: "compiled ex" and i: "sched_inv ex s" and "run_step ex ck s s'"
  shows "(run_measure ex ck s', run_measure ex ck s) \<in> less_than <*lex*> less_than"
  using assms(3)
proof cases
  case (emit_take)
  then show ?thesis by (simp add: run_measure_def work_left_def shouldCheckpoint_def)
next
  case (save_fail cp msg)
  then show ?thesis
    by (cases "task_err (task s)")
      (auto simp: run_measure_def work_left_def main_rank_def fail_def)
next
  case (sched_stuck)
  then show ?thesis by (auto simp: run_measure_def work_left_def fail_def)
next
  case (sched_visited n rest)
  then show ?thesis by (auto simp: run_measure_def work_left_def)
next
  case (sched_run n rest)
  have n: "n \<in> reach_set ex" "procs s n = None"
    using i sched_run(5) by (auto simp: sched_inv_def ready_inv_def frame_inv_def)
  show ?thesis
    using sched_run procs_weight_upd [OF reach_set_node [OF c n(1)], of "procs s" "Some (Entered (tstate (task s)))"] n
    by (simp add: run_measure_def work_left_def)
next
  case (node_abort n st)
  with procs_weight_upd [OF proc_node [OF c i node_abort(2)], of "procs s" "Some (Outgoing [])"]
  show ?thesis by (simp add: run_measure_def work_left_def)
next
  case (node_call n st)
  with procs_weight_upd [OF proc_node [OF c i node_call(2)], of "procs s" "Some (Handling st)"]
  show ?thesis by (simp add: run_measure_def work_left_def)
next
  case (node_error n st h msg)
  with procs_weight_upd [OF proc_node [OF c i node_error(2)], of "procs s" "Some (Outgoing [])"]
  show ?thesis by (auto simp: run_measure_def work_left_def fail_def)
next
  case (node_ok n st h st' t' ws)
  note t' = node_ok_task [OF c i node_ok(2,5)]
  show ?thesis
    using node_ok(1,2) procs_weight_upd [OF t'(3), of "procs s" "Some (Outgoing ws)"]
      open_weight_visit [OF t'(3,5)] complete_node_length [OF c t'(3) node_ok(5)]
    by (simp add: run_measure_def work_left_def t'(1) node_weight_def)
next
  case (work_satisfy n f to a ws t' ws')
  note n = work_satisfy(2)
  note up = procs_weight_upd [OF proc_node [OF c i n], of "procs s" "Some (Outgoing (ws' @ ws))"]
  from c i n work_satisfy(3) show ?thesis
  proof (cases rule: satisfy_cases)
    case skip
    note ow = open_weight_visit [OF reach_set_node [OF c satisfy_target(2) [OF c i n]] skip(1)]
    show ?thesis using skip work_satisfy(1) up n ow by (simp add: run_measure_def work_left_def node_weight_def)
  qed (use work_satisfy(1) up n in \<open>simp_all add: run_measure_def work_left_def\<close>)
next
  case (work_fail n e ws)
  with procs_weight_upd [OF proc_node [OF c i work_fail(2)], of "procs s" "Some (Outgoing [])"]
  show ?thesis by (auto simp: run_measure_def work_left_def fail_def)
next
  case (node_done n)
  with procs_weight_upd [OF proc_node [OF c i node_done(2)], of "procs s" None]
  show ?thesis by (simp add: run_measure_def work_left_def)
qed (auto simp: run_measure_def work_left_def main_rank_def shouldCheckpoint_def)

section \<open>Progress\<close>

definition handlers_return :: "'v executor \<Rightarrow> bool" where
  "handlers_return ex \<longleftrightarrow> (\<forall>n h st. node_handler ex n = Some h \<longrightarrow> h n st \<noteq> {})"

lemma goroutine_progress:
  assumes c: "compiled ex" and i: "sched_inv ex s" and h: "handlers_return ex" and n: "procs s n = Some p"
  shows "\<exists>s'. run_step ex ck s s'"
proof (cases p)
  case (Entered st)
  with n show ?thesis by (metis node_abort node_call)
next
  case (Handling st)
  have "map_of (nodes (graph_of ex)) n \<noteq> None"
    using proc_node [OF c i n] by (simp add: node_set_def gomap_keys_lookup)
  then obtain f where f: "node_handler ex n = Some f" by (auto simp: node_handler_def)
  with h obtain r where r: "r \<in> f n st" unfolding handlers_return_def by (meson all_not_in_conv)
  show ?thesis
  proof (cases r)
    case (Inl msg)
    with r n f Handling show ?thesis by (metis node_error)
  next
    case (Inr st')
    obtain t' ws where "complete_node ex n st' (task s) = (t', ws)" by fastforce
    with Inr r n f Handling show ?thesis by (metis node_ok)
  qed
next
  case (Outgoing ws)
  show ?thesis
  proof (cases ws)
    case Nil
    with Outgoing n show ?thesis by (metis node_done)
  next
    case (Cons w ws')
    show ?thesis
    proof (cases w)
      case (Satisfy f to a)
      obtain t' vs where "satisfy ex to a (task s) = (t', vs)" by fastforce
      with Satisfy Cons Outgoing n show ?thesis by (metis work_satisfy)
    next
      case (FailWith e)
      with Cons Outgoing n show ?thesis by (metis work_fail)
    qed
  qed
qed

lemma main_progress:
  assumes i: "sched_inv ex s" and p: "procs s = Map.empty" and m: "\<forall>r. main s \<noteq> Done r"
  shows "\<exists>s'. run_step ex ck s s'"
proof -
  have may: "main_may_step ex s" using p by (simp add: main_may_step_def)
  have fl: "inFlight (task s) = {}" using i p by (auto simp: sched_inv_def frame_inv_def)
  show ?thesis
  proof (cases "main s")
    case Emit
    with may show ?thesis by (metis emit_skip emit_take)
  next
    case (Saving cp)
    with may show ?thesis by (metis save_ok)
  next
    case Check
    with may show ?thesis by (metis check_err check_finished check_go option.exhaust)
  next
    case (Waiting r)
    with p show ?thesis by (metis wait_done)
  next
    case Sched
    show ?thesis
    proof (cases "ready (task s)")
      case Nil
      with Sched may fl show ?thesis by (metis sched_checkpoint sched_stop sched_stuck)
    next
      case (Cons n rest)
      with Sched may show ?thesis by (metis sched_checkpoint sched_visited sched_run)
    qed
  next
    case (Done r)
    with m show ?thesis by blast
  qed
qed

lemma run_progress:
  assumes "compiled ex" and "sched_inv ex s" and "handlers_return ex" and "\<forall>r. main s \<noteq> Done r"
  shows "\<exists>s'. run_step ex ck s s'"
proof (cases "procs s = Map.empty")
  case False
  then obtain n p where "procs s n = Some p" by fastforce
  with assms show ?thesis using goroutine_progress by blast
qed (use main_progress assms in blast)

end
