(* ===== verification/Graph_Outcome.thy ===== *)
theory Graph_Outcome
  imports Graph_Term
begin

text \<open>
  What a run of package \<open>graph\<close> returns: the causes of its errors, and the state its success
  reports.
\<close>

section \<open>When the scheduler runs dry\<close>

text \<open>If the ready queue is empty and nothing is in flight, some node of the graph is not
  reachable from the entry.\<close>

lemma stuck_unreachable_node:
  assumes c: "compiled ex" and i: "sched_inv ex s" and q: "queue_inv ex s" and a: "alive_inv ex s"
    and dry: "ready (task s) = []" "inFlight (task s) = {}"
    and live: "task_err (task s) = None" "\<not> finished (task s)"
  shows "\<not> node_set (graph_of ex) \<subseteq> reach_set ex"
proof
  assume all: "node_set (graph_of ex) \<subseteq> reach_set ex"
  let ?U = "reach_set ex - visited (task s)"
  have "dom (procs s) = {}" using i dry by (simp add: sched_inv_def frame_inv_def)
  then have p: "procs s = Map.empty" by simp
  then have "agenda (procs s) = {}" by (simp add: agenda_def)
  with a live have "?U \<noteq> {}" by (auto simp: alive_inv_def live_def)
  moreover have "acyclic (edge_rel (graph_of ex))" using c by (simp add: compiled_def compilable_def)
  ultimately obtain n where n: "n \<in> ?U" "\<forall>m \<in> ?U. (m, n) \<notin> edge_rel (graph_of ex)"
    using acyclic_no_pred_closed [of "edge_rel (graph_of ex)" ?U] by auto
  have "ecount (graph_of ex) m n = 0" if "m \<in> node_set (graph_of ex) - visited (task s)" for m
    using that n all by (auto simp: ecount_0_iff)
  then have "unsat (graph_of ex) (visited (task s)) n = 0" by (simp add: unsat_def)
  with i n p have "remaining (task s) n = 0" by (auto simp: sched_inv_def count_inv_def)
  with q live n dry show False by (auto simp: queue_inv_def)
qed

section \<open>The causes of errors\<close>

fun justified :: "'v executor \<Rightarrow> gerror \<Rightarrow> bool" where
  "justified ex (NodeFailed n msg) =
     (\<exists>h st. node_handler ex n = Some h \<and> Inl msg \<in> h n st)"
| "justified ex (NoConditionMatched n) =
     (edges_of (graph_of ex) n \<noteq> [] \<and>
      (\<exists>st. \<forall>e \<in> set (edges_of (graph_of ex) n). \<exists>c. condition e = Some c \<and> \<not> c st))"
| "justified ex (CheckpointSaveFailed msg) = True"
| "justified ex (FinishNotReachable n) =
     (n = finishPoint (graph_of ex) \<and> \<not> node_set (graph_of ex) \<subseteq> reach_set ex)"
| "justified ex _ = False"

definition err_inv :: "'v executor \<Rightarrow> 'v run \<Rightarrow> bool" where
  "err_inv ex s \<longleftrightarrow> (\<forall>e. task_err (task s) = Some e \<longrightarrow> justified ex e) \<and>
     (\<forall>e. FailWith e \<in> agenda (procs s) \<longrightarrow> justified ex e) \<and>
     (\<forall>e. main s = Waiting (Some e) \<or> main s = Done (Inl e) \<longrightarrow> justified ex e)"

lemma conditional_work_unmatched:
  "\<forall>e \<in> set es. condition e \<noteq> None \<Longrightarrow> FailWith x \<in> set (conditional_work n es st m) \<Longrightarrow>
     x = NoConditionMatched n \<and> \<not> m \<and> (\<forall>e \<in> set es. \<exists>c. condition e = Some c \<and> \<not> c st)"
proof (induction es arbitrary: m)
  case (Cons e es)
  then obtain c where c: "condition e = Some c" by auto
  with Cons.prems have "FailWith x \<in> set (conditional_work n es st (c st \<or> m))"
    by (cases "c st") auto
  with Cons.IH Cons.prems(1) c show ?case by auto
qed (auto split: if_splits)

lemma complete_node_fail:
  assumes c: "compiled ex" and n: "n \<in> node_set (graph_of ex)"
    and w: "complete_node ex n st t = (t', ws)" and x: "FailWith x \<in> set ws"
  shows "justified ex x"
proof -
  have f: "n \<noteq> finishPoint (graph_of ex)" "FailWith x \<in> set (processOutgoing n (info_of ex n) st)"
    using w x c n by (auto simp: complete_node_def Let_def info_of_node node_info_def split: if_splits)
  then have "edges_of (graph_of ex) n \<noteq> []" using c n by (simp add: compiled_def compilable_def)
  from c n show ?thesis
  proof (cases rule: processOutgoing_cases [where st = st])
    case conditional
    with f \<open>edges_of (graph_of ex) n \<noteq> []\<close> conditional_work_unmatched [OF conditional(1), of x n st False]
    show ?thesis by auto
  next
    case unconditional
    with f show ?thesis by auto
  qed
qed

lemma err_inv_step:
  assumes c: "compiled ex" and i: "sched_inv ex s" and q: "queue_inv ex s" and a: "alive_inv ex s"
    and e: "err_inv ex s" and "run_step ex ck s s'"
  shows "err_inv ex s'"
  using assms(6)
proof cases
  case (save_fail cp msg)
  with e show ?thesis by (auto simp: err_inv_def task_err_fail split: option.splits)
next
  case sched_stuck
  with e stuck_unreachable_node [OF c i q a] show ?thesis by (auto simp: err_inv_def task_err_fail)
next
  case (sched_run n rest)
  with e show ?thesis by (auto simp: err_inv_def agenda_upd agenda_split [of "procs s" n])
next
  case (node_abort n st)
  with e show ?thesis by (auto simp: err_inv_def agenda_upd agenda_split [of "procs s" n])
next
  case (node_call n st)
  with e show ?thesis by (auto simp: err_inv_def agenda_upd agenda_split [of "procs s" n])
next
  case (node_error n st h msg)
  with e show ?thesis
    by (auto simp: err_inv_def agenda_upd agenda_split [of "procs s" n] task_err_fail split: option.splits)
next
  case (node_ok n st h st' t' ws)
  note t' = node_ok_task [OF c i node_ok(2,5)]
  with e node_ok complete_node_fail [OF c t'(3) node_ok(5)] show ?thesis
    by (auto simp: err_inv_def agenda_upd agenda_split [of "procs s" n])
next
  case (work_satisfy n f to a ws t' ws')
  have "task_err t' = task_err (task s)" "\<forall>e. FailWith e \<notin> set ws'"
    using work_satisfy(3) by (auto simp: satisfy_def Let_def split: if_splits)
  with e work_satisfy show ?thesis by (auto simp: err_inv_def agenda_upd agenda_split [of "procs s" n])
next
  case (work_fail n x ws)
  with e show ?thesis
    by (auto simp: err_inv_def agenda_upd agenda_split [of "procs s" n] task_err_fail split: option.splits)
next
  case (node_done n)
  with e show ?thesis by (auto simp: err_inv_def agenda_upd agenda_split [of "procs s" n])
qed (use e in \<open>auto simp: err_inv_def split: option.splits\<close>)

lemma err_inv_reachable:
  assumes c: "compiled ex" and r: "reachable ex ck (start_run ex st) s"
  shows "err_inv ex s"
proof (rule runs.relative_invariant_rule [OF _ _ _ r,
      of "\<lambda>s. sched_inv ex s \<and> queue_inv ex s \<and> alive_inv ex s"])
  show "err_inv ex s" if "s = start_run ex st" for s
    by (simp add: that err_inv_def start_run_def prepareEntry_def newTask_def Let_def agenda_def)
qed (auto intro: sched_inv_reachable [OF c] alive_inv_reachable [OF c] err_inv_step [OF c]
    queue_inv_execution [OF c reachable_execution [OF exec_start]])

section \<open>Success\<close>

text \<open>For a run from the entry: a running handler has been recorded, a finished run has called
  the handler of the finish node, and what is returned is the shared state.\<close>

definition finish_inv :: "'v executor \<Rightarrow> 'v run \<Rightarrow> bool" where
  "finish_inv ex s \<longleftrightarrow> (\<forall>n st. procs s n = Some (Handling st) \<longrightarrow> n \<in> set (calls s)) \<and>
     (finished (task s) \<longrightarrow> finishPoint (graph_of ex) \<in> set (calls s)) \<and>
     (main s = Waiting None \<longrightarrow> finished (task s)) \<and>
     (\<forall>r. main s = Done r \<longrightarrow> procs s = Map.empty) \<and>
     (\<forall>st. main s = Done (Inr st) \<longrightarrow> finished (task s) \<and> st = tstate (task s))"

lemma finish_inv_step:
  assumes c: "compiled ex" and i: "sched_inv ex s" and f: "finish_inv ex s" and "run_step ex ck s s'"
  shows "finish_inv ex s'"
  using assms(4)
proof cases
  case (node_ok n st h st' t' ws)
  note t' = node_ok_task [OF c i node_ok(2,5)]
  with f node_ok show ?thesis by (auto simp: finish_inv_def)
next
  case (work_satisfy n g to a ws t' ws')
  have "finished t' = finished (task s)" "tstate t' = tstate (task s)"
    using work_satisfy(3) by (auto simp: satisfy_def Let_def split: if_splits)
  with f work_satisfy show ?thesis by (auto simp: finish_inv_def)
qed (use f in \<open>auto simp: finish_inv_def split: option.splits\<close>)

lemma finish_inv_reachable:
  assumes c: "compiled ex" and r: "reachable ex ck (start_run ex st) s"
  shows "finish_inv ex s"
proof (rule runs.relative_invariant_rule [OF _ _ _ r, of "sched_inv ex"])
  show "finish_inv ex s" if "s = start_run ex st" for s
    by (simp add: that finish_inv_def start_run_def prepareEntry_def newTask_def Let_def)
qed (auto intro: sched_inv_reachable [OF c] finish_inv_step [OF c])

section \<open>Every node leads to the finish node\<close>

lemma reaches_finish:
  assumes c: "compiled ex" and n: "n \<in> node_set (graph_of ex)"
  shows "(n, finishPoint (graph_of ex)) \<in> (edge_rel (graph_of ex))\<^sup>*"
proof -
  have "wf ((edge_rel (graph_of ex))\<inverse>)"
    using c by (simp add: compiled_def compilable_def finite_acyclic_wf_converse)
  then show ?thesis using n
  proof (induction n rule: wf_induct_rule)
    case (less n)
    show ?case
    proof (cases "n = finishPoint (graph_of ex)")
      case False
      with c less.prems have "edges_of (graph_of ex) n \<noteq> []" by (simp add: compiled_def compilable_def)
      then obtain e where "e \<in> set (edges_of (graph_of ex) n)" by (meson last_in_set)
      then have e: "(n, edge_to e) \<in> edge_rel (graph_of ex)" by (rule edge_relI)
      with less edge_nodes [OF c e] show ?thesis by (auto intro: converse_rtrancl_into_rtrancl)
    qed simp
  qed
qed

text \<open>A path to a visited node that avoids the entry consists of visited nodes.\<close>

lemma visited_ancestors:
  assumes c: "compiled ex" and i: "sched_inv ex s" and "(m, n) \<in> (edge_rel (graph_of ex))\<^sup>*"
    and "n \<in> visited (task s)"
  shows "m \<in> visited (task s) \<or> (m, entryPoint (graph_of ex)) \<in> (edge_rel (graph_of ex))\<^sup>*"
  using assms(3,4)
proof (induction rule: converse_rtrancl_induct)
  case (step y z)
  show ?case
  proof (cases "z \<in> visited (task s) \<and> z \<noteq> entryPoint (graph_of ex)")
    case True
    then have "y \<in> visited (task s)"
      using visited_preds [OF c _ _ _ step(1)] i by (auto simp: sched_inv_def order_inv_def)
    then show ?thesis ..
  next
    case False
    with step.IH step.prems have "(z, entryPoint (graph_of ex)) \<in> (edge_rel (graph_of ex))\<^sup>*" by auto
    with step(1) show ?thesis by (auto intro: converse_rtrancl_into_rtrancl)
  qed
qed simp

lemma finish_needs_reachable:
  assumes c: "compiled ex" and i: "sched_inv ex s" and f: "finishPoint (graph_of ex) \<in> visited (task s)"
    and m: "m \<in> node_set (graph_of ex)" "m \<notin> reach_set ex"
  shows "(m, entryPoint (graph_of ex)) \<in> (edge_rel (graph_of ex))\<^sup>*"
proof -
  have "m \<notin> visited (task s)" using i m(2) by (auto simp: sched_inv_def frame_inv_def)
  with visited_ancestors [OF c i reaches_finish [OF c m(1)] f] show ?thesis by blast
qed

section \<open>Serial mode\<close>

lemma serial_reachable:
  assumes "\<not> parallel (graph_of ex)" and e: "execution ex ck s"
  shows "\<exists>n. dom (procs s) \<subseteq> {n}"
proof (rule histories.invariant_rule [OF _ _ e])
  fix s s' :: "'a run" assume i: "\<exists>n. dom (procs s) \<subseteq> {n}" and m: "exec_move ex ck s s'"
  from m show "\<exists>n. dom (procs s') \<subseteq> {n}"
    unfolding exec_move_def
  proof (elim disjE exE bexE)
    assume "run_step ex ck s s'"
    then show ?thesis
    proof cases
      case (sched_run n rest)
      with assms(1) have "procs s = Map.empty" by (simp add: main_may_step_def)
      with sched_run show ?thesis by auto
    next
      case (node_done n)
      with i show ?thesis by auto
    qed (use i in \<open>auto simp: insert_absorb domI\<close>)
  qed (auto simp: resume_run_def)
qed (auto simp: start_run_def)

section \<open>Resuming\<close>

lemma resume_ready:
  assumes c: "compiled ex" and i: "sched_inv ex s" and q: "queue_inv ex s"
    and k: "shouldCheckpoint ck (task s)" and ok: "task_err (task s) = None" "\<not> finished (task s)"
  shows "set (ready (task s)) = {n \<in> node_set (graph_of ex). n \<notin> visited (task s) \<and>
     unsat (graph_of ex) (visited (task s)) n = 0 \<and> 0 < received (task s) n}" (is "_ = ?R")
proof -
  let ?v = "visited (task s)" and ?e = "entryPoint (graph_of ex)"
  have fl: "inFlight (task s) = {}" and v: "?v \<noteq> {}" "?v \<subseteq> reach_set ex"
    and rs: "set (ready (task s)) \<subseteq> reach_set ex" "\<And>n. 0 < received (task s) n \<Longrightarrow> n \<in> reach_set ex"
    using i k by (auto simp: sched_inv_def frame_inv_def shouldCheckpoint_def)
  have "dom (procs s) = {}" using i fl by (simp add: sched_inv_def frame_inv_def)
  then have rem: "n \<notin> ?v \<Longrightarrow> remaining (task s) n = unsat (graph_of ex) ?v n" for n
    using i by (simp add: sched_inv_def count_inv_def)
  have "\<forall>n \<in> ?v. n \<noteq> ?e \<longrightarrow> unsat (graph_of ex) ?v n = 0" using i by (simp add: sched_inv_def order_inv_def)
  then have e: "?e \<in> ?v" by (rule visited_entry [OF c v(2,1)])
  have "n \<in> ?R" if n: "n \<in> set (ready (task s))" for n
  proof -
    have r: "n \<in> reach_set ex" "n \<notin> ?v" using n rs i by (auto simp: sched_inv_def ready_inv_def)
    moreover from r e have "n \<noteq> ?e" by blast
    ultimately have "remaining (task s) n = 0" "0 < received (task s) n"
      using n i unfolding sched_inv_def ready_inv_def by blast+
    with r rem reach_set_node [OF c] show ?thesis by simp
  qed
  moreover have "n \<in> set (ready (task s))" if "n \<in> ?R" for n
    using that q ok rem rs(2) fl by (auto simp: queue_inv_def)
  ultimately show ?thesis by blast
qed

text \<open>What was visited before a resume is never called again.\<close>

lemma visited_grows:
  assumes c: "compiled ex" and i: "sched_inv ex s" and "run_step ex ck s s'"
  shows "visited (task s) \<subseteq> visited (task s')"
  using assms(3)
proof cases
  case (node_ok n st h st' t' ws)
  with node_ok_task [OF c i node_ok(2,5)] show ?thesis by auto
next
  case (work_satisfy n f to a ws t' ws')
  then show ?thesis by (auto simp: satisfy_def Let_def split: if_splits)
qed auto

lemma calls_avoid_visited:
  assumes c: "compiled ex" and e: "execution ex ck s0" and n: "calls s0 = []"
    and r: "reachable ex ck s0 s"
  shows "visited (task s0) \<subseteq> visited (task s) \<and> set (calls s) \<inter> visited (task s0) = {}"
proof (rule runs.relative_invariant_rule [OF _ _ _ r, of "sched_inv ex"])
  fix s s' :: "'a run" assume i: "sched_inv ex s"
    and v: "visited (task s0) \<subseteq> visited (task s) \<and> set (calls s) \<inter> visited (task s0) = {}"
    and st: "run_step ex ck s s'"
  have "n \<notin> visited (task s)" if "procs s n = Some (Entered x)" for n x
    using that i by (auto simp: sched_inv_def proc_inv_def)
  with st v have "set (calls s') \<inter> visited (task s0) = {}" by cases auto
  with visited_grows [OF c i st] v
  show "visited (task s0) \<subseteq> visited (task s') \<and> set (calls s') \<inter> visited (task s0) = {}" by blast
qed (use n sched_inv_execution [OF c reachable_execution [OF e]] in auto)

lemma calls_known:
  assumes c: "compiled ex" and e: "execution ex ck s0" and r: "reachable ex ck s0 s"
    and n: "calls s0 = []"
  shows "set (calls s) \<subseteq> node_set (graph_of ex)"
proof (rule runs.relative_invariant_rule [OF _ _ _ r, of "sched_inv ex"])
  fix s s' :: "'a run" assume i: "sched_inv ex s" and v: "set (calls s) \<subseteq> node_set (graph_of ex)"
    and st: "run_step ex ck s s'"
  from st v proc_node [OF c i] show "set (calls s') \<subseteq> node_set (graph_of ex)" by cases auto
qed (use n sched_inv_execution [OF c reachable_execution [OF e]] in auto)

end
