(* ===== verification/Graph_Exec.thy ===== *)
theory Graph_Exec
  imports Graph_Outcome
begin

text \<open>
  An executable schedule of a run of package \<open>graph\<close>: goroutines first, in the order of a list
  of nodes, then the main loop, with a function that picks the outcome of each handler call.
  Each move is a step of the relation; in serial mode this is the schedule of the code.
\<close>

definition main_move :: "'v executor \<Rightarrow> bool \<Rightarrow> 'v run \<Rightarrow> 'v run" where
  "main_move ex ck s = (case main s of
       Emit \<Rightarrow> (if shouldCheckpoint ck (task s)
                then s\<lparr>main := Saving (take_checkpoint (task s)), task := (task s)\<lparr>progress := False\<rparr>\<rparr>
                else s\<lparr>main := Check\<rparr>)
     | Saving cp \<Rightarrow> s\<lparr>main := Check, saved := saved s @ [cp]\<rparr>
     | Check \<Rightarrow> (case task_err (task s) of Some e \<Rightarrow> s\<lparr>main := Waiting (Some e)\<rparr>
                | None \<Rightarrow> if finished (task s) then s\<lparr>main := Waiting None\<rparr> else s\<lparr>main := Sched\<rparr>)
     | Waiting r \<Rightarrow> s\<lparr>main := Done (case r of Some e \<Rightarrow> Inl e | None \<Rightarrow> Inr (tstate (task s)))\<rparr>
     | Sched \<Rightarrow> (if shouldCheckpoint ck (task s) then s\<lparr>main := Emit\<rparr>
                else case ready (task s) of
                  [] \<Rightarrow> (if task_err (task s) \<noteq> None \<or> finished (task s) then s\<lparr>main := Emit\<rparr>
                         else s\<lparr>main := Emit,
                                task := fail (FinishNotReachable (finishPoint (graph_of ex))) (task s)\<rparr>)
                | n # rest \<Rightarrow> (if n \<in> visited (task s) then s\<lparr>main := Emit, task := (task s)\<lparr>ready := rest\<rparr>\<rparr>
                     else s\<lparr>main := Emit,
                            task := (task s)\<lparr>ready := rest, inFlight := insert n (inFlight (task s))\<rparr>,
                            procs := (procs s)(n \<mapsto> Entered (tstate (task s)))\<rparr>))
     | Done r \<Rightarrow> s)"

fun proc_move :: "'v executor \<Rightarrow> (string \<Rightarrow> 'v gstate \<Rightarrow> string + 'v gstate) \<Rightarrow> string \<Rightarrow> 'v pc \<Rightarrow>
    'v run \<Rightarrow> 'v run" where
  "proc_move ex pick n (Entered st) s =
     (if task_err (task s) \<noteq> None \<or> finished (task s) then s\<lparr>procs := (procs s)(n \<mapsto> Outgoing [])\<rparr>
      else s\<lparr>procs := (procs s)(n \<mapsto> Handling st), calls := calls s @ [n]\<rparr>)"
| "proc_move ex pick n (Handling st) s = (case pick n st of
       Inl msg \<Rightarrow> s\<lparr>procs := (procs s)(n \<mapsto> Outgoing []), task := fail (NodeFailed n msg) (task s)\<rparr>
     | Inr st' \<Rightarrow> (let r = complete_node ex n st' (task s)
                  in s\<lparr>procs := (procs s)(n \<mapsto> Outgoing (snd r)), task := fst r\<rparr>))"
| "proc_move ex pick n (Outgoing []) s = s\<lparr>procs := (procs s)(n := None), task := nodeDone n (task s)\<rparr>"
| "proc_move ex pick n (Outgoing (Satisfy f to a # ws)) s =
     (let r = satisfy ex to a (task s)
      in s\<lparr>procs := (procs s)(n \<mapsto> Outgoing (snd r @ ws)), task := fst r\<rparr>)"
| "proc_move ex pick n (Outgoing (FailWith e # ws)) s =
     s\<lparr>procs := (procs s)(n \<mapsto> Outgoing []), task := fail e (task s)\<rparr>"

fun find_proc :: "(string \<rightharpoonup> 'v pc) \<Rightarrow> string list \<Rightarrow> (string \<times> 'v pc) option" where
  "find_proc ps [] = None"
| "find_proc ps (n # ns) = (case ps n of Some p \<Rightarrow> Some (n, p) | None \<Rightarrow> find_proc ps ns)"

definition move :: "'v executor \<Rightarrow> bool \<Rightarrow> (string \<Rightarrow> 'v gstate \<Rightarrow> string + 'v gstate) \<Rightarrow> 'v run \<Rightarrow> 'v run" where
  "move ex ck pick s = (case find_proc (procs s) (map fst (nodes (graph_of ex))) of
       Some (n, p) \<Rightarrow> proc_move ex pick n p s
     | None \<Rightarrow> main_move ex ck s)"

fun drive :: "nat \<Rightarrow> 'v executor \<Rightarrow> bool \<Rightarrow> (string \<Rightarrow> 'v gstate \<Rightarrow> string + 'v gstate) \<Rightarrow> 'v run \<Rightarrow> 'v run" where
  "drive 0 ex ck pick s = s"
| "drive (Suc k) ex ck pick s = (case main s of Done _ \<Rightarrow> s | _ \<Rightarrow> drive k ex ck pick (move ex ck pick s))"

definition picks :: "'v executor \<Rightarrow> (string \<Rightarrow> 'v gstate \<Rightarrow> string + 'v gstate) \<Rightarrow> bool" where
  "picks ex pick \<longleftrightarrow> (\<forall>n h st. node_handler ex n = Some h \<longrightarrow> pick n st \<in> h n st)"

lemma find_proc_Some: "find_proc ps ns = Some (n, p) \<Longrightarrow> ps n = Some p"
  by (induction ns) (auto split: option.splits)

lemma find_proc_None: "find_proc ps ns = None \<Longrightarrow> n \<in> set ns \<Longrightarrow> ps n = None"
  by (induction ns) (auto split: option.splits)

lemma node_has_handler:
  assumes "n \<in> node_set (graph_of ex)" obtains h where "node_handler ex n = Some h"
proof -
  have "map_of (nodes (graph_of ex)) n \<noteq> None" using assms by (simp add: node_set_def gomap_keys_lookup)
  with that show thesis by (auto simp: node_handler_def)
qed

lemma proc_move_step:
  assumes c: "compiled ex" and i: "sched_inv ex s" and k: "picks ex pick" and n: "procs s n = Some p"
  shows "run_step ex ck s (proc_move ex pick n p s)"
proof (cases p)
  case (Entered st)
  with n show ?thesis by (auto intro: run_step.intros)
next
  case (Handling st)
  obtain h where h: "node_handler ex n = Some h" using node_has_handler [OF proc_node [OF c i n]] .
  with k have p: "pick n st \<in> h n st" by (simp add: picks_def)
  show ?thesis
  proof (cases "pick n st")
    case (Inl msg)
    with p n h Handling show ?thesis by (auto intro: node_error)
  next
    case (Inr st')
    with p n h Handling show ?thesis
      by (auto simp: Let_def intro!: node_ok [where t' = "fst (complete_node ex n st' (task s))"])
  qed
next
  case (Outgoing ws)
  with n show ?thesis
    by (cases "(ex, pick, n, p, s)" rule: proc_move.cases)
      (auto simp: Let_def intro: node_done work_fail
        intro!: work_satisfy [where t' = "fst (satisfy _ _ _ _)"])
qed

lemma main_move_step:
  assumes i: "sched_inv ex s" and p: "procs s = Map.empty" and m: "\<forall>r. main s \<noteq> Done r"
  shows "run_step ex ck s (main_move ex ck s)"
proof -
  have may: "main_may_step ex s" using p by (simp add: main_may_step_def)
  have fl: "inFlight (task s) = {}" using i p by (simp add: sched_inv_def frame_inv_def)
  show ?thesis
  proof (cases "main s")
    case Emit
    with may show ?thesis by (auto simp: main_move_def intro: emit_skip emit_take)
  next
    case (Saving cp)
    with may show ?thesis by (auto simp: main_move_def intro: save_ok)
  next
    case Check
    with may show ?thesis
      by (auto simp: main_move_def intro: check_err check_finished check_go split: option.split)
  next
    case (Waiting r)
    with p show ?thesis by (auto simp: main_move_def intro: wait_done)
  next
    case Sched
    show ?thesis
    proof (cases "ready (task s)")
      case Nil
      with Sched may fl show ?thesis
        by (auto simp: main_move_def intro: sched_checkpoint sched_stop sched_stuck)
    next
      case (Cons n rest)
      with Sched may show ?thesis
        by (auto simp: main_move_def intro: sched_checkpoint sched_visited sched_run)
    qed
  next
    case (Done r)
    with m show ?thesis by blast
  qed
qed

lemma move_step:
  assumes c: "compiled ex" and i: "sched_inv ex s" and k: "picks ex pick" and m: "\<forall>r. main s \<noteq> Done r"
  shows "run_step ex ck s (move ex ck pick s)"
proof (cases "find_proc (procs s) (map fst (nodes (graph_of ex)))")
  case None
  have "procs s n = None" for n
  proof (cases "n \<in> node_set (graph_of ex)")
    case True
    then show ?thesis using find_proc_None [OF None] by (simp add: node_set_def)
  next
    case False
    then show ?thesis using proc_node [OF c i] by (cases "procs s n") auto
  qed
  then have "procs s = Map.empty" by auto
  with None main_move_step [OF i _ m] show ?thesis by (simp add: move_def)
next
  case (Some np)
  obtain n p where np: "np = (n, p)" by (cases np)
  with Some find_proc_Some have "procs s n = Some p" by metis
  with Some np proc_move_step [OF c i k] show ?thesis by (simp add: move_def)
qed

lemma drive_reachable:
  assumes c: "compiled ex" and k: "picks ex pick" and e: "execution ex ck s0" and r: "reachable ex ck s0 s"
  shows "reachable ex ck s0 (drive n ex ck pick s)"
  using r
proof (induction n arbitrary: s)
  case (Suc n)
  show ?case
  proof (cases "\<exists>r. main s = Done r")
    case False
    have "run_step ex ck s (move ex ck pick s)"
      using move_step [OF c sched_inv_execution [OF c reachable_execution [OF e Suc.prems]] k] False by blast
    from Suc.IH [OF reach_step [OF Suc.prems this]] False show ?thesis by (auto split: mainpc.split)
  qed (use Suc.prems in auto)
qed simp

text \<open>Enough moves return: the measure bounds their number.\<close>

lemma drive_returns:
  assumes c: "compiled ex" and k: "picks ex pick" and e: "execution ex ck s"
  shows "\<exists>n r. main (drive n ex ck pick s) = Done r"
  using e
proof (induction s rule: wf_induct_rule [OF wf_inv_image [where f = "run_measure ex ck",
        OF wf_lex_prod [OF wf_less_than wf_less_than]]])
  case (1 s)
  show ?case
  proof (cases "\<exists>r. main s = Done r")
    case True
    then have "\<exists>r. main (drive 0 ex ck pick s) = Done r" by simp
    then show ?thesis by blast
  next
    case False
    have i: "sched_inv ex s" by (rule sched_inv_execution [OF c 1(2)])
    have st: "run_step ex ck s (move ex ck pick s)" using move_step [OF c i k] False by blast
    have "(move ex ck pick s, s) \<in> inv_image (less_than <*lex*> less_than) (run_measure ex ck)"
      using run_step_decreases [OF c i st] by (simp add: inv_image_def)
    from 1(1) [OF this exec_step [OF 1(2) st]]
    obtain n r where "main (drive n ex ck pick (move ex ck pick s)) = Done r" by blast
    with False have "main (drive (Suc n) ex ck pick s) = Done r" by (auto split: mainpc.split)
    then show ?thesis by blast
  qed
qed

end
