(* ===== verification/Graph_Props.thy ===== *)
theory Graph_Props
  imports Graph_Exec
begin

text \<open>
  The properties of package \<open>graph\<close>: what \<open>Compile\<close> accepts, and what the scheduler guarantees
  of every interleaving of a compiled graph's run, with a concrete graph for each.
\<close>

section \<open>Example graphs\<close>

definition pass_on :: "nat ghandler" where
  "pass_on n st = {Inr (st(n \<mapsto> 1)), Inl ''boom''}"

text \<open>A diamond: \<open>a\<close> feeds \<open>b\<close> and \<open>c\<close>, which \<open>d\<close> joins.\<close>

definition diamond :: "bool \<Rightarrow> nat graph" where
  "diamond par = SetFinishPoint ''d'' (SetEntryPoint ''a''
     (AddEdge ''c'' ''d'' [] (AddEdge ''b'' ''d'' []
     (AddEdge ''a'' ''c'' [] (AddEdge ''a'' ''b'' []
     (AddNode ''d'' pass_on (AddNode ''c'' pass_on (AddNode ''b'' pass_on
     (AddNode ''a'' pass_on (New [Some (WithParallel par)])))))))))) "

text \<open>Two nodes that feed each other.\<close>

definition looped :: "nat graph" where
  "looped = SetFinishPoint ''b'' (SetEntryPoint ''a''
     (AddEdge ''b'' ''a'' [] (AddEdge ''a'' ''b'' []
     (AddNode ''b'' pass_on (AddNode ''a'' pass_on (New []))))))"

text \<open>The finish node also waits for a node that nothing leads to.\<close>

definition orphaned :: "nat graph" where
  "orphaned = SetFinishPoint ''b'' (SetEntryPoint ''a''
     (AddEdge ''x'' ''b'' [] (AddEdge ''a'' ''b'' []
     (AddNode ''x'' pass_on (AddNode ''b'' pass_on (AddNode ''a'' pass_on (New [])))))))"

lemmas example_defs = New_def AddNode_def AddEdge_def SetEntryPoint_def SetFinishPoint_def Let_def
  edges_of_def gomap_slice_def WithParallel_def

lemmas check_defs = compile_check_def validate_def ensureAcyclic_def ensureReachable_def
  validateStructure_def visit_def cycle_from_def has_node_def bfs.simps

lemma diamond_compiles: "compile_check (diamond par) = None"
  by (simp add: check_defs diamond_def example_defs del: has_node_iff)

lemma looped_cycle: "compile_check looped = Some (CyclesNotSupported [''a'', ''b'', ''a''])"
  by (simp add: check_defs looped_def example_defs del: has_node_iff)

lemma orphaned_compiles: "compile_check orphaned = None"
  by (simp add: check_defs orphaned_def example_defs del: has_node_iff)

lemma examples_ok: "graph_ok (diamond par)" "graph_ok looped" "graph_ok orphaned"
  by (simp_all add: diamond_def looped_def orphaned_def New_def graph_ok_def gomap_ok_def WithParallel_def
      SetEntryPoint_def SetFinishPoint_def AddEdge_def AddNode_def Let_def)

lemma example_compiled: "compile_check g = None \<Longrightarrow> Compile g chk = Inr (NewExecutor g chk)"
  by (simp add: Compile_def)

lemma diamond_returns: "handlers_return (NewExecutor (diamond par) chk)"
proof -
  have "middlewares (diamond par) = []"
    by (simp add: diamond_def example_defs)
  moreover have "\<forall>h \<in> snd ` set (nodes (diamond par)). h = pass_on"
    by (simp add: diamond_def example_defs)
  ultimately show ?thesis
    by (force simp: handlers_return_def node_handler_def NewExecutor_def pass_on_def dest: map_of_SomeD)
qed

text \<open>A run of the diamond with checkpointing, every handler succeeding: the state after \<open>k\<close> moves of
  the executable schedule.\<close>

definition keep :: "string \<Rightarrow> nat gstate \<Rightarrow> string + nat gstate" where
  "keep n st = Inr (st(n \<mapsto> 1))"

abbreviation ex_of :: "nat graph \<Rightarrow> nat executor" where
  "ex_of g \<equiv> NewExecutor g True"

definition demo_run :: "nat graph \<Rightarrow> nat \<Rightarrow> nat run" where
  "demo_run g k = drive k (ex_of g) True keep (start_run (ex_of g) Map.empty)"

abbreviation demo :: "nat \<Rightarrow> nat run" where
  "demo k \<equiv> demo_run (diamond True) k"

lemmas run_defs = demo_run_def diamond_def orphaned_def example_defs NewExecutor_def node_info_def cloneEdges_def
  dependencyCounts_def start_run_def prepareEntry_def newTask_def eval_nat_numeral move_def
  main_move_def shouldCheckpoint_def keep_def complete_node_def info_of_def processOutgoing_def
  satisfy_def nodeDone_def take_checkpoint_def

lemma demo_compiled: "Compile (diamond True) True = Inr (ex_of (diamond True))"
  by (rule example_compiled [OF diamond_compiles])

lemma demo_run_reachable:
  assumes "graph_ok g" and "compile_check g = None" and "middlewares g = []"
    and "\<forall>h \<in> snd ` set (nodes g). h = pass_on"
  shows "reachable (ex_of g) True (start_run (ex_of g) Map.empty) (demo_run g k)"
proof -
  have c: "compiled (ex_of g)" using Compile_compiled [OF assms(1) example_compiled [OF assms(2)]] by simp
  have "picks (ex_of g) keep"
    using assms(3,4)
    by (force simp: picks_def node_handler_def NewExecutor_def pass_on_def keep_def dest: map_of_SomeD)
  from drive_reachable [OF c this exec_start reach_start] show ?thesis by (simp add: demo_run_def)
qed

lemma demo_reachable: "reachable (ex_of (diamond True)) True (start_run (ex_of (diamond True)) Map.empty) (demo k)"
  by (rule demo_run_reachable [OF examples_ok(1) diamond_compiles])
    (simp_all add: diamond_def example_defs)

lemmas demo_execution = reachable_execution [OF exec_start demo_reachable]

lemma demo_done: "main (demo 80) = Done (Inr [''a'' \<mapsto> 1, ''b'' \<mapsto> 1, ''c'' \<mapsto> 1, ''d'' \<mapsto> 1])"
  by (simp add: run_defs)

lemma demo_calls: "calls (demo 80) = [''a'', ''b'', ''c'', ''d'']"
  by (simp add: run_defs)

lemma demo_joined: "procs (demo 29) ''d'' = Some (Handling [''a'' \<mapsto> 1, ''b'' \<mapsto> 1, ''c'' \<mapsto> 1])"
  by (simp add: run_defs)

section \<open>Compilation\<close>

text \<open>C6: \<open>Compile\<close> accepts exactly the graphs that satisfy the structural specification: entry
  and finish set and present, every edge between known nodes, no directed cycle, the finish
  node reachable from the entry and without outgoing edges, every other node with at least
  one, and no node mixing conditional and unconditional edges. The verdict therefore does not
  depend on the order in which Go ranges over its maps.\<close>

theorem compile_check_iff:
  assumes "graph_ok g"
  shows "compile_check g = None \<longleftrightarrow> compilable g"
  by (rule compile_check_None [OF assms])

theorem compile_check_iff_witness:
  "graph_ok (diamond True) \<and> compilable (diamond True) \<and> graph_ok looped \<and> \<not> compilable looped"
  using compile_check_iff [OF examples_ok(1), of True] compile_check_iff [OF examples_ok(2)]
    diamond_compiles looped_cycle examples_ok by simp

text \<open>the cycle named in the error of \<open>Compile\<close> is a real one: a path along edges of the
  graph that returns to its first node.\<close>

theorem compile_cycle_error_real:
  assumes "compile_check g = Some (CyclesNotSupported c)"
  shows "is_cycle g c"
  using assms ensureAcyclic_reports_cycle [of g]
  by (auto simp: compile_check_def other_checks_no_cycle split: option.splits)

theorem compile_cycle_error_real_witness: "is_cycle looped [''a'', ''b'', ''a'']"
  by (rule compile_cycle_error_real [OF looped_cycle])

section \<open>Runs\<close>



text \<open>C2: what a run of \<open>Execute\<close> returns. On success the handler of the finish node has been
  called, no goroutine is left, and the returned state is the shared one. An error is one of
  four: a node's handler failed with that message; a node all of whose conditions are false on
  some state; a checkpoint that could not be saved; or \<open>finish node not reachable\<close>, and then
  the graph has a node that cannot be reached from its entry. In particular the error for a
  conditional edge without condition is never returned.\<close>

theorem run_outcome:
  assumes "graph_ok g" and "Compile g chk = Inr ex"
    and "reachable ex ck (start_run ex st) s" and "main s = Done r"
  shows "procs s = Map.empty \<and>
    (case r of Inr out \<Rightarrow> finishPoint g \<in> set (calls s) \<and> finishPoint g \<in> visited (task s) \<and>
        out = tstate (task s)
     | Inl e \<Rightarrow> justified ex e)"
proof -
  have c: "compiled ex" and g: "graph_of ex = g" using Compile_compiled assms(1,2) by blast+
  have "frame_inv ex s" using sched_inv_reachable [OF c assms(3)] by (simp add: sched_inv_def)
  moreover have "err_inv ex s" "finish_inv ex s"
    using err_inv_reachable [OF c assms(3)] finish_inv_reachable [OF c assms(3)] by auto
  ultimately show ?thesis
    using assms(4) by (cases r) (auto simp: frame_inv_def err_inv_def finish_inv_def g)
qed

theorem run_outcome_witness:
  "procs (demo 80) = Map.empty \<and> ''d'' \<in> set (calls (demo 80))"
proof -
  have "finishPoint (diamond True) = ''d''" by (simp add: diamond_def example_defs)
  with run_outcome [OF examples_ok(1) demo_compiled demo_reachable demo_done] show ?thesis by simp
qed

text \<open>C3: in every history of executions and resumptions of a compiled graph, a run calls the
  handler of a node at most once, and a resumed run calls no handler of a node its checkpoint
  records as visited.\<close>

theorem handler_at_most_once:
  assumes "graph_ok g" and "Compile g chk = Inr ex" and "execution ex ck s0" and "calls s0 = []"
    and "reachable ex ck s0 s"
  shows "distinct (calls s) \<and> set (calls s) \<inter> visited (task s0) = {} \<and> set (calls s) \<subseteq> node_set g"
proof -
  have c: "compiled ex" and g: "graph_of ex = g" using Compile_compiled assms(1,2) by blast+
  have "call_inv ex s" using sched_inv_execution [OF c reachable_execution [OF assms(3,5)]]
    by (simp add: sched_inv_def)
  moreover have "set (calls s) \<subseteq> node_set g"
    using calls_known [OF c assms(3,5,4)] by (simp add: g)
  ultimately show ?thesis
    using calls_avoid_visited [OF c assms(3,4,5)] by (simp add: call_inv_def)
qed

theorem handler_at_most_once_witness:
  "distinct (calls (demo 80)) \<and> calls (demo 80) = [''a'', ''b'', ''c'', ''d'']"
proof -
  have "calls (start_run (ex_of (diamond True)) Map.empty) = []" by (simp add: start_run_def)
  from handler_at_most_once [OF examples_ok(1) demo_compiled exec_start this demo_reachable]
  show ?thesis using demo_calls by simp
qed



text \<open>a graph built with \<open>WithParallel(false)\<close> runs one node at a time.\<close>

theorem serial_one_at_a_time:
  assumes "Compile (WithParallel False g) chk = Inr ex" and "execution ex ck s"
    and "procs s n = Some p" and "procs s m = Some q"
  shows "n = m"
proof -
  have "\<not> parallel (graph_of ex)"
    using assms(1) by (auto simp: Compile_def NewExecutor_def WithParallel_def split: option.splits)
  from serial_reachable [OF this assms(2)] obtain k where "dom (procs s) \<subseteq> {k}" by blast
  with assms(3,4) show ?thesis by blast
qed

theorem serial_one_at_a_time_witness:
  "\<not> (\<exists>m q. procs (demo_run (diamond False) 4) m = Some q \<and> m \<noteq> ''a'')"
proof -
  have d: "WithParallel False (diamond False) = diamond False" by (simp add: diamond_def example_defs)
  have r: "execution (ex_of (diamond False)) True (demo_run (diamond False) 4)"
    by (rule reachable_execution [OF exec_start demo_run_reachable [OF examples_ok(1) diamond_compiles]])
      (simp_all add: diamond_def example_defs)
  have "procs (demo_run (diamond False) 4) ''a'' = Some (Handling Map.empty)" by (simp add: run_defs)
  from serial_one_at_a_time [of "diamond False" True, OF _ r this]
  have "procs (demo_run (diamond False) 4) m = Some q \<Longrightarrow> ''a'' = m" for m q
    by (simp add: d example_compiled [OF diamond_compiles])
  then show ?thesis by blast
qed



text \<open>C7: \<open>Compile\<close> accepts graphs whose run can never succeed. If the graph has a node that
  neither is reachable from the entry nor leads to it, the finish node waits for it forever, so
  no run returns a state.\<close>

theorem unreachable_node_never_succeeds:
  assumes "graph_ok g" and "Compile g chk = Inr ex" and "m \<in> node_set g"
    and "(entryPoint g, m) \<notin> (edge_rel g)\<^sup>*" and "(m, entryPoint g) \<notin> (edge_rel g)\<^sup>*"
    and "reachable ex ck (start_run ex st) s"
  shows "main s \<noteq> Done (Inr out)"
proof
  assume d: "main s = Done (Inr out)"
  have c: "compiled ex" and g: "graph_of ex = g" using Compile_compiled assms(1,2) by blast+
  have i: "sched_inv ex s" by (rule sched_inv_reachable [OF c assms(6)])
  have "finished (task s)"
    using finish_inv_reachable [OF c assms(6)] d by (simp add: finish_inv_def)
  then have "finishPoint g \<in> visited (task s)" using i g by (simp add: sched_inv_def frame_inv_def)
  with finish_needs_reachable [OF c i, of m] assms(3-5) show False by (simp add: g reach_set_def)
qed

theorem unreachable_node_never_succeeds_witness:
  "compile_check orphaned = None \<and> main (demo_run orphaned 40) \<noteq> Done (Inr [''a'' \<mapsto> 1])"
proof -
  have e: "edge_rel orphaned = {(''a'', ''b''), (''x'', ''b'')}"
    unfolding edge_rel_def orphaned_def
    by (auto simp: example_defs split: if_splits option.splits)
  have x: "''x'' \<in> node_set orphaned" by (simp add: node_set_def orphaned_def example_defs)
  have p: "entryPoint orphaned = ''a''" by (simp add: orphaned_def example_defs)
  have "(''a'', ''x'') \<notin> (edge_rel orphaned)\<^sup>*" "(''x'', ''a'') \<notin> (edge_rel orphaned)\<^sup>*"
    by (auto simp: e elim: rtranclE)
  moreover have "reachable (ex_of orphaned) True (start_run (ex_of orphaned) Map.empty) (demo_run orphaned 40)"
    by (rule demo_run_reachable [OF examples_ok(3) orphaned_compiles])
      (simp_all add: orphaned_def example_defs)
  ultimately show ?thesis
    using unreachable_node_never_succeeds [OF examples_ok(3) example_compiled [OF orphaned_compiles] x]
    by (simp add: p orphaned_compiles)
qed

end
