(* ===== verification/Recipe_Laws.thy ===== *)
theory Recipe_Laws
  imports Recipe_Build Agent_Session
begin

text \<open>
  What recipes are to satisfy, and the lemmas that show it: the declarative reading of a valid
  specification, of typed parameters and of a specification that can be built, the agents that a
  build returns, and how often their runs commit the user's message.
\<close>

section \<open>Valid specifications\<close>

definition wf_names :: "string list \<Rightarrow> bool" where
  "wf_names ns \<longleftrightarrow> [] \<notin> set ns \<and> distinct ns"

definition values_of :: "parameterSpec \<Rightarrow> anyval set" where
  "values_of p =
     (if ps_type p = ParameterString then range AnyString
      else if ps_type p = ParameterNumber then range AnyInt \<union> range AnyFloat
      else if ps_type p = ParameterBoolean then range AnyBool
      else if ps_type p = ParameterSelect then AnyString ` set (ps_options p)
      else UNIV)"

definition wf_parameter :: "parameterSpec \<Rightarrow> bool" where
  "wf_parameter p \<longleftrightarrow>
     ps_type p \<in> {ParameterString, ParameterNumber, ParameterBoolean, ParameterSelect} \<and>
     ps_required p \<in> {[], ParameterRequired, ParameterOptional} \<and>
     (ps_type p = ParameterSelect \<longrightarrow> ps_options p \<noteq> []) \<and> set_option (ps_default p) \<subseteq> values_of p"

definition wf_parameters :: "parameterSpec list \<Rightarrow> bool" where
  "wf_parameters ps \<longleftrightarrow> wf_names (map ps_name ps) \<and> (\<forall>p \<in> set ps. wf_parameter p)"

definition wf_context :: "contextSpec option \<Rightarrow> bool" where
  "wf_context c \<longleftrightarrow> (\<forall>s \<in> set_option c.
     cs_strategy s \<in> {ContextStrategySummarize, ContextStrategyWindow} \<and> 0 \<le> cs_maxTokens s)"

definition wf_sub :: "agentSpec \<Rightarrow> subAgentSpec \<Rightarrow> bool" where
  "wf_sub spec sub \<longleftrightarrow> sub_instruction sub \<noteq> [] \<and> wf_parameters (sub_parameters sub) \<and>
     wf_names (sub_tools sub) \<and> wf_context (sub_context sub) \<and> wf_names (map mw_name (sub_middlewares sub)) \<and>
     (sp_execution spec = ExecutionTool \<longrightarrow> sub_name sub \<notin> set (sp_tools spec) \<and> sub_outputKey sub = []) \<and>
     (is_flow spec \<longrightarrow> sp_model spec \<noteq> [] \<or> sub_model sub \<noteq> [])"

definition valid_recipe :: "agentSpec \<Rightarrow> bool" where
  "valid_recipe spec \<longleftrightarrow> sp_version spec \<noteq> [] \<and> sp_name spec \<noteq> [] \<and>
     sp_execution spec \<in> {[], ExecutionSequential, ExecutionParallel, ExecutionLoop, ExecutionTool} \<and>
     (is_flow spec \<or> sp_instruction spec \<noteq> []) \<and>
     (if sp_subAgents spec = [] then sp_model spec \<noteq> [] else sp_execution spec \<noteq> []) \<and>
     (sp_execution spec = ExecutionTool \<longrightarrow> sp_model spec \<noteq> []) \<and>
     (is_flow spec \<longrightarrow> sp_outputKey spec = []) \<and>
     (sp_execution spec \<in> {ExecutionSequential, ExecutionParallel} \<longrightarrow> sp_maxIterations spec \<le> 0) \<and>
     wf_parameters (sp_parameters spec) \<and> wf_context (sp_context spec) \<and>
     wf_names (map mw_name (sp_middlewares spec)) \<and> wf_names (sp_tools spec) \<and>
     wf_names (map sub_name (sp_subAgents spec)) \<and> (\<forall>sub \<in> set (sp_subAgents spec). wf_sub spec sub)"

text \<open>A loop that rejects empty names and names seen before accepts the well-formed lists.\<close>

lemma wf_names_seen:
  "([] \<notin> set ns \<and> set ns \<inter> seen = {} \<and> distinct ns) \<longleftrightarrow>
     (case ns of [] \<Rightarrow> True | n # ns' \<Rightarrow> n \<noteq> [] \<and> n \<notin> seen \<and>
        [] \<notin> set ns' \<and> set ns' \<inter> insert n seen = {} \<and> distinct ns')"
  by (cases ns) auto

lemma validateParamType_None: "validateParamType scope p v = None \<longleftrightarrow> v \<in> values_of p"
  by (cases v) (auto simp: validateParamType_def values_of_def Let_def)

lemma default_check:
  "(case ps_default p of None \<Rightarrow> None | Some d \<Rightarrow> validateParamType scope p d) = None \<longleftrightarrow>
     set_option (ps_default p) \<subseteq> values_of p"
  by (simp add: validateParamType_None split: option.split)

lemma validateParameters_None [simp]: "validateParameters ps = None \<longleftrightarrow> wf_parameters ps"
proof -
  have "validateParameters_from seen ps = None \<longleftrightarrow> [] \<notin> set (map ps_name ps) \<and>
      set (map ps_name ps) \<inter> seen = {} \<and> distinct (map ps_name ps) \<and> (\<forall>p \<in> set ps. wf_parameter p)" for seen
  proof (induction ps arbitrary: seen)
    case (Cons p ps)
    have "validateParameters_from seen (p # ps) = None \<longleftrightarrow> ps_name p \<noteq> [] \<and> ps_name p \<notin> seen \<and>
        wf_parameter p \<and> validateParameters_from (insert (ps_name p) seen) ps = None"
      unfolding validateParameters_from.simps first_err_None wf_parameter_def by (auto simp: default_check)
    then show ?case unfolding Cons.IH by auto
  qed simp
  from this [of "{}"] show ?thesis
    by (simp add: validateParameters_def wf_parameters_def wf_names_def)
qed

lemma validateMiddlewares_None [simp]:
  "validateMiddlewares scope mws = None \<longleftrightarrow> wf_names (map mw_name mws)"
proof -
  have "validateMiddlewares_from scope i seen mws = None \<longleftrightarrow> [] \<notin> set (map mw_name mws) \<and>
      set (map mw_name mws) \<inter> seen = {} \<and> distinct (map mw_name mws)" for i seen
  proof (induction mws arbitrary: i seen)
    case (Cons mw mws)
    then show ?case
      unfolding validateMiddlewares_from.simps first_err_None by (auto simp del: fail_if_True)
  qed simp
  from this [of 0 "{}"] show ?thesis by (simp add: validateMiddlewares_def wf_names_def)
qed

lemma validateToolNames_Inr [simp]:
  "validateToolNames scope ts = Inr names \<longleftrightarrow> wf_names ts \<and> names = set ts"
proof -
  have "validateToolNames_from scope seen ts = Inr names \<longleftrightarrow>
      [] \<notin> set ts \<and> set ts \<inter> seen = {} \<and> distinct ts \<and> names = seen \<union> set ts" for seen
  proof (induction ts arbitrary: seen)
    case (Cons t ts)
    then show ?case unfolding validateToolNames_from.simps echeck_Inr first_err_None by auto
  qed auto
  from this [of "{}"] show ?thesis by (simp add: validateToolNames_def wf_names_def)
qed

lemma validateToolNames_check:
  "(case validateToolNames scope ts of Inl e \<Rightarrow> Some e | Inr names \<Rightarrow> f names) = None \<longleftrightarrow>
     wf_names ts \<and> f (set ts) = None"
proof (cases "validateToolNames scope ts")
  case (Inl e)
  then show ?thesis using validateToolNames_Inr [of scope ts "set ts"] by auto
next
  case (Inr names)
  with validateToolNames_Inr [of scope ts names] have "wf_names ts" "names = set ts" by blast+
  then show ?thesis by (simp only: Inr sum.case) simp
qed

lemma validateContextSpec_None [simp]: "validateContextSpec c = None \<longleftrightarrow> wf_context c"
  by (auto simp: validateContextSpec_def wf_context_def split: option.split if_splits)

lemma validateSubAgents_None:
  "validateSubAgents spec (set (sp_tools spec)) i {} subs = None \<longleftrightarrow>
     wf_names (map sub_name subs) \<and> (\<forall>sub \<in> set subs. wf_sub spec sub)"
proof -
  have "validateSubAgents spec (set (sp_tools spec)) i seen subs = None \<longleftrightarrow> [] \<notin> set (map sub_name subs) \<and>
      set (map sub_name subs) \<inter> seen = {} \<and> distinct (map sub_name subs) \<and> (\<forall>sub \<in> set subs. wf_sub spec sub)"
    for i seen
  proof (induction subs arbitrary: i seen)
    case (Cons sub subs)
    have "validateSubAgent sub i = None \<longleftrightarrow> sub_name sub \<noteq> [] \<and> sub_instruction sub \<noteq> [] \<and>
        wf_parameters (sub_parameters sub) \<and> wf_names (sub_tools sub) \<and> wf_context (sub_context sub) \<and>
        wf_names (map mw_name (sub_middlewares sub))"
      unfolding validateSubAgent_def first_err_None by (auto simp: validateToolNames_check)
    then have "validateSubAgents spec (set (sp_tools spec)) i seen (sub # subs) = None \<longleftrightarrow>
        sub_name sub \<noteq> [] \<and> sub_name sub \<notin> seen \<and> wf_sub spec sub \<and>
        validateSubAgents spec (set (sp_tools spec)) (Suc i) (insert (sub_name sub) seen) subs = None"
      unfolding validateSubAgents.simps first_err_None wf_sub_def by auto
    then show ?case unfolding Cons.IH by auto
  qed simp
  from this [of i "{}"] show ?thesis by (simp add: wf_names_def)
qed

lemma validate_mode_None:
  "validate_mode spec = None \<longleftrightarrow> sp_version spec \<noteq> [] \<and> sp_name spec \<noteq> [] \<and>
     sp_execution spec \<in> {[], ExecutionSequential, ExecutionParallel, ExecutionLoop, ExecutionTool} \<and>
     (is_flow spec \<or> sp_instruction spec \<noteq> []) \<and>
     (if sp_subAgents spec = [] then sp_model spec \<noteq> [] else sp_execution spec \<noteq> []) \<and>
     (sp_execution spec = ExecutionTool \<longrightarrow> sp_model spec \<noteq> []) \<and>
     (is_flow spec \<longrightarrow> sp_outputKey spec = []) \<and>
     (sp_execution spec \<in> {ExecutionSequential, ExecutionParallel} \<longrightarrow> sp_maxIterations spec \<le> 0)"
  unfolding validate_mode_def first_err_None by (auto simp: is_flow_def not_less)

lemma Validate_None: "Validate (Some spec) = None \<longleftrightarrow> valid_recipe spec"
  unfolding Validate_def valid_recipe_def
  by (auto simp add: first_err_None validate_mode_None validateToolNames_check validateSubAgents_None)

section \<open>Parameters\<close>

text \<open>The values a parameter list accepts: required parameters are present, present ones typed.\<close>

definition params_typed :: "parameterSpec list \<Rightarrow> params \<Rightarrow> bool" where
  "params_typed ps m \<longleftrightarrow> (\<forall>p \<in> set ps. case m (ps_name p) of
     None \<Rightarrow> ps_default p \<noteq> None \<or> ps_required p \<noteq> ParameterRequired | Some v \<Rightarrow> v \<in> values_of p)"

lemma validateParamValues_None [simp]: "validateParamValues scope ps m = None \<longleftrightarrow> params_typed ps m"
  by (auto simp: validateParamValues_def validateParamValue_def params_typed_def validateParamType_None
      split: option.splits)

section \<open>What a build returns\<close>

text \<open>The resolvers' answers to a list of names, in order.\<close>

definition tools_resolved :: "'p buildOptions \<Rightarrow> string list \<Rightarrow> 'p tool list \<Rightarrow> bool" where
  "tools_resolved o' = list_all2 (\<lambda>n t. \<exists>r. bo_tools o' = Some r \<and> r n = Inr t)"

definition middlewares_resolved :: "'p buildOptions \<Rightarrow> middlewareSpec list \<Rightarrow> ('p handler \<Rightarrow> 'p handler) list \<Rightarrow> bool" where
  "middlewares_resolved o' = list_all2 (\<lambda>mw h. \<exists>r. bo_middlewares o' = Some r \<and> r (mw_name mw) (mw_options mw) = Inr h)"

lemma recipe_resolveTools_Inr [simp]: "recipe_resolveTools names o' = Inr ts \<longleftrightarrow> tools_resolved o' names ts"
  by (cases names; cases ts)
    (auto simp: recipe_resolveTools_def tools_resolved_def map_err_Inr_iff simp del: map_err.simps split: option.splits)

lemma resolveMiddlewares_Inr [simp]: "resolveMiddlewares mws o' = Inr hs \<longleftrightarrow> middlewares_resolved o' mws hs"
  by (cases mws; cases hs)
    (auto simp: resolveMiddlewares_def middlewares_resolved_def map_err_Inr_iff simp del: map_err.simps
      split: option.splits)

text \<open>The agent of a specification, with the defaults of \<open>NewAgent\<close> for what it leaves out.\<close>

definition configured :: "string \<Rightarrow> string \<Rightarrow> 'p provider \<Rightarrow> string \<Rightarrow> string \<Rightarrow> int \<Rightarrow> bool option \<Rightarrow> 'p tool list \<Rightarrow>
    ('p handler \<Rightarrow> 'p handler) list \<Rightarrow> 'p agent" where
  "configured name description model instruction outputKey n use_context ts mws =
     \<lparr>a_name = name, a_description = description, a_instruction = instruction, a_instructionProvider = None,
      a_outputKey = outputKey, a_maxIterations = (if 0 < n then n else 10), a_model = Some model,
      a_middlewares = mws, a_tools = ts, a_skills = None, a_resolver = None,
      a_useContext = (use_context = Some True)\<rparr>"

lemmas option_setters = WithModel_def WithDescription_def WithInstruction_def WithOutputKey_def
  WithMaxIterations_def WithContext_def WithTools_def WithAgentMiddleware_def

lemma new_agent_plain:
  "new_agent name ([WithModel model] @ option_if (d \<noteq> []) (WithDescription d) @ [WithInstruction i] @
      option_if (k \<noteq> []) (WithOutputKey k) @ option_if (0 < n) (WithMaxIterations n) @
      (case cx of None \<Rightarrow> [] | Some b \<Rightarrow> [WithContext b]) @
      option_if (ts \<noteq> []) (WithTools ts) @ option_if (mws \<noteq> []) (WithAgentMiddleware mws)) = Inr a \<longleftrightarrow>
   (\<exists>m. model = Some m \<and> a = configured name d m i k n cx ts mws)"
  unfolding new_agent_def NewAgent_def option_if_def
  by (cases cx) (auto simp: option_setters configured_def)

lemma new_agent_tools:
  "new_agent name ([WithModel model, WithInstruction i, WithTools ts] @ option_if (d \<noteq> []) (WithDescription d) @
      option_if (k \<noteq> []) (WithOutputKey k) @ option_if (0 < n) (WithMaxIterations n) @
      (case cx of None \<Rightarrow> [] | Some b \<Rightarrow> [WithContext b]) @
      option_if (mws \<noteq> []) (WithAgentMiddleware mws)) = Inr a \<longleftrightarrow>
   (\<exists>m. model = Some m \<and> a = configured name d m i k n cx ts mws)"
  unfolding new_agent_def NewAgent_def option_if_def
  by (cases cx) (auto simp: option_setters configured_def)

text \<open>A prompt is rendered when there is one.\<close>

definition prompt_built :: "string + string \<Rightarrow> string \<Rightarrow> string option \<Rightarrow> bool" where
  "prompt_built rendered template p \<longleftrightarrow>
     (if template = [] then p = None else \<exists>t. rendered = Inr t \<and> p = Some t)"

definition sub_built :: "recipe_env \<Rightarrow> agentSpec \<Rightarrow> params \<Rightarrow> 'p buildOptions \<Rightarrow> subAgentSpec \<Rightarrow> 'p sub_agent \<Rightarrow> bool" where
  "sub_built env spec params o' sub s \<longleftrightarrow>
     (let model = (if sub_model sub = [] then sp_model spec else sub_model sub);
          ps = resolveParams (sub_parameters sub) params;
          partly = (\<lambda>t. if hasTemplateActions t then renderTemplatePreservingUnknown (env_engine env) t ps
                        else renderTemplate (env_engine env) t ps) in
      model \<noteq> [] \<and> params_typed (sub_parameters sub) ps \<and>
      (\<exists>m i ts mws. the_models o' model = Inr (Some m) \<and>
         (if hasTemplateActions (sub_instruction sub) then partly (sub_instruction sub) = Inr i
          else i = sub_instruction sub) \<and>
         tools_resolved o' (sub_tools sub) ts \<and> middlewares_resolved o' (sub_middlewares sub) mws \<and>
         sa_agent s = configured (sub_name sub) (sub_description sub) m i (sub_outputKey sub)
           (sub_maxIterations sub) (bo_context o') ts mws) \<and>
      prompt_built (partly (sub_prompt sub)) (sub_prompt sub) (sa_prompt s))"

lemma buildSubAgent_Inr:
  "buildSubAgent env (sp_model spec) params o' sub = Inr s \<longleftrightarrow> sub_built env spec params o' sub s"
  unfolding buildSubAgent_def sub_built_def Let_def echeck_Inr ebind_Inr new_agent_plain in_scope_Inr
  by (cases s) (auto simp: sub_model_name_def sub_instruction_text_def prompt_built_def withUserPromptTemplate_def; blast)

definition subs_built :: "recipe_env \<Rightarrow> agentSpec \<Rightarrow> params \<Rightarrow> 'p buildOptions \<Rightarrow> 'p sub_agent list \<Rightarrow> bool" where
  "subs_built env spec params o' = list_all2 (sub_built env spec params o') (sp_subAgents spec)"

lemma buildSubAgents_Inr [simp]:
  "buildSubAgents env spec params o' = Inr subs \<longleftrightarrow> subs_built env spec params o' subs"
  by (simp add: buildSubAgents_def map_err_Inr_iff subs_built_def buildSubAgent_Inr)

text \<open>The parent agent, with the tools \<open>pre\<close> before the ones it names.\<close>

definition parent_built :: "recipe_env \<Rightarrow> agentSpec \<Rightarrow> params \<Rightarrow> 'p buildOptions \<Rightarrow> 'p tool list \<Rightarrow> 'p base_agent \<Rightarrow> bool" where
  "parent_built env spec params o' pre b \<longleftrightarrow>
     (\<exists>m i ts mws. the_models o' (sp_model spec) = Inr (Some m) \<and>
        renderTemplate (env_engine env) (sp_instruction spec) params = Inr i \<and>
        tools_resolved o' (sp_tools spec) ts \<and> middlewares_resolved o' (sp_middlewares spec) mws \<and>
        b = SingleAgent (configured (sp_name spec) (sp_description spec) m i (sp_outputKey spec)
          (sp_maxIterations spec) (bo_context o') (pre @ ts) mws))"

definition sub_tool :: "recipe_env \<Rightarrow> agentSpec \<Rightarrow> 'p sub_agent \<Rightarrow> 'p tool" where
  "sub_tool env spec s = agent_tool env (sp_name spec) (a_name (sa_agent s)) (sub_Run env s)"

definition base_built :: "recipe_env \<Rightarrow> agentSpec \<Rightarrow> params \<Rightarrow> 'p buildOptions \<Rightarrow> 'p base_agent \<Rightarrow> bool" where
  "base_built env spec params o' b \<longleftrightarrow>
     (if sp_subAgents spec = [] then parent_built env spec params o' [] b
      else \<exists>subs. subs_built env spec params o' subs \<and>
        (if sp_execution spec = ExecutionTool then parent_built env spec params o' (map (sub_tool env spec) subs) b
         else (sp_execution spec, b) \<in>
           {(ExecutionSequential, SequentialFlow (sp_name spec) (sp_description spec) subs),
            (ExecutionParallel, ParallelFlow (sp_name spec) (sp_description spec) subs),
            (ExecutionLoop, LoopFlow (sp_name spec) (sp_description spec) (sp_maxIterations spec) subs)}))"

lemma buildSingleAgent_Inr:
  "buildSingleAgent env spec params o' = Inr a \<longleftrightarrow> parent_built env spec params o' [] (SingleAgent a)"
  unfolding buildSingleAgent_def ebind_Inr new_agent_plain in_scope_Inr parent_built_def recipe_resolveTools_Inr
    resolveMiddlewares_Inr base_agent.inject append_Nil by blast

lemma buildToolAgent_Inr:
  "buildToolAgent env spec params o' = Inr a \<longleftrightarrow> (\<exists>subs. subs_built env spec params o' subs \<and>
     parent_built env spec params o' (map (sub_tool env spec) subs) (SingleAgent a))"
  unfolding buildToolAgent_def ebind_Inr new_agent_tools in_scope_Inr parent_built_def sub_tool_def
    recipe_resolveTools_Inr resolveMiddlewares_Inr buildSubAgents_Inr base_agent.inject by blast

lemma parent_single: "parent_built env spec params o' pre b \<Longrightarrow> \<exists>a. b = SingleAgent a"
  by (auto simp: parent_built_def)

lemma build_base_Inr [simp]: "build_base env spec params o' = Inr b \<longleftrightarrow> base_built env spec params o' b"
  unfolding build_base_def base_built_def
  by (auto simp: buildSingleAgent_Inr buildToolAgent_Inr buildSequentialAgent_def buildParallelAgent_def
      buildLoopAgent_def dest: parent_single) (metis parent_single)

definition recipe_params :: "agentSpec \<Rightarrow> ('p buildOptions \<Rightarrow> 'p buildOptions) list \<Rightarrow> params" where
  "recipe_params spec opts = resolveParams (sp_parameters spec) (bo_params (build_options opts))"

definition recipe_built :: "recipe_env \<Rightarrow> agentSpec \<Rightarrow> ('p buildOptions \<Rightarrow> 'p buildOptions) list \<Rightarrow> 'p built \<Rightarrow> bool" where
  "recipe_built env spec opts b \<longleftrightarrow>
     base_built env spec (recipe_params spec opts) (build_options opts) (b_base b) \<and>
     prompt_built (renderTemplate (env_engine env) (sp_prompt spec) (recipe_params spec opts)) (sp_prompt spec) (b_prompt b)"

lemma withPromptInjection_Inr [simp]:
  "withPromptInjection env spec params base = Inr b \<longleftrightarrow> b_base b = base \<and>
     prompt_built (renderTemplate (env_engine env) (sp_prompt spec) params) (sp_prompt spec) (b_prompt b)"
  unfolding withPromptInjection_def withPromptTemplate_def prompt_built_def by (cases b) auto

lemma Build_Inr:
  "Build env (Some spec) opts = Inr b \<longleftrightarrow> valid_recipe spec \<and> bo_models (build_options opts) \<noteq> None \<and>
     params_typed (sp_parameters spec) (recipe_params spec opts) \<and> recipe_built env spec opts b"
  unfolding Build_def Let_def echeck_Inr ebind_Inr Validate_None ValidateParams_def recipe_built_def recipe_params_def
  by auto

section \<open>Templates with unknown keys\<close>

text \<open>What \<open>text/template\<close> documents for the option \<open>missingkey=error\<close> of a template that reads the
  keys \<open>keys\<close>: it renders data that has them all, and otherwise fails with the message of the
  first key it misses.\<close>

definition reads_keys :: "engine \<Rightarrow> string \<Rightarrow> string set \<Rightarrow> (params \<Rightarrow> string) \<Rightarrow> bool" where
  "reads_keys engine t keys rendered \<longleftrightarrow> finite keys \<and> (\<forall>data.
     if keys \<subseteq> dom data then engine True t data = Inr (rendered data)
     else \<exists>e k. engine True t data = Inl e \<and> extractMissingKey e = Some k \<and> k \<in> keys - dom data)"

definition placeholders :: "string set \<Rightarrow> params" where
  "placeholders ks = (\<lambda>k. if k \<in> ks then Some (placeholder k) else None)"

lemma placeholders_step:
  "k \<notin> dom w \<Longrightarrow> k \<in> keys \<Longrightarrow>
     w(k \<mapsto> placeholder k) ++ placeholders (keys - dom (w(k \<mapsto> placeholder k))) = w ++ placeholders (keys - dom w)"
  by (auto simp: placeholders_def map_add_def fun_eq_iff split: option.split)

lemma preserve_rounds_result:
  assumes "reads_keys engine t keys rendered" and "t \<noteq> []"
  shows "preserve_rounds engine t n w =
    (if card (keys - dom w) < n then Inr (rendered (w ++ placeholders (keys - dom w)))
     else Inl ''recipe: too many unresolved template keys'')"
proof (induction n arbitrary: w)
  case (Suc n)
  show ?case
  proof (cases "keys \<subseteq> dom w")
    case True
    then have k: "keys - dom w = {}" by blast
    have "engine True t w = Inr (rendered w)" using assms(1) True by (simp add: reads_keys_def)
    then show ?thesis using assms(2) unfolding k by (simp add: executeTemplate_def placeholders_def)
  next
    case False
    then obtain e k where e: "engine True t w = Inl e" "extractMissingKey e = Some k" "k \<in> keys - dom w"
      using assms(1) unfolding reads_keys_def by meson
    have fin: "finite (keys - dom w)" using assms(1) by (simp add: reads_keys_def)
    have "keys - dom (w(k \<mapsto> placeholder k)) = keys - dom w - {k}" by auto
    then have card: "card (keys - dom w) = Suc (card (keys - dom (w(k \<mapsto> placeholder k))))"
      using e(3) fin by (metis card_Suc_Diff1)
    have "w k = None" using e(3) by blast
    then have "preserve_rounds engine t (Suc n) w = preserve_rounds engine t n (w(k \<mapsto> placeholder k))"
      using e(1,2) assms(2) by (simp add: executeTemplate_def)
    moreover have "w(k \<mapsto> placeholder k) ++ placeholders (keys - dom (w(k \<mapsto> placeholder k))) =
        w ++ placeholders (keys - dom w)"
      by (rule placeholders_step) (use e(3) in auto)
    ultimately show ?thesis unfolding Suc card by (simp only: Suc_less_eq)
  qed
qed (simp)

section \<open>Names\<close>

lemma sub_built_name: "sub_built env spec params o' sub s \<Longrightarrow> a_name (sa_agent s) = sub_name sub"
  by (auto simp: sub_built_def Let_def configured_def)

lemma sub_tool_names:
  assumes "subs_built env spec params o' subs"
  shows "map (t_name \<circ> sub_tool env spec) subs = map sub_name (sp_subAgents spec)"
proof -
  have "list_all2 (\<lambda>sub s. sub_built env spec params o' sub s) (sp_subAgents spec) subs"
    using assms by (simp add: subs_built_def)
  then show ?thesis
    by (induction rule: list_all2_induct) (auto simp: sub_tool_def agent_tool_def sub_built_name)
qed

lemma resolved_names:
  assumes "tools_resolved o' names ts" and "\<And>r n t. bo_tools o' = Some r \<Longrightarrow> r n = Inr t \<Longrightarrow> t_name t = n"
  shows "map t_name ts = names"
  using assms(1) unfolding tools_resolved_def by (induction rule: list_all2_induct) (auto simp: assms(2))

lemma find_unique:
  assumes "distinct (map t_name ts)" and "t \<in> set ts"
  shows "find (\<lambda>t'. t_name t' = t_name t) ts = Some t"
  using assms by (induction ts) (auto simp: image_iff)

text \<open>With distinct names, a call reaches the tool of its name as if there were no other.\<close>

lemma handleTools_unique:
  assumes "distinct (map t_name (inv_tools ivn))" and "t \<in> set (inv_tools ivn)" and "tool_name part = t_name t"
  shows "handleTools ivn part p = handleTools (ivn\<lparr>inv_tools := [t]\<rparr>) part p"
  using find_unique [OF assms(1,2)] assms(3) by (simp add: handleTools_def)

section \<open>The user's message\<close>

text \<open>Agents that add the guarded user message to their session, and no other, the first time.\<close>

definition commits :: "nat \<Rightarrow> nat \<Rightarrow> 'p handler \<Rightarrow> bool" where
  "commits r f h \<longleftrightarrow> (\<forall>c ivn w. guarded f ivn \<longrightarrow> ctx_session c = Some r \<longrightarrow>
     gsteps (committed_once r f) (h c ivn w) w)"

definition quiet_provider :: "'p provider \<Rightarrow> bool" where
  "quiet_provider m \<longleftrightarrow>
     (\<forall>req p msg p'. p_generate m req p = (Inr (Some msg), p') \<longrightarrow> role msg \<noteq> RoleUser) \<and>
     (\<forall>req p msg. Inr (Some msg) \<in> set (fst (p_streaming m req p)) \<longrightarrow> role msg \<noteq> RoleUser)"

lemma agent_commits:
  assumes "a_middlewares a = []" and "a_model a = Some m" and "quiet_provider m"
  shows "commits r f (Run x a)"
proof -
  have a: "without_middlewares a = a" using assms(1) by (simp add: without_middlewares_def)
  have "quiet_model a" using assms(2,3) by (simp add: quiet_model_def quiet_provider_def the_model_def)
  then show ?thesis using Run_once(1) [of a f _ _ r x] unfolding a commits_def by blast
qed

lemma guarded_ephemeral: "guarded f ivn \<Longrightarrow> guarded f (ivn\<lparr>inv_ephemeral := ms\<rparr>)"
  by (simp add: guarded_def)

lemma user_prompt_commits: "commits r f h \<Longrightarrow> commits r f (userPromptInjected_Run env prompt h)"
  unfolding commits_def userPromptInjected_Run_def
  by (auto simp: Let_def once_rules guarded_ephemeral guarded_def split: sum.split option.split)

lemma promptInjected_guarded: "guarded f ivn \<Longrightarrow> guarded f (promptInjected x prompt ivn)"
  by (auto simp: promptInjected_def guarded_def Let_def)

lemma sequential_commits:
  assumes "\<forall>h \<in> set hs. commits r f h"
  shows "commits r f (SequentialAgent_Run hs)"
  unfolding commits_def
proof (intro allI impI)
  fix c :: ctx and ivn :: "'a invocation" and w :: "'a world"
  assume g: "guarded f ivn" "ctx_session c = Some r"
  have "gsteps (committed_once r f) (gforeach hs
     (\<lambda>_ agent w. grange (agent c (clone_invocation ivn) w) (forward (\<lambda>_ _. ())) ()) () w) w"
    by (rule gsteps_gforeach [OF once_rules])
      (use assms g in \<open>auto intro!: gsteps_grange [OF once_rules] forward_once simp: commits_def\<close>)
  then show "gsteps (committed_once r f) (SequentialAgent_Run hs c ivn w) w"
    unfolding SequentialAgent_Run_def
    by (rule gsteps_gbind [OF once_rules]) (simp add: committed_once_def)
qed

lemma loop_commits:
  assumes "\<forall>h \<in> set (lc_agents cfg). commits r f h"
  shows "commits r f (LoopAgent_Run cfg)"
  unfolding commits_def LoopAgent_Run_def
proof (intro allI impI)
  fix c :: ctx and ivn :: "'a invocation" and w :: "'a world"
  assume g: "guarded f ivn" "ctx_session c = Some r"
  have agent: "gsteps (committed_once r f) (loop_agent c ivn l h v) v" if "h \<in> set (lc_agents cfg)" for l h v
    unfolding loop_agent_def
    by (rule gsteps_gbind [OF once_rules])
      (use that assms g in \<open>auto intro!: gsteps_grange [OF once_rules] forward_once
         simp: commits_def committed_once_def split: ctl.split\<close>)
  have decide: "committed_once r f v v'" if "loop_decide cfg l v = (d, v')" for l v d v'
    using that by (auto simp: loop_decide_def committed_once_def user_count_def split: option.splits prod.splits
        sum.splits bool.splits if_splits)
  have step: "gsteps (committed_once r f) (loop_iterations cfg c ivn n st v) v" for n st v
  proof (induction n arbitrary: st v)
    case 0
    then show ?case by (simp add: committed_once_def)
  next
    case (Suc n)
    show ?case
      unfolding loop_iterations.simps
      by (rule gsteps_gbind [OF once_rules gsteps_gforeach [OF once_rules agent]])
        (auto simp: once_rules dest: decide intro: gsteps_trans [OF committed_once_transp _ Suc]
           gsteps_trans [OF committed_once_transp, of _ _ _ _ "gyield _ _"]
           split: ctl.split prod.split option.split, (auto simp: committed_once_def)?)
  qed
  show "gsteps (committed_once r f) (loop_iterations cfg c ivn (nat (lc_maxIterations cfg))
      \<lparr>ls_iteration = 0, ls_input = None, ls_output = None\<rparr> w) w"
    by (rule step)
qed

lemma plays_once:
  "commits r f h \<Longrightarrow> guarded f ivn \<Longrightarrow> ctx_session c = Some r \<Longrightarrow> plays h c ivn w es v \<Longrightarrow> committed_once r f w v"
  unfolding commits_def plays_def using gsteps_final [OF once_rules] by blast

lemma parallel_once:
  assumes "\<forall>h \<in> set hs. commits r f h" and "guarded f ivn" and "ctx_session c = Some r"
    and "ParallelAgent_Run hs c ivn w es v"
  shows "committed_once r f w v"
proof -
  have "parallel_run (map (\<lambda>h. h c ivn) hs) w es v" using assms(4) by (simp add: ParallelAgent_Run_def)
  then show ?thesis
    by (rule parallel_steps [OF once_rules]) (use assms(1-3) in \<open>auto simp: commits_def\<close>)
qed

text \<open>The runs of what a build returns.\<close>

lemma sub_commits:
  assumes "sub_built env spec ps o' sub s" and "sub_middlewares sub = []"
    and "\<And>n m. the_models o' n = Inr (Some m) \<Longrightarrow> quiet_provider m"
  shows "commits r f (sub_Run env s)"
  using assms agent_commits [of "sa_agent s" _ r f "env_ext env"]
  by (auto simp: sub_built_def Let_def configured_def middlewares_resolved_def sub_Run_def
      intro: user_prompt_commits split: option.split)

lemma parent_commits:
  assumes "parent_built env spec ps o' pre (SingleAgent a)" and "sp_middlewares spec = []"
    and "\<And>n m. the_models o' n = Inr (Some m) \<Longrightarrow> quiet_provider m"
  shows "commits r f (Run (env_ext env) a)"
  using assms agent_commits [of a _ r f "env_ext env"]
  by (auto simp: parent_built_def configured_def middlewares_resolved_def)

lemma base_once:
  assumes base: "base_built env spec ps o' b" and mw: "sp_middlewares spec = []"
    and subs_mw: "\<forall>sub \<in> set (sp_subAgents spec). sub_middlewares sub = []"
    and quiet: "\<And>n m. the_models o' n = Inr (Some m) \<Longrightarrow> quiet_provider m"
    and g: "guarded f ivn" and c: "ctx_session c = Some r" and run: "base_runs env b c ivn w es v"
  shows "committed_once r f w v"
proof -
  have sub: "commits r f (sub_Run env s)" if "sub_built env spec ps o' sub s" "sub \<in> set (sp_subAgents spec)" for sub s
    by (rule sub_commits [OF that(1) _ quiet]) (use subs_mw that(2) in auto)
  have subs: "\<forall>h \<in> set (map (sub_Run env) as). commits r f h" if "subs_built env spec ps o' as" for as
    using that sub unfolding subs_built_def
    by (auto simp: list_all2_conv_all_nth in_set_conv_nth) (metis nth_mem)
  note built = base [unfolded base_built_def parent_built_def]
  show ?thesis
  proof (cases b)
    case (SingleAgent a)
    then obtain pre where "parent_built env spec ps o' pre (SingleAgent a)"
      using base by (auto simp: base_built_def split: if_splits)
    from plays_once [OF parent_commits [OF this mw quiet] g c] run SingleAgent show ?thesis by simp
  next
    case (SequentialFlow n d as)
    then have "subs_built env spec ps o' as" using built by (auto split: if_splits)
    from plays_once [OF sequential_commits [OF subs [OF this]] g c] run SequentialFlow show ?thesis by simp
  next
    case (ParallelFlow n d as)
    then have "subs_built env spec ps o' as" using built by (auto split: if_splits)
    from parallel_once [OF subs [OF this] g c] run ParallelFlow show ?thesis by simp
  next
    case (LoopFlow n d k as)
    then have "subs_built env spec ps o' as" using built by (auto split: if_splits)
    from subs [OF this] have "commits r f (LoopAgent_Run (NewLoopAgent
        \<lparr>lc_maxIterations = k, lc_condition = None, lc_agents = map (sub_Run env) as\<rparr>))"
      by (intro loop_commits) (simp add: NewLoopAgent_def)
    from plays_once [OF this g c] run LoopFlow show ?thesis by simp
  qed
qed

end
