(* ===== verification/Recipe_Props.thy ===== *)
theory Recipe_Props
  imports Recipe_Laws Agent_Props
begin

text \<open>
  The properties of recipes. The demonstration recipe has one sub-agent and one tool; its model is
  the demonstration model of \<open>Agent_Props\<close>.
\<close>

section \<open>A demonstration recipe\<close>

definition demo_engine :: engine where
  "demo_engine strict t data = (if t = ''Report on {{.topic}}'' then
     (case data ''topic'' of
        None \<Rightarrow> Inl (missing_prefix @ ''topic'' @ [CHR 0x22])
      | Some (AnyString s) \<Rightarrow> Inr (''Report on '' @ s)
      | Some _ \<Rightarrow> Inr ''Report on something'') else Inr t)"

definition demo_env :: recipe_env where
  "demo_env = \<lparr>env_ext = demo_ext, env_engine = demo_engine, env_tool_error = (\<lambda>_. Failed ''failed'')\<rparr>"

definition demo_sub :: subAgentSpec where
  "demo_sub = \<lparr>sub_name = ''helper'', sub_description = [], sub_model = [], sub_instruction = ''Report on {{.topic}}'',
     sub_prompt = [], sub_parameters = [], sub_tools = [], sub_outputKey = [], sub_maxIterations = 0,
     sub_context = None, sub_middlewares = []\<rparr>"

definition demo_recipe :: "string \<Rightarrow> agentSpec" where
  "demo_recipe mode = \<lparr>sp_version = ''1'', sp_name = ''demo'', sp_description = [], sp_model = ''m'',
     sp_instruction = ''Answer.'', sp_prompt = [], sp_parameters = [], sp_subAgents = [demo_sub],
     sp_execution = mode, sp_tools = [''clock''], sp_outputKey = [], sp_maxIterations = 0,
     sp_context = None, sp_middlewares = []\<rparr>"

definition demo_opts :: "(nat buildOptions \<Rightarrow> nat buildOptions) list" where
  "demo_opts = [WithModelRegistry (Some (ModelRegistry_Resolve (model_registry.filled [(''m'', Some demo_model)]))),
     WithToolRegistry (Some (ToolRegistry_Resolve (tool_registry.filled [(''clock'', clock_tool)])))]"

lemma demo_options [simp]:
  "bo_models (build_options demo_opts) = Some (ModelRegistry_Resolve (model_registry.filled [(''m'', Some demo_model)]))"
  "bo_tools (build_options demo_opts) = Some (ToolRegistry_Resolve (tool_registry.filled [(''clock'', clock_tool)]))"
  "bo_params (build_options demo_opts) = Map.empty"
  "bo_context (build_options demo_opts) = None"
  by (simp_all add: build_options_def demo_opts_def WithModelRegistry_def WithToolRegistry_def)

lemma demo_resolves [simp]:
  "ModelRegistry_Resolve (model_registry.filled [(''m'', Some demo_model)]) ''m'' = Inr (Some demo_model)"
  "ToolRegistry_Resolve (tool_registry.filled [(''clock'', clock_tool)]) ''clock'' = Inr clock_tool"
  using model_registry.resolve_registered [of "[(''m'', Some demo_model)]"]
    tool_registry.resolve_registered [of "[(''clock'', clock_tool)]"] by simp_all

lemmas demo_recipe_defs = demo_env_def demo_sub_def demo_recipe_def

definition demo_text :: string where
  "demo_text = ''Report on {{.topic}}''"

definition demo_rendered :: "params \<Rightarrow> string" where
  "demo_rendered data = (case data ''topic'' of Some (AnyString s) \<Rightarrow> ''Report on '' @ s | _ \<Rightarrow> ''Report on something'')"

lemma demo_reads: "reads_keys demo_engine demo_text {''topic''} demo_rendered"
proof -
  have "extractMissingKey (missing_prefix @ ''topic'' @ [CHR 0x22]) = Some ''topic''"
    by (simp add: missing_prefix_def Let_def)
  then show ?thesis
    by (auto simp: reads_keys_def demo_engine_def demo_text_def demo_rendered_def split: option.split anyval.split)
qed

lemma demo_sub_instruction:
  "renderTemplatePreservingUnknown demo_engine demo_text Map.empty = Inr demo_text"
proof -
  have t: "demo_text \<noteq> []" by (simp add: demo_text_def)
  show ?thesis
    unfolding renderTemplatePreservingUnknown_def preserve_rounds_result [OF demo_reads t]
    by (simp add: demo_rendered_def placeholders_def placeholder_def demo_text_def)
qed

definition demo_sub_agent :: "nat sub_agent" where
  "demo_sub_agent = \<lparr>sa_agent = configured ''helper'' [] demo_model demo_text [] 0 None [] [], sa_prompt = None\<rparr>"

lemma demo_subs:
  "subs_built demo_env (demo_recipe mode) Map.empty (build_options demo_opts) [demo_sub_agent]"
proof -
  have "the_models (build_options demo_opts) ''m'' = Inr (Some demo_model)" by (simp add: the_models_def)
  moreover have "hasTemplateActions demo_text" by (simp add: hasTemplateActions_def demo_text_def)
  ultimately show ?thesis
    using demo_sub_instruction
    by (simp add: subs_built_def demo_recipe_defs sub_built_def Let_def resolveParams_def default_params_def
        params_typed_def tools_resolved_def middlewares_resolved_def prompt_built_def demo_sub_agent_def demo_text_def)
qed

lemma demo_valid: "mode \<in> {ExecutionSequential, ExecutionParallel, ExecutionTool} \<Longrightarrow> valid_recipe (demo_recipe mode)"
  by (auto simp: valid_recipe_def demo_recipe_defs is_flow_def wf_names_def wf_parameters_def wf_context_def wf_sub_def)

lemma demo_params: "recipe_params (demo_recipe mode) demo_opts = Map.empty"
  by (simp add: recipe_params_def resolveParams_def demo_recipe_def default_params_def)

definition demo_parent :: "nat agent" where
  "demo_parent = configured ''demo'' [] demo_model ''Answer.'' [] 0 None
     [sub_tool demo_env (demo_recipe ExecutionTool) demo_sub_agent, clock_tool] []"

lemma demo_tool_build:
  "Build demo_env (Some (demo_recipe ExecutionTool)) demo_opts = Inr \<lparr>b_base = SingleAgent demo_parent, b_prompt = None\<rparr>"
proof -
  let ?spec = "demo_recipe ExecutionTool"
  have "tools_resolved (build_options demo_opts) [''clock''] [clock_tool]" by (simp add: tools_resolved_def)
  then have "parent_built demo_env ?spec Map.empty (build_options demo_opts) (map (sub_tool demo_env ?spec) [demo_sub_agent])
      (SingleAgent demo_parent)"
    unfolding parent_built_def demo_parent_def
    by (intro exI [of _ demo_model] exI [of _ "''Answer.''"] exI [of _ "[clock_tool]"] exI [of _ "[]"])
      (simp add: demo_recipe_def demo_env_def the_models_def renderTemplate_def executeTemplate_def demo_engine_def
        middlewares_resolved_def)
  then have "base_built demo_env ?spec Map.empty (build_options demo_opts) (SingleAgent demo_parent)"
    using demo_subs [of ExecutionTool] by (auto simp: base_built_def demo_recipe_def)
  moreover have "valid_recipe ?spec" by (simp add: demo_valid)
  moreover have "sp_parameters ?spec = []" "sp_prompt ?spec = []" by (simp_all add: demo_recipe_def)
  ultimately show ?thesis
    by (simp add: Build_Inr demo_params recipe_built_def prompt_built_def params_typed_def)
qed

lemma demo_flow_build:
  "Build demo_env (Some (demo_recipe ExecutionSequential)) demo_opts =
     Inr \<lparr>b_base = SequentialFlow ''demo'' [] [demo_sub_agent], b_prompt = None\<rparr>"
proof -
  let ?spec = "demo_recipe ExecutionSequential"
  have "base_built demo_env ?spec Map.empty (build_options demo_opts) (SequentialFlow ''demo'' [] [demo_sub_agent])"
    using demo_subs [of ExecutionSequential] by (auto simp: base_built_def demo_recipe_def)
  moreover have "valid_recipe ?spec" by (simp add: demo_valid)
  moreover have "sp_parameters ?spec = []" "sp_prompt ?spec = []" by (simp_all add: demo_recipe_def)
  ultimately show ?thesis
    by (simp add: Build_Inr demo_params recipe_built_def prompt_built_def params_typed_def)
qed

text \<open>Validation accepts exactly the well-formed specifications: the required fields of the mode,
  distinct non-empty names of parameters, tools, middlewares and sub-agents, typed defaults, known
  strategies, no sub-agent named like a tool in tool mode, and a model for every agent.\<close>

theorem recipe_valid_iff: "Validate (Some spec) = None \<longleftrightarrow> valid_recipe spec"
  by (rule Validate_None)

text \<open>C20: The builder refines its declarative reading: it returns an agent exactly when the
  specification is valid, a model registry is given, the parameters merged with their defaults are
  typed and complete, every model, tool and middleware named resolves and every template renders;
  and the agent it returns has the sub-agents in order, each with its own model or its parent's,
  its rendered instruction, its resolved tools and middlewares and its prompt.\<close>

theorem build_refines_spec:
  "Build env (Some spec) opts = Inr b \<longleftrightarrow>
     valid_recipe spec \<and> bo_models (build_options opts) \<noteq> None \<and>
     params_typed (sp_parameters spec) (recipe_params spec opts) \<and> recipe_built env spec opts b"
  by (rule Build_Inr)

text \<open>C21: Rendering that preserves unknown keys, with an engine that reports the keys it misses: it
  returns the template rendered with every missing key standing for its own placeholder, as long
  as fewer than 64 keys are missing, and otherwise fails.\<close>

theorem preserves_unknown_keys:
  assumes "reads_keys engine t keys rendered" and "t \<noteq> []"
  shows "renderTemplatePreservingUnknown engine t data =
    (if card (keys - dom data) < 64 then Inr (rendered (data ++ placeholders (keys - dom data)))
     else Inl ''recipe: too many unresolved template keys'')"
  using assms(2) preserve_rounds_result [OF assms, of 64 data]
  by (simp add: renderTemplatePreservingUnknown_def)

theorem preserves_unknown_keys_witness:
  "renderTemplatePreservingUnknown demo_engine demo_text Map.empty = Inr demo_text"
  using preserves_unknown_keys [OF demo_reads, of Map.empty]
  by (simp add: demo_rendered_def placeholders_def placeholder_def demo_text_def)

text \<open>In tool mode, when tools resolve to tools of the name they are registered under, the parent
  gets the sub-agents as tools before the external ones, all names are distinct, and a call of any
  of them does what it would do if the parent had no other tool.\<close>

theorem tool_mode_dispatch:
  assumes "Build env (Some spec) opts = Inr b" and "sp_execution spec = ExecutionTool" and "sp_subAgents spec \<noteq> []"
    and "\<forall>r n t. bo_tools (build_options opts) = Some r \<longrightarrow> r n = Inr t \<longrightarrow> t_name t = n"
  shows "\<exists>a subs. b_base b = SingleAgent a \<and>
    subs_built env spec (recipe_params spec opts) (build_options opts) subs \<and>
    take (length subs) (a_tools a) = map (sub_tool env spec) subs \<and>
    map t_name (a_tools a) = map sub_name (sp_subAgents spec) @ sp_tools spec \<and>
    (\<forall>ivn t part p. inv_tools ivn = a_tools a \<and> t \<in> set (a_tools a) \<and> tool_name part = t_name t \<longrightarrow>
       handleTools ivn part p = handleTools (ivn\<lparr>inv_tools := [t]\<rparr>) part p)"
proof -
  have valid: "valid_recipe spec" and "recipe_built env spec opts b" using assms(1) by (simp_all add: Build_Inr)
  then obtain subs m i ts mws where b: "subs_built env spec (recipe_params spec opts) (build_options opts) subs"
      "tools_resolved (build_options opts) (sp_tools spec) ts"
      "b_base b = SingleAgent (configured (sp_name spec) (sp_description spec) m i (sp_outputKey spec)
          (sp_maxIterations spec) (bo_context (build_options opts)) (map (sub_tool env spec) subs @ ts) mws)"
    using assms(2,3) by (auto simp: recipe_built_def base_built_def parent_built_def)
  let ?ts = "map (sub_tool env spec) subs @ ts"
  have names: "map t_name ?ts = map sub_name (sp_subAgents spec) @ sp_tools spec"
    using sub_tool_names [OF b(1)] resolved_names [OF b(2)] assms(4) by simp
  then have "distinct (map t_name ?ts)"
    using valid assms(2) by (auto simp: valid_recipe_def wf_names_def wf_sub_def)
  then have unique: "inv_tools ivn = ?ts \<and> t \<in> set ?ts \<and> tool_name part = t_name t \<longrightarrow>
      handleTools ivn part p = handleTools (ivn\<lparr>inv_tools := [t]\<rparr>) part p" for ivn t part p
    using handleTools_unique [of ivn t part p] by simp
  let ?a = "configured (sp_name spec) (sp_description spec) m i (sp_outputKey spec)
          (sp_maxIterations spec) (bo_context (build_options opts)) ?ts mws"
  have "a_tools ?a = ?ts" by (simp add: configured_def)
  with b(1,3) names unique show ?thesis
    by (intro exI [of _ ?a] exI [of _ subs]) simp
qed

theorem tool_mode_dispatch_witness:
  "\<exists>a. Build demo_env (Some (demo_recipe ExecutionTool)) demo_opts = Inr \<lparr>b_base = SingleAgent a, b_prompt = None\<rparr> \<and>
     map t_name (a_tools a) = [''helper'', ''clock'']"
proof -
  have name: "\<forall>r n t. bo_tools (build_options demo_opts) = Some r \<longrightarrow> r n = Inr t \<longrightarrow> t_name t = n"
    using tool_registry.resolve_ok_registered [of "[(''clock'', clock_tool)]"]
    by (fastforce simp: clock_tool_def)
  have "sp_execution (demo_recipe ExecutionTool) = ExecutionTool" "sp_subAgents (demo_recipe ExecutionTool) \<noteq> []"
    by (simp_all add: demo_recipe_def)
  from tool_mode_dispatch [OF demo_tool_build this name] obtain a where
    "SingleAgent demo_parent = SingleAgent a"
    "map t_name (a_tools a) = map sub_name (sp_subAgents (demo_recipe ExecutionTool)) @ sp_tools (demo_recipe ExecutionTool)"
    unfolding built.select_convs by (elim exE conjE) (rule that)
  then have "map t_name (a_tools demo_parent) = [''helper'', ''clock'']" by (simp add: demo_recipe_defs)
  then show ?thesis by (intro exI [of _ demo_parent] conjI demo_tool_build)
qed

text \<open>Whatever mode and prompts a recipe has, its runs commit the user's message and nothing else
  for the user: in every run of an agent built without middlewares, over models that do not speak
  for the user, the number of user messages in the session grows by one exactly when the
  invocation's message is committed, and the prompts of the recipe and its sub-agents add none.\<close>

theorem recipe_commits_once:
  assumes "Build env (Some spec) opts = Inr b" and "sp_middlewares spec = []"
    and "\<forall>sub \<in> set (sp_subAgents spec). sub_middlewares sub = []"
    and "\<And>n m. the_models (build_options opts) n = Inr (Some m) \<Longrightarrow> quiet_provider m"
    and "guarded f ivn" and "ctx_session c = Some r" and "built_runs env b c ivn w es v"
  shows "(flags w f \<longrightarrow> flags v f) \<and>
    user_count r v = user_count r w + (if flags v f \<and> \<not> flags w f then 1 else 0)"
proof -
  obtain ivn' where ivn': "guarded f ivn'" "base_runs env (b_base b) c ivn' w es v"
    using assms(5,7) promptInjected_guarded unfolding built_runs_def by (metis (no_types) option.exhaust option.simps(4,5))
  have "base_built env spec (recipe_params spec opts) (build_options opts) (b_base b)"
    using assms(1) by (simp add: Build_Inr recipe_built_def)
  then have "committed_once r f w v" by (rule base_once [OF _ assms(2-4) ivn'(1) assms(6) ivn'(2)])
  then show ?thesis by (auto simp: committed_once_def split: if_splits)
qed

theorem recipe_commits_once_witness:
  "\<exists>b es v. Build demo_env (Some (demo_recipe ExecutionSequential)) demo_opts = Inr b \<and>
     built_runs demo_env b demo_ctx demo_inv demo_world es v \<and>
     user_count 0 v = user_count 0 demo_world + (if flags v 0 then 1 else 0)"
proof -
  let ?b = "\<lparr>b_base = SequentialFlow ''demo'' [] [demo_sub_agent], b_prompt = None\<rparr>"
  have quiet: "quiet_provider m" if "the_models (build_options demo_opts) n = Inr (Some m)" for n m
    using that model_registry.resolve_ok_registered [of "[(''m'', Some demo_model)]" n "Some m"]
    by (auto simp: the_models_def quiet_provider_def demo_model_def demo_call_def demo_answer_def
        NewAssistantMessage_def split: if_splits)
  obtain es v where run: "built_runs demo_env ?b demo_ctx demo_inv demo_world es v"
    by (auto simp: built_runs_def plays_def)
  have "sp_middlewares (demo_recipe ExecutionSequential) = []"
    "\<forall>sub \<in> set (sp_subAgents (demo_recipe ExecutionSequential)). sub_middlewares sub = []"
    by (simp_all add: demo_recipe_defs)
  from recipe_commits_once [OF demo_flow_build this quiet demo_guarded _ run]
  have "user_count 0 v = user_count 0 demo_world + (if flags v 0 then 1 else 0)"
    by (simp add: demo_ctx_def demo_world_def)
  with demo_flow_build run show ?thesis by blast
qed

end
