(* ===== verification/Session_Props.thy ===== *)
theory Session_Props
  imports Session_Store
begin

text \<open>
  What the session manager promises: a saved session comes back after a restart, up to what JSON
  makes of its values, and while the manager runs every caller shares one session per identifier.
\<close>

section \<open>JSON\<close>

text \<open>\<open>fmt\<close> and \<open>encoding/json\<close> write an integer in decimal.\<close>

definition show_int :: "int \<Rightarrow> string" where
  "show_int n = (if n < 0 then CHR ''-'' # show_nat (nat (- n)) else show_nat (nat n))"

text \<open>What \<open>encoding/json\<close> documents: decoded into an \<open>any\<close>, every number is a \<open>float64\<close>; \<open>other\<close> is
  what becomes of the values the code never looks into.\<close>

fun json_value :: "(nat \<Rightarrow> anyval) \<Rightarrow> anyval \<Rightarrow> anyval" where
  "json_value other (AnyString s) = AnyString s"
| "json_value other (AnyBool b) = AnyBool b"
| "json_value other (AnyInt n) = AnyFloat (show_int n)"
| "json_value other (AnyFloat t) = AnyFloat t"
| "json_value other (AnyOther k) = other k"

definition json_map :: "(nat \<Rightarrow> anyval) \<Rightarrow> (string \<rightharpoonup> anyval) \<Rightarrow> (string \<rightharpoonup> anyval)" where
  "json_map other st = map_option (json_value other) \<circ> st"

definition json_persisted :: "(nat \<Rightarrow> anyval) \<Rightarrow> persistedSession \<Rightarrow> persistedSession" where
  "json_persisted other ps = ps\<lparr>p_state := json_map other (p_state ps),
     p_history := map (\<lambda>m. m\<lparr>pm_actions := json_map other (pm_actions m),
       pm_metadata := json_map other (pm_metadata m)\<rparr>) (p_history ps)\<rparr>"

definition json_ok :: "(nat \<Rightarrow> anyval) \<Rightarrow> session_env \<Rightarrow> bool" where
  "json_ok other env \<longleftrightarrow>
     (\<forall>ps data. se_marshal env ps = Some data \<longrightarrow> se_unmarshal env data = Some (json_persisted other ps))"

definition json_message :: "(nat \<Rightarrow> anyval) \<Rightarrow> message \<Rightarrow> message" where
  "json_message other m = m\<lparr>actions := json_map other (actions m), metadata := json_map other (metadata m)\<rparr>"

section \<open>Restoring a history\<close>

lemma restore_part [simp]: "restorePart (makePersistedPart p) = Inr p"
  by (cases p) (simp_all add: restorePart_def makePersistedPart_def)

lemma restore_parts [simp]: "restoreParts (makePersistedParts ps) = Inr ps"
  unfolding restoreParts_def makePersistedParts_def by (induction ps) simp_all

lemma restore_history:
  "restoreHistory (map (\<lambda>m. m\<lparr>pm_actions := json_map other (pm_actions m),
     pm_metadata := json_map other (pm_metadata m)\<rparr>) (makePersistedHistory ms)) = Inr (map (json_message other) ms)"
  unfolding restoreHistory_def makePersistedHistory_def
  by (induction ms) (simp_all add: json_message_def)

lemma fold_Append [simp]:
  "sess_history (fold Append ms s) = sess_history s @ ms" "sess_state (fold Append ms s) = sess_state s"
  "sess_compressor (fold Append ms s) = sess_compressor s"
  by (induction ms arbitrary: s) (simp_all add: Append_def)

text \<open>What a successful \<open>Save\<close> leaves in the directory.\<close>

lemma saved_file:
  assumes "Save env now r m = (None, m')" and "mg_dir m \<noteq> []"
  defines "name \<equiv> file_name_of (ms_id (mg_heap m r))"
  shows "\<exists>fs data. mg_files m' = Some fs \<and> map_of fs name = Some data \<and>
    se_marshal env (envelope now (existing_createdAt env m name) (mg_heap m r)) = Some data"
proof -
  have "read_file env (m\<lparr>mg_files := Some (case mg_files m of None \<Rightarrow> [] | Some fs \<Rightarrow> fs)\<rparr>) name = read_file env m name" for name
    by (simp add: read_file_def split: option.split)
  then have "existing_createdAt env (m\<lparr>mg_files := Some (case mg_files m of None \<Rightarrow> [] | Some fs \<Rightarrow> fs)\<rparr>) name =
      existing_createdAt env m name" for name
    by (simp add: existing_createdAt_def)
  with assms show ?thesis
    by (auto simp: Save_def Let_def gomap_lookup_update split: option.splits prod.splits if_splits)
qed

text \<open>A manager that starts on the directory of another one loads what that one saved.\<close>

definition restarted :: "(session \<Rightarrow> session) option list \<Rightarrow> manager \<Rightarrow> manager" where
  "restarted opts m = NewManager (mg_dir m) opts (mg_heap m) (mg_next m) (mg_files m)"

definition new_base :: "(session \<Rightarrow> session) option list \<Rightarrow> session" where
  "new_base opts = NewSession (map the (filter (\<lambda>opt. opt \<noteq> None) opts))"

lemma reload:
  assumes "json_ok other env" and "mg_dir m \<noteq> []" and "Save env now r m = (None, m')"
    and "se_read_error env (file_name_of (ms_id (mg_heap m r))) = None"
  shows "Get env (ms_id (mg_heap m r)) (restarted opts m') =
    (Inr (mg_next m'), snd (remember (ms_id (mg_heap m r))
       (newManagedSession (ms_id (mg_heap m r)) (json_map other (managed_State (mg_heap m r)))
          (map (json_message other) (ms_rawHistory (mg_heap m r))) (mg_opts (restarted opts m'))) (restarted opts m')))"
proof -
  let ?i = "ms_id (mg_heap m r)"
  obtain fs data where f: "mg_files m' = Some fs" "map_of fs (file_name_of ?i) = Some data"
      "se_marshal env (envelope now (existing_createdAt env m (file_name_of ?i)) (mg_heap m r)) = Some data"
    using saved_file [OF assms(3,2)] by blast
  then have u: "se_unmarshal env data =
      Some (json_persisted other (envelope now (existing_createdAt env m (file_name_of ?i)) (mg_heap m r)))"
    using assms(1) by (simp add: json_ok_def)
  have "loadFromDisk env (restarted opts m') ?i = Inr (newManagedSession ?i (json_map other (managed_State (mg_heap m r)))
      (map (json_message other) (ms_rawHistory (mg_heap m r))) (mg_opts (restarted opts m')))"
    using f assms(4) u
    by (simp add: loadFromDisk_def read_file_def restarted_def NewManager_def json_persisted_def envelope_def
        restore_history historyForPersistence_def)
  then show ?thesis
    by (simp add: Get_def restarted_def NewManager_def remember_def)
qed

lemma new_session_id [simp]: "ms_id (newManagedSession i st h opts) = i"
  by (simp add: newManagedSession_def Let_def)

section \<open>A demonstration session\<close>

definition chat_session :: managedSession where
  "chat_session = newManagedSession ''chat'' [offset_key \<mapsto> AnyInt 2, content_key \<mapsto> AnyString ''brief'']
     [UserMessage ''u1'' [InString ''hi''], AssistantMessage ''a1'' [InString ''hello''], UserMessage ''u2'' [InString ''time?'']] []"

definition chat_env :: session_env where
  "chat_env = \<lparr>se_marshal = (\<lambda>ps. if ps = envelope 5 0 chat_session then Some ''{}'' else None),
     se_unmarshal = (\<lambda>_. Some (json_persisted AnyOther (envelope 5 0 chat_session))),
     se_mkdir_error = None, se_read_error = (\<lambda>_. None), se_write_error = (\<lambda>_. None),
     se_remove_error = (\<lambda>_. None), se_readdir_error = None\<rparr>"

definition chat_manager :: manager where
  "chat_manager = \<lparr>mg_dir = ''d'', mg_sessions = [''chat'' \<mapsto> 0], mg_opts = [], mg_heap = (\<lambda>_. chat_session),
     mg_next = 1, mg_files = None\<rparr>"

definition chat_saved :: manager where
  "chat_saved = chat_manager\<lparr>mg_files := Some [(''chat.json'', ''{}'')]\<rparr>"

lemma chat_facts:
  "json_ok AnyOther chat_env" "mg_dir chat_manager \<noteq> []" "ms_id (mg_heap chat_manager 0) = ''chat''"
  "Save chat_env 5 0 chat_manager = (None, chat_saved)" "se_read_error chat_env name = None"
  by (simp_all add: json_ok_def chat_env_def chat_manager_def chat_session_def chat_saved_def Save_def Let_def
      existing_createdAt_def read_file_def file_name_of_def)

section \<open>Properties\<close>



text \<open>The rolling summary does not survive a reload. The offset of the summary is saved as an
  integer and comes back as a float, which the compressor does not accept: the reloaded session has
  offset zero while the summary text is kept, so the view of any history is the whole history, and
  messages the summary already covers are sent and summarised again.\<close>

theorem reload_loses_summary_offset:
  assumes "json_ok other env" and "mg_dir m \<noteq> []" and "Save env now r m = (None, m')"
    and "se_read_error env (file_name_of (ms_id (mg_heap m r))) = None"
    and "sess_state (new_base opts) = Map.empty"
    and "\<And>k. managed_State (mg_heap m r) content_key \<noteq> Some (AnyOther k)"
    and "\<And>k. managed_State (mg_heap m r) offset_key \<noteq> Some (AnyOther k)"
    and "Get env (ms_id (mg_heap m r)) (restarted opts m') = (Inr q, m2)"
  shows "saved_offset (managed_State (mg_heap m2 q)) = 0 \<and>
    saved_content (managed_State (mg_heap m2 q)) = saved_content (managed_State (mg_heap m r)) \<and>
    buildWorkingView i (saved_content (managed_State (mg_heap m2 q))) (saved_offset (managed_State (mg_heap m2 q))) ms = ms"
proof -
  have st: "managed_State (mg_heap m2 q) = json_map other (managed_State (mg_heap m r))"
    using assms(5,8) unfolding reload [OF assms(1-4)]
    by (auto simp: remember_def newManagedSession_def Let_def managed_State_def new_base_def restarted_def NewManager_def)
  have "saved_offset (managed_State (mg_heap m2 q)) = 0"
    using assms(7) unfolding st saved_offset_def json_map_def
    by (auto split: option.splits anyval.splits elim!: json_value.elims)
  moreover have "saved_content (managed_State (mg_heap m2 q)) = saved_content (managed_State (mg_heap m r))"
    using assms(6) unfolding st saved_content_def json_map_def
    by (auto split: option.splits anyval.splits elim!: json_value.elims)
  ultimately show ?thesis by (simp add: buildWorkingView_def)
qed

theorem reload_loses_summary_offset_witness:
  "\<exists>q m2. Get chat_env ''chat'' (restarted [] chat_saved) = (Inr q, m2) \<and>
     saved_offset (managed_State chat_session) = 2 \<and> saved_offset (managed_State (mg_heap m2 q)) = 0 \<and>
     saved_content (managed_State (mg_heap m2 q)) = ''brief''"
proof -
  have st: "managed_State (mg_heap chat_manager 0) = [offset_key \<mapsto> AnyInt 2, content_key \<mapsto> AnyString ''brief'']"
      "managed_State chat_session = [offset_key \<mapsto> AnyInt 2, content_key \<mapsto> AnyString ''brief'']"
    by (simp_all add: chat_manager_def chat_session_def newManagedSession_def Let_def managed_State_def NewSession_def Append_def)
  obtain q m2 where g: "Get chat_env (ms_id (mg_heap chat_manager 0)) (restarted [] chat_saved) = (Inr q, m2)"
    unfolding reload [OF chat_facts(1,2,4,5)] by blast
  have "sess_state (new_base []) = Map.empty" by (simp add: new_base_def NewSession_def)
  from reload_loses_summary_offset [OF chat_facts(1,2,4,5) this _ _ g] show ?thesis
    using g chat_facts(3) st by (simp add: saved_offset_def saved_content_def)
qed

section \<open>Sharing\<close>

datatype manager_op =
    OpGet string
  | OpGetOrNew string
  | OpSave int nat
  | OpDelete string
  | OpAppend nat message
  | OpSetState nat string anyval

fun manager_step :: "session_env \<Rightarrow> manager_op \<Rightarrow> manager \<Rightarrow> manager" where
  "manager_step env (OpGet i) m = snd (Get env i m)"
| "manager_step env (OpGetOrNew i) m = snd (GetOrNew env i m)"
| "manager_step env (OpSave now r) m = snd (Save env now r m)"
| "manager_step env (OpDelete i) m = snd (Delete env i m)"
| "manager_step env (OpAppend r msg) m = append_through r msg m"
| "manager_step env (OpSetState r k v) m = set_state_through r k v m"

definition manager_run :: "session_env \<Rightarrow> manager_op list \<Rightarrow> manager \<Rightarrow> manager" where
  "manager_run env ops m = fold (manager_step env) ops m"

fun appended_to :: "nat \<Rightarrow> manager_op \<Rightarrow> message list" where
  "appended_to r (OpAppend r' msg) = (if r' = r then [msg] else [])"
| "appended_to r _ = []"

text \<open>Every session in the map is the one allocated for its identifier.\<close>

definition manager_ok :: "manager \<Rightarrow> bool" where
  "manager_ok m \<longleftrightarrow> (\<forall>i r. mg_sessions m i = Some r \<longrightarrow> r < mg_next m \<and> ms_id (mg_heap m r) = i)"

lemma loaded_id: "loadFromDisk env m i = Inr s \<Longrightarrow> ms_id s = i"
  by (cases "read_file env m (file_name_of i)") (auto simp: loadFromDisk_def split: option.splits sum.splits)

lemma remember_ok: "manager_ok m \<Longrightarrow> ms_id s = i \<Longrightarrow> manager_ok (snd (remember i s m))"
  by (auto simp: manager_ok_def remember_def less_Suc_eq)

lemma Get_ok: "manager_ok m \<Longrightarrow> manager_ok (snd (Get env i m))"
  using remember_ok [of m] by (auto simp: Get_def loaded_id split: option.split sum.split read_error.split prod.split)
    (metis snd_conv loaded_id new_session_id)+

lemma GetOrNew_snd [simp]: "snd (GetOrNew env i m) = snd (Get env i m)"
  by (auto simp: GetOrNew_def split: prod.split sum.split)

lemma Save_keeps [simp]:
  "mg_sessions (snd (Save env now r m)) = mg_sessions m" "mg_heap (snd (Save env now r m)) = mg_heap m"
  "mg_next (snd (Save env now r m)) = mg_next m"
  by (auto simp: Save_def Let_def split: option.split prod.split)

lemma Delete_keeps [simp]:
  "mg_heap (snd (Delete env i m)) = mg_heap m" "mg_next (snd (Delete env i m)) = mg_next m"
  by (auto simp: Delete_def Let_def split: option.split)

lemma Delete_sessions: "j \<noteq> i \<Longrightarrow> mg_sessions (snd (Delete env i m)) j = mg_sessions m j"
    "mg_sessions (snd (Delete env i m)) j = Some r \<Longrightarrow> mg_sessions m j = Some r"
  by (auto simp: Delete_def Let_def split: option.splits if_splits)

lemma Get_keeps:
  assumes "mg_sessions m i = Some r" and "r < mg_next m"
  shows "mg_sessions (snd (Get env j m)) i = Some r" and "r < mg_next (snd (Get env j m))"
    and "mg_heap (snd (Get env j m)) r = mg_heap m r"
  using assms by (auto simp: Get_def remember_def split: option.split sum.split read_error.split)

lemma step_ok: "manager_ok m \<Longrightarrow> manager_ok (manager_step env op m)"
proof (cases op)
  case (OpDelete i)
  assume "manager_ok m"
  then show ?thesis using OpDelete Delete_sessions(2) [of env i m] by (auto simp: manager_ok_def)
qed (auto simp: Get_ok; simp add: manager_ok_def append_through_def set_state_through_def managed_Append_def
      managed_SetState_def)+

lemma step_keeps:
  assumes "mg_sessions m i = Some r" and "r < mg_next m" and "op \<noteq> OpDelete i"
  shows "mg_sessions (manager_step env op m) i = Some r" and "r < mg_next (manager_step env op m)"
    and "ms_rawHistory (mg_heap (manager_step env op m) r) = ms_rawHistory (mg_heap m r) @ appended_to r op"
  using assms Get_keeps [OF assms(1,2), of env] Delete_sessions(1) [of i _ env m]
  by (cases op; auto simp: append_through_def set_state_through_def managed_Append_def managed_SetState_def)+

lemma Get_known: "mg_sessions m i = Some r \<Longrightarrow> Get env i m = (Inr r, m)"
  by (simp add: Get_def)

lemma Get_result: "Get env i m = (Inr r, m1) \<Longrightarrow> mg_sessions m1 i = Some r"
  by (auto simp: Get_def remember_def split: option.splits sum.splits read_error.splits)

text \<open>While the manager runs, a session is shared: from the moment \<open>Get\<close> returned a session for an
  identifier, and until that identifier is deleted, every later \<open>Get\<close> returns the same session,
  whatever is read, saved, appended or deleted in between, and its history is what it was with all
  messages appended to it since, in order.\<close>

theorem session_shared:
  assumes "manager_ok m" and "Get env i m = (Inr r, m1)" and "OpDelete i \<notin> set ops"
  shows "Get env i (manager_run env ops m1) = (Inr r, manager_run env ops m1) \<and>
    ms_id (mg_heap (manager_run env ops m1) r) = i \<and>
    ms_rawHistory (mg_heap (manager_run env ops m1) r) =
      ms_rawHistory (mg_heap m1 r) @ concat (map (appended_to r) ops)"
proof -
  have "manager_ok m1" using Get_ok [OF assms(1), of env i] assms(2) by simp
  moreover have "mg_sessions m1 i = Some r" using assms(2) by (rule Get_result)
  ultimately have "mg_sessions (manager_run env ops m1) i = Some r \<and> manager_ok (manager_run env ops m1) \<and>
    ms_rawHistory (mg_heap (manager_run env ops m1) r) = ms_rawHistory (mg_heap m1 r) @ concat (map (appended_to r) ops)"
    using assms(3)
  proof (induction ops arbitrary: m1)
    case (Cons op ops)
    have "r < mg_next m1" using Cons.prems(1,2) by (auto simp: manager_ok_def)
    moreover have "op \<noteq> OpDelete i" "OpDelete i \<notin> set ops" using Cons.prems(3) by auto
    ultimately show ?case
      using step_keeps [OF Cons.prems(2)] Cons.IH [OF step_ok [OF Cons.prems(1)]] by (simp add: manager_run_def)
  qed (simp add: manager_run_def)
  then show ?thesis by (auto simp: Get_known manager_ok_def)
qed

theorem session_shared_witness:
  "\<exists>m1. Get chat_env ''chat'' chat_manager = (Inr 0, m1) \<and>
     (let ops = [OpAppend 0 (UserMessage ''u3'' [InString ''bye'']), OpSave 5 0, OpDelete ''other''] in
      Get chat_env ''chat'' (manager_run chat_env ops m1) = (Inr 0, manager_run chat_env ops m1) \<and>
      length (ms_rawHistory (mg_heap (manager_run chat_env ops m1) 0)) = 4)"
proof -
  let ?ops = "[OpAppend 0 (UserMessage ''u3'' [InString ''bye'']), OpSave 5 0, OpDelete ''other'']"
  have ok: "manager_ok chat_manager" by (simp add: manager_ok_def chat_manager_def chat_session_def)
  have g: "Get chat_env ''chat'' chat_manager = (Inr 0, chat_manager)" by (simp add: Get_def chat_manager_def)
  have "length (ms_rawHistory (mg_heap chat_manager 0)) = 3"
    by (simp add: chat_manager_def chat_session_def newManagedSession_def Let_def)
  then show ?thesis using session_shared [OF ok g, of ?ops] g by (simp add: Let_def)
qed

end
