(* ===== verification/Skill_Props.thy ===== *)
theory Skill_Props
  imports Skill_Tools
begin

text \<open>
  What package \<open>skills\<close> promises: running a script touches nothing outside its temporary workspace,
  the environment of a script, and the front matter of a skill file.
\<close>

section \<open>Normalised paths\<close>

lemma normalize_proper:
  assumes "normalizeSkillRelativePath rel = Some c"
  shows "\<exists>es. es \<noteq> [] \<and> (\<forall>e \<in> set es. proper e) \<and> c = Join es [slash]"
proof -
  obtain x where x: "c = Clean x" "\<not> isInvalidSkillRelativePath c"
    using assms by (auto simp: normalizeSkillRelativePath_def Let_def split: if_splits)
  let ?es = "clean_elements (IsAbs x) (elements x)"
  obtain k qs where shape: "?es = replicate k ''..'' @ qs" "\<forall>q \<in> set qs. proper q"
    using clean_shape [of "elements x" "IsAbs x"] elements_no_slash by blast
  have c: "c = assemble (IsAbs x) ?es" by (simp add: x(1) Clean_def)
  have rel: "\<not> IsAbs x" using c x(2) by (auto simp: assemble_def isInvalidSkillRelativePath_def IsAbs_def)
  have ne: "?es \<noteq> []" using c x(2) rel by (auto simp: assemble_def isInvalidSkillRelativePath_def)
  then have j: "c = Join ?es [slash]" using c rel by (simp add: assemble_def)
  have "k = 0"
  proof (rule ccontr)
    assume "k \<noteq> 0"
    then obtain es' where es: "?es = ''..'' # es'" using shape(1) by (cases k) auto
    then have "c = ''..'' \<or> HasPrefix c ''../''" using j by (cases es') auto
    then show False using x(2) by (simp add: isInvalidSkillRelativePath_def)
  qed
  then have "\<forall>e \<in> set ?es. proper e" using shape by simp
  with ne j show ?thesis by blast
qed

section \<open>The workspace\<close>

text \<open>A cleaned absolute directory, and the paths at or below its resource directories.\<close>

definition rooted :: "string \<Rightarrow> string list \<Rightarrow> bool" where
  "rooted root rs \<longleftrightarrow> root = slash # Join rs [slash] \<and> (\<forall>r \<in> set rs. proper r)"

definition in_workspace :: "string \<Rightarrow> string \<Rightarrow> bool" where
  "in_workspace root path \<longleftrightarrow> (\<exists>rs d es. rooted root rs \<and> d \<in> set resource_prefixes \<and> (\<forall>e \<in> set es. proper e) \<and>
     path = slash # Join (rs @ d # es) [slash])"

lemma proper_dirs: "d \<in> set resource_prefixes \<Longrightarrow> proper d"
  by (auto simp: resource_prefixes_def proper_def)

lemma Join_snoc: "es \<noteq> [] \<Longrightarrow> Join (es @ [e]) sep = Join es sep @ sep @ e"
  by (induction es sep rule: Join.induct) auto

lemma Dir_below:
  assumes "\<forall>e \<in> set (es @ [e]). proper e" and "es \<noteq> []"
  shows "Dir (slash # Join (es @ [e]) [slash]) = slash # Join es [slash]"
proof -
  have "slash \<notin> set e" using assms(1) by (simp add: proper_def)
  then have takeE: "takeWhile (\<lambda>c. c \<noteq> slash) (rev e @ slash # s) = rev e" for s
    by (subst takeWhile_append2) auto
  have j: "slash # Join (es @ [e]) [slash] = slash # Join es [slash] @ slash # e" using Join_snoc [OF assms(2)] by simp
  have "path_file (slash # Join es [slash] @ slash # e) = e"
    using takeE [of "rev (Join es [slash]) @ [slash]"] by (simp add: path_file_def)
  then have "Dir (slash # Join (es @ [e]) [slash]) = Clean ((slash # Join es [slash]) @ slash # [])"
    unfolding Dir_def j by simp
  also have "\<dots> = slash # Join es [slash]"
    using assms(1) elements_append [of "slash # Join es [slash]" "[]"]
    by (simp add: Clean_def IsAbs_def elements_Join clean_elements_proper assemble_def elements_def [of "[]"])
  finally show ?thesis .
qed

lemma writeWorkspaceFile_target:
  assumes "rooted root rs" and "d \<in> set resource_prefixes" and "normalizeSkillRelativePath rel = Some clean"
  shows "\<exists>es. es \<noteq> [] \<and> (\<forall>e \<in> set es. proper e) \<and> clean = Join es [slash] \<and>
    Path_Join [Path_Join [root, d], clean] = slash # Join (rs @ d # es) [slash] \<and>
    Dir (slash # Join (rs @ d # es) [slash]) = slash # Join (rs @ d # butlast es) [slash] \<and>
    Rel (Path_Join [root, d]) (slash # Join (rs @ d # es) [slash]) = Some clean"
proof -
  obtain es where es: "es \<noteq> []" "\<forall>e \<in> set es. proper e" "clean = Join es [slash]"
    using normalize_proper [OF assms(3)] by blast
  have all: "\<forall>e \<in> set ((rs @ [d]) @ es). proper e" using assms(1,2) es(2) proper_dirs by (auto simp: rooted_def)
  then have all': "\<forall>e \<in> set (rs @ [d]). proper e" by simp
  have base: "Path_Join [root, d] = slash # Join (rs @ [d]) [slash]"
    using Join_below [OF all'] assms(1) by (simp add: rooted_def)
  obtain es0 e where e: "es = es0 @ [e]" using es(1) by (cases es rule: rev_cases) auto
  have "Dir (slash # Join ((rs @ d # es0) @ [e]) [slash]) = slash # Join (rs @ d # es0) [slash]"
    by (rule Dir_below) (use all e in auto)
  then show ?thesis
    using Join_below [OF all es(1)] Rel_below [OF all es(1)] es base e by (intro exI [of _ es]) simp
qed

lemma Join_not_up: "\<forall>e \<in> set es. proper e \<Longrightarrow> es \<noteq> [] \<Longrightarrow> Join es [slash] \<noteq> ''..'' \<and> \<not> HasPrefix (Join es [slash]) ''../''"
proof -
  assume es: "\<forall>e \<in> set es. proper e" "es \<noteq> []"
  have "elements (Join es [slash]) = es" using es(1) by (rule elements_Join)
  moreover have "elements ''..'' = [''..'']" by (simp add: elements_def)
  moreover have "elements (''../'' @ s) = ''..'' # elements s" for s
    using elements_append [of "''..''" s] by (simp add: elements_def)
  ultimately show ?thesis using es by (auto simp: HasPrefix_iff prefix_def proper_def)
qed

text \<open>Any statement about the outside that holds after the directories and files of the workspace are
  written, holds after one file, a list of files, and all of them.\<close>

lemma writeWorkspaceFile_inv:
  assumes "rooted root rs" and "d \<in> set resource_prefixes"
    and dirs: "\<And>path p. in_workspace root path \<Longrightarrow> I p \<Longrightarrow> I (snd (k_mkdir env path p))"
    and files: "\<And>path content mode p. in_workspace root path \<Longrightarrow> I p \<Longrightarrow> I (snd (k_write env path content mode p))"
    and "I p"
  shows "I (snd (writeWorkspaceFile env root d rel content mode p))"
proof (cases "normalizeSkillRelativePath rel")
  case (Some clean)
  obtain es where es: "es \<noteq> []" "\<forall>e \<in> set es. proper e" "clean = Join es [slash]"
      "Path_Join [Path_Join [root, d], clean] = slash # Join (rs @ d # es) [slash]"
      "Dir (slash # Join (rs @ d # es) [slash]) = slash # Join (rs @ d # butlast es) [slash]"
      "Rel (Path_Join [root, d]) (slash # Join (rs @ d # es) [slash]) = Some clean"
    using writeWorkspaceFile_target [OF assms(1,2) Some] by blast
  have below: "in_workspace root (slash # Join (rs @ d # butlast es) [slash])" "in_workspace root (slash # Join (rs @ d # es) [slash])"
    using assms(1,2) es(2) unfolding in_workspace_def by (blast dest: in_set_butlastD)+
  show ?thesis
    using Some es(4,5,6) Join_not_up [OF es(2,1)] es(3) dirs [OF below(1) assms(5)] files [OF below(2)]
    by (auto simp: writeWorkspaceFile_def Let_def split: prod.split option.split)
qed (simp add: writeWorkspaceFile_def assms(5))

lemma write_files_inv:
  assumes "rooted root rs" and "d \<in> set resource_prefixes"
    and dirs: "\<And>path p. in_workspace root path \<Longrightarrow> I p \<Longrightarrow> I (snd (k_mkdir env path p))"
    and files: "\<And>path content mode p. in_workspace root path \<Longrightarrow> I p \<Longrightarrow> I (snd (k_write env path content mode p))"
    and "I p"
  shows "I (snd (write_files env root d mode fs p))"
  using assms(5)
proof (induction fs arbitrary: p)
  case (Cons f fs)
  obtain rel content where f: "f = (rel, content)" by fastforce
  obtain r p1 where w: "writeWorkspaceFile env root d rel content mode p = (r, p1)" by fastforce
  have "I p1" using writeWorkspaceFile_inv [OF assms(1,2) dirs files Cons.prems, of rel content mode] w by simp
  then show ?case using Cons.IH by (simp add: f w split: option.split)
qed simp

lemma materialize_inv:
  assumes "rooted root rs"
    and dirs: "\<And>path p. in_workspace root path \<Longrightarrow> I p \<Longrightarrow> I (snd (k_mkdir env path p))"
    and files: "\<And>path content mode p. in_workspace root path \<Longrightarrow> I p \<Longrightarrow> I (snd (k_write env path content mode p))"
    and "I p"
  shows "I (snd (materializeSkillWorkspace env root r p))"
proof -
  have w: "I p \<Longrightarrow> d \<in> set resource_prefixes \<Longrightarrow> I (snd (write_files env root d mode fs p))" for d mode fs p
    by (rule write_files_inv [OF assms(1) _ dirs files])
  have d: "''references'' \<in> set resource_prefixes" "''assets'' \<in> set resource_prefixes" "''scripts'' \<in> set resource_prefixes"
    by (simp_all add: resource_prefixes_def)
  obtain r1 p1 where 1: "write_files env root ''references'' 420 (res_references r) p = (r1, p1)" by fastforce
  obtain r2 p2 where 2: "write_files env root ''assets'' 420 (res_assets r) p1 = (r2, p2)" by fastforce
  have p1: "I p1" using w [OF assms(4) d(1), of 420 "res_references r"] 1 by simp
  have p2: "I p2" using w [OF p1 d(2), of 420 "res_assets r"] 2 by simp
  show ?thesis
    unfolding materializeSkillWorkspace_def
    by (cases r1; cases r2) (use 1 2 p1 p2 w [OF p2 d(3)] in simp_all)
qed

section \<open>The command\<close>

text \<open>A command that runs a script of a skill of the tool set, in the root of its workspace, for at
  least a second and at most half an hour.\<close>

definition permitted :: "toolset \<Rightarrow> command \<Rightarrow> bool" where
  "permitted ts cmd \<longleftrightarrow> 1 \<le> cmd_timeout cmd \<and> cmd_timeout cmd \<le> 1800 \<and>
     (\<exists>e script. e \<in> snd ` set (ts_byName ts) \<and> GetScript (en_resources e) script \<noteq> None \<and>
        (let path = ''scripts/'' @ script in
         cmd_name cmd = path \<or> (cmd_name cmd \<in> {''python3'', ''bash''} \<and> cmd_args cmd \<noteq> [] \<and> hd (cmd_args cmd) = path)))"

lemma normalizeScriptPath_path:
  assumes "normalizeScriptPath s = Some (name, path)"
  shows "path = ''scripts/'' @ name"
proof -
  obtain s' where s': "normalizeSkillRelativePath s' = Some name" "path = Path_Join [''scripts'', name]"
    using assms by (auto simp: normalizeScriptPath_def Let_def split: option.splits)
  obtain es where es: "es \<noteq> []" "\<forall>e \<in> set es. proper e" "name = Join es [slash]"
    using normalize_proper [OF s'(1)] by blast
  have d: "proper ''scripts''" by (simp add: proper_def)
  obtain e es' where "es = e # es'" using es(1) by (cases es) auto
  then have ne: "name \<noteq> []" using es(2,3) by (cases es') (auto simp: proper_def)
  have "elements (''scripts'' @ slash # name) = ''scripts'' # es"
    using elements_append [of "''scripts''" name] elements_Join [OF es(2)] es(3) by (simp add: elements_def)
  moreover have "\<forall>e \<in> set (''scripts'' # es). proper e" using es(2) d by simp
  ultimately have "Clean (''scripts'' @ slash # name) = Join (''scripts'' # es) [slash]"
    by (simp add: Clean_def IsAbs_def clean_elements_proper assemble_def)
  also have "\<dots> = ''scripts/'' @ name" using es(1,3) by (cases es) auto
  finally show ?thesis using ne s'(2) by (simp add: Path_Join_def)
qed

lemma check_run_permitted:
  assumes "check_run env ts rq = Inr (res, path, t)"
  shows "permitted ts (script_command env' root path args ov t)" and "cmd_dir (script_command env' root path args ov t) = root"
proof -
  obtain e name where e: "map_of (ts_byName ts) (rq_skill rq) = Some e" "normalizeScriptPath (rq_script rq) = Some (name, path)"
      "GetScript (en_resources e) name \<noteq> None" "0 < t" "t \<le> 1800"
    using assms by (auto simp: check_run_def Let_def split: option.splits if_splits)
  have "e \<in> snd ` set (ts_byName ts)" using map_of_SomeD [OF e(1)] by force
  with e normalizeScriptPath_path [OF e(2)] show "permitted ts (script_command env' root path args ov t)"
    unfolding permitted_def by (auto simp: script_command_def Let_def)
  show "cmd_dir (script_command env' root path args ov t) = root" by (simp add: script_command_def Let_def)
qed

lemma in_workspace_prefix:
  assumes "in_workspace root path" and "root \<noteq> [slash]"
  shows "HasPrefix path (root @ [slash])"
proof -
  obtain rs d es where r: "root = slash # Join rs [slash]" "path = slash # Join (rs @ d # es) [slash]"
    using assms(1) by (auto simp: in_workspace_def rooted_def)
  then have ne: "rs \<noteq> []" using assms(2) by auto
  have "Join (rs @ d # es) [slash] = Join rs [slash] @ slash # Join (d # es) [slash]" using ne
    by (induction rs "[slash]" rule: Join.induct) auto
  then show ?thesis by (simp add: r HasPrefix_iff)
qed

section \<open>Properties\<close>


text \<open>A skill with one script, and an outside that records the paths it is asked to touch.\<close>

definition demo_skill :: skill where
  "demo_skill = staticSkill \<lparr>fm_name = ''demo'', fm_description = ''A demo.'', fm_license = [], fm_compatibility = [],
     fm_allowedTools = [], fm_metadata = None\<rparr> ''Run it.''
     \<lparr>res_references = [(''../x'', ''escape'')], res_assets = [], res_scripts = [(''go.sh'', ''echo'')]\<rparr>"

definition demo_toolset :: toolset where
  "demo_toolset = \<lparr>ts_skills = [demo_skill], ts_byName = [(''demo'', \<lparr>en_skill = demo_skill,
     en_frontmatter = the (sk_frontmatter demo_skill), en_resources = resolveResources demo_skill\<rparr>)],
     ts_patterns = [], ts_instruction = []\<rparr>"

definition log_env :: "string list skill_env" where
  "log_env = \<lparr>k_marshal = (\<lambda>_. None), k_decode_name = Inl, k_decode_resource = Inl,
     k_decode_run = (\<lambda>i. Inr \<lparr>rq_skill = ''demo'', rq_script = ''go.sh'', rq_args = [], rq_env = [], rq_timeout = 0\<rparr>),
     k_mktemp = (\<lambda>p. (Inr ''/tmp/x'', p)), k_mkdir = (\<lambda>path p. (None, path # p)),
     k_write = (\<lambda>path _ _ p. (None, path # p)), k_remove = (\<lambda>path p. path # p), k_environ = [],
     k_exec = (\<lambda>cmd p. ((Succeeded, [], []), cmd_dir cmd # p))\<rparr>"


section \<open>The environment of a script\<close>

text \<open>\<open>mergeCommandEnv\<close> gives every overridden variable exactly the value asked for, once, and leaves
  the entries of every other variable as they were, in order.\<close>

theorem merge_env_overrides:
  assumes "gomap_ok overrides" and "\<forall>k \<in> gomap_keys overrides. CHR ''='' \<notin> set k"
  shows "filter (\<lambda>item. env_key item = k) (mergeCommandEnv base overrides) =
    (case map_of overrides k of Some v \<Rightarrow> [k @ ''='' @ v] | None \<Rightarrow> filter (\<lambda>item. env_key item = k) base)"
proof -
  let ?entry = "\<lambda>key. key @ ''='' @ the (map_of overrides key)"
  have key: "env_key (k' @ CHR ''='' # v) = k'" if "k' \<in> gomap_keys overrides" for k' v
    unfolding env_key_def using that assms(2) by (subst takeWhile_append2) auto
  have "filter (\<lambda>item. env_key item = k) (map ?entry ks) = (if k \<in> set ks then [?entry k] else [])"
    if "distinct ks" "set ks \<subseteq> gomap_keys overrides" for ks
    using that by (induction ks) (auto simp: key)
  moreover have "distinct (sort (map fst overrides))" using assms(1) by (simp add: gomap_ok_def)
  ultimately have new: "filter (\<lambda>item. env_key item = k) (map ?entry (sort (map fst overrides))) =
      (if k \<in> gomap_keys overrides then [?entry k] else [])" by simp
  show ?thesis
  proof (cases "map_of overrides k")
    case None
    then have "k \<notin> gomap_keys overrides" by (simp add: map_of_eq_None_iff)
    then show ?thesis using new None unfolding mergeCommandEnv_def
      by (auto simp: filter_id_conv intro!: filter_cong)
  next
    case (Some v)
    then have "k \<in> gomap_keys overrides" "overrides \<noteq> []" by (auto simp: gomap_keys_lookup)
    then show ?thesis using new Some unfolding mergeCommandEnv_def
      by (auto simp: filter_empty_conv)
  qed
qed

theorem merge_env_overrides_witness:
  "filter (\<lambda>item. env_key item = ''A'') (mergeCommandEnv [''A=1'', ''B=2'', ''A=3''] [(''A'', ''9'')]) = [''A=9'']"
  using merge_env_overrides [of "[(''A'', ''9'')]" "''A''" "[''A=1'', ''B=2'', ''A=3'']"] by (simp add: gomap_ok_def)

section \<open>Front matter\<close>

lemma Index_newline: "newline \<notin> set l \<Longrightarrow> Index (l @ newline # s) [newline] = Some (length l)"
  by (induction l) auto

lemma cutLine_line: "newline \<notin> set l \<Longrightarrow> cutLine (l @ newline # s) = (l, s, True)"
  by (simp add: cutLine_def Index_newline)

lemma delimiter_dashes: "isFrontmatterDelimiterLine ''---''"
  by (simp add: isFrontmatterDelimiterLine_def trimTrailingCarriageReturn_def TrimSuffix_def HasSuffix_def)

lemma find_closing_lines:
  assumes "\<forall>l \<in> set ls. newline \<notin> set l \<and> \<not> isFrontmatterDelimiterLine l"
  shows "find_closing n (concat (map (\<lambda>l. l @ [newline]) ls) @ ''---'' @ newline # body) =
    Some (n + length (concat (map (\<lambda>l. l @ [newline]) ls)), body)"
  using assms
proof (induction ls arbitrary: n)
  case Nil
  show ?case using cutLine_line [of "''---''" body] by (subst find_closing.simps) (simp add: delimiter_dashes)
next
  case (Cons l ls)
  let ?rest = "concat (map (\<lambda>l. l @ [newline]) ls) @ ''---'' @ newline # body"
  have "find_closing n (l @ newline # ?rest) = find_closing (n + length l + 1) ?rest"
    using Cons.prems cutLine_line [of l ?rest] by (subst find_closing.simps) simp
  then show ?case using Cons by simp
qed

text \<open>A front matter block whose lines are not delimiters is split off exactly, whatever follows
  it.\<close>

theorem front_matter_round_trip:
  assumes "\<forall>line \<in> set (split_on newline front). \<not> isFrontmatterDelimiterLine line"
  shows "splitFrontmatterBlock (''---'' @ [newline] @ front @ [newline] @ ''---'' @ [newline] @ body) =
    Inr (front @ [newline], body)"
proof -
  let ?ls = "split_on newline front"
  have lines: "concat (map (\<lambda>l. l @ [newline]) ?ls) = front @ [newline]"
    using Join_newline_concat [of ?ls newline] by (simp add: Join_split)
  have ok: "\<forall>l \<in> set ?ls. newline \<notin> set l \<and> \<not> isFrontmatterDelimiterLine l"
    using assms split_on_no_sep by blast
  have "find_closing 0 (front @ newline # ''---'' @ newline # body) = Some (length front + 1, body)"
    using find_closing_lines [OF ok, of 0 body] unfolding lines by simp
  moreover have "cutLine (''---'' @ newline # front @ newline # ''---'' @ newline # body) =
      (''---'', front @ newline # ''---'' @ newline # body, True)"
    by (rule cutLine_line) simp
  ultimately show ?thesis by (simp add: splitFrontmatterBlock_def delimiter_dashes)
qed

theorem front_matter_round_trip_witness:
  "splitFrontmatterBlock (''---'' @ [newline] @ ''name: x'' @ [newline] @ ''---'' @ [newline] @ ''Body'') =
     Inr (''name: x'' @ [newline], ''Body'')"
  by (rule front_matter_round_trip)
    (simp add: isFrontmatterDelimiterLine_def trimTrailingCarriageReturn_def TrimSuffix_def HasSuffix_def)

end
