(* ===== verification/File_Props.thy ===== *)
theory File_Props
  imports File_Tools
begin

text \<open>
  What the file tools promise: with \<open>RestrictToWorkspace\<close> they stay in the workspace, reading by line
  ranges takes a file apart, an edit replaces exactly the matches it expects, and an edit of a file
  longer than the reading limit loses its end.
\<close>

section \<open>Paths\<close>

text \<open>What the library documents: the working directory and a resolved absolute path are absolute.\<close>

definition absolute_paths :: "'p file_env \<Rightarrow> bool" where
  "absolute_paths env \<longleftrightarrow> (\<forall>wd. x_getwd env = Inr wd \<longrightarrow> IsAbs wd) \<and>
     (\<forall>p path real. x_evalSymlinks env p path = Inr real \<longrightarrow> IsAbs path \<longrightarrow> IsAbs real)"

lemma fs_result_Inr [simp]: "fs_result r = Inr x \<longleftrightarrow> r = Inr x"
  by (cases r) auto

lemma Abs_rooted:
  assumes "absolute_paths env" and "Abs_path env q = Inr r"
  shows "rooted_path r"
proof (cases "IsAbs q")
  case True
  then show ?thesis using assms(2) Clean_absolute by (auto simp: Abs_path_def)
next
  case False
  then obtain wd where wd: "x_getwd env = Inr wd" "r = Path_Join [wd, q]" using assms(2) by (auto simp: Abs_path_def)
  then have abs: "IsAbs wd" using assms(1) by (simp add: absolute_paths_def)
  then have "wd \<noteq> []" by (auto simp: IsAbs_def)
  then show ?thesis
    using abs wd(2) Clean_absolute IsAbs_append [of wd] by (cases "q = []") (auto simp: Path_Join_def)
qed

lemma workspaceRoot_rooted:
  assumes abs: "absolute_paths env" and root: "workspaceRoot env cfg p = Inr root"
  shows "rooted_path root"
proof -
  define dir where "dir = (if TrimSpace (ec_workingDir cfg) = [] then ''.'' else TrimSpace (ec_workingDir cfg))"
  obtain a where a: "Abs_path env dir = Inr a"
      "(case x_evalSymlinks env p a of Inr real \<Rightarrow> Inr (Clean real) | Inl (NotExist e) \<Rightarrow> Inr (Clean a)
        | Inl (OtherError e) \<Rightarrow> Inl (OtherError e)) = Inr root"
    using root by (auto simp: workspaceRoot_def Let_def simp flip: dir_def)
  have "rooted_path a" using Abs_rooted [OF abs a(1)] .
  then have "IsAbs a" by (rule rooted_path_abs)
  show ?thesis
  proof (cases "x_evalSymlinks env p a")
    case (Inr real)
    then have "IsAbs real" using abs \<open>IsAbs a\<close> by (auto simp: absolute_paths_def)
    then show ?thesis using a(2) Inr Clean_absolute by auto
  next
    case (Inl e)
    then show ?thesis using a(2) \<open>rooted_path a\<close> by (cases e) auto
  qed
qed

lemma isWithinRoot_iff: "rooted_path root \<Longrightarrow> rooted_path t \<Longrightarrow> isWithinRoot root t \<longleftrightarrow> within root t"
proof
  assume r: "rooted_path root" "rooted_path t" and "isWithinRoot root t"
  then obtain rel where rel: "Rel root t = Some rel" "rel = ''.'' \<or> rel \<noteq> ''..'' \<and> \<not> HasPrefix rel ''../''"
    by (auto simp: isWithinRoot_def split: option.splits)
  then have "rel \<noteq> ''..'' \<and> \<not> HasPrefix rel ''../''" by auto
  then show "within root t" using Rel_within [OF r rel(1)] by blast
next
  assume "within root t"
  from within_Rel [OF this] show "isWithinRoot root t" by (auto simp: isWithinRoot_def)
qed

lemma resolvePath_within:
  assumes abs: "absolute_paths env" and restrict: "ec_restrict cfg"
    and root: "workspaceRoot env cfg p = Inr root" and path: "resolvePath env cfg p input mustExist = Inr path"
  shows "within root path"
proof -
  have r: "rooted_path root" using workspaceRoot_rooted [OF abs root] .
  have ok: "Abs_path env q = Inr t \<Longrightarrow> isWithinRoot root t \<Longrightarrow> within root (Clean t)" for q t
    using Abs_rooted [OF abs] isWithinRoot_iff [OF r] by force
  have e: "resolve_existing env cfg p root input c = Inr t \<Longrightarrow> within root t" for c t
    using restrict ok by (auto simp: resolve_existing_def)
  have m: "resolve_missing env cfg p root input c = Inr t \<Longrightarrow> within root t" for c t
    using restrict ok by (auto simp: resolve_missing_def split: option.splits)
  obtain c where "(case x_lstat env p c of None \<Rightarrow> resolve_existing env cfg p root input c
      | Some (OtherError e) \<Rightarrow> Inl e
      | Some (NotExist _) \<Rightarrow> echeck (fail_if mustExist (''path does not exist: '' @ input))
          (resolve_missing env cfg p root input c)) = Inr path"
    using path root by (auto simp: resolvePath_def)
  then show ?thesis
    by (cases "x_lstat env p c"; cases "the (x_lstat env p c)") (auto dest: e m)
qed

lemma resolveWorkingDir_within:
  assumes "absolute_paths env" and "ec_restrict cfg" and "workspaceRoot env cfg p = Inr root"
    and "resolveWorkingDir env cfg p input = Inr path"
  shows "within root path"
  using assms resolvePath_within [OF assms(1,2,3)] workspaceRoot_rooted [OF assms(1,3)]
  by (auto simp: resolveWorkingDir_def split: if_splits)

lemma existing_file_within:
  assumes "absolute_paths env" and "ec_restrict cfg" and "workspaceRoot env cfg p = Inr root"
    and "existing_file env cfg p input = Inr path"
  shows "within root path"
  using assms(4) resolvePath_within [OF assms(1,2,3)] by (auto simp: existing_file_def)

text \<open>Resolving does not read files.\<close>

lemma ancestor_loop_reads [simp]: "ancestor_loop (env\<lparr>x_readFile := f\<rparr>) p path c = ancestor_loop env p path c"
proof (induction env p path c rule: ancestor_loop.induct)
  case (1 env p path c)
  show ?case
    by (subst (1 2) ancestor_loop.simps) (auto split: sum.split fs_error.split intro: 1)
qed

lemma reads_simps [simp]:
  "Abs_path (env\<lparr>x_readFile := f\<rparr>) = Abs_path env"
  "workspaceRoot (env\<lparr>x_readFile := f\<rparr>) = workspaceRoot env"
  "deepestExistingAncestor (env\<lparr>x_readFile := f\<rparr>) = deepestExistingAncestor env"
  "resolvePath (env\<lparr>x_readFile := f\<rparr>) = resolvePath env"
  "existing_file (env\<lparr>x_readFile := f\<rparr>) = existing_file env"
proof -
  show a: "Abs_path (env\<lparr>x_readFile := f\<rparr>) = Abs_path env" by (intro ext) (simp add: Abs_path_def)
  show w: "workspaceRoot (env\<lparr>x_readFile := f\<rparr>) = workspaceRoot env" by (intro ext) (simp add: workspaceRoot_def a)
  show d: "deepestExistingAncestor (env\<lparr>x_readFile := f\<rparr>) = deepestExistingAncestor env"
    by (intro ext) (simp add: deepestExistingAncestor_def)
  have e: "resolve_existing (env\<lparr>x_readFile := f\<rparr>) = resolve_existing env"
    by (intro ext) (simp add: resolve_existing_def a)
  have m: "resolve_missing (env\<lparr>x_readFile := f\<rparr>) = resolve_missing env"
    by (intro ext) (simp add: resolve_missing_def a d)
  show r: "resolvePath (env\<lparr>x_readFile := f\<rparr>) = resolvePath env"
    by (intro ext) (simp add: resolvePath_def a w e m cong: option.case_cong fs_error.case_cong)
  show "existing_file (env\<lparr>x_readFile := f\<rparr>) = existing_file env" by (intro ext) (simp add: existing_file_def r)
qed

lemma ebind_same: "(\<And>x. r = Inr x \<Longrightarrow> f x = g x) \<Longrightarrow> ebind r f = ebind r g"
  by (cases r) auto

lemma read_handle_local:
  assumes "absolute_paths env" and "ec_restrict cfg" and "workspaceRoot env cfg p = Inr root"
    and same: "\<And>path. within root path \<Longrightarrow> f p path = x_readFile env p path"
  shows "read_handle (env\<lparr>x_readFile := f\<rparr>) cfg p raw = read_handle env cfg p raw"
proof -
  have "readTextFile (env\<lparr>x_readFile := f\<rparr>) p path = readTextFile env p path"
    if "existing_file env cfg p input = Inr path" for input path
    using same [OF existing_file_within [OF assms(1,2,3) that]] by (simp add: readTextFile_def)
  then show ?thesis by (simp add: read_handle_def cong: ebind_cong)
qed

section \<open>The workspace\<close>

lemma write_handle_inv:
  assumes "absolute_paths env" and "ec_restrict cfg" and "workspaceRoot env cfg p = Inr root"
    and mk: "\<And>path p. within root path \<Longrightarrow> I p \<Longrightarrow> I (snd (x_mkdirAll env (Dir path) p))"
    and wr: "\<And>path content p. within root path \<Longrightarrow> I p \<Longrightarrow> I (snd (atomicWriteFile env path content p))"
    and "I p"
  shows "I (snd (write_handle env cfg raw p))"
proof (cases "x_decodeWrite env raw")
  case (Inr i)
  show ?thesis
  proof (cases "resolvePath env cfg p (wi_path i) False")
    case (Inr path)
    have w: "within root path" using resolvePath_within [OF assms(1,2,3) Inr] .
    obtain r p1 where p1: "prepare_parent env (wi_createDirs i) (Dir path) p = (r, p1)" by fastforce
    have "I p1" using p1 mk [OF w assms(6)] assms(6)
      by (auto simp: prepare_parent_def split: if_splits prod.splits option.splits sum.splits)
    then show ?thesis
      using p1 w wr [OF w] assms(6) Inr \<open>x_decodeWrite env raw = Inr i\<close>
      by (auto simp: write_handle_def Let_def split: prod.split option.split)
         (metis snd_conv)+
  qed (simp add: write_handle_def Let_def Inr assms(6))
qed (simp add: write_handle_def assms(6))

lemma edit_handle_inv:
  assumes "absolute_paths env" and "ec_restrict cfg" and "workspaceRoot env cfg p = Inr root"
    and wr: "\<And>path content p. within root path \<Longrightarrow> I p \<Longrightarrow> I (snd (atomicWriteFile env path content p))"
    and "I p"
  shows "I (snd (edit_handle env cfg raw p))"
proof (cases "\<exists>i path content. x_decodeEdit env raw = Inr i \<and> plan_edit env cfg p i = Inr (path, content)")
  case True
  then obtain i path content where i: "x_decodeEdit env raw = Inr i" "plan_edit env cfg p i = Inr (path, content)" by blast
  have "within root path" using i(2) existing_file_within [OF assms(1,2,3)] by (auto simp: plan_edit_def)
  then have "I q" if "atomicWriteFile env path content p = (r, q)" for r q using wr assms(5) that by (metis snd_conv)
  then show ?thesis using i by (auto simp: edit_handle_def split: prod.split option.split)
next
  case False
  then show ?thesis using assms(5) by (auto simp: edit_handle_def split: sum.split)
qed

lemma NewBashTool_cfg:
  "ec_restrict (bt_cfg (NewBashTool env cfg)) = ec_restrict cfg"
  "workspaceRoot env (bt_cfg (NewBashTool env cfg)) = workspaceRoot env cfg"
  by (auto simp: NewBashTool_def Let_def workspaceRoot_def fun_eq_iff split: sum.split)

lemma bash_handle_inv:
  assumes "absolute_paths env" and "ec_restrict cfg" and "workspaceRoot env cfg p = Inr root"
    and sh: "\<And>dir command timeout p. within root dir \<Longrightarrow> 0 < timeout \<Longrightarrow> I p \<Longrightarrow> I (snd (x_shell env dir command timeout p))"
    and "I p"
  shows "I (snd (bash_handle env (NewBashTool env cfg) raw p))"
proof -
  have dir: "resolveWorkingDir env (bt_cfg (NewBashTool env cfg)) p input = Inr dir \<Longrightarrow> within root dir" for input dir
    using resolveWorkingDir_within [of env "bt_cfg (NewBashTool env cfg)" p root] assms(1,2,3) by (simp add: NewBashTool_cfg)
  have t: "0 < call_timeout a b" for a b by (simp add: call_timeout_def Let_def)
  have "I q" if "resolveWorkingDir env (bt_cfg (NewBashTool env cfg)) p input = Inr d"
      "x_shell env d c (call_timeout a b) p = ((how, out), q)" for input d c a b how out q
    using sh [OF dir [OF that(1)] t assms(5), of c a b] that(2) by simp
  then show ?thesis
    using assms(5) by (auto simp: bash_handle_def Let_def split: sum.split prod.split)
qed

section \<open>Line ranges\<close>

lemma splitLines_concat [simp]: "concat (splitLines c) = c"
proof (cases "c = []")
  case False
  let ?ls = "split_after newline c"
  have "concat ?ls = concat (butlast ?ls) @ last ?ls"
    by (metis append_butlast_last_id concat.simps concat_append append_Nil2 split_after_nonempty)
  then have c: "concat (butlast ?ls) @ last ?ls = c" by (simp only: concat_split_after)
  then show ?thesis using False by (auto simp: splitLines_def Let_def)
qed (simp add: splitLines_def)

lemma split_after_lines:
  "(\<forall>l \<in> set (butlast (split_after sep c)). \<exists>m. l = m @ [sep] \<and> sep \<notin> set m) \<and> sep \<notin> set (last (split_after sep c))"
proof (induction c)
  case (Cons x c)
  obtain w ws where w: "split_after sep c = w # ws" using split_after_nonempty list.exhaust by metis
  show ?case
  proof (cases "x = sep")
    case True
    then have "split_after sep (x # c) = [sep] # w # ws" using w by simp
    then show ?thesis using Cons w True by (auto intro: exI [of _ "[]"])
  next
    case ns: False
    then have s: "split_after sep (x # c) = (x # w) # ws" using w by simp
    show ?thesis
    proof (cases "ws = []")
      case True
      then show ?thesis using Cons w s ns by simp
    next
      case False
      then obtain v vs where ws: "ws = v # vs" by (cases ws) auto
      have "\<exists>m. w = m @ [sep] \<and> sep \<notin> set m" using Cons w ws by simp
      then obtain m where m: "w = m @ [sep]" "sep \<notin> set m" by blast
      have "x # w = (x # m) @ [sep]" "sep \<notin> set (x # m)" using m ns by auto
      then have "\<exists>m. x # w = m @ [sep] \<and> sep \<notin> set m" by blast
      then show ?thesis using s ws w Cons by simp
    qed
  qed
qed simp

text \<open>A line of a text: it has a newline at its end, or it is the last and has none.\<close>

lemma splitLines_lines:
  "\<forall>l \<in> set (splitLines c). l \<noteq> [] \<and> newline \<notin> set (butlast l)"
  "\<forall>l \<in> set (butlast (splitLines c)). last l = newline"
proof -
  let ?ls = "split_after newline c"
  have front: "\<forall>l \<in> set (butlast ?ls). \<exists>m. l = m @ [newline] \<and> newline \<notin> set m" and rest: "newline \<notin> set (last ?ls)"
    using split_after_lines [of newline c] by blast+
  have l: "set ?ls = set (butlast ?ls) \<union> {last ?ls}"
    by (metis append_butlast_last_id list.simps(15) list.set(1) set_append split_after_nonempty)
  have f: "\<forall>l \<in> set (butlast ?ls). l \<noteq> [] \<and> newline \<notin> set (butlast l) \<and> last l = newline" using front by force
  have b: "newline \<notin> set (butlast (last ?ls))" using rest by (auto dest: in_set_butlastD)
  show "\<forall>l \<in> set (splitLines c). l \<noteq> [] \<and> newline \<notin> set (butlast l)"
    using f b l by (auto simp: splitLines_def Let_def)
  show "\<forall>l \<in> set (butlast (splitLines c)). last l = newline"
    using f by (auto simp: splitLines_def Let_def dest: in_set_butlastD)
qed

lemma sliceLines_range:
  assumes "1 \<le> a" and "a \<le> b" and "b \<le> int (length (splitLines c))"
  shows "sliceLines c a b = Inr (concat (drop (nat (a - 1)) (take (nat b) (splitLines c))), a, b, int (length (splitLines c)))"
  using assms by (auto simp: sliceLines_def Let_def Join_concat)

section \<open>Edits\<close>

text \<open>What a list of edits does to a text: each cuts it at the matches of its old text, of which there
  are as many as it expects, and joins the pieces with its new text.\<close>

definition matches_expected :: "stringEdit \<Rightarrow> nat \<Rightarrow> bool" where
  "matches_expected e n \<longleftrightarrow> 0 < n \<and> (if ed_all e then ed_expected e \<le> 0 \<or> ed_expected e = int n
     else int n = max 1 (ed_expected e))"

inductive edited :: "stringEdit list \<Rightarrow> string \<Rightarrow> string \<Rightarrow> bool" where
  edited_none: "edited [] t t"
| edited_one: "ed_old e \<noteq> [] \<Longrightarrow> matches_expected e n \<Longrightarrow> length ps = Suc n \<Longrightarrow> \<forall>p \<in> set ps. \<not> Contains p (ed_old e) \<Longrightarrow>
    edited es (Join ps (ed_new e)) u \<Longrightarrow> edited (e # es) (Join ps (ed_old e)) u"

lemma apply_edit_pieces:
  assumes "apply_edit i t e = Inr u"
  shows "ed_old e \<noteq> [] \<and> (\<exists>n ps. matches_expected e n \<and> length ps = Suc n \<and> (\<forall>p \<in> set ps. \<not> Contains p (ed_old e)) \<and>
    t = Join ps (ed_old e) \<and> u = Join ps (ed_new e))"
proof -
  have old: "ed_old e \<noteq> []" using assms by (auto simp: apply_edit_def)
  have m: "matches_expected e (Count_Text t (ed_old e))"
    using assms old by (auto simp: apply_edit_def Let_def matches_expected_def split: if_splits)
  have "u = ReplaceAll t (ed_old e) (ed_new e)"
    using assms old Replace_count [of t "ed_old e" "ed_new e"]
    by (auto simp: apply_edit_def Let_def split: if_splits)
  with ReplaceAll_pieces [OF old, of t "ed_new e"] m old show ?thesis by blast
qed

lemma apply_edits_edited: "apply_edits i t es = Inr u \<Longrightarrow> edited es t u"
proof (induction es arbitrary: i t)
  case (Cons e es)
  then obtain t' where t': "apply_edit i t e = Inr t'" "apply_edits (Suc i) t' es = Inr u" by auto
  with Cons.IH apply_edit_pieces [OF t'(1)] show ?case by (blast intro: edited_one)
qed (simp add: edited_none)

section \<open>An example disk\<close>

text \<open>A disk with a workspace \<open>/ws\<close> in which \<open>out\<close> is a symbolic link to \<open>/etc\<close>; the state is the
  contents of the files.\<close>

definition demo_real :: "string \<Rightarrow> string" where
  "demo_real path = (if HasPrefix path ''/ws/out'' then ''/etc'' @ drop 7 path else path)"

definition demo_dirs :: "string list" where
  "demo_dirs = [''/'', ''/ws'', ''/ws/out'', ''/etc'']"

definition demo_files :: "(string, string) gomap file_env" where
  "demo_files = \<lparr>x_getwd = Inr ''/home'',
     x_evalSymlinks = (\<lambda>p path. Inr (demo_real path)),
     x_lstat = (\<lambda>p path. if path \<in> set demo_dirs \<or> map_of p (demo_real path) \<noteq> None then None else Some (NotExist ''no such file'')),
     x_stat = (\<lambda>p path. if path \<in> set demo_dirs then Inr True
       else if map_of p (demo_real path) \<noteq> None then Inr False else Inl (NotExist ''no such file'')),
     x_readFile = (\<lambda>p path. case map_of p (demo_real path) of Some c \<Rightarrow> Inr c | None \<Rightarrow> Inl (NotExist ''no such file'')),
     x_mkdirAll = (\<lambda>path p. (None, p)),
     x_createTemp = (\<lambda>dir p. (Inr (dir @ ''/.blades-1''), p)),
     x_writeString = (\<lambda>tmp content p. (None, AList.update tmp content p)),
     x_close = (\<lambda>tmp p. (None, p)),
     x_rename = (\<lambda>tmp path p. (None, AList.update path (the (map_of p tmp)) p)),
     x_remove = (\<lambda>tmp p. AList.delete tmp p),
     x_compile = (\<lambda>pattern. Inr (\<lambda>s. False)),
     x_shell = (\<lambda>dir command timeout p. ((ShellOk, dir), p)),
     x_duration = (\<lambda>_. ''1m0s''),
     x_decodeRead = (\<lambda>raw. Inr \<lparr>ri_path = raw, ri_start = 0, ri_end = 0\<rparr>),
     x_decodeEdit = (\<lambda>raw. Inr \<lparr>ei_path = raw, ei_edits = [\<lparr>ed_old = ''x'', ed_new = ''y'', ed_all = False, ed_expected = 0\<rparr>]\<rparr>),
     x_decodeWrite = (\<lambda>raw. Inr \<lparr>wi_path = raw, wi_content = ''new'', wi_ifExists = [], wi_createDirs = True\<rparr>),
     x_decodeBash = (\<lambda>raw. Inr \<lparr>bi_command = ''pwd'', bi_dir = raw, bi_timeout = 0\<rparr>)\<rparr>"

definition demo_config :: ExecConfig where
  "demo_config = (DefaultExecConfig ''/ws'')\<lparr>ec_restrict := True\<rparr>"

lemma demo_absolute: "absolute_paths demo_files"
  by (auto simp: absolute_paths_def demo_files_def demo_real_def IsAbs_def)

lemma demo_restrict: "ec_restrict demo_config"
  by (simp add: demo_config_def)

lemma demo_root: "workspaceRoot demo_files demo_config p = Inr ''/ws''"
  by code_simp

lemma demo_outside: "\<not> within ''/ws'' ''/etc/passwd''"
proof
  assume "within ''/ws'' ''/etc/passwd''"
  then have "isWithinRoot ''/ws'' ''/etc/passwd''" using isWithinRoot_iff within_rooted by blast
  moreover have "\<not> isWithinRoot ''/ws'' ''/etc/passwd''" by code_simp
  ultimately show False by contradiction
qed

lemma demo_write:
  "atomicWriteFile demo_files path content p =
    (let tmp = Dir path @ ''/.blades-1'' in
     (None, AList.delete tmp (AList.update path content (AList.update tmp content p))))"
  by (simp add: atomicWriteFile_def demo_files_def Let_def update_conv)

lemma demo_keeps:
  assumes "within ''/ws'' path" and "map_of p ''/etc/passwd'' = Some ''root''"
  shows "map_of (snd (atomicWriteFile demo_files path content p)) ''/etc/passwd'' = Some ''root''"
proof -
  have "path \<noteq> ''/etc/passwd''" using assms(1) demo_outside by blast
  moreover have "d @ ''/.blades-1'' \<noteq> ''/etc/passwd''" for d :: string
  proof
    assume "d @ ''/.blades-1'' = ''/etc/passwd''"
    then have "last (d @ ''/.blades-1'') = last ''/etc/passwd''" by simp
    then show False by simp
  qed
  ultimately show ?thesis using assms(2) by (simp add: demo_write Let_def update_conv delete_conv)
qed

text \<open>A file whose first 262144 bytes are ASCII.\<close>

definition demo_head :: string where
  "demo_head = CHR ''x'' # replicate 262143 (CHR ''a'')"

lemma count_one: "Count_Text (CHR ''x'' # replicate n (CHR ''a'')) ''x'' = 1"
proof -
  have "\<not> Contains (replicate n (CHR ''a'')) ''x''"
  proof
    assume "Contains (replicate n (CHR ''a'')) ''x''"
    then obtain a b where "replicate n (CHR ''a'') = a @ ''x'' @ b" by (auto simp: Contains_iff)
    then have "CHR ''x'' \<in> set (replicate n (CHR ''a''))" by simp
    then show False by simp
  qed
  then have "Index (replicate n (CHR ''a'')) ''x'' = None" by (simp add: Index_None)
  then have "Count_Text (replicate n (CHR ''a'')) ''x'' = 0" by (simp add: Count_Text.simps [of "replicate n (CHR ''a'')"])
  then show ?thesis by (simp add: Count_Text.simps [of "CHR ''x'' # replicate n (CHR ''a'')"])
qed

lemma replace_one: "Replace (CHR ''x'' # replicate n (CHR ''a'')) ''x'' ''y'' 1 = CHR ''y'' # replicate n (CHR ''a'')"
  by (simp add: Replace_def Let_def count_one)

lemma demo_head_facts:
  "length demo_head = maxReadBytes" "utf8_valid demo_head" "CHR 0x00 \<notin> set demo_head"
  "apply_edits 0 demo_head [\<lparr>ed_old = ''x'', ed_new = ''y'', ed_all = False, ed_expected = 0\<rparr>] =
    Inr (CHR ''y'' # replicate 262143 (CHR ''a''))"
proof -
  have "length demo_head = Suc 262143" unfolding demo_head_def length_Cons length_replicate ..
  then show "length demo_head = maxReadBytes" by simp
  have s: "set demo_head \<subseteq> {CHR ''x'', CHR ''a''}" by (auto simp: demo_head_def)
  then have "c = CHR ''x'' \<or> c = CHR ''a''" if "c \<in> set demo_head" for c using that by auto
  then show "utf8_valid demo_head" by (intro utf8_valid_ascii) fastforce
  show "CHR 0x00 \<notin> set demo_head" using s by auto
  show "apply_edits 0 demo_head [\<lparr>ed_old = ''x'', ed_new = ''y'', ed_all = False, ed_expected = 0\<rparr>] =
    Inr (CHR ''y'' # replicate 262143 (CHR ''a''))"
    by (simp add: demo_head_def apply_edit_def Let_def count_one replace_one)
qed

section \<open>Properties\<close>



text \<open>Reading by line ranges takes a file apart without loss: the lines joined are the content, each
  ends at its newline, a range within the file gives exactly its lines, and two ranges that meet give
  the whole content; any other range is an error, except that zero stands for the first or the last line.\<close>

theorem read_ranges:
  assumes "0 < k" and "k < int (length (splitLines c))"
  shows "concat (splitLines c) = c \<and> (\<forall>l \<in> set (splitLines c). l \<noteq> [] \<and> newline \<notin> set (butlast l)) \<and>
    (\<forall>l \<in> set (butlast (splitLines c)). last l = newline) \<and>
    (\<exists>x y. sliceLines c 0 k = Inr (x, 1, k, int (length (splitLines c))) \<and>
       sliceLines c (k + 1) 0 = Inr (y, k + 1, int (length (splitLines c)), int (length (splitLines c))) \<and> x @ y = c) \<and>
    (\<forall>a b. 1 \<le> a \<longrightarrow> 1 \<le> b \<longrightarrow> (if a \<le> b \<and> b \<le> int (length (splitLines c))
       then sliceLines c a b = Inr (concat (drop (nat (a - 1)) (take (nat b) (splitLines c))), a, b, int (length (splitLines c)))
       else isl (sliceLines c a b)))"
proof -
  let ?ls = "splitLines c"
  have ne: "?ls \<noteq> []" using assms by auto
  have "sliceLines c 0 k = Inr (concat (take (nat k) ?ls), 1, k, int (length ?ls))"
    using assms ne by (simp add: sliceLines_def Let_def Join_concat)
  moreover have "sliceLines c (k + 1) 0 = Inr (concat (drop (nat k) ?ls), k + 1, int (length ?ls), int (length ?ls))"
    using assms ne by (simp add: sliceLines_def Let_def Join_concat)
  moreover have "concat (take (nat k) ?ls) @ concat (drop (nat k) ?ls) = c"
    by (metis append_take_drop_id concat_append splitLines_concat)
  moreover have "isl (sliceLines c a b)" if "1 \<le> a" "1 \<le> b" "\<not> (a \<le> b \<and> b \<le> int (length ?ls))" for a b
    using that assms by (auto simp: sliceLines_def Let_def)
  ultimately show ?thesis using splitLines_lines [of c] sliceLines_range [of _ _ c] by simp
qed

theorem read_ranges_witness:
  "\<exists>x y. sliceLines [CHR ''a'', newline, CHR ''b''] 0 1 = Inr (x, 1, 1, 2) \<and>
     sliceLines [CHR ''a'', newline, CHR ''b''] 2 0 = Inr (y, 2, 2, 2) \<and> x @ y = [CHR ''a'', newline, CHR ''b'']"
proof -
  have "length (splitLines [CHR ''a'', newline, CHR ''b'']) = 2" by (simp add: splitLines_def)
  then show ?thesis using read_ranges [of 1 "[CHR ''a'', newline, CHR ''b'']"] by simp
qed

text \<open>C25: A successful edit wrote one file, once: what it wrote comes from the first 262144 bytes of the
  file by the edits in order, each replacing exactly the matches it expects (one, the number given, or
  all). An edit that fails before the write leaves the outside alone.\<close>

theorem edit_exact:
  assumes "x_decodeEdit env raw = Inr i" and "edit_handle env cfg raw p = (r, p1)"
  shows "(\<exists>path old new. existing_file env cfg p (ei_path i) = Inr path \<and> x_readFile env p path = Inr old \<and>
      ei_edits i \<noteq> [] \<and> edited (ei_edits i) (take maxReadBytes old) new \<and> utf8_valid (take maxReadBytes old) \<and>
      (\<exists>e. atomicWriteFile env path new p = (e, p1) \<and> (e = None \<longleftrightarrow> \<not> isl r))) \<or>
    (p1 = p \<and> isl r)"
proof (cases "plan_edit env cfg p i")
  case (Inl e)
  then show ?thesis using assms by (auto simp: edit_handle_def)
next
  case (Inr w)
  obtain path new where w: "w = (path, new)" by fastforce
  obtain old where t: "existing_file env cfg p (ei_path i) = Inr path" "x_readFile env p path = Inr old"
      "ei_edits i \<noteq> []" "apply_edits 0 (take maxReadBytes old) (ei_edits i) = Inr new" "utf8_valid (take maxReadBytes old)"
    using Inr w by (auto simp: plan_edit_def readTextFile_def Let_def split: if_splits)
  obtain e q where "atomicWriteFile env path new p = (e, q)" by fastforce
  then show ?thesis
    using assms Inr w t apply_edits_edited [OF t(4)] by (cases e) (auto simp: edit_handle_def)
qed

theorem edit_exact_witness:
  "\<exists>old new. existing_file demo_files demo_config [(''/ws/a'', ''1x2'')] ''a'' = Inr ''/ws/a'' \<and>
     edited [\<lparr>ed_old = ''x'', ed_new = ''y'', ed_all = False, ed_expected = 0\<rparr>] (take maxReadBytes old) new \<and>
     fst (atomicWriteFile demo_files ''/ws/a'' new [(''/ws/a'', ''1x2'')]) = None"
proof -
  let ?p = "[(''/ws/a'', ''1x2'')] :: (string, string) gomap"
  have path: "existing_file demo_files demo_config ?p ''a'' = Inr ''/ws/a''" by code_simp
  let ?i = "\<lparr>ei_path = ''a'', ei_edits = [\<lparr>ed_old = ''x'', ed_new = ''y'', ed_all = False, ed_expected = 0\<rparr>]\<rparr>"
  have d: "x_decodeEdit demo_files ''a'' = Inr ?i" by (simp add: demo_files_def)
  have read: "readTextFile demo_files ?p ''/ws/a'' = Inr ''1x2''"
    by (simp add: readTextFile_def demo_files_def demo_real_def)
  have "plan_edit demo_files demo_config ?p ?i = Inr (''/ws/a'', ''1y2'')"
    by (simp add: plan_edit_def path read apply_edit_def Count_Text.simps Replace_def Let_def)
  then have ok: "\<not> isl (fst (edit_handle demo_files demo_config ''a'' ?p))"
    by (simp add: edit_handle_def d demo_write Let_def)
  obtain r p1 where r: "edit_handle demo_files demo_config ''a'' ?p = (r, p1)" by fastforce
  then have "\<not> isl r" using ok by simp
  from edit_exact [OF d r] show ?thesis
  proof (elim disjE exE conjE)
    fix path old new e
    assume c: "existing_file demo_files demo_config ?p (ei_path ?i) = Inr path" "edited (ei_edits ?i) (take maxReadBytes old) new"
      "atomicWriteFile demo_files path new ?p = (e, p1)" "(e = None) = (\<not> isl r)"
    have "path = ''/ws/a''" using c(1) path by simp
    then have "fst (atomicWriteFile demo_files ''/ws/a'' new ?p) = None" using c(3,4) \<open>\<not> isl r\<close> by simp
    with c(2) path show ?thesis by (intro exI conjI) simp_all
  next
    assume "isl r"
    with \<open>\<not> isl r\<close> show ?thesis by contradiction
  qed
qed

text \<open>Editing a file longer than 262144 bytes cuts it off: the end of the file is not read and the
  file is replaced by the edited beginning, with a success message.\<close>

theorem edit_truncates:
  assumes "x_decodeEdit env raw = Inr i" and "ei_edits i \<noteq> []" and "existing_file env cfg p (ei_path i) = Inr path"
    and "x_readFile env p path = Inr (head @ tail)" and "length head = maxReadBytes"
    and "utf8_valid head" and "CHR 0x00 \<notin> set head" and "apply_edits 0 head (ei_edits i) = Inr new"
    and "atomicWriteFile env path new p = (None, p1)"
  shows "edit_handle env cfg raw p =
    (Inr (''Updated file: '' @ path @ '' ('' @ Itoa (int (length (ei_edits i))) @ '' edits)''), p1)"
proof -
  have "readTextFile env p path = Inr head"
    using assms(4-7) by (cases tail) (simp_all add: readTextFile_def Let_def)
  then show ?thesis using assms by (simp add: edit_handle_def plan_edit_def)
qed

theorem edit_truncates_witness:
  "fst (edit_handle (demo_files\<lparr>x_readFile := \<lambda>_ _. Inr (demo_head @ ''b'')\<rparr>) demo_config ''a'' [(''/ws/a'', [])]) =
    Inr ''Updated file: /ws/a (1 edits)'' \<and>
   map_of (snd (edit_handle (demo_files\<lparr>x_readFile := \<lambda>_ _. Inr (demo_head @ ''b'')\<rparr>) demo_config ''a'' [(''/ws/a'', [])])) ''/ws/a'' =
    Some (CHR ''y'' # replicate 262143 (CHR ''a''))"
proof -
  let ?env = "demo_files\<lparr>x_readFile := \<lambda>_ _. Inr (demo_head @ ''b'')\<rparr>"
  let ?p = "[(''/ws/a'', [])] :: (string, string) gomap"
  let ?new = "CHR ''y'' # replicate 262143 (CHR ''a'')"
  let ?i = "\<lparr>ei_path = ''a'', ei_edits = [\<lparr>ed_old = ''x'', ed_new = ''y'', ed_all = False, ed_expected = 0\<rparr>]\<rparr>"
  have d: "x_decodeEdit ?env ''a'' = Inr ?i" by (simp add: demo_files_def)
  have path: "existing_file ?env demo_config ?p (ei_path ?i) = Inr ''/ws/a''"
    unfolding reads_simps by code_simp
  have read: "x_readFile ?env ?p ''/ws/a'' = Inr (demo_head @ ''b'')" by (simp add: demo_files_def)
  have w: "atomicWriteFile ?env ''/ws/a'' new ?p = atomicWriteFile demo_files ''/ws/a'' new ?p" for new
    by (simp add: atomicWriteFile_def demo_files_def)
  obtain p1 where p1: "atomicWriteFile ?env ''/ws/a'' ?new ?p = (None, p1)"
    unfolding w demo_write Let_def by blast
  have dir: "Dir ''/ws/a'' = ''/ws''" by code_simp
  have at: "map_of p1 ''/ws/a'' = Some ?new"
    using p1 unfolding w demo_write Let_def dir by (auto simp: update_conv delete_conv)
  have edits: "ei_edits ?i \<noteq> []" "apply_edits 0 demo_head (ei_edits ?i) = Inr ?new"
    using demo_head_facts(4) by (simp_all)
  have n: "Itoa (int (length (ei_edits ?i))) = ''1''" by code_simp
  have "edit_handle ?env demo_config ''a'' ?p = (Inr (''Updated file: '' @ ''/ws/a'' @ '' ('' @ ''1'' @ '' edits)''), p1)"
    using edit_truncates [OF d edits(1) path read demo_head_facts(1-3) edits(2) p1] unfolding n .
  with at show ?thesis by (simp)
qed

end
