(* ===== verification/Turn_Props.thy ===== *)
theory Turn_Props
  imports Turns
begin

text \<open>
  What a turn promises: the channel sees every tool call once, started before it ended; the reply is the
  last completed text; and what a turn leaves in the session's history.
\<close>

section \<open>Tool events\<close>

text \<open>The identifiers that were started and ended, in the order of the calls.\<close>

fun started :: "writer_call list \<Rightarrow> string list" where
  "started [] = []"
| "started (WriteEvent e # log) = (if ev_kind e = EventToolStart then ev_id e # started log else started log)"
| "started (_ # log) = started log"

fun ended :: "writer_call list \<Rightarrow> string list" where
  "ended [] = []"
| "ended (WriteEvent e # log) = (if ev_kind e = EventToolEnd then ev_id e # ended log else ended log)"
| "ended (_ # log) = ended log"

lemma started_append [simp]: "started (a @ b) = started a @ started b"
  by (induction a rule: started.induct) auto

lemma ended_append [simp]: "ended (a @ b) = ended a @ ended b"
  by (induction a rule: ended.induct) auto

text \<open>Every call is started once and ended at most once, after its start.\<close>

definition well_paired :: "writer_call list \<Rightarrow> bool" where
  "well_paired log \<longleftrightarrow> distinct (started log) \<and> distinct (ended log) \<and>
     (\<forall>before e after. log = before @ WriteEvent e # after \<longrightarrow> ev_kind e = EventToolEnd \<longrightarrow> ev_id e \<in> set (started before))"

definition collector_inv :: "streamCollector \<Rightarrow> bool" where
  "collector_inv c \<longleftrightarrow> (\<forall>log. sc_writer c = Some log \<longrightarrow>
     well_paired log \<and> set (started log) = sc_started c \<and> set (ended log) = sc_ended c)"

lemma well_paired_snoc:
  assumes "well_paired log"
    and "\<And>e. x = WriteEvent e \<Longrightarrow> ev_kind e = EventToolStart \<Longrightarrow> ev_id e \<notin> set (started log)"
    and "\<And>e. x = WriteEvent e \<Longrightarrow> ev_kind e = EventToolEnd \<Longrightarrow> ev_id e \<notin> set (ended log) \<and> ev_id e \<in> set (started log)"
  shows "well_paired (log @ [x])"
proof -
  have "ev_id e \<in> set (started before)"
    if "log @ [x] = before @ WriteEvent e # after" "ev_kind e = EventToolEnd" for before e after
  proof (cases after rule: rev_cases)
    case Nil
    then show ?thesis using that assms(3) by auto
  next
    case (snoc after' y)
    then have "log = before @ WriteEvent e # after'" using that(1) by simp
    then show ?thesis using assms(1) that(2) by (auto simp: well_paired_def)
  qed
  then show ?thesis
    using assms by (cases x) (auto simp: well_paired_def elim!: eventKind.exhaust split: if_splits)
qed

lemma start_event_inv: "collector_inv c \<Longrightarrow> collector_inv (start_event key tp c)"
  by (auto simp: collector_inv_def start_event_def write_call_def intro!: well_paired_snoc)

lemma start_event_fields [simp]:
  "sc_started (start_event key tp c) = insert key (sc_started c)"
  "sc_ended (start_event key tp c) = sc_ended c" "sc_buf (start_event key tp c) = sc_buf c"
  "sc_writer (start_event key tp c) = None \<longleftrightarrow> sc_writer c = None"
  by (auto simp: start_event_def write_call_def)

lemma end_event_inv:
  "collector_inv c \<Longrightarrow> key \<in> sc_started c \<Longrightarrow> key \<notin> sc_ended c \<Longrightarrow> collector_inv (end_event key tp c)"
  by (auto simp: collector_inv_def end_event_def write_call_def intro!: well_paired_snoc)

lemma end_event_fields [simp]:
  "sc_started (end_event key tp c) = sc_started c" "sc_ended (end_event key tp c) = insert key (sc_ended c)"
  "sc_buf (end_event key tp c) = sc_buf c" "sc_writer (end_event key tp c) = None \<longleftrightarrow> sc_writer c = None"
  by (auto simp: end_event_def write_call_def)

lemma emit_tool_inv: "collector_inv c \<Longrightarrow> collector_inv (emit_tool key tp c)"
  by (auto simp: emit_tool_def intro!: start_event_inv end_event_inv)

lemma emit_tool_fields [simp]:
  "sc_started (emit_tool key tp c) = (if tool_completed tp \<and> key \<in> sc_ended c then sc_started c else insert key (sc_started c))"
  "sc_ended (emit_tool key tp c) = (if tool_completed tp then insert key (sc_ended c) else sc_ended c)"
  "sc_buf (emit_tool key tp c) = sc_buf c" "sc_writer (emit_tool key tp c) = None \<longleftrightarrow> sc_writer c = None"
  by (auto simp: emit_tool_def)

lemma emit_parts_inv: "collector_inv c \<Longrightarrow> collector_inv (emit_parts ordinals ps c)"
  by (induction ordinals ps c rule: emit_parts.induct) (simp_all add: Let_def emit_tool_inv)

lemma emit_parts_fields [simp]:
  "sc_buf (emit_parts ordinals ps c) = sc_buf c" "sc_writer (emit_parts ordinals ps c) = None \<longleftrightarrow> sc_writer c = None"
  by (induction ordinals ps c rule: emit_parts.induct) (simp_all add: Let_def)

lemma consume_text_inv: "collector_inv c \<Longrightarrow> collector_inv (consume_text m c)"
  by (auto simp: collector_inv_def consume_text_def write_call_def Let_def intro!: well_paired_snoc)

lemma consume_inv: "collector_inv c \<Longrightarrow> collector_inv (consume m c)"
  by (auto simp: consume_def Let_def emitToolEvents_def consume_text_inv emit_parts_inv split: option.split)

lemma new_collector_inv: "collector_inv (newStreamCollector w)"
  by (simp add: collector_inv_def newStreamCollector_def well_paired_def)

lemma run_loop_collector_inv: "collector_inv c \<Longrightarrow> run_loop r steps c m = (e, c', m') \<Longrightarrow> collector_inv c'"
  by (induction r steps c m rule: run_loop.induct) (auto simp: consume_inv)

text \<open>Keys of a message's tool parts, as the loop computes them.\<close>

lemma emit_parts_mono:
  "sc_started c \<subseteq> sc_started (emit_parts ordinals ps c)" "sc_ended c \<subseteq> sc_ended (emit_parts ordinals ps c)"
  by (induction ordinals ps c rule: emit_parts.induct) (auto split: if_splits)

lemma emit_parts_covers:
  assumes "ToolPart tp \<in> set ps" and "TrimSpace (tool_id tp) \<noteq> []" and "sc_ended c \<subseteq> sc_started c"
  shows "tool_id tp \<in> sc_started (emit_parts ordinals ps c) \<and> (tool_completed tp \<longrightarrow> tool_id tp \<in> sc_ended (emit_parts ordinals ps c))"
  using assms
proof (induction ordinals ps c rule: emit_parts.induct)
  case (2 ordinals t ps c)
  let ?c = "emit_tool (ToolEventKey t (count_tool ordinals t (fingerprint t))) t c"
  show ?case
  proof (cases "t = tp")
    case True
    then have "ToolEventKey t (count_tool ordinals t (fingerprint t)) = tool_id tp" using 2(3) by (simp add: ToolEventKey_def)
    then have "tool_id tp \<in> sc_started ?c" "tool_completed tp \<longrightarrow> tool_id tp \<in> sc_ended ?c"
      using True 2(4) by auto
    then show ?thesis using emit_parts_mono [of ?c "count_tool ordinals t" ps] by auto
  next
    case False
    moreover have "sc_ended ?c \<subseteq> sc_started ?c" using 2(4) by auto
    ultimately show ?thesis using 2 by simp
  qed
qed auto

section \<open>Texts\<close>

lemma consume_text_fields [simp]: "sc_writer (consume_text m c) = None \<longleftrightarrow> sc_writer c = None"
  by (auto simp: consume_text_def write_call_def Let_def)

lemma consume_completed:
  "status m = StatusCompleted \<Longrightarrow> Text m \<noteq> [] \<Longrightarrow> sc_buf (consume (Some m) c) = Text m"
  by (auto simp: consume_def consume_text_def write_call_def Let_def emitToolEvents_def)

section \<open>Runs\<close>

text \<open>What a run yields up to its first error, and what it appends to the session.\<close>

fun yielded :: "run_step list \<Rightarrow> message list" where
  "yielded [] = []"
| "yielded (Yields (Some msg) # steps) = msg # yielded steps"
| "yielded (Fails e # steps) = []"
| "yielded (_ # steps) = yielded steps"

fun appended :: "run_step list \<Rightarrow> message list" where
  "appended [] = []"
| "appended (Appends msg # steps) = msg # appended steps"
| "appended (Fails e # steps) = []"
| "appended (_ # steps) = appended steps"

lemma consume_mono:
  "sc_started c \<subseteq> sc_started (consume msg c)" "sc_ended c \<subseteq> sc_ended (consume msg c)"
proof -
  have t: "sc_started (consume_text m c) = sc_started c" "sc_ended (consume_text m c) = sc_ended c" for m
    by (auto simp: consume_text_def write_call_def Let_def)
  show "sc_started c \<subseteq> sc_started (consume msg c)" "sc_ended c \<subseteq> sc_ended (consume msg c)"
    using emit_parts_mono t by (auto simp: consume_def Let_def emitToolEvents_def split: option.split) blast+
qed

lemma run_loop_mono:
  assumes "run_loop r steps c m = (e, c', m')"
  shows "sc_started c \<subseteq> sc_started c'" and "sc_ended c \<subseteq> sc_ended c'"
  using assms
proof (induction r steps c m rule: run_loop.induct)
  case (4 r msg steps c m)
  { case 1 then show ?case using 4(1) consume_mono(1) [of c msg] by auto }
  { case 2 then show ?case using 4(2) consume_mono(2) [of c msg] by auto }
qed auto

lemma ended_mem: "x \<in> set (ended log) \<Longrightarrow> \<exists>e. WriteEvent e \<in> set log \<and> ev_kind e = EventToolEnd \<and> ev_id e = x"
  by (induction log rule: ended.induct) (auto split: if_splits)

lemma consume_writer [simp]: "sc_writer (consume msg c) = None \<longleftrightarrow> sc_writer c = None"
proof (cases msg)
  case (Some y)
  then show ?thesis
    using emit_parts_fields(2) [of "\<lambda>_. 0" "parts y" "consume_text y c"] consume_text_fields [of y c]
    by (simp add: consume_def Let_def emitToolEvents_def)
qed (simp add: consume_def)

lemma consume_covers:
  assumes "ToolPart tp \<in> set (parts msg)" and "TrimSpace (tool_id tp) \<noteq> []" and "collector_inv c" and "sc_writer c \<noteq> None"
  shows "tool_id tp \<in> sc_started (consume (Some msg) c) \<and> (tool_completed tp \<longrightarrow> tool_id tp \<in> sc_ended (consume (Some msg) c))"
proof -
  have inv: "collector_inv (consume_text msg c)" and w: "sc_writer (consume_text msg c) \<noteq> None"
    using assms(3,4) consume_text_inv by simp_all
  then obtain log where log: "sc_writer (consume_text msg c) = Some log" by blast
  have "x \<in> set (started log)" if x: "x \<in> set (ended log)" for x
  proof -
    obtain e where e: "WriteEvent e \<in> set log" "ev_kind e = EventToolEnd" "ev_id e = x"
      using ended_mem [OF x] by blast
    then obtain before after where "log = before @ WriteEvent e # after" by (meson split_list)
    with e show ?thesis using inv log by (auto simp: collector_inv_def well_paired_def)
  qed
  then have "sc_ended (consume_text msg c) \<subseteq> sc_started (consume_text msg c)"
    using inv log by (auto simp: collector_inv_def)
  from emit_parts_covers [OF assms(1,2) this] show ?thesis
    using log by (simp add: consume_def Let_def emitToolEvents_def del: consume_text_fields)
qed

lemma run_loop_covers:
  assumes "run_loop r steps c m = (e, c', m')" and "collector_inv c" and "sc_writer c \<noteq> None" and "msg \<in> set (yielded steps)"
    and "ToolPart tp \<in> set (parts msg)" and "TrimSpace (tool_id tp) \<noteq> []"
  shows "tool_id tp \<in> sc_started c' \<and> (tool_completed tp \<longrightarrow> tool_id tp \<in> sc_ended c')"
  using assms
proof (induction r steps c m rule: run_loop.induct)
  case (4 r y steps c m)
  have w: "sc_writer (consume y c) \<noteq> None" using 4(4) by simp
  show ?case
  proof (cases "msg \<in> set (yielded steps)")
    case True
    then show ?thesis using 4 w consume_inv by simp
  next
    case False
    then have "y = Some msg" using 4(5) by (cases y) auto
    then show ?thesis
      using consume_covers [OF 4(6,7,3,4)] run_loop_mono [of r steps "consume y c" m e c' m'] 4(2) by auto
  qed
qed auto

lemma run_loop_session:
  assumes "run_loop r steps c m = (None, c', m')"
  shows "sess_history (ms_base (mg_heap m' r)) = sess_history (ms_base (mg_heap m r)) @ appended steps \<and>
    ms_rawHistory (mg_heap m' r) = ms_rawHistory (mg_heap m r) @ appended steps \<and>
    sess_compressor (ms_base (mg_heap m' r)) = sess_compressor (ms_base (mg_heap m r))"
  using assms
proof (induction r steps c m rule: run_loop.induct)
  case (2 r msg steps c m)
  then show ?case by (simp add: append_through_def managed_Append_def Append_def)
next
  case (3 r key v steps c m)
  then show ?case by (simp add: set_state_through_def managed_SetState_def SetState_def)
next
  case (4 r msg steps c m)
  then show ?case by (cases msg) auto
qed auto

lemma run_loop_writer: "run_loop r steps c m = (e, c', m') \<Longrightarrow> sc_writer c' = None \<longleftrightarrow> sc_writer c = None"
  by (induction r steps c m rule: run_loop.induct) auto

lemma run_loop_ok: "\<forall>e. Fails e \<notin> set steps \<Longrightarrow> fst (run_loop r steps c m) = None"
  by (induction r steps c m rule: run_loop.induct) auto

lemma run_loop_reply:
  assumes "run_loop r steps c m = (None, c', m')" and "yielded steps = ys @ [a]" and "status a = StatusCompleted" and "Text a \<noteq> []"
  shows "sc_buf c' = Text a"
  using assms
proof (induction r steps c m arbitrary: ys rule: run_loop.induct)
  case (4 r y steps c m)
  have idle: "sc_buf c' = sc_buf c1" if "run_loop r steps c1 m = (None, c', m')" "yielded steps = []" for c1 m
    using that
  proof (induction r steps c1 m rule: run_loop.induct)
    case (4 r y steps c m)
    then show ?case by (cases y) (auto simp: consume_def)
  qed auto
  show ?case
  proof (cases y)
    case None
    then show ?thesis using 4 by simp
  next
    case (Some msg)
    show ?thesis
    proof (cases "yielded steps = []")
      case True
      then have "msg = a" using 4(3) Some by simp
      then show ?thesis using idle 4(2,4,5) True Some consume_completed by simp
    next
      case False
      then have "yielded steps = tl ys @ [a]" using 4(3) Some by (cases ys) auto
      then show ?thesis using 4 by simp
    qed
  qed
qed auto

text \<open>The outcome of a turn, from the outcome of its loop.\<close>

lemma runTurn_result:
  assumes "runTurn env (Some run) (Some m) sid text opts = Inr res" and "Get (te_session env) sid m = (Inr r, m1)"
    and "run_loop r (run (UserMessage (te_ids env 0) [InString text]) r m1) (newStreamCollector (to_writer opts)) m1 = (e, c, m2)"
  shows "tr_reply res = sc_buf c" and "tr_writer res = sc_writer c"
    and "e = None \<Longrightarrow> ensureTurnHistory (te_ids env 1) (te_ids env 2) r text (sc_buf c) m2 = (None, m3) \<Longrightarrow>
      tr_manager res = snd (Save (te_session env) (te_now env) r m3)"
  using assms by (auto simp: runTurn_def Let_def split: option.splits prod.splits)

section \<open>An example turn\<close>

definition demo_turn_env :: turn_env where
  "demo_turn_env = \<lparr>te_session = \<lparr>se_marshal = (\<lambda>_. None), se_unmarshal = (\<lambda>_. None), se_mkdir_error = None,
     se_read_error = (\<lambda>_. None), se_write_error = (\<lambda>_. None), se_remove_error = (\<lambda>_. None), se_readdir_error = None\<rparr>,
     te_now = 1, te_ids = (\<lambda>n. ''id'' @ show_nat n)\<rparr>"

text \<open>A manager without a directory, so that nothing is saved.\<close>

definition demo_manager :: manager where
  "demo_manager = NewManager [] [] (\<lambda>_. undefined) 0 None"

definition demo_call :: toolPart where
  "demo_call = \<lparr>tool_id = ''c1'', tool_name = ''read'', tool_request = ''{}'', tool_response = ''ok'', tool_completed = True\<rparr>"

definition demo_tool_message :: message where
  "demo_tool_message = zero_message\<lparr>role := RoleTool, parts := [ToolPart demo_call]\<rparr>"

definition demo_answer :: message where
  "demo_answer = (AssistantMessage ''a1'' [InString ''done''])\<lparr>status := StatusCompleted\<rparr>"

text \<open>A run with a tool call.\<close>

definition demo_run :: runner where
  "demo_run msg r m = [Appends msg, Yields (Some demo_tool_message), Appends demo_tool_message,
     Yields (Some demo_answer), Appends demo_answer]"

definition demo_options :: turnOptions where
  "demo_options = \<lparr>to_writer = True, to_memory = False, to_logConversation = False, to_runtimeLog = False\<rparr>"

lemma demo_Get:
  obtains m1 where "Get (te_session demo_turn_env) ''s'' demo_manager = (Inr 0, m1)"
    "sess_compressor (ms_base (mg_heap m1 0)) = None" "ms_rawHistory (mg_heap m1 0) = []"
  by (rule that [of "snd (Get (te_session demo_turn_env) ''s'' demo_manager)"])
    (simp_all add: Get_def demo_turn_env_def demo_manager_def NewManager_def loadFromDisk_def read_file_def remember_def
      newManagedSession_def NewSession_def)

lemma demo_texts: "Text (UserMessage i [InString t]) = t" "Text demo_answer = ''done''"
  by (simp_all add: Text_join UserMessage_def demo_answer_def AssistantMessage_def NewMessageParts_def zero_message_def)

lemma demo_writer: "\<exists>res log. runTurn demo_turn_env (Some demo_run) (Some demo_manager) ''s'' ''hi'' demo_options = Inr res \<and>
    tr_writer res = Some log"
proof -
  obtain m1 where m1: "Get (te_session demo_turn_env) ''s'' demo_manager = (Inr 0, m1)" by (rule demo_Get)
  obtain res where res: "runTurn demo_turn_env (Some demo_run) (Some demo_manager) ''s'' ''hi'' demo_options = Inr res"
    by (simp add: runTurn_def)
  obtain e c m2 where l: "run_loop 0 (demo_run (UserMessage (te_ids demo_turn_env 0) [InString ''hi'']) 0 m1)
      (newStreamCollector (to_writer demo_options)) m1 = (e, c, m2)" by (rule prod_cases3)
  have "sc_writer c \<noteq> None" using run_loop_writer [OF l] by (simp add: newStreamCollector_def demo_options_def)
  then show ?thesis using res runTurn_result(2) [OF res m1 l] by auto
qed

section \<open>Properties\<close>



text \<open>Two calls of one tool in one message that differ in their request and carry no identifier get
  the same key, since the counter is per name and request but the key has the name only: of the second
  call the channel hears nothing.\<close>

theorem tool_keys_collide:
  assumes "sc_ended c \<subseteq> sc_started c" and "parts msg = [ToolPart a, ToolPart b]" and "TrimSpace (tool_id a) = []" and "TrimSpace (tool_id b) = []"
    and "tool_name a = tool_name b" and "tool_request a \<noteq> tool_request b" and "tool_completed a"
  shows "emitToolEvents msg c = emitToolEvents (msg\<lparr>parts := [ToolPart a]\<rparr>) c"
proof -
  have key: "ToolEventKey b (Suc 0) = ToolEventKey a (Suc 0)" using assms(3,4,5) by (simp add: ToolEventKey_def)
  have "fingerprint a \<noteq> fingerprint b" using assms(5,6) by (simp add: fingerprint_def)
  then have n: "count_tool (\<lambda>_. 0) a (fingerprint a) = Suc 0" "count_tool (count_tool (\<lambda>_. 0) a) b (fingerprint b) = Suc 0"
    by (simp_all add: count_tool_def)
  let ?c = "emit_tool (ToolEventKey a (Suc 0)) a c"
  have "ToolEventKey a (Suc 0) \<in> sc_ended ?c" "ToolEventKey a (Suc 0) \<in> sc_started ?c"
    using assms(1,7) by auto
  then have "emit_tool (ToolEventKey a (Suc 0)) b ?c = ?c"
    by (simp add: emit_tool_def [of _ b] start_event_def [of _ b])
  then show ?thesis using assms(2) by (simp add: emitToolEvents_def n key)
qed

theorem tool_keys_collide_witness:
  "sc_writer (emitToolEvents (zero_message\<lparr>parts := [ToolPart (demo_call\<lparr>tool_id := []\<rparr>),
       ToolPart (demo_call\<lparr>tool_id := [], tool_request := ''{1}''\<rparr>)]\<rparr>) (newStreamCollector True)) =
   sc_writer (emitToolEvents (zero_message\<lparr>parts := [ToolPart (demo_call\<lparr>tool_id := []\<rparr>)]\<rparr>) (newStreamCollector True))"
  using tool_keys_collide [of "newStreamCollector True" "zero_message\<lparr>parts := [ToolPart (demo_call\<lparr>tool_id := []\<rparr>),
       ToolPart (demo_call\<lparr>tool_id := [], tool_request := ''{1}''\<rparr>)]\<rparr>" "demo_call\<lparr>tool_id := []\<rparr>"
       "demo_call\<lparr>tool_id := [], tool_request := ''{1}''\<rparr>"]
  by (simp add: newStreamCollector_def demo_call_def)

lemma Save_heap: "mg_heap (snd (Save env now r m)) = mg_heap m"
  by (simp add: Save_def Let_def split: option.split prod.split)

text \<open>The repair of a session without a compressor.\<close>

lemma ensure_plain:
  assumes "sess_compressor (ms_base (mg_heap m r)) = None"
  shows "fst (ensureTurnHistory uid aid r userText reply m) = None"
    and "ms_rawHistory (mg_heap (snd (ensureTurnHistory uid aid r userText reply m)) r) = ms_rawHistory (mg_heap m r) @
      (let h = sess_history (ms_base (mg_heap m r)); u = UserMessage uid [InString userText];
           missing = \<not> hasTrailingMessage h RoleUser userText
       in if hasTrailingTurn h userText reply then []
          else (if missing then [u] else []) @
            (if TrimSpace reply = [] \<or> hasTrailingMessage (if missing then h @ [u] else h) RoleAssistant reply then []
             else [AssistantMessage aid [InString reply]]))"
  using assms
  by (auto simp: ensureTurnHistory_def history_through_def managed_History_def History_def Let_def
      append_through_def managed_Append_def)

text \<open>The trailing messages of a history that ends with a turn.\<close>

lemma trailing:
  assumes "role u = RoleUser" and "Text u = text" and "role a = RoleAssistant" and "TrimSpace (Text a) \<noteq> []"
    and "mids = [] \<or> \<not> (role (last mids) = RoleUser \<and> Text (last mids) = text)"
  shows "hasTrailingTurn (old @ u # mids @ [a]) text (Text a) \<longleftrightarrow> mids = []"
    and "\<not> hasTrailingMessage (old @ u # mids @ [a]) RoleUser text"
    and "\<not> hasTrailingMessage ((old @ u # mids @ [a]) @ [UserMessage uid [InString text]]) RoleAssistant (Text a)"
proof -
  show "\<not> hasTrailingMessage (old @ u # mids @ [a]) RoleUser text" using assms(3) by (simp add: hasTrailingMessage_def)
  show "\<not> hasTrailingMessage ((old @ u # mids @ [a]) @ [UserMessage uid [InString text]]) RoleAssistant (Text a)"
    by (simp add: hasTrailingMessage_def UserMessage_def)
  show "hasTrailingTurn (old @ u # mids @ [a]) text (Text a) \<longleftrightarrow> mids = []"
  proof (cases mids rule: rev_cases)
    case Nil
    then show ?thesis using assms by (simp add: hasTrailingTurn_def Let_def nth_append)
  next
    case (snoc ms l)
    have "(old @ u # mids @ [a]) ! (length (old @ u # mids @ [a]) - 2) = l"
      using snoc by (simp add: nth_append)
    then show ?thesis using assms(5) snoc by (auto simp: hasTrailingTurn_def Let_def)
  qed
qed

text \<open>What a turn leaves in the session. If the run appended the user's message, possibly other
  messages, and its reply, the history is exactly that when there were no others; but when there were
  (a tool call, or another agent) the user's message and the reply are appended once more.\<close>

theorem turn_recorded_twice:
  assumes "runTurn env (Some run) (Some m) sid text opts = Inr res" and "Get (te_session env) sid m = (Inr r, m1)"
    and "sess_compressor (ms_base (mg_heap m1 r)) = None"
    and "run (UserMessage (te_ids env 0) [InString text]) r m1 = steps" and "\<forall>e. Fails e \<notin> set steps"
    and "appended steps = u # mids @ [a]" and "role u = RoleUser" and "Text u = text" and "role a = RoleAssistant"
    and "yielded steps = ys @ [a]" and "status a = StatusCompleted" and "TrimSpace (Text a) \<noteq> []"
    and "mids = [] \<or> \<not> (role (last mids) = RoleUser \<and> Text (last mids) = text)"
  shows "tr_reply res = Text a \<and> ms_rawHistory (mg_heap (tr_manager res) r) = ms_rawHistory (mg_heap m1 r) @ u # mids @ [a] @
    (if mids = [] then [] else [UserMessage (te_ids env 1) [InString text], AssistantMessage (te_ids env 2) [InString (Text a)]])"
proof -
  obtain e c m2 where l: "run_loop r steps (newStreamCollector (to_writer opts)) m1 = (e, c, m2)" by (rule prod_cases3)
  note res = runTurn_result [OF assms(1,2), unfolded assms(4), OF l]
  have e: "e = None" using run_loop_ok [OF assms(5), of r "newStreamCollector (to_writer opts)" m1] l by simp
  have ne: "Text a \<noteq> []" using assms(12) by auto
  have reply: "sc_buf c = Text a" using run_loop_reply [OF _ assms(10,11) ne] l e by simp
  define h where "h = sess_history (ms_base (mg_heap m1 r)) @ u # mids @ [a]"
  have s: "sess_history (ms_base (mg_heap m2 r)) = h" "ms_rawHistory (mg_heap m2 r) = ms_rawHistory (mg_heap m1 r) @ u # mids @ [a]"
      "sess_compressor (ms_base (mg_heap m2 r)) = None"
    using run_loop_session [of r steps "newStreamCollector (to_writer opts)" m1 c m2] l e assms(3,6) by (simp_all add: h_def)
  obtain m3 where m3: "ensureTurnHistory (te_ids env 1) (te_ids env 2) r text (Text a) m2 = (None, m3)"
    using ensure_plain(1) [OF s(3)] by (metis prod.collapse)
  then have "tr_manager res = snd (Save (te_session env) (te_now env) r m3)" using res(3) [OF e] reply by simp
  moreover have "ms_rawHistory (mg_heap m3 r) =
      ms_rawHistory (mg_heap m2 r) @ (if mids = [] then [] else
        [UserMessage (te_ids env 1) [InString text], AssistantMessage (te_ids env 2) [InString (Text a)]])"
    using ensure_plain(2) [OF s(3), of "te_ids env 1" "te_ids env 2" "text" "Text a"] m3 s(1) assms(12)
      trailing [OF assms(7-9,12,13)] by (simp add: h_def Let_def)
  ultimately show ?thesis using res(1) reply s(2) by (simp add: Save_heap)
qed

theorem turn_recorded_twice_witness:
  "\<exists>res. runTurn demo_turn_env (Some demo_run) (Some demo_manager) ''s'' ''hi'' demo_options = Inr res \<and> tr_reply res = ''done'' \<and>
     ms_rawHistory (mg_heap (tr_manager res) 0) =
       [UserMessage (te_ids demo_turn_env 0) [InString ''hi''], demo_tool_message, demo_answer,
        UserMessage (te_ids demo_turn_env 1) [InString ''hi''], AssistantMessage (te_ids demo_turn_env 2) [InString ''done'']]"
proof -
  obtain res log where r: "runTurn demo_turn_env (Some demo_run) (Some demo_manager) ''s'' ''hi'' demo_options = Inr res"
    using demo_writer by blast
  obtain m1 where m1: "Get (te_session demo_turn_env) ''s'' demo_manager = (Inr 0, m1)"
      "sess_compressor (ms_base (mg_heap m1 0)) = None" "ms_rawHistory (mg_heap m1 0) = []" by (rule demo_Get)
  let ?u = "UserMessage (te_ids demo_turn_env 0) [InString ''hi'']"
  have "tr_reply res = Text demo_answer \<and> ms_rawHistory (mg_heap (tr_manager res) 0) =
      ms_rawHistory (mg_heap m1 0) @ ?u # [demo_tool_message] @ [demo_answer] @
      (if [demo_tool_message] = [] then [] else [UserMessage (te_ids demo_turn_env 1) [InString ''hi''],
        AssistantMessage (te_ids demo_turn_env 2) [InString (Text demo_answer)]])"
    by (rule turn_recorded_twice [OF r m1(1,2) refl, where ys = "[demo_tool_message]"])
      (simp_all add: demo_run_def demo_texts, simp_all add: UserMessage_def demo_answer_def AssistantMessage_def
        demo_tool_message_def TrimSpace_def is_space_def)
  with r m1(3) show ?thesis by (simp add: demo_texts)
qed

end
