(* ===== verification/App_Props.thy ===== *)
theory App_Props
  imports App_Runner Recipe_Laws Agent_Props
begin

text \<open>
  What the command line program makes of its configuration: which provider a model name means, which
  tools its default agent has, and what becomes of the instructions of a workspace.
\<close>

section \<open>Providers\<close>

lemma normalize_providers_Inr:
  assumes "normalize_providers i seen qs = Inr ps"
  shows "distinct (map pv_name ps) \<and> set (map pv_name ps) \<inter> set seen = {} \<and> (\<forall>p \<in> set ps. isSupportedProvider (pv_provider p))"
  using assms
proof (induction i seen qs arbitrary: ps rule: normalize_providers.induct)
  case (2 i seen q qs)
  define p where "p = (if pv_name (trim_provider q) = [] then (trim_provider q)\<lparr>pv_name := pv_provider (trim_provider q)\<rparr> else trim_provider q)"
  obtain ps' where ps': "normalize_providers (Suc i) (pv_name p # seen) qs = Inr ps'" "ps = p # ps'"
      "isSupportedProvider (pv_provider (trim_provider q))" "pv_name p \<notin> set seen"
    using 2(2) by (auto simp: Let_def first_err_None simp flip: p_def)
  have "distinct (map pv_name ps') \<and> set (map pv_name ps') \<inter> set (pv_name p # seen) = {} \<and>
      (\<forall>p \<in> set ps'. isSupportedProvider (pv_provider p))"
    using 2(1) [OF refl refl] ps'(1) unfolding p_def by blast
  then show ?case using ps'(2,3,4) by (auto simp: p_def)
qed simp

lemma find_unique_name:
  assumes "distinct (map f xs)" and "x \<in> set xs" and "P x" and "\<And>y. P y \<Longrightarrow> f y = f x"
  shows "find P xs = Some x"
  using assms
proof (induction xs)
  case (Cons z zs)
  show ?case
  proof (cases "P z")
    case True
    then have "f z = f x" by (rule Cons.prems(4))
    then have "z = x" using Cons.prems(1,2) by (auto simp: image_iff)
    then show ?thesis using Cons.prems(3) by simp
  next
    case False
    then have "x \<in> set zs" using Cons.prems(2,3) by auto
    then show ?thesis using Cons.IH [OF _ _ Cons.prems(3,4)] Cons.prems(1) False by simp
  qed
qed simp

lemma cut_slash_ref: "slash \<notin> set ref \<Longrightarrow> cut_slash (ref @ slash # model) = (ref, model)"
  by (induction ref) (auto simp: cut_slash_def)

section \<open>Tools\<close>

definition named_tools :: "(string, 'p tool) gomap \<Rightarrow> bool" where
  "named_tools m \<longleftrightarrow> (\<forall>n t. map_of m n = Some t \<longrightarrow> t_name t = n)"

lemma named_tools_update: "named_tools m \<Longrightarrow> named_tools (AList.update (t_name t) t m)"
  by (simp add: named_tools_def update_conv)

lemma named_tools_fold:
  "named_tools m \<Longrightarrow> named_tools (fold (\<lambda>t m. case t of None \<Rightarrow> m | Some t \<Rightarrow> AList.update (t_name t) t m) extra m)"
proof (induction extra arbitrary: m)
  case (Cons x extra)
  then show ?case by (cases x) (simp_all add: named_tools_update)
qed simp

lemma registry_names:
  assumes "t_name (ap_cronTool env) = ''cron''"
  shows "named_tools (BuildToolRegistry env ec extra)"
  unfolding BuildToolRegistry_def
  by (rule named_tools_fold) (use assms in \<open>auto simp: named_tools_def NewReadTool_def NewWriteTool_def NewEditTool_def
    bash_tool_def NewExitTool_def split: if_splits\<close>)

lemma tools_resolved_names:
  assumes "named_tools m" and "list_all2 (\<lambda>n t. \<exists>r. Some (Registry_Resolve m) = Some r \<and> r n = Inr t) ns ts"
  shows "map t_name ts = ns"
  using assms(2)
proof (induction ns ts rule: list_all2_induct)
  case (Cons n ns t ts)
  then have "map_of m n = Some t" by (auto simp: Registry_Resolve_def split: option.splits)
  then show ?case using assms(1) Cons by (simp add: named_tools_def)
qed simp

section \<open>The workspace's instructions\<close>

lemma apply_keeps:
  "sp_name (applyWorkspaceInstruction t spec) = sp_name spec" "sp_execution (applyWorkspaceInstruction t spec) = sp_execution spec"
  "sp_maxIterations (applyWorkspaceInstruction t spec) = sp_maxIterations spec"
  "sp_description (applyWorkspaceInstruction t spec) = sp_description spec"
  "map (\<lambda>s. (sub_name s, sub_tools s)) (sp_subAgents (applyWorkspaceInstruction t spec)) =
     map (\<lambda>s. (sub_name s, sub_tools s)) (sp_subAgents spec)"
  by (simp_all add: applyWorkspaceInstruction_def sub_with_instruction_def Let_def comp_def)

lemma workspace_keeps:
  "sp_name (workspace_spec ws sk spec) = sp_name spec" "sp_execution (workspace_spec ws sk spec) = sp_execution spec"
  "sp_maxIterations (workspace_spec ws sk spec) = sp_maxIterations spec"
  "sp_description (workspace_spec ws sk spec) = sp_description spec"
  "map (\<lambda>s. (sub_name s, sub_tools s)) (sp_subAgents (workspace_spec ws sk spec)) =
     map (\<lambda>s. (sub_name s, sub_tools s)) (sp_subAgents spec)"
  by (auto simp: workspace_spec_def Let_def apply_keeps split: sum.split option.split)

lemma relabel_Inr: "(case r of Inl e \<Rightarrow> Inl (f e) | Inr x \<Rightarrow> Inr x) = Inr b \<longleftrightarrow> r = Inr b"
  by (cases r) auto

lemma default_subs:
  obtains s1 s2 where "sp_subAgents (workspace_spec ws sk default_spec) = [s1, s2]" "sub_name s1 = ''action''"
    "sub_tools s1 = [''read'', ''write'', ''edit'', ''bash'', ''cron'']" "sub_name s2 = ''review''" "sub_tools s2 = [''exit'']"
proof -
  let ?subs = "sp_subAgents (workspace_spec ws sk default_spec)"
  have m: "map (\<lambda>s. (sub_name s, sub_tools s)) ?subs =
      [(''action'', [''read'', ''write'', ''edit'', ''bash'', ''cron'']), (''review'', [''exit''])]"
    unfolding workspace_keeps(5) by (simp add: default_spec_def action_spec_def review_spec_def)
  have "length ?subs = 2" using arg_cong [OF m, of length] by simp
  then obtain s1 s2 where "?subs = [s1, s2]" by (auto simp: length_Suc_conv numeral_2_eq_2)
  then show thesis using m that by simp
qed

lemma sub_built_tools:
  assumes "sub_built env spec ps o' sub s" and "bo_tools o' = Some (Registry_Resolve m)" and "named_tools m"
  shows "a_name (sa_agent s) = sub_name sub" and "map t_name (a_tools (sa_agent s)) = sub_tools sub"
proof -
  obtain md i ts mws where s: "tools_resolved o' (sub_tools sub) ts"
      "sa_agent s = configured (sub_name sub) (sub_description sub) md i (sub_outputKey sub) (sub_maxIterations sub) (bo_context o') ts mws"
    using assms(1) unfolding sub_built_def Let_def by blast
  show "a_name (sa_agent s) = sub_name sub" by (simp add: s(2) configured_def)
  have "list_all2 (\<lambda>n t. \<exists>r. Some (Registry_Resolve m) = Some r \<and> r n = Inr t) (sub_tools sub) ts"
    using s(1) assms(2) by (simp add: tools_resolved_def)
  from tools_resolved_names [OF assms(3) this] show "map t_name (a_tools (sa_agent s)) = sub_tools sub"
    by (simp add: s(2) configured_def)
qed

lemma runner_bo_tools:
  "bo_tools (build_options (runner_options env cfg ws extra spec)) =
     Some (Registry_Resolve (BuildToolRegistry env (ExecConfigFromDefaults (DefaultExecWorkingDir (Some ws)) (cf_exec cfg)) extra))"
  by (simp add: build_options_def runner_options_def WithModelRegistry_def WithToolRegistry_def WithMiddlewareRegistry_def
      Build_WithContext_def)

section \<open>Properties\<close>

text \<open>Model names. In a configuration that passed \<open>Normalize\<close> the providers have distinct names, so a
  reference to a provider by name always builds a model of that very provider, whatever models it or the
  others list, and of one of the three supported kinds.\<close>

theorem model_resolution:
  assumes "Normalize home c = Inr c'" and "p \<in> set (cf_providers c')" and "pv_name p \<noteq> []" and "slash \<notin> set (pv_name p)" and "model \<noteq> []"
  shows "Model_Resolve mk (cf_providers c') (pv_name p @ slash # model) = NewProvider mk p model \<and>
    NewProvider mk p model \<in> {mk_anthropic mk p model, mk_openai mk p model, mk_gemini mk p model}"
proof -
  have ps: "distinct (map pv_name (cf_providers c'))" "isSupportedProvider (pv_provider p)"
    using assms(1,2) normalize_providers_Inr by (fastforce simp: Normalize_def)+
  have cut: "cut_slash (pv_name p @ slash # model) = (pv_name p, model)" using assms(4) by (rule cut_slash_ref)
  let ?Q = "\<lambda>q. matchesProviderName q (pv_name p)"
  have byname: "find ?Q (cf_providers c') = Some p"
    by (rule find_unique_name [OF ps(1) assms(2)]) (simp_all add: matchesProviderName_def)
  have "find (\<lambda>q. ?Q q \<and> model \<in> set (pv_models q)) (cf_providers c') \<in> {None, Some p}"
  proof (cases "find (\<lambda>q. ?Q q \<and> model \<in> set (pv_models q)) (cf_providers c')")
    case (Some q)
    then have "q \<in> set (cf_providers c')" "pv_name q = pv_name p" by (auto simp: find_Some_iff matchesProviderName_def)
    then have "q = p" using ps(1) assms(2) by (auto simp: distinct_map dest: inj_onD)
    then show ?thesis using Some by simp
  qed simp
  then have "Model_Resolve mk (cf_providers c') (pv_name p @ slash # model) = NewProvider mk p model"
    using assms(3,5) byname by (auto simp: Model_Resolve_def cut Let_def)
  then show ?thesis using ps(2) by (auto simp: NewProvider_def isSupportedProvider_def)
qed

text \<open>The default agent. Without an \<open>agent.yaml\<close>, when the runner can be built it is the loop of the
  agents \<open>action\<close> and \<open>review\<close>, at most three rounds, whose tools are the five tools of the program and the
  exit tool; the tools of the workspace's skills, which its instruction tells the agents to use, are not
  among them, however many skills there are.\<close>

theorem default_agent_tools:
  fixes env :: "'p app_env"
  assumes "BuildRunner env cfg ws extra = Inr b" and "\<not> wk_agentExists ws" and "t_name (ap_cronTool env) = ''cron''"
  shows "\<exists>desc action review. b_base b = LoopFlow ''blades'' desc 3 [action, review] \<and>
    a_name (sa_agent action) = ''action'' \<and> a_name (sa_agent review) = ''review'' \<and>
    map t_name (a_tools (sa_agent action)) = [''read'', ''write'', ''edit'', ''bash'', ''cron''] \<and>
    map t_name (a_tools (sa_agent review)) = [''exit'']"
proof -
  obtain sk :: "(string \<times> 'p tool list) option" and extra' where b: "Build (ap_recipe env) (Some (workspace_spec ws sk default_spec))
      (runner_options env cfg ws extra' (workspace_spec ws sk default_spec)) = Inr b"
    using assms(1,2) unfolding BuildRunner_def LoadAgentSpec_def Let_def relabel_Inr ebind_Inr by auto
  define spec where "spec = workspace_spec ws sk default_spec"
  define o' where "o' = build_options (runner_options env cfg ws extra' spec)"
  obtain s1 s2 where subs: "sp_subAgents spec = [s1, s2]" "sub_name s1 = ''action''"
      "sub_tools s1 = [''read'', ''write'', ''edit'', ''bash'', ''cron'']" "sub_name s2 = ''review''" "sub_tools s2 = [''exit'']"
    using default_subs [of ws sk] unfolding spec_def by blast
  have keeps: "sp_name spec = ''blades''" "sp_execution spec = ExecutionLoop" "sp_maxIterations spec = 3"
    unfolding spec_def workspace_keeps by (simp_all add: default_spec_def)
  obtain ps ags where ags: "subs_built (ap_recipe env) spec ps o' ags" "b_base b = LoopFlow (sp_name spec) (sp_description spec) (sp_maxIterations spec) ags"
    using b subs(1) keeps(2) unfolding Build_Inr recipe_built_def base_built_def spec_def [symmetric] o'_def by auto
  obtain a r where ar: "ags = [a, r]" "sub_built (ap_recipe env) spec ps o' s1 a" "sub_built (ap_recipe env) spec ps o' s2 r"
    using ags(1) subs(1) by (auto simp: subs_built_def list_all2_Cons1)
  note tools = sub_built_tools [OF _ runner_bo_tools [of env cfg ws extra' spec, folded o'_def] registry_names [OF assms(3)]]
  show ?thesis
    using ags(2) ar(1) tools [OF ar(2)] tools [OF ar(3)] subs keeps by simp
qed

text \<open>Instructions. For an agent without sub-agents a workspace's \<open>AGENTS.md\<close> replaces the
  instruction of its specification, and the instruction of the skills replaces both.\<close>

theorem instruction_overwritten:
  assumes "sp_subAgents spec = []" and "wk_agentsMd ws = Inr md" and "TrimSpace md \<noteq> []"
  shows "sp_instruction (workspace_spec ws skills spec) = (case skills of None \<Rightarrow> TrimSpace md
    | Some (text, _) \<Rightarrow> if TrimSpace text = [] then TrimSpace md else TrimSpace text)"
  using assms by (auto simp: workspace_spec_def applyWorkspaceInstruction_def Let_def split: option.split)

section \<open>Examples\<close>

definition demo_config :: Config where
  "demo_config = empty_config\<lparr>cf_providers :=
     [\<lparr>pv_name = '' anthropic '', pv_provider = ''anthropic'', pv_models = [], pv_apiKey = ''k'', pv_baseURL = []\<rparr>,
      \<lparr>pv_name = ''second'', pv_provider = ''openai'', pv_models = [''m''], pv_apiKey = ''k'', pv_baseURL = []\<rparr>]\<rparr>"

definition demo_makers :: "string makers" where
  "demo_makers = \<lparr>mk_anthropic = (\<lambda>p m. Inr (''anthropic '' @ m)), mk_openai = (\<lambda>p m. Inr (''openai '' @ m)),
     mk_gemini = (\<lambda>p m. Inl ''no'')\<rparr>"

theorem model_resolution_witness:
  "\<exists>c. Normalize None demo_config = Inr c \<and> Model_Resolve demo_makers (cf_providers c) ''anthropic/m'' = Inr ''anthropic m''"
proof -
  let ?p = "\<lparr>pv_name = ''anthropic'', pv_provider = ''anthropic'', pv_models = [], pv_apiKey = ''k'', pv_baseURL = []\<rparr>"
  have n: "map_option cf_providers (case Normalize None demo_config of Inr c \<Rightarrow> Some c | Inl _ \<Rightarrow> None) =
      Some [?p, \<lparr>pv_name = ''second'', pv_provider = ''openai'', pv_models = [''m''], pv_apiKey = ''k'', pv_baseURL = []\<rparr>]"
    by code_simp
  then obtain c where c: "Normalize None demo_config = Inr c" "?p \<in> set (cf_providers c)"
    by (auto split: sum.splits)
  have "Model_Resolve demo_makers (cf_providers c) (pv_name ?p @ slash # ''m'') = NewProvider demo_makers ?p ''m''"
    using model_resolution [OF c, of "''m''" demo_makers] by simp
  then show ?thesis using c(1) by (simp add: NewProvider_def demo_makers_def)
qed

definition demo_workspace :: app_workspace where
  "demo_workspace = \<lparr>wk_dir = [], wk_sessionsDir = [], wk_agentsMd = Inr ''Agents.'', wk_agentExists = False, wk_agentPath = [],
     wk_readRecipe = (\<lambda>_. Inl []), wk_unmarshalRecipe = (\<lambda>_. Inl []), wk_skillsExist = False, wk_skillEntries = Inr 0,
     wk_loadSkills = Inr []\<rparr>"

theorem instruction_overwritten_witness:
  "sp_instruction (workspace_spec demo_workspace (Some (''Skills.'', [] :: nat tool list))
     (default_spec\<lparr>sp_subAgents := [], sp_instruction := ''Mine.''\<rparr>)) = ''Skills.''"
  using instruction_overwritten [of "default_spec\<lparr>sp_subAgents := [], sp_instruction := ''Mine.''\<rparr>" demo_workspace
      "''Agents.''" "Some (''Skills.'', [] :: nat tool list)"]
  by (simp add: demo_workspace_def TrimSpace_def is_space_def)

text \<open>An application whose templates are rendered as they stand.\<close>

definition demo_app :: "nat app_env" where
  "demo_app = \<lparr>ap_recipe = \<lparr>env_ext = demo_ext, env_engine = (\<lambda>_ t _. Inr t), env_tool_error = (\<lambda>_. Failed ''failed'')\<rparr>,
     ap_files = undefined, ap_skillEnv = undefined,
     ap_makers = \<lparr>mk_anthropic = (\<lambda>p m. Inr (Some demo_model)), mk_openai = (\<lambda>p m. Inr None), mk_gemini = (\<lambda>p m. Inr None)\<rparr>,
     ap_retry = (\<lambda>_ a. a), ap_floatInt = (\<lambda>_. None), ap_cronTool = clock_tool\<lparr>t_name := ''cron''\<rparr>,
     ap_decodeExit = (\<lambda>_. Inr False), ap_skillHeader = ''Skills''\<rparr>"

definition demo_named_config :: Config where
  "demo_named_config = empty_config\<lparr>cf_providers :=
     [\<lparr>pv_name = ''anthropic'', pv_provider = ''anthropic'', pv_models = [], pv_apiKey = ''k'', pv_baseURL = []\<rparr>]\<rparr>"

definition demo_default :: agentSpec where
  "demo_default = workspace_spec demo_workspace (None :: (string \<times> nat tool list) option) default_spec"

lemma demo_default_fields:
  "sp_subAgents demo_default = map (sub_with_instruction ''Agents.'') [action_spec, review_spec]"
  "sp_model demo_default = ''anthropic/claude-sonnet-4-6''" "sp_parameters demo_default = []" "sp_prompt demo_default = []"
  "sp_version demo_default = ''1.0''" "sp_name demo_default = ''blades''" "sp_execution demo_default = ExecutionLoop"
  "sp_outputKey demo_default = []" "sp_tools demo_default = []" "sp_middlewares demo_default = []"
  "sp_context demo_default = sp_context default_spec"
  by (simp_all add: demo_default_def workspace_spec_def demo_workspace_def applyWorkspaceInstruction_def Let_def
      TrimSpace_def is_space_def default_spec_def)

lemma sub_with_fields:
  "sub_name (sub_with_instruction t s) = sub_name s" "sub_tools (sub_with_instruction t s) = sub_tools s"
  "sub_model (sub_with_instruction t s) = sub_model s" "sub_parameters (sub_with_instruction t s) = sub_parameters s"
  "sub_middlewares (sub_with_instruction t s) = sub_middlewares s" "sub_context (sub_with_instruction t s) = sub_context s"
  "t \<noteq> [] \<Longrightarrow> sub_instruction (sub_with_instruction t s) \<noteq> []"
  by (simp_all add: sub_with_instruction_def Let_def)

abbreviation demo_runner_opts :: "(nat buildOptions \<Rightarrow> nat buildOptions) list" where
  "demo_runner_opts \<equiv> runner_options demo_app demo_named_config demo_workspace [] demo_default"

lemma demo_runner_fields:
  "the_models (build_options demo_runner_opts) ''anthropic/claude-sonnet-4-6'' = Inr (Some demo_model)"
  "bo_models (build_options demo_runner_opts) \<noteq> None"
  "bo_params (build_options demo_runner_opts) = Map.empty"
  "middlewares_resolved (build_options demo_runner_opts) [retry_three] [Retry (\<lambda>a. a)]"
  by (simp_all add: build_options_def runner_options_def WithModelRegistry_def WithToolRegistry_def WithMiddlewareRegistry_def
      Build_WithContext_def the_models_def Model_Resolve_def cut_slash_def Let_def demo_named_config_def matchesProviderName_def
      NewProvider_def demo_app_def middlewares_resolved_def MiddlewareRegistry_Resolve_def BuildMiddlewareRegistry_def
      MiddlewareRegistry_Register_def retry_three_def MiddlewareAttempts_def)

lemma demo_registry:
  "tools_resolved (build_options demo_runner_opts) [''read'', ''write'', ''edit'', ''bash'', ''cron'']
     [NewReadTool undefined (ExecConfigFromDefaults ''.'' (cf_exec demo_named_config)),
      NewWriteTool undefined (ExecConfigFromDefaults ''.'' (cf_exec demo_named_config)),
      NewEditTool undefined (ExecConfigFromDefaults ''.'' (cf_exec demo_named_config)),
      bash_tool undefined (ExecConfigFromDefaults ''.'' (cf_exec demo_named_config)), clock_tool\<lparr>t_name := ''cron''\<rparr>]"
  "tools_resolved (build_options demo_runner_opts) [''exit''] [NewExitTool (\<lambda>_. Inr False)]"
  unfolding tools_resolved_def runner_bo_tools
  by (simp_all add: Registry_Resolve_def BuildToolRegistry_def demo_app_def DefaultExecWorkingDir_def demo_workspace_def)

lemma demo_partly:
  "t \<noteq> [] \<Longrightarrow> renderTemplatePreservingUnknown (env_engine (ap_recipe demo_app)) t ps = Inr t"
  "t \<noteq> [] \<Longrightarrow> renderTemplate (env_engine (ap_recipe demo_app)) t ps = Inr t"
proof -
  show "t \<noteq> [] \<Longrightarrow> renderTemplatePreservingUnknown (env_engine (ap_recipe demo_app)) t ps = Inr t"
    using preserve_rounds.simps(2) [of "env_engine (ap_recipe demo_app)" t 63 ps]
    by (simp add: renderTemplatePreservingUnknown_def executeTemplate_def demo_app_def)
  show "t \<noteq> [] \<Longrightarrow> renderTemplate (env_engine (ap_recipe demo_app)) t ps = Inr t"
    by (simp add: renderTemplate_def executeTemplate_def demo_app_def)
qed

lemma demo_sub_built:
  assumes "sub_model sub = []" and "sub_parameters sub = []" and "sub_instruction sub \<noteq> []"
    and "tools_resolved (build_options demo_runner_opts) (sub_tools sub) ts" and "sub_middlewares sub = [retry_three]"
  shows "\<exists>s. sub_built (ap_recipe demo_app) demo_default ps (build_options demo_runner_opts) sub s"
proof -
  let ?agent = "configured (sub_name sub) (sub_description sub) demo_model (sub_instruction sub) (sub_outputKey sub)
    (sub_maxIterations sub) (bo_context (build_options demo_runner_opts)) ts [Retry (\<lambda>a. a)]"
  let ?s = "\<lparr>sa_agent = ?agent, sa_prompt = (if sub_prompt sub = [] then None else Some (sub_prompt sub))\<rparr>"
  have "sub_built (ap_recipe demo_app) demo_default ps (build_options demo_runner_opts) sub ?s"
    unfolding sub_built_def Let_def
    by (intro conjI exI [of _ demo_model] exI [of _ "sub_instruction sub"] exI [of _ ts] exI [of _ "[Retry (\<lambda>a. a)]"])
      (use assms in \<open>auto simp: demo_default_fields demo_runner_fields params_typed_def demo_partly prompt_built_def\<close>)
  then show ?thesis by blast
qed

lemma demo_runner: "\<exists>b. BuildRunner demo_app demo_named_config demo_workspace [] = Inr b"
proof -
  let ?o = "build_options demo_runner_opts"
  have a: "\<exists>s. sub_built (ap_recipe demo_app) demo_default ps ?o (sub_with_instruction ''Agents.'' action_spec) s"
    and r: "\<exists>s. sub_built (ap_recipe demo_app) demo_default ps ?o (sub_with_instruction ''Agents.'' review_spec) s" for ps
    by (rule demo_sub_built; use demo_registry in \<open>simp add: sub_with_fields action_spec_def review_spec_def\<close>)+
  define ps where "ps = recipe_params demo_default demo_runner_opts"
  obtain s1 where s1: "sub_built (ap_recipe demo_app) demo_default ps ?o (sub_with_instruction ''Agents.'' action_spec) s1"
    using a by blast
  obtain s2 where s2: "sub_built (ap_recipe demo_app) demo_default ps ?o (sub_with_instruction ''Agents.'' review_spec) s2"
    using r by blast
  have "subs_built (ap_recipe demo_app) demo_default (recipe_params demo_default demo_runner_opts) ?o [s1, s2]"
    using s1 s2 unfolding subs_built_def demo_default_fields ps_def by simp
  then have "base_built (ap_recipe demo_app) demo_default (recipe_params demo_default demo_runner_opts) ?o
      (LoopFlow ''blades'' (sp_description demo_default) (sp_maxIterations demo_default) [s1, s2])"
    unfolding base_built_def by (auto simp: demo_default_fields)
  moreover have "valid_recipe demo_default"
    by (simp add: valid_recipe_def demo_default_fields wf_names_def wf_parameters_def wf_context_def wf_sub_def sub_with_fields
        action_spec_def review_spec_def retry_three_def is_flow_def default_spec_def)
  ultimately have "Build (ap_recipe demo_app) (Some demo_default) demo_runner_opts =
      Inr \<lparr>b_base = LoopFlow ''blades'' (sp_description demo_default) (sp_maxIterations demo_default) [s1, s2], b_prompt = None\<rparr>"
    using demo_runner_fields(2) by (simp add: Build_Inr recipe_built_def demo_default_fields params_typed_def prompt_built_def)
  moreover have "workspace_skills demo_app demo_workspace = Inr None"
    by (simp add: workspace_skills_def LoadSkills_def demo_workspace_def)
  moreover have "LoadAgentSpec demo_workspace = Inr default_spec" by (simp add: LoadAgentSpec_def demo_workspace_def)
  ultimately show ?thesis by (simp add: BuildRunner_def flip: demo_default_def)
qed

theorem default_agent_tools_witness:
  "\<exists>b desc action review. BuildRunner demo_app demo_named_config demo_workspace [] = Inr b \<and>
     b_base b = LoopFlow ''blades'' desc 3 [action, review] \<and>
     map t_name (a_tools (sa_agent action)) = [''read'', ''write'', ''edit'', ''bash'', ''cron'']"
proof -
  obtain b where b: "BuildRunner demo_app demo_named_config demo_workspace [] = Inr b" using demo_runner by blast
  have w: "\<not> wk_agentExists demo_workspace" "t_name (ap_cronTool demo_app) = ''cron''"
    by (simp_all add: demo_workspace_def demo_app_def)
  obtain desc action review where "b_base b = LoopFlow ''blades'' desc 3 [action, review]"
      "map t_name (a_tools (sa_agent action)) = [''read'', ''write'', ''edit'', ''bash'', ''cron'']"
    using default_agent_tools [OF b w] by (elim exE conjE) (rule that)
  with b show ?thesis by (intro exI conjI) assumption+
qed

end
