(* ===== verification/Spec2Isabelle.thy ===== *)
theory Spec2Isabelle
  imports Mcp_Props Doctor_Props Cron_Command Workspace_Props Lark_Props Lark_Channel Weixin_Channel Terminal_Props Terminal_Simple Provider_Props Memory_Props Commands Delegation_Props Graph_Props Agent_Props Compressors Cron_Tool Recipe_Props Session_Props Skill_Props File_Props Turn_Props App_Props
begin

text \<open>
  A verification library for the Go module \<open>blades\<close>, a framework for language-model agents, and for
  the command line program built on it. File names are relative to \<open>src/\<close>.

  \<^bold>\<open>The program.\<close> A caller hands a message to a \<open>Runner\<close> (\<open>runner.go\<close>), which runs an \<open>Agent\<close>
  (\<open>agent.go\<close>) in a session (\<open>session.go\<close>). The agent prepares its instruction and tools, asks a model
  provider for an answer, executes the tools the answer calls and goes round again until the model
  answers without tools, a tool asks to leave, or the iterations are used up. Results are iterators
  of messages. Agents compose: package \<open>flow\<close> runs them in sequence, in a loop, in parallel or behind a
  router, package \<open>recipe\<close> builds them from YAML, and package \<open>skills\<close> adds tools that read and run the
  files of a skill. Package \<open>graph\<close> is a separate engine that runs the nodes of a directed graph with
  one goroutine each, with checkpoints. The command line program (\<open>cmd/blades\<close>) loads a configuration,
  builds its agent from a recipe or a default, keeps sessions on disk, gives the agent file, shell and
  scheduling tools, and runs turns for its channels and its scheduled jobs.

  \<^bold>\<open>How Go is modelled.\<close> \<open>Go_Prelude\<close> holds Go maps as association lists (\<open>gomap\<close>), the sum type
  \<open>error + 'a\<close> with \<open>ebind\<close>, \<open>echeck\<close> and \<open>map_err\<close> for \<open>(value, error)\<close> results, and the collections of
  simplification rules. \<open>Go_Strings\<close>, \<open>Go_Text\<close> and \<open>Go_Path\<close> are the functions of \<open>strings\<close>, \<open>strconv\<close>,
  \<open>unicode/utf8\<close>, \<open>path\<close> and \<open>path/filepath\<close> the sources call; a Go string is the list of its bytes.
  \<open>Generators\<close> models \<open>iter.Seq2\<close>: a generator acts on a shared world, yields events and goes on with
  the world its consumer leaves, so the order of effects between producer and consumer is kept. A
  Go \<open>int\<close>, \<open>int64\<close> or \<open>time.Duration\<close> is a \<open>64 word\<close> where it can wrap around (cron intervals, the
  timeouts of the tools) and an \<open>int\<close> or \<open>nat\<close> where it counts things in memory. Code outside the
  repository (the file system, the shell, JSON and YAML codecs, regular expressions, clocks, the
  template engine, model providers) is a field of an environment record (\<open>ext\<close>, \<open>engine\<close>,
  \<open>recipe_env\<close>, \<open>session_env\<close>, \<open>skill_env\<close>, \<open>file_env\<close>, \<open>turn_env\<close> and the others), and what a property
  needs of it is a hypothesis of the property.

  \<^bold>\<open>Graphs\<close> (package \<open>graph\<close>). \<open>Graph_Build\<close>: the builder and \<open>Compile\<close> of \<open>graph.go\<close>. \<open>Graph_Run\<close>: \<open>Task\<close>
  and \<open>Executor\<close> of \<open>task.go\<close>, \<open>executor.go\<close>, \<open>checkpoint.go\<close> as the step relation of the scheduler, one
  step per critical section, so that every interleaving of the goroutines is a path. \<open>Graph_Exec\<close> is an
  executable schedule of the same steps. \<open>Graph_Compile\<close> relates the checks of \<open>Compile\<close> to the structural
  specification \<open>compilable\<close>, \<open>Graph_Counts\<close> and \<open>Graph_Inv\<close> hold the invariant of the scheduler,
  \<open>Graph_Live\<close> and \<open>Graph_Term\<close> progress and the measure of termination, \<open>Graph_Outcome\<close> the causes of
  errors; \<open>Graph_Props\<close> states the properties.

  \<^bold>\<open>Agents.\<close> \<open>Messages\<close> (\<open>message.go\<close>, \<open>mime.go\<close>), \<open>Agents\<close> (\<open>agent.go\<close>, \<open>session.go\<close>, \<open>core.go\<close>,
  \<open>context.go\<close>, \<open>middleware.go\<close>, \<open>runner.go\<close>, \<open>tool.go\<close>), \<open>Flows\<close> (\<open>flow/\<close>, \<open>middleware/\<close>) and \<open>Streams\<close>
  (\<open>stream/stream.go\<close>). Sessions and the shared \<open>committed\<close> flags live in a store inside the world and are
  referred to by number, as the code refers to them by pointer. Parallel agents are the relation
  \<open>parallel_run\<close>. \<open>Agent_Laws\<close> is the contract of the \<open>Agent\<close> interface as a locale and its
  interpretations, \<open>Agent_Session\<close> what the loop does to sessions; \<open>Agent_Props\<close> states the properties.
  \<open>Tool_Base\<close> makes tools from handlers (\<open>tools/\<close>) and searches memories (\<open>memory/\<close>). \<open>Compressors\<close> holds
  the window and the rolling summary (\<open>context/\<close>, \<open>internal/counter\<close>); the summary's loop, which need not
  end, is the partial function \<open>compress_loop\<close>, and its property states when it returns.

  \<^bold>\<open>Recipes\<close> (package \<open>recipe\<close>). \<open>Recipe\<close>: specifications, validation, parameters and the two template
  renderers. The one that preserves unknown keys runs the engine again after each missing key, at most
  64 times as in the code, hence the bound of 63 keys in its property. \<open>Recipe_Build\<close>: the registries,
  prompt injection and the builder. \<open>Recipe_Laws\<close> reads both declaratively; \<open>Recipe_Props\<close> states that
  validation and building agree with the readings.

  \<^bold>\<open>Delegation.\<close> \<open>Delegation\<close>: the handoff tool and the routing agent (\<open>internal/handoff\<close>, \<open>flow/routing.go\<close>),
  the todo and task tools and the deep agent (\<open>internal/deep\<close>, \<open>flow/deep.go\<close>), with their fixed texts in
  \<open>Delegation_Prompts\<close>; \<open>Delegation_Props\<close> follows a handoff from the model's call to the run of its target.

  \<^bold>\<open>Model providers.\<close> \<open>Provider_Base\<close>: what an agent relies on in a provider, the locale \<open>model_provider\<close>.
  \<open>OpenAI_Chat\<close>, \<open>Claude_Model\<close> and \<open>Gemini_Model\<close> (\<open>contrib/\<close>): the adapters that turn a request into the
  types of a service and its answers and streams into messages, each with its interpretation.
  \<open>Provider_Props\<close>: calls and results in requests, and agents on the adapters.
  \<open>Mcp_Client\<close> (\<open>contrib/mcp\<close>): the client of MCP servers and the resolver of their tools; \<open>Mcp_Run\<close>: its
  connection as a step relation, with callers, the goroutine that connects again and the server;
  \<open>Mcp_Props\<close> its properties.

  \<^bold>\<open>Skills\<close> (package \<open>skills\<close>). \<open>Skills\<close>: metadata, front matter, loading and the prompt; \<open>Skill_Tools\<close>: the
  four tools, with the materialised workspace and the runner of scripts; \<open>Skill_Props\<close> the properties.

  \<^bold>\<open>The command line program\<close> (\<open>cmd/blades/internal\<close>). \<open>Cron\<close> (\<open>cron/\<close>) is the scheduler: its operations, its
  store file and the ticks of its loop, whose jobs run interleaved; \<open>Cron_Laws\<close> and \<open>Cron_Props\<close> relate it
  to an abstract table of jobs; \<open>Cron_Tool\<close> (\<open>tools/cron.go\<close>) is the tool on it. \<open>Session_Store\<close>
  (\<open>session/\<close>) is the session manager and its files, \<open>File_Tools\<close> (\<open>tools/\<close>) the file and shell tools,
  which read at most 262144 bytes of a file as the code does, \<open>Turns\<close> (\<open>app/runtime.go\<close>) one turn of a
  conversation, \<open>App_Config\<close> (\<open>config/\<close>, \<open>model/\<close>) configuration and model names, \<open>App_Runner\<close>
  (\<open>app/runner.go\<close>) the construction of the agent. \<open>Workspace\<close> (\<open>workspace/\<close>, \<open>app/bootstrap.go\<close>,
  \<open>cmd/init.go\<close>) are the program's directories, their initialisation from templates and the assembly of its parts. \<open>Doctor\<close>
  (\<open>app/doctor.go\<close>) are the health checks over all of these, \<open>Cron_Command\<close> (\<open>cmd/cron.go\<close>, \<open>cmd/cron_heartbeat.go\<close>,
  \<open>cmd/command_helpers.go\<close>) the commands on the scheduler. \<open>Memory_Store\<close> (\<open>memory/store.go\<close>) is the
  long-term memory, \<open>Commands\<close> (\<open>command/\<close>) the slash commands. \<open>Terminal\<close> (\<open>channel/cli\<close>) is the model of the
  full-screen terminal with its view and updates, \<open>Terminal_Run\<close> the program around it as a step relation:
  keys, the commands that wait for a turn's channel, and the handlers that write to it, whose channels
  hold 512 messages as in the code. \<open>Terminal_Simple\<close> is the line-based terminal. \<open>Lark_Card\<close> is the writer that
  streams a reply into a Lark card, one step per critical section and per answer of the service;
  \<open>Lark_Channel\<close> and \<open>Weixin_Channel\<close> (\<open>channel/lark\<close>, \<open>channel/weixin\<close>) are the channels of these chat services:
  repeated messages, sessions, commands, replies and notifications. The theories ending in
  \<open>_Props\<close> state their properties.

  \<^bold>\<open>Interfaces.\<close> A locale states what one part relies on in another, and is interpreted on the model of
  the code: \<open>agent_interface\<close> (an error ends a run) on agents, sequential and loop agents and, with
  \<open>routed_agents\<close>, on routing agents; \<open>token_counter\<close> on the counter the compressors use; \<open>registry\<close> on the
  registries of recipes, of the program and of sub-agents; \<open>durable_store\<close> on the file of the scheduler;
  \<open>model_provider\<close> on the three adapters;
  \<open>transition_system\<close>, with its rule of invariants, on the histories and runs of graphs and on the
  runs of the terminal, of the card writer and of the MCP client.

  \<^bold>\<open>Bounds.\<close> Loops over data are structural or have a termination proof. The loops of agents and loop
  agents count down the iterations the configuration allows, as the code does, so nothing runs out of
  fuel that the code would not. The scheduler of graphs is a relation without fuel, and its termination
  is a property.

  \<^bold>\<open>Not modelled.\<close> The SDK clients the adapters call, and under \<open>contrib/\<close> the adapters for
  speech and images and the tracing middleware, which only wrap third-party libraries.
  The SDKs of the chat services with their connections. The other cobra commands, the logger and the wiring of
  \<open>BuildRuntime\<close> only connect the parts above to files and output. JSON schemas of tools are data for
  the model provider and are left out. Goroutine leaks, memory use and wall-clock time have no place
  in the model.
\<close>

end
